(* ===== verification/IM_Prelude.thy ===== *)
theory IM_Prelude
  imports Main "HOL-Library.State_Monad" "HOL-Library.Finite_Map" "HOL-Library.Multiset"
begin

text \<open>
  What the component theories share: the state monad's two accessors and its
  weakest-precondition calculus, loops over Go slices, Go's decimal conversions of the
  standard library's strconv package, and the big-endian integers of encoding/binary.
  A Go string and a Go byte slice are both a \<^typ>\<open>string\<close>: an Isabelle character is one byte.
\<close>

named_theorems wp_simps \<open>weakest preconditions of the primitive programs\<close>
named_theorems run_simps \<open>what the primitive programs return and do to the state\<close>

section \<open>Programs: the state monad\<close>

abbreviation ret :: "'a \<Rightarrow> ('s, 'a) state" where
  "ret \<equiv> State_Monad.return"

definition gets :: "('s \<Rightarrow> 'a) \<Rightarrow> ('s, 'a) state" where
  "gets f = State (\<lambda>s. (f s, s))"

definition modify :: "('s \<Rightarrow> 's) \<Rightarrow> ('s, unit) state" where
  "modify f = State (\<lambda>s. ((), f s))"

abbreviation skip :: "('s, unit) state" where
  "skip \<equiv> State_Monad.return ()"

definition whenM :: "bool \<Rightarrow> ('s, unit) state \<Rightarrow> ('s, unit) state" where
  "whenM b m = (if b then m else skip)"

lemma run_gets [simp, run_simps]: "run_state (gets f) s = (f s, s)"
  by (simp add: gets_def)

lemma run_modify [simp, run_simps]: "run_state (modify f) s = ((), f s)"
  by (simp add: modify_def)

lemma run_whenM [simp, run_simps]: "run_state (whenM b m) s = (if b then run_state m s else ((), s))"
  by (simp add: whenM_def)

text \<open>A Go \<open>for range\<close> loop whose body neither breaks nor returns.\<close>

fun forM :: "'a list \<Rightarrow> ('a \<Rightarrow> ('s, unit) state) \<Rightarrow> ('s, unit) state" where
  "forM [] f = skip"
| "forM (x # xs) f = do { f x; forM xs f }"

text \<open>A loop that stops as soon as its body reports a value: an early return from inside.\<close>

fun forUntil :: "'a list \<Rightarrow> ('a \<Rightarrow> ('s, 'e option) state) \<Rightarrow> ('s, 'e option) state" where
  "forUntil [] f = ret None"
| "forUntil (x # xs) f = do { r \<leftarrow> f x; case r of Some e \<Rightarrow> ret (Some e) | None \<Rightarrow> forUntil xs f }"

lemma forM_map: "forM (map g xs) f = forM xs (\<lambda>x. f (g x))"
  by (induction xs) auto

lemma forM_append: "forM (xs @ ys) f = do { forM xs f; forM ys f }"
  by (induction xs) auto

section \<open>Weakest preconditions\<close>

definition wp :: "('s, 'a) state \<Rightarrow> ('a \<Rightarrow> 's \<Rightarrow> bool) \<Rightarrow> 's \<Rightarrow> bool" where
  "wp m Q s = (case run_state m s of (a, s') \<Rightarrow> Q a s')"

text \<open>
  The equations leave the state out, so that they also rewrite under a bind, where the
  state is not yet an argument.
\<close>

lemma wp_return [wp_simps]: "wp (ret a) Q = Q a"
  by (simp add: wp_def fun_eq_iff)

lemma wp_bind [wp_simps]: "wp (State_Monad.bind m f) Q = wp m (\<lambda>a. wp (f a) Q)"
  by (simp add: wp_def fun_eq_iff split: prod.splits)

lemma wp_gets [wp_simps]: "wp (gets f) Q = (\<lambda>s. Q (f s) s)"
  by (simp add: wp_def fun_eq_iff)

lemma wp_modify [wp_simps]: "wp (modify f) Q = (\<lambda>s. Q () (f s))"
  by (simp add: wp_def fun_eq_iff)

lemma wp_whenM [wp_simps]: "wp (whenM b m) Q = (if b then wp m Q else Q ())"
  by (simp add: wp_def fun_eq_iff)

lemma wp_if [wp_simps]: "wp (if b then m else n) Q = (if b then wp m Q else wp n Q)"
  by simp

lemma wp_option [wp_simps]:
  "wp (case x of None \<Rightarrow> m | Some y \<Rightarrow> f y) Q =
     (case x of None \<Rightarrow> wp m Q | Some y \<Rightarrow> wp (f y) Q)"
  by (cases x) auto

lemma wp_prod [wp_simps]:
  "wp (case x of (a, b) \<Rightarrow> f a b) Q = (case x of (a, b) \<Rightarrow> wp (f a b) Q)"
  by (cases x) auto

lemma wp_let [wp_simps]: "wp (let x = a in f x) Q = (let x = a in wp (f x) Q)"
  by simp

lemma wp_mono: "wp m Q s \<Longrightarrow> (\<And>a t. Q a t \<Longrightarrow> R a t) \<Longrightarrow> wp m R s"
  by (auto simp: wp_def split: prod.splits)

lemma wp_conj: "wp m (\<lambda>a t. Q a t \<and> R a t) s \<longleftrightarrow> wp m Q s \<and> wp m R s"
  by (auto simp: wp_def split: prod.splits)

lemma wp_runD: "wp m Q s \<Longrightarrow> run_state m s = (a, t) \<Longrightarrow> Q a t"
  by (simp add: wp_def)

lemma wp_snd: "wp m (\<lambda>_ t. Q t) s \<longleftrightarrow> Q (snd (run_state m s))"
  by (simp add: wp_def split: prod.splits)

text \<open>The loop rules: an invariant that the body keeps for every element.\<close>

lemma wp_forM_inv:
  assumes "I s" and "\<And>x t. x \<in> set xs \<Longrightarrow> I t \<Longrightarrow> wp (f x) (\<lambda>_ t'. I t') t"
  shows "wp (forM xs f) (\<lambda>_ t. I t) s"
  using assms
proof (induction xs arbitrary: s)
  case Nil
  then show ?case by (simp add: wp_simps)
next
  case (Cons x xs)
  have "wp (f x) (\<lambda>_ t. I t) s" using Cons.prems by simp
  then have "wp (f x) (\<lambda>_. wp (forM xs f) (\<lambda>_ t. I t)) s"
    by (rule wp_mono) (rule Cons.IH, simp_all add: Cons.prems(2))
  then show ?case by (simp add: wp_simps)
qed

lemma wp_forUntil_inv:
  assumes "I s" and "\<And>x t. x \<in> set xs \<Longrightarrow> I t \<Longrightarrow> wp (f x) (\<lambda>_ t'. I t') t"
  shows "wp (forUntil xs f) (\<lambda>_ t. I t) s"
  using assms
proof (induction xs arbitrary: s)
  case Nil
  then show ?case by (simp add: wp_simps)
next
  case (Cons x xs)
  have "wp (f x) (\<lambda>_ t. I t) s" using Cons.prems by simp
  then show ?case
    unfolding forUntil.simps wp_bind
    by (rule wp_mono) (auto simp: wp_simps Cons.prems(2) intro: Cons.IH split: option.splits)
qed

section \<open>Go maps\<close>

text \<open>Reading a Go map at an absent key gives the zero value \<open>z\<close>.\<close>

definition mapGet :: "'v \<Rightarrow> ('k, 'v) fmap \<Rightarrow> 'k \<Rightarrow> 'v" where
  "mapGet z m k = (case fmlookup m k of None \<Rightarrow> z | Some v \<Rightarrow> v)"

definition has :: "('k, 'v) fmap \<Rightarrow> 'k \<Rightarrow> bool" where
  "has m k \<longleftrightarrow> fmlookup m k \<noteq> None"

lemma has_fmupd [simp]: "has (fmupd k v m) j \<longleftrightarrow> j = k \<or> has m j"
  by (simp add: has_def)

lemma has_fmdrop [simp]: "has (fmdrop k m) j \<longleftrightarrow> j \<noteq> k \<and> has m j"
  by (simp add: has_def)

lemma has_fmempty [simp]: "\<not> has fmempty k"
  by (simp add: has_def)

lemma has_fmdom: "has m k \<longleftrightarrow> k |\<in>| fmdom m"
  by (metis fmdom_notD fmdom_notI has_def)

lemma mapGet_fmupd [simp]: "mapGet z (fmupd k v m) j = (if j = k then v else mapGet z m j)"
  by (simp add: mapGet_def)

section \<open>Splitting a string at a character\<close>

text \<open>\<open>strings.Split\<close> with a separator of one character; never empty.\<close>

fun splitOn :: "char \<Rightarrow> string \<Rightarrow> string list" where
  "splitOn sep [] = [[]]"
| "splitOn sep (x # xs) =
     (if x = sep then [] # splitOn sep xs
      else case splitOn sep xs of [] \<Rightarrow> [[x]] | y # ys \<Rightarrow> (x # y) # ys)"

lemma splitOn_append:
  "sep \<notin> set xs \<Longrightarrow> splitOn sep (xs @ sep # ys) = xs # splitOn sep ys"
  by (induction xs) auto

lemma splitOn_none: "sep \<notin> set xs \<Longrightarrow> splitOn sep xs = [xs]"
  by (induction xs) auto

section \<open>Decimal conversion: strconv.FormatInt, Itoa and ParseInt\<close>

definition digit_char :: "nat \<Rightarrow> char" where
  "digit_char d = char_of (48 + d)"

fun nat_digits :: "nat \<Rightarrow> string" where
  "nat_digits n = (if n < 10 then [digit_char n]
                   else nat_digits (n div 10) @ [digit_char (n mod 10)])"

declare nat_digits.simps [simp del]

definition itoa :: "int \<Rightarrow> string" where
  "itoa i = (if i < 0 then CHR ''-'' # nat_digits (nat (- i)) else nat_digits (nat i))"

definition is_digit :: "char \<Rightarrow> bool" where
  "is_digit c \<longleftrightarrow> 48 \<le> (of_char c :: nat) \<and> (of_char c :: nat) \<le> 57"

definition digits_val :: "string \<Rightarrow> nat" where
  "digits_val ds = foldl (\<lambda>a c. a * 10 + (of_char c - 48)) 0 ds"

text \<open>
  \<open>ParseInt s\<close> is \<open>strconv.ParseInt(s, 10, 64)\<close>: the value and whether the error is nil. On a
  syntax error the value is 0, out of range it is the nearest int64.
\<close>

definition ParseInt :: "string \<Rightarrow> int \<times> bool" where
  "ParseInt s =
     (let neg = (s \<noteq> [] \<and> hd s = CHR ''-'');
          ds = (if s \<noteq> [] \<and> (hd s = CHR ''-'' \<or> hd s = CHR ''+'') then tl s else s);
          n = int (digits_val ds)
      in if ds = [] \<or> \<not> list_all is_digit ds then (0, False)
         else if neg then (if n > 2 ^ 63 then (- (2 ^ 63), False) else (- n, True))
         else if n \<ge> 2 ^ 63 then (2 ^ 63 - 1, False) else (n, True))"

definition int64 :: "int \<Rightarrow> bool" where
  "int64 i \<longleftrightarrow> - (2 ^ 63) \<le> i \<and> i < 2 ^ 63"

text \<open>Two's complement reading of the low 64 bits: what int64 arithmetic returns.\<close>

definition wrap64 :: "int \<Rightarrow> int" where
  "wrap64 i = (i + 2 ^ 63) mod 2 ^ 64 - 2 ^ 63"

lemma wrap64_id [simp]: "int64 i \<Longrightarrow> wrap64 i = i"
  by (simp add: int64_def wrap64_def)

lemma of_digit_char: "d < 10 \<Longrightarrow> of_char (digit_char d) = (48 + d :: nat)"
  by (simp add: digit_char_def)

lemma is_digit_digit_char: "d < 10 \<Longrightarrow> is_digit (digit_char d)"
  by (simp add: is_digit_def of_digit_char)

lemma nat_digits_not_Nil [simp]: "nat_digits n \<noteq> []"
  by (subst nat_digits.simps) simp

lemma nat_digits_all_digits: "list_all is_digit (nat_digits n)"
proof (induction n rule: nat_digits.induct)
  case (1 n)
  then show ?case
    by (subst nat_digits.simps) (auto simp: is_digit_digit_char)
qed

lemma digits_val_snoc: "digits_val (ds @ [c]) = digits_val ds * 10 + (of_char c - 48)"
  by (simp add: digits_val_def)

lemma digits_val_nat_digits: "digits_val (nat_digits n) = n"
proof (induction n rule: nat_digits.induct)
  case (1 n)
  show ?case
  proof (cases "n < 10")
    case True
    then show ?thesis by (subst nat_digits.simps) (simp add: digits_val_def of_digit_char)
  next
    case False
    then show ?thesis
      by (subst nat_digits.simps) (simp add: digits_val_snoc "1" of_digit_char)
  qed
qed

lemma hd_nat_digits: "hd (nat_digits n) \<noteq> CHR ''-'' \<and> hd (nat_digits n) \<noteq> CHR ''+''"
proof -
  have "is_digit (hd (nat_digits n))"
    using nat_digits_all_digits[of n] by (cases "nat_digits n") auto
  then show ?thesis by (auto simp: is_digit_def)
qed

lemma ParseInt_itoa:
  assumes "int64 i"
  shows "ParseInt (itoa i) = (i, True)"
  using assms hd_nat_digits[of "nat i"]
  by (auto simp: ParseInt_def itoa_def int64_def Let_def nat_digits_all_digits digits_val_nat_digits)

lemma itoa_inj: "itoa i = itoa j \<Longrightarrow> i = j"
proof -
  assume eq: "itoa i = itoa j"
  have val: "nat_digits m = nat_digits n \<Longrightarrow> m = n" for m n
    by (metis digits_val_nat_digits)
  have neq: "nat_digits n \<noteq> CHR ''-'' # ds" for n ds
    using hd_nat_digits[of n] by auto
  show ?thesis
    using eq neq neq[symmetric] by (auto simp: itoa_def split: if_splits dest!: val)
qed

lemma itoa_eq_iff [simp]: "itoa i = itoa j \<longleftrightarrow> i = j"
  using itoa_inj by blast

section \<open>Big-endian integers: encoding/binary\<close>

fun be_bytes :: "nat \<Rightarrow> nat \<Rightarrow> string" where
  "be_bytes 0 n = []"
| "be_bytes (Suc k) n = be_bytes k (n div 256) @ [char_of (n mod 256)]"

definition be_val :: "string \<Rightarrow> nat" where
  "be_val s = foldl (\<lambda>a c. a * 256 + of_char c) 0 s"

definition PutUint32 :: "int \<Rightarrow> string" where
  "PutUint32 i = be_bytes 4 (nat (i mod 2 ^ 32))"

definition PutUint64 :: "int \<Rightarrow> string" where
  "PutUint64 i = be_bytes 8 (nat (i mod 2 ^ 64))"

definition Uint32 :: "string \<Rightarrow> int" where
  "Uint32 s = int (be_val (take 4 s))"

definition Uint64 :: "string \<Rightarrow> int" where
  "Uint64 s = int (be_val (take 8 s))"

lemma length_be_bytes [simp]: "length (be_bytes k n) = k"
  by (induction k arbitrary: n) auto

lemma length_PutUint32 [simp]: "length (PutUint32 i) = 4"
  by (simp add: PutUint32_def)

lemma length_PutUint64 [simp]: "length (PutUint64 i) = 8"
  by (simp add: PutUint64_def)

lemma be_val_snoc: "be_val (s @ [c]) = be_val s * 256 + of_char c"
  by (simp add: be_val_def)

lemma be_val_be_bytes: "be_val (be_bytes k n) = n mod 256 ^ k"
proof (induction k arbitrary: n)
  case 0
  then show ?case by (simp add: be_val_def)
next
  case (Suc k)
  have "be_val (be_bytes (Suc k) n) = (n div 256 mod 256 ^ k) * 256 + n mod 256"
    by (simp add: be_val_snoc Suc)
  also have "\<dots> = n mod 256 ^ Suc k"
    by (simp add: mod_mult2_eq)
  finally show ?case .
qed

lemma Uint32_PutUint32: "Uint32 (PutUint32 i @ s) = i mod 2 ^ 32"
proof -
  have "nat (i mod 2 ^ 32) < 2 ^ 32"
    by (simp add: nat_less_iff)
  then show ?thesis
    by (simp add: Uint32_def PutUint32_def be_val_be_bytes)
qed

lemma Uint64_PutUint64: "Uint64 (PutUint64 i @ s) = i mod 2 ^ 64"
proof -
  have "nat (i mod 2 ^ 64) < 2 ^ 64"
    by (simp add: nat_less_iff)
  then show ?thesis
    by (simp add: Uint64_def PutUint64_def be_val_be_bytes)
qed

end
