(* ===== verification/Wire_Ids.thy ===== *)
theory Wire_Ids
  imports Main
begin

text \<open>
  The message ids and error codes that the modelled handlers use, with the wire values of
  the generated enumerations (common-library/proto/msg_id and msg_err_code). As in the Go
  code they are integer constants: a frame's header holds the number.
\<close>

named_theorems wire_ids \<open>the wire values of message ids\<close>
named_theorems err_codes \<open>the wire values of error codes\<close>

section \<open>Message ids\<close>

definition NetMsgId_S2CErrorCode :: int where [wire_ids]: "NetMsgId_S2CErrorCode = 60002"
definition NetMsgId_C2SRegisterAccount :: int where [wire_ids]: "NetMsgId_C2SRegisterAccount = 65536"
definition NetMsgId_S2CRegisterAccount :: int where [wire_ids]: "NetMsgId_S2CRegisterAccount = 65537"
definition NetMsgId_C2SLogin :: int where [wire_ids]: "NetMsgId_C2SLogin = 65538"
definition NetMsgId_S2CLogin :: int where [wire_ids]: "NetMsgId_S2CLogin = 65539"
definition NetMsgId_C2SLogout :: int where [wire_ids]: "NetMsgId_C2SLogout = 65542"
definition NetMsgId_S2CLogout :: int where [wire_ids]: "NetMsgId_S2CLogout = 65543"
definition NetMsgId_C2SHeartbeat :: int where [wire_ids]: "NetMsgId_C2SHeartbeat = 65544"
definition NetMsgId_S2CHeartbeat :: int where [wire_ids]: "NetMsgId_S2CHeartbeat = 65545"
definition NetMsgId_C2SRename :: int where [wire_ids]: "NetMsgId_C2SRename = 65548"
definition NetMsgId_S2CRename :: int where [wire_ids]: "NetMsgId_S2CRename = 65549"
definition NetMsgId_C2SDeviceInfo :: int where [wire_ids]: "NetMsgId_C2SDeviceInfo = 65550"
definition NetMsgId_S2CDeviceInfo :: int where [wire_ids]: "NetMsgId_S2CDeviceInfo = 65551"
definition NetMsgId_C2SSetUserName :: int where [wire_ids]: "NetMsgId_C2SSetUserName = 65552"
definition NetMsgId_S2CSetUserName :: int where [wire_ids]: "NetMsgId_S2CSetUserName = 65553"
definition NetMsgId_C2SSetHeadPortrait :: int where [wire_ids]: "NetMsgId_C2SSetHeadPortrait = 65554"
definition NetMsgId_S2CSetHeadPortrait :: int where [wire_ids]: "NetMsgId_S2CSetHeadPortrait = 65555"
definition NetMsgId_C2SChangePassword :: int where [wire_ids]: "NetMsgId_C2SChangePassword = 65556"
definition NetMsgId_S2CChangePassword :: int where [wire_ids]: "NetMsgId_S2CChangePassword = 65557"
definition NetMsgId_C2SForgetPassword :: int where [wire_ids]: "NetMsgId_C2SForgetPassword = 65558"
definition NetMsgId_S2CForgetPassword :: int where [wire_ids]: "NetMsgId_S2CForgetPassword = 65559"
definition NetMsgId_C2SGetVerificationCode :: int where [wire_ids]: "NetMsgId_C2SGetVerificationCode = 65560"
definition NetMsgId_S2CGetVerificationCode :: int where [wire_ids]: "NetMsgId_S2CGetVerificationCode = 65561"
definition NetMsgId_C2SUsernameLogin :: int where [wire_ids]: "NetMsgId_C2SUsernameLogin = 65562"
definition NetMsgId_C2SLastMsgTimeStamp :: int where [wire_ids]: "NetMsgId_C2SLastMsgTimeStamp = 65600"
definition NetMsgId_C2SPrivateChat :: int where [wire_ids]: "NetMsgId_C2SPrivateChat = 65604"
definition NetMsgId_S2CPrivateChat :: int where [wire_ids]: "NetMsgId_S2CPrivateChat = 65605"
definition NetMsgId_S2CRecvPrivateChat :: int where [wire_ids]: "NetMsgId_S2CRecvPrivateChat = 65606"
definition NetMsgId_MQPrivateChat :: int where [wire_ids]: "NetMsgId_MQPrivateChat = 65607"
definition NetMsgId_C2SGetOfflinePrivateChatMsg :: int where [wire_ids]: "NetMsgId_C2SGetOfflinePrivateChatMsg = 65608"
definition NetMsgId_S2CGetOfflinePrivateChatMsg :: int where [wire_ids]: "NetMsgId_S2CGetOfflinePrivateChatMsg = 65609"
definition NetMsgId_C2SPicWillBeSend :: int where [wire_ids]: "NetMsgId_C2SPicWillBeSend = 65610"
definition NetMsgId_S2CPicWillBeSend :: int where [wire_ids]: "NetMsgId_S2CPicWillBeSend = 65611"
definition NetMsgId_S2CLoginSomewhereElse :: int where [wire_ids]: "NetMsgId_S2CLoginSomewhereElse = 65612"
definition NetMsgId_S2COtherTerminalPrivateChat :: int where [wire_ids]: "NetMsgId_S2COtherTerminalPrivateChat = 65613"
definition NetMsgId_C2SWithdrawMessage :: int where [wire_ids]: "NetMsgId_C2SWithdrawMessage = 65614"
definition NetMsgId_S2CWithdrawMessage :: int where [wire_ids]: "NetMsgId_S2CWithdrawMessage = 65616"
definition NetMsgId_C2SAddFriend :: int where [wire_ids]: "NetMsgId_C2SAddFriend = 65650"
definition NetMsgId_MQAddFriend :: int where [wire_ids]: "NetMsgId_MQAddFriend = 65651"
definition NetMsgId_S2CAddFriend :: int where [wire_ids]: "NetMsgId_S2CAddFriend = 65652"
definition NetMsgId_S2CRecvAddFriend :: int where [wire_ids]: "NetMsgId_S2CRecvAddFriend = 65653"
definition NetMsgId_C2SAgreeBecomeFriend :: int where [wire_ids]: "NetMsgId_C2SAgreeBecomeFriend = 65660"
definition NetMsgId_MQAgreeBecomeFriend :: int where [wire_ids]: "NetMsgId_MQAgreeBecomeFriend = 65661"
definition NetMsgId_S2CAgreeBecomeFriend :: int where [wire_ids]: "NetMsgId_S2CAgreeBecomeFriend = 65662"
definition NetMsgId_S2CRecvAgreeBecomeFriend :: int where [wire_ids]: "NetMsgId_S2CRecvAgreeBecomeFriend = 65663"
definition NetMsgId_S2COtherTerminalAgreeBecomeFriend :: int where [wire_ids]: "NetMsgId_S2COtherTerminalAgreeBecomeFriend = 65664"
definition NetMsgId_C2SReadFriendReq :: int where [wire_ids]: "NetMsgId_C2SReadFriendReq = 65670"
definition NetMsgId_S2CReadFriendReq :: int where [wire_ids]: "NetMsgId_S2CReadFriendReq = 65672"
definition NetMsgId_C2SDeleteFriend :: int where [wire_ids]: "NetMsgId_C2SDeleteFriend = 65680"
definition NetMsgId_MQDeleteFriend :: int where [wire_ids]: "NetMsgId_MQDeleteFriend = 65681"
definition NetMsgId_S2CDeleteFriend :: int where [wire_ids]: "NetMsgId_S2CDeleteFriend = 65682"
definition NetMsgId_S2CRecvDeleteFriend :: int where [wire_ids]: "NetMsgId_S2CRecvDeleteFriend = 65683"
definition NetMsgId_C2SConfirmDeleteFriend :: int where [wire_ids]: "NetMsgId_C2SConfirmDeleteFriend = 65690"
definition NetMsgId_S2CConfirmDeleteFriend :: int where [wire_ids]: "NetMsgId_S2CConfirmDeleteFriend = 65691"
definition NetMsgId_C2SCreateChatGroup :: int where [wire_ids]: "NetMsgId_C2SCreateChatGroup = 65700"
definition NetMsgId_MQCreateChatGroup :: int where [wire_ids]: "NetMsgId_MQCreateChatGroup = 65701"
definition NetMsgId_S2CCreateChatGroup :: int where [wire_ids]: "NetMsgId_S2CCreateChatGroup = 65702"
definition NetMsgId_S2CRecvCreateChatGroup :: int where [wire_ids]: "NetMsgId_S2CRecvCreateChatGroup = 65703"
definition NetMsgId_C2SReqJoinChatGroup :: int where [wire_ids]: "NetMsgId_C2SReqJoinChatGroup = 65710"
definition NetMsgId_MQReqJoinChatGroup :: int where [wire_ids]: "NetMsgId_MQReqJoinChatGroup = 65712"
definition NetMsgId_S2CSomeOneReqJoinChatGroup :: int where [wire_ids]: "NetMsgId_S2CSomeOneReqJoinChatGroup = 65713"
definition NetMsgId_C2SAgreeSomeOneReqJoinChatGroup :: int where [wire_ids]: "NetMsgId_C2SAgreeSomeOneReqJoinChatGroup = 65720"
definition NetMsgId_MQAgreeSomeOneReqJoinChatGroup :: int where [wire_ids]: "NetMsgId_MQAgreeSomeOneReqJoinChatGroup = 65721"
definition NetMsgId_MQManagerAgreeSomeOneReqJoinChatGroup :: int where [wire_ids]: "NetMsgId_MQManagerAgreeSomeOneReqJoinChatGroup = 65722"
definition NetMsgId_S2CManagerAgreeSomeOneReqJoinChatGroup :: int where [wire_ids]: "NetMsgId_S2CManagerAgreeSomeOneReqJoinChatGroup = 65723"
definition NetMsgId_S2CManagerAgreeJoinChatGroup :: int where [wire_ids]: "NetMsgId_S2CManagerAgreeJoinChatGroup = 65724"
definition NetMsgId_S2CRecvManagerAgreeSomeOneReqJoinChatGroup :: int where [wire_ids]: "NetMsgId_S2CRecvManagerAgreeSomeOneReqJoinChatGroup = 65725"
definition NetMsgId_C2SRefuseSomeOneReqJoinChatGroup :: int where [wire_ids]: "NetMsgId_C2SRefuseSomeOneReqJoinChatGroup = 65730"
definition NetMsgId_MQRefuseSomeOneReqJoinChatGroup :: int where [wire_ids]: "NetMsgId_MQRefuseSomeOneReqJoinChatGroup = 65731"
definition NetMsgId_S2CManagerRefuseJoinChatGroup :: int where [wire_ids]: "NetMsgId_S2CManagerRefuseJoinChatGroup = 65732"
definition NetMsgId_C2SChatGroupInfo :: int where [wire_ids]: "NetMsgId_C2SChatGroupInfo = 65740"
definition NetMsgId_S2CChatGroupInfo :: int where [wire_ids]: "NetMsgId_S2CChatGroupInfo = 65741"
definition NetMsgId_C2SInviteJoinChatGroup :: int where [wire_ids]: "NetMsgId_C2SInviteJoinChatGroup = 65750"
definition NetMsgId_MQInviteJoinChatGroup :: int where [wire_ids]: "NetMsgId_MQInviteJoinChatGroup = 65751"
definition NetMsgId_S2CInviteYouJoinChatGroup :: int where [wire_ids]: "NetMsgId_S2CInviteYouJoinChatGroup = 65752"
definition NetMsgId_S2CRecvInviteJoinChatGroup :: int where [wire_ids]: "NetMsgId_S2CRecvInviteJoinChatGroup = 65753"
definition NetMsgId_C2SCancelChatGroup :: int where [wire_ids]: "NetMsgId_C2SCancelChatGroup = 65760"
definition NetMsgId_MQCancelChatGroup :: int where [wire_ids]: "NetMsgId_MQCancelChatGroup = 65761"
definition NetMsgId_S2CSomeOneCancelChatGroup :: int where [wire_ids]: "NetMsgId_S2CSomeOneCancelChatGroup = 65762"
definition NetMsgId_S2CRecvCancelChatGroup :: int where [wire_ids]: "NetMsgId_S2CRecvCancelChatGroup = 65763"
definition NetMsgId_C2SUnChatGroup :: int where [wire_ids]: "NetMsgId_C2SUnChatGroup = 65770"
definition NetMsgId_MQUnChatGroup :: int where [wire_ids]: "NetMsgId_MQUnChatGroup = 65771"
definition NetMsgId_S2CUnChatGroup :: int where [wire_ids]: "NetMsgId_S2CUnChatGroup = 65772"
definition NetMsgId_S2CRecvUnChatGroup :: int where [wire_ids]: "NetMsgId_S2CRecvUnChatGroup = 65773"
definition NetMsgId_C2SChatGroupKick :: int where [wire_ids]: "NetMsgId_C2SChatGroupKick = 65780"
definition NetMsgId_MQChatGroupKick :: int where [wire_ids]: "NetMsgId_MQChatGroupKick = 65781"
definition NetMsgId_S2CManagerKickSomeOne :: int where [wire_ids]: "NetMsgId_S2CManagerKickSomeOne = 65782"
definition NetMsgId_S2CKickedByChatGroupManager :: int where [wire_ids]: "NetMsgId_S2CKickedByChatGroupManager = 65783"
definition NetMsgId_S2CRecvChatGroupKick :: int where [wire_ids]: "NetMsgId_S2CRecvChatGroupKick = 65784"
definition NetMsgId_C2SGroupChat :: int where [wire_ids]: "NetMsgId_C2SGroupChat = 65800"
definition NetMsgId_S2CGroupChat :: int where [wire_ids]: "NetMsgId_S2CGroupChat = 65801"
definition NetMsgId_MQGroupChat :: int where [wire_ids]: "NetMsgId_MQGroupChat = 65802"
definition NetMsgId_S2CRecvGroupChat :: int where [wire_ids]: "NetMsgId_S2CRecvGroupChat = 65803"
definition NetMsgId_C2SChatGroupLastMsgTimeStamp :: int where [wire_ids]: "NetMsgId_C2SChatGroupLastMsgTimeStamp = 65804"
definition NetMsgId_C2SGetOfflineGroupChatMsg :: int where [wire_ids]: "NetMsgId_C2SGetOfflineGroupChatMsg = 65810"
definition NetMsgId_S2CGetOfflineGroupChatMsg :: int where [wire_ids]: "NetMsgId_S2CGetOfflineGroupChatMsg = 65811"
definition NetMsgId_C2SWithdrawGroupMessage :: int where [wire_ids]: "NetMsgId_C2SWithdrawGroupMessage = 65820"
definition NetMsgId_S2CWithdrawGroupMessage :: int where [wire_ids]: "NetMsgId_S2CWithdrawGroupMessage = 65822"
definition NetMsgId_C2SFindUser :: int where [wire_ids]: "NetMsgId_C2SFindUser = 66000"
definition NetMsgId_S2CFindUser :: int where [wire_ids]: "NetMsgId_S2CFindUser = 66001"
definition NetMsgId_C2SAddFriendBlackList :: int where [wire_ids]: "NetMsgId_C2SAddFriendBlackList = 66010"
definition NetMsgId_S2CAddFriendBlackList :: int where [wire_ids]: "NetMsgId_S2CAddFriendBlackList = 66011"
definition NetMsgId_C2SMoveOutFriendBlackList :: int where [wire_ids]: "NetMsgId_C2SMoveOutFriendBlackList = 66020"
definition NetMsgId_S2CMoveOutFriendBlackList :: int where [wire_ids]: "NetMsgId_S2CMoveOutFriendBlackList = 66021"
definition NetMsgId_C2SGetFriendBlackList :: int where [wire_ids]: "NetMsgId_C2SGetFriendBlackList = 66030"
definition NetMsgId_S2CGetFriendBlackList :: int where [wire_ids]: "NetMsgId_S2CGetFriendBlackList = 66031"
definition NetMsgId_C2SSetWeiboCover :: int where [wire_ids]: "NetMsgId_C2SSetWeiboCover = 67000"
definition NetMsgId_S2CSetWeiboCover :: int where [wire_ids]: "NetMsgId_S2CSetWeiboCover = 67001"
definition NetMsgId_C2SLikeFriendWeiboCover :: int where [wire_ids]: "NetMsgId_C2SLikeFriendWeiboCover = 67010"
definition NetMsgId_S2CLikeFriendWeiboCover :: int where [wire_ids]: "NetMsgId_S2CLikeFriendWeiboCover = 67011"
definition NetMsgId_C2SGetWeiboCover :: int where [wire_ids]: "NetMsgId_C2SGetWeiboCover = 67012"
definition NetMsgId_S2CGetWeiboCover :: int where [wire_ids]: "NetMsgId_S2CGetWeiboCover = 67013"
definition NetMsgId_C2SPublishWeibo :: int where [wire_ids]: "NetMsgId_C2SPublishWeibo = 67020"
definition NetMsgId_MQPublishWeibo :: int where [wire_ids]: "NetMsgId_MQPublishWeibo = 67021"
definition NetMsgId_S2CPublishWeibo :: int where [wire_ids]: "NetMsgId_S2CPublishWeibo = 67022"
definition NetMsgId_S2CRecvPublishWeibo :: int where [wire_ids]: "NetMsgId_S2CRecvPublishWeibo = 67023"
definition NetMsgId_C2SLikeWeibo :: int where [wire_ids]: "NetMsgId_C2SLikeWeibo = 67030"
definition NetMsgId_MQLikeWeibo :: int where [wire_ids]: "NetMsgId_MQLikeWeibo = 67031"
definition NetMsgId_S2CLikeWeibo :: int where [wire_ids]: "NetMsgId_S2CLikeWeibo = 67032"
definition NetMsgId_S2CRecvLikeWeibo :: int where [wire_ids]: "NetMsgId_S2CRecvLikeWeibo = 67033"
definition NetMsgId_C2SCancelLikeWeibo :: int where [wire_ids]: "NetMsgId_C2SCancelLikeWeibo = 67040"
definition NetMsgId_S2CCancelLikeWeibo :: int where [wire_ids]: "NetMsgId_S2CCancelLikeWeibo = 67041"
definition NetMsgId_C2SReplyWeibo :: int where [wire_ids]: "NetMsgId_C2SReplyWeibo = 67050"
definition NetMsgId_MQReplyWeibo :: int where [wire_ids]: "NetMsgId_MQReplyWeibo = 67051"
definition NetMsgId_S2CReplyWeibo :: int where [wire_ids]: "NetMsgId_S2CReplyWeibo = 67052"
definition NetMsgId_S2CRecvReplyWeibo :: int where [wire_ids]: "NetMsgId_S2CRecvReplyWeibo = 67053"
definition NetMsgId_C2SDeleteReplyWeibo :: int where [wire_ids]: "NetMsgId_C2SDeleteReplyWeibo = 67060"
definition NetMsgId_S2CDeleteReplyWeibo :: int where [wire_ids]: "NetMsgId_S2CDeleteReplyWeibo = 67061"
definition NetMsgId_C2SDeleteWeibo :: int where [wire_ids]: "NetMsgId_C2SDeleteWeibo = 67070"
definition NetMsgId_MQDeleteWeibo :: int where [wire_ids]: "NetMsgId_MQDeleteWeibo = 67071"
definition NetMsgId_S2CDeleteWeibo :: int where [wire_ids]: "NetMsgId_S2CDeleteWeibo = 67072"
definition NetMsgId_S2CRecvDeleteWeibo :: int where [wire_ids]: "NetMsgId_S2CRecvDeleteWeibo = 67073"
definition NetMsgId_C2SBrowseSomeoneWeibo :: int where [wire_ids]: "NetMsgId_C2SBrowseSomeoneWeibo = 67080"
definition NetMsgId_S2CBrowseSomeoneWeibo :: int where [wire_ids]: "NetMsgId_S2CBrowseSomeoneWeibo = 67081"
definition NetMsgId_C2SBrowseAllWeibo :: int where [wire_ids]: "NetMsgId_C2SBrowseAllWeibo = 67100"
definition NetMsgId_S2CBrowseAllWeibo :: int where [wire_ids]: "NetMsgId_S2CBrowseAllWeibo = 67101"
definition NetMsgId_C2SDontLookFriendWeibo :: int where [wire_ids]: "NetMsgId_C2SDontLookFriendWeibo = 67110"
definition NetMsgId_S2CDontLookFriendWeibo :: int where [wire_ids]: "NetMsgId_S2CDontLookFriendWeibo = 67111"
definition NetMsgId_C2SForbiddenFriendLookWeibo :: int where [wire_ids]: "NetMsgId_C2SForbiddenFriendLookWeibo = 67120"
definition NetMsgId_S2CForbiddenFriendLookWeibo :: int where [wire_ids]: "NetMsgId_S2CForbiddenFriendLookWeibo = 67121"
definition NetMsgId_C2SAllowStrangerLookWeibo :: int where [wire_ids]: "NetMsgId_C2SAllowStrangerLookWeibo = 67130"
definition NetMsgId_S2CAllowStrangerLookWeibo :: int where [wire_ids]: "NetMsgId_S2CAllowStrangerLookWeibo = 67131"
definition NetMsgId_C2SSetFriendRemarkName :: int where [wire_ids]: "NetMsgId_C2SSetFriendRemarkName = 67132"
definition NetMsgId_S2CSetFriendRemarkName :: int where [wire_ids]: "NetMsgId_S2CSetFriendRemarkName = 67133"
definition NetMsgId_C2SFriendLookWeiboStrategy :: int where [wire_ids]: "NetMsgId_C2SFriendLookWeiboStrategy = 67140"
definition NetMsgId_S2CFriendLookWeiboStrategy :: int where [wire_ids]: "NetMsgId_S2CFriendLookWeiboStrategy = 67141"
definition NetMsgId_C2SGetDontLookFriendWeiboList :: int where [wire_ids]: "NetMsgId_C2SGetDontLookFriendWeiboList = 67150"
definition NetMsgId_S2CGetDontLookFriendWeiboList :: int where [wire_ids]: "NetMsgId_S2CGetDontLookFriendWeiboList = 67151"
definition NetMsgId_C2SGetForbiddenFriendLookWeiboList :: int where [wire_ids]: "NetMsgId_C2SGetForbiddenFriendLookWeiboList = 67160"
definition NetMsgId_S2CGetForbiddenFriendLookWeiboList :: int where [wire_ids]: "NetMsgId_S2CGetForbiddenFriendLookWeiboList = 67161"
definition NetMsgId_C2SIsAllowStrangerLookWeibo :: int where [wire_ids]: "NetMsgId_C2SIsAllowStrangerLookWeibo = 67170"
definition NetMsgId_S2CIsAllowStrangerLookWeibo :: int where [wire_ids]: "NetMsgId_S2CIsAllowStrangerLookWeibo = 67171"
definition NetMsgId_C2SGetFriendLookWeiboStrategy :: int where [wire_ids]: "NetMsgId_C2SGetFriendLookWeiboStrategy = 67180"
definition NetMsgId_S2CGetFriendLookWeiboStrategy :: int where [wire_ids]: "NetMsgId_S2CGetFriendLookWeiboStrategy = 67181"
definition NetMsgId_C2SHuanXinPush :: int where [wire_ids]: "NetMsgId_C2SHuanXinPush = 70000"
definition NetMsgId_S2CHuanXinPush :: int where [wire_ids]: "NetMsgId_S2CHuanXinPush = 70001"
definition NetMsgId_C2SThirdPlatformAccountLogin :: int where [wire_ids]: "NetMsgId_C2SThirdPlatformAccountLogin = 80000"
definition NetMsgId_S2CThirdPlatformAccountLogin :: int where [wire_ids]: "NetMsgId_S2CThirdPlatformAccountLogin = 80001"

section \<open>Error codes\<close>

definition MsgErrCode_proto_unmarshal_msg_struct_C2SRegisterAccount_failed :: int where [err_codes]: "MsgErrCode_proto_unmarshal_msg_struct_C2SRegisterAccount_failed = 100"
definition MsgErrCode_register_account_account_id_is_zero :: int where [err_codes]: "MsgErrCode_register_account_account_id_is_zero = 101"
definition MsgErrCode_register_account_password_is_empty :: int where [err_codes]: "MsgErrCode_register_account_password_is_empty = 102"
definition MsgErrCode_register_account_verification_is_empty :: int where [err_codes]: "MsgErrCode_register_account_verification_is_empty = 103"
definition MsgErrCode_register_account_verification_is_error :: int where [err_codes]: "MsgErrCode_register_account_verification_is_error = 104"
definition MsgErrCode_register_account_account_is_already_used :: int where [err_codes]: "MsgErrCode_register_account_account_is_already_used = 105"
definition MsgErrCode_register_access_mysql_has_error_when_create_account :: int where [err_codes]: "MsgErrCode_register_access_mysql_has_error_when_create_account = 106"
definition MsgErrCode_proto_unmarshal_msg_struct_C2SLogin_failed :: int where [err_codes]: "MsgErrCode_proto_unmarshal_msg_struct_C2SLogin_failed = 110"
definition MsgErrCode_login_account_id_is_zero :: int where [err_codes]: "MsgErrCode_login_account_id_is_zero = 111"
definition MsgErrCode_login_account_or_pwd_is_wrong :: int where [err_codes]: "MsgErrCode_login_account_or_pwd_is_wrong = 112"
definition MsgErrCode_login_access_mysql_has_error_when_load_account :: int where [err_codes]: "MsgErrCode_login_access_mysql_has_error_when_load_account = 113"
definition MsgErrCode_login_account_is_out_of_service :: int where [err_codes]: "MsgErrCode_login_account_is_out_of_service = 114"
definition MsgErrCode_proto_unmarshal_msg_struct_C2SDeviceInfo_has_error :: int where [err_codes]: "MsgErrCode_proto_unmarshal_msg_struct_C2SDeviceInfo_has_error = 120"
definition MsgErrCode_device_info_device_info_is_empty :: int where [err_codes]: "MsgErrCode_device_info_device_info_is_empty = 121"
definition MsgErrCode_device_info_device_producter_is_empty :: int where [err_codes]: "MsgErrCode_device_info_device_producter_is_empty = 122"
definition MsgErrCode_device_info_device_proto_marshal_msg_struct_DeviceInfo_has_error :: int where [err_codes]: "MsgErrCode_device_info_device_proto_marshal_msg_struct_DeviceInfo_has_error = 123"
definition MsgErrCode_device_info_account_device_info_save_into_redis_failed :: int where [err_codes]: "MsgErrCode_device_info_account_device_info_save_into_redis_failed = 124"
definition MsgErrCode_device_info_device_info_account_save_into_redis_failed :: int where [err_codes]: "MsgErrCode_device_info_device_info_account_save_into_redis_failed = 125"
definition MsgErrCode_device_info_save_into_mysql_failed :: int where [err_codes]: "MsgErrCode_device_info_save_into_mysql_failed = 126"
definition MsgErrCode_proto_unmarshal_set_user_name_has_error :: int where [err_codes]: "MsgErrCode_proto_unmarshal_set_user_name_has_error = 130"
definition MsgErrCode_set_user_name_user_name_is_exist :: int where [err_codes]: "MsgErrCode_set_user_name_user_name_is_exist = 134"
definition MsgErrCode_set_user_name_save_into_redis_failed :: int where [err_codes]: "MsgErrCode_set_user_name_save_into_redis_failed = 135"
definition MsgErrCode_set_user_name_save_into_mysql_failed :: int where [err_codes]: "MsgErrCode_set_user_name_save_into_mysql_failed = 136"
definition MsgErrCode_proto_unmarshal_find_user_has_error :: int where [err_codes]: "MsgErrCode_proto_unmarshal_find_user_has_error = 140"
definition MsgErrCode_find_user_key_is_empty :: int where [err_codes]: "MsgErrCode_find_user_key_is_empty = 141"
definition MsgErrCode_find_user_user_is_not_exist :: int where [err_codes]: "MsgErrCode_find_user_user_is_not_exist = 142"
definition MsgErrCode_proto_unmarshal_set_head_portrait_has_error :: int where [err_codes]: "MsgErrCode_proto_unmarshal_set_head_portrait_has_error = 150"
definition MsgErrCode_set_head_portrait_head_portrait_url_is_empty :: int where [err_codes]: "MsgErrCode_set_head_portrait_head_portrait_url_is_empty = 151"
definition MsgErrCode_set_head_save_head_portrait_url_into_redis_failed :: int where [err_codes]: "MsgErrCode_set_head_save_head_portrait_url_into_redis_failed = 152"
definition MsgErrCode_set_head_save_head_portrait_url_into_mysql_failed :: int where [err_codes]: "MsgErrCode_set_head_save_head_portrait_url_into_mysql_failed = 153"
definition MsgErrCode_proto_unmarshal_msg_struct_C2SChangePassword_has_error :: int where [err_codes]: "MsgErrCode_proto_unmarshal_msg_struct_C2SChangePassword_has_error = 160"
definition MsgErrCode_change_password_new_password_is_empty :: int where [err_codes]: "MsgErrCode_change_password_new_password_is_empty = 161"
definition MsgErrCode_change_password_save_into_mysql_error :: int where [err_codes]: "MsgErrCode_change_password_save_into_mysql_error = 162"
definition MsgErrCode_proto_unmarshal_msg_struct_C2SAddFriend_has_error :: int where [err_codes]: "MsgErrCode_proto_unmarshal_msg_struct_C2SAddFriend_has_error = 2000"
definition MsgErrCode_add_friend_param_error :: int where [err_codes]: "MsgErrCode_add_friend_param_error = 2001"
definition MsgErrCode_add_friend_mysql_has_error_when_write :: int where [err_codes]: "MsgErrCode_add_friend_mysql_has_error_when_write = 2002"
definition MsgErrCode_add_friend_sender_and_recevier_are_friends :: int where [err_codes]: "MsgErrCode_add_friend_sender_and_recevier_are_friends = 2003"
definition MsgErrCode_proto_unmarshal_msg_struct_C2SAgreeBecomeFriend_has_error :: int where [err_codes]: "MsgErrCode_proto_unmarshal_msg_struct_C2SAgreeBecomeFriend_has_error = 2010"
definition MsgErrCode_agree_become_friend_mysql_has_error_when_write :: int where [err_codes]: "MsgErrCode_agree_become_friend_mysql_has_error_when_write = 2011"
definition MsgErrCode_agree_become_friend_sender_and_receiver_are_friends :: int where [err_codes]: "MsgErrCode_agree_become_friend_sender_and_receiver_are_friends = 2012"
definition MsgErrCode_agree_become_friend_mysql_table_friend_req_has_no_record :: int where [err_codes]: "MsgErrCode_agree_become_friend_mysql_table_friend_req_has_no_record = 2013"
definition MsgErrCode_agree_become_friend_mysql_table_friend_req_has_read_error :: int where [err_codes]: "MsgErrCode_agree_become_friend_mysql_table_friend_req_has_read_error = 2014"
definition MsgErrCode_agree_become_friend_can_not_be_friend_with_self :: int where [err_codes]: "MsgErrCode_agree_become_friend_can_not_be_friend_with_self = 2015"
definition MsgErrCode_proto_unmarshal_msg_struct_C2SDeleteFriend_has_error :: int where [err_codes]: "MsgErrCode_proto_unmarshal_msg_struct_C2SDeleteFriend_has_error = 2020"
definition MsgErrCode_delete_friend_is_not_friend :: int where [err_codes]: "MsgErrCode_delete_friend_is_not_friend = 2021"
definition MsgErrCode_delete_friend_server_internal_error :: int where [err_codes]: "MsgErrCode_delete_friend_server_internal_error = 2022"
definition MsgErrCode_proto_unmarshal_msg_struct_C2SConfirmDeleteFriend_has_error :: int where [err_codes]: "MsgErrCode_proto_unmarshal_msg_struct_C2SConfirmDeleteFriend_has_error = 2030"
definition MsgErrCode_confirm_friend_is_not_friend :: int where [err_codes]: "MsgErrCode_confirm_friend_is_not_friend = 2031"
definition MsgErrCode_confirm_friend_server_internal_error :: int where [err_codes]: "MsgErrCode_confirm_friend_server_internal_error = 2032"
definition MsgErrCode_proto_unmarsharl_msg_struct_C2SPrivateChat_has_error :: int where [err_codes]: "MsgErrCode_proto_unmarsharl_msg_struct_C2SPrivateChat_has_error = 2040"
definition MsgErrCode_private_chat_receiver_illegal :: int where [err_codes]: "MsgErrCode_private_chat_receiver_illegal = 2041"
definition MsgErrCode_private_chat_receiver_is_not_friend :: int where [err_codes]: "MsgErrCode_private_chat_receiver_is_not_friend = 2042"
definition MsgErrCode_private_chat_receiver_type_illegal :: int where [err_codes]: "MsgErrCode_private_chat_receiver_type_illegal = 2043"
definition MsgErrCode_private_chat_message_type_not_match_message :: int where [err_codes]: "MsgErrCode_private_chat_message_type_not_match_message = 2044"
definition MsgErrCode_private_chat_voice_url_is_empty :: int where [err_codes]: "MsgErrCode_private_chat_voice_url_is_empty = 2045"
definition MsgErrCode_private_chat_voice_too_long :: int where [err_codes]: "MsgErrCode_private_chat_voice_too_long = 2046"
definition MsgErrCode_private_chat_file_url_is_empty :: int where [err_codes]: "MsgErrCode_private_chat_file_url_is_empty = 2047"
definition MsgErrCode_private_chat_file_thumbnail_url_is_empty :: int where [err_codes]: "MsgErrCode_private_chat_file_thumbnail_url_is_empty = 2048"
definition MsgErrCode_private_chat_video_url_is_empty :: int where [err_codes]: "MsgErrCode_private_chat_video_url_is_empty = 2049"
definition MsgErrCode_private_chat_video_thumbnail_url_is_empty :: int where [err_codes]: "MsgErrCode_private_chat_video_thumbnail_url_is_empty = 2050"
definition MsgErrCode_private_chat_card_message_is_empty :: int where [err_codes]: "MsgErrCode_private_chat_card_message_is_empty = 2051"
definition MsgErrCode_proto_unmarshal_msg_struct_C2SWithdrawMessage_has_error :: int where [err_codes]: "MsgErrCode_proto_unmarshal_msg_struct_C2SWithdrawMessage_has_error = 2060"
definition MsgErrCode_withDraw_message_private_chat_withdraw_fail :: int where [err_codes]: "MsgErrCode_withDraw_message_private_chat_withdraw_fail = 2061"
definition MsgErrCode_withDraw_message_withDrawer_is_not_sender :: int where [err_codes]: "MsgErrCode_withDraw_message_withDrawer_is_not_sender = 2062"
definition MsgErrCode_proto_unmarshal_msg_struct_C2SSetFriendRemarkName_has_error :: int where [err_codes]: "MsgErrCode_proto_unmarshal_msg_struct_C2SSetFriendRemarkName_has_error = 2070"
definition MsgErrCode_set_friend_remark_name_is_not_friend :: int where [err_codes]: "MsgErrCode_set_friend_remark_name_is_not_friend = 2071"
definition MsgErrCode_set_friend_remark_name_remark_name_is_empty :: int where [err_codes]: "MsgErrCode_set_friend_remark_name_remark_name_is_empty = 2072"
definition MsgErrCode_proto_unmarshal_msg_struct_C2SHuanXinPush_has_error :: int where [err_codes]: "MsgErrCode_proto_unmarshal_msg_struct_C2SHuanXinPush_has_error = 2080"
definition MsgErrCode_huan_xin_push_is_not_your_friend :: int where [err_codes]: "MsgErrCode_huan_xin_push_is_not_your_friend = 2081"
definition MsgErrCode_huan_xin_push_you_are_not_his_friend :: int where [err_codes]: "MsgErrCode_huan_xin_push_you_are_not_his_friend = 2082"
definition MsgErrCode_huan_xin_push_get_friend_push_info_failed :: int where [err_codes]: "MsgErrCode_huan_xin_push_get_friend_push_info_failed = 2083"
definition MsgErrCode_huan_xin_push_is_not_android :: int where [err_codes]: "MsgErrCode_huan_xin_push_is_not_android = 2084"
definition MsgErrCode_proto_unmarshal_get_verification_code_has_error :: int where [err_codes]: "MsgErrCode_proto_unmarshal_get_verification_code_has_error = 2090"
definition MsgErrCode_get_verification_code_phone_num_error :: int where [err_codes]: "MsgErrCode_get_verification_code_phone_num_error = 2091"
definition MsgErrCode_get_verification_code_action_has_error :: int where [err_codes]: "MsgErrCode_get_verification_code_action_has_error = 2092"
definition MsgErrCode_get_verification_code_register_not_timeout :: int where [err_codes]: "MsgErrCode_get_verification_code_register_not_timeout = 2093"
definition MsgErrCode_get_verification_code_register_account_exist :: int where [err_codes]: "MsgErrCode_get_verification_code_register_account_exist = 2094"
definition MsgErrCode_get_verification_code_forget_password_account_is_not_exist :: int where [err_codes]: "MsgErrCode_get_verification_code_forget_password_account_is_not_exist = 2095"
definition MsgErrCode_get_verification_code_forget_password_not_timeout :: int where [err_codes]: "MsgErrCode_get_verification_code_forget_password_not_timeout = 2096"
definition MsgErrCode_get_verification_code_server_internal_error :: int where [err_codes]: "MsgErrCode_get_verification_code_server_internal_error = 2099"
definition MsgErrCode_proto_unmarshal_forget_password_has_error :: int where [err_codes]: "MsgErrCode_proto_unmarshal_forget_password_has_error = 2100"
definition MsgErrCode_forget_password_phone_num_is_empty :: int where [err_codes]: "MsgErrCode_forget_password_phone_num_is_empty = 2101"
definition MsgErrCode_forget_password_verification_code_is_empty :: int where [err_codes]: "MsgErrCode_forget_password_verification_code_is_empty = 2102"
definition MsgErrCode_forget_password_password_is_empty :: int where [err_codes]: "MsgErrCode_forget_password_password_is_empty = 2103"
definition MsgErrCode_forget_password_verification_code_error :: int where [err_codes]: "MsgErrCode_forget_password_verification_code_error = 2104"
definition MsgErrCode_forget_password_server_internal_error :: int where [err_codes]: "MsgErrCode_forget_password_server_internal_error = 2109"
definition MsgErrCode_proto_unmarshal_msg_struct_C2SCreateChatGroup_has_error :: int where [err_codes]: "MsgErrCode_proto_unmarshal_msg_struct_C2SCreateChatGroup_has_error = 3000"
definition MsgErrCode_create_chat_group_invitee_and_inviter_is_not_friend :: int where [err_codes]: "MsgErrCode_create_chat_group_invitee_and_inviter_is_not_friend = 3001"
definition MsgErrCode_create_chat_group_insert_chat_group_fail :: int where [err_codes]: "MsgErrCode_create_chat_group_insert_chat_group_fail = 3002"
definition MsgErrCode_create_chat_group_insert_chat_group_member_fail :: int where [err_codes]: "MsgErrCode_create_chat_group_insert_chat_group_member_fail = 3005"
definition MsgErrCode_create_chat_group_commit_error_when_create_group :: int where [err_codes]: "MsgErrCode_create_chat_group_commit_error_when_create_group = 3006"
definition MsgErrCode_create_chat_group_marshal_chat_group_owner_failed :: int where [err_codes]: "MsgErrCode_create_chat_group_marshal_chat_group_owner_failed = 3007"
definition MsgErrCode_proto_unmarshal_msg_struct_C2SReqJoinChatGroup_has_error :: int where [err_codes]: "MsgErrCode_proto_unmarshal_msg_struct_C2SReqJoinChatGroup_has_error = 3020"
definition MsgErrCode_send_req_join_chat_group_group_id_error :: int where [err_codes]: "MsgErrCode_send_req_join_chat_group_group_id_error = 3021"
definition MsgErrCode_send_req_join_chat_group_is_group_member :: int where [err_codes]: "MsgErrCode_send_req_join_chat_group_is_group_member = 3022"
definition MsgErrCode_send_req_join_chat_group_query_group_manager_failed :: int where [err_codes]: "MsgErrCode_send_req_join_chat_group_query_group_manager_failed = 3023"
definition MsgErrCode_mq_group_manager_req_join_chat_group_failed :: int where [err_codes]: "MsgErrCode_mq_group_manager_req_join_chat_group_failed = 3024"
definition MsgErrCode_ban_on_create_chat_group_in_short_time :: int where [err_codes]: "MsgErrCode_ban_on_create_chat_group_in_short_time = 3025"
definition MsgErrCode_proto_unmarshal_msg_struct_C2SAgreeSomeOneReqJoinChatGroup_has_error :: int where [err_codes]: "MsgErrCode_proto_unmarshal_msg_struct_C2SAgreeSomeOneReqJoinChatGroup_has_error = 3030"
definition MsgErrCode_send_agree_some_one_req_join_chat_group_query_group_id_failed :: int where [err_codes]: "MsgErrCode_send_agree_some_one_req_join_chat_group_query_group_id_failed = 3031"
definition MsgErrCode_send_agree_some_one_req_join_chat_group_sender_is_not_manager :: int where [err_codes]: "MsgErrCode_send_agree_some_one_req_join_chat_group_sender_is_not_manager = 3032"
definition MsgErrCode_send_agree_some_one_req_join_chat_group_query_reques_uid_failed :: int where [err_codes]: "MsgErrCode_send_agree_some_one_req_join_chat_group_query_reques_uid_failed = 3033"
definition MsgErrCode_send_agree_some_one_req_join_chat_group_insert_chat_group_member_failed :: int where [err_codes]: "MsgErrCode_send_agree_some_one_req_join_chat_group_insert_chat_group_member_failed = 3034"
definition MsgErrCode_send_agree_some_one_req_join_chat_group_update_chat_group_req_join_log_failed :: int where [err_codes]: "MsgErrCode_send_agree_some_one_req_join_chat_group_update_chat_group_req_join_log_failed = 3035"
definition MsgErrCode_send_agree_some_one_req_join_chat_group_notice_requester_failed :: int where [err_codes]: "MsgErrCode_send_agree_some_one_req_join_chat_group_notice_requester_failed = 3036"
definition MsgErrCode_send_agree_some_one_req_join_chat_group_get_members_failed :: int where [err_codes]: "MsgErrCode_send_agree_some_one_req_join_chat_group_get_members_failed = 3037"
definition MsgErrCode_proto_unmarshal_msg_struct_C2SRefuseSomeOneReqJoinChatGroup_has_error :: int where [err_codes]: "MsgErrCode_proto_unmarshal_msg_struct_C2SRefuseSomeOneReqJoinChatGroup_has_error = 3040"
definition MsgErrCode_send_refuse_req_some_one_req_join_chat_group_error :: int where [err_codes]: "MsgErrCode_send_refuse_req_some_one_req_join_chat_group_error = 3041"
definition MsgErrCode_send_refuse_some_one_req_join_chat_group_update_chat_group_req_join_log_failed :: int where [err_codes]: "MsgErrCode_send_refuse_some_one_req_join_chat_group_update_chat_group_req_join_log_failed = 3042"
definition MsgErrCode_proto_unmarshal_msg_struct_C2SChatGroupInfo_has_error :: int where [err_codes]: "MsgErrCode_proto_unmarshal_msg_struct_C2SChatGroupInfo_has_error = 3050"
definition MsgErrCode_send_chat_group_info_group_id_error :: int where [err_codes]: "MsgErrCode_send_chat_group_info_group_id_error = 3051"
definition MsgErrCode_send_chat_group_info_get_group_info_failed :: int where [err_codes]: "MsgErrCode_send_chat_group_info_get_group_info_failed = 3052"
definition MsgErrCode_send_chat_group_info_get_group_member_failed :: int where [err_codes]: "MsgErrCode_send_chat_group_info_get_group_member_failed = 3053"
definition MsgErrCode_proto_unmarshal_msg_struct_C2SInviteJoinChatGroup_has_error :: int where [err_codes]: "MsgErrCode_proto_unmarshal_msg_struct_C2SInviteJoinChatGroup_has_error = 3060"
definition MsgErrCode_send_invite_join_chat_group_group_id_error :: int where [err_codes]: "MsgErrCode_send_invite_join_chat_group_group_id_error = 3061"
definition MsgErrCode_send_invite_join_chat_group_invitee_id_error :: int where [err_codes]: "MsgErrCode_send_invite_join_chat_group_invitee_id_error = 3062"
definition MsgErrCode_send_invite_join_chat_group_is_not_friend_error :: int where [err_codes]: "MsgErrCode_send_invite_join_chat_group_is_not_friend_error = 3063"
definition MsgErrCode_send_invite_join_chat_group_has_joined_chat_group_error :: int where [err_codes]: "MsgErrCode_send_invite_join_chat_group_has_joined_chat_group_error = 3064"
definition MsgErrCode_send_invite_join_chat_group_insert_chat_group_member_failed :: int where [err_codes]: "MsgErrCode_send_invite_join_chat_group_insert_chat_group_member_failed = 3065"
definition MsgErrCode_send_invite_join_chat_group_get_chat_group_member_failed :: int where [err_codes]: "MsgErrCode_send_invite_join_chat_group_get_chat_group_member_failed = 3066"
definition MsgErrCode_proto_unmarshal_msg_struct_C2SCancelChatGroup_has_error :: int where [err_codes]: "MsgErrCode_proto_unmarshal_msg_struct_C2SCancelChatGroup_has_error = 3070"
definition MsgErrCode_send_cancel_chat_group_group_id_error :: int where [err_codes]: "MsgErrCode_send_cancel_chat_group_group_id_error = 3071"
definition MsgErrCode_send_cancel_chat_group_is_not_member :: int where [err_codes]: "MsgErrCode_send_cancel_chat_group_is_not_member = 3072"
definition MsgErrCode_send_cancel_chat_group_is_creator :: int where [err_codes]: "MsgErrCode_send_cancel_chat_group_is_creator = 3073"
definition MsgErrCode_proto_unmarshal_msg_struct_C2SUnChatGroup_has_error :: int where [err_codes]: "MsgErrCode_proto_unmarshal_msg_struct_C2SUnChatGroup_has_error = 3080"
definition MsgErrCode_send_un_chat_group_group_id_error :: int where [err_codes]: "MsgErrCode_send_un_chat_group_group_id_error = 3081"
definition MsgErrCode_send_un_chat_group_is_not_creator :: int where [err_codes]: "MsgErrCode_send_un_chat_group_is_not_creator = 3082"
definition MsgErrCode_send_un_chat_group_get_members_failed :: int where [err_codes]: "MsgErrCode_send_un_chat_group_get_members_failed = 3083"
definition MsgErrCode_proto_unmarshal_msg_struct_C2SChatGroupKick_has_error :: int where [err_codes]: "MsgErrCode_proto_unmarshal_msg_struct_C2SChatGroupKick_has_error = 3090"
definition MsgErrCode_send_chat_group_kick_group_id_error :: int where [err_codes]: "MsgErrCode_send_chat_group_kick_group_id_error = 3091"
definition MsgErrCode_send_chat_group_kick_is_not_creator :: int where [err_codes]: "MsgErrCode_send_chat_group_kick_is_not_creator = 3092"
definition MsgErrCode_send_chat_group_user_is_not_member :: int where [err_codes]: "MsgErrCode_send_chat_group_user_is_not_member = 3093"
definition MsgErrCode_send_chat_group_kick_get_members_failed :: int where [err_codes]: "MsgErrCode_send_chat_group_kick_get_members_failed = 3094"
definition MsgErrCode_proto_unmarshal_msg_struct_C2SGetOfflineGroupChatMsg_has_error :: int where [err_codes]: "MsgErrCode_proto_unmarshal_msg_struct_C2SGetOfflineGroupChatMsg_has_error = 3110"
definition MsgErrCode_send_get_offline_group_chat_msg_group_id_illegal :: int where [err_codes]: "MsgErrCode_send_get_offline_group_chat_msg_group_id_illegal = 3111"
definition MsgErrCode_send_get_offlien_group_chat_msg_get_offline_msg_failed :: int where [err_codes]: "MsgErrCode_send_get_offlien_group_chat_msg_get_offline_msg_failed = 3112"
definition MsgErrCode_proto_unmarshal_msg_struct_C2SWithdrawGroupMessage_has_error :: int where [err_codes]: "MsgErrCode_proto_unmarshal_msg_struct_C2SWithdrawGroupMessage_has_error = 3120"
definition MsgErrCode_withDraw_group_message_group_chat_withdraw_fail :: int where [err_codes]: "MsgErrCode_withDraw_group_message_group_chat_withdraw_fail = 3121"
definition MsgErrCode_proto_unmarshal_msg_struct_C2SGroupChat_has_error :: int where [err_codes]: "MsgErrCode_proto_unmarshal_msg_struct_C2SGroupChat_has_error = 3130"
definition MsgErrCode_send_group_chat_msg_chat_msg_is_nil :: int where [err_codes]: "MsgErrCode_send_group_chat_msg_chat_msg_is_nil = 3131"
definition MsgErrCode_send_group_chat_msg_chat_msg_is_illege :: int where [err_codes]: "MsgErrCode_send_group_chat_msg_chat_msg_is_illege = 3132"
definition MsgErrCode_send_group_chat_sender_is_not_chat_group_member :: int where [err_codes]: "MsgErrCode_send_group_chat_sender_is_not_chat_group_member = 3133"
definition MsgErrCode_proto_marshal_msg_struct_GroupMessage_has_error :: int where [err_codes]: "MsgErrCode_proto_marshal_msg_struct_GroupMessage_has_error = 3134"
definition MsgErrCode_send_group_chat_msg_chat_msg_store_redis_failed :: int where [err_codes]: "MsgErrCode_send_group_chat_msg_chat_msg_store_redis_failed = 3135"
definition MsgErrCode_send_group_chat_msg_type_not_match_message :: int where [err_codes]: "MsgErrCode_send_group_chat_msg_type_not_match_message = 3137"
definition MsgErrCode_send_group_chat_msg_voice_url_is_empty :: int where [err_codes]: "MsgErrCode_send_group_chat_msg_voice_url_is_empty = 3138"
definition MsgErrCode_send_group_chat_msg_voice_too_long :: int where [err_codes]: "MsgErrCode_send_group_chat_msg_voice_too_long = 3139"
definition MsgErrCode_send_group_chat_msg_file_url_is_empty :: int where [err_codes]: "MsgErrCode_send_group_chat_msg_file_url_is_empty = 3140"
definition MsgErrCode_send_group_chat_msg_file_thumbnail_url_is_empty :: int where [err_codes]: "MsgErrCode_send_group_chat_msg_file_thumbnail_url_is_empty = 3141"
definition MsgErrCode_send_group_chat_msg_video_url_is_empty :: int where [err_codes]: "MsgErrCode_send_group_chat_msg_video_url_is_empty = 3142"
definition MsgErrCode_send_group_chat_msg_video_thumbnail_url_is_empty :: int where [err_codes]: "MsgErrCode_send_group_chat_msg_video_thumbnail_url_is_empty = 3143"
definition MsgErrCode_proto_unmarshal_msg_struct_C2SSetWeiboCover_has_error :: int where [err_codes]: "MsgErrCode_proto_unmarshal_msg_struct_C2SSetWeiboCover_has_error = 4000"
definition MsgErrCode_set_weibo_cover_cover_picture_is_empty :: int where [err_codes]: "MsgErrCode_set_weibo_cover_cover_picture_is_empty = 4001"
definition MsgErrCode_proto_unmarshal_msg_struct_C2SPublishWeibo_has_error :: int where [err_codes]: "MsgErrCode_proto_unmarshal_msg_struct_C2SPublishWeibo_has_error = 4010"
definition MsgErrCode_publish_weibo_content_is_illegal :: int where [err_codes]: "MsgErrCode_publish_weibo_content_is_illegal = 4011"
definition MsgErrCode_publish_weibo_text_out_of_limit :: int where [err_codes]: "MsgErrCode_publish_weibo_text_out_of_limit = 4013"
definition MsgErrCode_publish_weibo_url_out_of_limit :: int where [err_codes]: "MsgErrCode_publish_weibo_url_out_of_limit = 4015"
definition MsgErrCode_publish_weibo_server_internal_error :: int where [err_codes]: "MsgErrCode_publish_weibo_server_internal_error = 4016"
definition MsgErrCode_proto_unmarshal_msg_struct_C2SLickWeibo_has_error :: int where [err_codes]: "MsgErrCode_proto_unmarshal_msg_struct_C2SLickWeibo_has_error = 4020"
definition MsgErrCode_like_weibo_weibo_id_is_error :: int where [err_codes]: "MsgErrCode_like_weibo_weibo_id_is_error = 4021"
definition MsgErrCode_like_weibo_weibo_liker_publisher_is_not_friend :: int where [err_codes]: "MsgErrCode_like_weibo_weibo_liker_publisher_is_not_friend = 4022"
definition MsgErrCode_like_weibo_server_internal_error :: int where [err_codes]: "MsgErrCode_like_weibo_server_internal_error = 4024"
definition MsgErrCode_proto_unmarshal_msg_struct_C2SCancelLikeWeibo_has_error :: int where [err_codes]: "MsgErrCode_proto_unmarshal_msg_struct_C2SCancelLikeWeibo_has_error = 4030"
definition MsgErrCode_cancel_like_weibo_weibo_id_is_error :: int where [err_codes]: "MsgErrCode_cancel_like_weibo_weibo_id_is_error = 4031"
definition MsgErrCode_cancel_like_weibo_server_internal_error :: int where [err_codes]: "MsgErrCode_cancel_like_weibo_server_internal_error = 4032"
definition MsgErrCode_proto_unmarshal_msg_struct_C2SReplyWeibo_has_error :: int where [err_codes]: "MsgErrCode_proto_unmarshal_msg_struct_C2SReplyWeibo_has_error = 4040"
definition MsgErrCode_reply_weibo_weibo_id_is_error :: int where [err_codes]: "MsgErrCode_reply_weibo_weibo_id_is_error = 4041"
definition MsgErrCode_reply_weibo_commentor_is_not_becommentor_friend :: int where [err_codes]: "MsgErrCode_reply_weibo_commentor_is_not_becommentor_friend = 4042"
definition MsgErrCode_reply_weibo_comment_content_is_too_long :: int where [err_codes]: "MsgErrCode_reply_weibo_comment_content_is_too_long = 4043"
definition MsgErrCode_reply_weibo_server_internal_error :: int where [err_codes]: "MsgErrCode_reply_weibo_server_internal_error = 4044"
definition MsgErrCode_proto_unmarshal_msg_struct_C2SDeleteWeiboReply_has_error :: int where [err_codes]: "MsgErrCode_proto_unmarshal_msg_struct_C2SDeleteWeiboReply_has_error = 4050"
definition MsgErrCode_delete_weibo_reply_weibo_id_is_error :: int where [err_codes]: "MsgErrCode_delete_weibo_reply_weibo_id_is_error = 4051"
definition MsgErrCode_proto_unmarshal_msg_struct_C2SBrowseOwnWeibo_has_error :: int where [err_codes]: "MsgErrCode_proto_unmarshal_msg_struct_C2SBrowseOwnWeibo_has_error = 4070"
definition MsgErrCode_proto_unmarshal_msg_struct_C2SDeleteWeibo_has_error :: int where [err_codes]: "MsgErrCode_proto_unmarshal_msg_struct_C2SDeleteWeibo_has_error = 4080"
definition MsgErrCode_delete_weibo_weibo_id_is_error :: int where [err_codes]: "MsgErrCode_delete_weibo_weibo_id_is_error = 4081"
definition MsgErrCode_delete_weibo_server_internal_error :: int where [err_codes]: "MsgErrCode_delete_weibo_server_internal_error = 4082"

end
