(* ===== verification/Messages.thy ===== *)
theory Messages
  imports IM_Prelude Wire_Ids
begin

text \<open>
  The protobuf messages (common-library/proto/msg_struct) and MySQL rows (common-library/models)
  that the modelled code builds and takes apart. A pointer field that may be nil is an option.
  A message the code only reads one field of is decoded to that field, see the codec in Services.
\<close>

section \<open>Nested messages\<close>

record contact =
  ct_AccountId :: int
  ct_RemarkName :: string

record userBriefInfo =
  ub_AccountId :: int
  ub_Nickname :: string
  ub_UserName :: string
  ub_HeadPortrait :: string
  ub_Signature :: string

record deviceInfo =
  di_DeviceInfo :: string
  di_DeviceProducter :: string

record chatGroup =
  cg_ChatGroupId :: int
  cg_Creator :: int
  cg_Name :: string
  cg_Pic :: string

record chatGroupMemberRds =
  cm_UserId :: int
  cm_UserNickName :: string
  cm_Flag :: int
  cm_UserHeadPortraitUrl :: string

record agentInfo =
  ai_AgentId :: int
  ai_AgentUsername :: string
  ai_AgentportraitUrl :: string

record voiceMessage =
  vo_AudioSecond :: int
  vo_AudioUrl :: string

record videoMessage =
  vi_VideoSecond :: int
  vi_VideoUrl :: string
  vi_VideoThumbnail :: string

record fileMessage =
  fi_FileSize :: int
  fi_FileUrl :: string
  fi_FileThumbnail :: string

record cardMessage =
  ca_Id :: int
  ca_NickName :: string
  ca_Portrait :: string

record chatMessage =
  pm_ReceiverId :: int
  pm_SenderId :: int
  pm_Text :: string
  pm_SrvTimeStamp :: int
  pm_MsgType :: string
  pm_SenderName :: string
  pm_AccountIDCliTimeStamp :: string
  pm_SenderheadPortraitUrl :: string
  pm_WithDraw :: bool
  pm_SenderRemarkName :: string
  pm_VoiceMessage :: "voiceMessage option"
  pm_VideoMessage :: "videoMessage option"
  pm_FileMessage :: "fileMessage option"
  pm_CardMessage :: "cardMessage option"
  pm_SenderAgentId :: int

record groupMessage =
  gm_ReceiveGroupId :: int
  gm_SenderId :: int
  gm_Text :: string
  gm_SrvTimeStamp :: int
  gm_MsgType :: string
  gm_SenderName :: string
  gm_AccoutIdCliTimeStamp :: string
  gm_SenderheadPortraitUrl :: string
  gm_WithDraw :: bool
  gm_VoiceMessage :: "voiceMessage option"
  gm_VideoMessage :: "videoMessage option"
  gm_FileMessage :: "fileMessage option"
  gm_CardMessage :: "cardMessage option"

record reqJoinChatGroup =
  rj_ChatGroupId :: int
  rj_UserId :: int
  rj_ChatGroupReqMessage :: string
  rj_UserNickName :: string

record createChatGroup =
  cc_ChatGroupName :: string
  cc_PicChatGroup :: string
  cc_Members :: "int list"
  cc_ChatGroupId :: int
  cc_ChatGroupAdminId :: int
  cc_Topic :: string

record cancelChatGroup =
  ce_ChatGroupId :: int
  ce_UserId :: int
  ce_UserNickName :: string

record chatGroupKick =
  ki_ChatGroupId :: int
  ki_UserId :: int
  ki_UserNickName :: string

record inviteJoinChatGroup =
  ij_ChatGroupId :: int
  ij_InviterId :: int
  ij_InviterNickName :: string
  ij_InviteeId :: int
  ij_InviteeNickName :: string

text \<open>Weibo: a user's posts, their likes and comments.\<close>

record weibo =
  we_WeiboId :: int
  we_PublisherId :: int
  we_PublisherNickName :: string
  we_Type :: int
  we_Text :: string
  we_UrlBin :: string
  we_SrvTimestamp :: int
  we_BDelete :: bool

record likeWeibo =
  lw_WeiboId :: int
  lw_WeiboPublisherId :: int
  lw_LikerId :: int
  lw_LikerNickName :: string

record replyWeibo =
  rw_WeiboId :: int
  rw_WeiboPublisherId :: int
  rw_CommentedId :: int
  rw_BeCommentedId :: int
  rw_BeCommentatorId :: int
  rw_CommentatorId :: int
  rw_CommentContent :: string
  rw_CommentTimeStamp :: int

record browseWeibo =
  bw_Weibo :: weibo
  bw_LikerId :: "int list"
  bw_ReplayWeibo :: "replyWeibo list"

section \<open>Requests with more than one field\<close>

record c2sAddFriend =
  af_SenderId :: int
  af_ReceiverId :: int
  af_MsgTimestamp :: int

record c2sAgreeBecomeFriend =
  ag_SenderId :: int
  ag_ReceiverId :: int
  ag_MsgTimestamp :: int

record c2sSetFriendRemarkName =
  sr_FriendId :: int
  sr_FriendRemarkName :: string

record c2sWithdrawMessage =
  wm_ServerTimeStamp :: int
  wm_ReceiverId :: int

record c2sWithdrawGroupMessage =
  wg_ServerTimeStamp :: int
  wg_GroupId :: int

record c2sPrivateChat =
  pc_ChatMsg :: "chatMessage option"
  pc_CliTimeStamp :: int

record c2sGroupChat =
  gc_ChatMsg :: "groupMessage option"
  gc_CliTimeStamp :: int

record c2sCreateChatGroup =
  cr_ChatGroupName :: string
  cr_PicChatGroup :: string
  cr_FirendIds :: "int list"

record c2sAgreeSomeOneReqJoinChatGroup =
  aj_ChatGroupId :: int
  aj_ReqUid :: int
  aj_ReqId :: int
  aj_ReqNickName :: string

record c2sRefuseSomeOneReqJoinChatGroup =
  rf_ChatGroupId :: int
  rf_UserId :: int
  rf_ReqUid :: int
  rf_RefuseReqJoinChatGroupMessage :: string

record c2sInviteJoinChatGroup =
  iv_ChatGroupId :: int
  iv_FriendIds :: "int list"

record c2sChatGroupLastMsgTimeStamp =
  lt_SrvTimeStamp :: int
  lt_ChatGroupId :: int

record c2sGetOfflineGroupChatMsg =
  og_ChatGroupId :: int
  og_ChatGroupLastMessageTimestamp :: int
  og_MsgTimestamp :: int

record c2sPublishWeibo =
  pw_ContentType :: int
  pw_Text :: string
  pw_Url :: "string list"
  pw_WeiboId :: int

record c2sWeiboKey =
  wk_WeiboPublisherId :: int
  wk_WeiboId :: int

record c2sDeleteWeiboReply =
  dr_WeiboId :: int
  dr_WeiboPublisherId :: int
  dr_CommentId :: int

record c2sBrowseSomeoneWeibo =
  bs_LastTimeStamp :: int
  bs_FriendId :: int

record c2sFriendIds =
  fl_FriendIds :: "int list"
  fl_Flag :: bool

record mqDeleteWeibo =
  dw_FriendId :: int
  dw_WeiboId :: int

section \<open>Messages the server marshals\<close>

text \<open>
  One constructor per message type, its arguments in the order of the fields the code sets.
\<close>

text \<open>To the owner of the connection: account and session.\<close>

datatype (plugins only: size code) accMsg =
    S2CErrorCode int int string
  | S2CHeartbeat int
  | S2CDeviceInfo string
  | S2CSetUserName string
  | S2CFindUser userBriefInfo bool "string list"
  | S2CSetHeadPortrait string
  | S2CChangePassword string
  | S2CRename string
  | S2CPicWillBeSend int
  | S2CLogout string
  | S2CLoginSomewhereElse int

text \<open>Friends and private chat.\<close>

datatype (plugins only: size code) friMsg =
    S2CAddFriend int int int
  | S2CAgreeBecomeFriend int int string string
  | S2CReadFriendReq int
  | S2CRecvDeleteFriend int
  | S2CConfirmDeleteFriend int
  | S2CAddBlackList int
  | S2CMoveOutFriendBlackList int
  | S2CGetFriendBlackList "int list" string
  | S2CSetFriendRemarkName int string
  | S2CPrivateChat int int int
  | S2CHuanXinPush string
  | S2CGetOfflinePrivateChatMsg "chatMessage list" int
  | S2CWithdrawMessage int
  | S2CRecvPrivateChat chatMessage
  | S2CRecvAddFriend int int int string string
  | S2CRecvAgreeBecomeFriend int int string string
  | S2CDeleteFriend int
  | S2COtherTerminalAgreeBecomeFriend int string

text \<open>Chat groups.\<close>

datatype (plugins only: size code) grpMsg =
    S2CCreateChatGroup createChatGroup
  | S2CRecvReqJoinChatGroup reqJoinChatGroup
  | S2CRecvManagerAgreeSomeOneReqJoinChatGroup int int
  | S2CChatGroupInfo int string string int "chatGroupMemberRds list"
  | S2CRecvInviteJoinChatGroup int
  | S2CRecvCancelChatGroup int
  | S2CRecvUnChatGroup int
  | S2CRecvChatGroupKick int
  | S2CGroupChat int int int
  | S2CGetOfflineGroupChatMsg int "groupMessage list" int
  | S2CWithdrawGroupMessage int
  | S2CSomeOneReqJoinChatGroup "reqJoinChatGroup option" int
  | S2CManagerAgreeSomeOneReqJoinChatGroup int int string
  | S2CManagerAgreeJoinChatGroup int
  | S2CManagerRefuseJoinChatGroup int string
  | S2CInviteYouJoinChatGroup "inviteJoinChatGroup option"
  | S2CSomeOneCancelChatGroup "cancelChatGroup option"
  | S2CUnChatGroup int
  | S2CKickedByChatGroupManager "chatGroupKick option"
  | S2CRecvGroupChat groupMessage

text \<open>Weibo. A list of users is their brief information; a strategy is its number.\<close>

datatype (plugins only: size code) weiMsg =
    S2CRecvPublishWeibo int
  | S2CRecvDeleteWeibo string
  | S2CRecvLikeWeibo string
  | S2CCancelLikeWeibo string
  | S2CRecvReplyWeibo int
  | S2CBrowseSomeoneWeibo "browseWeibo list" int string
  | S2CBrowseAllWeibo "browseWeibo list" string
  | S2CPublishWeibo weibo
  | S2CLikeWeibo likeWeibo
  | S2CReplyWeibo replyWeibo
  | S2CDeleteWeibo int int
  | S2CGetDontLookFriendWeiboList "userBriefInfo list" string
  | S2CDontLookFriendWeibo "userBriefInfo list" string
  | S2CGetForbiddenFriendLookWeiboList "userBriefInfo list" string
  | S2CForbiddenFriendLookWeibo "userBriefInfo list" string
  | S2CIsAllowStrangerLookWeibo bool string
  | S2CAllowStrangerLookWeibo string
  | S2CGetFriendLookWeiboStrategy int string
  | S2CFriendLookWeiboStrategy string
  | S2CSetWeiboCover string
  | S2CLikeFriendWeiboCover string
  | S2CGetWeiboCover string bool string

text \<open>Between message servers, over the Redis channel.\<close>

datatype (plugins only: size code) mqMsg =
    MQAddFriend c2sAddFriend string int
  | MQAgreeBecomeFriend c2sAgreeBecomeFriend string
  | MQDeleteFriend int
  | MQPrivateChat chatMessage
  | MQCreateChatGroup createChatGroup
  | MQReqJoinChatGroup reqJoinChatGroup int
  | MQAgreeSomeOneReqJoinChatGroup int
  | MQManagerAgreeSomeOneReqJoinChatGroup int int string
  | MQRefuseSomeOneReqJoinChatGroup int int string
  | MQInviteJoinChatGroup inviteJoinChatGroup
  | MQCancelChatGroup cancelChatGroup
  | MQUnChatGroup int
  | MQChatGroupKick chatGroupKick
  | MQPublishWeibo weibo
  | MQLikeWeibo likeWeibo
  | MQReplyWeibo replyWeibo
  | MQDeleteWeibo mqDeleteWeibo

text \<open>Stored in Redis or MySQL.\<close>

datatype (plugins only: size code) stoMsg =
    PB_ChatMessage chatMessage
  | PB_GroupMessage groupMessage
  | PB_UserBriefInfo userBriefInfo
  | PB_DeviceInfo deviceInfo
  | PB_ContactList "contact list"
  | PB_BlackList "contact list"
  | PB_ChatGroup chatGroup
  | PB_Weibo weibo
  | PB_WeiboUrl "string list"
  | PB_ReplyWeibo replyWeibo

section \<open>Login and registration\<close>

record c2sRegisterAccount =
  ra_AccountId :: int
  ra_Pwd :: string
  ra_CliTimeStamp :: int
  ra_TerminalType :: int
  ra_VerificationCode :: string

record c2sLogin =
  lo_AccountId :: int
  lo_CliTimeStamp :: int
  lo_Pwd :: string
  lo_TerminalType :: int

record c2sUsernameLogin =
  ul_Username :: string
  ul_Pwd :: string
  ul_CliTimeStamp :: int
  ul_TerminalType :: int

record c2sGetVerificationCode =
  vc_PhoneNum :: int
  vc_Region :: string
  vc_Action :: int

record c2sForgetPassword =
  fp_PhoneNum :: int
  fp_Password :: string
  fp_VerificationCode :: string

record c2sThirdPlatformAccountLogin =
  tp_Token :: string
  tp_TerminalType :: int

record friendRequest =
  fr_SenderId :: int
  fr_ReqDateTime :: int
  fr_SenderNickName :: string
  fr_SenderHeadPortrait :: string

record friendVerification =
  fv_FriendId :: int
  fv_BecomeFriendDateTime :: int
  fv_FriendNickName :: string
  fv_FriendHeadPortrait :: string

record friendInfo =
  fi_AccountId :: int
  fi_NickName :: string
  fi_RemarkName :: string
  fi_PortraitUrl :: string

record personChatGroup =
  pg_ChatGroup :: "chatGroup option"
  pg_LastMsgTimestamp :: int

text \<open>
  The answer to a login. S2CLogin and S2CUsernameLogin have the same fields; ChatGroupMembers and
  ReqJoinChatGroup are never filled in. The Huanxin account is its password, None for nil.
\<close>

record s2cLogin =
  sl_AccountId :: int
  sl_Nickname :: string
  sl_PortraitUrl :: string
  sl_LastMsgTimestamp :: int
  sl_FriendReqs :: "friendRequest list"
  sl_FriendVers :: "friendVerification list"
  sl_FriendInfo :: "friendInfo list"
  sl_ChatGroups :: "personChatGroup list"
  sl_DeleteFriendId :: "int list"
  sl_HuanXinAccount :: "string option"
  sl_AgentInfo :: "agentInfo list"

datatype (plugins only: size code) lgnMsg =
    S2CRegisterAccount int string int "string option"
  | S2CLogin s2cLogin
  | S2CUsernameLogin s2cLogin
  | S2CGetVerificationCode string
  | S2CForgetPassword string
  | S2CThirdPlatformAccountLogin int string int int string

datatype pb = Acc accMsg | Fri friMsg | Grp grpMsg | Wei weiMsg | MQ mqMsg | Sto stoMsg | Lgn lgnMsg

section \<open>MySQL rows\<close>

text \<open>The rows that are read as a whole.\<close>

record weiboRow =
  wr_AccountId :: int
  wr_PhotosBin :: string
  wr_MsgContent :: string
  wr_WeiboId :: int
  wr_MsgDatetime :: int
  wr_ThumbupTimes :: int

record weiboCover =
  wc_AccountId :: int
  wc_CoverUrl :: string
  wc_DateTime :: int
  wc_ThumbupTimes :: int

record chatGroupReqJoinLog =
  jl_Id :: int
  jl_ChatGroupId :: int
  jl_RequesterId :: int
  jl_RequestMessage :: string
  jl_Processed :: int
  jl_ReqUid :: int
  jl_ReqDate :: int

text \<open>
  The xorm models that the handlers insert or delete; an unset time column of a deletion
  condition is left out. Times are nanoseconds.
\<close>

datatype (plugins only: size code) row =
    FriendReq int int int              \<comment> \<open>receiver, sender, time\<close>
  | FriendReqKey int int               \<comment> \<open>receiver, sender: a deletion condition\<close>
  | FriendVerification int int int     \<comment> \<open>friend, account, time\<close>
  | FriendDelete int int int           \<comment> \<open>sender, receiver, time\<close>
  | ChatGroupRow chatGroup
  | ChatGroupMembers "(int \<times> int \<times> string \<times> int \<times> int) list"
      \<comment> \<open>account, group, nick name, join time, last message timestamp\<close>
  | ChatGroupCreateLog int int int     \<comment> \<open>group, creator, time\<close>
  | ChatGroupDestroyLog int int int
  | ChatGroupMemberQuitLog int int int int int
      \<comment> \<open>group, owner, member, time, flag\<close>
  | ChatGroupReqJoinLog chatGroupReqJoinLog
  | WeiboRow weiboRow
  | WeiboActionLog int int int int int \<comment> \<open>account, weibo, action, friend, time\<close>
  | WeiboLike int int int int          \<comment> \<open>account, weibo, liker, time\<close>
  | WeiboReply int int int int int int string int
      \<comment> \<open>account, weibo, comment, sender, answered comment, receiver, text, time\<close>
  | WeiboDeleted weiboRow int          \<comment> \<open>the row, time of deletion\<close>
  | WeiboCover weiboCover
  | WeiboCoverDeleteLog weiboCover
  | AccountKey int
  | ThirdPlatformRow int string int string string  \<comment> \<open>id, name, registration time, key, password\<close>
  | AgentAccountRow int string string string int int
      \<comment> \<open>account, nick name, user name, password, agent, creation time\<close>
  | AgentClientRow int int int         \<comment> \<open>client, agent, platform\<close>
  | VersionRow "string list"
  | AccountRow int string string int   \<comment> \<open>account, nick name, password, creation time\<close>
  | ChatGroupKey int

end
