(* ===== verification/Interfaces.thy ===== *)
theory Interfaces
  imports IM_Prelude
begin

text \<open>
  The contracts between components, as locales: what the client of an interface calls and
  which laws it may rely on. Each is interpreted in the theory of the component that provides
  the operations, on the definitions of that component.
\<close>

section \<open>Programs that keep an invariant\<close>

text \<open>
  \<open>keeps I m\<close>: whatever the program does, it leaves the state in \<open>I\<close>. The rules follow the
  structure of a program, so that a handler's proof is one pass over its body.
\<close>

definition keeps :: "('s \<Rightarrow> bool) \<Rightarrow> ('s, 'a) state \<Rightarrow> bool" where
  "keeps I m \<longleftrightarrow> (\<forall>s. I s \<longrightarrow> I (snd (run_state m s)))"

named_theorems keeps_rules \<open>structural rules for invariants of programs\<close>

lemma keepsI: "(\<And>s. I s \<Longrightarrow> I (snd (run_state m s))) \<Longrightarrow> keeps I m"
  by (simp add: keeps_def)

lemma keepsD: "keeps I m \<Longrightarrow> I s \<Longrightarrow> I (snd (run_state m s))"
  by (simp add: keeps_def)

lemma keeps_wp: "keeps I m \<longleftrightarrow> (\<forall>s. I s \<longrightarrow> wp m (\<lambda>_. I) s)"
  by (simp add: keeps_def wp_snd)

lemma keeps_return [keeps_rules]: "keeps I (ret a)"
  by (simp add: keeps_def)

lemma keeps_gets [keeps_rules]: "keeps I (gets f)"
  by (simp add: keeps_def)

lemma keeps_bind [keeps_rules]:
  "keeps I m \<Longrightarrow> (\<And>a. keeps I (f a)) \<Longrightarrow> keeps I (State_Monad.bind m f)"
  by (auto simp: keeps_def split: prod.splits)

lemma keeps_if [keeps_rules]: "keeps I m \<Longrightarrow> keeps I n \<Longrightarrow> keeps I (if b then m else n)"
  by simp

lemma keeps_whenM [keeps_rules]: "keeps I m \<Longrightarrow> keeps I (whenM b m)"
  by (simp add: keeps_def)

lemma keeps_option [keeps_rules]:
  "keeps I m \<Longrightarrow> (\<And>x. keeps I (f x)) \<Longrightarrow> keeps I (case y of None \<Rightarrow> m | Some x \<Rightarrow> f x)"
  by (cases y) auto

lemma keeps_prod [keeps_rules]:
  "(\<And>x y. keeps I (f x y)) \<Longrightarrow> keeps I (case p of (x, y) \<Rightarrow> f x y)"
  by (cases p) auto

lemma keeps_sum [keeps_rules]:
  "(\<And>x. keeps I (f x)) \<Longrightarrow> (\<And>x. keeps I (g x)) \<Longrightarrow> keeps I (case p of Inl x \<Rightarrow> f x | Inr x \<Rightarrow> g x)"
  by (cases p) auto

lemma keeps_let [keeps_rules]: "(\<And>x. keeps I (f x)) \<Longrightarrow> keeps I (let x = a in f x)"
  by simp

lemma keeps_forM [keeps_rules]: "(\<And>x. keeps I (f x)) \<Longrightarrow> keeps I (forM xs f)"
  by (induction xs) (auto intro!: keeps_rules)

lemma keeps_forUntil [keeps_rules]: "(\<And>x. keeps I (f x)) \<Longrightarrow> keeps I (forUntil xs f)"
  by (induction xs) (auto intro!: keeps_rules)

section \<open>A channel with a bounded buffer and a non-blocking send\<close>

locale bounded_channel =
  fixes items :: "'s \<Rightarrow> 'm list"
    and send :: "'m \<Rightarrow> 's \<Rightarrow> 's"
    and cap :: nat
  assumes items_send:
    "items (send x s) = (if length (items s) < cap then items s @ [x] else items s)"
begin

lemma items_sends: "items (fold send xs s) = items s @ take (cap - length (items s)) xs"
proof (induction xs arbitrary: s)
  case (Cons x xs)
  show ?case
  proof (cases "length (items s) < cap")
    case True
    then have "cap - length (items s) = Suc (cap - Suc (length (items s)))" by simp
    with True Cons show ?thesis by (simp add: items_send)
  qed (simp add: Cons items_send)
qed simp

lemma bounded: "length (items s) \<le> cap \<Longrightarrow> length (items (fold send xs s)) \<le> cap"
  by (simp add: items_sends)

lemma no_loss: "length (items s) + length xs \<le> cap \<Longrightarrow> items (fold send xs s) = items s @ xs"
  by (simp add: items_sends)

end

section \<open>A set of members with insertion and removal\<close>

locale membership =
  fixes mem :: "'k \<Rightarrow> 's \<Rightarrow> bool"
    and add :: "'k \<Rightarrow> 's \<Rightarrow> 's"
    and del :: "'k \<Rightarrow> 's \<Rightarrow> 's"
  assumes mem_add: "mem j (add k s) \<longleftrightarrow> j = k \<or> mem j s"
    and mem_del: "mem j (del k s) \<longleftrightarrow> j \<noteq> k \<and> mem j s"
begin

text \<open>The compensating action of a failed transaction.\<close>

lemma undo_add: "\<not> mem k s \<Longrightarrow> mem j (del k (add k s)) \<longleftrightarrow> mem j s"
  by (auto simp: mem_add mem_del)

lemma undo_del: "mem k s \<Longrightarrow> mem j (add k (del k s)) \<longleftrightarrow> mem j s"
  by (auto simp: mem_add mem_del)

lemma mem_adds: "mem j (fold add ks s) \<longleftrightarrow> j \<in> set ks \<or> mem j s"
  by (induction ks arbitrary: s) (auto simp: mem_add)

lemma mem_dels: "mem j (fold del ks s) \<longleftrightarrow> j \<notin> set ks \<and> mem j s"
  by (induction ks arbitrary: s) (auto simp: mem_del)

end

text \<open>The same, where what else the state holds is not touched.\<close>

locale framed_membership = membership mem add del
  for mem :: "'k \<Rightarrow> 's \<Rightarrow> bool" and add del +
  fixes rest :: "'s \<Rightarrow> 'r"
  assumes rest_add: "rest (add k s) = rest s"
    and rest_del: "rest (del k s) = rest s"
begin

lemma rest_undo: "rest (del k (add k s)) = rest s" "rest (add k (del k s)) = rest s"
  by (simp_all add: rest_add rest_del)

lemma rest_adds: "rest (fold add ks s) = rest s"
  by (induction ks arbitrary: s) (simp_all add: rest_add)

end

section \<open>A high-water mark\<close>

text \<open>
  A mark per key that a report moves only upwards, and only for a key that has one. After any
  reports it is the greatest of what it was and what was reported.
\<close>

locale high_water =
  fixes mark :: "'k \<Rightarrow> 's \<Rightarrow> int option"
    and report :: "'k \<Rightarrow> int \<Rightarrow> 's \<Rightarrow> 's"
  assumes mark_report:
    "mark j (report k t s) = (if j = k then map_option (max t) (mark k s) else mark j s)"
begin

lemma mark_reports:
  "mark k (fold (\<lambda>(j, t). report j t) xs s) =
     map_option (\<lambda>v. fold max (map snd (filter (\<lambda>x. fst x = k) xs)) v) (mark k s)"
proof (induction xs arbitrary: s)
  case Nil
  then show ?case by (simp add: option.map_ident)
next
  case (Cons x xs)
  obtain j t where x: "x = (j, t)" by (cases x)
  show ?case
    by (cases "mark k s"; cases "j = k") (simp_all add: x Cons mark_report max.commute)
qed

lemma mark_mono: "mark k s = Some v \<Longrightarrow> \<exists>w \<ge> v. mark k (fold (\<lambda>(j, t). report j t) xs s) = Some w"
proof -
  have "v \<le> fold max ts v" for ts :: "int list"
    by (induction ts arbitrary: v) (auto intro: order_trans[OF max.cobounded2])
  then show "mark k s = Some v \<Longrightarrow> ?thesis" by (simp add: mark_reports)
qed

end

section \<open>Keyed stores\<close>

text \<open>A store where the first value put under a key stays: LoadOrStore of a sync.Map.\<close>

locale first_wins =
  fixes get :: "'k \<Rightarrow> 's \<Rightarrow> 'v option"
    and put :: "'k \<Rightarrow> 'v \<Rightarrow> 's \<Rightarrow> 's"
  assumes get_put: "get j (put k v s) = (if j = k \<and> get k s = None then Some v else get j s)"
begin

lemma get_puts:
  "get k (fold (\<lambda>(j, v). put j v) xs s) = (case get k s of Some v \<Rightarrow> Some v | None \<Rightarrow> map_of xs k)"
  by (induction xs arbitrary: s) (auto simp: get_put split: option.splits)

lemma put_stays: "get k s = Some v \<Longrightarrow> get k (fold (\<lambda>(j, v). put j v) xs s) = Some v"
  by (simp add: get_puts)

end

text \<open>A store where the last value put under a key counts, until it is removed.\<close>

locale last_wins =
  fixes get :: "'k \<Rightarrow> 's \<Rightarrow> 'v option"
    and put :: "'k \<Rightarrow> 'v \<Rightarrow> 's \<Rightarrow> 's"
    and remove :: "'k \<Rightarrow> 's \<Rightarrow> 's"
  assumes get_put: "get j (put k v s) = (if j = k then Some v else get j s)"
    and get_remove: "get j (remove k s) = (if j = k then None else get j s)"
begin

lemma get_puts:
  "get k (fold (\<lambda>(j, v). put j v) xs s) = (case map_of (rev xs) k of Some v \<Rightarrow> Some v | None \<Rightarrow> get k s)"
  by (induction xs arbitrary: s) (auto simp: get_put map_add_def map_of_append split: option.splits)

lemma get_removes: "get k (fold remove ks s) = (if k \<in> set ks then None else get k s)"
  by (induction ks arbitrary: s) (auto simp: get_remove)

end

end
