(* ===== verification/World.thy ===== *)
theory World
  imports Messages Interfaces "HOL-Library.Word"
begin

unbundle bit_operations_syntax

text \<open>
  The state of a message server process and the services it calls.

  Redis, MySQL, the push service and the clock are not part of the repository. A call to one
  of them is recorded in the history of the process, and its answer is an arbitrary
  function of that history and the call: the oracle \<open>svc\<close>, a parameter of every definition.
  So the answers may change between two equal calls, and every theorem holds for whatever
  the services answer, unless it says what it assumes. Protobuf and JSON coding (third-party
  and generated code) are parameters too. Log output is left out.
\<close>

section \<open>Service calls\<close>

datatype goerr = ErrNil | ErrNoRows | Err string

text \<open>An \<open>interface{}\<close> argument of a Redis command.\<close>

datatype rarg = RStr string | RInt int | RNil

text \<open>
  The methods of redisSession.RedisSession. The first argument is the key prefix of the
  session, the second the key. Durations are nanoseconds.
\<close>

datatype (plugins only: size code) rcmd =
    RGet string string
  | RSet string string rarg
  | RSetex string string int rarg
  | RDel string string
  | RExists string string
  | RExpire string string int
  | RAddSet string string rarg
  | RRemSet string string rarg
  | RIsSetMember string string rarg
  | RSetMembers string string
  | RZAdd string string rarg rarg
  | RZRange string string rarg rarg
  | RZRem string string rarg
  | RHGet string string string
  | RHSet string string string rarg
  | RHMSet string string "(string, string) fmap"
  | RHGetAll string string
  | RHDel string string "string list"
  | RMGet string "string list"
  | RKeys string string
  | RDo string string "rarg list"

datatype sqlarg = AInt int | AStr string

datatype (plugins only: size code) call =
    Rds rcmd
  | SqlExec string "sqlarg list"
  | SqlQueryRow string "sqlarg list"
  | SqlQuery string "sqlarg list"
  | OrmInsert row
  | OrmDelete row
  | OrmExist row
  | OrmGet string "sqlarg list"
  | OrmGetBean int string string       \<comment> \<open>AccountId, UserName and Pwd of an Account\<close>
  | OrmGetVersion
  | OrmUpdate row
  | OrmWhereExist string "sqlarg list"
  | TxBegin
  | TxExec string "sqlarg list"
  | TxDBExec string "sqlarg list"
  | TxInsert row
  | TxGet string "sqlarg list"
  | TxUpdate row
  | TxCommit
  | TxRollback
  | TxClose
  | Now
  | Sleep int
  | Push "string list" "string list"
  | SmsSend string string bool
  | HuanXinToken
  | HuanXinCreate string string string string
  | SocketWrite nat string
  | SocketClose nat

text \<open>A call that may change what another server or a later login sees.\<close>

fun rds_write :: "rcmd \<Rightarrow> bool" where
  "rds_write (RGet _ _) = False"
| "rds_write (RExists _ _) = False"
| "rds_write (RIsSetMember _ _ _) = False"
| "rds_write (RSetMembers _ _) = False"
| "rds_write (RZRange _ _ _ _) = False"
| "rds_write (RHGet _ _ _) = False"
| "rds_write (RHGetAll _ _) = False"
| "rds_write (RMGet _ _) = False"
| "rds_write (RKeys _ _) = False"
| "rds_write _ = True"

fun is_write :: "call \<Rightarrow> bool" where
  "is_write (Rds r) = rds_write r"
| "is_write (SqlQueryRow _ _) = False"
| "is_write (SqlQuery _ _) = False"
| "is_write (OrmExist _) = False"
| "is_write (OrmGet _ _) = False"
| "is_write (OrmGetBean _ _ _) = False"
| "is_write OrmGetVersion = False"
| "is_write (OrmWhereExist _ _) = False"
| "is_write HuanXinToken = False"
| "is_write (TxGet _ _) = False"
| "is_write TxBegin = False"
| "is_write TxRollback = False"
| "is_write TxClose = False"
| "is_write Now = False"
| "is_write (Sleep _) = False"
| "is_write _ = True"

section \<open>Accounts and services\<close>

record account =
  ac_AccountId :: int
  ac_UserName :: string
  ac_NickName :: string
  ac_ContactList :: string
  ac_BlackList :: string
  ac_LastMsgTimestamp :: int
  ac_HeadPortrait :: string
  ac_Pwd :: string
  ac_Status :: int
  ac_AgentId :: int

type_synonym 'a decoder = "string \<Rightarrow> bool \<times> 'a"

text \<open>
  The codec: \<open>marshal\<close> is proto.Marshal (None when it returns an error); each \<open>un_X\<close> is
  function.ProtoUnmarshal into a fresh message of type X: whether it succeeded, and the message
  (after a failure, what had been filled in). Message types with the same fields share a
  decoder: \<open>un_FriendId\<close>, \<open>un_ChatGroupId\<close>, \<open>un_WeiboId\<close> and \<open>un_OneString\<close> are those of one field,
  \<open>un_Empty\<close> those of none.
\<close>

record codec =
  marshal :: "pb \<Rightarrow> string option"
  un_C2SAddFriend :: "c2sAddFriend decoder"
  un_C2SAgreeBecomeFriend :: "c2sAgreeBecomeFriend decoder"
  un_C2SReadFriendReq :: "int decoder"
  un_FriendId :: "int decoder"
  un_C2SGetFriendBlackList :: "unit decoder"
  un_C2SSetFriendRemarkName :: "c2sSetFriendRemarkName decoder"
  un_C2SLastMsgTimeStamp :: "int decoder"
  un_C2SPrivateChat :: "c2sPrivateChat decoder"
  un_C2SGetOfflinePrivateChatMsg :: "bool decoder"
  un_C2SWithdrawMessage :: "c2sWithdrawMessage decoder"
  un_C2SHeartbeat :: "int decoder"
  un_C2SDeviceInfo :: "deviceInfo option decoder"
  un_OneString :: "string decoder"
  un_C2SCreateChatGroup :: "c2sCreateChatGroup decoder"
  un_C2SReqJoinChatGroup :: "reqJoinChatGroup option decoder"
  un_C2SAgreeSomeOneReqJoinChatGroup :: "c2sAgreeSomeOneReqJoinChatGroup decoder"
  un_C2SRefuseSomeOneReqJoinChatGroup :: "c2sRefuseSomeOneReqJoinChatGroup decoder"
  un_ChatGroupId :: "int decoder"
  un_C2SInviteJoinChatGroup :: "c2sInviteJoinChatGroup decoder"
  un_C2SChatGroupKick :: "chatGroupKick option decoder"
  un_C2SGroupChat :: "c2sGroupChat decoder"
  un_C2SChatGroupLastMsgTimeStamp :: "c2sChatGroupLastMsgTimeStamp decoder"
  un_C2SGetOfflineGroupChatMsg :: "c2sGetOfflineGroupChatMsg decoder"
  un_C2SWithdrawGroupMessage :: "c2sWithdrawGroupMessage decoder"
  un_C2SRegisterAccount :: "c2sRegisterAccount decoder"
  un_C2SLogin :: "c2sLogin decoder"
  un_C2SUsernameLogin :: "c2sUsernameLogin decoder"
  un_C2SGetVerificationCode :: "c2sGetVerificationCode decoder"
  un_C2SForgetPassword :: "c2sForgetPassword decoder"
  un_C2SThirdPlatformAccountLogin :: "c2sThirdPlatformAccountLogin decoder"
  un_MQPrivateChat :: "chatMessage option decoder"
  un_MQAddFriend :: "(c2sAddFriend option \<times> string) decoder"
  un_MQAgreeBecomeFriend :: "(c2sAgreeBecomeFriend option \<times> string) decoder"
  un_MQCreateChatGroup :: "createChatGroup option decoder"
  un_MQReqJoinChatGroup :: "(reqJoinChatGroup option \<times> int) decoder"
  un_MQManagerAgree :: "(int \<times> int \<times> string) decoder"
  un_MQRefuse :: "(int \<times> int \<times> string) decoder"
  un_MQInviteJoinChatGroup :: "inviteJoinChatGroup option decoder"
  un_MQCancelChatGroup :: "cancelChatGroup option decoder"
  un_MQChatGroupKick :: "chatGroupKick option decoder"
  un_C2SPublishWeibo :: "c2sPublishWeibo decoder"
  un_WeiboId :: "int decoder"
  un_C2SWeiboKey :: "c2sWeiboKey decoder"
  un_C2SReplyWeibo :: "replyWeibo option decoder"
  un_C2SDeleteWeiboReply :: "c2sDeleteWeiboReply decoder"
  un_C2SBrowseSomeoneWeibo :: "c2sBrowseSomeoneWeibo decoder"
  un_C2SBrowseAllWeibo :: "int decoder"
  un_Empty :: "unit decoder"
  un_C2SFriendIds :: "c2sFriendIds decoder"
  un_C2SAllow :: "bool decoder"
  un_C2SStrategy :: "int decoder"
  un_MQPublishWeibo :: "weibo option decoder"
  un_MQLikeWeibo :: "likeWeibo option decoder"
  un_MQReplyWeibo :: "replyWeibo option decoder"
  un_MQDeleteWeibo :: "mqDeleteWeibo decoder"
  un_Weibo :: "weibo decoder"
  un_WeiboUrl :: "string list decoder"
  un_ReplyWeibo :: "replyWeibo decoder"
  un_UserBriefInfo :: "userBriefInfo decoder"
  un_DeviceInfo :: "deviceInfo decoder"
  un_ChatGroup :: "chatGroup decoder"
  un_ChatMessage :: "chatMessage decoder"
  un_GroupMessage :: "groupMessage decoder"
  un_ContactList :: "contact list decoder"
  un_BlackList :: "contact list decoder"
  json_Member :: "chatGroupMemberRds \<Rightarrow> string option"
  unjson_Member :: "string \<Rightarrow> chatGroupMemberRds option"
  unjson_BriefInfo :: "string \<Rightarrow> userBriefInfo option"
  unjson_CreateUser :: "string \<Rightarrow> bool"

text \<open>
  The oracle: what each kind of call answers, given the calls made before it. A Go
  \<open>(value, error)\<close> result is a pair, its error None for nil; a nil slice is None.
\<close>

record svc = codec +
  rStatus :: "call list \<Rightarrow> rcmd \<Rightarrow> goerr option"
  rInt :: "call list \<Rightarrow> rcmd \<Rightarrow> int \<times> goerr option"
  rStr :: "call list \<Rightarrow> rcmd \<Rightarrow> string \<times> goerr option"
  rList :: "call list \<Rightarrow> rcmd \<Rightarrow> string list option \<times> goerr option"
  rBool :: "call list \<Rightarrow> rcmd \<Rightarrow> bool"
  dbErr :: "call list \<Rightarrow> call \<Rightarrow> goerr option"
  dbNum :: "call list \<Rightarrow> call \<Rightarrow> int \<times> goerr option"
  dbBool :: "call list \<Rightarrow> call \<Rightarrow> bool \<times> goerr option"
  dbInt :: "call list \<Rightarrow> call \<Rightarrow> int \<times> goerr option"
  dbStr :: "call list \<Rightarrow> call \<Rightarrow> string"
  dbRowsII :: "call list \<Rightarrow> call \<Rightarrow> (int \<times> int) option list \<times> goerr option"
  dbRowsI :: "call list \<Rightarrow> call \<Rightarrow> int option list \<times> goerr option"
  dbRowsIS :: "call list \<Rightarrow> call \<Rightarrow> (int \<times> string) list option"
  dbAccount :: "call list \<Rightarrow> call \<Rightarrow> account option \<times> goerr option"
  dbGroup :: "call list \<Rightarrow> call \<Rightarrow> chatGroup option \<times> goerr option"
  dbWeibo :: "call list \<Rightarrow> call \<Rightarrow> (bool \<times> weiboRow) \<times> goerr option"
  dbCover :: "call list \<Rightarrow> call \<Rightarrow> (bool \<times> weiboCover) \<times> goerr option"
  dbJoinLog :: "call list \<Rightarrow> call \<Rightarrow> (bool \<times> chatGroupReqJoinLog) \<times> goerr option"
  clock :: "call list \<Rightarrow> int"
  pushErr :: "call list \<Rightarrow> call \<Rightarrow> goerr option"
  smsErr :: "call list \<Rightarrow> call \<Rightarrow> goerr option"
  huanXinToken :: "call list \<Rightarrow> (string \<times> int) option"
  huanXinCreate :: "call list \<Rightarrow> call \<Rightarrow> string \<times> goerr option"
  randIntn :: "call list \<Rightarrow> nat \<Rightarrow> nat"
  randName :: "call list \<Rightarrow> string"
  formatTime :: "int \<Rightarrow> string"
  remoteAddr :: "nat \<Rightarrow> string"
  hashNode :: "string \<Rightarrow> string"
  addPrefix :: "string \<Rightarrow> string \<Rightarrow> string"
  rangeInts :: "call list \<Rightarrow> int list \<Rightarrow> int list"
  rangeStrs :: "call list \<Rightarrow> string list \<Rightarrow> string list"

section \<open>The state of the process\<close>

text \<open>
  A \<open>*Client\<close> is an address of the heap \<open>clients\<close>. A channel that is only ever closed is
  a boolean, the two message channels are their buffered contents.
\<close>

record client =
  account :: account
  strAccount :: string
  chanToClientMsg :: "string list"
  chanRecvMsg :: "string list"
  isClosed :: bool
  closeSignal :: bool
  doneSignal :: bool
  mapContact :: "(int, contact) fmap"
  agentInfoC :: agentInfo
  mapMember :: "(int, agentInfo) fmap"
  mapBlackList :: "(int, contact) fmap"
  mapChatGroup :: "(int, chatGroup) fmap"
  mapChatGroupLastMsgTimestamp :: "(int, int) fmap"
  loginTimestamp :: int
  serialNum :: int
  terminalType :: int

text \<open>The functions that the two subscriber systems register with the event manager.\<close>

datatype evHandler =
    OnPrivateChat | OnAgreeBecomeFriend | OnReadFriendReq | OnC2SLastMsgTimeStamp
  | OnDeleteFriend | OnConfirmDeleteFriend | OnC2SAddFriendBlackList
  | OnS2CMoveOutFriendBlackList | OnS2CSetFriendRemarkName | OnPrivateChatWithDrawMessage
  | OnClientLogin | OnClientLogout | OnJoinChatGroup | OnUnChatGroup | OnCancelChatGroup
  | OnC2SGroupChat

record snowflake =
  machineID :: "64 word"
  sn :: "64 word"
  lastTimeStamp :: "64 word"

record server =
  clients :: "nat \<Rightarrow> client"
  mapOnlineClient :: "(int, (int, nat) fmap) fmap"
  mmLocalOnlineGroupMember :: "(int, int fset) fmap"
  localTopic :: string
  handlers :: "(int, (string, evHandler) fmap) fmap"
  snowflakeSt :: snowflake
  hist :: "call list"

text \<open>What a handler does in the end: return, or panic.\<close>

datatype outcome = Returned | Panicked

type_synonym handler = "(server, outcome) state"

section \<open>Primitive programs\<close>

definition ask :: "call \<Rightarrow> (call list \<Rightarrow> 'r) \<Rightarrow> (server, 'r) state" where
  "ask q f = State (\<lambda>s. (f (hist s), s\<lparr>hist := hist s @ [q]\<rparr>))"

lemma run_ask [simp, run_simps]: "run_state (ask q f) s = (f (hist s), s\<lparr>hist := hist s @ [q]\<rparr>)"
  by (simp add: ask_def)

lemma wp_ask [wp_simps]: "wp (ask q f) Q = (\<lambda>s. Q (f (hist s)) (s\<lparr>hist := hist s @ [q]\<rparr>))"
  by (simp add: wp_def fun_eq_iff)

lemma keeps_ask [keeps_rules]:
  "(\<And>s h. I s \<Longrightarrow> I (s\<lparr>hist := h\<rparr>)) \<Longrightarrow> keeps I (ask q f)"
  by (simp add: keeps_def)

definition cli :: "nat \<Rightarrow> (server, client) state" where
  "cli c = gets (\<lambda>s. clients s c)"

definition modCli :: "nat \<Rightarrow> (client \<Rightarrow> client) \<Rightarrow> (server, unit) state" where
  "modCli c f = modify (\<lambda>s. s\<lparr>clients := (clients s)(c := f (clients s c))\<rparr>)"

lemma run_cli [simp, run_simps]: "run_state (cli c) s = (clients s c, s)"
  by (simp add: cli_def)

lemma run_modCli [simp, run_simps]:
  "run_state (modCli c f) s = ((), s\<lparr>clients := (clients s)(c := f (clients s c))\<rparr>)"
  by (simp add: modCli_def)

lemma wp_cli [wp_simps]: "wp (cli c) Q = (\<lambda>s. Q (clients s c) s)"
  by (simp add: wp_def fun_eq_iff)

lemma wp_modCli [wp_simps]:
  "wp (modCli c f) Q = (\<lambda>s. Q () (s\<lparr>clients := (clients s)(c := f (clients s c))\<rparr>))"
  by (simp add: wp_def fun_eq_iff)

definition GetAccountId :: "nat \<Rightarrow> (server, int) state" where
  "GetAccountId c = gets (\<lambda>s. ac_AccountId (account (clients s c)))"

definition GetStrAccount :: "nat \<Rightarrow> (server, string) state" where
  "GetStrAccount c = gets (\<lambda>s. strAccount (clients s c))"

lemma run_GetAccountId [simp, run_simps]:
  "run_state (GetAccountId c) s = (ac_AccountId (account (clients s c)), s)"
  by (simp add: GetAccountId_def)

lemma run_GetStrAccount [simp, run_simps]:
  "run_state (GetStrAccount c) s = (strAccount (clients s c), s)"
  by (simp add: GetStrAccount_def)

lemma wp_GetAccountId [wp_simps]:
  "wp (GetAccountId c) Q = (\<lambda>s. Q (ac_AccountId (account (clients s c))) s)"
  by (simp add: wp_def fun_eq_iff)

lemma wp_GetStrAccount [wp_simps]:
  "wp (GetStrAccount c) Q = (\<lambda>s. Q (strAccount (clients s c)) s)"
  by (simp add: wp_def fun_eq_iff)

section \<open>Calls with typed answers\<close>

definition rdsStatus :: "svc \<Rightarrow> rcmd \<Rightarrow> (server, goerr option) state" where
  "rdsStatus srv r = ask (Rds r) (\<lambda>h. rStatus srv h r)"

definition rdsInt :: "svc \<Rightarrow> rcmd \<Rightarrow> (server, int \<times> goerr option) state" where
  "rdsInt srv r = ask (Rds r) (\<lambda>h. rInt srv h r)"

definition rdsStr :: "svc \<Rightarrow> rcmd \<Rightarrow> (server, string \<times> goerr option) state" where
  "rdsStr srv r = ask (Rds r) (\<lambda>h. rStr srv h r)"

definition rdsList :: "svc \<Rightarrow> rcmd \<Rightarrow> (server, string list option \<times> goerr option) state" where
  "rdsList srv r = ask (Rds r) (\<lambda>h. rList srv h r)"

definition rdsBool :: "svc \<Rightarrow> rcmd \<Rightarrow> (server, bool) state" where
  "rdsBool srv r = ask (Rds r) (\<lambda>h. rBool srv h r)"

definition db :: "svc \<Rightarrow> call \<Rightarrow> (server, goerr option) state" where
  "db srv q = ask q (\<lambda>h. dbErr srv h q)"

definition dbInsert :: "svc \<Rightarrow> call \<Rightarrow> (server, int \<times> goerr option) state" where
  "dbInsert srv q = ask q (\<lambda>h. dbNum srv h q)"

definition dbExists :: "svc \<Rightarrow> row \<Rightarrow> (server, bool \<times> goerr option) state" where
  "dbExists srv r = ask (OrmExist r) (\<lambda>h. dbBool srv h (OrmExist r))"

definition dbScanInt :: "svc \<Rightarrow> call \<Rightarrow> (server, int \<times> goerr option) state" where
  "dbScanInt srv q = ask q (\<lambda>h. dbInt srv h q)"

definition dbGetGroup :: "svc \<Rightarrow> call \<Rightarrow> (server, chatGroup option \<times> goerr option) state" where
  "dbGetGroup srv q = ask q (\<lambda>h. dbGroup srv h q)"

definition dbGetAccount :: "svc \<Rightarrow> call \<Rightarrow> (server, account option \<times> goerr option) state" where
  "dbGetAccount srv q = ask q (\<lambda>h. dbAccount srv h q)"

text \<open>xorm's Get into a fresh row: whether there is one, and the row.\<close>

definition dbGetWeibo :: "svc \<Rightarrow> call \<Rightarrow> (server, (bool \<times> weiboRow) \<times> goerr option) state" where
  "dbGetWeibo srv q = ask q (\<lambda>h. dbWeibo srv h q)"

definition dbGetCover :: "svc \<Rightarrow> call \<Rightarrow> (server, (bool \<times> weiboCover) \<times> goerr option) state" where
  "dbGetCover srv q = ask q (\<lambda>h. dbCover srv h q)"

definition dbGetJoinLog ::
    "svc \<Rightarrow> call \<Rightarrow> (server, (bool \<times> chatGroupReqJoinLog) \<times> goerr option) state" where
  "dbGetJoinLog srv q = ask q (\<lambda>h. dbJoinLog srv h q)"

definition pushM :: "svc \<Rightarrow> string list \<Rightarrow> string list \<Rightarrow> (server, goerr option) state" where
  "pushM srv android ios = ask (Push android ios) (\<lambda>h. pushErr srv h (Push android ios))"

definition timeNow :: "svc \<Rightarrow> (server, int) state" where
  "timeNow srv = ask Now (clock srv)"

text \<open>Go's integer division truncates toward zero; \<open>UnixNano() / 1e3\<close> is microseconds.\<close>

definition micros :: "int \<Rightarrow> int" where
  "micros t = sgn t * (\<bar>t\<bar> div 1000)"

lemmas ask_defs [wp_simps] = rdsStatus_def rdsInt_def rdsStr_def rdsList_def rdsBool_def
  db_def dbInsert_def dbExists_def dbScanInt_def dbGetGroup_def dbGetAccount_def dbGetWeibo_def
  dbGetCover_def dbGetJoinLog_def pushM_def timeNow_def

lemma run_db [run_simps]: "run_state (db srv q) s = (dbErr srv (hist s) q, s\<lparr>hist := hist s @ [q]\<rparr>)"
  by (simp add: db_def)

lemma run_rdsInt [run_simps]:
  "run_state (rdsInt srv r) s = (rInt srv (hist s) r, s\<lparr>hist := hist s @ [Rds r]\<rparr>)"
  by (simp add: rdsInt_def)

lemma run_rdsStr [run_simps]:
  "run_state (rdsStr srv r) s = (rStr srv (hist s) r, s\<lparr>hist := hist s @ [Rds r]\<rparr>)"
  by (simp add: rdsStr_def)

lemma run_rdsStatus [run_simps]:
  "run_state (rdsStatus srv r) s = (rStatus srv (hist s) r, s\<lparr>hist := hist s @ [Rds r]\<rparr>)"
  by (simp add: rdsStatus_def)

lemma run_rdsBool [run_simps]:
  "run_state (rdsBool srv r) s = (rBool srv (hist s) r, s\<lparr>hist := hist s @ [Rds r]\<rparr>)"
  by (simp add: rdsBool_def)

lemma run_rdsList [run_simps]:
  "run_state (rdsList srv r) s = (rList srv (hist s) r, s\<lparr>hist := hist s @ [Rds r]\<rparr>)"
  by (simp add: rdsList_def)

lemma run_dbInsert [run_simps]:
  "run_state (dbInsert srv q) s = (dbNum srv (hist s) q, s\<lparr>hist := hist s @ [q]\<rparr>)"
  by (simp add: dbInsert_def)

lemma run_dbScanInt [run_simps]:
  "run_state (dbScanInt srv q) s = (dbInt srv (hist s) q, s\<lparr>hist := hist s @ [q]\<rparr>)"
  by (simp add: dbScanInt_def)

lemma run_dbExists [run_simps]:
  "run_state (dbExists srv r) s =
     (dbBool srv (hist s) (OrmExist r), s\<lparr>hist := hist s @ [OrmExist r]\<rparr>)"
  by (simp add: dbExists_def)

lemma run_dbGetGroup [run_simps]:
  "run_state (dbGetGroup srv q) s = (dbGroup srv (hist s) q, s\<lparr>hist := hist s @ [q]\<rparr>)"
  by (simp add: dbGetGroup_def)

lemma run_timeNow [run_simps]:
  "run_state (timeNow srv) s = (clock srv (hist s), s\<lparr>hist := hist s @ [Now]\<rparr>)"
  by (simp add: timeNow_def)

section \<open>Iterating over Go maps\<close>

text \<open>
  The iteration order of a Go map is unspecified: it is the oracle's, which is used when it
  is a permutation of the keys (so that no assumption about it is ever needed).
\<close>

definition range_keys :: "svc \<Rightarrow> call list \<Rightarrow> (int, 'v) fmap \<Rightarrow> int list" where
  "range_keys srv h m =
     (let ks = sorted_list_of_fset (fmdom m); l = rangeInts srv h ks
      in if mset l = mset ks then l else ks)"

definition range_fset :: "svc \<Rightarrow> call list \<Rightarrow> int fset \<Rightarrow> int list" where
  "range_fset srv h m =
     (let ks = sorted_list_of_fset m; l = rangeInts srv h ks
      in if mset l = mset ks then l else ks)"

definition rangeM :: "svc \<Rightarrow> (server \<Rightarrow> (int, 'v) fmap) \<Rightarrow> (server, int list) state" where
  "rangeM srv f = gets (\<lambda>s. range_keys srv (hist s) (f s))"

lemma run_rangeM [simp, run_simps]: "run_state (rangeM srv f) s = (range_keys srv (hist s) (f s), s)"
  by (simp add: rangeM_def)

lemma wp_rangeM [wp_simps]: "wp (rangeM srv f) Q = (\<lambda>s. Q (range_keys srv (hist s) (f s)) s)"
  by (simp add: wp_def fun_eq_iff)

lemma mset_range_keys: "mset (range_keys srv h m) = mset (sorted_list_of_fset (fmdom m))"
  by (simp add: range_keys_def Let_def)

lemma set_range_keys [simp]: "set (range_keys srv h m) = fmdom' m"
proof -
  have "set (range_keys srv h m) = set (sorted_list_of_fset (fmdom m))"
    using mset_range_keys by (metis set_mset_mset)
  then show ?thesis by (simp add: fmdom'_alt_def)
qed

lemma distinct_range_keys [simp]: "distinct (range_keys srv h m)"
  using mset_range_keys[of srv h m]
  by (metis distinct_sorted_list_of_set mset_eq_imp_distinct_iff sorted_list_of_fset.rep_eq)

lemma set_range_fset [simp]: "set (range_fset srv h m) = fset m"
proof -
  have "mset (range_fset srv h m) = mset (sorted_list_of_fset m)"
    by (simp add: range_fset_def Let_def)
  then show ?thesis by (metis set_mset_mset sorted_list_of_fset_simps(1))
qed

lemma distinct_range_fset [simp]: "distinct (range_fset srv h m)"
proof -
  have "mset (range_fset srv h m) = mset (sorted_list_of_fset m)"
    by (simp add: range_fset_def Let_def)
  then show ?thesis
    by (metis distinct_sorted_list_of_set mset_eq_imp_distinct_iff sorted_list_of_fset.rep_eq)
qed

end
