(* ===== verification/Demo.thy ===== *)
theory Demo
  imports World
begin

text \<open>
  A concrete world for the witnesses: a message server whose services answer with success and
  nothing, and two users. The witnesses change the fields that they need.
\<close>

definition no_c2sRegisterAccount :: c2sRegisterAccount where
  "no_c2sRegisterAccount = \<lparr>ra_AccountId = 0, ra_Pwd = '''', ra_CliTimeStamp = 0, ra_TerminalType = 0,
     ra_VerificationCode = ''''\<rparr>"

definition no_c2sLogin :: c2sLogin where
  "no_c2sLogin = \<lparr>lo_AccountId = 0, lo_CliTimeStamp = 0, lo_Pwd = '''', lo_TerminalType = 0\<rparr>"

definition no_c2sUsernameLogin :: c2sUsernameLogin where
  "no_c2sUsernameLogin = \<lparr>ul_Username = '''', ul_Pwd = '''', ul_CliTimeStamp = 0, ul_TerminalType = 0\<rparr>"

definition no_c2sGetVerificationCode :: c2sGetVerificationCode where
  "no_c2sGetVerificationCode = \<lparr>vc_PhoneNum = 0, vc_Region = '''', vc_Action = 0\<rparr>"

definition no_c2sForgetPassword :: c2sForgetPassword where
  "no_c2sForgetPassword = \<lparr>fp_PhoneNum = 0, fp_Password = '''', fp_VerificationCode = ''''\<rparr>"

definition no_c2sThirdPlatformAccountLogin :: c2sThirdPlatformAccountLogin where
  "no_c2sThirdPlatformAccountLogin = \<lparr>tp_Token = '''', tp_TerminalType = 0\<rparr>"

definition no_c2sAddFriend :: c2sAddFriend where
  "no_c2sAddFriend = \<lparr>af_SenderId = 0, af_ReceiverId = 0, af_MsgTimestamp = 0\<rparr>"

definition no_c2sAgreeBecomeFriend :: c2sAgreeBecomeFriend where
  "no_c2sAgreeBecomeFriend = \<lparr>ag_SenderId = 0, ag_ReceiverId = 0, ag_MsgTimestamp = 0\<rparr>"

definition no_c2sSetFriendRemarkName :: c2sSetFriendRemarkName where
  "no_c2sSetFriendRemarkName = \<lparr>sr_FriendId = 0, sr_FriendRemarkName = ''''\<rparr>"

definition no_c2sPrivateChat :: c2sPrivateChat where
  "no_c2sPrivateChat = \<lparr>pc_ChatMsg = None, pc_CliTimeStamp = 0\<rparr>"

definition no_c2sWithdrawMessage :: c2sWithdrawMessage where
  "no_c2sWithdrawMessage = \<lparr>wm_ServerTimeStamp = 0, wm_ReceiverId = 0\<rparr>"

definition no_c2sCreateChatGroup :: c2sCreateChatGroup where
  "no_c2sCreateChatGroup = \<lparr>cr_ChatGroupName = '''', cr_PicChatGroup = '''', cr_FirendIds = []\<rparr>"

definition no_c2sAgreeSomeOneReqJoinChatGroup :: c2sAgreeSomeOneReqJoinChatGroup where
  "no_c2sAgreeSomeOneReqJoinChatGroup = \<lparr>aj_ChatGroupId = 0, aj_ReqUid = 0, aj_ReqId = 0, aj_ReqNickName = ''''\<rparr>"

definition no_c2sRefuseSomeOneReqJoinChatGroup :: c2sRefuseSomeOneReqJoinChatGroup where
  "no_c2sRefuseSomeOneReqJoinChatGroup = \<lparr>rf_ChatGroupId = 0, rf_UserId = 0, rf_ReqUid = 0, rf_RefuseReqJoinChatGroupMessage = ''''\<rparr>"

definition no_c2sInviteJoinChatGroup :: c2sInviteJoinChatGroup where
  "no_c2sInviteJoinChatGroup = \<lparr>iv_ChatGroupId = 0, iv_FriendIds = []\<rparr>"

definition no_c2sGroupChat :: c2sGroupChat where
  "no_c2sGroupChat = \<lparr>gc_ChatMsg = None, gc_CliTimeStamp = 0\<rparr>"

definition no_c2sChatGroupLastMsgTimeStamp :: c2sChatGroupLastMsgTimeStamp where
  "no_c2sChatGroupLastMsgTimeStamp = \<lparr>lt_SrvTimeStamp = 0, lt_ChatGroupId = 0\<rparr>"

definition no_c2sGetOfflineGroupChatMsg :: c2sGetOfflineGroupChatMsg where
  "no_c2sGetOfflineGroupChatMsg = \<lparr>og_ChatGroupId = 0, og_ChatGroupLastMessageTimestamp = 0, og_MsgTimestamp = 0\<rparr>"

definition no_c2sWithdrawGroupMessage :: c2sWithdrawGroupMessage where
  "no_c2sWithdrawGroupMessage = \<lparr>wg_ServerTimeStamp = 0, wg_GroupId = 0\<rparr>"

definition no_c2sPublishWeibo :: c2sPublishWeibo where
  "no_c2sPublishWeibo = \<lparr>pw_ContentType = 0, pw_Text = '''', pw_Url = [], pw_WeiboId = 0\<rparr>"

definition no_c2sWeiboKey :: c2sWeiboKey where
  "no_c2sWeiboKey = \<lparr>wk_WeiboPublisherId = 0, wk_WeiboId = 0\<rparr>"

definition no_c2sDeleteWeiboReply :: c2sDeleteWeiboReply where
  "no_c2sDeleteWeiboReply = \<lparr>dr_WeiboId = 0, dr_WeiboPublisherId = 0, dr_CommentId = 0\<rparr>"

definition no_c2sBrowseSomeoneWeibo :: c2sBrowseSomeoneWeibo where
  "no_c2sBrowseSomeoneWeibo = \<lparr>bs_LastTimeStamp = 0, bs_FriendId = 0\<rparr>"

definition no_c2sFriendIds :: c2sFriendIds where
  "no_c2sFriendIds = \<lparr>fl_FriendIds = [], fl_Flag = False\<rparr>"

definition no_mqDeleteWeibo :: mqDeleteWeibo where
  "no_mqDeleteWeibo = \<lparr>dw_FriendId = 0, dw_WeiboId = 0\<rparr>"

definition no_weibo :: weibo where
  "no_weibo = \<lparr>we_WeiboId = 0, we_PublisherId = 0, we_PublisherNickName = '''', we_Type = 0,
     we_Text = '''', we_UrlBin = '''', we_SrvTimestamp = 0, we_BDelete = False\<rparr>"

definition no_replyWeibo :: replyWeibo where
  "no_replyWeibo = \<lparr>rw_WeiboId = 0, rw_WeiboPublisherId = 0, rw_CommentedId = 0, rw_BeCommentedId = 0,
     rw_BeCommentatorId = 0, rw_CommentatorId = 0, rw_CommentContent = '''',
     rw_CommentTimeStamp = 0\<rparr>"

definition no_weiboRow :: weiboRow where
  "no_weiboRow = \<lparr>wr_AccountId = 0, wr_PhotosBin = '''', wr_MsgContent = '''', wr_WeiboId = 0,
     wr_MsgDatetime = 0, wr_ThumbupTimes = 0\<rparr>"

definition no_weiboCover :: weiboCover where
  "no_weiboCover = \<lparr>wc_AccountId = 0, wc_CoverUrl = '''', wc_DateTime = 0, wc_ThumbupTimes = 0\<rparr>"

definition no_chatGroupReqJoinLog :: chatGroupReqJoinLog where
  "no_chatGroupReqJoinLog = \<lparr>jl_Id = 0, jl_ChatGroupId = 0, jl_RequesterId = 0, jl_RequestMessage = '''',
     jl_Processed = 0, jl_ReqUid = 0, jl_ReqDate = 0\<rparr>"

definition no_userBriefInfo :: userBriefInfo where
  "no_userBriefInfo = \<lparr>ub_AccountId = 0, ub_Nickname = '''', ub_UserName = '''', ub_HeadPortrait = '''',
     ub_Signature = ''''\<rparr>"

definition no_deviceInfo :: deviceInfo where
  "no_deviceInfo = \<lparr>di_DeviceInfo = '''', di_DeviceProducter = ''''\<rparr>"

definition no_chatGroup :: chatGroup where
  "no_chatGroup = \<lparr>cg_ChatGroupId = 0, cg_Creator = 0, cg_Name = '''', cg_Pic = ''''\<rparr>"

definition no_chatMessage :: chatMessage where
  "no_chatMessage = \<lparr>pm_ReceiverId = 0, pm_SenderId = 0, pm_Text = '''', pm_SrvTimeStamp = 0, pm_MsgType = '''',
     pm_SenderName = '''', pm_AccountIDCliTimeStamp = '''', pm_SenderheadPortraitUrl = '''',
     pm_WithDraw = False, pm_SenderRemarkName = '''', pm_VoiceMessage = None,
     pm_VideoMessage = None, pm_FileMessage = None, pm_CardMessage = None, pm_SenderAgentId = 0\<rparr>"

definition no_groupMessage :: groupMessage where
  "no_groupMessage = \<lparr>gm_ReceiveGroupId = 0, gm_SenderId = 0, gm_Text = '''', gm_SrvTimeStamp = 0,
     gm_MsgType = '''', gm_SenderName = '''', gm_AccoutIdCliTimeStamp = '''',
     gm_SenderheadPortraitUrl = '''', gm_WithDraw = False, gm_VoiceMessage = None,
     gm_VideoMessage = None, gm_FileMessage = None, gm_CardMessage = None\<rparr>"

definition demoSvc :: svc where
  "demoSvc = \<lparr>marshal = (\<lambda>_. Some ''m''),
     un_C2SAddFriend = (\<lambda>_. (False, no_c2sAddFriend)),
     un_C2SAgreeBecomeFriend = (\<lambda>_. (False, no_c2sAgreeBecomeFriend)),
     un_C2SReadFriendReq = (\<lambda>_. (False, 0)),
     un_FriendId = (\<lambda>_. (False, 0)),
     un_C2SGetFriendBlackList = (\<lambda>_. (False, ())),
     un_C2SSetFriendRemarkName = (\<lambda>_. (False, no_c2sSetFriendRemarkName)),
     un_C2SLastMsgTimeStamp = (\<lambda>_. (False, 0)),
     un_C2SPrivateChat = (\<lambda>_. (False, no_c2sPrivateChat)),
     un_C2SGetOfflinePrivateChatMsg = (\<lambda>_. (False, False)),
     un_C2SWithdrawMessage = (\<lambda>_. (False, no_c2sWithdrawMessage)),
     un_C2SHeartbeat = (\<lambda>_. (False, 0)),
     un_C2SDeviceInfo = (\<lambda>_. (False, None)),
     un_OneString = (\<lambda>_. (False, '''')),
     un_C2SCreateChatGroup = (\<lambda>_. (False, no_c2sCreateChatGroup)),
     un_C2SReqJoinChatGroup = (\<lambda>_. (False, None)),
     un_C2SAgreeSomeOneReqJoinChatGroup = (\<lambda>_. (False, no_c2sAgreeSomeOneReqJoinChatGroup)),
     un_C2SRefuseSomeOneReqJoinChatGroup = (\<lambda>_. (False, no_c2sRefuseSomeOneReqJoinChatGroup)),
     un_ChatGroupId = (\<lambda>_. (False, 0)),
     un_C2SInviteJoinChatGroup = (\<lambda>_. (False, no_c2sInviteJoinChatGroup)),
     un_C2SChatGroupKick = (\<lambda>_. (False, None)),
     un_C2SGroupChat = (\<lambda>_. (False, no_c2sGroupChat)),
     un_C2SChatGroupLastMsgTimeStamp = (\<lambda>_. (False, no_c2sChatGroupLastMsgTimeStamp)),
     un_C2SGetOfflineGroupChatMsg = (\<lambda>_. (False, no_c2sGetOfflineGroupChatMsg)),
     un_C2SWithdrawGroupMessage = (\<lambda>_. (False, no_c2sWithdrawGroupMessage)),
     un_C2SRegisterAccount = (\<lambda>_. (False, no_c2sRegisterAccount)),
     un_C2SLogin = (\<lambda>_. (False, no_c2sLogin)),
     un_C2SUsernameLogin = (\<lambda>_. (False, no_c2sUsernameLogin)),
     un_C2SGetVerificationCode = (\<lambda>_. (False, no_c2sGetVerificationCode)),
     un_C2SForgetPassword = (\<lambda>_. (False, no_c2sForgetPassword)),
     un_C2SThirdPlatformAccountLogin = (\<lambda>_. (False, no_c2sThirdPlatformAccountLogin)),
     un_MQPrivateChat = (\<lambda>_. (False, None)),
     un_MQAddFriend = (\<lambda>_. (False, (None, ''''))),
     un_MQAgreeBecomeFriend = (\<lambda>_. (False, (None, ''''))),
     un_MQCreateChatGroup = (\<lambda>_. (False, None)),
     un_MQReqJoinChatGroup = (\<lambda>_. (False, (None, 0))),
     un_MQManagerAgree = (\<lambda>_. (False, (0, 0, ''''))),
     un_MQRefuse = (\<lambda>_. (False, (0, 0, ''''))),
     un_MQInviteJoinChatGroup = (\<lambda>_. (False, None)),
     un_MQCancelChatGroup = (\<lambda>_. (False, None)),
     un_MQChatGroupKick = (\<lambda>_. (False, None)),
     un_C2SPublishWeibo = (\<lambda>_. (False, no_c2sPublishWeibo)),
     un_WeiboId = (\<lambda>_. (False, 0)),
     un_C2SWeiboKey = (\<lambda>_. (False, no_c2sWeiboKey)),
     un_C2SReplyWeibo = (\<lambda>_. (False, None)),
     un_C2SDeleteWeiboReply = (\<lambda>_. (False, no_c2sDeleteWeiboReply)),
     un_C2SBrowseSomeoneWeibo = (\<lambda>_. (False, no_c2sBrowseSomeoneWeibo)),
     un_C2SBrowseAllWeibo = (\<lambda>_. (False, 0)),
     un_Empty = (\<lambda>_. (False, ())),
     un_C2SFriendIds = (\<lambda>_. (False, no_c2sFriendIds)),
     un_C2SAllow = (\<lambda>_. (False, False)),
     un_C2SStrategy = (\<lambda>_. (False, 0)),
     un_MQPublishWeibo = (\<lambda>_. (False, None)),
     un_MQLikeWeibo = (\<lambda>_. (False, None)),
     un_MQReplyWeibo = (\<lambda>_. (False, None)),
     un_MQDeleteWeibo = (\<lambda>_. (False, no_mqDeleteWeibo)),
     un_Weibo = (\<lambda>_. (False, no_weibo)),
     un_WeiboUrl = (\<lambda>_. (False, [])),
     un_ReplyWeibo = (\<lambda>_. (False, no_replyWeibo)),
     un_UserBriefInfo = (\<lambda>_. (False, no_userBriefInfo)),
     un_DeviceInfo = (\<lambda>_. (False, no_deviceInfo)),
     un_ChatGroup = (\<lambda>_. (False, no_chatGroup)),
     un_ChatMessage = (\<lambda>_. (False, no_chatMessage)),
     un_GroupMessage = (\<lambda>_. (False, no_groupMessage)),
     un_ContactList = (\<lambda>_. (False, [])),
     un_BlackList = (\<lambda>_. (False, [])),
     json_Member = (\<lambda>_. Some ''j''),
     unjson_Member = (\<lambda>_. None),
     unjson_BriefInfo = (\<lambda>_. None),
     unjson_CreateUser = (\<lambda>_. True),
     rStatus = (\<lambda>_ _. None),
     rInt = (\<lambda>_ _. (0, None)),
     rStr = (\<lambda>_ _. ('''', None)),
     rList = (\<lambda>_ _. (None, None)),
     rBool = (\<lambda>_ _. False),
     dbErr = (\<lambda>_ _. None),
     dbNum = (\<lambda>_ _. (0, None)),
     dbBool = (\<lambda>_ _. (False, None)),
     dbInt = (\<lambda>_ _. (0, None)),
     dbStr = (\<lambda>_ _. ''''),
     dbRowsII = (\<lambda>_ _. ([], None)),
     dbRowsI = (\<lambda>_ _. ([], None)),
     dbRowsIS = (\<lambda>_ _. None),
     dbAccount = (\<lambda>_ _. (None, None)),
     dbGroup = (\<lambda>_ _. (None, None)),
     dbWeibo = (\<lambda>_ _. ((False, no_weiboRow), None)),
     dbCover = (\<lambda>_ _. ((False, no_weiboCover), None)),
     dbJoinLog = (\<lambda>_ _. ((False, no_chatGroupReqJoinLog), None)),
     clock = (\<lambda>_. 1577836800000000000),
     pushErr = (\<lambda>_ _. None),
     smsErr = (\<lambda>_ _. None),
     huanXinToken = (\<lambda>_. None),
     huanXinCreate = (\<lambda>_ _. ('''', None)),
     randIntn = (\<lambda>_ _. 0),
     randName = (\<lambda>_. ''''),
     formatTime = (\<lambda>_. ''''),
     remoteAddr = (\<lambda>_. ''''),
     hashNode = (\<lambda>_. ''node''),
     addPrefix = (\<lambda>p k. p @ '':'' @ k),
     rangeInts = (\<lambda>_ ks. ks),
     rangeStrs = (\<lambda>_ ks. ks)\<rparr>"

text \<open>Client 0 is user 1 and client 1 is user 2, both on the app.\<close>

definition demoAccount :: "int \<Rightarrow> account" where
  "demoAccount a = \<lparr>ac_AccountId = a, ac_UserName = ''u'', ac_NickName = ''n'', ac_ContactList = '''',
     ac_BlackList = '''', ac_LastMsgTimestamp = 0, ac_HeadPortrait = '''',
     ac_Pwd = ''pw'', ac_Status = 0, ac_AgentId = 0\<rparr>"

definition demoClient :: "int \<Rightarrow> client" where
  "demoClient a = \<lparr>account = demoAccount a, strAccount = itoa a, chanToClientMsg = [], chanRecvMsg = [],
     isClosed = False, closeSignal = False, doneSignal = False, mapContact = fmempty,
     agentInfoC = \<lparr>ai_AgentId = 0, ai_AgentUsername = '''', ai_AgentportraitUrl = ''''\<rparr>,
     mapMember = fmempty, mapBlackList = fmempty, mapChatGroup = fmempty,
     mapChatGroupLastMsgTimestamp = fmempty, loginTimestamp = 0, serialNum = 0, terminalType = 1\<rparr>"

definition demoServer :: server where
  "demoServer = \<lparr>clients = (\<lambda>c. demoClient (int c + 1)), mapOnlineClient = fmempty,
     mmLocalOnlineGroupMember = fmempty, localTopic = ''node'', handlers = fmempty,
     snowflakeSt = \<lparr>machineID = 0, sn = 0, lastTimeStamp = 0\<rparr>, hist = []\<rparr>"

lemma demoClient_simps [simp]:
  "ac_AccountId (account (demoClient a)) = a" "strAccount (demoClient a) = itoa a"
  "terminalType (demoClient a) = 1" "chanToClientMsg (demoClient a) = []"
  "mapContact (demoClient a) = fmempty" "mapBlackList (demoClient a) = fmempty"
  "mapChatGroup (demoClient a) = fmempty" "isClosed (demoClient a) = False"
  by (simp_all add: demoClient_def demoAccount_def)

lemma demoServer_simps [simp]:
  "clients demoServer c = demoClient (int c + 1)" "mapOnlineClient demoServer = fmempty"
  "mmLocalOnlineGroupMember demoServer = fmempty" "hist demoServer = []"
  "handlers demoServer = fmempty" "localTopic demoServer = ''node''"
  by (simp_all add: demoServer_def)

end
