(* ===== verification/Snowflake.thy ===== *)
theory Snowflake
  imports Demo
begin

text \<open>
  common-library/snowflake/snowflake.go: 64 bit ids made of a 41 bit timestamp (nanoseconds
  shifted right by 20), the 10 bit machine id and a 12 bit sequence number. All arithmetic is
  on 64 bit words, with Go's signed comparisons and arithmetic shift.
\<close>

section \<open>The generator\<close>

definition SetMachineId :: "64 word \<Rightarrow> snowflake \<Rightarrow> snowflake" where
  "SetMachineId mid st = st\<lparr>machineID := push_bit 12 mid\<rparr>"

definition getSeqFromID :: "64 word \<Rightarrow> 64 word" where
  "getSeqFromID i = i AND 0xFFF"

definition getTimeFromID :: "64 word \<Rightarrow> 64 word" where
  "getTimeFromID i = signed_drop_bit 22 i"

definition tick :: "int \<Rightarrow> 64 word" where
  "tick nanos = signed_drop_bit 20 (word_of_int nanos)"

definition initSnowflake :: "int \<Rightarrow> snowflake" where
  "initSnowflake nanos = \<lparr>machineID = push_bit 12 666, sn = 0, lastTimeStamp = tick nanos\<rparr>"

definition snow_id :: "64 word \<Rightarrow> 64 word \<Rightarrow> 64 word \<Rightarrow> 64 word" where
  "snow_id curTimeStamp mid s = (push_bit 22 (curTimeStamp AND 0x1FFFFFFFFFF) OR mid) OR s"

definition millisecond :: int where
  "millisecond = 1000000"

definition sleepM :: "int \<Rightarrow> (server, unit) state" where
  "sleepM d = ask (Sleep d) (\<lambda>_. ())"

definition GetSnowflakeId :: "svc \<Rightarrow> (server, 64 word) state" where
  "GetSnowflakeId srv = do {
     t1 \<leftarrow> timeNow srv;
     st \<leftarrow> gets snowflakeSt;
     let curTimeStamp = tick t1 in
     if curTimeStamp = lastTimeStamp st then
       (if 4095 <s sn st + 1 then do {
          sleepM millisecond;
          t2 \<leftarrow> timeNow srv;
          cur' \<leftarrow> (if lastTimeStamp st = tick t2
                   then do { sleepM millisecond; t3 \<leftarrow> timeNow srv; ret (tick t3) }
                   else ret (tick t2));
          modify (\<lambda>s. s\<lparr>snowflakeSt := st\<lparr>lastTimeStamp := cur', sn := 0\<rparr>\<rparr>);
          ret (snow_id cur' (machineID st) 0) }
        else do {
          modify (\<lambda>s. s\<lparr>snowflakeSt := st\<lparr>sn := sn st + 1\<rparr>\<rparr>);
          ret (snow_id curTimeStamp (machineID st) (sn st + 1)) })
     else if lastTimeStamp st <s curTimeStamp then do {
       modify (\<lambda>s. s\<lparr>snowflakeSt := st\<lparr>lastTimeStamp := curTimeStamp, sn := 0\<rparr>\<rparr>);
       ret (snow_id curTimeStamp (machineID st) 0) }
     else ret 0 }"

section \<open>The layout of an id\<close>

lemma or_push_bit_add:
  fixes a b :: int
  assumes "0 \<le> b" "b < 2 ^ n"
  shows "push_bit n a OR b = a * 2 ^ n + b"
proof -
  have "take_bit n b = b" using assms by (simp add: take_bit_int_eq_self_iff)
  then show ?thesis
    using concat_bit_eq[of n b a] concat_bit_def[of n b a]
    by (simp add: push_bit_eq_mult or.commute)
qed

lemma uint_push:
  fixes w :: "64 word"
  assumes "uint w * 2 ^ n < 2 ^ 64"
  shows "uint (push_bit n w) = uint w * 2 ^ n"
  unfolding unsigned_push_bit_eq
  using assms by (simp add: push_bit_eq_mult take_bit_int_eq_self)

lemma uint_snow_id:
  assumes "uint t < 2 ^ 41" "uint mid < 2 ^ 10" "uint s < 2 ^ 12"
  shows "uint (snow_id t (push_bit 12 mid) s) = uint t * 2 ^ 22 + uint mid * 2 ^ 12 + uint s"
proof -
  have "uint (t AND 0x1FFFFFFFFFF) = uint t AND mask 41"
    by (simp add: uint_and mask_eq_exp_minus_1)
  also have "\<dots> = uint t"
    using assms(1) by (simp add: take_bit_eq_mask[symmetric] take_bit_int_eq_self_iff)
  finally have "t AND 0x1FFFFFFFFFF = t" by (rule word_uint_eqI)
  moreover have "uint (push_bit 22 t) = uint t * 2 ^ 22"
    using assms(1) by (intro uint_push) simp
  moreover have "uint (push_bit 12 mid) = uint mid * 2 ^ 12"
    using assms(2) by (intro uint_push) simp
  ultimately have "uint (snow_id t (push_bit 12 mid) s) = ((uint t * 2 ^ 22) OR (uint mid * 2 ^ 12)) OR uint s"
    by (simp add: snow_id_def uint_or)
  also have "(uint t * 2 ^ 22) OR (uint mid * 2 ^ 12) = uint t * 2 ^ 22 + uint mid * 2 ^ 12"
    using or_push_bit_add[of "uint mid * 2 ^ 12" 22 "uint t"] assms(2)
    by (simp add: push_bit_eq_mult)
  also have "(uint t * 2 ^ 22 + uint mid * 2 ^ 12) OR uint s = uint t * 2 ^ 22 + uint mid * 2 ^ 12 + uint s"
    using or_push_bit_add[of "uint s" 12 "uint t * 2 ^ 10 + uint mid"] assms(3)
    by (simp add: push_bit_eq_mult algebra_simps)
  finally show ?thesis .
qed


section \<open>Ticks\<close>

lemma sint_small: "uint (w :: 64 word) < 2 ^ 63 \<Longrightarrow> sint w = uint w"
  using signed_take_bit_int_eq_self[of 63 "uint w"] uint_ge_0[of w]
  by (simp add: sint_uint del: uint_ge_0)

lemma uint_of_sint: "uint (w :: 64 word) = sint w mod 2 ^ 64"
  by (simp add: uint_sint take_bit_eq_mod)

lemma uint_tick:
  assumes "0 \<le> n" "n < 2 ^ 61"
  shows "uint (tick n) = n div 2 ^ 20"
proof -
  have "sint (word_of_int n :: 64 word) = n"
    using assms signed_take_bit_int_eq_self[of 63 n] by (simp add: sint_uint uint_word_of_int)
  then have "sint (tick n) = n div 2 ^ 20"
    by (simp add: tick_def sint_signed_drop_bit_eq drop_bit_eq_div)
  moreover have "n div 2 ^ 20 < 2 ^ 64" "0 \<le> n div 2 ^ 20"
    using assms by auto
  ultimately show ?thesis by (simp add: uint_of_sint)
qed

text \<open>
  What is assumed of the clock: it does not run backwards and \<open>Sleep d\<close> pauses for at least
  \<open>d\<close> (both documented of package time). The theorems also ask for a date before 2043, when
  the clock reaches \<open>2 ^ 61\<close> and the 41 bits of the timestamp end.
\<close>

definition clock_ok :: "svc \<Rightarrow> bool" where
  "clock_ok srv \<longleftrightarrow> (\<forall>h. 0 \<le> clock srv h) \<and>
     (\<forall>h t. clock srv h \<le> clock srv (h @ t)) \<and>
     (\<forall>h d. clock srv h + d \<le> clock srv (h @ [Now, Sleep d]))"

text \<open>
  The state of the generator at a point of the history: its fields are within their bits and
  its last tick is not in the future.
\<close>

definition snow_wf :: "svc \<Rightarrow> server \<Rightarrow> bool" where
  "snow_wf srv s \<longleftrightarrow>
     (\<exists>mid. uint mid < 2 ^ 10 \<and> machineID (snowflakeSt s) = push_bit 12 mid) \<and>
     uint (sn (snowflakeSt s)) < 2 ^ 12 \<and>
     uint (lastTimeStamp (snowflakeSt s)) \<le> clock srv (hist s) div 2 ^ 20"

text \<open>The id that corresponds to the generator's current fields.\<close>

definition lastId :: "server \<Rightarrow> int" where
  "lastId s = uint (lastTimeStamp (snowflakeSt s)) * 2 ^ 22
     + uint (machineID (snowflakeSt s)) + uint (sn (snowflakeSt s))"


section \<open>One call\<close>

lemma clock_uint_tick:
  "clock_ok srv \<Longrightarrow> clock srv h < 2 ^ 61 \<Longrightarrow> uint (tick (clock srv h)) = clock srv h div 2 ^ 20"
  by (rule uint_tick) (auto simp: clock_ok_def)

lemma clock_tick_bound: "clock srv h < 2 ^ 61 \<Longrightarrow> clock srv h div 2 ^ 20 < 2 ^ 41"
  using zdiv_mono1[of "clock srv h" "2 ^ 61 - 1" "2 ^ 20"] by auto

text \<open>Two sleeps of a millisecond pass a tick of \<open>2 ^ 20\<close> nanoseconds.\<close>

lemma two_sleeps_new_tick:
  assumes "clock_ok srv"
  shows "clock srv h div 2 ^ 20 <
    clock srv (h @ [Now, Sleep millisecond, Now, Sleep millisecond]) div 2 ^ 20"
proof -
  have "clock srv h + millisecond \<le> clock srv (h @ [Now, Sleep millisecond])"
    using assms by (simp add: clock_ok_def)
  moreover have "clock srv (h @ [Now, Sleep millisecond]) + millisecond
      \<le> clock srv ((h @ [Now, Sleep millisecond]) @ [Now, Sleep millisecond])"
    using assms unfolding clock_ok_def by blast
  ultimately have "clock srv h + 2 ^ 20 \<le> clock srv (h @ [Now, Sleep millisecond, Now, Sleep millisecond])"
    by (simp add: millisecond_def)
  then have "(clock srv h + 2 ^ 20) div 2 ^ 20 \<le>
      clock srv (h @ [Now, Sleep millisecond, Now, Sleep millisecond]) div 2 ^ 20"
    by (rule zdiv_mono1) simp
  then show ?thesis by simp
qed

lemma lastId_eq:
  assumes "snow_wf srv s" "machineID (snowflakeSt s) = push_bit 12 mid" "uint mid < 2 ^ 10"
  shows "lastId s = uint (lastTimeStamp (snowflakeSt s)) * 2 ^ 22 + uint mid * 2 ^ 12
           + uint (sn (snowflakeSt s))"
  using uint_push[of mid 12] assms(2,3) unfolding lastId_def assms(2) by simp

lemma uint_Suc_sn: "uint (w :: 64 word) < 2 ^ 12 \<Longrightarrow> uint (w + 1) = uint w + 1"
  by (simp add: uint_word_ariths)

lemma sless_sn: "uint (w :: 64 word) < 2 ^ 12 \<Longrightarrow> (4095 <s w + 1) \<longleftrightarrow> uint w = 4095"
  using sint_small[of "w + 1"] uint_Suc_sn[of w] by (auto simp: word_sless_alt)

lemma sless_uint:
  "uint (a :: 64 word) < 2 ^ 63 \<Longrightarrow> uint b < 2 ^ 63 \<Longrightarrow> (a <s b) \<longleftrightarrow> uint a < uint (b :: 64 word)"
  by (simp add: word_sless_alt sint_small)


text \<open>
  A call that starts in a well-formed state returns the id of the new state, which is above
  the id of the old one, and leaves the state well-formed.
\<close>

lemma GetSnowflakeId_hist:
  "run_state (GetSnowflakeId srv) s = (i, s') \<Longrightarrow> \<exists>t. hist s' = hist s @ t"
  by (auto simp: GetSnowflakeId_def sleepM_def run_simps Let_def split: if_splits)

lemma clock_before: "clock_ok srv \<Longrightarrow> clock srv (h @ t) < b \<Longrightarrow> clock srv h < b"
  unfolding clock_ok_def by (meson order_le_less_trans)

lemma GetSnowflakeId_step:
  assumes ok: "clock_ok srv" and wf: "snow_wf srv s"
    and run: "run_state (GetSnowflakeId srv) s = (i, s')" and bnd: "clock srv (hist s') < 2 ^ 61"
  shows "snow_wf srv s' \<and> uint i = lastId s' \<and> lastId s < lastId s'
    \<and> machineID (snowflakeSt s') = machineID (snowflakeSt s)"
proof -
  obtain mid where mid: "uint mid < 2 ^ 10" "machineID (snowflakeSt s) = push_bit 12 mid"
    using wf by (auto simp: snow_wf_def)
  define T where "T h = clock srv h div 2 ^ 20" for h
  have T: "uint (tick (clock srv h)) = T h \<and> T h < 2 ^ 41" if "hist s' = h @ t" for h t
    using clock_uint_tick[OF ok, of h] clock_tick_bound[of srv h] clock_before[OF ok, of h t] bnd that
    by (simp add: T_def)
  have Tmono: "T h \<le> T (h @ t)" for h t
    using ok by (simp add: T_def clock_ok_def zdiv_mono1)
  let ?h = "hist s" and ?L = "lastTimeStamp (snowflakeSt s)" and ?n = "sn (snowflakeSt s)"
  obtain t0 where t0: "hist s' = ?h @ t0" using GetSnowflakeId_hist[OF run] by blast
  have L: "uint ?L \<le> T ?h" and n: "uint ?n < 2 ^ 12"
    using wf by (simp_all add: snow_wf_def T_def)
  have eqT: "tick (clock srv h) = ?L \<longleftrightarrow> T h = uint ?L" if "hist s' = h @ t" for h t
    by (metis T[OF that] word_uint_eq_iff)
  have eqT': "?L = tick (clock srv h) \<longleftrightarrow> T h = uint ?L" if "hist s' = h @ t" for h t
    using eqT[OF that] by auto
  have less: "(?L <s tick (clock srv ?h)) \<longleftrightarrow> uint ?L < T ?h"
    using L T[OF t0] by (subst sless_uint) auto
  have idF: "uint (snow_id (tick (clock srv h)) (machineID (snowflakeSt s)) x)
      = T h * 2 ^ 22 + uint mid * 2 ^ 12 + uint x" if "uint x < 2 ^ 12" "hist s' = h @ t" for h x t
    using uint_snow_id[of "tick (clock srv h)" mid x] that(1) mid T[OF that(2)] by simp
  have old: "lastId s = uint ?L * 2 ^ 22 + uint mid * 2 ^ 12 + uint ?n"
    by (rule lastId_eq[OF wf mid(2,1)])
  have fin: ?thesis
    if "s' = s\<lparr>hist := h @ t, snowflakeSt := (snowflakeSt s)\<lparr>lastTimeStamp := tick (clock srv h), sn := x\<rparr>\<rparr>"
      and "i = snow_id (tick (clock srv h)) (machineID (snowflakeSt s)) x" and "uint x < 2 ^ 12"
      and "uint ?L < T h \<or> uint ?L = T h \<and> uint ?n < uint x"
    for h t x
  proof -
    have h: "hist s' = h @ t" using that(1) by simp
    have wf': "snow_wf srv s'"
      using that(3) mid T[OF h] Tmono[of h t] unfolding that(1) snow_wf_def
      by (auto simp: T_def)
    have "lastId s' = T h * 2 ^ 22 + uint mid * 2 ^ 12 + uint x"
      using lastId_eq[OF wf', of mid] mid T[OF h] unfolding that(1) by simp
    moreover have "uint ?L * 4194304 + uint ?n < T h * 4194304 + uint x"
      using that(4) n[simplified] uint_ge_0[of x] uint_ge_0[of ?n] by linarith
    ultimately show ?thesis using wf' idF[OF that(3) h] unfolding old
      by (auto simp: that(1,2))
  qed
  let ?h1 = "?h @ [Now, Sleep millisecond]" and ?h2 = "?h @ [Now, Sleep millisecond, Now, Sleep millisecond]"
  note eq0 = eqT[OF t0] eqT'[OF t0]
  consider (full) "T ?h = uint ?L" "uint ?n = 4095" | (more) "T ?h = uint ?L" "uint ?n \<noteq> 4095"
    | (new) "uint ?L < T ?h" using L by linarith
  then show ?thesis
  proof cases
    case full
    then have g: "4095 <s ?n + 1" using sless_sn[OF n] by simp
    have "\<exists>t. hist s' = ?h1 @ t"
      using run full(1) g by (auto simp: GetSnowflakeId_def sleepM_def run_simps eq0 Let_def split: if_splits)
    then obtain t1 where t1: "hist s' = ?h1 @ t1" by blast
    note eq1 = eqT[OF t1] eqT'[OF t1]
    show ?thesis
    proof (cases "T ?h1 = uint ?L")
      case True
      have "T ?h < T ?h2" using two_sleeps_new_tick[OF ok, of ?h] by (simp add: T_def)
      with run full g True show ?thesis
        by (intro fin[where h = "?h2" and t = "[Now]" and x = 0])
          (simp_all add: GetSnowflakeId_def sleepM_def run_simps eq0 eq1 Let_def)
    next
      case False
      have "T ?h \<le> T ?h1" by (rule Tmono)
      then have "uint ?L < T ?h1" using False full(1) by linarith
      with run full g False show ?thesis
        by (intro fin[where h = "?h1" and t = "[Now]" and x = 0])
          (simp_all add: GetSnowflakeId_def sleepM_def run_simps eq0 eq1 Let_def)
    qed
  next
    case more
    then have "\<not> 4095 <s ?n + 1" using sless_sn[OF n] by simp
    with run more show ?thesis
      using uint_Suc_sn[OF n] n
      by (intro fin[where h = "?h" and t = "[Now]" and x = "?n + 1"])
        (auto simp: GetSnowflakeId_def run_simps eq0 Let_def)
  next
    case new
    with run show ?thesis
      by (intro fin[where h = "?h" and t = "[Now]" and x = 0])
        (auto simp: GetSnowflakeId_def run_simps eq0 less Let_def)
  qed
qed

section \<open>Any number of calls\<close>

text \<open>
  The ids handed out while the process does anything else in between: other code extends the
  history and does not touch the generator.
\<close>

inductive snow_trace :: "svc \<Rightarrow> server \<Rightarrow> 64 word list \<Rightarrow> server \<Rightarrow> bool" for srv where
  start: "snow_trace srv s [] s"
| other: "snow_trace srv s ids t \<Longrightarrow> hist u = hist t @ calls \<Longrightarrow> snowflakeSt u = snowflakeSt t \<Longrightarrow>
    snow_trace srv s ids u"
| get: "snow_trace srv s ids t \<Longrightarrow> run_state (GetSnowflakeId srv) t = (i, u) \<Longrightarrow>
    snow_trace srv s (ids @ [i]) u"

lemma snow_trace_hist: "snow_trace srv s ids t \<Longrightarrow> \<exists>h. hist t = hist s @ h"
  by (induction rule: snow_trace.induct) (auto dest!: GetSnowflakeId_hist)

lemma snow_wf_other:
  assumes "clock_ok srv" "snow_wf srv t" "hist u = hist t @ calls" "snowflakeSt u = snowflakeSt t"
  shows "snow_wf srv u"
proof -
  have "clock srv (hist t) div 2 ^ 20 \<le> clock srv (hist u) div 2 ^ 20"
    using assms(1,3) by (auto simp: clock_ok_def intro: zdiv_mono1)
  then show ?thesis using assms(2,4) unfolding snow_wf_def by auto
qed

lemma snow_trace_inv:
  assumes "snow_trace srv s ids t" "clock_ok srv" "snow_wf srv s" "clock srv (hist t) < 2 ^ 61"
  shows "snow_wf srv t \<and> sorted_wrt (<) (map uint ids) \<and> lastId s \<le> lastId t
    \<and> (\<forall>i \<in> set ids. lastId s < uint i \<and> uint i \<le> lastId t)"
  using assms
proof (induction rule: snow_trace.induct)
  case (start s)
  then show ?case by simp
next
  case (other s ids t u calls)
  have b: "clock srv (hist t) < 2 ^ 61"
    using other.prems(1,3) other.hyps(2) clock_before by metis
  have "lastId u = lastId t" using other.hyps(3) by (simp add: lastId_def)
  then show ?case
    using other.IH[OF other.prems(1,2) b] snow_wf_other[OF other.prems(1) _ other.hyps(2,3)] by simp
next
  case (get s ids t i u)
  have b: "clock srv (hist t) < 2 ^ 61"
    using GetSnowflakeId_hist[OF get.hyps(2)] get.prems(1,3) clock_before by metis
  note IH = get.IH[OF get.prems(1,2) b]
  have "snow_wf srv u \<and> uint i = lastId u \<and> lastId t < lastId u"
    using GetSnowflakeId_step[OF get.prems(1) _ get.hyps(2) get.prems(3)] IH by blast
  then show ?case using IH by (auto simp: sorted_wrt_append)
qed

lemma initSnowflake_wf:
  assumes "clock_ok srv" "snowflakeSt s = initSnowflake (clock srv h)" "hist s = h @ t"
    "clock srv h < 2 ^ 61"
  shows "snow_wf srv s"
proof -
  have "uint (666 :: 64 word) < 2 ^ 10" by simp
  moreover have "clock srv h div 2 ^ 20 \<le> clock srv (h @ t) div 2 ^ 20"
    using assms(1) by (auto simp: clock_ok_def intro: zdiv_mono1)
  ultimately show ?thesis
    using clock_uint_tick[OF assms(1,4)] unfolding snow_wf_def assms(2,3)
    by (auto simp: initSnowflake_def intro!: exI[of _ 666])
qed

section \<open>Properties\<close>



text \<open>
  A clock that satisfies the assumptions: it stands still but for the sleeps.
\<close>

definition sleptFor :: "call list \<Rightarrow> int" where
  "sleptFor h = sum_list (map (\<lambda>q. case q of Sleep d \<Rightarrow> max 0 d | _ \<Rightarrow> 0) h)"

definition stillClock :: "svc \<Rightarrow> svc" where
  "stillClock srv = srv\<lparr>clock := (\<lambda>h. 1577836800000000000 + sleptFor h)\<rparr>"

lemma sleptFor_append [simp]: "sleptFor (h @ t) = sleptFor h + sleptFor t"
  by (simp add: sleptFor_def)

lemma sleptFor_nonneg [simp]: "0 \<le> sleptFor h"
  by (auto simp: sleptFor_def intro!: sum_list_nonneg split: call.splits)

lemma clock_ok_stillClock: "clock_ok (stillClock srv)"
  by (auto simp: clock_ok_def stillClock_def) (simp add: sleptFor_def)


lemma quotient_of_sum: "0 \<le> r \<Longrightarrow> r < m \<Longrightarrow> (a * m + r) div m = a \<and> (a * m + r) mod m = (r :: int)"
  by simp

text \<open>
  an id carries its fields. For a timestamp of 41 bits, a machine id of 10 and a sequence
  number of 12, getTimeFromID and getSeqFromID read back what GetSnowflakeId packed, the
  machine id is in between, and the sign bit is clear.
\<close>

theorem snowflake_fields:
  assumes "uint t < 2 ^ 41" "uint mid < 2 ^ 10" "uint q < 2 ^ 12"
  shows "let i = snow_id t (machineID (SetMachineId mid st)) q in
    getTimeFromID i = t \<and> getSeqFromID i = q \<and> uint i div 2 ^ 12 mod 2 ^ 10 = uint mid \<and> 0 \<le> sint i"
proof -
  define i where "i = snow_id t (push_bit 12 mid) q"
  have u: "uint i = uint t * 2 ^ 22 + uint mid * 2 ^ 12 + uint q"
    unfolding i_def by (rule uint_snow_id[OF assms])
  define a b c where abc: "a = uint t" "b = uint mid" "c = uint q"
  have ge: "0 \<le> a" "0 \<le> b" "0 \<le> c" by (simp_all add: abc)
  have le: "a < 2 ^ 41" "b < 2 ^ 10" "c < 2 ^ 12" using assms by (simp_all add: abc)
  have u': "uint i = a * 2 ^ 22 + (b * 2 ^ 12 + c)" "uint i = (a * 2 ^ 10 + b) * 2 ^ 12 + c"
    using u by (simp_all add: abc)
  have d1: "uint i div 2 ^ 22 = a"
    unfolding u'(1) by (rule quotient_of_sum[THEN conjunct1]) (use ge le in auto)
  have d2: "uint i div 2 ^ 12 = a * 2 ^ 10 + b \<and> uint i mod 2 ^ 12 = c"
    unfolding u'(2) by (rule quotient_of_sum) (use ge le in auto)
  have d3: "(a * 2 ^ 10 + b) mod 2 ^ 10 = b"
    by (rule quotient_of_sum[THEN conjunct2]) (use ge le in auto)
  have "uint i < 2 ^ 63" unfolding u' using ge le by simp
  then have si: "sint i = uint i" by (rule sint_small)
  have "sint (getTimeFromID i) = uint i div 2 ^ 22"
    by (simp add: getTimeFromID_def sint_signed_drop_bit_eq drop_bit_eq_div si)
  also have "\<dots> = uint t" unfolding d1 by (simp add: abc)
  finally have "uint (getTimeFromID i) = uint t"
    using assms(1) by (simp add: uint_of_sint)
  moreover have "uint (getSeqFromID i) = uint i AND mask 12"
    by (simp add: getSeqFromID_def uint_and mask_eq_exp_minus_1)
  then have "uint (getSeqFromID i) = uint i mod 2 ^ 12"
    by (simp add: take_bit_eq_mask[symmetric] take_bit_eq_mod)
  then have "uint (getSeqFromID i) = uint q" using d2 by (simp add: abc)
  moreover have "uint i div 2 ^ 12 mod 2 ^ 10 = uint mid" using d2 d3 by (simp add: abc)
  ultimately show ?thesis
    using si by (auto simp: i_def[symmetric] SetMachineId_def word_uint_eq_iff)
qed

theorem snowflake_fields_witness:
  "getSeqFromID (snow_id 1504000000000 (machineID (SetMachineId 666 (snowflakeSt demoServer))) 4095) = 4095"
  using snowflake_fields[of 1504000000000 666 4095 "snowflakeSt demoServer"] by (simp add: Let_def)

end
