(* ===== verification/Framing.thy ===== *)
theory Framing
  imports IM_Prelude
begin

text \<open>
  The wire formats: the 8 byte packet header (common-library/packet, im-library/im_net/socket.go,
  common-library/function) and the 24 byte header of the buffers that the message servers
  publish to each other (im-library/redisPubSub). A connection's input is the byte string that
  is still to be read.
\<close>

section \<open>Packing\<close>

definition PacketHeaderSize :: nat where
  "PacketHeaderSize = 8"

definition PackByteMsg :: "int \<Rightarrow> string \<Rightarrow> string" where
  "PackByteMsg msgID msgContent =
     PutUint32 msgID @ PutUint32 (int (length msgContent)) @ msgContent"

text \<open>\<open>marshalled\<close> is what proto.Marshal returned for the message, None for an error.\<close>

definition Pb2Bytes :: "int \<Rightarrow> string option \<Rightarrow> string \<times> bool" where
  "Pb2Bytes cmdId marshalled =
     (case marshalled of
        Some msg \<Rightarrow> (PutUint32 cmdId @ PutUint32 (int (length msg)) @ msg, True)
      | None \<Rightarrow> ([], False))"

definition mqBuf :: "int \<Rightarrow> int \<Rightarrow> int \<Rightarrow> string \<Rightarrow> string" where
  "mqBuf receiverId groupId cmdId msg =
     PutUint64 receiverId @ PutUint64 groupId @ PutUint32 cmdId
       @ PutUint32 (int (length msg)) @ msg"

lemma mqBuf_frame: "mqBuf r g i m = PutUint64 r @ PutUint64 g @ PackByteMsg i m"
  by (simp add: mqBuf_def PackByteMsg_def)

lemma PackByteMsg_header:
  "length (PackByteMsg i m) = PacketHeaderSize + length m"
  "Uint32 (PackByteMsg i m) = i mod 2 ^ 32"
  "Uint32 (drop 4 (PackByteMsg i m)) = int (length m) mod 2 ^ 32"
  "drop PacketHeaderSize (PackByteMsg i m) = m"
  by (simp_all add: PackByteMsg_def PacketHeaderSize_def Uint32_PutUint32)

section \<open>Reading\<close>

datatype readErr = EOF | UnexpectedEOF | OverMaxLen int int int | ReachMaxLen int int

definition ReadFull :: "nat \<Rightarrow> string \<Rightarrow> readErr + (string \<times> string)" where
  "ReadFull n inp =
     (if n \<le> length inp then Inr (take n inp, drop n inp)
      else Inl (if inp = [] then EOF else UnexpectedEOF))"

definition socket_read :: "int \<Rightarrow> string \<Rightarrow> readErr + (string \<times> string)" where
  "socket_read maxReadSize inp =
     (case ReadFull PacketHeaderSize inp of
        Inl e \<Rightarrow> Inl e
      | Inr (recvBuf, inp1) \<Rightarrow>
          (let msgLen = Uint32 (drop 4 recvBuf) in
           if msgLen > maxReadSize
           then Inl (OverMaxLen (Uint32 (take 4 recvBuf)) msgLen maxReadSize)
           else (case ReadFull (nat msgLen) inp1 of
                   Inl e \<Rightarrow> Inl e
                 | Inr (body, inp2) \<Rightarrow> Inr (recvBuf @ body, inp2))))"

definition ReadPacket2 :: "string \<Rightarrow> readErr + (string \<times> string)" where
  "ReadPacket2 inp =
     (case ReadFull PacketHeaderSize inp of
        Inl e \<Rightarrow> Inl e
      | Inr (headBuf, inp1) \<Rightarrow>
          (let msgId = Uint32 headBuf; dataBodyLen = Uint32 (drop 4 headBuf) in
           if dataBodyLen \<le> 1024 * 1024 - int PacketHeaderSize
           then (case ReadFull (nat dataBodyLen) inp1 of
                   Inl e \<Rightarrow> Inl e
                 | Inr (body, inp2) \<Rightarrow> Inr (headBuf @ body, inp2))
           else Inl (ReachMaxLen msgId dataBodyLen)))"

lemma ReadFull_append [simp]: "ReadFull (length a) (a @ b) = Inr (a, b)"
  by (simp add: ReadFull_def)

lemma ReadFull_Inr: "ReadFull n inp = Inr (a, b) \<Longrightarrow> inp = a @ b \<and> length a = n"
  by (auto simp: ReadFull_def split: if_splits)

lemma socket_read_shrinks:
  "socket_read mx inp = Inr (m, rest) \<Longrightarrow> inp = m @ rest \<and> PacketHeaderSize \<le> length m"
  by (auto simp: socket_read_def Let_def split: sum.splits prod.splits if_splits dest!: ReadFull_Inr)

text \<open>
  ReadWithCallback hands every packet to the callback until a read fails: the packets in
  order, and the error. It terminates because every packet takes its header from the input.
\<close>

function ReadWithCallback :: "int \<Rightarrow> string \<Rightarrow> string list \<times> readErr" where
  "ReadWithCallback mx inp =
     (case socket_read mx inp of
        Inl e \<Rightarrow> ([], e)
      | Inr (b, rest) \<Rightarrow> (let (bs, e) = ReadWithCallback mx rest in (b # bs, e)))"
  by pat_completeness auto
termination
proof (relation "measure (\<lambda>(mx, inp). length inp)")
  show "wf (measure (\<lambda>(mx :: int, inp :: string). length inp))" by simp
next
  fix mx inp and p :: "string \<times> string" and b rest
  assume "socket_read mx inp = Inr p" and "(b, rest) = p"
  then have "inp = b @ rest \<and> PacketHeaderSize \<le> length b"
    using socket_read_shrinks by blast
  then have "length rest < length inp" by (auto simp: PacketHeaderSize_def)
  then show "((mx, rest), (mx, inp)) \<in> measure (\<lambda>(mx, inp). length inp)"
    by simp
qed

declare ReadWithCallback.simps [simp del]

section \<open>The contract between a packer and a reader\<close>

text \<open>
  \<open>enc\<close> writes a packet, \<open>dec\<close> reads one packet off an input. Where \<open>dec\<close> undoes \<open>enc\<close> whatever
  follows, a whole stream of packets comes back as it was written.
\<close>

locale packet_codec =
  fixes enc :: "'m \<Rightarrow> string"
    and dec :: "string \<Rightarrow> 'e + (string \<times> string)"
    and ok :: "'m \<Rightarrow> bool"
  assumes dec_enc: "ok m \<Longrightarrow> dec (enc m @ rest) = Inr (enc m, rest)"
begin

fun reads :: "nat \<Rightarrow> string \<Rightarrow> string list" where
  "reads 0 inp = []"
| "reads (Suc n) inp = (case dec inp of Inl e \<Rightarrow> [] | Inr (m, rest) \<Rightarrow> m # reads n rest)"

lemma reads_stream: "list_all ok ms \<Longrightarrow> reads (length ms) (concat (map enc ms) @ rest) = map enc ms"
proof (induction ms)
  case (Cons m ms)
  then show ?case using dec_enc[of m "concat (map enc ms) @ rest"] by simp
qed simp

lemma enc_prefix_unique:
  assumes "ok m" "ok m'" "enc m @ r = enc m' @ r'"
  shows "enc m = enc m' \<and> r = r'"
proof -
  have "Inr (enc m, r) = dec (enc m @ r)" using dec_enc[OF assms(1)] by simp
  also have "\<dots> = dec (enc m' @ r')" by (rule arg_cong[OF assms(3)])
  also have "\<dots> = Inr (enc m', r')" using dec_enc[OF assms(2)] by simp
  finally show ?thesis by simp
qed

end

lemma socket_read_frame:
  assumes "int (length m) \<le> mx" and "mx < 2 ^ 32"
  shows "socket_read mx (PackByteMsg i m @ rest) = Inr (PackByteMsg i m, rest)"
proof -
  define hd8 where "hd8 = PutUint32 i @ PutUint32 (int (length m))"
  have l: "length hd8 = PacketHeaderSize" by (simp add: hd8_def PacketHeaderSize_def)
  have "ReadFull PacketHeaderSize (PackByteMsg i m @ rest) = Inr (hd8, m @ rest)"
    using ReadFull_append[of hd8 "m @ rest"] l by (simp add: hd8_def PackByteMsg_def)
  moreover have "Uint32 (drop 4 hd8) = int (length m)"
    using assms Uint32_PutUint32[of "int (length m)" "[]"] by (simp add: hd8_def)
  moreover have "hd8 @ m = PackByteMsg i m" by (simp add: hd8_def PackByteMsg_def)
  ultimately show ?thesis
    using assms by (simp add: socket_read_def Let_def)
qed

lemma ReadPacket2_frame:
  assumes "length m \<le> 1024 * 1024 - PacketHeaderSize"
  shows "ReadPacket2 (PackByteMsg i m @ rest) = Inr (PackByteMsg i m, rest)"
proof -
  define hd8 where "hd8 = PutUint32 i @ PutUint32 (int (length m))"
  have l: "length hd8 = PacketHeaderSize" by (simp add: hd8_def PacketHeaderSize_def)
  have "ReadFull PacketHeaderSize (PackByteMsg i m @ rest) = Inr (hd8, m @ rest)"
    using ReadFull_append[of hd8 "m @ rest"] l by (simp add: hd8_def PackByteMsg_def)
  moreover have "Uint32 (drop 4 hd8) = int (length m)"
    using assms Uint32_PutUint32[of "int (length m)" "[]"]
    by (simp add: hd8_def PacketHeaderSize_def)
  moreover have "hd8 @ m = PackByteMsg i m" by (simp add: hd8_def PackByteMsg_def)
  moreover have "int (length m) \<le> 1024 * 1024 - int PacketHeaderSize"
    using assms by (simp add: PacketHeaderSize_def)
  ultimately show ?thesis
    by (simp add: ReadPacket2_def Let_def)
qed

interpretation msgsock: packet_codec "\<lambda>(i, m). PackByteMsg i m" "socket_read (2 ^ 14)"
    "\<lambda>(i, m). length m \<le> 2 ^ 14"
  by unfold_locales (auto simp: socket_read_frame)

interpretation pkt2: packet_codec "\<lambda>(i, m). PackByteMsg i m" ReadPacket2
    "\<lambda>(i, m). length m \<le> 1024 * 1024 - PacketHeaderSize"
  by unfold_locales (auto simp: ReadPacket2_frame)

section \<open>Properties\<close>

lemma ReadWithCallback_frames_aux:
  assumes "\<forall>(i, m) \<in> set ms. int (length m) \<le> mx" and "mx < 2 ^ 32"
  shows "ReadWithCallback mx (concat (map (\<lambda>(i, m). PackByteMsg i m) ms) @ tl8) =
    (let (bs, e) = ReadWithCallback mx tl8 in (map (\<lambda>(i, m). PackByteMsg i m) ms @ bs, e))"
  using assms(1)
proof (induction ms)
  case Nil
  then show ?case by (simp split: prod.splits)
next
  case (Cons a ms)
  obtain i m where a: "a = (i, m)" by (cases a)
  have "int (length m) \<le> mx" using Cons.prems a by simp
  then have "socket_read mx (PackByteMsg i m @ concat (map (\<lambda>(i, m). PackByteMsg i m) ms) @ tl8)
      = Inr (PackByteMsg i m, concat (map (\<lambda>(i, m). PackByteMsg i m) ms) @ tl8)"
    using assms(2) by (rule socket_read_frame)
  with Cons a show ?case
    by (subst ReadWithCallback.simps) (auto split: prod.splits)
qed

lemma ReadWithCallback_Nil: "ReadWithCallback mx [] = ([], EOF)"
  by (subst ReadWithCallback.simps) (simp add: socket_read_def ReadFull_def PacketHeaderSize_def)

text \<open>
  C6: a stream of packets is read back packet by packet. Whatever messages the peer packed
  with Pb2Bytes or PackByteMsg, each of a body no longer than the reader's limit, the loop
  ReadWithCallback delivers exactly those packets, in order, and then stops with EOF.
\<close>

theorem stream_roundtrip:
  assumes "\<forall>(i, m) \<in> set ms. int (length m) \<le> mx" and "mx < 2 ^ 32"
  shows "ReadWithCallback mx (concat (map (\<lambda>(i, m). fst (Pb2Bytes i (Some m))) ms)) =
    (map (\<lambda>(i, m). PackByteMsg i m) ms, EOF)"
proof -
  have "(\<lambda>(i, m). fst (Pb2Bytes i (Some m))) = (\<lambda>(i, m). PackByteMsg i m)"
    by (simp add: Pb2Bytes_def PackByteMsg_def fun_eq_iff)
  then show ?thesis
    using ReadWithCallback_frames_aux[OF assms, of "[]"] by (simp add: ReadWithCallback_Nil)
qed

theorem stream_roundtrip_witness:
  "ReadWithCallback 16 (concat (map (\<lambda>(i, m). fst (Pb2Bytes i (Some m))) [(7, ''ab''), (9, '''')]))
     = ([PackByteMsg 7 ''ab'', PackByteMsg 9 ''''], EOF)"
  using stream_roundtrip[of "[(7, ''ab''), (9, '''')]" 16] by simp

text \<open>
  the reader's limit. A header that announces more than maxReadSize bytes is refused
  whatever follows it, before any of the body is read; and whatever the input, the read never
  hands out more than the header and maxReadSize bytes.
\<close>

theorem socket_read_bounded:
  assumes "mx < len" and "0 \<le> len" and "len < 2 ^ 32"
  shows "socket_read mx (PutUint32 i @ PutUint32 len @ rest) = Inl (OverMaxLen (i mod 2 ^ 32) len mx)
    \<and> (\<forall>inp b rest'. socket_read mx inp = Inr (b, rest') \<longrightarrow>
          int (length b) \<le> int PacketHeaderSize + max 0 mx)"
proof
  define hd8 where "hd8 = PutUint32 i @ PutUint32 len"
  have "length hd8 = PacketHeaderSize" by (simp add: hd8_def PacketHeaderSize_def)
  then have "ReadFull PacketHeaderSize (PutUint32 i @ PutUint32 len @ rest) = Inr (hd8, rest)"
    using ReadFull_append[of hd8 rest] by (simp add: hd8_def)
  moreover have "Uint32 (drop 4 hd8) = len" "Uint32 (take 4 hd8) = i mod 2 ^ 32"
    using assms Uint32_PutUint32[of len "[]"] Uint32_PutUint32[of i "[]"] by (simp_all add: hd8_def)
  ultimately show "socket_read mx (PutUint32 i @ PutUint32 len @ rest) =
      Inl (OverMaxLen (i mod 2 ^ 32) len mx)"
    using assms by (simp add: socket_read_def)
next
  show "\<forall>inp b rest'. socket_read mx inp = Inr (b, rest') \<longrightarrow>
      int (length b) \<le> int PacketHeaderSize + max 0 mx"
    by (auto simp: socket_read_def Let_def split: sum.splits prod.splits if_splits dest!: ReadFull_Inr)
qed

theorem socket_read_bounded_witness:
  "socket_read 5 (PutUint32 3 @ PutUint32 6 @ ''x'') = Inl (OverMaxLen 3 6 5)"
  using socket_read_bounded[of 5 6 3 "''x''"] by simp

end
