(* ===== verification/Client_Core.thy ===== *)
theory Client_Core
  imports Demo Framing Interfaces
begin

text \<open>
  msg-server/client/client.go, redisOpt.go and mysqlOpt.go: the Client object, its two bounded
  channels, contact list and black list, group timestamps, and what it saves to and loads
  from Redis and MySQL. The operations under the client's lock are functions on the record.
\<close>

section \<open>Construction\<close>

definition contactMap :: "contact list \<Rightarrow> (int, contact) fmap" where
  "contactMap cs = fold (\<lambda>v m. fmupd (ct_AccountId v)
     \<lparr>ct_AccountId = ct_AccountId v, ct_RemarkName = ct_RemarkName v\<rparr> m) cs fmempty"

definition noAgent :: agentInfo where
  "noAgent = \<lparr>ai_AgentId = 0, ai_AgentUsername = '''', ai_AgentportraitUrl = ''''\<rparr>"

definition NewClient :: "svc \<Rightarrow> account \<Rightarrow> int \<Rightarrow> int \<Rightarrow> int \<Rightarrow> client" where
  "NewClient srv a now serial terminal =
     (let mc = (case un_ContactList srv (ac_ContactList a) of
                  (ok, cs) \<Rightarrow> if ok then contactMap cs else fmempty);
          mb = (case un_BlackList srv (ac_BlackList a) of
                  (ok, cs) \<Rightarrow> if ok then contactMap cs else fmempty)
      in \<lparr>account = a, strAccount = itoa (ac_AccountId a), chanToClientMsg = [], chanRecvMsg = [],
          isClosed = False, closeSignal = False, doneSignal = False, mapContact = mc,
          agentInfoC = noAgent, mapMember = fmempty, mapBlackList = mb, mapChatGroup = fmempty,
          mapChatGroupLastMsgTimestamp = fmempty, loginTimestamp = now, serialNum = serial,
          terminalType = terminal\<rparr>)"

section \<open>Channels\<close>

definition chanCap :: nat where
  "chanCap = 100"

text \<open>A send in a \<open>select\<close> with a default branch: dropped when the buffer is full.\<close>

definition chanSend :: "string \<Rightarrow> string list \<Rightarrow> string list" where
  "chanSend m q = (if length q < chanCap then q @ [m] else q)"

definition SendBuf :: "string \<Rightarrow> client \<Rightarrow> client" where
  "SendBuf m cl = cl\<lparr>chanToClientMsg := chanSend m (chanToClientMsg cl)\<rparr>"

definition HandleMsg :: "string \<Rightarrow> client \<Rightarrow> client" where
  "HandleMsg m cl = cl\<lparr>chanRecvMsg := chanSend m (chanRecvMsg cl)\<rparr>"

definition pushPb :: "svc \<Rightarrow> int \<Rightarrow> pb \<Rightarrow> client \<Rightarrow> client" where
  "pushPb srv cmdId pb cl =
     (case marshal srv pb of
        Some msg \<Rightarrow> SendBuf (PutUint32 cmdId @ PutUint32 (int (length msg)) @ msg) cl
      | None \<Rightarrow> cl)"

definition SendPbMsg :: "svc \<Rightarrow> nat \<Rightarrow> int \<Rightarrow> pb \<Rightarrow> (server, unit) state" where
  "SendPbMsg srv c cmdId pb = modCli c (pushPb srv cmdId pb)"

definition BlockingSendPbMsg :: "svc \<Rightarrow> nat \<Rightarrow> int \<Rightarrow> pb \<Rightarrow> (server, unit) state" where
  "BlockingSendPbMsg srv c cmdId pb =
     (case marshal srv pb of
        Some msg \<Rightarrow> ask (SocketWrite c (PutUint32 cmdId @ PutUint32 (int (length msg)) @ msg)) (\<lambda>_. ())
      | None \<Rightarrow> skip)"

definition SendErrorCode :: "svc \<Rightarrow> nat \<Rightarrow> int \<Rightarrow> int \<Rightarrow> (server, unit) state" where
  "SendErrorCode srv c errCode msgTimeStamp =
     SendPbMsg srv c NetMsgId_S2CErrorCode (Acc (S2CErrorCode errCode msgTimeStamp ''''))"

text \<open>One round of sendLoop: everything buffered is written, in order, and flushed.\<close>

definition sendLoop :: "nat \<Rightarrow> (server, unit) state" where
  "sendLoop c = do {
     cl \<leftarrow> cli c;
     whenM (chanToClientMsg cl \<noteq> []) (do {
       modCli c (\<lambda>cl. cl\<lparr>chanToClientMsg := []\<rparr>);
       ask (SocketWrite c (concat (chanToClientMsg cl))) (\<lambda>_. ()) }) }"

section \<open>Contacts and black list\<close>

definition IsFriend :: "int \<Rightarrow> client \<Rightarrow> bool" where
  "IsFriend userId cl = has (mapContact cl) userId"

definition IsFriends :: "int list \<Rightarrow> client \<Rightarrow> int list" where
  "IsFriends userIds cl = filter (\<lambda>u. has (mapContact cl) u) userIds"

definition BeFriend :: "int \<Rightarrow> client \<Rightarrow> client" where
  "BeFriend userId cl =
     cl\<lparr>mapContact := fmupd userId \<lparr>ct_AccountId = userId, ct_RemarkName = ''''\<rparr> (mapContact cl)\<rparr>"

definition BeNotFriend :: "int \<Rightarrow> client \<Rightarrow> client" where
  "BeNotFriend userId cl = cl\<lparr>mapContact := fmdrop userId (mapContact cl)\<rparr>"

definition GetFriendRemarkName :: "int \<Rightarrow> client \<Rightarrow> string" where
  "GetFriendRemarkName friendId cl =
     (case fmlookup (mapContact cl) friendId of Some contact \<Rightarrow> ct_RemarkName contact | None \<Rightarrow> '''')"

definition SetFriendRemarkName :: "int \<Rightarrow> string \<Rightarrow> client \<Rightarrow> client" where
  "SetFriendRemarkName friendId remarkName cl =
     (case fmlookup (mapContact cl) friendId of
        Some contact \<Rightarrow>
          cl\<lparr>mapContact := fmupd friendId (contact\<lparr>ct_RemarkName := remarkName\<rparr>) (mapContact cl)\<rparr>
      | None \<Rightarrow> cl)"

definition IsBlackList :: "int \<Rightarrow> client \<Rightarrow> bool" where
  "IsBlackList userId cl = has (mapBlackList cl) userId"

definition BeBlackList :: "int \<Rightarrow> client \<Rightarrow> client" where
  "BeBlackList userId cl =
     cl\<lparr>mapBlackList := fmupd userId
          \<lparr>ct_AccountId = userId, ct_RemarkName = GetFriendRemarkName userId cl\<rparr> (mapBlackList cl)\<rparr>"

definition BeNotBlackList :: "int \<Rightarrow> client \<Rightarrow> client" where
  "BeNotBlackList userId cl = cl\<lparr>mapBlackList := fmdrop userId (mapBlackList cl)\<rparr>"

definition AddChatGroup :: "chatGroup \<Rightarrow> client \<Rightarrow> client" where
  "AddChatGroup g cl = cl\<lparr>mapChatGroup := fmupd (cg_ChatGroupId g) g (mapChatGroup cl)\<rparr>"

definition SetName :: "string \<Rightarrow> client \<Rightarrow> client" where
  "SetName newName cl = cl\<lparr>account := (account cl)\<lparr>ac_NickName := newName\<rparr>\<rparr>"

definition SetLastMsgTimestamp :: "int \<Rightarrow> client \<Rightarrow> client" where
  "SetLastMsgTimestamp ts cl = cl\<lparr>account := (account cl)\<lparr>ac_LastMsgTimestamp := ts\<rparr>\<rparr>"

definition GetChatGroupLastMsgTimestamp :: "int \<Rightarrow> client \<Rightarrow> bool \<times> int" where
  "GetChatGroupLastMsgTimestamp chatGroupId cl =
     (case fmlookup (mapChatGroupLastMsgTimestamp cl) chatGroupId of
        Some v \<Rightarrow> (True, v) | None \<Rightarrow> (False, 0))"

definition SetChatGroupLastMsgTimestamp :: "int \<Rightarrow> int \<Rightarrow> client \<Rightarrow> client" where
  "SetChatGroupLastMsgTimestamp chatGroupId lastMsgTimestamp cl =
     (case fmlookup (mapChatGroupLastMsgTimestamp cl) chatGroupId of
        Some v \<Rightarrow>
          if lastMsgTimestamp > v
          then cl\<lparr>mapChatGroupLastMsgTimestamp :=
                    fmupd chatGroupId lastMsgTimestamp (mapChatGroupLastMsgTimestamp cl)\<rparr>
          else cl
      | None \<Rightarrow> cl)"

definition isFriendM :: "nat \<Rightarrow> int \<Rightarrow> (server, bool) state" where
  "isFriendM c u = gets (\<lambda>s. IsFriend u (clients s c))"

definition isBlackListM :: "nat \<Rightarrow> int \<Rightarrow> (server, bool) state" where
  "isBlackListM c u = gets (\<lambda>s. IsBlackList u (clients s c))"

lemmas client_ops [wp_simps] = isFriendM_def isBlackListM_def SendPbMsg_def SendErrorCode_def

text \<open>GetChatGroupIds, GetFriendIds and GetBlackListIds: the keys, in map iteration order.\<close>

definition GetChatGroupIds :: "svc \<Rightarrow> nat \<Rightarrow> (server, int list) state" where
  "GetChatGroupIds srv c = rangeM srv (\<lambda>s. mapChatGroup (clients s c))"

definition GetFriendIds :: "svc \<Rightarrow> nat \<Rightarrow> (server, int list) state" where
  "GetFriendIds srv c = rangeM srv (\<lambda>s. mapContact (clients s c))"

definition GetFriendStrIds :: "svc \<Rightarrow> nat \<Rightarrow> (server, string list) state" where
  "GetFriendStrIds srv c = do { ids \<leftarrow> rangeM srv (\<lambda>s. mapContact (clients s c)); ret (map itoa ids) }"

definition GetBlackListIds :: "svc \<Rightarrow> nat \<Rightarrow> (server, int list) state" where
  "GetBlackListIds srv c = rangeM srv (\<lambda>s. mapBlackList (clients s c))"

definition GetBlackListStrIds :: "svc \<Rightarrow> nat \<Rightarrow> (server, string list) state" where
  "GetBlackListStrIds srv c =
     do { ids \<leftarrow> rangeM srv (\<lambda>s. mapBlackList (clients s c)); ret (map itoa ids) }"

definition UpdateBlackListInfoInMemory :: "svc \<Rightarrow> nat \<Rightarrow> (server, unit) state" where
  "UpdateBlackListInfoInMemory srv c = do {
     ids \<leftarrow> rangeM srv (\<lambda>s. mapBlackList (clients s c));
     cl \<leftarrow> cli c;
     let blackLists = map (\<lambda>k. the (fmlookup (mapBlackList cl) k)) ids in
     (case marshal srv (Sto (PB_BlackList blackLists)) of
        Some buf \<Rightarrow> modCli c (\<lambda>cl. cl\<lparr>account := (account cl)\<lparr>ac_BlackList := buf\<rparr>\<rparr>)
      | None \<Rightarrow> skip) }"

definition UpdateContactInfoInMemory :: "svc \<Rightarrow> nat \<Rightarrow> (server, unit) state" where
  "UpdateContactInfoInMemory srv c = do {
     ids \<leftarrow> rangeM srv (\<lambda>s. mapContact (clients s c));
     cl \<leftarrow> cli c;
     let cs = map (\<lambda>k. \<lparr>ct_AccountId = k,
                 ct_RemarkName = ct_RemarkName (the (fmlookup (mapContact cl) k))\<rparr>) ids in
     (case marshal srv (Sto (PB_ContactList cs)) of
        Some buf \<Rightarrow> modCli c (\<lambda>cl. cl\<lparr>account := (account cl)\<lparr>ac_ContactList := buf\<rparr>\<rparr>)
      | None \<Rightarrow> skip) }"

section \<open>Redis key prefixes\<close>

definition RdsKeyPrefixPrivateChatRecord :: string where "RdsKeyPrefixPrivateChatRecord = ''private_chat_record''"
definition RdsKeyPrefixUid :: string where "RdsKeyPrefixUid = ''uid''"
definition RdsKeyPrefixBriefInfo :: string where "RdsKeyPrefixBriefInfo = ''brief_info''"
definition RdsKeyPrefixGroupChatRecord :: string where "RdsKeyPrefixGroupChatRecord = ''group_chat_record''"
definition RdsKeyPrefixChatGroupInfo :: string where "RdsKeyPrefixChatGroupInfo = ''chat_group_info''"
definition RdsKeyPrefixPushInfo :: string where "RdsKeyPrefixPushInfo = ''push_info''"
definition RdsKeyPrefixUserNameInfo :: string where "RdsKeyPrefixUserNameInfo = ''user_name_info''"
definition RdsKeyPrefixUserOnline :: string where "RdsKeyPrefixUserOnline = ''user_online''"
definition RdsKeyPrefixHeadPortraitUrl :: string where "RdsKeyPrefixHeadPortraitUrl = ''head_portrait''"
definition RdsKeyPrefixFriendSet :: string where "RdsKeyPrefixFriendSet = ''friend:set''"
definition RdsKeyPrefixBlackListSet :: string where "RdsKeyPrefixBlackListSet = ''blackList:set''"
definition RdsKeyPrefixWeiboCover :: string where "RdsKeyPrefixWeiboCover = ''weibo_cover''"
definition RdsKeyPrefixWeiboCoverLiker :: string where "RdsKeyPrefixWeiboCoverLiker = ''weibo_cover_liker:set''"
definition RdsKeyPrefixWeiboList :: string where "RdsKeyPrefixWeiboList = ''weibo:list''"
definition RdsKeyPrefixWeiboSet :: string where "RdsKeyPrefixWeiboSet = ''weibo:set''"
definition RdsKeyPrefixWeiboString :: string where "RdsKeyPrefixWeiboString = ''weibo:string''"
definition RdsKeyPrefixWeiboZset :: string where "RdsKeyPrefixWeiboZset = ''weibo:sortedSet''"
definition RdsKeyPrefixWeiboLikeSet :: string where "RdsKeyPrefixWeiboLikeSet = ''weibo_like:set''"
definition RdsKeyPrefixWeiboLikeHash :: string where "RdsKeyPrefixWeiboLikeHash = ''weibo_like:hash''"
definition RdsKeyPrefixWeiboReplyList :: string where "RdsKeyPrefixWeiboReplyList = ''weibo_reply:list''"
definition RdsKeyPrefixWeiboReplySet :: string where "RdsKeyPrefixWeiboReplySet = ''weibo_reply:set''"
definition RdsKeyPrefixDontLookFriendWeiboSet :: string where "RdsKeyPrefixDontLookFriendWeiboSet = ''dont_look_friend_weibo:set''"
definition RdsKeyPrefixForbiddenFriendLookWeiboSet :: string where "RdsKeyPrefixForbiddenFriendLookWeiboSet = ''forbidden_friend_look_weibo:set''"
definition RdsKeyPrefixAllowStragerLookWeiboSet :: string where "RdsKeyPrefixAllowStragerLookWeiboSet = ''allow_stranger_look_weibo:set''"
definition RdsKeyPrefixAllowFriendLookWeiboString :: string where "RdsKeyPrefixAllowFriendLookWeiboString = ''allow_friend_look_weibo:string''"
definition RdsKeyPrefixHighAgentSet :: string where "RdsKeyPrefixHighAgentSet = ''agent:set''"

section \<open>Reading other users' data\<close>

definition QueryOtherBriefInfo ::
    "svc \<Rightarrow> int \<Rightarrow> (server, userBriefInfo option \<times> goerr option) state" where
  "QueryOtherBriefInfo srv accountId = do {
     r \<leftarrow> rdsStr srv (RGet RdsKeyPrefixBriefInfo (itoa accountId));
     (case r of
        (_, Some err) \<Rightarrow> ret (None, Some err)
      | (str, None) \<Rightarrow>
          (case un_UserBriefInfo srv str of
             (ok, p) \<Rightarrow> ret (Some p, if ok then None else Some (Err ''proto''))))}"

definition GetOtherBriefInfoFromRds ::
    "svc \<Rightarrow> int \<Rightarrow> (server, userBriefInfo option \<times> goerr option) state" where
  "GetOtherBriefInfoFromRds srv accountId = do {
     r \<leftarrow> rdsStr srv (RGet RdsKeyPrefixBriefInfo (itoa accountId));
     (case r of
        (_, Some err) \<Rightarrow> ret (None, Some err)
      | (str, None) \<Rightarrow> ret (Some (snd (un_UserBriefInfo srv str)), None))}"

definition GetBriefInfoFromRds ::
    "svc \<Rightarrow> nat \<Rightarrow> (server, userBriefInfo option \<times> goerr option) state" where
  "GetBriefInfoFromRds srv c = do {
     sa \<leftarrow> GetStrAccount c;
     r \<leftarrow> rdsStr srv (RGet RdsKeyPrefixBriefInfo sa);
     (case r of
        (_, Some err) \<Rightarrow> ret (None, Some err)
      | (str, None) \<Rightarrow> ret (Some (snd (un_UserBriefInfo srv str)), None))}"

definition GetUserHeadPortraitUrl :: "svc \<Rightarrow> int \<Rightarrow> (server, string) state" where
  "GetUserHeadPortraitUrl srv userId = do {
     r \<leftarrow> rdsStr srv (RGet RdsKeyPrefixHeadPortraitUrl (itoa userId));
     ret (if snd r \<noteq> None then '''' else fst r) }"

section \<open>Saving\<close>

definition SaveBaseInfo :: "svc \<Rightarrow> nat \<Rightarrow> (server, unit) state" where
  "SaveBaseInfo srv c = do {
     cl \<leftarrow> cli c;
     _ \<leftarrow> db srv (SqlExec ''update account set nick_name = ?, last_msg_timestamp = ? where account_id = ?''
            [AStr (ac_NickName (account cl)), AInt (ac_LastMsgTimestamp (account cl)),
             AInt (ac_AccountId (account cl))]);
     skip }"

definition SaveContactInfo :: "svc \<Rightarrow> nat \<Rightarrow> (server, unit) state" where
  "SaveContactInfo srv c = do {
     UpdateContactInfoInMemory srv c;
     cl \<leftarrow> cli c;
     _ \<leftarrow> db srv (SqlExec ''update account set contact_list = ? where account_id = ?''
            [AStr (ac_ContactList (account cl)), AInt (ac_AccountId (account cl))]);
     skip }"

definition SaveBlackListInfo :: "svc \<Rightarrow> nat \<Rightarrow> (server, unit) state" where
  "SaveBlackListInfo srv c = do {
     UpdateBlackListInfoInMemory srv c;
     cl \<leftarrow> cli c;
     _ \<leftarrow> db srv (SqlExec ''UPDATE account SET black_list = ? WHERE account_id = ?''
            [AStr (ac_BlackList (account cl)), AInt (ac_AccountId (account cl))]);
     skip }"

definition SaveChatGroupLastMsgTimestamp :: "svc \<Rightarrow> nat \<Rightarrow> (server, unit) state" where
  "SaveChatGroupLastMsgTimestamp srv c = do {
     err \<leftarrow> db srv TxBegin;
     (if err \<noteq> None then skip
      else do {
        ids \<leftarrow> rangeM srv (\<lambda>s. mapChatGroupLastMsgTimestamp (clients s c));
        r \<leftarrow> forUntil ids (\<lambda>g. do {
               cl \<leftarrow> cli c;
               db srv (TxExec ''update chat_group_member set last_msg_timestamp = ? where account_id = ? and chat_group_id = ?''
                 [AInt (mapGet 0 (mapChatGroupLastMsgTimestamp cl) g),
                  AInt (ac_AccountId (account cl)), AInt g]) });
        (case r of
           Some _ \<Rightarrow> do { _ \<leftarrow> db srv TxRollback; skip }
         | None \<Rightarrow> do {
             err \<leftarrow> db srv TxCommit;
             whenM (err \<noteq> None) (do { _ \<leftarrow> db srv TxRollback; skip }) }) });
     _ \<leftarrow> db srv TxClose;
     skip }"

definition SaveUsrBriefInfoToRedis :: "svc \<Rightarrow> nat \<Rightarrow> (server, unit) state" where
  "SaveUsrBriefInfoToRedis srv c = do {
     cl \<leftarrow> cli c;
     let ubi = \<lparr>ub_AccountId = ac_AccountId (account cl), ub_Nickname = ac_NickName (account cl),
                ub_UserName = ac_UserName (account cl), ub_HeadPortrait = ac_HeadPortrait (account cl),
                ub_Signature = ''''\<rparr>;
         buf = (case marshal srv (Sto (PB_UserBriefInfo ubi)) of Some b \<Rightarrow> b | None \<Rightarrow> '''') in do {
     _ \<leftarrow> rdsStatus srv (RSet RdsKeyPrefixBriefInfo (strAccount cl) (RStr buf));
     skip } }"

definition SaveFriendInfoToRedis :: "svc \<Rightarrow> nat \<Rightarrow> (server, unit) state" where
  "SaveFriendInfoToRedis srv c = do {
     ids \<leftarrow> rangeM srv (\<lambda>s. mapContact (clients s c));
     forM ids (\<lambda>k. do {
       cl \<leftarrow> cli c;
       _ \<leftarrow> rdsInt srv (RAddSet RdsKeyPrefixFriendSet (strAccount cl)
              (RStr (itoa (ct_AccountId (the (fmlookup (mapContact cl) k))))));
       skip }) }"

definition DelClientOnlieExpire :: "svc \<Rightarrow> int \<Rightarrow> (server, unit) state" where
  "DelClientOnlieExpire srv clientId = do {
     _ \<leftarrow> rdsInt srv (RDel RdsKeyPrefixUserOnline (itoa clientId)); skip }"

definition SetClientOnlineExpire :: "svc \<Rightarrow> nat \<Rightarrow> (server, unit) state" where
  "SetClientOnlineExpire srv c = do {
     sa \<leftarrow> GetStrAccount c;
     _ \<leftarrow> rdsStatus srv (RSetex RdsKeyPrefixUserOnline sa (10 * 60 * 1000000000) RNil); skip }"

definition IsUserOnline :: "svc \<Rightarrow> int \<Rightarrow> (server, bool) state" where
  "IsUserOnline srv clientId = rdsBool srv (RExists RdsKeyPrefixUserOnline (itoa clientId))"

definition Close :: "svc \<Rightarrow> nat \<Rightarrow> (server, unit) state" where
  "Close srv c = do {
     cl \<leftarrow> cli c;
     (if isClosed cl then skip
      else do {
        modCli c (\<lambda>cl. cl\<lparr>isClosed := True\<rparr>);
        ask (SocketClose c) (\<lambda>_. ());
        modCli c (\<lambda>cl. cl\<lparr>closeSignal := True\<rparr>);
        SaveBaseInfo srv c;
        SaveChatGroupLastMsgTimestamp srv c;
        DelClientOnlieExpire srv (ac_AccountId (account cl)) }) }"

text \<open>
  One round of recvLoop on the outcome of \<open>socket.ReadOne\<close>: a packet goes to the receive
  channel and the loop goes on, an error closes the client and ends it (False).
\<close>

definition recvLoop :: "svc \<Rightarrow> nat \<Rightarrow> readErr + string \<Rightarrow> (server, bool) state" where
  "recvLoop srv c r =
     (case r of
        Inl _ \<Rightarrow> do { Close srv c; ret False }
      | Inr msg \<Rightarrow> do { modCli c (HandleMsg msg); ret True })"

section \<open>Loading\<close>

definition JoinChatGroup :: "svc \<Rightarrow> nat \<Rightarrow> int \<Rightarrow> (server, unit) state" where
  "JoinChatGroup srv c chatGroupId = do {
     r \<leftarrow> rdsStr srv (RGet RdsKeyPrefixChatGroupInfo (itoa chatGroupId));
     whenM (fst r \<noteq> '''')
       (case un_ChatGroup srv (fst r) of (ok, p) \<Rightarrow> whenM ok (modCli c (AddChatGroup p))) }"

definition LoadChatGroupInfo :: "svc \<Rightarrow> nat \<Rightarrow> (server, unit) state" where
  "LoadChatGroupInfo srv c = do {
     cl \<leftarrow> cli c;
     let q = SqlQuery ''select chat_group_id, last_msg_timestamp from chat_group_member where account_id = ?''
               [AInt (ac_AccountId (account cl))] in do {
     r \<leftarrow> ask q (\<lambda>h. dbRowsII srv h q);
     (case r of
        (_, Some _) \<Rightarrow> skip
      | (rows, None) \<Rightarrow>
          if None \<in> set rows then skip
          else do {
            let gts = map the rows in do {
            bins \<leftarrow> rdsList srv (RMGet RdsKeyPrefixChatGroupInfo (map (itoa \<circ> fst) gts));
            forM (case fst bins of Some bs \<Rightarrow> bs | None \<Rightarrow> []) (\<lambda>b.
              whenM (b \<noteq> '''')
                (case un_ChatGroup srv b of (ok, p) \<Rightarrow> whenM ok (modCli c (AddChatGroup p))));
            modCli c (\<lambda>cl. cl\<lparr>mapChatGroupLastMsgTimestamp :=
              fold (\<lambda>(g, t). fmupd g t) gts fmempty\<rparr>) } }) } }"

section \<open>Agents and members\<close>

definition GetAgentAndMember :: "svc \<Rightarrow> nat \<Rightarrow> (server, agentInfo list) state" where
  "GetAgentAndMember srv c = do {
     acc \<leftarrow> GetAccountId c;
     r \<leftarrow> dbScanInt srv (SqlQueryRow ''SELECT agent_id FROM account WHERE account_id = ?'' [AInt acc]);
     agentInfos \<leftarrow>
       (case r of
          (agentId, None) \<Rightarrow>
            if agentId \<noteq> 0 then do {
              let q = SqlQueryRow ''SELECT user_name FROM account WHERE account_id = ?'' [AInt acc] in do {
              agentName \<leftarrow> ask q (\<lambda>h. dbStr srv h q);
              url \<leftarrow> GetUserHeadPortraitUrl srv agentId;
              let info = \<lparr>ai_AgentId = agentId, ai_AgentUsername = agentName,
                          ai_AgentportraitUrl = url\<rparr> in do {
              modCli c (\<lambda>cl. cl\<lparr>agentInfoC := info\<rparr>);
              ret [info] } } }
            else ret []
        | (_, Some _) \<Rightarrow> ret []);
     let q = SqlQuery ''SELECT account_id, user_name FROM account WHERE agent_id = ?'' [AInt acc] in do {
     rows \<leftarrow> ask q (\<lambda>h. dbRowsIS srv h q);
     forM (case rows of Some rs \<Rightarrow> rs | None \<Rightarrow> []) (\<lambda>(accountId, userName). do {
       url \<leftarrow> GetUserHeadPortraitUrl srv accountId;
       modCli c (\<lambda>cl. cl\<lparr>mapMember := fmupd accountId
         \<lparr>ai_AgentId = accountId, ai_AgentUsername = userName, ai_AgentportraitUrl = url\<rparr>
         (mapMember cl)\<rparr>) });
     ret agentInfos } }"

definition IsAgentOrMember :: "svc \<Rightarrow> nat \<Rightarrow> int \<Rightarrow> (server, bool) state" where
  "IsAgentOrMember srv c userId = do {
     _ \<leftarrow> GetAgentAndMember srv c;
     cl \<leftarrow> cli c;
     ret (ai_AgentId (agentInfoC cl) = userId \<or> has (mapMember cl) userId) }"

definition GetAgentOrMemberUsername :: "svc \<Rightarrow> nat \<Rightarrow> int \<Rightarrow> (server, string) state" where
  "GetAgentOrMemberUsername srv c userId = do {
     _ \<leftarrow> GetAgentAndMember srv c;
     cl \<leftarrow> cli c;
     ret (if userId = ai_AgentId (agentInfoC cl) then ai_AgentUsername (agentInfoC cl)
          else (case fmlookup (mapMember cl) userId of
                  Some info \<Rightarrow> ai_AgentUsername info | None \<Rightarrow> '''')) }"

section \<open>What the operations promise\<close>

lemma chanSend_length [simp]: "length q \<le> chanCap \<Longrightarrow> length (chanSend m q) \<le> chanCap"
  by (simp add: chanSend_def chanCap_def)

interpretation outCh: bounded_channel chanToClientMsg SendBuf chanCap
  by unfold_locales (simp add: SendBuf_def chanSend_def)

interpretation inCh: bounded_channel chanRecvMsg HandleMsg chanCap
  by unfold_locales (simp add: HandleMsg_def chanSend_def)

interpretation contacts: framed_membership IsFriend BeFriend BeNotFriend
    "\<lambda>cl. (account cl, chanToClientMsg cl, mapBlackList cl, mapChatGroup cl, mapChatGroupLastMsgTimestamp cl)"
  by unfold_locales (auto simp: IsFriend_def BeFriend_def BeNotFriend_def)

interpretation blacklist: framed_membership IsBlackList BeBlackList BeNotBlackList
    "\<lambda>cl. (account cl, chanToClientMsg cl, mapContact cl, mapChatGroup cl, mapChatGroupLastMsgTimestamp cl)"
  by unfold_locales (auto simp: IsBlackList_def BeBlackList_def BeNotBlackList_def)

interpretation groupTs: high_water "\<lambda>g cl. fmlookup (mapChatGroupLastMsgTimestamp cl) g"
    SetChatGroupLastMsgTimestamp
  by unfold_locales (auto simp: SetChatGroupLastMsgTimestamp_def max_def split: option.splits)

text \<open>The frame of a message, and the frames of those messages that can be marshalled.\<close>

definition pbFrames :: "svc \<Rightarrow> (int \<times> pb) list \<Rightarrow> string list" where
  "pbFrames srv ms = concat (map (\<lambda>(i, p).
     case marshal srv p of Some m \<Rightarrow> [PackByteMsg i m] | None \<Rightarrow> []) ms)"

lemma pushPb_SendBuf: "pushPb srv i p cl = fold SendBuf (pbFrames srv [(i, p)]) cl"
  by (simp add: pushPb_def pbFrames_def PackByteMsg_def split: option.splits)

lemma fold_pushPb: "fold (\<lambda>(i, p). pushPb srv i p) ms cl = fold SendBuf (pbFrames srv ms) cl"
proof (induction ms arbitrary: cl)
  case Nil
  then show ?case by (simp add: pbFrames_def)
next
  case (Cons x ms)
  obtain i p where x: "x = (i, p)" by (cases x)
  have "pbFrames srv ((i, p) # ms) = pbFrames srv [(i, p)] @ pbFrames srv ms"
    by (simp add: pbFrames_def)
  then have "fold SendBuf (pbFrames srv ((i, p) # ms)) cl
      = fold SendBuf (pbFrames srv ms) (pushPb srv i p cl)"
    by (simp add: pushPb_SendBuf)
  then show ?case by (simp add: x Cons)
qed

lemma queue_after_sends:
  "chanToClientMsg (fold (\<lambda>(i, p). pushPb srv i p) ms cl) =
     chanToClientMsg cl @ take (100 - length (chanToClientMsg cl)) (pbFrames srv ms)"
  by (simp add: fold_pushPb outCh.items_sends chanCap_def)

text \<open>
  the send queue of a client. After any messages are sent to it, the queue holds what it
  held followed by the frames of the messages that could be marshalled, in the order they were
  sent, cut off at the 100 entries of the channel: nothing is reordered, duplicated or
  replaced, and what does not fit is dropped whole.
\<close>

theorem send_queue:
  "chanToClientMsg (fold (\<lambda>(i, p). pushPb srv i p) ms cl) =
     chanToClientMsg cl @ take (100 - length (chanToClientMsg cl)) (pbFrames srv ms)"
  by (rule queue_after_sends)

definition fitting :: "svc \<Rightarrow> int \<Rightarrow> (int \<times> pb) list \<Rightarrow> bool" where
  "fitting srv mx ms \<longleftrightarrow> list_all (\<lambda>(i, p). case marshal srv p of
     Some m \<Rightarrow> int (length m) \<le> mx | None \<Rightarrow> True) ms"

lemma pbFrames_read:
  assumes "fitting srv mx ms" "mx < 2 ^ 32"
  shows "\<exists>xs. pbFrames srv ms = map (\<lambda>(i, m). PackByteMsg i m) xs
            \<and> (\<forall>(i, m) \<in> set xs. int (length m) \<le> mx)"
proof -
  define xs where "xs = concat (map (\<lambda>(i, p). case marshal srv p of Some m \<Rightarrow> [(i, m)] | None \<Rightarrow> []) ms)"
  have "pbFrames srv ms = map (\<lambda>(i, m). PackByteMsg i m) xs"
    unfolding pbFrames_def xs_def by (induction ms) (auto split: option.splits)
  moreover have "\<forall>(i, m) \<in> set xs. int (length m) \<le> mx"
    using assms(1) unfolding xs_def fitting_def by (induction ms) (auto split: option.splits)
  ultimately show ?thesis by blast
qed

text \<open>
  C7: what a client sends reaches the peer. Send any messages to a client whose queue is
  empty, run one round of sendLoop, and let the peer read the bytes written to the socket: it
  receives exactly the frames of the first 100 messages that could be marshalled.
\<close>

theorem send_then_read:
  assumes "chanToClientMsg (clients s c) = []" and "fitting srv mx ms" and "mx < 2 ^ 32"
    and "pbFrames srv ms \<noteq> []"
    and "s' = s\<lparr>clients := (clients s)(c := fold (\<lambda>(i, p). pushPb srv i p) ms (clients s c))\<rparr>"
  shows "\<exists>out. hist (snd (run_state (sendLoop c) s')) = hist s @ [SocketWrite c out] \<and>
      ReadWithCallback mx out = (take 100 (pbFrames srv ms), EOF)"
proof -
  obtain xs where xs: "pbFrames srv ms = map (\<lambda>(i, m). PackByteMsg i m) xs"
    "\<forall>(i, m) \<in> set xs. int (length m) \<le> mx"
    using pbFrames_read[OF assms(2,3)] by blast
  have q: "chanToClientMsg (clients s' c) = take 100 (pbFrames srv ms)"
    using assms(1) by (simp add: assms(5) queue_after_sends)
  define out where "out = concat (map (\<lambda>(i, m). PackByteMsg i m) (take 100 xs) @ [])"
  have "ReadWithCallback mx (concat (map (\<lambda>(i, m). PackByteMsg i m) (take 100 xs)) @ [])
      = (map (\<lambda>(i, m). PackByteMsg i m) (take 100 xs), EOF)"
    using xs(2) assms(3)
    by (subst ReadWithCallback_frames_aux) (auto dest: in_set_takeD simp: ReadWithCallback_Nil)
  then have "ReadWithCallback mx out = (take 100 (pbFrames srv ms), EOF)"
    by (simp add: out_def xs(1) take_map)
  moreover have "hist (snd (run_state (sendLoop c) s')) = hist s @ [SocketWrite c out]"
    using q assms(4) by (simp add: sendLoop_def out_def xs(1) take_map assms(5))
  ultimately show ?thesis by blast
qed

theorem send_then_read_witness:
  "\<exists>out. hist (snd (run_state (sendLoop 0) (demoServer\<lparr>clients := (clients demoServer)(0 :=
        fold (\<lambda>(i, p). pushPb demoSvc i p) [(9, Acc (S2CRename ''x'')), (8, Acc (S2CHeartbeat 1))]
          (clients demoServer 0))\<rparr>))) = [SocketWrite 0 out]
     \<and> ReadWithCallback 1000 out = ([PackByteMsg 9 ''m'', PackByteMsg 8 ''m''], EOF)"
  using send_then_read[of demoServer 0 demoSvc 1000 "[(9, Acc (S2CRename ''x'')), (8, Acc (S2CHeartbeat 1))]", OF _ _ _ _ refl]
  by (simp add: fitting_def pbFrames_def demoSvc_def)

text \<open>
  the last-read mark of a chat group. After any reports of SetChatGroupLastMsgTimestamp, a
  group the user is in has the largest of its mark and the reported timestamps of that group,
  so a mark never moves back, and a group the user is not in gets none.
\<close>

theorem group_timestamp_monotone:
  "fmlookup (mapChatGroupLastMsgTimestamp
      (fold (\<lambda>(g, t). SetChatGroupLastMsgTimestamp g t) reports cl)) g =
   map_option (\<lambda>v. fold max (map snd (filter (\<lambda>r. fst r = g) reports)) v)
     (fmlookup (mapChatGroupLastMsgTimestamp cl) g)"
  by (rule groupTs.mark_reports)

section \<open>Closing\<close>

text \<open>The programs that only read the process state and call services.\<close>

lemmas service_calls = ask_defs rangeM_def cli_def GetAccountId_def GetStrAccount_def
  isFriendM_def isBlackListM_def GetChatGroupIds_def GetFriendIds_def GetBlackListIds_def

lemma keeps_SaveChatGroupLastMsgTimestamp [keeps_rules]:
  "(\<And>s h. I s \<Longrightarrow> I (s\<lparr>hist := h\<rparr>)) \<Longrightarrow> keeps I (SaveChatGroupLastMsgTimestamp srv c)"
  unfolding SaveChatGroupLastMsgTimestamp_def service_calls
  by (intro keeps_rules) auto

lemma SaveChatGroupLastMsgTimestamp_clients [simp]:
  "clients (snd (run_state (SaveChatGroupLastMsgTimestamp srv c) s)) = clients s"
  by (rule keepsD[OF keeps_SaveChatGroupLastMsgTimestamp[where I = "\<lambda>t. clients t = clients s"]]) auto

lemma Close_clients:
  "clients (snd (run_state (Close srv c) s)) =
     (if isClosed (clients s c) then clients s
      else (clients s)(c := (clients s c)\<lparr>isClosed := True, closeSignal := True\<rparr>))"
  by (auto simp: Close_def SaveBaseInfo_def DelClientOnlieExpire_def run_simps split_beta
      SaveChatGroupLastMsgTimestamp_clients)

text \<open>
  closing is idempotent. The first Close of a client marks it closed, closes its close
  signal and changes no other client; whatever is done with other clients' data in between,
  closing a closed client again calls nothing and changes nothing (so the close signal is
  closed once, and the account is saved once).
\<close>

theorem Close_once:
  "let s1 = snd (run_state (Close srv c) s) in
     clients s1 = (clients s)(c := if isClosed (clients s c) then clients s c
                                   else (clients s c)\<lparr>isClosed := True, closeSignal := True\<rparr>)
     \<and> isClosed (clients s1 c) \<and> run_state (Close srv c) s1 = ((), s1)"
proof -
  have "run_state (Close srv c) t = ((), t)" if "isClosed (clients t c)" for t
    using that by (simp add: Close_def)
  then show ?thesis by (simp add: Let_def Close_clients)
qed


section \<open>Well-formed process states\<close>

text \<open>
  Every entry of a client's maps sits under its own id, both queues are within their bounds,
  the client's text form of its account is the account's, and its close signal is closed
  exactly when the client is.
\<close>

definition client_wf :: "client \<Rightarrow> bool" where
  "client_wf cl \<longleftrightarrow>
     (\<forall>k v. fmlookup (mapContact cl) k = Some v \<longrightarrow> ct_AccountId v = k)
   \<and> (\<forall>k v. fmlookup (mapBlackList cl) k = Some v \<longrightarrow> ct_AccountId v = k)
   \<and> (\<forall>k v. fmlookup (mapChatGroup cl) k = Some v \<longrightarrow> cg_ChatGroupId v = k)
   \<and> (\<forall>k v. fmlookup (mapMember cl) k = Some v \<longrightarrow> ai_AgentId v = k)
   \<and> length (chanToClientMsg cl) \<le> chanCap \<and> length (chanRecvMsg cl) \<le> chanCap
   \<and> strAccount cl = itoa (ac_AccountId (account cl))
   \<and> (closeSignal cl \<longleftrightarrow> isClosed cl)"

text \<open>
  The registry of online clients has no empty inner map and files every client under its own
  account and terminal.
\<close>

definition online_wf :: "server \<Rightarrow> bool" where
  "online_wf s \<longleftrightarrow>
     (\<forall>a m. fmlookup (mapOnlineClient s) a = Some m \<longrightarrow> m \<noteq> fmempty \<and>
        (\<forall>t c. fmlookup m t = Some c \<longrightarrow>
           ac_AccountId (account (clients s c)) = a \<and> terminalType (clients s c) = t))"

definition server_wf :: "server \<Rightarrow> bool" where
  "server_wf s \<longleftrightarrow> (\<forall>c. client_wf (clients s c)) \<and> online_wf s"

definition keyOf :: "server \<Rightarrow> nat \<Rightarrow> int \<times> int" where
  "keyOf s c = (ac_AccountId (account (clients s c)), terminalType (clients s c))"

text \<open>
  What only logging in and out changes: the registry, who a client is and whether it is closed.
  \<open>inv X\<close> is the invariant of everything else the process does: the state is well-formed and
  this core and the calls made so far are still those of \<open>X\<close>.
\<close>

definition core :: "server \<Rightarrow> (int, (int, nat) fmap) fmap \<times> (nat \<Rightarrow> (int \<times> int) \<times> bool \<times> bool \<times> bool)" where
  "core s = (mapOnlineClient s, \<lambda>c. (keyOf s c, isClosed (clients s c), closeSignal (clients s c),
     doneSignal (clients s c)))"

definition inv ::
    "((int, (int, nat) fmap) fmap \<times> (nat \<Rightarrow> (int \<times> int) \<times> bool \<times> bool \<times> bool)) \<times> call list
       \<Rightarrow> server \<Rightarrow> bool" where
  "inv X s \<longleftrightarrow> server_wf s \<and> core s = fst X \<and> (\<exists>h. hist s = snd X @ h)"

definition ok_upd :: "(client \<Rightarrow> client) \<Rightarrow> bool" where
  "ok_upd f \<longleftrightarrow> (\<forall>cl. (client_wf cl \<longrightarrow> client_wf (f cl))
      \<and> ac_AccountId (account (f cl)) = ac_AccountId (account cl)
      \<and> terminalType (f cl) = terminalType cl \<and> isClosed (f cl) = isClosed cl
      \<and> closeSignal (f cl) = closeSignal cl \<and> doneSignal (f cl) = doneSignal cl)"

lemma keeps_wf_modCli [keeps_rules]:
  assumes "ok_upd f"
  shows "keeps (inv X) (modCli c f)"
proof (rule keepsI)
  fix s assume I: "inv X s"
  let ?t = "s\<lparr>clients := (clients s)(c := f (clients s c))\<rparr>"
  have "core ?t = core s" using assms by (auto simp: ok_upd_def core_def keyOf_def fun_eq_iff)
  moreover have "server_wf ?t"
    using I assms by (auto simp: inv_def server_wf_def online_wf_def ok_upd_def)
  ultimately show "inv X (snd (run_state (modCli c f) s))" using I by (simp add: inv_def)
qed

lemma keeps_wf_ask [keeps_rules]: "keeps (inv X) (ask q f)"
  by (auto simp: keeps_def inv_def server_wf_def online_wf_def core_def keyOf_def)

lemma inv_run:
  assumes "\<And>X. keeps (inv X) m" "server_wf s"
  shows "server_wf (snd (run_state m s)) \<and> core (snd (run_state m s)) = core s
    \<and> (\<exists>h. hist (snd (run_state m s)) = hist s @ h)"
proof -
  have "inv (core s, hist s) s" using assms(2) by (simp add: inv_def)
  from keepsD[OF assms(1) this] show ?thesis by (simp add: inv_def)
qed

lemma inv_server_wf: "(\<And>X. keeps (inv X) m) \<Longrightarrow> keeps server_wf m"
  unfolding keeps_def[of server_wf] using inv_run by blast

lemma inv_core: "(\<And>X. keeps (inv X) m) \<Longrightarrow> server_wf s \<Longrightarrow> core (snd (run_state m s)) = core s"
  using inv_run by blast

named_theorems ok_upds \<open>client updates that keep the client well-formed\<close>

lemma ok_SendBuf [ok_upds, keeps_rules]: "ok_upd (SendBuf m)"
  by (auto simp: ok_upd_def client_wf_def SendBuf_def)

lemma ok_HandleMsg [ok_upds, keeps_rules]: "ok_upd (HandleMsg m)"
  by (auto simp: ok_upd_def client_wf_def HandleMsg_def)

lemma ok_pushPb [ok_upds, keeps_rules]: "ok_upd (pushPb srv i p)"
  using ok_SendBuf by (auto simp: ok_upd_def pushPb_def split: option.splits)

lemma ok_BeFriend [ok_upds, keeps_rules]: "ok_upd (BeFriend u)"
  by (auto simp: ok_upd_def client_wf_def BeFriend_def split: if_splits)

lemma ok_BeNotFriend [ok_upds, keeps_rules]: "ok_upd (BeNotFriend u)"
  by (auto simp: ok_upd_def client_wf_def BeNotFriend_def split: if_splits)

lemma ok_BeBlackList [ok_upds, keeps_rules]: "ok_upd (BeBlackList u)"
  by (auto simp: ok_upd_def client_wf_def BeBlackList_def split: if_splits)

lemma ok_BeNotBlackList [ok_upds, keeps_rules]: "ok_upd (BeNotBlackList u)"
  by (auto simp: ok_upd_def client_wf_def BeNotBlackList_def split: if_splits)

lemma ok_SetFriendRemarkName [ok_upds, keeps_rules]: "ok_upd (SetFriendRemarkName u n)"
  by (auto simp: ok_upd_def client_wf_def SetFriendRemarkName_def split: option.splits if_splits)

lemma ok_AddChatGroup [ok_upds, keeps_rules]: "ok_upd (AddChatGroup g)"
  by (auto simp: ok_upd_def client_wf_def AddChatGroup_def split: if_splits)

lemma ok_SetName [ok_upds, keeps_rules]: "ok_upd (SetName n)"
  by (auto simp: ok_upd_def client_wf_def SetName_def)

lemma ok_SetLastMsgTimestamp [ok_upds, keeps_rules]: "ok_upd (SetLastMsgTimestamp t)"
  by (auto simp: ok_upd_def client_wf_def SetLastMsgTimestamp_def)

lemma ok_SetChatGroupLastMsgTimestamp [ok_upds, keeps_rules]:
  "ok_upd (SetChatGroupLastMsgTimestamp g t)"
  by (auto simp: ok_upd_def client_wf_def SetChatGroupLastMsgTimestamp_def split: option.splits)

lemma ok_fields [keeps_rules]:
  "ok_upd (\<lambda>cl. cl\<lparr>account := (account cl)\<lparr>ac_BlackList := b\<rparr>\<rparr>)"
  "ok_upd (\<lambda>cl. cl\<lparr>account := (account cl)\<lparr>ac_ContactList := b\<rparr>\<rparr>)"
  "ok_upd (\<lambda>cl. cl\<lparr>account := (account cl)\<lparr>ac_HeadPortrait := b\<rparr>\<rparr>)"
  "ok_upd (\<lambda>cl. cl\<lparr>chanToClientMsg := []\<rparr>)"
  "ok_upd (\<lambda>cl. cl\<lparr>mapChatGroupLastMsgTimestamp := f\<rparr>)"
  "ok_upd (\<lambda>cl. cl\<lparr>agentInfoC := ai\<rparr>)"
  "ok_upd (\<lambda>cl. cl\<lparr>mapMember := fmupd k \<lparr>ai_AgentId = k, ai_AgentUsername = u, ai_AgentportraitUrl = w\<rparr>
                     (mapMember cl)\<rparr>)"
  by (auto simp: ok_upd_def client_wf_def split: if_splits)

lemma keeps_wf_SendPbMsg [keeps_rules]: "keeps (inv X) (SendPbMsg srv c i p)"
  unfolding SendPbMsg_def by (intro keeps_rules)

lemma keeps_wf_SendErrorCode [keeps_rules]: "keeps (inv X) (SendErrorCode srv c e t)"
  unfolding SendErrorCode_def by (intro keeps_rules)

lemma keeps_wf_reads [keeps_rules]:
  "keeps (inv X) (rdsStatus srv r)" "keeps (inv X) (rdsInt srv r)" "keeps (inv X) (rdsStr srv r)"
  "keeps (inv X) (rdsList srv r)" "keeps (inv X) (rdsBool srv r)" "keeps (inv X) (db srv q)"
  "keeps (inv X) (dbInsert srv q)" "keeps (inv X) (dbExists srv w)" "keeps (inv X) (dbScanInt srv q)"
  "keeps (inv X) (dbGetGroup srv q)" "keeps (inv X) (dbGetAccount srv q)" "keeps (inv X) (timeNow srv)"
  "keeps (inv X) (dbGetWeibo srv q)" "keeps (inv X) (dbGetCover srv q)" "keeps (inv X) (dbGetJoinLog srv q)"
  "keeps (inv X) (pushM srv as is)"
  "keeps (inv X) (cli c)" "keeps (inv X) (GetAccountId c)" "keeps (inv X) (GetStrAccount c)"
  "keeps (inv X) (isFriendM c u)" "keeps (inv X) (isBlackListM c u)" "keeps (inv X) (rangeM srv f)"
  "keeps (inv X) (GetChatGroupIds srv c)" "keeps (inv X) (GetFriendIds srv c)"
  "keeps (inv X) (GetBlackListIds srv c)"
  unfolding service_calls by (intro keeps_rules)+

lemma keeps_wf_client_methods [keeps_rules]:
  "keeps (inv X) (UpdateBlackListInfoInMemory srv c)"
  "keeps (inv X) (UpdateContactInfoInMemory srv c)"
  "keeps (inv X) (QueryOtherBriefInfo srv u)"
  "keeps (inv X) (GetOtherBriefInfoFromRds srv u)"
  "keeps (inv X) (GetBriefInfoFromRds srv c)"
  "keeps (inv X) (GetUserHeadPortraitUrl srv u)"
  "keeps (inv X) (SaveBaseInfo srv c)"
  "keeps (inv X) (SaveUsrBriefInfoToRedis srv c)"
  "keeps (inv X) (SaveFriendInfoToRedis srv c)"
  "keeps (inv X) (DelClientOnlieExpire srv u)"
  "keeps (inv X) (SetClientOnlineExpire srv c)"
  "keeps (inv X) (IsUserOnline srv u)"
  "keeps (inv X) (BlockingSendPbMsg srv c i p)"
  "keeps (inv X) (sendLoop c)"
  "keeps (inv X) (JoinChatGroup srv c g)"
  "keeps (inv X) (LoadChatGroupInfo srv c)"
  "keeps (inv X) (GetAgentAndMember srv c)"
  unfolding UpdateBlackListInfoInMemory_def UpdateContactInfoInMemory_def QueryOtherBriefInfo_def
    GetOtherBriefInfoFromRds_def GetBriefInfoFromRds_def GetUserHeadPortraitUrl_def SaveBaseInfo_def
    SaveUsrBriefInfoToRedis_def SaveFriendInfoToRedis_def DelClientOnlieExpire_def
    SetClientOnlineExpire_def IsUserOnline_def BlockingSendPbMsg_def sendLoop_def JoinChatGroup_def
    LoadChatGroupInfo_def GetAgentAndMember_def
  by (intro keeps_rules)+

lemma keeps_wf_client_methods2 [keeps_rules]:
  "keeps (inv X) (SaveContactInfo srv c)"
  "keeps (inv X) (SaveBlackListInfo srv c)"
  "keeps (inv X) (IsAgentOrMember srv c u)"
  "keeps (inv X) (GetAgentOrMemberUsername srv c u)"
  unfolding SaveContactInfo_def SaveBlackListInfo_def IsAgentOrMember_def GetAgentOrMemberUsername_def
  by (intro keeps_rules)+

lemma keeps_wf_Close: "keeps server_wf (Close srv c)"
proof (rule keepsI)
  fix s assume wf: "server_wf s"
  have "mapOnlineClient (snd (run_state (Close srv c) s)) = mapOnlineClient s"
    by (rule keepsD[where I = "\<lambda>t. mapOnlineClient t = mapOnlineClient s"])
      (auto simp: Close_def SaveBaseInfo_def DelClientOnlieExpire_def service_calls
        modCli_def keeps_def[of _ "modify _"] intro!: keeps_rules)
  with wf show "server_wf (snd (run_state (Close srv c) s))"
    by (auto simp: server_wf_def online_wf_def Close_clients client_wf_def)
qed

lemma contactMap_fold_ids:
  assumes "\<forall>k v. fmlookup m k = Some v \<longrightarrow> ct_AccountId v = k"
  shows "\<forall>k v. fmlookup (fold (\<lambda>v m. fmupd (ct_AccountId v)
       \<lparr>ct_AccountId = ct_AccountId v, ct_RemarkName = ct_RemarkName v\<rparr> m) cs m) k = Some v
      \<longrightarrow> ct_AccountId v = k"
  using assms
proof (induction cs arbitrary: m)
  case (Cons c cs)
  have "\<forall>k v. fmlookup (fmupd (ct_AccountId c)
      \<lparr>ct_AccountId = ct_AccountId c, ct_RemarkName = ct_RemarkName c\<rparr> m) k = Some v
      \<longrightarrow> ct_AccountId v = k"
    using Cons.prems by auto
  from Cons.IH[OF this] show ?case by simp
qed simp

lemma contactMap_ids: "fmlookup (contactMap cs) k = Some v \<Longrightarrow> ct_AccountId v = k"
proof -
  have "\<forall>k v. fmlookup fmempty k = Some v \<longrightarrow> ct_AccountId v = k" by simp
  from contactMap_fold_ids[OF this, of cs]
  show "fmlookup (contactMap cs) k = Some v \<Longrightarrow> ct_AccountId v = k"
    unfolding contactMap_def by blast
qed

lemma NewClient_wf: "client_wf (NewClient srv a now serial terminal)"
proof -
  define mc where "mc f l = (case f l of (ok, cs) \<Rightarrow> if ok then contactMap cs else fmempty)"
    for f :: "contact list decoder" and l
  have "fmlookup (mc f l) k = Some v \<Longrightarrow> ct_AccountId v = k" for f l k v
    by (auto simp: mc_def split: prod.splits if_splits dest: contactMap_ids)
  then show ?thesis
    by (simp add: client_wf_def NewClient_def flip: mc_def)
qed

end
