(* ===== verification/FriendOps.thy ===== *)
theory FriendOps
  imports Client_Core
begin

text \<open>
  What the handlers share: sending to other users over the Redis channel
  (im-library/redisPubSub), the black list's storage and the friend operations that are methods
  or helpers in msg-server/client/friends.go.
\<close>

section \<open>Publishing to other message servers\<close>

text \<open>
  A message for one user goes to the server that the hash ring assigns to the user. The result
  is the error, None for nil.
\<close>

definition mqSendPbMsg :: "svc \<Rightarrow> int \<Rightarrow> int \<Rightarrow> pb \<Rightarrow> (server, goerr option) state" where
  "mqSendPbMsg srv receiverId cmdId p =
     (case marshal srv p of
        Some msg \<Rightarrow> do {
          r \<leftarrow> rdsInt srv (RDo ''pub'' ''publish''
                 [RStr (hashNode srv (itoa receiverId)), RStr (mqBuf receiverId 0 cmdId msg)]);
          ret (snd r) }
      | None \<Rightarrow> ret (Some (Err ''proto'')))"

definition SendGroupBuf :: "svc \<Rightarrow> string \<Rightarrow> int \<Rightarrow> int \<Rightarrow> string \<Rightarrow> (server, goerr option) state" where
  "SendGroupBuf srv topic groupId cmdId msg = do {
     r \<leftarrow> rdsInt srv (RDo ''pub'' ''publish'' [RStr topic, RStr (mqBuf 0 groupId cmdId msg)]);
     ret (snd r) }"

definition SendGroupMsg :: "svc \<Rightarrow> string \<Rightarrow> int \<Rightarrow> int \<Rightarrow> pb \<Rightarrow> (server, goerr option) state" where
  "SendGroupMsg srv topic groupId cmdId p =
     (case marshal srv p of
        Some msg \<Rightarrow> do {
          r \<leftarrow> rdsInt srv (RDo ''pub'' ''publish'' [RStr topic, RStr (mqBuf 0 groupId cmdId msg)]);
          ret (snd r) }
      | None \<Rightarrow> ret (Some (Err ''proto'')))"

section \<open>Black list storage\<close>

definition getBlackListBin :: "svc \<Rightarrow> nat \<Rightarrow> (server, string \<times> bool) state" where
  "getBlackListBin srv c = do {
     ids \<leftarrow> GetBlackListIds srv c;
     cl \<leftarrow> cli c;
     (case marshal srv (Sto (PB_BlackList (map (\<lambda>i.
             \<lparr>ct_AccountId = i, ct_RemarkName = GetFriendRemarkName i cl\<rparr>) ids))) of
        Some buf \<Rightarrow> ret (buf, True)
      | None \<Rightarrow> ret ('''', False)) }"

definition SaveBlackListDB :: "svc \<Rightarrow> nat \<Rightarrow> string \<Rightarrow> (server, goerr option) state" where
  "SaveBlackListDB srv c blackList_bin = do {
     acc \<leftarrow> GetAccountId c;
     db srv (SqlExec ''UPDATE account SET black_list = ? WHERE account_id = ?''
       [AStr blackList_bin, AInt acc]) }"

definition BeBlackListRds :: "svc \<Rightarrow> nat \<Rightarrow> int \<Rightarrow> (server, goerr option) state" where
  "BeBlackListRds srv c friendId = do {
     sa \<leftarrow> GetStrAccount c;
     r \<leftarrow> rdsInt srv (RAddSet RdsKeyPrefixBlackListSet sa (RInt friendId));
     ret (snd r) }"

definition BeNotBlackListRds :: "svc \<Rightarrow> nat \<Rightarrow> int \<Rightarrow> (server, goerr option) state" where
  "BeNotBlackListRds srv c friendId = do {
     sa \<leftarrow> GetStrAccount c;
     r \<leftarrow> rdsInt srv (RRemSet RdsKeyPrefixBlackListSet sa (RInt friendId));
     ret (snd r) }"

definition IsSomeoneInOtherBlackList ::
    "svc \<Rightarrow> int \<Rightarrow> int \<Rightarrow> (server, bool \<times> goerr option) state" where
  "IsSomeoneInOtherBlackList srv someoneId otherId = do {
     r \<leftarrow> rdsInt srv (RIsSetMember RdsKeyPrefixBlackListSet (itoa otherId) (RStr (itoa someoneId)));
     (case r of
        (_, Some err) \<Rightarrow> ret (False, Some err)
      | (setMember, None) \<Rightarrow> ret (setMember = 1, None)) }"

section \<open>Deleting a friend\<close>

text \<open>The contact list that is stored after a deletion: the remaining ids, no remark names.\<close>

definition bareContacts :: "svc \<Rightarrow> nat \<Rightarrow> (server, string) state" where
  "bareContacts srv c = do {
     ids \<leftarrow> GetFriendIds srv c;
     ret (case marshal srv (Sto (PB_ContactList (map (\<lambda>i.
             \<lparr>ct_AccountId = i, ct_RemarkName = ''''\<rparr>) ids))) of
            Some buf \<Rightarrow> buf | None \<Rightarrow> '''') }"

text \<open>
  The body after Begin: the deferred function reports and rolls back only when \<open>errCode\<close> is
  set, which the first failure does not do.
\<close>

definition deleteFriendTx :: "svc \<Rightarrow> nat \<Rightarrow> int \<Rightarrow> (server, int \<times> bool) state" where
  "deleteFriendTx srv c friendId = do {
     modCli c (BeNotFriend friendId);
     buf \<leftarrow> bareContacts srv c;
     acc \<leftarrow> GetAccountId c;
     err \<leftarrow> db srv (TxDBExec ''update account set contact_list = ? where account_id = ?''
             [AStr buf, AInt acc]);
     (if err \<noteq> None then do {
        modCli c (BeFriend friendId);
        ret (0, False) }
      else do {
        err \<leftarrow> db srv (TxDBExec ''UPDATE friend_delete SET status = 1 WHERE receiver_id = ? and sender_id = ? and status = 0''
                [AInt acc, AInt friendId]);
        (if err \<noteq> None then do {
           modCli c (BeFriend friendId);
           ret (2, False) }
         else do {
           err \<leftarrow> db srv TxCommit;
           (if err \<noteq> None then do {
              modCli c (BeFriend friendId);
              ret (3, False) }
            else do {
              modCli c (\<lambda>cl. cl\<lparr>account := (account cl)\<lparr>ac_ContactList := buf\<rparr>\<rparr>);
              ret (0, True) }) }) }) }"

definition DeleteFriend :: "svc \<Rightarrow> nat \<Rightarrow> int \<Rightarrow> (server, bool) state" where
  "DeleteFriend srv c friendId = do {
     isF \<leftarrow> isFriendM c friendId;
     (if \<not> isF then do {
        SendErrorCode srv c MsgErrCode_confirm_friend_is_not_friend 0;
        ret False }
      else do {
        err \<leftarrow> db srv TxBegin;
        r \<leftarrow> (if err \<noteq> None then do {
               SendErrorCode srv c MsgErrCode_confirm_friend_server_internal_error 0;
               ret False }
             else do {
               (errCode, ok) \<leftarrow> deleteFriendTx srv c friendId;
               whenM (errCode \<noteq> 0) (do {
                 SendErrorCode srv c MsgErrCode_confirm_friend_server_internal_error 0;
                 _ \<leftarrow> db srv TxRollback;
                 skip });
               ret ok });
        _ \<leftarrow> db srv TxClose;
        ret r }) }"

definition GetMutualFriends ::
    "svc \<Rightarrow> int \<Rightarrow> int \<Rightarrow> (server, int list option \<times> goerr option) state" where
  "GetMutualFriends srv userId friendId =
     (let u = itoa userId; f = itoa friendId; k = addPrefix srv RdsKeyPrefixFriendSet in do {
     r \<leftarrow> rdsInt srv (RDo RdsKeyPrefixFriendSet ''Sinterstore''
            [RStr (k (u @ '':'' @ f)), RStr (k u), RStr (k f)]);
     (case r of
        (_, Some err) \<Rightarrow> ret (None, Some err)
      | (num, None) \<Rightarrow> do {
          q \<leftarrow> rdsList srv (RDo RdsKeyPrefixFriendSet ''SPOP'' [RStr (k (u @ '':'' @ f)), RInt num]);
          (case q of
             (_, Some err) \<Rightarrow> ret (None, Some err)
           | (inters, None) \<Rightarrow>
               ret (Some (map fst (filter snd (map ParseInt
                      (case inters of Some l \<Rightarrow> l | None \<Rightarrow> [])))), None)) }) })"

lemma keeps_wf_friend_ops [keeps_rules]:
  "keeps (inv X) (mqSendPbMsg srv r i p)"
  "keeps (inv X) (SendGroupBuf srv tp g i m)"
  "keeps (inv X) (SendGroupMsg srv tp g i p)"
  "keeps (inv X) (getBlackListBin srv c)"
  "keeps (inv X) (SaveBlackListDB srv c b)"
  "keeps (inv X) (BeBlackListRds srv c u)"
  "keeps (inv X) (BeNotBlackListRds srv c u)"
  "keeps (inv X) (IsSomeoneInOtherBlackList srv u v)"
  "keeps (inv X) (bareContacts srv c)"
  "keeps (inv X) (GetMutualFriends srv u v)"
  unfolding mqSendPbMsg_def SendGroupBuf_def SendGroupMsg_def getBlackListBin_def
    SaveBlackListDB_def BeBlackListRds_def BeNotBlackListRds_def IsSomeoneInOtherBlackList_def
    bareContacts_def GetMutualFriends_def Let_def
  by (intro keeps_rules)+

lemma keeps_wf_DeleteFriend [keeps_rules]: "keeps (inv X) (DeleteFriend srv c u)"
  unfolding DeleteFriend_def deleteFriendTx_def by (intro keeps_rules)

end
