(* ===== verification/ClientManager.thy ===== *)
theory ClientManager
  imports Client_Core Demo
begin

text \<open>
  msg-server/clientManager/clientManager.go: the registry of the clients that are online on this
  server, one per account and terminal type. RemoveClient, which also publishes the logout
  event, and the goroutines of KickClient and WatchCloseSignal are in the theory Sessions.
\<close>

definition TerminalTypeApp :: int where "TerminalTypeApp = 1"
definition TerminalTypeWeb :: int where "TerminalTypeWeb = 2"

definition StoreClient :: "nat \<Rightarrow> server \<Rightarrow> server" where
  "StoreClient c s =
     (let accountId = ac_AccountId (account (clients s c)); t = terminalType (clients s c) in
      case fmlookup (mapOnlineClient s) accountId of
        Some mapClient \<Rightarrow>
          s\<lparr>mapOnlineClient := fmupd accountId (fmupd t c mapClient) (mapOnlineClient s)\<rparr>
      | None \<Rightarrow> s\<lparr>mapOnlineClient := fmupd accountId (fmupd t c fmempty) (mapOnlineClient s)\<rparr>)"

text \<open>The part of RemoveClient under the lock.\<close>

definition dropClient :: "int \<Rightarrow> int \<Rightarrow> server \<Rightarrow> server" where
  "dropClient accountId t s =
     (case fmlookup (mapOnlineClient s) accountId of
        None \<Rightarrow> s
      | Some mapClient \<Rightarrow>
          if has mapClient t then
            (let m = fmdrop t mapClient in
             if m = fmempty then s\<lparr>mapOnlineClient := fmdrop accountId (mapOnlineClient s)\<rparr>
             else s\<lparr>mapOnlineClient := fmupd accountId m (mapOnlineClient s)\<rparr>)
          else s)"

definition GetClient :: "int \<Rightarrow> int \<Rightarrow> server \<Rightarrow> nat option" where
  "GetClient accountId t s =
     (case fmlookup (mapOnlineClient s) accountId of
        Some mapClient \<Rightarrow> fmlookup mapClient t
      | None \<Rightarrow> None)"

definition GetOnlineUserNumber :: "server \<Rightarrow> nat" where
  "GetOnlineUserNumber s = fcard (fmdom (mapOnlineClient s))"

definition GetOtherTerminalClient :: "nat \<Rightarrow> server \<Rightarrow> nat option" where
  "GetOtherTerminalClient c s =
     (if terminalType (clients s c) = TerminalTypeApp
      then GetClient (ac_AccountId (account (clients s c))) TerminalTypeWeb s
      else GetClient (ac_AccountId (account (clients s c))) TerminalTypeApp s)"

definition SendPbMsgToOtherTerminal :: "svc \<Rightarrow> nat \<Rightarrow> int \<Rightarrow> pb \<Rightarrow> (server, unit) state" where
  "SendPbMsgToOtherTerminal srv c cmdId p = do {
     o' \<leftarrow> gets (GetOtherTerminalClient c);
     (case o' of Some d \<Rightarrow> SendPbMsg srv d cmdId p | None \<Rightarrow> skip) }"

section \<open>The registry as a keyed store\<close>

text \<open>
  Putting the client \<open>c\<close> under its own account and terminal; the client itself is not changed
  by the registry, so the key is stable.
\<close>

definition storeAt :: "int \<times> int \<Rightarrow> nat \<Rightarrow> server \<Rightarrow> server" where
  "storeAt k c s = s\<lparr>mapOnlineClient :=
     fmupd (fst k) (fmupd (snd k) c (case fmlookup (mapOnlineClient s) (fst k) of
        Some m \<Rightarrow> m | None \<Rightarrow> fmempty)) (mapOnlineClient s)\<rparr>"

lemma StoreClient_storeAt: "StoreClient c s = storeAt (keyOf s c) c s"
  by (simp add: StoreClient_def storeAt_def keyOf_def Let_def split: option.splits)

lemma fmdrop_all: "fmdrop t m = fmempty \<Longrightarrow> j \<noteq> t \<Longrightarrow> fmlookup m j = None"
  by (metis fmlookup_drop fmempty_lookup)

interpretation registry: last_wins "\<lambda>(a, t) s. GetClient a t s" storeAt "\<lambda>(a, t) s. dropClient a t s"
proof unfold_locales
  fix j k c s
  show "(case j of (a, t) \<Rightarrow> GetClient a t) (storeAt k c s) =
      (if j = k then Some c else (case j of (a, t) \<Rightarrow> GetClient a t) s)"
    by (auto simp: GetClient_def storeAt_def split: prod.splits option.splits)
next
  fix j k s
  show "(case j of (a, t) \<Rightarrow> GetClient a t) ((case k of (a, t) \<Rightarrow> dropClient a t) s) =
      (if j = k then None else (case j of (a, t) \<Rightarrow> GetClient a t) s)"
    by (auto simp: GetClient_def dropClient_def Let_def has_def dest: fmdrop_all
        split: prod.splits option.splits if_splits)
qed

lemma GetClient_StoreClient:
  "GetClient a t (StoreClient c s) = (if (a, t) = keyOf s c then Some c else GetClient a t s)"
  using registry.get_put[of "(a, t)" "keyOf s c" c s] by (simp add: StoreClient_storeAt)

lemma GetClient_dropClient:
  "GetClient a t (dropClient b u s) = (if (a, t) = (b, u) then None else GetClient a t s)"
  using registry.get_remove[of "(a, t)" "(b, u)" s] by simp

lemma registry_frame [simp]:
  "clients (StoreClient c s) = clients s" "hist (StoreClient c s) = hist s"
  "clients (dropClient a t s) = clients s" "hist (dropClient a t s) = hist s"
  "mmLocalOnlineGroupMember (StoreClient c s) = mmLocalOnlineGroupMember s"
  "mmLocalOnlineGroupMember (dropClient a t s) = mmLocalOnlineGroupMember s"
  by (simp_all add: StoreClient_def dropClient_def Let_def split: option.splits)

lemma StoreClient_wf: "server_wf s \<Longrightarrow> server_wf (StoreClient c s)"
  by (auto simp: server_wf_def online_wf_def StoreClient_def Let_def split: option.splits if_splits)

lemma dropClient_wf: "server_wf s \<Longrightarrow> server_wf (dropClient a t s)"
  by (auto simp: server_wf_def online_wf_def dropClient_def Let_def split: option.splits if_splits)

lemma GetClient_wf:
  "server_wf s \<Longrightarrow> GetClient a t s = Some c \<Longrightarrow> keyOf s c = (a, t)"
  by (auto simp: server_wf_def online_wf_def GetClient_def keyOf_def split: option.splits)

lemma keeps_wf_registry:
  "keeps server_wf (modify (StoreClient c))" "keeps server_wf (modify (dropClient a t))"
  by (simp_all add: keeps_def StoreClient_wf dropClient_wf)

lemma keeps_wf_SendPbMsgToOtherTerminal [keeps_rules]:
  "keeps (inv X) (SendPbMsgToOtherTerminal srv c i p)"
  unfolding SendPbMsgToOtherTerminal_def by (intro keeps_rules)

lemma run_SendPbMsgToOtherTerminal:
  "run_state (SendPbMsgToOtherTerminal srv c i p) s =
     (case GetOtherTerminalClient c s of
        None \<Rightarrow> ((), s)
      | Some d \<Rightarrow> ((), s\<lparr>clients := (clients s)(d := pushPb srv i p (clients s d))\<rparr>))"
  by (simp add: SendPbMsgToOtherTerminal_def SendPbMsg_def split: option.splits)

text \<open>
  the registry finds exactly who is stored. After any logins the client of an account and
  terminal is the one stored last for it; removing a client's account and terminal removes
  that entry only; and a user with one terminal online is one online user, however many
  entries come and go: the number of online users is the number of accounts with an entry.
\<close>

theorem registry_lookup:
  "GetClient a t (fold StoreClient cs s) =
     (case find (\<lambda>c. keyOf s c = (a, t)) (rev cs) of Some c \<Rightarrow> Some c | None \<Rightarrow> GetClient a t s)
   \<and> GetClient a t (dropClient b u s) = (if a = b \<and> t = u then None else GetClient a t s)
   \<and> (online_wf s \<longrightarrow> GetOnlineUserNumber s = card {a. \<exists>t. GetClient a t s \<noteq> None})"
proof (intro conjI impI)
  have key: "keyOf (StoreClient c s) = keyOf s" for c s by (auto simp: keyOf_def)
  show "GetClient a t (fold StoreClient cs s) =
     (case find (\<lambda>c. keyOf s c = (a, t)) (rev cs) of Some c \<Rightarrow> Some c | None \<Rightarrow> GetClient a t s)"
  proof (induction cs rule: rev_induct)
    case (snoc c cs)
    have "keyOf (fold StoreClient cs s) = keyOf s"
      by (induction cs arbitrary: s) (simp_all add: key)
    then show ?case using snoc by (auto simp: GetClient_StoreClient)
  qed simp
  show "GetClient a t (dropClient b u s) = (if a = b \<and> t = u then None else GetClient a t s)"
    by (simp add: GetClient_dropClient)
  assume wf: "online_wf s"
  have "{a. \<exists>t. GetClient a t s \<noteq> None} = fset (fmdom (mapOnlineClient s))"
  proof (intro set_eqI iffI)
    fix a assume "a \<in> fset (fmdom (mapOnlineClient s))"
    then obtain m where m: "fmlookup (mapOnlineClient s) a = Some m" by (meson fmdomE)
    with wf have "m \<noteq> fmempty" by (auto simp: online_wf_def)
    then obtain t where "fmlookup m t \<noteq> None" by (metis fmap_ext fmempty_lookup)
    with m show "a \<in> {a. \<exists>t. GetClient a t s \<noteq> None}" by (auto simp: GetClient_def)
  qed (auto simp: GetClient_def fmdomI split: option.splits)
  then show "GetOnlineUserNumber s = card {a. \<exists>t. GetClient a t s \<noteq> None}"
    by (simp add: GetOnlineUserNumber_def fcard.rep_eq)
qed

text \<open>
  a message to the other terminal of a user reaches that user only: nothing but the queue
  of the client that is registered for the sender's account on the other terminal changes,
  and a client never receives its own message.
\<close>

theorem other_terminal_same_user:
  assumes "server_wf s" and "terminalType (clients s c) \<in> {TerminalTypeApp, TerminalTypeWeb}"
    and "s' = snd (run_state (SendPbMsgToOtherTerminal srv c i p) s)"
    and "clients s' d \<noteq> clients s d"
  shows "d \<noteq> c \<and> ac_AccountId (account (clients s d)) = ac_AccountId (account (clients s c))
    \<and> terminalType (clients s d) \<noteq> terminalType (clients s c)
    \<and> clients s' d = pushPb srv i p (clients s d)"
proof -
  obtain e where e: "GetOtherTerminalClient c s = Some e"
    using assms(3,4) by (auto simp: run_SendPbMsgToOtherTerminal split: option.splits)
  then have "e = d" "clients s' d = pushPb srv i p (clients s d)"
    using assms(3,4) by (auto simp: run_SendPbMsgToOtherTerminal split: if_splits)
  moreover have "keyOf s e = (ac_AccountId (account (clients s c)),
      if terminalType (clients s c) = TerminalTypeApp then TerminalTypeWeb else TerminalTypeApp)"
    using e GetClient_wf[OF assms(1)] by (auto simp: GetOtherTerminalClient_def split: if_splits)
  ultimately show ?thesis
    using assms(2) by (auto simp: keyOf_def TerminalTypeApp_def TerminalTypeWeb_def split: if_splits)
qed

text \<open>User 1 online on both terminals.\<close>

definition demoTwoTerminals :: server where
  "demoTwoTerminals = StoreClient 1 (StoreClient 0 (demoServer\<lparr>clients :=
     (\<lambda>c. if c = 1 then (demoClient 1)\<lparr>terminalType := 2\<rparr> else demoClient (int c + 1))\<rparr>))"

lemma demoClient_wf: "client_wf (demoClient a)"
  by (simp add: client_wf_def demoClient_def demoAccount_def)

lemma demoServer_wf: "server_wf demoServer"
  by (simp add: server_wf_def online_wf_def demoServer_def demoClient_wf)

lemma demoTwoTerminals_wf: "server_wf demoTwoTerminals"
proof -
  have "server_wf (demoServer\<lparr>clients :=
     (\<lambda>c. if c = 1 then (demoClient 1)\<lparr>terminalType := 2\<rparr> else demoClient (int c + 1))\<rparr>)"
    using demoClient_wf by (auto simp: server_wf_def online_wf_def client_wf_def)
  then show ?thesis by (simp add: demoTwoTerminals_def StoreClient_wf)
qed

lemma demoTwoTerminals_clients:
  "clients demoTwoTerminals = (\<lambda>c. if c = 1 then (demoClient 1)\<lparr>terminalType := 2\<rparr> else demoClient (int c + 1))"
  by (simp add: demoTwoTerminals_def)

lemma demoTwoTerminals_other: "GetOtherTerminalClient 0 demoTwoTerminals = Some 1"
  unfolding GetOtherTerminalClient_def demoTwoTerminals_clients
  by (simp add: demoTwoTerminals_def GetClient_StoreClient keyOf_def TerminalTypeApp_def TerminalTypeWeb_def)

theorem other_terminal_same_user_witness:
  "ac_AccountId (account (clients demoTwoTerminals 1)) = 1 \<and>
   chanToClientMsg (clients (snd (run_state (SendPbMsgToOtherTerminal demoSvc 0 9 (Acc (S2CRename ''x'')))
     demoTwoTerminals)) 1) \<noteq> []"
proof -
  define s' where "s' = snd (run_state (SendPbMsgToOtherTerminal demoSvc 0 9 (Acc (S2CRename ''x''))) demoTwoTerminals)"
  have ne: "chanToClientMsg (clients s' 1) \<noteq> []"
    by (simp add: s'_def run_SendPbMsgToOtherTerminal demoTwoTerminals_other demoTwoTerminals_clients
        pushPb_def demoSvc_def SendBuf_def chanSend_def chanCap_def)
  then have "clients s' 1 \<noteq> clients demoTwoTerminals 1"
    by (auto simp: demoTwoTerminals_clients)
  moreover have "terminalType (clients demoTwoTerminals 0) \<in> {TerminalTypeApp, TerminalTypeWeb}"
    by (simp add: demoTwoTerminals_clients TerminalTypeApp_def)
  ultimately show ?thesis
    using other_terminal_same_user[OF demoTwoTerminals_wf _ s'_def] ne
    by (simp add: demoTwoTerminals_clients s'_def)
qed

theorem registry_lookup_witness:
  "GetOnlineUserNumber demoTwoTerminals = 1 \<and> GetClient 1 1 (dropClient 1 2 demoTwoTerminals) = Some 0"
proof -
  have reg: "GetClient a t demoTwoTerminals
      = (if (a, t) = (1, 2) then Some 1 else if (a, t) = (1, 1) then Some 0 else None)" for a t
    by (simp add: demoTwoTerminals_def GetClient_StoreClient keyOf_def) (simp add: GetClient_def)
  have "{a. \<exists>t. GetClient a t demoTwoTerminals \<noteq> None} = {1}" by (auto simp: reg)
  then show ?thesis
    using registry_lookup[of 1 1 "[]" demoTwoTerminals 1 2] demoTwoTerminals_wf
    by (simp add: server_wf_def reg)
qed

end
