(* ===== verification/EventManager.thy ===== *)
theory EventManager
  imports Demo "HOL-Library.List_Lexorder" "HOL-Library.Char_ord"
begin

text \<open>
  msg-server/eventmanager: event ids, event arguments and the subscriptions. Function values
  are names (\<^typ>\<open>evHandler\<close>); what a name does is a parameter here and is fixed in the theory
  Subscribers. Maps of subscribers are sync.Map, so a Range sees them in an unspecified order.
\<close>

section \<open>Event ids\<close>

definition TestEvent :: int where "TestEvent = 0"
definition CreateCharacterSuccessEvent :: int where "CreateCharacterSuccessEvent = 1"
definition ClientLoginEvent :: int where "ClientLoginEvent = 2"
definition ClientLogoutEvent :: int where "ClientLogoutEvent = 3"
definition JoinChatGroupEvent :: int where "JoinChatGroupEvent = 4"
definition UnChatGroupEvent :: int where "UnChatGroupEvent = 5"
definition CancelChatGroupEvent :: int where "CancelChatGroupEvent = 6"
definition C2SGroupChatEvent :: int where "C2SGroupChatEvent = 7"
definition PublishWeibo :: int where "PublishWeibo = 8"
definition PrivateChatEvent :: int where "PrivateChatEvent = 9"
definition AgreeBecomeFriendEvent :: int where "AgreeBecomeFriendEvent = 10"
definition ReadFriendReqEvent :: int where "ReadFriendReqEvent = 11"
definition C2SLastMsgTimeStampEvent :: int where "C2SLastMsgTimeStampEvent = 12"
definition DeleteFriendEvent :: int where "DeleteFriendEvent = 13"
definition ConfirmDeleteFriendEvent :: int where "ConfirmDeleteFriendEvent = 14"
definition C2SAddFriendBlackListEvent :: int where "C2SAddFriendBlackListEvent = 15"
definition S2CMoveOutFriendBlackListEvent :: int where "S2CMoveOutFriendBlackListEvent = 16"
definition S2CSetFriendRemarkNameEvent :: int where "S2CSetFriendRemarkNameEvent = 17"
definition PrivateChatWithDrawMessageEvent :: int where "PrivateChatWithDrawMessageEvent = 18"

lemmas event_ids = TestEvent_def CreateCharacterSuccessEvent_def ClientLoginEvent_def
  ClientLogoutEvent_def JoinChatGroupEvent_def UnChatGroupEvent_def CancelChatGroupEvent_def
  C2SGroupChatEvent_def PublishWeibo_def PrivateChatEvent_def AgreeBecomeFriendEvent_def
  ReadFriendReqEvent_def C2SLastMsgTimeStampEvent_def DeleteFriendEvent_def
  ConfirmDeleteFriendEvent_def C2SAddFriendBlackListEvent_def S2CMoveOutFriendBlackListEvent_def
  S2CSetFriendRemarkNameEvent_def PrivateChatWithDrawMessageEvent_def

section \<open>Event arguments\<close>

text \<open>What the program stores as user data: a client or a message.\<close>

datatype userData = UClient nat | UPb pb

record eventArg =
  int64ArgMap :: "(string, int) fmap"
  int32ArgMap :: "(string, int) fmap"
  boolArgMap :: "(string, bool) fmap"
  stringArgMap :: "(string, string) fmap"
  userDataMap :: "(string, userData) fmap"

definition NewEventArg :: eventArg where
  "NewEventArg = \<lparr>int64ArgMap = fmempty, int32ArgMap = fmempty, boolArgMap = fmempty,
     stringArgMap = fmempty, userDataMap = fmempty\<rparr>"

definition SetInt64 :: "string \<Rightarrow> int \<Rightarrow> eventArg \<Rightarrow> eventArg" where
  "SetInt64 k v a = a\<lparr>int64ArgMap := fmupd k v (int64ArgMap a)\<rparr>"

definition GetInt64 :: "string \<Rightarrow> eventArg \<Rightarrow> int" where
  "GetInt64 k a = mapGet 0 (int64ArgMap a) k"

definition SetInt32 :: "string \<Rightarrow> int \<Rightarrow> eventArg \<Rightarrow> eventArg" where
  "SetInt32 k v a = a\<lparr>int32ArgMap := fmupd k v (int32ArgMap a)\<rparr>"

definition GetInt32 :: "string \<Rightarrow> eventArg \<Rightarrow> int" where
  "GetInt32 k a = mapGet 0 (int32ArgMap a) k"

definition SetBool :: "string \<Rightarrow> bool \<Rightarrow> eventArg \<Rightarrow> eventArg" where
  "SetBool k v a = a\<lparr>boolArgMap := fmupd k v (boolArgMap a)\<rparr>"

definition GetBool :: "string \<Rightarrow> eventArg \<Rightarrow> bool" where
  "GetBool k a = mapGet False (boolArgMap a) k"

definition SetString :: "string \<Rightarrow> string \<Rightarrow> eventArg \<Rightarrow> eventArg" where
  "SetString k v a = a\<lparr>stringArgMap := fmupd k v (stringArgMap a)\<rparr>"

definition GetString :: "string \<Rightarrow> eventArg \<Rightarrow> string" where
  "GetString k a = mapGet '''' (stringArgMap a) k"

definition SetUserData :: "string \<Rightarrow> userData \<Rightarrow> eventArg \<Rightarrow> eventArg" where
  "SetUserData k v a = a\<lparr>userDataMap := fmupd k v (userDataMap a)\<rparr>"

text \<open>A nil interface for an absent key.\<close>

definition GetUserData :: "string \<Rightarrow> eventArg \<Rightarrow> userData option" where
  "GetUserData k a = fmlookup (userDataMap a) k"

lemmas event_args = NewEventArg_def SetInt64_def GetInt64_def SetInt32_def GetInt32_def SetBool_def
  GetBool_def SetString_def GetString_def SetUserData_def GetUserData_def

text \<open>The type assertions of the subscribers: None where Go panics.\<close>

definition asClient :: "userData option \<Rightarrow> nat option" where
  "asClient u = (case u of Some (UClient c) \<Rightarrow> Some c | _ \<Rightarrow> None)"

definition asPb :: "userData option \<Rightarrow> pb option" where
  "asPb u = (case u of Some (UPb p) \<Rightarrow> Some p | _ \<Rightarrow> None)"

section \<open>Subscriptions\<close>

definition Subscribe :: "string \<Rightarrow> int \<Rightarrow> evHandler \<Rightarrow> server \<Rightarrow> server" where
  "Subscribe subscriberName eventId eventHandler s =
     (case fmlookup (handlers s) eventId of
        None \<Rightarrow> s\<lparr>handlers := fmupd eventId (fmupd subscriberName eventHandler fmempty) (handlers s)\<rparr>
      | Some v \<Rightarrow>
          if has v subscriberName then s
          else s\<lparr>handlers := fmupd eventId (fmupd subscriberName eventHandler v) (handlers s)\<rparr>)"

definition UnSubscribe :: "string \<Rightarrow> int \<Rightarrow> server \<Rightarrow> server" where
  "UnSubscribe subscriberName eventID s = s\<lparr>handlers := fmdrop eventID (handlers s)\<rparr>"

definition range_strs :: "svc \<Rightarrow> call list \<Rightarrow> (string, 'v) fmap \<Rightarrow> string list" where
  "range_strs srv h m =
     (let ks = sorted_list_of_fset (fmdom m); l = rangeStrs srv h ks
      in if mset l = mset ks then l else ks)"

text \<open>
  The callback of Range recovers from a panic of the subscriber; its result is then the zero
  value false, which ends the Range.
\<close>

fun callSubscribers :: "(evHandler \<Rightarrow> handler) \<Rightarrow> evHandler list \<Rightarrow> (server, unit) state" where
  "callSubscribers f [] = skip"
| "callSubscribers f (h # hs) = do {
     r \<leftarrow> f h;
     (if r = Panicked then skip else callSubscribers f hs) }"

definition publishWith ::
    "(evHandler \<Rightarrow> eventArg \<Rightarrow> handler) \<Rightarrow> svc \<Rightarrow> int \<Rightarrow> eventArg \<Rightarrow> (server, unit) state" where
  "publishWith f srv eventID arg = do {
     v \<leftarrow> gets (\<lambda>s. fmlookup (handlers s) eventID);
     (case v of
        None \<Rightarrow> skip
      | Some m \<Rightarrow> do {
          ks \<leftarrow> gets (\<lambda>s. range_strs srv (hist s) m);
          callSubscribers (\<lambda>h. f h arg) (map (\<lambda>k. the (fmlookup m k)) ks) }) }"

definition subscription :: "int \<Rightarrow> string \<Rightarrow> server \<Rightarrow> evHandler option" where
  "subscription eventId name s =
     (case fmlookup (handlers s) eventId of None \<Rightarrow> None | Some m \<Rightarrow> fmlookup m name)"

interpretation subs: first_wins "\<lambda>(e, n) s. subscription e n s" "\<lambda>(e, n) h s. Subscribe n e h s"
  by unfold_locales
    (auto simp: subscription_def Subscribe_def has_def split: option.splits if_splits)

lemma set_range_strs: "set (range_strs srv h m) = fmdom' m"
proof -
  have "mset (range_strs srv h m) = mset (sorted_list_of_fset (fmdom m))"
    by (simp add: range_strs_def Let_def)
  then have "set (range_strs srv h m) = set (sorted_list_of_fset (fmdom m))"
    by (metis set_mset_mset)
  then show ?thesis by (simp add: fmdom'_alt_def)
qed

lemma distinct_range_strs: "distinct (range_strs srv h m)"
proof -
  have "mset (range_strs srv h m) = mset (sorted_list_of_fset (fmdom m))"
    by (simp add: range_strs_def Let_def)
  then show ?thesis
    by (metis distinct_sorted_list_of_set mset_eq_imp_distinct_iff sorted_list_of_fset.rep_eq)
qed

lemma callSubscribers_all:
  assumes "\<And>h s. h \<in> set hs \<Longrightarrow> fst (run_state (f h) s) = Returned"
  shows "run_state (callSubscribers f hs) s = run_state (forM hs (\<lambda>h. do { _ \<leftarrow> f h; skip })) s"
  using assms
proof (induction hs arbitrary: s)
  case (Cons h hs)
  obtain t where "run_state (f h) s = (Returned, t)"
    using Cons.prems[of h s] by (cases "run_state (f h) s") auto
  then show ?case using Cons by simp
qed simp

lemma keeps_callSubscribers [keeps_rules]:
  "(\<And>h. keeps I (f h)) \<Longrightarrow> keeps I (callSubscribers f hs)"
  by (induction hs) (auto intro!: keeps_rules)

lemma keeps_publishWith [keeps_rules]:
  "(\<And>h. keeps I (f h arg)) \<Longrightarrow> keeps I (publishWith f srv e arg)"
  unfolding publishWith_def by (intro keeps_rules)

text \<open>
  publishing reaches every subscriber once. When no subscriber of the event panics, Publish
  runs the handlers that are registered for it - each name's first registration - exactly once
  each, in some order, on the same argument.
\<close>

theorem publish_reaches_all:
  assumes "\<And>n h t. subscription e n s = Some h \<Longrightarrow> fst (run_state (f h arg) t) = Returned"
  shows "\<exists>names. distinct names \<and> set names = {n. subscription e n s \<noteq> None} \<and>
    run_state (publishWith f srv e arg) s =
      run_state (forM names (\<lambda>n. do { _ \<leftarrow> f (the (subscription e n s)) arg; skip })) s"
proof (cases "fmlookup (handlers s) e")
  case None
  then have sub: "subscription e n s = None" for n by (simp add: subscription_def)
  have "run_state (publishWith f srv e arg) s = ((), s)"
    using None by (simp add: publishWith_def)
  then show ?thesis by (intro exI[of _ "[]"]) (simp add: sub)
next
  case (Some m)
  define ns where "ns = range_strs srv (hist s) m"
  have sub: "subscription e n s = fmlookup m n" for n using Some by (simp add: subscription_def)
  have ns: "set ns = fmdom' m" by (simp add: ns_def set_range_strs)
  have "fst (run_state (f h arg) t) = Returned" if "h \<in> set (map (\<lambda>k. the (fmlookup m k)) ns)" for h t
    using that assms by (auto simp: ns sub fmlookup_dom'_iff)
  then have "run_state (publishWith f srv e arg) s =
      run_state (forM ns (\<lambda>n. do { _ \<leftarrow> f (the (fmlookup m n)) arg; skip })) s"
    using Some callSubscribers_all[of "map (\<lambda>k. the (fmlookup m k)) ns" "\<lambda>h. f h arg"]
    by (simp add: publishWith_def ns_def forM_map)
  moreover have "distinct ns" by (simp add: ns_def distinct_range_strs)
  moreover have "set ns = {n. subscription e n s \<noteq> None}"
    unfolding ns sub by (auto simp: fmlookup_dom'_iff)
  ultimately show ?thesis unfolding sub by blast
qed

theorem publish_reaches_all_witness:
  "let s = Subscribe ''b'' 2 OnClientLogout (Subscribe ''a'' 2 OnClientLogin (demoServer\<lparr>handlers := fmempty\<rparr>))
   in length (hist (snd (run_state
        (publishWith (\<lambda>h arg. do { ask Now (\<lambda>_. ()); ret Returned }) demoSvc 2 NewEventArg) s))) = length (hist s) + 2"
proof -
  define s where "s = Subscribe ''b'' 2 OnClientLogout (Subscribe ''a'' 2 OnClientLogin (demoServer\<lparr>handlers := fmempty\<rparr>))"
  define f :: "evHandler \<Rightarrow> eventArg \<Rightarrow> handler"
    where "f = (\<lambda>h arg. do { ask Now (\<lambda>_. ()); ret Returned })"
  have sub: "{n. subscription 2 n s \<noteq> None} = {''a'', ''b''}"
    by (auto simp: s_def subscription_def Subscribe_def has_def)
  have ret: "fst (run_state (f h NewEventArg) t) = Returned" for h t by (simp add: f_def)
  obtain names where n: "distinct names" "set names = {''a'', ''b''}"
    "run_state (publishWith f demoSvc 2 NewEventArg) s =
       run_state (forM names (\<lambda>n. do { _ \<leftarrow> f (the (subscription 2 n s)) NewEventArg; skip })) s"
    using publish_reaches_all[of 2 s f NewEventArg demoSvc] ret unfolding sub by blast
  have "length (hist (snd (run_state (forM ns (\<lambda>n. do { _ \<leftarrow> f (g n) NewEventArg; skip })) t)))
      = length (hist t) + length ns" for ns t and g :: "string \<Rightarrow> evHandler"
    by (induction ns arbitrary: t) (auto simp: f_def)
  moreover have "length names = 2" using distinct_card[OF n(1)] n(2) by simp
  ultimately show ?thesis using n(3) by (simp add: Let_def flip: s_def f_def)
qed

text \<open>
  UnSubscribe ignores its subscriber. Whatever name it is called with, no subscriber of
  the event is left, and publishing the event does nothing; other events keep their
  subscribers.
\<close>

theorem unsubscribe_drops_all:
  "subscription d m (UnSubscribe n e s) = (if d = e then None else subscription d m s)
   \<and> run_state (publishWith f srv e arg) (UnSubscribe n e s) = ((), UnSubscribe n e s)"
  by (simp add: subscription_def UnSubscribe_def publishWith_def)

end
