(* ===== verification/OtherTerminal.thy ===== *)
theory OtherTerminal
  imports FriendOps ClientManager EventManager
begin

text \<open>
  msg-server/otherTerminal/otherTerminal.go: the subscribers that repeat what a user did on one
  terminal for the client of the same user on the other terminal.
\<close>

section \<open>Type assertions\<close>

definition evClient :: "eventArg \<Rightarrow> nat option" where
  "evClient arg = asClient (GetUserData ''client'' arg)"

definition pbData :: "eventArg \<Rightarrow> pb option" where
  "pbData arg = asPb (GetUserData ''pbdata'' arg)"

definition asChatMessage :: "pb option \<Rightarrow> chatMessage option" where
  "asChatMessage p = (case p of Some (Sto (PB_ChatMessage m)) \<Rightarrow> Some m | _ \<Rightarrow> None)"

definition asGroupMessage :: "pb option \<Rightarrow> groupMessage option" where
  "asGroupMessage p = (case p of Some (Sto (PB_GroupMessage m)) \<Rightarrow> Some m | _ \<Rightarrow> None)"

definition asS2CAgreeBecomeFriend :: "pb option \<Rightarrow> (int \<times> int \<times> string \<times> string) option" where
  "asS2CAgreeBecomeFriend p =
     (case p of Some (Fri (S2CAgreeBecomeFriend a t n u)) \<Rightarrow> Some (a, t, n, u) | _ \<Rightarrow> None)"

definition asS2CReadFriendReq :: "pb option \<Rightarrow> int option" where
  "asS2CReadFriendReq p = (case p of Some (Fri (S2CReadFriendReq a)) \<Rightarrow> Some a | _ \<Rightarrow> None)"

definition asS2CRecvDeleteFriend :: "pb option \<Rightarrow> int option" where
  "asS2CRecvDeleteFriend p = (case p of Some (Fri (S2CRecvDeleteFriend a)) \<Rightarrow> Some a | _ \<Rightarrow> None)"

definition asS2CConfirmDeleteFriend :: "pb option \<Rightarrow> int option" where
  "asS2CConfirmDeleteFriend p = (case p of Some (Fri (S2CConfirmDeleteFriend a)) \<Rightarrow> Some a | _ \<Rightarrow> None)"

definition asS2CAddBlackList :: "pb option \<Rightarrow> int option" where
  "asS2CAddBlackList p = (case p of Some (Fri (S2CAddBlackList a)) \<Rightarrow> Some a | _ \<Rightarrow> None)"

definition asS2CMoveOutFriendBlackList :: "pb option \<Rightarrow> int option" where
  "asS2CMoveOutFriendBlackList p =
     (case p of Some (Fri (S2CMoveOutFriendBlackList a)) \<Rightarrow> Some a | _ \<Rightarrow> None)"

definition asS2CSetFriendRemarkName :: "pb option \<Rightarrow> (int \<times> string) option" where
  "asS2CSetFriendRemarkName p =
     (case p of Some (Fri (S2CSetFriendRemarkName a n)) \<Rightarrow> Some (a, n) | _ \<Rightarrow> None)"

definition asS2CWithdrawMessage :: "pb option \<Rightarrow> int option" where
  "asS2CWithdrawMessage p = (case p of Some (Fri (S2CWithdrawMessage t)) \<Rightarrow> Some t | _ \<Rightarrow> None)"

lemmas type_assertions = evClient_def pbData_def asClient_def asPb_def asChatMessage_def asGroupMessage_def
  asS2CAgreeBecomeFriend_def asS2CReadFriendReq_def asS2CRecvDeleteFriend_def
  asS2CConfirmDeleteFriend_def asS2CAddBlackList_def asS2CMoveOutFriendBlackList_def
  asS2CSetFriendRemarkName_def asS2CWithdrawMessage_def

section \<open>Subscribers\<close>

text \<open>\<open>assertBoth\<close> runs the body when both assertions hold and panics otherwise.\<close>

definition assertBoth :: "nat option \<Rightarrow> 'a option \<Rightarrow> (nat \<Rightarrow> 'a \<Rightarrow> (server, unit) state) \<Rightarrow> handler" where
  "assertBoth a b f =
     (case a of None \<Rightarrow> ret Panicked
      | Some c \<Rightarrow> (case b of None \<Rightarrow> ret Panicked | Some p \<Rightarrow> do { f c p; ret Returned }))"

text \<open>\<open>withOther c f\<close> runs \<open>f\<close> on the client of the other terminal, when there is one.\<close>

definition withOther :: "nat \<Rightarrow> (nat \<Rightarrow> (server, unit) state) \<Rightarrow> (server, unit) state" where
  "withOther c f = do {
     otherTerminalClient \<leftarrow> gets (GetOtherTerminalClient c);
     (case otherTerminalClient of Some d \<Rightarrow> f d | None \<Rightarrow> skip) }"

definition onPrivateChatEvent :: "svc \<Rightarrow> eventArg \<Rightarrow> handler" where
  "onPrivateChatEvent srv arg =
     assertBoth (evClient arg) (asChatMessage (pbData arg)) (\<lambda>c chatMsg.
       SendPbMsgToOtherTerminal srv c NetMsgId_S2COtherTerminalPrivateChat (Sto (PB_ChatMessage chatMsg)))"

definition onAgreeBecomeFriendEvent :: "svc \<Rightarrow> eventArg \<Rightarrow> handler" where
  "onAgreeBecomeFriendEvent srv arg =
     assertBoth (evClient arg) (asS2CAgreeBecomeFriend (pbData arg)) (\<lambda>c (senderId, _, senderNickName, _).
       withOther c (\<lambda>d. do {
         modCli d (BeFriend senderId);
         UpdateContactInfoInMemory srv d;
         SendPbMsg srv d NetMsgId_S2COtherTerminalAgreeBecomeFriend
           (Fri (S2COtherTerminalAgreeBecomeFriend senderId senderNickName)) }))"

definition onReadFriendReqEvent :: "svc \<Rightarrow> eventArg \<Rightarrow> handler" where
  "onReadFriendReqEvent srv arg =
     assertBoth (evClient arg) (asS2CReadFriendReq (pbData arg)) (\<lambda>c senderId.
       SendPbMsgToOtherTerminal srv c NetMsgId_S2CReadFriendReq (Fri (S2CReadFriendReq senderId)))"

definition onC2SLastMsgTimeStampEvent :: "svc \<Rightarrow> eventArg \<Rightarrow> handler" where
  "onC2SLastMsgTimeStampEvent srv arg =
     assertBoth (evClient arg) (Some (GetInt64 ''lastMsgTimeStamp'' arg)) (\<lambda>c lastMsgTimeStamp.
       withOther c (\<lambda>d. modCli d (SetLastMsgTimestamp lastMsgTimeStamp)))"

definition onDeleteFriendEvent :: "svc \<Rightarrow> eventArg \<Rightarrow> handler" where
  "onDeleteFriendEvent srv arg =
     assertBoth (evClient arg) (asS2CRecvDeleteFriend (pbData arg)) (\<lambda>c friendId.
       SendPbMsgToOtherTerminal srv c NetMsgId_S2CRecvDeleteFriend (Fri (S2CRecvDeleteFriend friendId)))"

definition onConfirmDeleteFriend :: "svc \<Rightarrow> eventArg \<Rightarrow> handler" where
  "onConfirmDeleteFriend srv arg =
     assertBoth (evClient arg) (asS2CConfirmDeleteFriend (pbData arg)) (\<lambda>c friendId.
       withOther c (\<lambda>d. do {
         b \<leftarrow> DeleteFriend srv d friendId;
         whenM b (SendPbMsg srv d NetMsgId_S2CConfirmDeleteFriend (Fri (S2CConfirmDeleteFriend friendId))) }))"

definition onC2SAddFriendBlackList :: "svc \<Rightarrow> eventArg \<Rightarrow> handler" where
  "onC2SAddFriendBlackList srv arg =
     assertBoth (evClient arg) (asS2CAddBlackList (pbData arg)) (\<lambda>c friendId.
       withOther c (\<lambda>d. do {
         isF \<leftarrow> isFriendM d friendId;
         (if \<not> isF then skip
          else do {
            inB \<leftarrow> isBlackListM d friendId;
            (if \<not> inB then skip
             else do {
               modCli d (BeBlackList friendId);
               UpdateBlackListInfoInMemory srv d;
               SendPbMsg srv d NetMsgId_S2CAddFriendBlackList (Fri (S2CAddBlackList friendId)) }) }) }))"

definition onS2CMoveOutFriendBlackListEvent :: "svc \<Rightarrow> eventArg \<Rightarrow> handler" where
  "onS2CMoveOutFriendBlackListEvent srv arg =
     assertBoth (evClient arg) (asS2CMoveOutFriendBlackList (pbData arg)) (\<lambda>c friendId.
       withOther c (\<lambda>d. do {
         isF \<leftarrow> isFriendM d friendId;
         (if \<not> isF then skip
          else do {
            inB \<leftarrow> isBlackListM d friendId;
            (if inB then skip
             else do {
               modCli d (BeNotBlackList friendId);
               UpdateBlackListInfoInMemory srv d;
               SendPbMsg srv d NetMsgId_S2CMoveOutFriendBlackList
                 (Fri (S2CMoveOutFriendBlackList friendId)) }) }) }))"

definition onS2CSetFriendRemarkNameEvent :: "svc \<Rightarrow> eventArg \<Rightarrow> handler" where
  "onS2CSetFriendRemarkNameEvent srv arg =
     assertBoth (evClient arg) (asS2CSetFriendRemarkName (pbData arg)) (\<lambda>c (friendId, remarkName).
       withOther c (\<lambda>d. do {
         modCli d (SetFriendRemarkName friendId remarkName);
         UpdateContactInfoInMemory srv d;
         SendPbMsg srv d NetMsgId_S2CSetFriendRemarkName
           (Fri (S2CSetFriendRemarkName friendId remarkName)) }))"

definition onPrivateChatWithDrawMessageEvent :: "svc \<Rightarrow> eventArg \<Rightarrow> handler" where
  "onPrivateChatWithDrawMessageEvent srv arg =
     assertBoth (evClient arg) (asS2CWithdrawMessage (pbData arg)) (\<lambda>c ts.
       SendPbMsgToOtherTerminal srv c NetMsgId_S2CWithdrawMessage (Fri (S2CWithdrawMessage ts)))"

text \<open>Init: the ten subscriptions of this system.\<close>

definition otherTerminalName :: string where "otherTerminalName = ''otherTerminal''"

definition subscribeOtherTerminal :: "server \<Rightarrow> server" where
  "subscribeOtherTerminal =
     Subscribe otherTerminalName PrivateChatWithDrawMessageEvent OnPrivateChatWithDrawMessage
   \<circ> Subscribe otherTerminalName S2CSetFriendRemarkNameEvent OnS2CSetFriendRemarkName
   \<circ> Subscribe otherTerminalName S2CMoveOutFriendBlackListEvent OnS2CMoveOutFriendBlackList
   \<circ> Subscribe otherTerminalName C2SAddFriendBlackListEvent OnC2SAddFriendBlackList
   \<circ> Subscribe otherTerminalName ConfirmDeleteFriendEvent OnConfirmDeleteFriend
   \<circ> Subscribe otherTerminalName DeleteFriendEvent OnDeleteFriend
   \<circ> Subscribe otherTerminalName C2SLastMsgTimeStampEvent OnC2SLastMsgTimeStamp
   \<circ> Subscribe otherTerminalName ReadFriendReqEvent OnReadFriendReq
   \<circ> Subscribe otherTerminalName AgreeBecomeFriendEvent OnAgreeBecomeFriend
   \<circ> Subscribe otherTerminalName PrivateChatEvent OnPrivateChat"

lemmas otherTerminal_defs = onPrivateChatEvent_def onAgreeBecomeFriendEvent_def onReadFriendReqEvent_def
  onC2SLastMsgTimeStampEvent_def onDeleteFriendEvent_def onConfirmDeleteFriend_def
  onC2SAddFriendBlackList_def onS2CMoveOutFriendBlackListEvent_def onS2CSetFriendRemarkNameEvent_def
  onPrivateChatWithDrawMessageEvent_def

section \<open>The process invariant\<close>

lemma keeps_assertBoth [keeps_rules]:
  "(\<And>c p. keeps I (f c p)) \<Longrightarrow> keeps I (assertBoth a b f)"
  unfolding assertBoth_def by (intro keeps_rules)

lemma keeps_withOther [keeps_rules]: "(\<And>d. keeps I (f d)) \<Longrightarrow> keeps I (withOther c f)"
  unfolding withOther_def by (intro keeps_rules)

lemma keeps_wf_otherTerminal [keeps_rules]:
  "keeps (inv X) (onPrivateChatEvent srv arg)"
  "keeps (inv X) (onAgreeBecomeFriendEvent srv arg)"
  "keeps (inv X) (onReadFriendReqEvent srv arg)"
  "keeps (inv X) (onC2SLastMsgTimeStampEvent srv arg)"
  "keeps (inv X) (onDeleteFriendEvent srv arg)"
  "keeps (inv X) (onConfirmDeleteFriend srv arg)"
  "keeps (inv X) (onC2SAddFriendBlackList srv arg)"
  "keeps (inv X) (onS2CMoveOutFriendBlackListEvent srv arg)"
  "keeps (inv X) (onS2CSetFriendRemarkNameEvent srv arg)"
  "keeps (inv X) (onPrivateChatWithDrawMessageEvent srv arg)"
  unfolding otherTerminal_defs by (intro keeps_rules)+

section \<open>The black list is not repeated\<close>

lemma IsBlackList_pushPb [simp]: "IsBlackList u (pushPb srv i p cl) = IsBlackList u cl"
  by (simp add: pushPb_def SendBuf_def IsBlackList_def split: option.splits)

definition blackListBytes :: "svc \<Rightarrow> server \<Rightarrow> nat \<Rightarrow> string" where
  "blackListBytes srv s c =
     (case marshal srv (Sto (PB_BlackList (map (\<lambda>k. the (fmlookup (mapBlackList (clients s c)) k))
        (range_keys srv (hist s) (mapBlackList (clients s c)))))) of
      Some buf \<Rightarrow> buf | None \<Rightarrow> ac_BlackList (account (clients s c)))"

lemma run_UpdateBlackListInfoInMemory:
  "run_state (UpdateBlackListInfoInMemory srv c) s =
     ((), s\<lparr>clients := (clients s)(c := (clients s c)\<lparr>account :=
       (account (clients s c))\<lparr>ac_BlackList := blackListBytes srv s c\<rparr>\<rparr>)\<rparr>)"
  by (auto simp: UpdateBlackListInfoInMemory_def run_simps Let_def blackListBytes_def split: option.splits)

lemma IsBlackList_account [simp]: "IsBlackList u (cl\<lparr>account := a\<rparr>) = IsBlackList u cl"
  by (simp add: IsBlackList_def)

text \<open>
  adding to and removing from the black list is not repeated on the other terminal. The
  subscriber of the add event acts only when the friend already is on the other client's
  black list, the one of the remove event only when the friend is not on it; so neither ever
  changes who is on the black list of any client.
\<close>

theorem blacklist_not_synced:
  "IsBlackList u (clients (snd (run_state (onC2SAddFriendBlackList srv arg) s)) d)
     = IsBlackList u (clients s d)
   \<and> IsBlackList u (clients (snd (run_state (onS2CMoveOutFriendBlackListEvent srv arg) s)) d)
     = IsBlackList u (clients s d)"
  using blacklist.mem_add blacklist.mem_del
  by (simp_all add: onC2SAddFriendBlackList_def onS2CMoveOutFriendBlackListEvent_def assertBoth_def
      withOther_def isFriendM_def isBlackListM_def SendPbMsg_def run_UpdateBlackListInfoInMemory
      split: option.splits) auto

end
