(* ===== verification/OnlineChatGroup.thy ===== *)
theory OnlineChatGroup
  imports OtherTerminal
begin

text \<open>
  msg-server/onlineChatGroupManager/onlineChatGroupManager.go: which users of each chat group are
  online on this server, the Redis sets that tell the other servers where a group has online
  members, and the delivery of group messages to local and remote members.
\<close>

definition chatGroupPos :: string where "chatGroupPos = ''chat_group_position''"

section \<open>Local members\<close>

text \<open>Both loops return the groups whose Redis set has to be updated, in the order of the loop.\<close>

fun memberLogin :: "int list \<Rightarrow> int \<Rightarrow> (int, int fset) fmap \<Rightarrow> (int, int fset) fmap \<times> int list" where
  "memberLogin [] accountId mm = (mm, [])"
| "memberLogin (g # gs) accountId mm =
     (case fmlookup mm g of
        Some m \<Rightarrow> memberLogin gs accountId (fmupd g (finsert accountId m) mm)
      | None \<Rightarrow>
          (let (mm', ids) = memberLogin gs accountId (fmupd g {|accountId|} mm) in (mm', g # ids)))"

fun memberLogout :: "int list \<Rightarrow> int \<Rightarrow> (int, int fset) fmap \<Rightarrow> (int, int fset) fmap \<times> int list" where
  "memberLogout [] accountId mm = (mm, [])"
| "memberLogout (g # gs) accountId mm =
     (case fmlookup mm g of
        Some m \<Rightarrow>
          (let m' = m |-| {|accountId|};
               (mm', ids) = memberLogout gs accountId (fmupd g m' mm)
           in (mm', if m' = {||} then g # ids else ids))
      | None \<Rightarrow> memberLogout gs accountId mm)"

definition addGroupPos :: "svc \<Rightarrow> int \<Rightarrow> (server, unit) state" where
  "addGroupPos srv groupId = do {
     topic \<leftarrow> gets localTopic;
     _ \<leftarrow> rdsInt srv (RAddSet chatGroupPos (itoa groupId) (RStr topic));
     _ \<leftarrow> rdsInt srv (RExpire chatGroupPos (itoa groupId) (2 * 60 * 1000000000));
     skip }"

definition removeGroupPos :: "svc \<Rightarrow> int \<Rightarrow> (server, unit) state" where
  "removeGroupPos srv groupId = do {
     topic \<leftarrow> gets localTopic;
     _ \<leftarrow> rdsInt srv (RRemSet chatGroupPos (itoa groupId) (RStr topic));
     skip }"

definition localChatGroupMemberLogin :: "svc \<Rightarrow> int list \<Rightarrow> int \<Rightarrow> (server, unit) state" where
  "localChatGroupMemberLogin srv groupIds accountId = do {
     mm \<leftarrow> gets mmLocalOnlineGroupMember;
     let (mm', ids) = memberLogin groupIds accountId mm in do {
     modify (\<lambda>s. s\<lparr>mmLocalOnlineGroupMember := mm'\<rparr>);
     forM ids (addGroupPos srv) } }"

definition localChatGroupMemberLogout :: "svc \<Rightarrow> int list \<Rightarrow> int \<Rightarrow> (server, unit) state" where
  "localChatGroupMemberLogout srv groupIds accountId = do {
     mm \<leftarrow> gets mmLocalOnlineGroupMember;
     let (mm', ids) = memberLogout groupIds accountId mm in do {
     modify (\<lambda>s. s\<lparr>mmLocalOnlineGroupMember := mm'\<rparr>);
     forM ids (removeGroupPos srv) } }"

section \<open>Delivery\<close>

text \<open>To one member on one terminal; nobody receives their own message.\<close>

definition sendToMember :: "svc \<Rightarrow> int \<Rightarrow> groupMessage \<Rightarrow> int \<Rightarrow> int \<Rightarrow> (server, unit) state" where
  "sendToMember srv cmdId chatGroupMsg member terminal = do {
     cli' \<leftarrow> gets (GetClient member terminal);
     (case cli' of
        Some d \<Rightarrow> whenM (member \<noteq> gm_SenderId chatGroupMsg)
          (SendPbMsg srv d cmdId (Grp (S2CRecvGroupChat chatGroupMsg)))
      | None \<Rightarrow> skip) }"

definition SendToLocalChatGroup :: "svc \<Rightarrow> int \<Rightarrow> int \<Rightarrow> groupMessage \<Rightarrow> (server, unit) state" where
  "SendToLocalChatGroup srv groupId cmdId chatGroupMsg = do {
     members \<leftarrow> gets (\<lambda>s. case fmlookup (mmLocalOnlineGroupMember s) groupId of
       Some online \<Rightarrow> range_fset srv (hist s) online | None \<Rightarrow> []);
     forM members (\<lambda>member. do {
       sendToMember srv cmdId chatGroupMsg member TerminalTypeApp;
       sendToMember srv cmdId chatGroupMsg member TerminalTypeWeb }) }"

definition sendToRemoteChatGroup :: "svc \<Rightarrow> int \<Rightarrow> int \<Rightarrow> groupMessage \<Rightarrow> (server, unit) state" where
  "sendToRemoteChatGroup srv groupId cmdId chatGroupMsg = do {
     r \<leftarrow> rdsList srv (RSetMembers chatGroupPos (itoa groupId));
     (case r of
        (_, Some _) \<Rightarrow> skip
      | (topices, None) \<Rightarrow>
          (case marshal srv (Sto (PB_GroupMessage chatGroupMsg)) of
             None \<Rightarrow> skip
           | Some buf \<Rightarrow>
               forM (case topices of Some l \<Rightarrow> l | None \<Rightarrow> []) (\<lambda>strTopic. do {
                 topic \<leftarrow> gets localTopic;
                 whenM (strTopic \<noteq> topic)
                   (do { _ \<leftarrow> SendGroupBuf srv strTopic groupId cmdId buf; skip }) }))) }"

section \<open>Event handlers\<close>

definition onClientLoginEvent :: "svc \<Rightarrow> eventArg \<Rightarrow> handler" where
  "onClientLoginEvent srv arg =
     (case evClient arg of
        None \<Rightarrow> ret Panicked
      | Some c \<Rightarrow> do {
          groupIds \<leftarrow> GetChatGroupIds srv c;
          accountId \<leftarrow> GetAccountId c;
          localChatGroupMemberLogin srv groupIds accountId;
          ret Returned })"

text \<open>The condition tests the app terminal twice, as the code does.\<close>

definition onClientLogoutEvent :: "svc \<Rightarrow> eventArg \<Rightarrow> handler" where
  "onClientLogoutEvent srv arg =
     (case evClient arg of
        None \<Rightarrow> ret Panicked
      | Some c \<Rightarrow> do {
          accountId \<leftarrow> GetAccountId c;
          a \<leftarrow> gets (GetClient accountId TerminalTypeApp);
          b \<leftarrow> gets (GetClient accountId TerminalTypeApp);
          whenM (a \<noteq> None \<or> b \<noteq> None) (do {
            groupIds \<leftarrow> GetChatGroupIds srv c;
            localChatGroupMemberLogout srv groupIds accountId });
          ret Returned })"

definition onJoinChatGroupEvent :: "svc \<Rightarrow> eventArg \<Rightarrow> handler" where
  "onJoinChatGroupEvent srv arg =
     (let groupId = GetInt64 ''groupid'' arg in
      case evClient arg of
        None \<Rightarrow> ret Panicked
      | Some c \<Rightarrow> do {
          JoinChatGroup srv c groupId;
          accountId \<leftarrow> GetAccountId c;
          mm \<leftarrow> gets mmLocalOnlineGroupMember;
          (case fmlookup mm groupId of
             Some m \<Rightarrow>
               modify (\<lambda>s. s\<lparr>mmLocalOnlineGroupMember := fmupd groupId (finsert accountId m) mm\<rparr>)
           | None \<Rightarrow> do {
               modify (\<lambda>s. s\<lparr>mmLocalOnlineGroupMember := fmupd groupId {|accountId|} mm\<rparr>);
               addGroupPos srv groupId });
          ret Returned })"

definition onUnChatGroupEvent :: "svc \<Rightarrow> eventArg \<Rightarrow> handler" where
  "onUnChatGroupEvent srv arg =
     (let groupId = GetInt64 ''groupid'' arg in do {
       modify (\<lambda>s. s\<lparr>mmLocalOnlineGroupMember := fmdrop groupId (mmLocalOnlineGroupMember s)\<rparr>);
       removeGroupPos srv groupId;
       ret Returned })"

definition onCancelChatGroupEvent :: "svc \<Rightarrow> eventArg \<Rightarrow> handler" where
  "onCancelChatGroupEvent srv arg =
     (let accountId = GetInt64 ''accountid'' arg; groupId = GetInt64 ''groupid'' arg in do {
       mm \<leftarrow> gets mmLocalOnlineGroupMember;
       (case fmlookup mm groupId of
          None \<Rightarrow> skip
        | Some m \<Rightarrow>
            (let m' = m |-| {|accountId|} in
             if m' = {||} then do {
               modify (\<lambda>s. s\<lparr>mmLocalOnlineGroupMember := fmdrop groupId mm\<rparr>);
               removeGroupPos srv groupId }
             else modify (\<lambda>s. s\<lparr>mmLocalOnlineGroupMember := fmupd groupId m' mm\<rparr>)));
       ret Returned })"

definition onC2SGroupChatEvent :: "svc \<Rightarrow> eventArg \<Rightarrow> handler" where
  "onC2SGroupChatEvent srv arg =
     (case asGroupMessage (asPb (GetUserData ''chatgroupmsg'' arg)) of
        None \<Rightarrow> ret Panicked
      | Some chatGroupMsg \<Rightarrow> do {
          SendToLocalChatGroup srv (gm_ReceiveGroupId chatGroupMsg) NetMsgId_S2CRecvGroupChat chatGroupMsg;
          sendToRemoteChatGroup srv (gm_ReceiveGroupId chatGroupMsg) NetMsgId_MQGroupChat chatGroupMsg;
          ret Returned })"

section \<open>Start-up\<close>

definition onlineName :: string where "onlineName = ''onlineChatGroupManager''"

definition subscribeOnline :: "server \<Rightarrow> server" where
  "subscribeOnline =
     Subscribe onlineName C2SGroupChatEvent OnC2SGroupChat
   \<circ> Subscribe onlineName CancelChatGroupEvent OnCancelChatGroup
   \<circ> Subscribe onlineName UnChatGroupEvent OnUnChatGroup
   \<circ> Subscribe onlineName JoinChatGroupEvent OnJoinChatGroup
   \<circ> Subscribe onlineName ClientLogoutEvent OnClientLogout
   \<circ> Subscribe onlineName ClientLoginEvent OnClientLogin"

text \<open>Init without the goroutine, one tick of which is \<open>expireTick\<close>.\<close>

definition onlineInit :: "svc \<Rightarrow> string \<Rightarrow> handler" where
  "onlineInit srv topic = do {
     modify subscribeOnline;
     modify (\<lambda>s. s\<lparr>localTopic := topic\<rparr>);
     r \<leftarrow> rdsList srv (RKeys chatGroupPos ''*'');
     (case r of
        (_, Some _) \<Rightarrow> ret Panicked
      | (keys, None) \<Rightarrow> do {
          forM (case keys of Some l \<Rightarrow> l | None \<Rightarrow> []) (\<lambda>k. do {
            _ \<leftarrow> rdsInt srv (RRemSet '''' k (RStr topic)); skip });
          ret Returned }) }"

definition expireTick :: "svc \<Rightarrow> (server, unit) state" where
  "expireTick srv = do {
     gs \<leftarrow> rangeM srv mmLocalOnlineGroupMember;
     forM gs (\<lambda>g. do {
       _ \<leftarrow> rdsInt srv (RExpire chatGroupPos (itoa g) (2 * 60 * 1000000000)); skip }) }"

section \<open>The process invariant\<close>

lemma keeps_wf_online_modify [keeps_rules]:
  "keeps (inv X) (modify (mmLocalOnlineGroupMember_update f))"
  "keeps (inv X) (modify (\<lambda>s. s\<lparr>mmLocalOnlineGroupMember := g s\<rparr>))"
  "keeps (inv X) (modify (\<lambda>s. s\<lparr>localTopic := t\<rparr>))"
  by (auto simp: keeps_def inv_def server_wf_def online_wf_def core_def keyOf_def)

lemma Subscribe_wf: "inv X (Subscribe n e h s) \<longleftrightarrow> inv X s"
  by (simp add: Subscribe_def inv_def server_wf_def online_wf_def core_def keyOf_def split: option.splits)

lemma keeps_wf_pos [keeps_rules]:
  "keeps (inv X) (addGroupPos srv g)" "keeps (inv X) (removeGroupPos srv g)"
  unfolding addGroupPos_def removeGroupPos_def by (intro keeps_rules)+

lemma keeps_wf_members [keeps_rules]:
  "keeps (inv X) (localChatGroupMemberLogin srv gs a)"
  "keeps (inv X) (localChatGroupMemberLogout srv gs a)"
  "keeps (inv X) (sendToMember srv i m u t)"
  unfolding localChatGroupMemberLogin_def localChatGroupMemberLogout_def sendToMember_def
  by (intro keeps_rules)+

lemma keeps_wf_delivery [keeps_rules]:
  "keeps (inv X) (SendToLocalChatGroup srv g i m)"
  "keeps (inv X) (sendToRemoteChatGroup srv g i m)"
  unfolding SendToLocalChatGroup_def sendToRemoteChatGroup_def by (intro keeps_rules)+

lemma keeps_wf_online [keeps_rules]:
  "keeps (inv X) (onClientLoginEvent srv arg)"
  "keeps (inv X) (onClientLogoutEvent srv arg)"
  "keeps (inv X) (onJoinChatGroupEvent srv arg)"
  "keeps (inv X) (onUnChatGroupEvent srv arg)"
  "keeps (inv X) (onCancelChatGroupEvent srv arg)"
  "keeps (inv X) (onC2SGroupChatEvent srv arg)"
  "keeps (inv X) (expireTick srv)"
  unfolding onClientLoginEvent_def onClientLogoutEvent_def onJoinChatGroupEvent_def
    onUnChatGroupEvent_def onCancelChatGroupEvent_def onC2SGroupChatEvent_def expireTick_def Let_def
  by (intro keeps_rules)+

lemma keeps_wf_onlineInit [keeps_rules]: "keeps (inv X) (onlineInit srv topic)"
proof -
  have "keeps (inv X) (modify subscribeOnline)"
    by (simp add: keeps_def subscribeOnline_def Subscribe_wf)
  then show ?thesis unfolding onlineInit_def by (intro keeps_rules)
qed

section \<open>Local members\<close>

lemma memberLogin_lookup:
  "fmlookup (fst (memberLogin gs a mm)) g =
     (if g \<in> set gs then Some (finsert a (case fmlookup mm g of Some m \<Rightarrow> m | None \<Rightarrow> {||}))
      else fmlookup mm g)"
  by (induction gs a mm rule: memberLogin.induct)
    (auto simp: split_beta Let_def split: option.splits if_splits)

lemma memberLogin_ids:
  "set (snd (memberLogin gs a mm)) = {g \<in> set gs. fmlookup mm g = None}
   \<and> distinct (snd (memberLogin gs a mm))"
  by (induction gs a mm rule: memberLogin.induct)
    (auto simp: split_beta Let_def split: option.splits if_splits)

lemma memberLogout_lookup:
  "fmlookup (fst (memberLogout gs a mm)) g =
     (if g \<in> set gs then map_option (\<lambda>m. m |-| {|a|}) (fmlookup mm g) else fmlookup mm g)"
  by (induction gs a mm rule: memberLogout.induct)
    (auto simp: split_beta Let_def split: option.splits if_splits)

text \<open>Who is online in a group on this server.\<close>

definition localMembers :: "int \<Rightarrow> server \<Rightarrow> int fset" where
  "localMembers g s = (case fmlookup (mmLocalOnlineGroupMember s) g of Some m \<Rightarrow> m | None \<Rightarrow> {||})"

lemma mm_addGroupPos: "mmLocalOnlineGroupMember (snd (run_state (forM gs (addGroupPos srv)) s))
    = mmLocalOnlineGroupMember s"
  by (induction gs arbitrary: s) (auto simp: addGroupPos_def run_simps)

lemma mm_removeGroupPos: "mmLocalOnlineGroupMember (snd (run_state (forM gs (removeGroupPos srv)) s))
    = mmLocalOnlineGroupMember s"
  by (induction gs arbitrary: s) (auto simp: removeGroupPos_def run_simps)

lemma localMembers_login:
  "localMembers g (snd (run_state (localChatGroupMemberLogin srv gs a) s)) =
     (if g \<in> set gs then finsert a (localMembers g s) else localMembers g s)"
  using memberLogin_lookup[of gs a "mmLocalOnlineGroupMember s" g]
  by (cases "memberLogin gs a (mmLocalOnlineGroupMember s)")
    (auto simp: localChatGroupMemberLogin_def localMembers_def mm_addGroupPos split: option.splits)

lemma localMembers_logout:
  "localMembers g (snd (run_state (localChatGroupMemberLogout srv gs a) s)) =
     (if g \<in> set gs then localMembers g s |-| {|a|} else localMembers g s)"
  using memberLogout_lookup[of gs a "mmLocalOnlineGroupMember s" g]
  by (cases "memberLogout gs a (mmLocalOnlineGroupMember s)")
    (auto simp: localChatGroupMemberLogout_def localMembers_def mm_removeGroupPos split: option.splits)

interpretation groupMembers: membership "\<lambda>(g, a) s. a |\<in>| localMembers g s"
    "\<lambda>(g, a) s. snd (run_state (localChatGroupMemberLogin srv [g] a) s)"
    "\<lambda>(g, a) s. snd (run_state (localChatGroupMemberLogout srv [g] a) s)"
  for srv
  by unfold_locales (auto simp: localMembers_login localMembers_logout split: if_splits)

text \<open>
  the table of online members. A login of user \<open>a\<close> with groups \<open>gs\<close> adds \<open>a\<close> to exactly
  those groups, a logout takes \<open>a\<close> out of exactly those, nobody else's entry changes; and any
  sequence of single logins leaves exactly those who logged in or were there before.
\<close>

theorem online_members:
  "(b |\<in>| localMembers g (snd (run_state (localChatGroupMemberLogin srv gs a) s))
      \<longleftrightarrow> g \<in> set gs \<and> b = a \<or> b |\<in>| localMembers g s)
   \<and> (b |\<in>| localMembers g (snd (run_state (localChatGroupMemberLogout srv gs a) s))
      \<longleftrightarrow> \<not> (g \<in> set gs \<and> b = a) \<and> b |\<in>| localMembers g s)
   \<and> (b |\<in>| localMembers g
        (fold (\<lambda>(h, c) t. snd (run_state (localChatGroupMemberLogin srv [h] c) t)) logins s)
      \<longleftrightarrow> (g, b) \<in> set logins \<or> b |\<in>| localMembers g s)"
  using groupMembers.mem_adds[of "(g, b)" srv logins s]
  by (auto simp: localMembers_login localMembers_logout)

text \<open>
  a group that empties by logout is never announced again. The logout of the only online
  member takes this server out of the group's Redis set but leaves an empty entry in the
  table, so the next login finds the entry, puts the user in it, and does not add the server
  to the set again: the user is online here and no other server knows.
\<close>

theorem emptied_group_not_announced:
  assumes "fmlookup (mmLocalOnlineGroupMember s) g = Some {|a|}"
    and "s1 = snd (run_state (localChatGroupMemberLogout srv [g] a) s)"
    and "s2 = snd (run_state (localChatGroupMemberLogin srv [g] b) s1)"
  shows "hist s1 = hist s @ [Rds (RRemSet chatGroupPos (itoa g) (RStr (localTopic s)))]
    \<and> localMembers g s2 = {|b|} \<and> hist s2 = hist s1"
  using assms
  by (simp add: localChatGroupMemberLogout_def localChatGroupMemberLogin_def removeGroupPos_def
      run_simps localMembers_def)

theorem emptied_group_not_announced_witness:
  "let s = demoServer\<lparr>mmLocalOnlineGroupMember := fmupd 7 {|1|} fmempty\<rparr>;
       s1 = snd (run_state (localChatGroupMemberLogout demoSvc [7] 1) s);
       s2 = snd (run_state (localChatGroupMemberLogin demoSvc [7] 2) s1)
   in localMembers 7 s2 = {|2|} \<and> hist s2 = hist s1"
  using emptied_group_not_announced[of "demoServer\<lparr>mmLocalOnlineGroupMember := fmupd 7 {|1|} fmempty\<rparr>"
      7 1 _ demoSvc _ 2, OF _ refl refl]
  by (simp add: Let_def)

section \<open>Delivery\<close>

definition reg_inj :: "server \<Rightarrow> bool" where
  "reg_inj s \<longleftrightarrow> (\<forall>a t b u d. GetClient a t s = Some d \<and> GetClient b u s = Some d \<longrightarrow> a = b \<and> t = u)"

lemma reg_injD:
  "reg_inj s \<Longrightarrow> GetClient a t s = Some d \<Longrightarrow> GetClient b u s = Some d \<Longrightarrow> a = b \<and> t = u"
  unfolding reg_inj_def by blast

lemma reg_inj_wf: "server_wf s \<Longrightarrow> reg_inj s"
  unfolding reg_inj_def using GetClient_wf by (metis prod.inject)

text \<open>The clients that a message from \<open>sender\<close> to the members \<open>ms\<close> has to reach.\<close>

definition audience :: "int \<Rightarrow> int set \<Rightarrow> server \<Rightarrow> nat set" where
  "audience sender ms s = {d. \<exists>m \<in> ms. m \<noteq> sender \<and>
     (GetClient m TerminalTypeApp s = Some d \<or> GetClient m TerminalTypeWeb s = Some d)}"

definition deliver :: "svc \<Rightarrow> int \<Rightarrow> pb \<Rightarrow> nat set \<Rightarrow> server \<Rightarrow> server" where
  "deliver srv i p D s = s\<lparr>clients := (\<lambda>d. if d \<in> D then pushPb srv i p (clients s d) else clients s d)\<rparr>"

lemma GetClient_clients [simp]: "GetClient a t (s\<lparr>clients := f\<rparr>) = GetClient a t s"
  by (simp add: GetClient_def)

lemma deliver_simps [simp]:
  "GetClient a t (deliver srv i p D s) = GetClient a t s" "deliver srv i p {} s = s"
  by (simp_all add: deliver_def)

lemma deliver_deliver: "D \<inter> E = {} \<Longrightarrow> deliver srv i p D (deliver srv i p E s) = deliver srv i p (D \<union> E) s"
  unfolding deliver_def
  by (simp, rule arg_cong[where f = "\<lambda>f. s\<lparr>clients := f\<rparr>"]) (auto simp: fun_eq_iff)

lemma run_sendToMember:
  "run_state (sendToMember srv i msg m t) s =
     ((), deliver srv i (Grp (S2CRecvGroupChat msg))
        {d. m \<noteq> gm_SenderId msg \<and> GetClient m t s = Some d} s)"
  by (auto simp: sendToMember_def SendPbMsg_def deliver_def
      intro!: arg_cong[where f = "\<lambda>f. s\<lparr>clients := f\<rparr>"] split: option.splits)

lemma run_deliver_members:
  assumes "distinct ms" "reg_inj s"
  shows "run_state (forM ms (\<lambda>m. do {
       sendToMember srv i msg m TerminalTypeApp; sendToMember srv i msg m TerminalTypeWeb })) s =
     ((), deliver srv i (Grp (S2CRecvGroupChat msg)) (audience (gm_SenderId msg) (set ms) s) s)"
  using assms
proof (induction ms arbitrary: s)
  case Nil
  then show ?case by (simp add: audience_def)
next
  case (Cons m ms)
  let ?p = "Grp (S2CRecvGroupChat msg)" and ?u = "gm_SenderId msg"
  let ?A = "{d. m \<noteq> ?u \<and> GetClient m TerminalTypeApp s = Some d}"
  let ?B = "{d. m \<noteq> ?u \<and> GetClient m TerminalTypeWeb s = Some d}"
  have inj: "reg_inj (deliver srv i ?p D s)" for D using Cons.prems(2) by (simp add: reg_inj_def)
  have d1: "?B \<inter> ?A = {}"
  proof -
    have False if "GetClient m TerminalTypeWeb s = Some d" "GetClient m TerminalTypeApp s = Some d" for d
      using reg_injD[OF Cons.prems(2) that] by (simp add: TerminalTypeApp_def TerminalTypeWeb_def)
    then show ?thesis by blast
  qed
  have d2: "audience ?u (set ms) s \<inter> (?B \<union> ?A) = {}"
  proof -
    have False if d: "d \<in> audience ?u (set ms) s" "d \<in> ?B \<union> ?A" for d
    proof -
      obtain m' t where m': "m' \<in> set ms" "GetClient m' t s = Some d"
        using d(1) by (auto simp: audience_def)
      obtain u where "GetClient m u s = Some d" using d(2) by auto
      then have "m' = m" using reg_injD[OF Cons.prems(2) m'(2)] by blast
      then show False using m'(1) Cons.prems(1) by simp
    qed
    then show ?thesis by blast
  qed
  have aud: "audience ?u (set ms) (deliver srv i ?p D s) = audience ?u (set ms) s" for D
    by (simp add: audience_def)
  have un: "audience ?u (set ms) s \<union> (?B \<union> ?A) = audience ?u (set (m # ms)) s"
    by (auto simp: audience_def)
  show ?case
    using Cons.IH[OF _ inj] Cons.prems(1)
    by (simp add: run_sendToMember deliver_deliver[OF d1] deliver_deliver[OF d2] aud un)
qed

text \<open>
  C2: delivery of a group message on one server. Exactly the clients of the group's online
  members other than the sender, on both terminals, get the message, each once; no other
  client's state changes.
\<close>

theorem group_delivery:
  assumes "server_wf s"
  shows "run_state (SendToLocalChatGroup srv g i msg) s =
    ((), s\<lparr>clients := (\<lambda>d.
       if \<exists>m t. m |\<in>| localMembers g s \<and> m \<noteq> gm_SenderId msg \<and> t \<in> {TerminalTypeApp, TerminalTypeWeb}
            \<and> GetClient m t s = Some d
       then pushPb srv i (Grp (S2CRecvGroupChat msg)) (clients s d) else clients s d)\<rparr>)"
proof -
  define ms where "ms = (case fmlookup (mmLocalOnlineGroupMember s) g of
      Some online \<Rightarrow> range_fset srv (hist s) online | None \<Rightarrow> [])"
  have "set ms = fset (localMembers g s)" "distinct ms"
    by (auto simp: ms_def localMembers_def split: option.splits)
  then have "run_state (SendToLocalChatGroup srv g i msg) s =
      ((), deliver srv i (Grp (S2CRecvGroupChat msg)) (audience (gm_SenderId msg) (fset (localMembers g s)) s) s)"
    using run_deliver_members[OF _ reg_inj_wf[OF assms], of ms srv i msg]
    by (simp add: SendToLocalChatGroup_def ms_def[symmetric])
  moreover have "d \<in> audience (gm_SenderId msg) (fset (localMembers g s)) s \<longleftrightarrow>
      (\<exists>m t. m |\<in>| localMembers g s \<and> m \<noteq> gm_SenderId msg \<and> t \<in> {TerminalTypeApp, TerminalTypeWeb}
            \<and> GetClient m t s = Some d)" for d
    by (auto simp: audience_def)
  ultimately show ?thesis by (simp add: deliver_def)
qed

theorem group_delivery_witness:
  "let s = demoTwoTerminals\<lparr>mmLocalOnlineGroupMember := fmupd 7 {|1|} fmempty\<rparr>;
       t = snd (run_state (SendToLocalChatGroup demoSvc 7 9 (no_groupMessage\<lparr>gm_SenderId := 2\<rparr>)) s)
   in chanToClientMsg (clients t 0) \<noteq> [] \<and> chanToClientMsg (clients t 1) \<noteq> []
      \<and> chanToClientMsg (clients t 2) = []"
proof -
  define s where "s = demoTwoTerminals\<lparr>mmLocalOnlineGroupMember := fmupd 7 {|1|} fmempty\<rparr>"
  have wf: "server_wf s"
    using demoTwoTerminals_wf by (simp add: s_def server_wf_def online_wf_def)
  have reg: "GetClient a t s = (if (a, t) = (1, 2) then Some 1 else if (a, t) = (1, 1) then Some 0 else None)" for a t
  proof -
    have "GetClient a t s = GetClient a t demoTwoTerminals" by (simp add: s_def GetClient_def)
    then show ?thesis
      by (simp add: demoTwoTerminals_def GetClient_StoreClient keyOf_def) (simp add: GetClient_def)
  qed
  have cl: "clients s = (\<lambda>c. if c = 1 then (demoClient 1)\<lparr>terminalType := 2\<rparr> else demoClient (int c + 1))"
    by (simp add: s_def demoTwoTerminals_clients)
  have mem: "localMembers 7 s = {|1|}" by (simp add: localMembers_def s_def)
  show ?thesis
    using group_delivery[OF wf, of demoSvc 7 9 "no_groupMessage\<lparr>gm_SenderId := 2\<rparr>"]
    by (simp add: Let_def flip: s_def)
      (simp add: mem reg cl TerminalTypeApp_def TerminalTypeWeb_def pushPb_def demoSvc_def
        SendBuf_def chanSend_def chanCap_def)
qed

end
