(* ===== verification/Subscribers.thy ===== *)
theory Subscribers
  imports OnlineChatGroup
begin

text \<open>
  What the subscribed functions do, Publish with them, and the messages that arrive from other
  servers (msg-server/msgServerApp/recvMQMessage.go).
\<close>

section \<open>Publishing\<close>

fun runHandler :: "svc \<Rightarrow> evHandler \<Rightarrow> eventArg \<Rightarrow> handler" where
  "runHandler srv OnPrivateChat arg = onPrivateChatEvent srv arg"
| "runHandler srv OnAgreeBecomeFriend arg = onAgreeBecomeFriendEvent srv arg"
| "runHandler srv OnReadFriendReq arg = onReadFriendReqEvent srv arg"
| "runHandler srv OnC2SLastMsgTimeStamp arg = onC2SLastMsgTimeStampEvent srv arg"
| "runHandler srv OnDeleteFriend arg = onDeleteFriendEvent srv arg"
| "runHandler srv OnConfirmDeleteFriend arg = onConfirmDeleteFriend srv arg"
| "runHandler srv OnC2SAddFriendBlackList arg = onC2SAddFriendBlackList srv arg"
| "runHandler srv OnS2CMoveOutFriendBlackList arg = onS2CMoveOutFriendBlackListEvent srv arg"
| "runHandler srv OnS2CSetFriendRemarkName arg = onS2CSetFriendRemarkNameEvent srv arg"
| "runHandler srv OnPrivateChatWithDrawMessage arg = onPrivateChatWithDrawMessageEvent srv arg"
| "runHandler srv OnClientLogin arg = onClientLoginEvent srv arg"
| "runHandler srv OnClientLogout arg = onClientLogoutEvent srv arg"
| "runHandler srv OnJoinChatGroup arg = onJoinChatGroupEvent srv arg"
| "runHandler srv OnUnChatGroup arg = onUnChatGroupEvent srv arg"
| "runHandler srv OnCancelChatGroup arg = onCancelChatGroupEvent srv arg"
| "runHandler srv OnC2SGroupChat arg = onC2SGroupChatEvent srv arg"

definition Publish :: "svc \<Rightarrow> int \<Rightarrow> eventArg \<Rightarrow> (server, unit) state" where
  "Publish srv = publishWith (runHandler srv) srv"

text \<open>The event argument that most handlers build: the client and a message.\<close>

definition clientArg :: "nat \<Rightarrow> eventArg" where
  "clientArg c = SetUserData ''client'' (UClient c) NewEventArg"

definition publishPb :: "svc \<Rightarrow> int \<Rightarrow> nat \<Rightarrow> pb \<Rightarrow> (server, unit) state" where
  "publishPb srv e c p = Publish srv e (SetUserData ''pbdata'' (UPb p) (clientArg c))"

lemma keeps_wf_runHandler [keeps_rules]: "keeps (inv X) (runHandler srv h arg)"
  by (cases h) (simp_all only: runHandler.simps, (rule keeps_rules)+)

lemma keeps_wf_Publish [keeps_rules]: "keeps (inv X) (Publish srv e arg)"
  unfolding Publish_def by (intro keeps_rules)

lemma keeps_wf_publishPb [keeps_rules]: "keeps (inv X) (publishPb srv e c p)"
  unfolding publishPb_def by (intro keeps_rules)

section \<open>Removing a client\<close>

definition RemoveClient :: "svc \<Rightarrow> nat \<Rightarrow> (server, unit) state" where
  "RemoveClient srv c = do {
     acc \<leftarrow> GetAccountId c;
     cl \<leftarrow> cli c;
     modify (dropClient acc (terminalType cl));
     Publish srv ClientLogoutEvent (clientArg c);
     modCli c (\<lambda>cl. cl\<lparr>doneSignal := True\<rparr>) }"

section \<open>Messages from other servers\<close>

definition handleSendGroupChat :: "svc \<Rightarrow> string \<Rightarrow> (server, unit) state" where
  "handleSendGroupChat srv msg =
     (case un_GroupMessage srv (drop PacketHeaderSize msg) of
        (ok, p) \<Rightarrow> whenM ok (SendToLocalChatGroup srv (gm_ReceiveGroupId p) NetMsgId_S2CRecvGroupChat p))"

definition deliverMQ :: "int \<Rightarrow> int \<Rightarrow> string \<Rightarrow> (server, unit) state" where
  "deliverMQ receiverId terminal msg = do {
     receiver \<leftarrow> gets (GetClient receiverId terminal);
     (case receiver of Some d \<Rightarrow> modCli d (HandleMsg msg) | None \<Rightarrow> skip) }"

definition HandleMQMessage :: "svc \<Rightarrow> string \<Rightarrow> (server, unit) state" where
  "HandleMQMessage srv buf =
     (if 24 \<le> length buf then
        (let receiverId = wrap64 (Uint64 buf); groupId = wrap64 (Uint64 (drop 8 buf)) in
         if receiverId > 0 then do {
           deliverMQ receiverId TerminalTypeApp (drop 16 buf);
           deliverMQ receiverId TerminalTypeWeb (drop 16 buf) }
         else if groupId > 0 then
           whenM (Uint32 (drop 16 buf) = NetMsgId_MQGroupChat) (handleSendGroupChat srv (drop 16 buf))
         else skip)
      else skip)"

lemma keeps_wf_MQ [keeps_rules]:
  "keeps (inv X) (handleSendGroupChat srv m)" "keeps (inv X) (deliverMQ r t m)"
  unfolding handleSendGroupChat_def deliverMQ_def by (intro keeps_rules)+

lemma keeps_wf_HandleMQMessage [keeps_rules]: "keeps (inv X) (HandleMQMessage srv buf)"
  unfolding HandleMQMessage_def Let_def by (intro keeps_rules)

lemma run_deliverMQ:
  "run_state (deliverMQ r t m) s =
     ((), s\<lparr>clients := (\<lambda>d. if GetClient r t s = Some d then HandleMsg m (clients s d) else clients s d)\<rparr>)"
  by (auto simp: deliverMQ_def intro!: arg_cong[where f = "\<lambda>f. s\<lparr>clients := f\<rparr>"] split: option.splits)

lemma mqBuf_fields:
  assumes "int64 r" "int64 g"
  shows "wrap64 (Uint64 (mqBuf r g i m)) = r" "wrap64 (Uint64 (drop 8 (mqBuf r g i m))) = g"
    "drop 16 (mqBuf r g i m) = PackByteMsg i m" "24 \<le> length (mqBuf r g i m)"
proof -
  have w: "wrap64 (k mod 2 ^ 64) = k" if "int64 k" for k
    using that by (auto simp: wrap64_def int64_def mod_simps)
  show "wrap64 (Uint64 (mqBuf r g i m)) = r"
    by (simp add: mqBuf_frame Uint64_PutUint64 w[simplified] assms)
  show "wrap64 (Uint64 (drop 8 (mqBuf r g i m))) = g"
    by (simp add: mqBuf_frame Uint64_PutUint64 w[simplified] assms)
  show "drop 16 (mqBuf r g i m) = PackByteMsg i m" by (simp add: mqBuf_frame)
  show "24 \<le> length (mqBuf r g i m)" by (simp add: mqBuf_def)
qed

text \<open>
  C3: a message sent to a user reaches that user's clients. What SendPbMsg of redisPubSub
  publishes is a buffer on which the receiving server, in whatever state it is, puts the
  message's packet into the receive queue of the receiver's clients - app and web - and
  changes no other client.
\<close>

theorem mq_reaches_receiver:
  assumes "int64 r" "0 < r" "marshal srv p = Some m"
  shows "\<exists>buf. hist (snd (run_state (mqSendPbMsg srv r i p) s)) =
       hist s @ [Rds (RDo ''pub'' ''publish'' [RStr (hashNode srv (itoa r)), RStr buf])]
     \<and> (server_wf u \<longrightarrow> run_state (HandleMQMessage srv buf) u = ((), u\<lparr>clients := (\<lambda>d.
          if \<exists>t \<in> {TerminalTypeApp, TerminalTypeWeb}. GetClient r t u = Some d
          then HandleMsg (PackByteMsg i m) (clients u d) else clients u d)\<rparr>))"
proof (intro exI[of _ "mqBuf r 0 i m"] conjI impI)
  show "hist (snd (run_state (mqSendPbMsg srv r i p) s)) =
       hist s @ [Rds (RDo ''pub'' ''publish'' [RStr (hashNode srv (itoa r)), RStr (mqBuf r 0 i m)])]"
    using assms(3) by (simp add: mqSendPbMsg_def run_simps)
next
  assume wf: "server_wf u"
  let ?m = "PackByteMsg i m"
  have inj: "\<not> (GetClient r TerminalTypeApp u = Some d \<and> GetClient r TerminalTypeWeb u = Some d)" for d
    using reg_injD[OF reg_inj_wf[OF wf], of r TerminalTypeApp d r TerminalTypeWeb]
    by (auto simp: TerminalTypeApp_def TerminalTypeWeb_def)
  have "run_state (HandleMQMessage srv (mqBuf r 0 i m)) u =
      run_state (do { deliverMQ r TerminalTypeApp ?m; deliverMQ r TerminalTypeWeb ?m }) u"
    using assms(1,2) mqBuf_fields[of r 0 i m] by (simp add: HandleMQMessage_def int64_def)
  also have "\<dots> = ((), u\<lparr>clients := (\<lambda>d.
          if \<exists>t \<in> {TerminalTypeApp, TerminalTypeWeb}. GetClient r t u = Some d
          then HandleMsg ?m (clients u d) else clients u d)\<rparr>)"
    using inj by (auto simp: run_deliverMQ fun_eq_iff intro!: arg_cong[where f = "\<lambda>f. u\<lparr>clients := f\<rparr>"])
  finally show "run_state (HandleMQMessage srv (mqBuf r 0 i m)) u = ((), u\<lparr>clients := (\<lambda>d.
          if \<exists>t \<in> {TerminalTypeApp, TerminalTypeWeb}. GetClient r t u = Some d
          then HandleMsg ?m (clients u d) else clients u d)\<rparr>)" .
qed

theorem mq_reaches_receiver_witness:
  "\<exists>buf. chanRecvMsg (clients (snd (run_state (HandleMQMessage demoSvc buf) demoTwoTerminals)) 1)
     = [PackByteMsg 9 ''m'']"
proof -
  have m: "marshal demoSvc (Acc (S2CRename ''x'')) = Some ''m''" by (simp add: demoSvc_def)
  obtain buf where "run_state (HandleMQMessage demoSvc buf) demoTwoTerminals =
      ((), demoTwoTerminals\<lparr>clients := (\<lambda>d.
          if \<exists>t \<in> {TerminalTypeApp, TerminalTypeWeb}. GetClient 1 t demoTwoTerminals = Some d
          then HandleMsg (PackByteMsg 9 ''m'') (clients demoTwoTerminals d) else clients demoTwoTerminals d)\<rparr>)"
    using mq_reaches_receiver[OF _ _ m, of 1 9 demoServer demoTwoTerminals] demoTwoTerminals_wf
    by (auto simp: int64_def)
  moreover have "GetClient 1 TerminalTypeWeb demoTwoTerminals = Some 1"
    using demoTwoTerminals_other
    by (simp add: GetOtherTerminalClient_def demoTwoTerminals_clients TerminalTypeApp_def)
  ultimately show ?thesis
    by (intro exI[of _ buf])
      (simp add: demoTwoTerminals_clients HandleMsg_def demoClient_def chanSend_def chanCap_def)
qed

section \<open>What publishing leaves alone\<close>

text \<open>
  A subscriber works on the other terminal's client: of the client that an event is about it
  changes at most the list of chat groups, unless the event carries a group message.
\<close>

definition mine :: "client \<Rightarrow> client" where
  "mine cl = cl\<lparr>mapChatGroup := fmempty\<rparr>"

definition wf_mine :: "nat \<Rightarrow> client \<Rightarrow> server \<Rightarrow> bool" where
  "wf_mine c X s \<longleftrightarrow> server_wf s \<and> mine (clients s c) = X"

lemma keeps_conj: "keeps I m \<Longrightarrow> keeps K m \<Longrightarrow> keeps (\<lambda>s. I s \<and> K s) m"
  by (auto simp: keeps_def)

lemma other_terminal_ne: "server_wf s \<Longrightarrow> GetOtherTerminalClient c s = Some d \<Longrightarrow> d \<noteq> c"
  using GetClient_wf[of s _ TerminalTypeWeb d] GetClient_wf[of s _ TerminalTypeApp d]
  by (fastforce simp: GetOtherTerminalClient_def keyOf_def TerminalTypeApp_def TerminalTypeWeb_def split: if_splits)

lemma keeps_mine_ask: "keeps (wf_mine c X) (ask q f)"
  using keepsD[OF inv_server_wf[OF keeps_wf_ask[of _ q f]]] by (simp add: keeps_def wf_mine_def)

lemma keeps_mine_modCli: "ok_upd f \<Longrightarrow> d \<noteq> c \<Longrightarrow> keeps (wf_mine c X) (modCli d f)"
  using keepsD[OF inv_server_wf[OF keeps_wf_modCli[of f _ d]]] by (auto simp: keeps_def wf_mine_def)

lemma keeps_mine_own: "ok_upd f \<Longrightarrow> (\<And>cl. mine (f cl) = mine cl) \<Longrightarrow> keeps (wf_mine c X) (modCli d f)"
  using keepsD[OF inv_server_wf[OF keeps_wf_modCli[of f _ d]]] by (auto simp: keeps_def wf_mine_def)

lemma keeps_mine_groups:
  "keeps (wf_mine c X) (modify (\<lambda>s. s\<lparr>mmLocalOnlineGroupMember := g s\<rparr>))"
  using keepsD[OF inv_server_wf[OF keeps_wf_online_modify(2)[of _ g]]] by (simp add: keeps_def wf_mine_def)

lemma keeps_mine_withOther:
  assumes "\<And>d. d \<noteq> c \<Longrightarrow> keeps (wf_mine c X) (f d)"
  shows "keeps (wf_mine c X) (withOther c f)"
  unfolding keeps_def
proof (intro allI impI)
  fix s assume I: "wf_mine c X s"
  show "wf_mine c X (snd (run_state (withOther c f) s))"
  proof (cases "GetOtherTerminalClient c s")
    case None
    then show ?thesis using I by (simp add: withOther_def)
  next
    case (Some d)
    then have "d \<noteq> c" using I other_terminal_ne[of s c d] by (simp add: wf_mine_def)
    with Some show ?thesis using keepsD[OF assms I, of d] by (simp add: withOther_def)
  qed
qed

lemma keeps_assertBoth_client:
  "(\<And>p. keeps I (f c p)) \<Longrightarrow> keeps I (assertBoth (Some c) b f)"
  by (simp add: assertBoth_def keeps_rules split: option.splits)

declare keeps_withOther [keeps_rules del] keeps_assertBoth [keeps_rules del]

lemma SendToOther_withOther: "SendPbMsgToOtherTerminal srv c i p = withOther c (\<lambda>d. SendPbMsg srv d i p)"
  by (simp add: SendPbMsgToOtherTerminal_def withOther_def)

lemmas keeps_mine_rules = keeps_mine_ask keeps_mine_modCli keeps_mine_groups keeps_mine_withOther

lemma keeps_mine_DeleteFriend: "d \<noteq> c \<Longrightarrow> keeps (wf_mine c X) (DeleteFriend srv d u)"
  unfolding DeleteFriend_def deleteFriendTx_def bareContacts_def SendErrorCode_def SendPbMsg_def service_calls
  by (intro keeps_rules keeps_mine_rules | assumption)+

lemma keeps_mine_UpdateContact: "d \<noteq> c \<Longrightarrow> keeps (wf_mine c X) (UpdateContactInfoInMemory srv d)"
  unfolding UpdateContactInfoInMemory_def service_calls
  by (intro keeps_rules keeps_mine_rules | assumption)+

lemma keeps_mine_UpdateBlackList: "d \<noteq> c \<Longrightarrow> keeps (wf_mine c X) (UpdateBlackListInfoInMemory srv d)"
  unfolding UpdateBlackListInfoInMemory_def service_calls
  by (intro keeps_rules keeps_mine_rules | assumption)+

lemma keeps_mine_SendPbMsg: "d \<noteq> c \<Longrightarrow> keeps (wf_mine c X) (SendPbMsg srv d i p)"
  unfolding SendPbMsg_def by (intro keeps_rules keeps_mine_rules)

lemma keeps_mine_pos:
  "keeps (wf_mine c X) (addGroupPos srv g)" "keeps (wf_mine c X) (removeGroupPos srv g)"
  unfolding addGroupPos_def removeGroupPos_def service_calls by (intro keeps_rules keeps_mine_rules)+

lemma keeps_mine_JoinChatGroup: "keeps (wf_mine c X) (JoinChatGroup srv d g)"
proof -
  have "mine (AddChatGroup p cl) = mine cl" for p cl by (simp add: mine_def AddChatGroup_def)
  then show ?thesis unfolding JoinChatGroup_def service_calls
    by (intro keeps_rules keeps_mine_rules keeps_mine_own ok_upds)
qed

lemmas keeps_mine_all = keeps_mine_rules keeps_mine_DeleteFriend keeps_mine_UpdateContact
  keeps_mine_UpdateBlackList keeps_mine_SendPbMsg keeps_mine_pos keeps_mine_JoinChatGroup

lemma keeps_mine_runHandler:
  assumes "evClient arg = Some c" "asGroupMessage (asPb (GetUserData ''chatgroupmsg'' arg)) = None"
  shows "keeps (wf_mine c X) (runHandler srv h arg)"
proof (cases h)
  case OnC2SGroupChat
  then show ?thesis using assms(2) by (simp add: onC2SGroupChatEvent_def keeps_rules)
qed (simp_all only: runHandler.simps otherTerminal_defs SendToOther_withOther onClientLoginEvent_def
    onClientLogoutEvent_def onJoinChatGroupEvent_def onUnChatGroupEvent_def onCancelChatGroupEvent_def
    localChatGroupMemberLogin_def localChatGroupMemberLogout_def GetChatGroupIds_def service_calls Let_def assms(1),
    ((intro keeps_assertBoth_client keeps_rules keeps_mine_all | assumption)+))

lemma keeps_mine_Publish:
  assumes "evClient arg = Some c" "asGroupMessage (asPb (GetUserData ''chatgroupmsg'' arg)) = None"
  shows "keeps (wf_mine c X) (Publish srv e arg)"
  unfolding Publish_def by (intro keeps_publishWith keeps_mine_runHandler assms)

lemma publishPb_mine:
  assumes "server_wf s" "run_state (publishPb srv e c p) s = (u, t)"
  shows "server_wf t \<and> mine (clients t c) = mine (clients s c)"
proof -
  have "keeps (wf_mine c (mine (clients s c))) (publishPb srv e c p)"
    unfolding publishPb_def
    by (rule keeps_mine_Publish) (simp_all add: clientArg_def event_args evClient_def asClient_def asPb_def asGroupMessage_def)
  then show ?thesis using assms keepsD[of _ _ s] by (fastforce simp: wf_mine_def)
qed

end
