(* ===== verification/Sessions.thy ===== *)
theory Sessions
  imports Subscribers
begin

text \<open>
  The life of a connection's client object: KickClient and WatchCloseSignal start goroutines,
  logins wait for the client they replace, RemoveClient takes a closed client out of the
  registry. The goroutines are the pools of a step relation, each step one of them (or the
  rest of the process) running its next piece.
\<close>

section \<open>Goroutines\<close>

text \<open>The client whose done channel KickClient returns; None for a channel that is closed at once.\<close>

definition KickClient :: "int \<Rightarrow> int \<Rightarrow> server \<Rightarrow> nat option" where
  "KickClient accountId t s = GetClient accountId t s"

definition kickGoroutine :: "svc \<Rightarrow> nat \<Rightarrow> (server, unit) state" where
  "kickGoroutine srv c = do {
     now \<leftarrow> timeNow srv;
     BlockingSendPbMsg srv c NetMsgId_S2CLoginSomewhereElse (Acc (S2CLoginSomewhereElse (micros now)));
     Close srv c }"

text \<open>
  The part of a login from NewClient to StoreClient, for a new object at the address \<open>c\<close>. A login
  loads the user's groups; a registration and the login through a third platform do not.
\<close>

definition enterClient :: "svc \<Rightarrow> nat \<Rightarrow> bool \<Rightarrow> client \<Rightarrow> (server, unit) state" where
  "enterClient srv c load cl = do {
     modify (\<lambda>s. s\<lparr>clients := (clients s)(c := cl)\<rparr>);
     SaveUsrBriefInfoToRedis srv c;
     whenM load (LoadChatGroupInfo srv c);
     modify (StoreClient c) }"

section \<open>Steps\<close>

record sess =
  sv :: server
  kicks :: "nat set"
  watchers :: "nat set"
  used :: "nat set"
  pending :: "int \<times> int \<Rightarrow> nat option option"

text \<open>
  \<open>pending k = Some w\<close>: a login for the account and terminal \<open>k\<close> has kicked \<open>w\<close> and waits for its
  done channel. Logins of one key are taken to exclude each other, as the comment on the
  distributed lock of clientLogin intends; the last section shows what happens when they do
  not (the lock is a Setex, which succeeds also when the key is set). \<open>rest\<close> is any other piece of the process: a program that keeps \<open>inv\<close>, as all
  message handlers and event subscribers do.
\<close>

inductive sess_step :: "svc \<Rightarrow> sess \<Rightarrow> sess \<Rightarrow> bool" for srv where
  kick: "pending ss (a, t) = None \<Longrightarrow> w = KickClient a t (sv ss) \<Longrightarrow>
    sess_step srv ss (ss\<lparr>pending := (pending ss)((a, t) := Some w), kicks := kicks ss \<union> set_option w\<rparr>)"
| run_kick: "c \<in> kicks ss \<Longrightarrow>
    sess_step srv ss (ss\<lparr>sv := snd (run_state (kickGoroutine srv c) (sv ss)), kicks := kicks ss - {c}\<rparr>)"
| enter: "pending ss (a, t) = Some w \<Longrightarrow>
    (case w of None \<Rightarrow> True | Some d \<Rightarrow> doneSignal (clients (sv ss) d)) \<Longrightarrow>
    c \<notin> used ss \<Longrightarrow> cl = NewClient srv acc now serial t \<Longrightarrow> ac_AccountId acc = a \<Longrightarrow>
    sess_step srv ss (ss\<lparr>sv := snd (run_state (enterClient srv c load cl) (sv ss)),
      watchers := insert c (watchers ss), used := insert c (used ss),
      pending := (pending ss)((a, t) := None)\<rparr>)"
| close: "c \<in> used ss \<Longrightarrow>
    sess_step srv ss (ss\<lparr>sv := snd (run_state (Close srv c) (sv ss))\<rparr>)"
| watch: "c \<in> watchers ss \<Longrightarrow> closeSignal (clients (sv ss) c) \<Longrightarrow>
    sess_step srv ss (ss\<lparr>sv := snd (run_state (RemoveClient srv c) (sv ss)),
      watchers := watchers ss - {c}\<rparr>)"
| rest: "(\<And>X. keeps (inv X) (m :: (server, unit) state)) \<Longrightarrow>
    sess_step srv ss (ss\<lparr>sv := snd (run_state m (sv ss))\<rparr>)"

inductive sess_steps :: "svc \<Rightarrow> sess \<Rightarrow> sess \<Rightarrow> bool" for srv where
  none: "sess_steps srv ss ss"
| more: "sess_steps srv ss tt \<Longrightarrow> sess_step srv tt uu \<Longrightarrow> sess_steps srv ss uu"

text \<open>
  The invariant: the registry holds exactly the clients that are watched, under their own
  keys; a watched client is not done; and what a waiting login will find when it goes on is
  an empty place; the client it waits for is about to be closed or is
  closed, and every client that was ever stored is watched or done.
\<close>

definition sess_ok ::
    "server \<Rightarrow> nat set \<Rightarrow> nat set \<Rightarrow> nat set \<Rightarrow> (int \<times> int \<Rightarrow> nat option option) \<Rightarrow> bool" where
  "sess_ok s K W U P \<longleftrightarrow> server_wf s
   \<and> (\<forall>a t c. GetClient a t s = Some c \<longleftrightarrow> c \<in> W \<and> keyOf s c = (a, t))
   \<and> (\<forall>c \<in> W. \<not> doneSignal (clients s c))
   \<and> W \<subseteq> U \<and> K \<subseteq> U
   \<and> (\<forall>a t c w. P (a, t) = Some w \<longrightarrow> GetClient a t s = Some c \<longrightarrow> w = Some c)
   \<and> (\<forall>a t d. P (a, t) = Some (Some d) \<longrightarrow> d \<in> U \<and> (d \<in> K \<or> closeSignal (clients s d)))
   \<and> (\<forall>d \<in> U. d \<in> W \<or> doneSignal (clients s d))"

definition sess_inv :: "sess \<Rightarrow> bool" where
  "sess_inv ss \<longleftrightarrow> sess_ok (sv ss) (kicks ss) (watchers ss) (used ss) (pending ss)"

section \<open>How the pieces change the core\<close>

lemma core_GetClient: "core s = core u \<Longrightarrow> GetClient a t s = GetClient a t u"
  by (simp add: core_def GetClient_def)

lemma core_fields:
  "core s = core u \<Longrightarrow> keyOf s c = keyOf u c \<and> isClosed (clients s c) = isClosed (clients u c)
     \<and> closeSignal (clients s c) = closeSignal (clients u c)
     \<and> doneSignal (clients s c) = doneSignal (clients u c)"
  by (simp add: core_def fun_eq_iff)

text \<open>\<open>same u s\<close>: the same registry, keys and done signals, and no close signal has been undone.\<close>

definition same :: "server \<Rightarrow> server \<Rightarrow> bool" where
  "same u s \<longleftrightarrow> mapOnlineClient u = mapOnlineClient s \<and> keyOf u = keyOf s
     \<and> (\<forall>c. doneSignal (clients u c) = doneSignal (clients s c))
     \<and> (\<forall>c. closeSignal (clients s c) \<longrightarrow> closeSignal (clients u c))"

lemma same_core: "core u = core s \<Longrightarrow> same u s"
  by (auto simp: same_def core_def fun_eq_iff)

lemma same_GetClient: "same u s \<Longrightarrow> GetClient a t u = GetClient a t s"
  by (simp add: same_def GetClient_def)

lemma same_trans: "same v u \<Longrightarrow> same u s \<Longrightarrow> same v s"
  by (simp add: same_def)

lemma Close_registry [simp]:
  "mapOnlineClient (snd (run_state (Close srv c) s)) = mapOnlineClient s"
  by (rule keepsD[where I = "\<lambda>t. mapOnlineClient t = mapOnlineClient s"])
    (auto simp: Close_def SaveBaseInfo_def DelClientOnlieExpire_def service_calls
      modCli_def keeps_def[of _ "modify _"] intro!: keeps_rules)

lemma Close_same: "same (snd (run_state (Close srv c) s)) s"
  by (auto simp: same_def Close_clients keyOf_def fun_eq_iff)

lemma Close_step: "server_wf s \<Longrightarrow> server_wf (snd (run_state (Close srv c) s))"
  by (rule keepsD[OF keeps_wf_Close])

lemma kick_sends: "keeps (inv X) (do { now \<leftarrow> timeNow srv; BlockingSendPbMsg srv c i (f now) })"
  by (intro keeps_rules)

lemma run_kickGoroutine:
  "snd (run_state (kickGoroutine srv c) s) = snd (run_state (Close srv c) (snd (run_state (do {
     now \<leftarrow> timeNow srv;
     BlockingSendPbMsg srv c NetMsgId_S2CLoginSomewhereElse (Acc (S2CLoginSomewhereElse (micros now))) }) s)))"
  by (simp add: kickGoroutine_def split_beta)

lemma kick_step:
  assumes "server_wf s"
  shows "server_wf (snd (run_state (kickGoroutine srv c) s)) \<and> same (snd (run_state (kickGoroutine srv c) s)) s"
proof -
  define u where "u = snd (run_state (do {
     now \<leftarrow> timeNow srv;
     BlockingSendPbMsg srv c NetMsgId_S2CLoginSomewhereElse (Acc (S2CLoginSomewhereElse (micros now))) }) s)"
  have "server_wf u" unfolding u_def
    by (rule keepsD[OF inv_server_wf[OF kick_sends] assms])
  moreover have "same u s" unfolding u_def by (rule same_core[OF inv_core[OF kick_sends assms]])
  ultimately show ?thesis
    unfolding run_kickGoroutine u_def[symmetric]
    using Close_step[of u srv c] Close_same[of srv c u] same_trans[of _ u s] by blast
qed

lemma run_RemoveClient:
  "snd (run_state (RemoveClient srv c) s) = (let u = snd (run_state (Publish srv ClientLogoutEvent (clientArg c))
       (dropClient (ac_AccountId (account (clients s c))) (terminalType (clients s c)) s))
     in u\<lparr>clients := (clients u)(c := (clients u c)\<lparr>doneSignal := True\<rparr>)\<rparr>)"
  by (simp add: RemoveClient_def split_beta Let_def)

lemma RemoveClient_step:
  assumes "server_wf s" and "u = snd (run_state (RemoveClient srv c) s)"
  shows "server_wf u \<and> keyOf u = keyOf s
    \<and> (\<forall>a t. GetClient a t u = (if (a, t) = keyOf s c then None else GetClient a t s))
    \<and> (\<forall>d. doneSignal (clients u d) \<longleftrightarrow> d = c \<or> doneSignal (clients s d))
    \<and> (\<forall>d. closeSignal (clients s d) \<longrightarrow> closeSignal (clients u d))"
proof -
  define v where "v = dropClient (ac_AccountId (account (clients s c))) (terminalType (clients s c)) s"
  define w where "w = snd (run_state (Publish srv ClientLogoutEvent (clientArg c)) v)"
  have u: "u = w\<lparr>clients := (clients w)(c := (clients w c)\<lparr>doneSignal := True\<rparr>)\<rparr>"
    by (simp add: assms(2) run_RemoveClient Let_def v_def w_def)
  have wf: "server_wf v" using assms(1) by (simp add: v_def dropClient_wf)
  have "core w = core v" unfolding w_def by (rule inv_core[OF keeps_wf_Publish wf])
  then have same: "same w v" by (rule same_core)
  have "server_wf w" unfolding w_def by (rule keepsD[OF inv_server_wf[OF keeps_wf_Publish] wf])
  then have "server_wf u" by (auto simp: u server_wf_def online_wf_def client_wf_def)
  moreover have "keyOf u = keyOf s" using same by (auto simp: same_def u keyOf_def v_def fun_eq_iff)
  moreover have "GetClient a t u = (if (a, t) = keyOf s c then None else GetClient a t s)" for a t
    using same_GetClient[OF same, of a t]
    by (simp add: u GetClient_def[of _ _ "w\<lparr>clients := _\<rparr>"] flip: GetClient_def)
      (simp add: v_def GetClient_dropClient keyOf_def)
  moreover have "doneSignal (clients u d) \<longleftrightarrow> d = c \<or> doneSignal (clients s d)" for d
    using same by (auto simp: same_def u v_def)
  moreover have "closeSignal (clients s d) \<longrightarrow> closeSignal (clients u d)" for d
    using same by (auto simp: same_def u v_def)
  ultimately show ?thesis by blast
qed

lemma keeps_enter: "keeps (inv X) (do { SaveUsrBriefInfoToRedis srv c; whenM load (LoadChatGroupInfo srv c) })"
  by (intro keeps_rules)

lemma run_enterClient:
  "snd (run_state (enterClient srv c load cl) s) =
     StoreClient c (snd (run_state (do { SaveUsrBriefInfoToRedis srv c; whenM load (LoadChatGroupInfo srv c) })
       (s\<lparr>clients := (clients s)(c := cl)\<rparr>)))"
  by (simp add: enterClient_def split_beta)

lemma enterClient_step:
  assumes "server_wf s" and "client_wf cl" and "\<And>a t. GetClient a t s \<noteq> Some c"
    and "u = snd (run_state (enterClient srv c load cl) s)"
  shows "server_wf u
    \<and> (\<forall>d. keyOf u d = (if d = c then (ac_AccountId (account cl), terminalType cl) else keyOf s d))
    \<and> (\<forall>a t. GetClient a t u = (if (a, t) = (ac_AccountId (account cl), terminalType cl) then Some c
                              else GetClient a t s))
    \<and> (\<forall>d. doneSignal (clients u d) = (if d = c then doneSignal cl else doneSignal (clients s d)))
    \<and> (\<forall>d. d \<noteq> c \<and> closeSignal (clients s d) \<longrightarrow> closeSignal (clients u d))"
proof -
  define v where "v = s\<lparr>clients := (clients s)(c := cl)\<rparr>"
  define w where "w = snd (run_state (do { SaveUsrBriefInfoToRedis srv c; whenM load (LoadChatGroupInfo srv c) }) v)"
  have u: "u = StoreClient c w" by (simp add: assms(4) run_enterClient v_def w_def)
  have wf: "server_wf v"
    using assms(1-3) unfolding v_def server_wf_def online_wf_def GetClient_def
    by (fastforce split: option.splits)
  have "core w = core v" unfolding w_def by (rule inv_core[OF keeps_enter wf])
  then have same: "same w v" by (rule same_core)
  have "server_wf w" unfolding w_def by (rule keepsD[OF inv_server_wf[OF keeps_enter] wf])
  then have "server_wf u" by (simp add: u StoreClient_wf)
  moreover have key: "keyOf w d = (if d = c then (ac_AccountId (account cl), terminalType cl) else keyOf s d)" for d
    using same by (auto simp: same_def v_def keyOf_def fun_eq_iff)
  moreover have "keyOf u = keyOf w" by (simp add: u keyOf_def fun_eq_iff)
  moreover have "GetClient a t w = GetClient a t s" for a t
    using same_GetClient[OF same] by (simp add: v_def GetClient_def)
  moreover have "doneSignal (clients u d) = (if d = c then doneSignal cl else doneSignal (clients s d))" for d
    using same by (auto simp: same_def u v_def)
  moreover have "d \<noteq> c \<and> closeSignal (clients s d) \<longrightarrow> closeSignal (clients u d)" for d
    using same by (auto simp: same_def u v_def split: if_splits)
  ultimately show ?thesis by (simp add: u GetClient_StoreClient)
qed

section \<open>The invariant\<close>

lemma sess_invD:
  assumes "sess_inv ss"
  shows "server_wf (sv ss)"
    and "GetClient a t (sv ss) = Some c \<longleftrightarrow> c \<in> watchers ss \<and> keyOf (sv ss) c = (a, t)"
    and "c \<in> watchers ss \<Longrightarrow> \<not> doneSignal (clients (sv ss) c)"
    and "pending ss (a, t) = Some w \<Longrightarrow> GetClient a t (sv ss) = Some c \<Longrightarrow> w = Some c"
  using assms unfolding sess_inv_def sess_ok_def by blast+

lemma sess_okI:
  assumes "server_wf s"
    and "\<And>a t c. GetClient a t s = Some c \<longleftrightarrow> c \<in> W \<and> keyOf s c = (a, t)"
    and "\<And>c. c \<in> W \<Longrightarrow> \<not> doneSignal (clients s c)"
    and "W \<subseteq> U" and "K \<subseteq> U"
    and "\<And>a t w c. P (a, t) = Some w \<Longrightarrow> GetClient a t s = Some c \<Longrightarrow> w = Some c"
    and "\<And>a t d. P (a, t) = Some (Some d) \<Longrightarrow> d \<in> U \<and> (d \<in> K \<or> closeSignal (clients s d))"
    and "\<And>d. d \<in> U \<Longrightarrow> d \<in> W \<or> doneSignal (clients s d)"
  shows "sess_ok s K W U P"
  using assms unfolding sess_ok_def by blast

lemma sess_invI_same:
  assumes inv: "sess_inv ss" and wf: "server_wf u" and same: "same u (sv ss)"
    and k: "K \<subseteq> used ss" "\<forall>d \<in> kicks ss - K. closeSignal (clients u d)"
  shows "sess_inv (ss\<lparr>sv := u, kicks := K\<rparr>)"
proof -
  have g: "GetClient a t u = GetClient a t (sv ss)" for a t by (rule same_GetClient[OF same])
  have s: "keyOf u = keyOf (sv ss)" "\<And>c. doneSignal (clients u c) = doneSignal (clients (sv ss) c)"
    "\<And>c. closeSignal (clients (sv ss) c) \<Longrightarrow> closeSignal (clients u c)"
    using same by (simp_all add: same_def)
  have cs: "d \<in> used ss \<and> (d \<in> K \<or> closeSignal (clients u d))"
    if "pending ss (a, t) = Some (Some d)" for a t d
  proof -
    have "d \<in> used ss \<and> (d \<in> kicks ss \<or> closeSignal (clients (sv ss) d))"
      using inv that unfolding sess_inv_def sess_ok_def by blast
    then show ?thesis using k(2) s(3) by blast
  qed
  show ?thesis using inv wf k(1) cs unfolding sess_inv_def sess_ok_def by (simp add: g s(1,2))
qed

lemma sess_inv_kick:
  assumes "sess_inv ss" "pending ss (a, t) = None" "w = KickClient a t (sv ss)"
  shows "sess_inv (ss\<lparr>pending := (pending ss)((a, t) := Some w), kicks := kicks ss \<union> set_option w\<rparr>)"
proof -
  note inv = assms(1)
  have w: "GetClient a t (sv ss) = w" using assms(3) by (simp add: KickClient_def)
  have wu: "d \<in> used ss" if "w = Some d" for d
    using that w sess_invD(2)[OF inv, of a t d] inv unfolding sess_inv_def sess_ok_def by auto
  have pn: "x = Some c" if "((pending ss)((a, t) := Some w)) (b, u) = Some x"
    "GetClient b u (sv ss) = Some c" for b u x c
    using that w sess_invD(4)[OF inv, of b u x c] by (auto split: if_splits)
  have cs: "d \<in> used ss \<and> (d \<in> kicks ss \<union> set_option w \<or> closeSignal (clients (sv ss) d))"
    if "((pending ss)((a, t) := Some w)) (b, u) = Some (Some d)" for b u d
  proof (cases "(b, u) = (a, t)")
    case True
    then show ?thesis using that wu by simp
  next
    case False
    then have "pending ss (b, u) = Some (Some d)" using that by auto
    then have "d \<in> used ss \<and> (d \<in> kicks ss \<or> closeSignal (clients (sv ss) d))"
      using inv unfolding sess_inv_def sess_ok_def by blast
    then show ?thesis by blast
  qed
  have sub: "kicks ss \<union> set_option w \<subseteq> used ss"
    using wu inv unfolding sess_inv_def sess_ok_def by (cases w) auto
  show ?thesis
    using inv pn cs sub unfolding sess_inv_def sess_ok_def by simp
qed

lemma sess_inv_enter:
  assumes inv: "sess_inv ss" and p: "pending ss (a, t) = Some w"
    and d: "case w of None \<Rightarrow> True | Some d \<Rightarrow> doneSignal (clients (sv ss) d)"
    and c: "c \<notin> used ss" and cl: "cl = NewClient srv acc now serial t" "ac_AccountId acc = a"
  shows "sess_inv (ss\<lparr>sv := snd (run_state (enterClient srv c load cl) (sv ss)),
      watchers := insert c (watchers ss), used := insert c (used ss),
      pending := (pending ss)((a, t) := None)\<rparr>)"
proof -
  let ?u = "snd (run_state (enterClient srv c load cl) (sv ss))"
  have wf: "server_wf (sv ss)" using inv by (simp add: sess_inv_def sess_ok_def)
  have fresh: "GetClient b u (sv ss) \<noteq> Some c" for b u
    using inv c by (auto simp: sess_inv_def sess_ok_def)
  have cwf: "client_wf cl" unfolding cl by (rule NewClient_wf)
  have clf: "ac_AccountId (account cl) = a" "terminalType cl = t" "\<not> doneSignal cl"
    by (simp_all add: cl NewClient_def)
  note st = enterClient_step[where srv = srv and load = load, OF wf cwf fresh refl, unfolded clf]
  have empty: "GetClient a t (sv ss) \<noteq> Some e" for e
  proof
    assume g: "GetClient a t (sv ss) = Some e"
    then have "w = Some e" by (rule sess_invD(4)[OF inv p])
    then show False using d sess_invD(3)[OF inv, of e] sess_invD(2)[OF inv, of a t e] g by simp
  qed
  have get: "GetClient b u ?u = Some e \<longleftrightarrow> e \<in> insert c (watchers ss) \<and> keyOf ?u e = (b, u)" for b u e
    using st inv c empty unfolding sess_inv_def sess_ok_def by auto
  have dn: "\<not> doneSignal (clients ?u e)" if "e \<in> insert c (watchers ss)" for e
    using that st sess_invD(3)[OF inv, of e] clf by auto
  have pn: "x = Some e"
    if "((pending ss)((a, t) := None)) (b, u) = Some x" "GetClient b u ?u = Some e" for b u e x
    using that st inv unfolding sess_inv_def sess_ok_def by (auto split: if_splits)
  have cs: "e \<in> insert c (used ss) \<and> (e \<in> kicks ss \<or> closeSignal (clients ?u e))"
    if "((pending ss)((a, t) := None)) (b, u) = Some (Some e)" for b u e
  proof -
    have "pending ss (b, u) = Some (Some e)" using that by (auto split: if_splits)
    then have "e \<in> used ss \<and> (e \<in> kicks ss \<or> closeSignal (clients (sv ss) e))"
      using inv unfolding sess_inv_def sess_ok_def by blast
    then show ?thesis using st c by auto
  qed
  have wd: "e \<in> insert c (watchers ss) \<or> doneSignal (clients ?u e)" if "e \<in> insert c (used ss)" for e
    using that st inv unfolding sess_inv_def sess_ok_def by auto
  have sub: "insert c (watchers ss) \<subseteq> insert c (used ss)" "kicks ss \<subseteq> insert c (used ss)"
    using inv unfolding sess_inv_def sess_ok_def by auto
  have wf': "server_wf ?u" using st by blast
  have "sess_ok ?u (kicks ss) (insert c (watchers ss)) (insert c (used ss)) ((pending ss)((a, t) := None))"
    by (rule sess_okI[OF wf' get dn sub pn cs wd])
  then show ?thesis by (simp add: sess_inv_def)
qed

lemma sess_inv_watch:
  assumes inv: "sess_inv ss" and c: "c \<in> watchers ss"
  shows "sess_inv (ss\<lparr>sv := snd (run_state (RemoveClient srv c) (sv ss)), watchers := watchers ss - {c}\<rparr>)"
proof -
  let ?u = "snd (run_state (RemoveClient srv c) (sv ss))"
  have wf: "server_wf (sv ss)" using inv by (simp add: sess_inv_def sess_ok_def)
  note st = RemoveClient_step[OF wf refl, of srv c]
  obtain a t where k: "keyOf (sv ss) c = (a, t)" by fastforce
  then have reg: "GetClient a t (sv ss) = Some c" using inv c by (simp add: sess_inv_def sess_ok_def)
  have get: "GetClient b u ?u = Some e \<longleftrightarrow> e \<in> watchers ss - {c} \<and> keyOf ?u e = (b, u)" for b u e
  proof (cases "(b, u) = (a, t)")
    case True
    then have "GetClient b u ?u = None" using st k by simp
    moreover have "e = c" if "e \<in> watchers ss" "keyOf (sv ss) e = (b, u)"
      using sess_invD(2)[OF inv, of a t e] that True reg by simp
    ultimately show ?thesis using st by auto
  next
    case False
    then show ?thesis using st k sess_invD(2)[OF inv, of b u e] by auto
  qed
  have dn: "\<not> doneSignal (clients ?u e)" if "e \<in> watchers ss - {c}" for e
    using st that inv unfolding sess_inv_def sess_ok_def by simp
  have sub: "GetClient b u ?u = Some e \<Longrightarrow> GetClient b u (sv ss) = Some e" for b u e
    using st by (auto split: if_splits)
  have pn: "x = Some e" if "pending ss (b, u) = Some x" "GetClient b u ?u = Some e" for b u e x
    using that sub[of b u] inv unfolding sess_inv_def sess_ok_def by blast
  have cs: "e \<in> used ss \<and> (e \<in> kicks ss \<or> closeSignal (clients ?u e))"
    if "pending ss (b, u) = Some (Some e)" for b u e
    using that st inv unfolding sess_inv_def sess_ok_def by blast
  have wd: "e \<in> watchers ss - {c} \<or> doneSignal (clients ?u e)" if "e \<in> used ss" for e
    using that st inv unfolding sess_inv_def sess_ok_def by auto
  have sub: "watchers ss - {c} \<subseteq> used ss" "kicks ss \<subseteq> used ss"
    using inv unfolding sess_inv_def sess_ok_def by auto
  have wf': "server_wf ?u" using st by blast
  have "sess_ok ?u (kicks ss) (watchers ss - {c}) (used ss) (pending ss)"
    by (rule sess_okI[OF wf' get dn sub pn cs wd])
  then show ?thesis by (simp add: sess_inv_def)
qed

lemma kick_closes:
  assumes "server_wf s"
  shows "closeSignal (clients (snd (run_state (kickGoroutine srv c) s)) c)"
proof -
  define u where "u = snd (run_state (do {
     now \<leftarrow> timeNow srv;
     BlockingSendPbMsg srv c NetMsgId_S2CLoginSomewhereElse (Acc (S2CLoginSomewhereElse (micros now))) }) s)"
  have "server_wf u" unfolding u_def
    by (rule keepsD[OF inv_server_wf[OF kick_sends] assms])
  then have "closeSignal (clients u c) \<longleftrightarrow> isClosed (clients u c)"
    by (simp add: server_wf_def client_wf_def)
  then show ?thesis unfolding run_kickGoroutine u_def[symmetric] by (simp add: Close_clients)
qed

lemma sess_inv_step: "sess_step srv ss tt \<Longrightarrow> sess_inv ss \<Longrightarrow> sess_inv tt"
proof (induction rule: sess_step.induct)
  case (kick ss a t w)
  then show ?case using sess_inv_kick by blast
next
  case (run_kick c ss)
  have wf: "server_wf (sv ss)" using run_kick.prems by (simp add: sess_inv_def sess_ok_def)
  have "kicks ss - {c} \<subseteq> used ss" using run_kick.prems by (auto simp: sess_inv_def sess_ok_def)
  moreover have "\<forall>d \<in> kicks ss - (kicks ss - {c}). closeSignal (clients (snd (run_state (kickGoroutine srv c) (sv ss))) d)"
    using kick_closes[OF wf] by blast
  ultimately show ?case using sess_invI_same[OF run_kick.prems] kick_step[OF wf, of srv c] by blast
next
  case (enter ss a t w c cl acc now serial)
  then show ?case using sess_inv_enter by blast
next
  case (close c ss)
  have wf: "server_wf (sv ss)" and k: "kicks ss \<subseteq> used ss" using close.prems by (simp_all add: sess_inv_def sess_ok_def)
  show ?case
    using sess_invI_same[OF close.prems Close_step[OF wf] Close_same k] by simp
next
  case (watch c ss)
  then show ?case using sess_inv_watch by blast
next
  case (rest m ss)
  have wf: "server_wf (sv ss)" and k: "kicks ss \<subseteq> used ss" using rest.prems by (simp_all add: sess_inv_def sess_ok_def)
  show ?case
    using sess_invI_same[OF rest.prems keepsD[OF inv_server_wf[OF rest.hyps] wf]
        same_core[OF inv_core[OF rest.hyps wf]] k] by simp
qed

lemma sess_inv_steps: "sess_steps srv ss tt \<Longrightarrow> sess_inv ss \<Longrightarrow> sess_inv tt"
  by (induction rule: sess_steps.induct) (auto intro: sess_inv_step)

text \<open>The state at start-up: nobody is online and nobody is logging in.\<close>

definition sess_init :: "server \<Rightarrow> sess" where
  "sess_init s = \<lparr>sv = s, kicks = {}, watchers = {}, used = {}, pending = (\<lambda>_. None)\<rparr>"

lemma sess_inv_init: "server_wf s \<Longrightarrow> mapOnlineClient s = fmempty \<Longrightarrow> sess_inv (sess_init s)"
  by (simp add: sess_inv_def sess_ok_def sess_init_def GetClient_def)

text \<open>User 1 has logged in on the app.\<close>

lemma demo_login:
  "\<exists>ss. sess_steps demoSvc (sess_init demoServer) ss \<and> watchers ss = {0} \<and> keyOf (sv ss) 0 = (1, 1)
     \<and> GetClient 1 1 (sv ss) = Some 0 \<and> pending ss = (\<lambda>_. None)"
proof -
  define cl where "cl = NewClient demoSvc (demoAccount 1) 0 0 1"
  define s1 where "s1 = (sess_init demoServer)\<lparr>pending := (\<lambda>_. None)((1, 1) := Some None)\<rparr>"
  define s2 where "s2 = s1\<lparr>sv := snd (run_state (enterClient demoSvc 0 True cl) (sv s1)),
      watchers := insert 0 (watchers s1), used := insert 0 (used s1), pending := (pending s1)((1, 1) := None)\<rparr>"
  have "KickClient 1 1 demoServer = None" by (simp add: KickClient_def GetClient_def)
  then have st1: "sess_step demoSvc (sess_init demoServer) s1"
    using sess_step.kick[of "sess_init demoServer" 1 1 None demoSvc] by (simp add: sess_init_def s1_def)
  have st2: "sess_step demoSvc s1 s2" unfolding s2_def
    by (rule sess_step.enter[where w = None and acc = "demoAccount 1" and now = 0 and serial = 0])
      (simp_all add: s1_def sess_init_def cl_def demoAccount_def)
  have steps: "sess_steps demoSvc (sess_init demoServer) s2"
    by (rule sess_steps.more[OF sess_steps.more[OF sess_steps.none st1] st2])
  have w: "watchers s2 = {0}" by (simp add: s2_def s1_def sess_init_def)
  have k: "keyOf (sv s2) 0 = (1, 1) \<and> GetClient 1 1 (sv s2) = Some 0"
    using enterClient_step[where c = 0 and cl = cl and srv = demoSvc, OF demoServer_wf _ _ refl]
      NewClient_wf[of demoSvc "demoAccount 1" 0 0 1]
    by (simp add: s2_def s1_def sess_init_def cl_def NewClient_def demoAccount_def GetClient_def)
  have "pending s2 = (\<lambda>_. None)" by (simp add: s2_def s1_def)
  then show ?thesis using steps w k by blast
qed

section \<open>Properties\<close>





text \<open>
  C19: logins that are not serialised lose a session. Two logins of one user on one terminal
  kick at the same time, find nobody, and store their clients one after the other. When the
  first connection then closes, RemoveClient takes the second client, which is alive, out of
  the registry: it stays connected and no message finds it any more.
\<close>

theorem concurrent_logins_lose_session:
  assumes "server_wf s" and "KickClient a t s = None"
    and "\<And>b u. GetClient b u s \<noteq> Some c \<and> GetClient b u s \<noteq> Some d" and "c \<noteq> d"
    and "ac_AccountId acc = a"
    and s1: "s1 = snd (run_state (enterClient srv c load (NewClient srv acc n i t)) s)"
    and s2: "s2 = snd (run_state (enterClient srv d load (NewClient srv acc n' j t)) s1)"
    and s3: "s3 = snd (run_state (RemoveClient srv c) (snd (run_state (Close srv c) s2)))"
  shows "GetClient a t s2 = Some d \<and> GetClient a t s3 = None
    \<and> keyOf s3 d = (a, t) \<and> \<not> doneSignal (clients s3 d)"
proof -
  have new: "ac_AccountId (account (NewClient srv acc n i t)) = a" "terminalType (NewClient srv acc n i t) = t"
    "\<not> doneSignal (NewClient srv acc n i t)" for n i
    using assms(5) by (simp_all add: NewClient_def)
  note e1 = enterClient_step[OF assms(1) NewClient_wf _ s1, unfolded new]
  have g1: "GetClient b u s1 \<noteq> Some d" for b u using e1 assms(3,4) by auto
  have w1: "server_wf s1" using e1 assms(3) by blast
  note e2 = enterClient_step[OF w1 NewClient_wf g1 s2, unfolded new]
  define u where "u = snd (run_state (Close srv c) s2)"
  have w2: "server_wf u" using e2 Close_step unfolding u_def by blast
  have same: "same u s2" unfolding u_def by (rule Close_same)
  have s3': "s3 = snd (run_state (RemoveClient srv c) u)" by (simp add: s3 u_def)
  note e3 = RemoveClient_step[OF w2 s3']
  have "keyOf s1 c = (a, t)" using e1 assms(3) by auto
  then have kc: "keyOf u c = (a, t)" using e2 assms(4) same by (auto simp: same_def)
  have "GetClient a t s3 = None" using e3 kc by simp
  moreover have "keyOf s3 d = (a, t)" using e3 e2 same by (simp add: same_def)
  moreover have "\<not> doneSignal (clients s3 d)" using e3 e2 same assms(4) new by (simp add: same_def)
  ultimately show ?thesis using e2 by simp
qed

theorem concurrent_logins_lose_session_witness:
  "let s1 = snd (run_state (enterClient demoSvc 0 True (NewClient demoSvc (demoAccount 1) 0 0 1)) demoServer);
       s2 = snd (run_state (enterClient demoSvc 1 True (NewClient demoSvc (demoAccount 1) 0 1 1)) s1);
       s3 = snd (run_state (RemoveClient demoSvc 0) (snd (run_state (Close demoSvc 0) s2)))
   in GetClient 1 1 s2 = Some 1 \<and> GetClient 1 1 s3 = None"
  using concurrent_logins_lose_session[where load = True and srv = demoSvc and a = 1 and t = 1 and c = 0 and d = 1
      and n = 0 and i = 0 and n' = 0 and j = 1 and acc = "demoAccount 1", OF demoServer_wf _ _ _ _ refl refl refl]
  by (simp add: Let_def KickClient_def GetClient_def demoAccount_def)

end
