(* ===== verification/Friends.thy ===== *)
theory Friends
  imports Subscribers
begin

text \<open>
  msg-server/client/friends.go: the handlers for friend requests, deleting friends, the black
  list and remark names. A handler takes the client and the whole packet; the message is
  behind the 8 byte header.
\<close>

section \<open>Requests\<close>

text \<open>
  \<open>requestP dec msg bad good\<close>: slice off the header (a panic when there is none), unmarshal, and go
  on with \<open>bad\<close> or \<open>good\<close>. \<open>request\<close> is for bodies that cannot panic.
\<close>

definition requestP :: "'a decoder \<Rightarrow> string \<Rightarrow> ('a \<Rightarrow> handler) \<Rightarrow> ('a \<Rightarrow> handler) \<Rightarrow> handler" where
  "requestP dec msg bad good =
     (if length msg < PacketHeaderSize then ret Panicked
      else (case dec (drop PacketHeaderSize msg) of (ok, p) \<Rightarrow> if ok then good p else bad p))"

definition request ::
    "'a decoder \<Rightarrow> string \<Rightarrow> ('a \<Rightarrow> (server, unit) state) \<Rightarrow> ('a \<Rightarrow> (server, unit) state) \<Rightarrow> handler" where
  "request dec msg bad good =
     requestP dec msg (\<lambda>p. do { bad p; ret Returned }) (\<lambda>p. do { good p; ret Returned })"

lemma keeps_requestP [keeps_rules]:
  "(\<And>p. keeps I (bad p)) \<Longrightarrow> (\<And>p. keeps I (good p)) \<Longrightarrow> keeps I (requestP dec msg bad good)"
  unfolding requestP_def by (intro keeps_rules)

lemma keeps_request [keeps_rules]:
  "(\<And>p. keeps I (bad p)) \<Longrightarrow> (\<And>p. keeps I (good p)) \<Longrightarrow> keeps I (request dec msg bad good)"
  unfolding request_def by (intro keeps_rules)

section \<open>Friend requests\<close>

definition notifyAddFriend :: "svc \<Rightarrow> nat \<Rightarrow> c2sAddFriend \<Rightarrow> (server, unit) state" where
  "notifyAddFriend srv c reqMsg = do {
     cl \<leftarrow> cli c;
     now \<leftarrow> timeNow srv;
     _ \<leftarrow> mqSendPbMsg srv (af_ReceiverId reqMsg) NetMsgId_MQAddFriend
            (MQ (MQAddFriend reqMsg (ac_NickName (account cl)) (micros now)));
     SendPbMsg srv c NetMsgId_S2CAddFriend
       (Fri (S2CAddFriend (af_SenderId reqMsg) (af_ReceiverId reqMsg) (af_MsgTimestamp reqMsg))) }"

definition C2SAddFriend :: "svc \<Rightarrow> nat \<Rightarrow> string \<Rightarrow> handler" where
  "C2SAddFriend srv c msg =
     request (un_C2SAddFriend srv) msg
       (\<lambda>reqMsg. SendErrorCode srv c MsgErrCode_proto_unmarshal_msg_struct_C2SAddFriend_has_error
          (af_MsgTimestamp reqMsg))
       (\<lambda>reqMsg. do {
          acc \<leftarrow> GetAccountId c;
          (if acc = af_ReceiverId reqMsg then
             SendErrorCode srv c MsgErrCode_agree_become_friend_can_not_be_friend_with_self
               (af_MsgTimestamp reqMsg)
           else do {
             brief \<leftarrow> rdsStr srv (RGet RdsKeyPrefixBriefInfo (itoa (af_ReceiverId reqMsg)));
             (if snd brief \<noteq> None then
                SendErrorCode srv c MsgErrCode_add_friend_param_error (af_MsgTimestamp reqMsg)
              else do {
                isF \<leftarrow> isFriendM c (af_ReceiverId reqMsg);
                (if isF then
                   SendErrorCode srv c MsgErrCode_add_friend_sender_and_recevier_are_friends
                     (af_MsgTimestamp reqMsg)
                 else do {
                   q \<leftarrow> dbScanInt srv
                     (SqlQueryRow ''select id from friend_req where receiver_id = ? and sender_id = ?''
                       [AInt (af_ReceiverId reqMsg), AInt (af_SenderId reqMsg)]);
                   (if snd q = None then notifyAddFriend srv c reqMsg
                    else do {
                      now \<leftarrow> timeNow srv;
                      r \<leftarrow> dbInsert srv (OrmInsert (FriendReq (af_ReceiverId reqMsg) (af_SenderId reqMsg) now));
                      (if snd r \<noteq> None \<or> fst r = 0 then
                         SendErrorCode srv c MsgErrCode_add_friend_mysql_has_error_when_write
                           (af_MsgTimestamp reqMsg)
                       else notifyAddFriend srv c reqMsg) }) }) }) }) })"

text \<open>What happens once the request is known to exist and the two are not friends yet.\<close>

definition becomeFriends :: "svc \<Rightarrow> nat \<Rightarrow> c2sAgreeBecomeFriend \<Rightarrow> (server, unit) state" where
  "becomeFriends srv c reqMsg = do {
     modCli c (BeFriend (ag_SenderId reqMsg));
     SaveContactInfo srv c;
     SaveFriendInfoToRedis srv c;
     cl \<leftarrow> cli c;
     _ \<leftarrow> rdsInt srv (RAddSet RdsKeyPrefixFriendSet (itoa (ag_SenderId reqMsg)) (RStr (strAccount cl)));
     _ \<leftarrow> db srv (OrmDelete (FriendReqKey (ag_ReceiverId reqMsg) (ag_SenderId reqMsg)));
     _ \<leftarrow> mqSendPbMsg srv (ag_SenderId reqMsg) NetMsgId_MQAgreeBecomeFriend
            (MQ (MQAgreeBecomeFriend reqMsg (ac_NickName (account cl))));
     brief \<leftarrow> QueryOtherBriefInfo srv (ag_SenderId reqMsg);
     portrait \<leftarrow> GetUserHeadPortraitUrl srv (ag_SenderId reqMsg);
     let senderName = (case brief of (Some p, None) \<Rightarrow> ub_Nickname p | _ \<Rightarrow> '''');
         pbMsg = Fri (S2CAgreeBecomeFriend (ag_SenderId reqMsg) (ag_MsgTimestamp reqMsg) senderName portrait)
     in do {
     SendPbMsg srv c NetMsgId_S2CAgreeBecomeFriend pbMsg;
     publishPb srv AgreeBecomeFriendEvent c pbMsg } }"

definition C2SAgreeBecomeFriend :: "svc \<Rightarrow> nat \<Rightarrow> string \<Rightarrow> handler" where
  "C2SAgreeBecomeFriend srv c msg =
     request (un_C2SAgreeBecomeFriend srv) msg
       (\<lambda>reqMsg. SendErrorCode srv c MsgErrCode_proto_unmarshal_msg_struct_C2SAgreeBecomeFriend_has_error
          (ag_MsgTimestamp reqMsg))
       (\<lambda>reqMsg. do {
          acc \<leftarrow> GetAccountId c;
          q \<leftarrow> dbScanInt srv
            (SqlQueryRow ''select id from friend_req where receiver_id = ? and sender_id = ?''
              [AInt acc, AInt (ag_SenderId reqMsg)]);
          (case snd q of
             Some err \<Rightarrow>
               SendErrorCode srv c
                 (if err = ErrNoRows
                  then MsgErrCode_agree_become_friend_mysql_table_friend_req_has_no_record
                  else MsgErrCode_agree_become_friend_mysql_table_friend_req_has_read_error)
                 (ag_MsgTimestamp reqMsg)
           | None \<Rightarrow>
               if acc = ag_SenderId reqMsg then
                 SendErrorCode srv c MsgErrCode_agree_become_friend_can_not_be_friend_with_self
                   (ag_MsgTimestamp reqMsg)
               else do {
                 isF \<leftarrow> isFriendM c (ag_SenderId reqMsg);
                 (if isF then
                    SendErrorCode srv c MsgErrCode_agree_become_friend_sender_and_receiver_are_friends
                      (ag_MsgTimestamp reqMsg)
                  else do {
                    now \<leftarrow> timeNow srv;
                    r \<leftarrow> dbInsert srv (OrmInsert (FriendVerification (ag_SenderId reqMsg) acc now));
                    (if snd r \<noteq> None then
                       SendErrorCode srv c MsgErrCode_agree_become_friend_mysql_has_error_when_write
                         (ag_MsgTimestamp reqMsg)
                     else becomeFriends srv c (reqMsg\<lparr>ag_ReceiverId := acc\<rparr>)) }) }) })"

definition C2SReadFriendReq :: "svc \<Rightarrow> nat \<Rightarrow> string \<Rightarrow> handler" where
  "C2SReadFriendReq srv c msg =
     request (un_C2SReadFriendReq srv) msg (\<lambda>_. skip)
       (\<lambda>senderId. do {
          acc \<leftarrow> GetAccountId c;
          _ \<leftarrow> db srv (SqlExec ''delete from friend_req where receiver_id = ? and sender_id = ?''
                 [AInt acc, AInt senderId]);
          let p = Fri (S2CReadFriendReq senderId) in do {
          SendPbMsg srv c NetMsgId_S2CReadFriendReq p;
          publishPb srv ReadFriendReqEvent c p } })"

section \<open>Deleting a friend\<close>

text \<open>After the commit: memory, Redis, the other user, the own terminals.\<close>

definition friendDeleted :: "svc \<Rightarrow> nat \<Rightarrow> int \<Rightarrow> string \<Rightarrow> (server, unit) state" where
  "friendDeleted srv c friendId buf = do {
     modCli c (\<lambda>cl. cl\<lparr>account := (account cl)\<lparr>ac_ContactList := buf\<rparr>\<rparr>);
     cl \<leftarrow> cli c;
     r \<leftarrow> rdsInt srv (RRemSet RdsKeyPrefixFriendSet (strAccount cl) (RStr (itoa friendId)));
     (if snd r \<noteq> None then SendErrorCode srv c MsgErrCode_delete_friend_server_internal_error 0
      else do {
        _ \<leftarrow> mqSendPbMsg srv friendId NetMsgId_MQDeleteFriend (MQ (MQDeleteFriend (ac_AccountId (account cl))));
        let p = Fri (S2CRecvDeleteFriend friendId) in do {
        SendPbMsg srv c NetMsgId_S2CRecvDeleteFriend p;
        publishPb srv DeleteFriendEvent c p } }) }"

text \<open>The transaction after Begin; its result is the code that the deferred rollback looks at.\<close>

definition deleteFriendBody :: "svc \<Rightarrow> nat \<Rightarrow> int \<Rightarrow> (server, int) state" where
  "deleteFriendBody srv c friendId = do {
     modCli c (BeNotFriend friendId);
     buf \<leftarrow> bareContacts srv c;
     acc \<leftarrow> GetAccountId c;
     err \<leftarrow> db srv (TxDBExec ''update account set contact_list = ? where account_id = ?''
             [AStr buf, AInt acc]);
     (if err \<noteq> None then do {
        modCli c (BeFriend friendId);
        ret 1 }
      else do {
        now \<leftarrow> timeNow srv;
        r \<leftarrow> dbInsert srv (TxInsert (FriendDelete acc friendId now));
        (if snd r \<noteq> None then do {
           modCli c (BeFriend friendId);
           ret 2 }
         else do {
           err \<leftarrow> db srv TxCommit;
           (if err \<noteq> None then do {
              modCli c (BeFriend friendId);
              SendErrorCode srv c MsgErrCode_delete_friend_server_internal_error 0;
              ret 3 }
            else do {
              friendDeleted srv c friendId buf;
              ret 0 }) }) }) }"

definition C2SDeleteFriend :: "svc \<Rightarrow> nat \<Rightarrow> string \<Rightarrow> handler" where
  "C2SDeleteFriend srv c msg =
     request (un_FriendId srv) msg
       (\<lambda>_. SendErrorCode srv c MsgErrCode_proto_unmarshal_msg_struct_C2SDeleteFriend_has_error 0)
       (\<lambda>friendId. do {
          isF \<leftarrow> isFriendM c friendId;
          (if \<not> isF then SendErrorCode srv c MsgErrCode_delete_friend_is_not_friend 0
           else do {
             err \<leftarrow> db srv TxBegin;
             (if err \<noteq> None then skip
              else do {
                errCode \<leftarrow> deleteFriendBody srv c friendId;
                whenM (errCode \<noteq> 0) (do { _ \<leftarrow> db srv TxRollback; skip }) });
             _ \<leftarrow> db srv TxClose;
             skip }) })"

definition C2SConfirmDeleteFriend :: "svc \<Rightarrow> nat \<Rightarrow> string \<Rightarrow> handler" where
  "C2SConfirmDeleteFriend srv c msg =
     request (un_FriendId srv) msg
       (\<lambda>_. SendErrorCode srv c MsgErrCode_proto_unmarshal_msg_struct_C2SConfirmDeleteFriend_has_error 0)
       (\<lambda>friendId. do {
          isF \<leftarrow> isFriendM c friendId;
          (if \<not> isF then SendErrorCode srv c MsgErrCode_confirm_friend_is_not_friend 0
           else do {
             sa \<leftarrow> GetStrAccount c;
             _ \<leftarrow> rdsInt srv (RRemSet RdsKeyPrefixFriendSet sa (RStr (itoa friendId)));
             ok \<leftarrow> DeleteFriend srv c friendId;
             whenM ok (let p = Fri (S2CConfirmDeleteFriend friendId) in do {
               SendPbMsg srv c NetMsgId_S2CConfirmDeleteFriend p;
               publishPb srv ConfirmDeleteFriendEvent c p }) }) })"

section \<open>The black list\<close>

text \<open>
  Both directions store the change in memory, Redis and MySQL in this order, and undo the
  earlier ones when a later one fails.
\<close>

definition C2SAddFriendBlackList :: "svc \<Rightarrow> nat \<Rightarrow> string \<Rightarrow> handler" where
  "C2SAddFriendBlackList srv c msg =
     request (un_FriendId srv) msg (\<lambda>_. skip)
       (\<lambda>friendId. do {
          isF \<leftarrow> isFriendM c friendId;
          (if \<not> isF then skip
           else do {
             inB \<leftarrow> isBlackListM c friendId;
             (if inB then SendPbMsg srv c NetMsgId_S2CAddFriendBlackList (Fri (S2CAddBlackList friendId))
              else do {
                modCli c (BeBlackList friendId);
                err \<leftarrow> BeBlackListRds srv c friendId;
                (if err \<noteq> None then modCli c (BeNotBlackList friendId)
                 else do {
                   (bin, ok) \<leftarrow> getBlackListBin srv c;
                   (if \<not> ok then do {
                      modCli c (BeNotBlackList friendId);
                      _ \<leftarrow> BeNotBlackListRds srv c friendId;
                      skip }
                    else do {
                      err \<leftarrow> SaveBlackListDB srv c bin;
                      (if err \<noteq> None then do {
                         modCli c (BeNotBlackList friendId);
                         _ \<leftarrow> BeNotBlackListRds srv c friendId;
                         skip }
                       else do {
                         UpdateBlackListInfoInMemory srv c;
                         let p = Fri (S2CAddBlackList friendId) in do {
                         SendPbMsg srv c NetMsgId_S2CAddFriendBlackList p;
                         publishPb srv C2SAddFriendBlackListEvent c p } }) }) }) }) }) })"

definition C2SMoveOutFriendBlackList :: "svc \<Rightarrow> nat \<Rightarrow> string \<Rightarrow> handler" where
  "C2SMoveOutFriendBlackList srv c msg =
     request (un_FriendId srv) msg (\<lambda>_. skip)
       (\<lambda>friendId. do {
          isF \<leftarrow> isFriendM c friendId;
          (if \<not> isF then skip
           else do {
             inB \<leftarrow> isBlackListM c friendId;
             (if \<not> inB then
                SendPbMsg srv c NetMsgId_S2CMoveOutFriendBlackList (Fri (S2CMoveOutFriendBlackList friendId))
              else do {
                modCli c (BeNotBlackList friendId);
                err \<leftarrow> BeNotBlackListRds srv c friendId;
                (if err \<noteq> None then modCli c (BeBlackList friendId)
                 else do {
                   (bin, ok) \<leftarrow> getBlackListBin srv c;
                   (if \<not> ok then do {
                      modCli c (BeBlackList friendId);
                      _ \<leftarrow> BeBlackListRds srv c friendId;
                      skip }
                    else do {
                      err \<leftarrow> SaveBlackListDB srv c bin;
                      (if err \<noteq> None then do {
                         modCli c (BeBlackList friendId);
                         _ \<leftarrow> BeBlackListRds srv c friendId;
                         skip }
                       else do {
                         UpdateBlackListInfoInMemory srv c;
                         let p = Fri (S2CMoveOutFriendBlackList friendId) in do {
                         SendPbMsg srv c NetMsgId_S2CMoveOutFriendBlackList p;
                         publishPb srv S2CMoveOutFriendBlackListEvent c p } }) }) }) }) }) })"

definition C2SGetFriendBlackList :: "svc \<Rightarrow> nat \<Rightarrow> string \<Rightarrow> handler" where
  "C2SGetFriendBlackList srv c msg =
     request (un_C2SGetFriendBlackList srv) msg (\<lambda>_. skip)
       (\<lambda>_. do {
          ids \<leftarrow> GetBlackListIds srv c;
          SendPbMsg srv c NetMsgId_S2CGetFriendBlackList (Fri (S2CGetFriendBlackList ids ''Success'')) })"

section \<open>Remark names\<close>

definition C2SSetFriendRemarkName :: "svc \<Rightarrow> nat \<Rightarrow> string \<Rightarrow> handler" where
  "C2SSetFriendRemarkName srv c msg =
     request (un_C2SSetFriendRemarkName srv) msg
       (\<lambda>_. SendErrorCode srv c MsgErrCode_proto_unmarshal_msg_struct_C2SSetFriendRemarkName_has_error 0)
       (\<lambda>r. do {
          isF \<leftarrow> isFriendM c (sr_FriendId r);
          (if \<not> isF then
             SendErrorCode srv c MsgErrCode_set_friend_remark_name_is_not_friend 0
           else if sr_FriendRemarkName r = '''' then
             SendErrorCode srv c MsgErrCode_set_friend_remark_name_remark_name_is_empty 0
           else do {
             modCli c (SetFriendRemarkName (sr_FriendId r) (sr_FriendRemarkName r));
             SaveContactInfo srv c;
             SaveFriendInfoToRedis srv c;
             let p = Fri (S2CSetFriendRemarkName (sr_FriendId r) (sr_FriendRemarkName r)) in do {
             SendPbMsg srv c NetMsgId_S2CSetFriendRemarkName p;
             publishPb srv S2CSetFriendRemarkNameEvent c p } }) })"

lemmas friends_defs = notifyAddFriend_def C2SAddFriend_def becomeFriends_def C2SAgreeBecomeFriend_def
  C2SReadFriendReq_def friendDeleted_def deleteFriendBody_def C2SDeleteFriend_def
  C2SConfirmDeleteFriend_def C2SAddFriendBlackList_def C2SMoveOutFriendBlackList_def
  C2SGetFriendBlackList_def C2SSetFriendRemarkName_def

section \<open>The process invariant\<close>

lemma keeps_wf_friends [keeps_rules]:
  "keeps (inv X) (C2SAddFriend srv c msg)"
  "keeps (inv X) (C2SAgreeBecomeFriend srv c msg)"
  "keeps (inv X) (C2SReadFriendReq srv c msg)"
  "keeps (inv X) (C2SDeleteFriend srv c msg)"
  "keeps (inv X) (C2SConfirmDeleteFriend srv c msg)"
  "keeps (inv X) (C2SAddFriendBlackList srv c msg)"
  "keeps (inv X) (C2SMoveOutFriendBlackList srv c msg)"
  "keeps (inv X) (C2SGetFriendBlackList srv c msg)"
  "keeps (inv X) (C2SSetFriendRemarkName srv c msg)"
  unfolding friends_defs Let_def by (intro keeps_rules)+

end
