(* ===== verification/GroupStore.thy ===== *)
theory GroupStore
  imports Friends "HOL-Library.Word"
begin

text \<open>
  The storage helpers of msg-server/client/chatGroup.go: a group's information and its members in
  Redis and MySQL, the log tables, and the checksum that becomes a group's id.
\<close>

section \<open>hash/crc32\<close>

text \<open>ChecksumIEEE of Go's standard library, bit by bit.\<close>

definition crc_bit :: "32 word \<Rightarrow> 32 word" where
  "crc_bit w = (if bit w 0 then drop_bit 1 w XOR 0xEDB88320 else drop_bit 1 w)"

definition crc_byte :: "32 word \<Rightarrow> char \<Rightarrow> 32 word" where
  "crc_byte w ch = (crc_bit ^^ 8) (w XOR word_of_nat (of_char ch))"

definition ChecksumIEEE :: "string \<Rightarrow> 32 word" where
  "ChecksumIEEE s = NOT (foldl crc_byte (NOT 0) s)"

section \<open>Redis\<close>

definition hashKey :: "int \<Rightarrow> string" where
  "hashKey groupId = ''hash:'' @ itoa groupId"

text \<open>HGETALL answers keys and values in turn; the handlers skip the odd or the even indices.\<close>

fun hashKeys :: "'a list \<Rightarrow> 'a list" where
  "hashKeys (k # v # r) = k # hashKeys r"
| "hashKeys r = r"

fun hashValues :: "'a list \<Rightarrow> 'a list" where
  "hashValues (k # v # r) = v # hashValues r"
| "hashValues r = []"

definition memberIds :: "string list option \<Rightarrow> int list" where
  "memberIds l = map (fst \<circ> ParseInt) (hashKeys (case l of Some xs \<Rightarrow> xs | None \<Rightarrow> []))"

definition InsertIntoRedisChatGroupInfo :: "svc \<Rightarrow> chatGroup \<Rightarrow> (server, unit) state" where
  "InsertIntoRedisChatGroupInfo srv g = do {
     _ \<leftarrow> rdsStatus srv (RSet RdsKeyPrefixChatGroupInfo (itoa (cg_ChatGroupId g))
            (RStr (case marshal srv (Sto (PB_ChatGroup g)) of Some b \<Rightarrow> b | None \<Rightarrow> '''')));
     skip }"

definition GetChatGroupInfoFromRedis :: "svc \<Rightarrow> int \<Rightarrow> (server, chatGroup option) state" where
  "GetChatGroupInfoFromRedis srv groupId = do {
     r \<leftarrow> rdsStr srv (RGet RdsKeyPrefixChatGroupInfo (itoa groupId));
     (case r of
        (_, Some _) \<Rightarrow> ret None
      | (info, None) \<Rightarrow> (case un_ChatGroup srv info of (ok, g) \<Rightarrow> ret (if ok then Some g else None))) }"

definition InsertIntoRedisGroupMembers ::
    "svc \<Rightarrow> int \<Rightarrow> (string, string) fmap \<Rightarrow> (server, goerr option) state" where
  "InsertIntoRedisGroupMembers srv groupId infos =
     rdsStatus srv (RHMSet RdsKeyPrefixGroupChatRecord (hashKey groupId) infos)"

definition GetChatGroupMember :: "svc \<Rightarrow> int \<Rightarrow> int \<Rightarrow> (server, chatGroupMemberRds option) state" where
  "GetChatGroupMember srv groupId userId = do {
     r \<leftarrow> rdsStr srv (RHGet RdsKeyPrefixGroupChatRecord (hashKey groupId) (itoa userId));
     (case r of
        (_, Some _) \<Rightarrow> ret None
      | (field, None) \<Rightarrow> ret (unjson_Member srv field)) }"

definition GetRedisGroupMembers :: "svc \<Rightarrow> int \<Rightarrow> (server, string list option \<times> goerr option) state" where
  "GetRedisGroupMembers srv groupId = rdsList srv (RHGetAll RdsKeyPrefixGroupChatRecord (hashKey groupId))"

definition RemoveUserFromRedisGroupMember :: "svc \<Rightarrow> int \<Rightarrow> int \<Rightarrow> (server, bool) state" where
  "RemoveUserFromRedisGroupMember srv userId groupId = do {
     r \<leftarrow> rdsInt srv (RHDel RdsKeyPrefixGroupChatRecord (hashKey groupId) [itoa userId]);
     ret (snd r = None \<and> fst r = 1) }"

definition RemoveAllUserFromRedisGroupMember :: "svc \<Rightarrow> int \<Rightarrow> (server, bool) state" where
  "RemoveAllUserFromRedisGroupMember srv groupId = do {
     r \<leftarrow> rdsInt srv (RDel RdsKeyPrefixGroupChatRecord (hashKey groupId));
     ret (snd r = None) }"

section \<open>MySQL\<close>

definition RemoveUserFromDBGroupMember :: "svc \<Rightarrow> int \<Rightarrow> int \<Rightarrow> (server, bool) state" where
  "RemoveUserFromDBGroupMember srv userId groupId = do {
     err \<leftarrow> db srv (SqlExec ''DELETE FROM chat_group_member WHERE account_id = ? and chat_group_id = ?''
             [AInt userId, AInt groupId]);
     ret (err = None) }"

definition RemoveDBChatGroup :: "svc \<Rightarrow> int \<Rightarrow> (server, bool) state" where
  "RemoveDBChatGroup srv groupId = do {
     err \<leftarrow> db srv (SqlExec ''DELETE FROM chat_group WHERE chat_group_id = ?'' [AInt groupId]);
     ret (err = None) }"

definition RemoveAllUserFromDB :: "svc \<Rightarrow> int \<Rightarrow> (server, bool) state" where
  "RemoveAllUserFromDB srv groupId = do {
     err \<leftarrow> db srv (SqlExec ''DELETE FROM chat_group_member WHERE chat_group_id = ?'' [AInt groupId]);
     ret (err = None) }"

definition RecordDestroyChatGroup :: "svc \<Rightarrow> chatGroup \<Rightarrow> (server, bool) state" where
  "RecordDestroyChatGroup srv g = do {
     now \<leftarrow> timeNow srv;
     r \<leftarrow> dbInsert srv (OrmInsert (ChatGroupDestroyLog (cg_ChatGroupId g) (cg_Creator g) now));
     ret (snd r = None \<and> fst r = 1) }"

definition GROUP_OWNER_UN_CHAT_GROUP :: int where "GROUP_OWNER_UN_CHAT_GROUP = 0"
definition GROUP_MEMBER_QUIT_CHAT_GROUP :: int where "GROUP_MEMBER_QUIT_CHAT_GROUP = 1"
definition GROUP_OWNER_KICK_GROUP_MEMBER :: int where "GROUP_OWNER_KICK_GROUP_MEMBER = 2"

definition RecordChatGroupMemberQuitLog :: "svc \<Rightarrow> int \<Rightarrow> int \<Rightarrow> int \<Rightarrow> int \<Rightarrow> (server, unit) state" where
  "RecordChatGroupMemberQuitLog srv chatGroupId memberId ownerId flag = do {
     now \<leftarrow> timeNow srv;
     _ \<leftarrow> dbInsert srv (OrmInsert (ChatGroupMemberQuitLog chatGroupId ownerId memberId now flag));
     skip }"

text \<open>\<open>orm.Where("chat_group_id = ?", id).Get\<close>\<close>

definition ormGetGroup :: "svc \<Rightarrow> int \<Rightarrow> (server, chatGroup option) state" where
  "ormGetGroup srv groupId = do {
     r \<leftarrow> dbGetGroup srv (OrmGet ''chat_group_id = ?'' [AInt groupId]);
     ret (if snd r = None then fst r else None) }"

lemmas group_store_defs = InsertIntoRedisChatGroupInfo_def GetChatGroupInfoFromRedis_def
  InsertIntoRedisGroupMembers_def GetChatGroupMember_def GetRedisGroupMembers_def
  RemoveUserFromRedisGroupMember_def RemoveAllUserFromRedisGroupMember_def
  RemoveUserFromDBGroupMember_def RemoveDBChatGroup_def RemoveAllUserFromDB_def
  RecordDestroyChatGroup_def RecordChatGroupMemberQuitLog_def ormGetGroup_def

lemma keeps_wf_group_store [keeps_rules]:
  "keeps (inv X) (InsertIntoRedisChatGroupInfo srv g)"
  "keeps (inv X) (GetChatGroupInfoFromRedis srv i)"
  "keeps (inv X) (InsertIntoRedisGroupMembers srv i m)"
  "keeps (inv X) (GetChatGroupMember srv i u)"
  "keeps (inv X) (GetRedisGroupMembers srv i)"
  "keeps (inv X) (RemoveUserFromRedisGroupMember srv u i)"
  "keeps (inv X) (RemoveAllUserFromRedisGroupMember srv i)"
  "keeps (inv X) (RemoveUserFromDBGroupMember srv u i)"
  "keeps (inv X) (RemoveDBChatGroup srv i)"
  "keeps (inv X) (RemoveAllUserFromDB srv i)"
  "keeps (inv X) (RecordDestroyChatGroup srv g)"
  "keeps (inv X) (RecordChatGroupMemberQuitLog srv i u v f)"
  "keeps (inv X) (ormGetGroup srv i)"
  unfolding group_store_defs by (intro keeps_rules)+

lemma crc_steps: "(crc_bit ^^ 8) w =
    crc_bit (crc_bit (crc_bit (crc_bit (crc_bit (crc_bit (crc_bit (crc_bit w)))))))"
  by (simp add: eval_nat_numeral)

text \<open>The check value of the polynomial.\<close>

lemma crc32_check: "ChecksumIEEE ''123456789'' = 0xCBF43926"
  by (simp add: ChecksumIEEE_def crc_byte_def crc_steps crc_bit_def)

end
