(* ===== verification/WeiboRds.thy ===== *)
theory WeiboRds
  imports FriendOps "HOL-Library.List_Lexorder" "HOL-Library.Char_ord"
begin

text \<open>
  Who may see whose weibo, as stored in Redis: the helpers of
  msg-server/client/weiboAllowQuery.go, and reading a user's weibos (getSomeoneWeiboRds of
  weibo.go).
\<close>

section \<open>Permissions\<close>

definition ALLOW_STRANGERS_LOOK_WEIBO :: string where
  "ALLOW_STRANGERS_LOOK_WEIBO = ''allow_strangers_look_weibo''"

definition FRIEND_LOOK_THREE_DAYS :: int where "FRIEND_LOOK_THREE_DAYS = 60 * 60 * 24 * 3"
definition FRIEND_LOOK_ONE_MONTH :: int where "FRIEND_LOOK_ONE_MONTH = 60 * 60 * 24 * 30"
definition FRIEND_LOOK_HALF_YEAR :: int where "FRIEND_LOOK_HALF_YEAR = 60 * 60 * 24 * 180"

definition FriendLookWeiboStrategy_undefined :: int where "FriendLookWeiboStrategy_undefined = 0"
definition FriendLookWeiboStrategy_halfYear :: int where "FriendLookWeiboStrategy_halfYear = 1"
definition FriendLookWeiboStrategy_oneMonth :: int where "FriendLookWeiboStrategy_oneMonth = 2"
definition FriendLookWeiboStrategy_threeDays :: int where "FriendLookWeiboStrategy_threeDays = 3"

definition DoesLookFriendWeiboRds :: "svc \<Rightarrow> int \<Rightarrow> int \<Rightarrow> (server, bool) state" where
  "DoesLookFriendWeiboRds srv lookerId friendId = do {
     r \<leftarrow> rdsInt srv (RIsSetMember RdsKeyPrefixDontLookFriendWeiboSet (itoa lookerId) (RStr (itoa friendId)));
     ret (snd r = None \<and> fst r = 0) }"

definition DoesAllowFriendLookMyWeiboRds :: "svc \<Rightarrow> int \<Rightarrow> int \<Rightarrow> (server, bool) state" where
  "DoesAllowFriendLookMyWeiboRds srv weiboPublisherId lookerId = do {
     r \<leftarrow> rdsInt srv (RIsSetMember RdsKeyPrefixForbiddenFriendLookWeiboSet
            (itoa weiboPublisherId) (RStr (itoa lookerId)));
     ret (snd r = None \<and> fst r = 0) }"

definition DoesAllowStrangerLookWeibo :: "svc \<Rightarrow> int \<Rightarrow> (server, bool) state" where
  "DoesAllowStrangerLookWeibo srv userId = do {
     r \<leftarrow> rdsInt srv (RIsSetMember RdsKeyPrefixAllowStragerLookWeiboSet
            ALLOW_STRANGERS_LOOK_WEIBO (RStr (itoa userId)));
     ret (snd r = None \<and> fst r = 0) }"

text \<open>The enumeration is an int32: the conversion of the parsed number wraps.\<close>

definition wrap32 :: "int \<Rightarrow> int" where
  "wrap32 i = (i + 2 ^ 31) mod 2 ^ 32 - 2 ^ 31"

definition GetFriendLookStrategy :: "svc \<Rightarrow> int \<Rightarrow> (server, int \<times> int \<times> goerr option) state" where
  "GetFriendLookStrategy srv weiboPublisherId = do {
     r \<leftarrow> rdsStr srv (RGet RdsKeyPrefixAllowFriendLookWeiboString (itoa weiboPublisherId));
     (case r of
        (_, Some err) \<Rightarrow> ret (FriendLookWeiboStrategy_undefined, 0, Some err)
      | (strategyStr, None) \<Rightarrow>
          (case ParseInt strategyStr of
             (n, ok) \<Rightarrow>
               if \<not> ok then ret (FriendLookWeiboStrategy_undefined, 0, Some (Err ''strconv''))
               else let strategy = wrap32 n in
                 if strategy = FriendLookWeiboStrategy_undefined then ret (strategy, 0, None)
                 else if strategy = FriendLookWeiboStrategy_halfYear then
                   ret (strategy, FRIEND_LOOK_HALF_YEAR, None)
                 else if strategy = FriendLookWeiboStrategy_oneMonth then
                   ret (strategy, FRIEND_LOOK_ONE_MONTH, None)
                 else if strategy = FriendLookWeiboStrategy_threeDays then
                   ret (strategy, FRIEND_LOOK_THREE_DAYS, None)
                 else ret (FriendLookWeiboStrategy_undefined, 0, None))) }"

section \<open>A user's weibos\<close>

text \<open>
  The loop over the sorted ids: \<open>n\<close> is the number of weibos that are still wanted.
\<close>

fun takeWeibos :: "svc \<Rightarrow> string \<Rightarrow> int \<Rightarrow> int \<Rightarrow> nat \<Rightarrow> string list \<Rightarrow> (server, string list) state" where
  "takeWeibos srv pub lastTs allow n [] = ret []"
| "takeWeibos srv pub lastTs allow n (w # ws) =
     (if lastTs \<noteq> 0 \<and> fst (ParseInt w) > wrap64 (lastTs - allow) then takeWeibos srv pub lastTs allow n ws
      else do {
        r \<leftarrow> rdsStr srv (RGet RdsKeyPrefixWeiboString (pub @ '':'' @ w));
        (case r of
           (_, Some _) \<Rightarrow> takeWeibos srv pub lastTs allow n ws
         | (weiboStr, None) \<Rightarrow>
             if n = 1 then ret [weiboStr]
             else do { rest \<leftarrow> takeWeibos srv pub lastTs allow (n - 1) ws; ret (weiboStr # rest) }) })"

text \<open>
  The checks before the loop: what to return early (no weibos), or the number wanted, the
  strategy and its time.
\<close>

definition weiboLimits :: "svc \<Rightarrow> nat \<Rightarrow> int \<Rightarrow>
    (server, (int \<times> goerr option) + (nat \<times> int \<times> int)) state" where
  "weiboLimits srv c pubId = do {
     acc \<leftarrow> GetAccountId c;
     sa \<leftarrow> GetStrAccount c;
     isF \<leftarrow> isFriendM c pubId;
     (if acc = pubId then ret (Inr (12, FriendLookWeiboStrategy_undefined, 0))
      else if isF then do {
        r \<leftarrow> rdsInt srv (RIsSetMember RdsKeyPrefixBlackListSet (itoa pubId) (RStr sa));
        (case r of
           (_, Some err) \<Rightarrow> ret (Inl (FriendLookWeiboStrategy_undefined, Some err))
         | (num, None) \<Rightarrow>
             if num = 1 then ret (Inl (FriendLookWeiboStrategy_undefined, None))
             else do {
               allowed \<leftarrow> DoesAllowFriendLookMyWeiboRds srv pubId acc;
               (if \<not> allowed then ret (Inl (FriendLookWeiboStrategy_undefined, None))
                else do {
                  (strategy, allow, err) \<leftarrow> GetFriendLookStrategy srv pubId;
                  (if err \<noteq> None \<and> err \<noteq> Some ErrNil then ret (Inl (strategy, err))
                   else ret (Inr (12, strategy, allow))) }) }) }
      else do {
        allowed \<leftarrow> DoesAllowStrangerLookWeibo srv pubId;
        (if \<not> allowed then ret (Inl (FriendLookWeiboStrategy_undefined, None))
         else ret (Inr (10, FriendLookWeiboStrategy_undefined, 0))) }) }"

definition getSomeoneWeiboRds :: "svc \<Rightarrow> nat \<Rightarrow> int \<Rightarrow> int \<Rightarrow> int \<Rightarrow>
    (server, string list \<times> int \<times> goerr option) state" where
  "getSomeoneWeiboRds srv c pubId cur lastTs = do {
     l \<leftarrow> weiboLimits srv c pubId;
     (case l of
        Inl (strategy, err) \<Rightarrow> ret ([], strategy, err)
      | Inr (weiboNum, strategy, allow) \<Rightarrow> do {
          r \<leftarrow> rdsList srv (RSetMembers RdsKeyPrefixWeiboSet (itoa pubId));
          (case r of
             (_, Some err) \<Rightarrow> ret ([], strategy, Some err)
           | (inters, None) \<Rightarrow> do {
               let ids = filter (\<lambda>w. cur < fst (ParseInt w))
                           (case inters of Some l \<Rightarrow> l | None \<Rightarrow> []) in do {
               weiboBins \<leftarrow> takeWeibos srv (itoa pubId) lastTs allow weiboNum (rev (sort ids));
               ret (weiboBins, strategy, None) } }) }) }"

lemma keeps_wf_takeWeibos [keeps_rules]: "keeps (inv X) (takeWeibos srv pub l a n ws)"
  by (induction ws arbitrary: n) (auto intro!: keeps_rules)

lemma keeps_wf_weibo_reads [keeps_rules]:
  "keeps (inv X) (DoesLookFriendWeiboRds srv u v)"
  "keeps (inv X) (DoesAllowFriendLookMyWeiboRds srv u v)"
  "keeps (inv X) (DoesAllowStrangerLookWeibo srv u)"
  "keeps (inv X) (GetFriendLookStrategy srv u)"
  unfolding DoesLookFriendWeiboRds_def DoesAllowFriendLookMyWeiboRds_def
    DoesAllowStrangerLookWeibo_def GetFriendLookStrategy_def Let_def
  by (intro keeps_rules)+

lemma keeps_wf_getSomeoneWeiboRds [keeps_rules]: "keeps (inv X) (getSomeoneWeiboRds srv c u a b)"
  unfolding getSomeoneWeiboRds_def weiboLimits_def Let_def by (intro keeps_rules)

end
