(* ===== verification/Account.thy ===== *)
theory Account
  imports Friends WeiboRds
begin

text \<open>
  msg-server/client/account.go and rename.go: heartbeat, device registration, user name,
  search, head portrait, password and renaming.
\<close>

section \<open>Small requests\<close>

definition C2SHeartbeat :: "svc \<Rightarrow> nat \<Rightarrow> string \<Rightarrow> handler" where
  "C2SHeartbeat srv c msg =
     request (un_C2SHeartbeat srv) msg (\<lambda>_. skip)
       (\<lambda>ts. do {
          SetClientOnlineExpire srv c;
          SendPbMsg srv c NetMsgId_S2CHeartbeat (Acc (S2CHeartbeat ts)) })"

definition C2SChangePassword :: "svc \<Rightarrow> nat \<Rightarrow> string \<Rightarrow> handler" where
  "C2SChangePassword srv c msg =
     request (un_OneString srv) msg
       (\<lambda>_. SendErrorCode srv c MsgErrCode_proto_unmarshal_msg_struct_C2SChangePassword_has_error 0)
       (\<lambda>pwd.
          if pwd = '''' then SendErrorCode srv c MsgErrCode_change_password_new_password_is_empty 0
          else do {
            acc \<leftarrow> GetAccountId c;
            err \<leftarrow> db srv (SqlExec ''UPDATE account SET pwd = ? WHERE account_id = ?'' [AStr pwd, AInt acc]);
            (if err \<noteq> None then SendErrorCode srv c MsgErrCode_change_password_save_into_mysql_error 0
             else SendPbMsg srv c NetMsgId_S2CChangePassword (Acc (S2CChangePassword ''Success''))) })"

section \<open>Push registration\<close>

text \<open>What is stored for a device that passed the checks.\<close>

definition saveDevice :: "svc \<Rightarrow> nat \<Rightarrow> deviceInfo \<Rightarrow> (server, unit) state" where
  "saveDevice srv c d =
     (case marshal srv (Sto (PB_DeviceInfo d)) of
        None \<Rightarrow> SendErrorCode srv c
                  MsgErrCode_device_info_device_proto_marshal_msg_struct_DeviceInfo_has_error 0
      | Some deviceBytes \<Rightarrow> do {
          old \<leftarrow> rdsStr srv (RGet RdsKeyPrefixPushInfo (di_DeviceInfo d));
          whenM (snd old = None) (do { _ \<leftarrow> rdsInt srv (RDel RdsKeyPrefixPushInfo (fst old)); skip });
          sa \<leftarrow> GetStrAccount c;
          err \<leftarrow> rdsStatus srv (RSet RdsKeyPrefixPushInfo sa (RStr deviceBytes));
          (if err \<noteq> None then
             SendErrorCode srv c MsgErrCode_device_info_account_device_info_save_into_redis_failed 0
           else do {
             err \<leftarrow> rdsStatus srv (RSet RdsKeyPrefixPushInfo (di_DeviceInfo d) (RStr sa));
             (if err \<noteq> None then
                SendErrorCode srv c MsgErrCode_device_info_device_info_account_save_into_redis_failed 0
              else do {
                acc \<leftarrow> GetAccountId c;
                err \<leftarrow> db srv (SqlExec ''UPDATE account SET device_producter = ?, device_info = ? WHERE account_id = ?''
                        [AStr (di_DeviceProducter d), AStr (di_DeviceInfo d), AInt acc]);
                (if err \<noteq> None then SendErrorCode srv c MsgErrCode_device_info_save_into_mysql_failed 0
                 else SendPbMsg srv c NetMsgId_S2CDeviceInfo (Acc (S2CDeviceInfo ''Success''))) }) }) })"

definition C2SDeviceInfo :: "svc \<Rightarrow> nat \<Rightarrow> string \<Rightarrow> handler" where
  "C2SDeviceInfo srv c msg =
     requestP (un_C2SDeviceInfo srv) msg
       (\<lambda>_. do {
          SendErrorCode srv c MsgErrCode_proto_unmarshal_msg_struct_C2SDeviceInfo_has_error 0;
          ret Returned })
       (\<lambda>p. case p of
          None \<Rightarrow> ret Panicked
        | Some d \<Rightarrow> do {
            (if di_DeviceInfo d = '''' then
               SendErrorCode srv c MsgErrCode_device_info_device_info_is_empty 0
             else if di_DeviceProducter d = '''' then
               SendErrorCode srv c MsgErrCode_device_info_device_producter_is_empty 0
             else saveDevice srv c d);
            ret Returned })"

definition GetUserPushInfo :: "svc \<Rightarrow> int \<Rightarrow> (server, deviceInfo option) state" where
  "GetUserPushInfo srv userId = do {
     r \<leftarrow> rdsStr srv (RGet RdsKeyPrefixPushInfo (itoa userId));
     (case r of
        (_, Some _) \<Rightarrow> ret None
      | (str, None) \<Rightarrow> (case un_DeviceInfo srv str of (ok, d) \<Rightarrow> ret (if ok then Some d else None))) }"

section \<open>User name and head portrait\<close>

definition C2SSetUserName :: "svc \<Rightarrow> nat \<Rightarrow> string \<Rightarrow> handler" where
  "C2SSetUserName srv c msg =
     request (un_OneString srv) msg
       (\<lambda>_. SendErrorCode srv c MsgErrCode_proto_unmarshal_set_user_name_has_error 0)
       (\<lambda>name. do {
          cl \<leftarrow> cli c;
          (if name = '''' then SendErrorCode srv c MsgErrCode_device_info_device_info_is_empty 0
           else if ac_UserName (account cl) \<noteq> '''' then
             SendErrorCode srv c MsgErrCode_device_info_device_info_is_empty 0
           else do {
             used \<leftarrow> rdsBool srv (RExists RdsKeyPrefixUserNameInfo name);
             (if used then SendErrorCode srv c MsgErrCode_set_user_name_user_name_is_exist 0
              else do {
                SaveUsrBriefInfoToRedis srv c;
                err \<leftarrow> rdsStatus srv (RSet RdsKeyPrefixUserNameInfo name (RStr (strAccount cl)));
                (if err \<noteq> None then SendErrorCode srv c MsgErrCode_set_user_name_save_into_redis_failed 0
                 else do {
                   err \<leftarrow> db srv (SqlExec ''UPDATE account SET user_name = ? WHERE account_id = ?''
                           [AStr name, AInt (ac_AccountId (account cl))]);
                   (if err \<noteq> None then SendErrorCode srv c MsgErrCode_set_user_name_save_into_mysql_failed 0
                    else SendPbMsg srv c NetMsgId_S2CSetUserName (Acc (S2CSetUserName ''Success''))) }) }) }) })"

definition setUserHeadPortraitUrlRds :: "svc \<Rightarrow> nat \<Rightarrow> string \<Rightarrow> (server, goerr option) state" where
  "setUserHeadPortraitUrlRds srv c url = do {
     SaveUsrBriefInfoToRedis srv c;
     sa \<leftarrow> GetStrAccount c;
     rdsStatus srv (RSet RdsKeyPrefixHeadPortraitUrl sa (RStr url)) }"

definition setUserHeadPortraitUrlDB :: "svc \<Rightarrow> nat \<Rightarrow> string \<Rightarrow> (server, goerr option) state" where
  "setUserHeadPortraitUrlDB srv c url = do {
     acc \<leftarrow> GetAccountId c;
     db srv (SqlExec ''UPDATE account SET head_portrait = ? WHERE account_id = ?'' [AStr url, AInt acc]) }"

definition C2SSetHeadPortrait :: "svc \<Rightarrow> nat \<Rightarrow> string \<Rightarrow> handler" where
  "C2SSetHeadPortrait srv c msg =
     request (un_OneString srv) msg
       (\<lambda>_. SendErrorCode srv c MsgErrCode_proto_unmarshal_set_head_portrait_has_error 0)
       (\<lambda>url.
          if url = '''' then SendErrorCode srv c MsgErrCode_set_head_portrait_head_portrait_url_is_empty 0
          else do {
            modCli c (\<lambda>cl. cl\<lparr>account := (account cl)\<lparr>ac_HeadPortrait := url\<rparr>\<rparr>);
            err \<leftarrow> setUserHeadPortraitUrlRds srv c url;
            (if err \<noteq> None then
               SendErrorCode srv c MsgErrCode_set_head_save_head_portrait_url_into_redis_failed 0
             else do {
               err \<leftarrow> setUserHeadPortraitUrlDB srv c url;
               (if err \<noteq> None then
                  SendErrorCode srv c MsgErrCode_set_head_save_head_portrait_url_into_mysql_failed 0
                else SendPbMsg srv c NetMsgId_S2CSetHeadPortrait (Acc (S2CSetHeadPortrait ''Success''))) }) })"

text \<open>
  The new name goes into the Redis hash of every group the user is in; a group whose entry
  cannot be read, decoded or coded is left out.
\<close>

definition renameInGroup :: "svc \<Rightarrow> nat \<Rightarrow> string \<Rightarrow> int \<Rightarrow> (server, unit) state" where
  "renameInGroup srv c newname g = do {
     sa \<leftarrow> GetStrAccount c;
     r \<leftarrow> rdsStr srv (RHGet RdsKeyPrefixGroupChatRecord (''hash:'' @ itoa g) sa);
     (case r of
        (_, Some _) \<Rightarrow> skip
      | (info, None) \<Rightarrow>
          (case unjson_Member srv info of
             None \<Rightarrow> skip
           | Some m \<Rightarrow>
               (case json_Member srv (m\<lparr>cm_UserNickName := newname\<rparr>) of
                  None \<Rightarrow> skip
                | Some bytes \<Rightarrow> do {
                    _ \<leftarrow> rdsInt srv (RHSet RdsKeyPrefixGroupChatRecord (''hash:'' @ itoa g) sa (RStr bytes));
                    skip }))) }"

definition C2SRename :: "svc \<Rightarrow> nat \<Rightarrow> string \<Rightarrow> handler" where
  "C2SRename srv c msg =
     request (un_OneString srv) msg (\<lambda>_. skip)
       (\<lambda>newname. do {
          cl \<leftarrow> cli c;
          whenM (ac_NickName (account cl) \<noteq> newname \<and> newname \<noteq> '''') (do {
            modCli c (SetName newname);
            SaveUsrBriefInfoToRedis srv c;
            _ \<leftarrow> rdsStatus srv (RSet RdsKeyPrefixUserNameInfo (strAccount cl) (RStr newname));
            ids \<leftarrow> GetChatGroupIds srv c;
            forM ids (renameInGroup srv c newname) });
          SendPbMsg srv c NetMsgId_S2CRename (Acc (S2CRename newname)) })"

section \<open>Searching for a user\<close>

definition accountBrief :: "svc \<Rightarrow> account \<Rightarrow> (server, userBriefInfo) state" where
  "accountBrief srv a = do {
     url \<leftarrow> GetUserHeadPortraitUrl srv (ac_AccountId a);
     ret \<lparr>ub_AccountId = ac_AccountId a, ub_Nickname = ac_NickName a, ub_UserName = ac_UserName a,
          ub_HeadPortrait = url, ub_Signature = ''''\<rparr> }"

definition accountFromDB :: "svc \<Rightarrow> string \<Rightarrow> string \<Rightarrow> (server, userBriefInfo option) state" where
  "accountFromDB srv condition key = do {
     r \<leftarrow> dbGetAccount srv (OrmGet condition [AStr key]);
     (case r of
        (Some a, None) \<Rightarrow> do { b \<leftarrow> accountBrief srv a; ret (Some b) }
      | _ \<Rightarrow> ret None) }"

definition FindUserByUserName :: "svc \<Rightarrow> string \<Rightarrow> (server, userBriefInfo option) state" where
  "FindUserByUserName srv userName = do {
     r \<leftarrow> rdsStr srv (RGet RdsKeyPrefixUserNameInfo userName);
     (case r of
        (_, Some _) \<Rightarrow> accountFromDB srv ''user_name = ?'' userName
      | (str, None) \<Rightarrow> ret (unjson_BriefInfo srv str)) }"

definition FindUserByPhoneNum :: "svc \<Rightarrow> string \<Rightarrow> (server, userBriefInfo option) state" where
  "FindUserByPhoneNum srv phoneNum = do {
     r \<leftarrow> rdsStr srv (RGet RdsKeyPrefixBriefInfo phoneNum);
     (case r of
        (_, Some _) \<Rightarrow> accountFromDB srv ''account_id = ?'' phoneNum
      | (str, None) \<Rightarrow>
          (case un_UserBriefInfo srv str of
             (ok, p) \<Rightarrow> if ok then ret (Some p) else accountFromDB srv ''account_id = ?'' phoneNum)) }"

definition findUserByKey :: "svc \<Rightarrow> string \<Rightarrow> (server, userBriefInfo option) state" where
  "findUserByKey srv key = do {
     r \<leftarrow> FindUserByPhoneNum srv key;
     (case r of Some p \<Rightarrow> ret (Some p) | None \<Rightarrow> FindUserByUserName srv key) }"

definition WEIBO_BRIEF_PIC :: nat where "WEIBO_BRIEF_PIC = 4"

definition MsgWeibo_text_only :: int where "MsgWeibo_text_only = 1"
definition MsgWeibo_picture_only :: int where "MsgWeibo_picture_only = 2"
definition MsgWeibo_radio_only :: int where "MsgWeibo_radio_only = 4"

text \<open>The addresses of the first pictures and videos in the found user's weibos.\<close>

definition weiboUrls :: "svc \<Rightarrow> string \<Rightarrow> string list" where
  "weiboUrls srv bin =
     (case un_Weibo srv bin of
        (ok, w) \<Rightarrow>
          if \<not> ok then []
          else if we_Type w \<noteq> we_Type w AND MsgWeibo_picture_only
                  \<and> we_Type w \<noteq> we_Type w AND MsgWeibo_radio_only then []
          else (case un_WeiboUrl srv (we_UrlBin w) of (ok, us) \<Rightarrow> if ok then us else []))"

definition briefUrls :: "svc \<Rightarrow> string list \<Rightarrow> string list" where
  "briefUrls srv bins = take WEIBO_BRIEF_PIC (concat (map (weiboUrls srv) bins))"

definition C2SFindUser :: "svc \<Rightarrow> nat \<Rightarrow> string \<Rightarrow> handler" where
  "C2SFindUser srv c msg =
     request (un_OneString srv) msg
       (\<lambda>_. SendErrorCode srv c MsgErrCode_proto_unmarshal_find_user_has_error 0)
       (\<lambda>key.
          if key = '''' then SendErrorCode srv c MsgErrCode_find_user_key_is_empty 0
          else do {
            r \<leftarrow> findUserByKey srv key;
            (case r of
               None \<Rightarrow> SendErrorCode srv c MsgErrCode_find_user_user_is_not_exist 0
             | Some brief \<Rightarrow> do {
                 (bins, _, err) \<leftarrow> getSomeoneWeiboRds srv c (ub_AccountId brief) 0 0;
                 let urls = (if err = None then briefUrls srv bins else []) in
                 SendPbMsg srv c NetMsgId_S2CFindUser (Acc (S2CFindUser brief True urls)) }) })"

lemmas account_defs = C2SHeartbeat_def C2SChangePassword_def saveDevice_def C2SDeviceInfo_def
  GetUserPushInfo_def C2SSetUserName_def setUserHeadPortraitUrlRds_def setUserHeadPortraitUrlDB_def
  C2SSetHeadPortrait_def renameInGroup_def C2SRename_def accountBrief_def accountFromDB_def
  FindUserByUserName_def FindUserByPhoneNum_def findUserByKey_def C2SFindUser_def

lemma keeps_wf_account [keeps_rules]:
  "keeps (inv X) (C2SHeartbeat srv c msg)"
  "keeps (inv X) (C2SChangePassword srv c msg)"
  "keeps (inv X) (C2SDeviceInfo srv c msg)"
  "keeps (inv X) (GetUserPushInfo srv u)"
  "keeps (inv X) (C2SSetUserName srv c msg)"
  "keeps (inv X) (C2SSetHeadPortrait srv c msg)"
  "keeps (inv X) (C2SRename srv c msg)"
  "keeps (inv X) (C2SFindUser srv c msg)"
  unfolding account_defs Let_def by (intro keeps_rules)+

end
