(* ===== verification/PrivateChat.thy ===== *)
theory PrivateChat
  imports Account Snowflake
begin

text \<open>
  msg-server/client/privateChat.go: private messages, read marks, offline messages, withdrawing
  a message, and the small requests of that file.
\<close>

section \<open>Read marks\<close>

definition seconds :: "int \<Rightarrow> int" where
  "seconds n = n * 1000000000"

definition C2SLastMsgTimestamp :: "svc \<Rightarrow> nat \<Rightarrow> string \<Rightarrow> handler" where
  "C2SLastMsgTimestamp srv c msg =
     (if length msg \<le> PacketHeaderSize then ret Returned
      else request (un_C2SLastMsgTimeStamp srv) msg (\<lambda>_. skip)
        (\<lambda>lastMsgTimeStamp. do {
           now \<leftarrow> timeNow srv;
           cl \<leftarrow> cli c;
           whenM (lastMsgTimeStamp < micros (now + seconds 10)
                  \<and> lastMsgTimeStamp > ac_LastMsgTimestamp (account cl)) (do {
             modCli c (SetLastMsgTimestamp lastMsgTimeStamp);
             Publish srv C2SLastMsgTimeStampEvent
               (SetInt64 ''lastMsgTimeStamp'' lastMsgTimeStamp (clientArg c)) }) }))"

section \<open>Sending a private message\<close>

text \<open>Whether the two may talk: friends or agent and member, each in the other's eyes.\<close>

definition mayChat :: "svc \<Rightarrow> nat \<Rightarrow> int \<Rightarrow> (server, bool) state" where
  "mayChat srv c receiverId = do {
     isF \<leftarrow> isFriendM c receiverId;
     mine \<leftarrow> (if isF then ret True else IsAgentOrMember srv c receiverId);
     (if \<not> mine then ret False
      else do {
        sa \<leftarrow> GetStrAccount c;
        r \<leftarrow> rdsInt srv (RIsSetMember RdsKeyPrefixFriendSet (itoa receiverId) (RStr sa));
        (if fst r = 1 then ret True
         else do {
           m \<leftarrow> rdsInt srv (RIsSetMember RdsKeyPrefixHighAgentSet (itoa receiverId) (RStr sa));
           (if fst m = 1 then ret True else IsAgentOrMember srv c receiverId) }) }) }"

definition chatMsgTypes :: "string list" where
  "chatMsgTypes = [''word'', ''pic'', ''voice'', ''file'', ''video'', ''card'']"

text \<open>The checks of voice, file and video messages: the error code of the first that fails.\<close>

definition privateContentErr :: "chatMessage \<Rightarrow> int option" where
  "privateContentErr m =
     (if pm_MsgType m = ''voice'' then
        (case pm_VoiceMessage m of
           None \<Rightarrow> Some MsgErrCode_private_chat_message_type_not_match_message
         | Some v \<Rightarrow>
             if vo_AudioUrl v = '''' then Some MsgErrCode_private_chat_voice_url_is_empty
             else if 60 < vo_AudioSecond v then Some MsgErrCode_private_chat_voice_too_long
             else None)
      else if pm_MsgType m = ''file'' then
        (case pm_FileMessage m of
           None \<Rightarrow> Some MsgErrCode_private_chat_message_type_not_match_message
         | Some f \<Rightarrow>
             if fi_FileUrl f = '''' then Some MsgErrCode_private_chat_file_url_is_empty
             else if fi_FileThumbnail f = '''' then Some MsgErrCode_private_chat_file_thumbnail_url_is_empty
             else None)
      else if pm_MsgType m = ''video'' then
        (case pm_VideoMessage m of
           None \<Rightarrow> Some MsgErrCode_private_chat_message_type_not_match_message
         | Some v \<Rightarrow>
             if vi_VideoUrl v = '''' then Some MsgErrCode_private_chat_video_url_is_empty
             else if vi_VideoThumbnail v = '''' then Some MsgErrCode_private_chat_video_thumbnail_url_is_empty
             else None)
      else None)"

text \<open>A card is completed with the portrait and nick name that are stored for its user.\<close>

definition fillCard :: "svc \<Rightarrow> cardMessage \<Rightarrow> (server, cardMessage) state" where
  "fillCard srv cm = do {
     url \<leftarrow> GetUserHeadPortraitUrl srv (ca_Id cm);
     (brief, _) \<leftarrow> GetOtherBriefInfoFromRds srv (ca_Id cm);
     let cm1 = (if url \<noteq> '''' then cm\<lparr>ca_Portrait := url\<rparr> else cm) in
     ret (case brief of Some b \<Rightarrow> cm1\<lparr>ca_NickName := ub_Nickname b\<rparr> | None \<Rightarrow> cm1) }"

text \<open>Stored in the records of both, when it can be marshalled; errors are only logged.\<close>

definition storePrivate :: "svc \<Rightarrow> chatMessage \<Rightarrow> int \<Rightarrow> (server, unit) state" where
  "storePrivate srv m ts =
     (case marshal srv (Sto (PB_ChatMessage m)) of
        None \<Rightarrow> skip
      | Some buf \<Rightarrow> do {
          _ \<leftarrow> rdsStatus srv (RZAdd RdsKeyPrefixPrivateChatRecord (itoa (pm_SenderId m)) (RStr buf) (RInt ts));
          _ \<leftarrow> rdsStatus srv (RZAdd RdsKeyPrefixPrivateChatRecord (itoa (pm_ReceiverId m)) (RStr buf) (RInt ts));
          skip })"

text \<open>Over the message queue to a user who is online, by the push service otherwise.\<close>

definition forwardPrivate :: "svc \<Rightarrow> chatMessage \<Rightarrow> (server, unit) state" where
  "forwardPrivate srv m = do {
     online \<leftarrow> IsUserOnline srv (pm_ReceiverId m);
     (if online then do {
        _ \<leftarrow> mqSendPbMsg srv (pm_ReceiverId m) NetMsgId_MQPrivateChat (MQ (MQPrivateChat m));
        skip }
      else do {
        d \<leftarrow> GetUserPushInfo srv (pm_ReceiverId m);
        (case d of
           None \<Rightarrow> skip
         | Some di \<Rightarrow> do {
             _ \<leftarrow> (if di_DeviceProducter di = ''ios'' \<and> di_DeviceInfo di \<noteq> ''''
                  then pushM srv [] [di_DeviceInfo di]
                  else if di_DeviceInfo di \<noteq> '''' then pushM srv [di_DeviceInfo di] []
                  else pushM srv [] []);
             skip }) }) }"

text \<open>From the time stamp on: store, forward, acknowledge, tell the other terminal.\<close>

definition deliverPrivate :: "svc \<Rightarrow> nat \<Rightarrow> int \<Rightarrow> chatMessage \<Rightarrow> (server, unit) state" where
  "deliverPrivate srv c cliTs m0 = do {
     now \<leftarrow> timeNow srv;
     let ts = micros now; m = m0\<lparr>pm_SrvTimeStamp := ts\<rparr> in do {
     storePrivate srv m ts;
     forwardPrivate srv m;
     SendPbMsg srv c NetMsgId_S2CPrivateChat (Fri (S2CPrivateChat (pm_ReceiverId m) ts cliTs));
     publishPb srv PrivateChatEvent c (Sto (PB_ChatMessage m)) } }"

definition sendPrivate :: "svc \<Rightarrow> nat \<Rightarrow> int \<Rightarrow> chatMessage \<Rightarrow> (server, unit) state" where
  "sendPrivate srv c cliTs chatMsg = do {
     cl \<leftarrow> cli c;
     url \<leftarrow> GetUserHeadPortraitUrl srv (ac_AccountId (account cl));
     let m = chatMsg\<lparr>pm_SenderId := ac_AccountId (account cl), pm_SenderName := ac_NickName (account cl),
                     pm_SenderheadPortraitUrl := url\<rparr> in
     (case privateContentErr m of
        Some e \<Rightarrow> SendErrorCode srv c e 0
      | None \<Rightarrow>
          if pm_MsgType m = ''card'' then
            (case pm_CardMessage m of
               None \<Rightarrow> SendErrorCode srv c MsgErrCode_private_chat_card_message_is_empty 0
             | Some cm \<Rightarrow> do {
                 cm' \<leftarrow> fillCard srv cm;
                 deliverPrivate srv c cliTs (m\<lparr>pm_CardMessage := Some cm'\<rparr>) })
          else deliverPrivate srv c cliTs m) }"

definition C2SPrivateChat :: "svc \<Rightarrow> nat \<Rightarrow> string \<Rightarrow> handler" where
  "C2SPrivateChat srv c msg =
     request (un_C2SPrivateChat srv) msg
       (\<lambda>_. SendErrorCode srv c MsgErrCode_proto_unmarsharl_msg_struct_C2SPrivateChat_has_error 0)
       (\<lambda>reqMsg.
          case pc_ChatMsg reqMsg of
            None \<Rightarrow> skip
          | Some chatMsg \<Rightarrow>
              if pm_ReceiverId chatMsg \<le> 0 then
                SendErrorCode srv c MsgErrCode_private_chat_receiver_illegal 0
              else do {
                may \<leftarrow> mayChat srv c (pm_ReceiverId chatMsg);
                (if \<not> may then SendErrorCode srv c MsgErrCode_private_chat_receiver_is_not_friend 0
                 else if pm_MsgType chatMsg \<notin> set chatMsgTypes then
                   SendErrorCode srv c MsgErrCode_private_chat_receiver_type_illegal 0
                 else sendPrivate srv c (pc_CliTimeStamp reqMsg) chatMsg) })"

definition C2SHuanXinPush :: "svc \<Rightarrow> nat \<Rightarrow> string \<Rightarrow> handler" where
  "C2SHuanXinPush srv c msg =
     request (un_FriendId srv) msg
       (\<lambda>_. SendErrorCode srv c MsgErrCode_proto_unmarshal_msg_struct_C2SHuanXinPush_has_error 0)
       (\<lambda>friendId. do {
          isF \<leftarrow> isFriendM c friendId;
          (if \<not> isF then SendErrorCode srv c MsgErrCode_huan_xin_push_is_not_your_friend 0
           else do {
             sa \<leftarrow> GetStrAccount c;
             r \<leftarrow> rdsInt srv (RIsSetMember RdsKeyPrefixFriendSet (itoa friendId) (RStr sa));
             (if snd r \<noteq> None then SendErrorCode srv c MsgErrCode_huan_xin_push_you_are_not_his_friend 0
              else do {
                pushInfo \<leftarrow> GetUserPushInfo srv friendId;
                (case pushInfo of
                   None \<Rightarrow> SendErrorCode srv c MsgErrCode_huan_xin_push_get_friend_push_info_failed 0
                 | Some di \<Rightarrow>
                     if di_DeviceProducter di = ''ios'' then
                       SendErrorCode srv c MsgErrCode_huan_xin_push_is_not_android 0
                     else do {
                       online \<leftarrow> IsUserOnline srv friendId;
                       whenM (\<not> online) (do { _ \<leftarrow> pushM srv [di_DeviceInfo di] []; skip });
                       SendPbMsg srv c NetMsgId_S2CHuanXinPush (Fri (S2CHuanXinPush ''Success'')) }) }) }) })"

section \<open>Offline messages\<close>

text \<open>The bound of a range by score: open below at the given mark.\<close>

definition scoreAbove :: "int \<Rightarrow> rarg" where
  "scoreAbove t = RStr (CHR ''('' # itoa t)"

definition offlineMsgs :: "svc \<Rightarrow> int \<Rightarrow> int \<Rightarrow> string list \<Rightarrow> chatMessage list" where
  "offlineMsgs srv acc lastTs bins =
     filter (\<lambda>m. pm_SrvTimeStamp m \<noteq> lastTs \<and> pm_ReceiverId m = acc)
       (map snd (filter fst (map (un_ChatMessage srv) bins)))"

definition C2SGetOfflinePrivateChatMsg :: "svc \<Rightarrow> nat \<Rightarrow> string \<Rightarrow> handler" where
  "C2SGetOfflinePrivateChatMsg srv c msg =
     request (un_C2SGetOfflinePrivateChatMsg srv) msg (\<lambda>_. skip)
       (\<lambda>_. do {
          cl \<leftarrow> cli c;
          let lastTs = ac_LastMsgTimestamp (account cl) in do {
          r \<leftarrow> rdsList srv (RZRange RdsKeyPrefixPrivateChatRecord (strAccount cl) (scoreAbove lastTs) (RStr ''+inf''));
          (case r of
             (_, Some _) \<Rightarrow> skip
           | (bins, None) \<Rightarrow> do {
               now \<leftarrow> timeNow srv;
               SendPbMsg srv c NetMsgId_S2CGetOfflinePrivateChatMsg
                 (Fri (S2CGetOfflinePrivateChatMsg
                   (offlineMsgs srv (ac_AccountId (account cl)) lastTs (case bins of Some l \<Rightarrow> l | None \<Rightarrow> []))
                   (micros now))) }) } })"

section \<open>Upload ids and logout\<close>

definition C2SPicWillBeSend :: "svc \<Rightarrow> nat \<Rightarrow> string \<Rightarrow> handler" where
  "C2SPicWillBeSend srv c msg = do {
     w \<leftarrow> GetSnowflakeId srv;
     let uid = sint w in do {
     _ \<leftarrow> rdsStatus srv (RDo RdsKeyPrefixUid ''set'' [RInt uid, RInt uid, RStr ''ex'', RInt 15]);
     SendPbMsg srv c NetMsgId_S2CPicWillBeSend (Acc (S2CPicWillBeSend uid));
     ret Returned } }"

definition C2SLogout :: "svc \<Rightarrow> nat \<Rightarrow> string \<Rightarrow> handler" where
  "C2SLogout srv c msg = do {
     SendPbMsg srv c NetMsgId_S2CLogout (Acc (S2CLogout ''Success''));
     ret Returned }"

section \<open>Withdrawing a message\<close>

datatype withdrawn = WChat chatMessage | WGroup groupMessage

definition withDrawPrivate :: "svc \<Rightarrow> nat \<Rightarrow> int \<Rightarrow> int \<Rightarrow> (server, goerr + withdrawn option) state" where
  "withDrawPrivate srv c msgTs receiverId = do {
     sa \<leftarrow> GetStrAccount c;
     r \<leftarrow> rdsList srv (RZRange RdsKeyPrefixPrivateChatRecord sa (RInt msgTs) (RInt msgTs));
     (case r of
        (Some [bin], None) \<Rightarrow>
          (case un_ChatMessage srv bin of
             (ok, p) \<Rightarrow>
               if \<not> ok then ret (Inl (Err ''withdraw''))
               else let m = p\<lparr>pm_WithDraw := True\<rparr> in
                 (case marshal srv (Sto (PB_ChatMessage m)) of
                    None \<Rightarrow> ret (Inl (Err ''withdraw''))
                  | Some buf \<Rightarrow> do {
                      now \<leftarrow> timeNow srv;
                      err \<leftarrow> rdsStatus srv (RZAdd RdsKeyPrefixPrivateChatRecord sa (RStr buf) (RInt (micros now)));
                      (if err \<noteq> None then ret (Inl (Err ''withdraw''))
                       else do {
                         err \<leftarrow> rdsStatus srv (RZAdd RdsKeyPrefixPrivateChatRecord (itoa receiverId)
                                 (RStr buf) (RInt (micros now)));
                         ret (if err \<noteq> None then Inl (Err ''withdraw'') else Inr (Some (WChat m))) }) }))
      | _ \<Rightarrow> ret (Inl (Err ''withdraw''))) }"

definition withDrawGroup :: "svc \<Rightarrow> int \<Rightarrow> int \<Rightarrow> (server, goerr + withdrawn option) state" where
  "withDrawGroup srv msgTs groupId = do {
     r \<leftarrow> rdsList srv (RZRange RdsKeyPrefixGroupChatRecord (itoa groupId) (RInt msgTs) (RInt msgTs));
     (case r of
        (Some [bin], None) \<Rightarrow>
          (case un_GroupMessage srv bin of
             (ok, p) \<Rightarrow>
               if \<not> ok then ret (Inl (Err ''withdraw''))
               else let m = p\<lparr>gm_WithDraw := True\<rparr> in
                 (case marshal srv (Sto (PB_GroupMessage m)) of
                    None \<Rightarrow> ret (Inl (Err ''withdraw''))
                  | Some buf \<Rightarrow> do {
                      now \<leftarrow> timeNow srv;
                      err \<leftarrow> rdsStatus srv (RZAdd RdsKeyPrefixGroupChatRecord (itoa groupId)
                              (RStr buf) (RInt (micros now)));
                      ret (if err \<noteq> None then Inl (Err ''withdraw'') else Inr (Some (WGroup m))) }))
      | _ \<Rightarrow> ret (Inl (Err ''withdraw''))) }"

definition withDrawMsg :: "svc \<Rightarrow> nat \<Rightarrow> int \<Rightarrow> int \<Rightarrow> int \<Rightarrow> (server, goerr + withdrawn option) state" where
  "withDrawMsg srv c msgTs receiverId groupId =
     (if receiverId \<noteq> 0 \<and> groupId = 0 then withDrawPrivate srv c msgTs receiverId
      else if groupId \<noteq> 0 \<and> receiverId = 0 then withDrawGroup srv msgTs groupId
      else ret (Inr None))"

definition privateWithdrawn :: "svc \<Rightarrow> nat \<Rightarrow> int \<Rightarrow> chatMessage \<Rightarrow> (server, unit) state" where
  "privateWithdrawn srv c receiverId m = do {
     acc \<leftarrow> GetAccountId c;
     (if acc \<noteq> pm_SenderId m then
        SendErrorCode srv c MsgErrCode_withDraw_message_withDrawer_is_not_sender 0
      else let ack = Fri (S2CWithdrawMessage (pm_SrvTimeStamp m)) in do {
        SendPbMsg srv c NetMsgId_S2CWithdrawMessage ack;
        online \<leftarrow> IsUserOnline srv receiverId;
        whenM online (do {
          _ \<leftarrow> mqSendPbMsg srv (pm_ReceiverId m) NetMsgId_MQPrivateChat (MQ (MQPrivateChat m));
          skip });
        publishPb srv PrivateChatWithDrawMessageEvent c ack }) }"

definition C2SWithdrawMessage :: "svc \<Rightarrow> nat \<Rightarrow> string \<Rightarrow> handler" where
  "C2SWithdrawMessage srv c msg =
     requestP (un_C2SWithdrawMessage srv) msg
       (\<lambda>_. do {
          SendErrorCode srv c MsgErrCode_proto_unmarshal_msg_struct_C2SWithdrawMessage_has_error 0;
          ret Returned })
       (\<lambda>p. do {
          r \<leftarrow> withDrawMsg srv c (wm_ServerTimeStamp p) (wm_ReceiverId p) 0;
          (case r of
             Inr (Some (WChat m)) \<Rightarrow> do { privateWithdrawn srv c (wm_ReceiverId p) m; ret Returned }
           | Inr (Some (WGroup _)) \<Rightarrow> ret Panicked
           | _ \<Rightarrow> do {
               SendErrorCode srv c MsgErrCode_withDraw_message_private_chat_withdraw_fail 0;
               ret Returned }) })"

definition IsHigherOrMember :: "svc \<Rightarrow> int \<Rightarrow> int \<Rightarrow> (server, bool) state" where
  "IsHigherOrMember srv agentId userId = do {
     r \<leftarrow> rdsInt srv (RIsSetMember RdsKeyPrefixHighAgentSet (itoa agentId) (RStr (itoa userId)));
     ret (snd r \<noteq> None \<and> fst r = 1) }"

section \<open>The process invariant\<close>

lemma keeps_wf_GetSnowflakeId [keeps_rules]: "keeps (inv X) (GetSnowflakeId srv)"
  unfolding GetSnowflakeId_def sleepM_def Let_def
  by (intro keeps_rules) (auto simp: keeps_def inv_def core_def keyOf_def server_wf_def online_wf_def)

lemma keeps_withdrawn [keeps_rules]:
  "(\<And>m. keeps I (f m)) \<Longrightarrow> (\<And>m. keeps I (g m)) \<Longrightarrow> keeps I (case w of WChat m \<Rightarrow> f m | WGroup m \<Rightarrow> g m)"
  by (cases w) auto

lemma keeps_list [keeps_rules]:
  "keeps I m \<Longrightarrow> (\<And>x xs. keeps I (f x xs)) \<Longrightarrow> keeps I (case l of [] \<Rightarrow> m | x # xs \<Rightarrow> f x xs)"
  by (cases l) auto

lemma keeps_wf_private_parts [keeps_rules]:
  "keeps (inv X) (mayChat srv c u)"
  "keeps (inv X) (fillCard srv cm)"
  "keeps (inv X) (storePrivate srv m ts)"
  "keeps (inv X) (forwardPrivate srv m)"
  "keeps (inv X) (withDrawMsg srv c t u g)"
  "keeps (inv X) (privateWithdrawn srv c u m)"
  unfolding mayChat_def fillCard_def storePrivate_def forwardPrivate_def withDrawPrivate_def
    withDrawGroup_def withDrawMsg_def privateWithdrawn_def Let_def
  by (intro keeps_rules)+

lemma keeps_wf_private_chat [keeps_rules]:
  "keeps (inv X) (C2SLastMsgTimestamp srv c msg)"
  "keeps (inv X) (C2SPrivateChat srv c msg)"
  "keeps (inv X) (C2SHuanXinPush srv c msg)"
  "keeps (inv X) (C2SGetOfflinePrivateChatMsg srv c msg)"
  "keeps (inv X) (C2SPicWillBeSend srv c msg)"
  "keeps (inv X) (C2SLogout srv c msg)"
  "keeps (inv X) (C2SWithdrawMessage srv c msg)"
  unfolding C2SLastMsgTimestamp_def C2SPrivateChat_def sendPrivate_def deliverPrivate_def
    C2SHuanXinPush_def C2SGetOfflinePrivateChatMsg_def C2SPicWillBeSend_def C2SLogout_def
    C2SWithdrawMessage_def Let_def
  by (intro keeps_rules)+

end
