(* ===== verification/GroupAdmin.thy ===== *)
theory GroupAdmin
  imports GroupStore PrivateChat
begin

text \<open>
  msg-server/client/chatGroup.go, the handlers that change a group's members: creating a group,
  asking to join and the owner's answer, inviting, leaving, dissolving and kicking.
\<close>

section \<open>Transactions\<close>

text \<open>
  The frame that these handlers share: when Begin succeeds the body runs and answers an error
  code, and a deferred function rolls back when the code is not 0; the session is closed last.
\<close>

definition inTx :: "svc \<Rightarrow> (server, int) state \<Rightarrow> (server, unit) state" where
  "inTx srv body = do {
     err \<leftarrow> db srv TxBegin;
     (if err \<noteq> None then skip
      else do {
        errCode \<leftarrow> body;
        whenM (errCode \<noteq> 0) (do { _ \<leftarrow> db srv TxRollback; skip }) });
     _ \<leftarrow> db srv TxClose;
     skip }"

lemma keeps_wf_inTx [keeps_rules]: "keeps (inv X) m \<Longrightarrow> keeps (inv X) (inTx srv m)"
  unfolding inTx_def by (intro keeps_rules)

section \<open>Creating a group\<close>

text \<open>
  The check of the invited users. \<open>Inl\<close> is an early return: with an error code that is sent, or
  silent. \<open>Inr\<close> are the invited ids and the entries of the members' hash.
\<close>

fun checkInvitees :: "svc \<Rightarrow> nat \<Rightarrow> int list \<Rightarrow> int fset \<Rightarrow> (string, string) fmap \<Rightarrow>
    (server, int option + int fset \<times> (string, string) fmap) state" where
  "checkInvitees srv c [] ids hash = ret (Inr (ids, hash))"
| "checkInvitees srv c (u # us) ids hash = do {
     acc \<leftarrow> GetAccountId c;
     (if u = 0 \<or> u = acc then checkInvitees srv c us ids hash
      else do {
        isF \<leftarrow> isFriendM c u;
        (if \<not> isF then ret (Inl (Some MsgErrCode_create_chat_group_invitee_and_inviter_is_not_friend))
         else do {
           r \<leftarrow> GetOtherBriefInfoFromRds srv u;
           (case r of
              (Some b, None) \<Rightarrow>
                (case json_Member srv \<lparr>cm_UserId = ub_AccountId b, cm_UserNickName = ub_Nickname b,
                    cm_Flag = 2, cm_UserHeadPortraitUrl = ''''\<rparr> of
                   None \<Rightarrow> checkInvitees srv c us ids hash
                 | Some j \<Rightarrow> checkInvitees srv c us (finsert u ids) (fmupd (itoa u) j hash))
            | _ \<Rightarrow> ret (Inl None)) }) }) }"

definition RdsCreatingChatGroup :: string where
  "RdsCreatingChatGroup = ''creating_chat_group''"

type_synonym memberRow = "int \<times> int \<times> string \<times> int \<times> int"

text \<open>A member's row: its join time and its mark are read from the clock one after the other.\<close>

definition memberRowM :: "svc \<Rightarrow> int \<Rightarrow> int \<Rightarrow> string \<Rightarrow> (server, memberRow) state" where
  "memberRowM srv acc groupId nick = do {
     t1 \<leftarrow> timeNow srv;
     t2 \<leftarrow> timeNow srv;
     ret (acc, groupId, nick, t1, micros t2) }"

fun inviteeRows :: "svc \<Rightarrow> int \<Rightarrow> int list \<Rightarrow> (server, memberRow list) state" where
  "inviteeRows srv groupId [] = ret []"
| "inviteeRows srv groupId (u # us) = do {
     r \<leftarrow> GetOtherBriefInfoFromRds srv u;
     row \<leftarrow> memberRowM srv u groupId (case r of (Some b, None) \<Rightarrow> ub_Nickname b | _ \<Rightarrow> '''');
     rows \<leftarrow> inviteeRows srv groupId us;
     ret (row # rows) }"

definition unixSeconds :: "int \<Rightarrow> int" where
  "unixSeconds t = t div 1000000000"

text \<open>The group id: the checksum of the seconds and the account, as decimal text.\<close>

definition newGroupId :: "int \<Rightarrow> int \<Rightarrow> int" where
  "newGroupId now acc = uint (ChecksumIEEE (itoa (unixSeconds now) @ itoa acc))"

definition rangeIds :: "svc \<Rightarrow> int fset \<Rightarrow> (server, int list) state" where
  "rangeIds srv ids = gets (\<lambda>s. range_fset srv (hist s) ids)"

definition createdMsg :: "c2sCreateChatGroup \<Rightarrow> int list \<Rightarrow> int \<Rightarrow> int \<Rightarrow> createChatGroup" where
  "createdMsg reqMsg members groupId admin =
     \<lparr>cc_ChatGroupName = cr_ChatGroupName reqMsg, cc_PicChatGroup = cr_PicChatGroup reqMsg,
      cc_Members = members, cc_ChatGroupId = groupId, cc_ChatGroupAdminId = admin, cc_Topic = ''''\<rparr>"

text \<open>The event that the client has joined a group.\<close>

definition publishJoin :: "svc \<Rightarrow> nat \<Rightarrow> int \<Rightarrow> (server, unit) state" where
  "publishJoin srv c groupId =
     Publish srv JoinChatGroupEvent (SetUserData ''client'' (UClient c) (SetInt64 ''groupid'' groupId NewEventArg))"

text \<open>After the commit: the log, Redis, the invited users, the event and the answer.\<close>

definition announceGroup :: "svc \<Rightarrow> nat \<Rightarrow> c2sCreateChatGroup \<Rightarrow> chatGroup \<Rightarrow> int fset \<Rightarrow>
    (string, string) fmap \<Rightarrow> (server, unit) state" where
  "announceGroup srv c reqMsg g ids hash = (let groupId = cg_ChatGroupId g in do {
     now \<leftarrow> timeNow srv;
     _ \<leftarrow> dbInsert srv (OrmInsert (ChatGroupCreateLog groupId (cg_Creator g) now));
     InsertIntoRedisChatGroupInfo srv g;
     err \<leftarrow> InsertIntoRedisGroupMembers srv groupId hash;
     (if err \<noteq> None then skip
      else do {
        invitees \<leftarrow> rangeIds srv ids;
        forM invitees (\<lambda>u. do {
          _ \<leftarrow> mqSendPbMsg srv u NetMsgId_MQCreateChatGroup (MQ (MQCreateChatGroup (createdMsg reqMsg [] groupId 0)));
          skip });
        publishJoin srv c groupId;
        members \<leftarrow> rangeIds srv ids;
        acc \<leftarrow> GetAccountId c;
        SendPbMsg srv c NetMsgId_S2CCreateChatGroup
          (Grp (S2CCreateChatGroup (createdMsg reqMsg members groupId acc))) }) })"

definition createGroupTx :: "svc \<Rightarrow> nat \<Rightarrow> c2sCreateChatGroup \<Rightarrow> chatGroup \<Rightarrow> memberRow list \<Rightarrow> int fset \<Rightarrow>
    (string, string) fmap \<Rightarrow> (server, int) state" where
  "createGroupTx srv c reqMsg g rows ids hash = do {
     r \<leftarrow> dbInsert srv (TxInsert (ChatGroupRow g));
     (if snd r \<noteq> None then do {
        SendErrorCode srv c MsgErrCode_create_chat_group_insert_chat_group_fail 0;
        ret 1 }
      else do {
        r \<leftarrow> dbInsert srv (TxInsert (ChatGroupMembers rows));
        (if snd r \<noteq> None then do {
           SendErrorCode srv c MsgErrCode_create_chat_group_insert_chat_group_member_fail 0;
           ret 4 }
         else do {
           err \<leftarrow> db srv TxCommit;
           (if err \<noteq> None then do {
              SendErrorCode srv c MsgErrCode_create_chat_group_commit_error_when_create_group 0;
              ret 5 }
            else do { announceGroup srv c reqMsg g ids hash; ret 0 }) }) }) }"

text \<open>What happens between taking and deleting the Redis key that is meant as a lock.\<close>

definition createGroupLocked :: "svc \<Rightarrow> nat \<Rightarrow> c2sCreateChatGroup \<Rightarrow> int fset \<Rightarrow>
    (string, string) fmap \<Rightarrow> (server, unit) state" where
  "createGroupLocked srv c reqMsg ids hash = do {
     now \<leftarrow> timeNow srv;
     cl \<leftarrow> cli c;
     let acc = ac_AccountId (account cl); groupId = newGroupId now acc;
         g = \<lparr>cg_ChatGroupId = groupId, cg_Creator = acc, cg_Name = cr_ChatGroupName reqMsg,
              cg_Pic = cr_PicChatGroup reqMsg\<rparr> in do {
     owner \<leftarrow> memberRowM srv acc groupId (ac_NickName (account cl));
     invitees \<leftarrow> rangeIds srv ids;
     rows \<leftarrow> inviteeRows srv groupId invitees;
     inTx srv (createGroupTx srv c reqMsg g (owner # rows) ids hash) } }"

definition C2SCreateChatGroup :: "svc \<Rightarrow> nat \<Rightarrow> string \<Rightarrow> handler" where
  "C2SCreateChatGroup srv c msg =
     request (un_C2SCreateChatGroup srv) msg
       (\<lambda>_. SendErrorCode srv c MsgErrCode_proto_unmarshal_msg_struct_C2SCreateChatGroup_has_error 0)
       (\<lambda>reqMsg. do {
          cl \<leftarrow> cli c;
          (case json_Member srv \<lparr>cm_UserId = ac_AccountId (account cl),
              cm_UserNickName = ac_NickName (account cl), cm_Flag = 1, cm_UserHeadPortraitUrl = ''''\<rparr> of
             None \<Rightarrow> SendErrorCode srv c MsgErrCode_create_chat_group_marshal_chat_group_owner_failed 0
           | Some owner \<Rightarrow> do {
               r \<leftarrow> checkInvitees srv c (cr_FirendIds reqMsg) {||} (fmupd (strAccount cl) owner fmempty);
               (case r of
                  Inl None \<Rightarrow> skip
                | Inl (Some e) \<Rightarrow> SendErrorCode srv c e 0
                | Inr (ids, hash) \<Rightarrow> do {
                    err \<leftarrow> rdsStatus srv (RSetex RdsCreatingChatGroup (strAccount cl) (seconds 10) (RInt 1));
                    (if err \<noteq> None then
                       SendErrorCode srv c MsgErrCode_ban_on_create_chat_group_in_short_time 0
                     else do {
                       createGroupLocked srv c reqMsg ids hash;
                       _ \<leftarrow> rdsInt srv (RDel RdsCreatingChatGroup (strAccount cl));
                       skip }) }) }) })"

lemma keeps_wf_checkInvitees [keeps_rules]: "keeps (inv X) (checkInvitees srv c us ids hash)"
proof (induction us arbitrary: ids hash)
  case Nil
  then show ?case by (simp add: keeps_rules)
next
  case (Cons u us)
  then show ?case unfolding checkInvitees.simps by (intro keeps_rules Cons.IH)
qed

lemma keeps_wf_memberRowM [keeps_rules]: "keeps (inv X) (memberRowM srv a g n)"
  unfolding memberRowM_def by (intro keeps_rules)

lemma keeps_wf_inviteeRows [keeps_rules]: "keeps (inv X) (inviteeRows srv g us)"
  by (induction us) (auto intro!: keeps_rules)

lemma keeps_wf_create [keeps_rules]:
  "keeps (inv X) (rangeIds srv ids)"
  "keeps (inv X) (publishJoin srv c g)"
  "keeps (inv X) (C2SCreateChatGroup srv c msg)"
  unfolding rangeIds_def publishJoin_def C2SCreateChatGroup_def createGroupLocked_def createGroupTx_def
    announceGroup_def Let_def
  by (intro keeps_rules)+

section \<open>Joining\<close>

definition reqJoinTx :: "svc \<Rightarrow> nat \<Rightarrow> reqJoinChatGroup \<Rightarrow> (server, int) state" where
  "reqJoinTx srv c rjcg = do {
     g \<leftarrow> dbGetGroup srv (TxGet ''chat_group_id = ?'' [AInt (rj_ChatGroupId rjcg)]);
     (case g of
        (Some reqChatGroup, None) \<Rightarrow> do {
          w \<leftarrow> GetSnowflakeId srv;
          now \<leftarrow> timeNow srv;
          cl \<leftarrow> cli c;
          r \<leftarrow> dbInsert srv (TxInsert (ChatGroupReqJoinLog
                 \<lparr>jl_Id = 0, jl_ChatGroupId = cg_ChatGroupId reqChatGroup,
                  jl_RequesterId = ac_AccountId (account cl),
                  jl_RequestMessage = rj_ChatGroupReqMessage rjcg, jl_Processed = 0,
                  jl_ReqUid = sint w, jl_ReqDate = now\<rparr>));
          (if snd r \<noteq> None then do {
             SendErrorCode srv c MsgErrCode_send_req_join_chat_group_query_group_manager_failed 0;
             ret 2 }
           else do {
             err \<leftarrow> db srv TxCommit;
             (if err \<noteq> None then ret 3
              else let rj = rjcg\<lparr>rj_UserNickName := ac_NickName (account cl)\<rparr> in do {
                err \<leftarrow> mqSendPbMsg srv (cg_Creator reqChatGroup) NetMsgId_MQReqJoinChatGroup
                        (MQ (MQReqJoinChatGroup rj (sint w)));
                (if err \<noteq> None then
                   SendErrorCode srv c MsgErrCode_mq_group_manager_req_join_chat_group_failed 0
                 else SendPbMsg srv c NetMsgId_S2CSomeOneReqJoinChatGroup (Grp (S2CRecvReqJoinChatGroup rj)));
                ret 0 }) }) }
      | _ \<Rightarrow> do {
          SendErrorCode srv c MsgErrCode_send_req_join_chat_group_query_group_manager_failed 0;
          ret 1 }) }"

definition reqJoin :: "svc \<Rightarrow> nat \<Rightarrow> reqJoinChatGroup \<Rightarrow> (server, unit) state" where
  "reqJoin srv c rjcg = do {
     ex \<leftarrow> dbExists srv (ChatGroupKey (rj_ChatGroupId rjcg));
     (if snd ex \<noteq> None \<or> \<not> fst ex then
        SendErrorCode srv c MsgErrCode_send_req_join_chat_group_group_id_error 0
      else do {
        m \<leftarrow> GetChatGroupMember srv (rj_ChatGroupId rjcg) (rj_UserId rjcg);
        (if m \<noteq> None then SendErrorCode srv c MsgErrCode_send_req_join_chat_group_is_group_member 0
         else inTx srv (reqJoinTx srv c rjcg)) }) }"

definition C2SReqJoinChatGroup :: "svc \<Rightarrow> nat \<Rightarrow> string \<Rightarrow> handler" where
  "C2SReqJoinChatGroup srv c msg =
     requestP (un_C2SReqJoinChatGroup srv) msg
       (\<lambda>_. do {
          SendErrorCode srv c MsgErrCode_proto_unmarshal_msg_struct_C2SReqJoinChatGroup_has_error 0;
          ret Returned })
       (\<lambda>p. case p of None \<Rightarrow> ret Panicked | Some rjcg \<Rightarrow> do { reqJoin srv c rjcg; ret Returned })"

text \<open>
  The end of C2SAgreeJoinChatGroup: tell the requester and the members. The assertion
  \<open>member.(int64)\<close> on what Redis answered, a byte slice, panics for the first member.
\<close>

definition agreeNotify :: "svc \<Rightarrow> nat \<Rightarrow> c2sAgreeSomeOneReqJoinChatGroup \<Rightarrow> handler" where
  "agreeNotify srv c p = do {
     err \<leftarrow> mqSendPbMsg srv (aj_ReqId p) NetMsgId_MQAgreeSomeOneReqJoinChatGroup
             (MQ (MQAgreeSomeOneReqJoinChatGroup (aj_ChatGroupId p)));
     (if err \<noteq> None then do {
        SendErrorCode srv c MsgErrCode_send_agree_some_one_req_join_chat_group_notice_requester_failed 0;
        ret Returned }
      else do {
        r \<leftarrow> rdsList srv (RSetMembers RdsKeyPrefixGroupChatRecord (''set:'' @ itoa (aj_ChatGroupId p)));
        (if snd r \<noteq> None then do {
           SendErrorCode srv c MsgErrCode_send_agree_some_one_req_join_chat_group_get_members_failed 0;
           ret Returned }
         else if fst r \<noteq> None \<and> fst r \<noteq> Some [] then ret Panicked
         else do {
           SendPbMsg srv c NetMsgId_S2CRecvManagerAgreeSomeOneReqJoinChatGroup
             (Grp (S2CRecvManagerAgreeSomeOneReqJoinChatGroup (aj_ChatGroupId p) (aj_ReqId p)));
           publishJoin srv c (aj_ChatGroupId p);
           ret Returned }) }) }"

text \<open>The transaction; the error code and, when it went through, the outcome of the end.\<close>

definition agreeJoinTx :: "svc \<Rightarrow> nat \<Rightarrow> c2sAgreeSomeOneReqJoinChatGroup \<Rightarrow> (server, int \<times> outcome) state" where
  "agreeJoinTx srv c p = do {
     l \<leftarrow> dbGetJoinLog srv (TxGet ''req_uid = ?'' [AInt (aj_ReqUid p)]);
     (if snd l \<noteq> None \<or> \<not> fst (fst l) then do {
        SendErrorCode srv c MsgErrCode_send_agree_some_one_req_join_chat_group_query_reques_uid_failed 0;
        ret (1, Returned) }
      else do {
        row \<leftarrow> memberRowM srv (aj_ReqId p) (aj_ChatGroupId p) (aj_ReqNickName p);
        r \<leftarrow> dbInsert srv (TxInsert (ChatGroupMembers [row]));
        (if snd r \<noteq> None then do {
           SendErrorCode srv c MsgErrCode_send_agree_some_one_req_join_chat_group_insert_chat_group_member_failed 0;
           ret (2, Returned) }
         else do {
           r \<leftarrow> dbInsert srv (TxUpdate (ChatGroupReqJoinLog ((snd (fst l))\<lparr>jl_Processed := 1\<rparr>)));
           (if snd r \<noteq> None then do {
              SendErrorCode srv c MsgErrCode_send_agree_some_one_req_join_chat_group_update_chat_group_req_join_log_failed 0;
              ret (3, Returned) }
            else do {
              err \<leftarrow> db srv TxCommit;
              (if err \<noteq> None then ret (4, Returned)
               else do { out \<leftarrow> agreeNotify srv c p; ret (0, out) }) }) }) }) }"

definition agreeJoin :: "svc \<Rightarrow> nat \<Rightarrow> c2sAgreeSomeOneReqJoinChatGroup \<Rightarrow> handler" where
  "agreeJoin srv c p = do {
     sa \<leftarrow> GetAccountId c;
     r \<leftarrow> rdsInt srv (RIsSetMember RdsKeyPrefixGroupChatRecord (itoa (aj_ChatGroupId p)) (RStr (itoa sa)));
     (if snd r \<noteq> None \<or> fst r = 1 then do {
        _ \<leftarrow> db srv (SqlExec ''UPDATE chat_group_req_join_log SET processed = 1 WHERE req_uid = ?''
               [AInt (aj_ReqUid p)]);
        agreeNotify srv c p }
      else do {
        err \<leftarrow> db srv TxBegin;
        out \<leftarrow> (if err \<noteq> None then ret Returned
               else do {
                 (errCode, out) \<leftarrow> agreeJoinTx srv c p;
                 whenM (errCode \<noteq> 0) (do { _ \<leftarrow> db srv TxRollback; skip });
                 ret out });
        _ \<leftarrow> db srv TxClose;
        ret out }) }"

definition C2SAgreeJoinChatGroup :: "svc \<Rightarrow> nat \<Rightarrow> string \<Rightarrow> handler" where
  "C2SAgreeJoinChatGroup srv c msg =
     requestP (un_C2SAgreeSomeOneReqJoinChatGroup srv) msg
       (\<lambda>_. do {
          SendErrorCode srv c MsgErrCode_proto_unmarshal_msg_struct_C2SAgreeSomeOneReqJoinChatGroup_has_error 0;
          ret Returned })
       (\<lambda>p. do {
          g \<leftarrow> ormGetGroup srv (aj_ChatGroupId p);
          acc \<leftarrow> GetAccountId c;
          (case g of
             None \<Rightarrow> do {
               SendErrorCode srv c MsgErrCode_send_agree_some_one_req_join_chat_group_query_group_id_failed 0;
               ret Returned }
           | Some chatGroup \<Rightarrow>
               if acc \<noteq> cg_Creator chatGroup then do {
                 SendErrorCode srv c MsgErrCode_send_agree_some_one_req_join_chat_group_sender_is_not_manager 0;
                 ret Returned }
               else agreeJoin srv c p) })"

definition C2SRefuseJoinChatGroup :: "svc \<Rightarrow> nat \<Rightarrow> string \<Rightarrow> handler" where
  "C2SRefuseJoinChatGroup srv c msg =
     request (un_C2SRefuseSomeOneReqJoinChatGroup srv) msg
       (\<lambda>_. SendErrorCode srv c MsgErrCode_proto_unmarshal_msg_struct_C2SRefuseSomeOneReqJoinChatGroup_has_error 0)
       (\<lambda>p. do {
          a \<leftarrow> dbExists srv (AccountKey (rf_UserId p));
          g \<leftarrow> dbExists srv (ChatGroupKey (rf_ChatGroupId p));
          (if \<not> fst a \<or> \<not> fst g \<or> snd a \<noteq> None \<or> snd g \<noteq> None then
             SendErrorCode srv c MsgErrCode_send_refuse_req_some_one_req_join_chat_group_error 0
           else do {
             err \<leftarrow> db srv (SqlExec ''UPDATE chat_group_req_join SET processed = 1 WHERE req_uid = ?''
                     [AInt (rf_ReqUid p)]);
             (if err \<noteq> None then
                SendErrorCode srv c MsgErrCode_send_refuse_some_one_req_join_chat_group_update_chat_group_req_join_log_failed 0
              else do {
                _ \<leftarrow> mqSendPbMsg srv (rf_UserId p) NetMsgId_MQRefuseSomeOneReqJoinChatGroup
                       (MQ (MQRefuseSomeOneReqJoinChatGroup (rf_ChatGroupId p) (rf_ReqUid p)
                         (rf_RefuseReqJoinChatGroupMessage p)));
                skip }) }) })"

lemma keeps_wf_join [keeps_rules]:
  "keeps (inv X) (C2SReqJoinChatGroup srv c msg)"
  "keeps (inv X) (C2SAgreeJoinChatGroup srv c msg)"
  "keeps (inv X) (C2SRefuseJoinChatGroup srv c msg)"
  unfolding C2SReqJoinChatGroup_def reqJoin_def reqJoinTx_def C2SAgreeJoinChatGroup_def agreeJoin_def
    agreeJoinTx_def agreeNotify_def C2SRefuseJoinChatGroup_def Let_def
  by (intro keeps_rules)+

end
