(* ===== verification/GroupMembers.thy ===== *)
theory GroupMembers
  imports GroupAdmin
begin

text \<open>
  msg-server/client/chatGroup.go: a group's information, inviting, leaving, dissolving and
  kicking.
\<close>

section \<open>Group information\<close>

text \<open>The members that can be decoded, with the nick name and portrait stored for the user.\<close>

fun memberInfos :: "svc \<Rightarrow> string list \<Rightarrow> (server, chatGroupMemberRds list) state" where
  "memberInfos srv [] = ret []"
| "memberInfos srv (v # vs) =
     (case unjson_Member srv v of
        None \<Rightarrow> memberInfos srv vs
      | Some m \<Rightarrow> do {
          r \<leftarrow> GetOtherBriefInfoFromRds srv (cm_UserId m);
          url \<leftarrow> GetUserHeadPortraitUrl srv (cm_UserId m);
          ms \<leftarrow> memberInfos srv vs;
          ret (\<lparr>cm_UserId = cm_UserId m,
                cm_UserNickName = (case r of (Some b, None) \<Rightarrow> ub_Nickname b | _ \<Rightarrow> cm_UserNickName m),
                cm_Flag = cm_Flag m, cm_UserHeadPortraitUrl = url\<rparr> # ms) })"

definition C2SChatGroupInfo :: "svc \<Rightarrow> nat \<Rightarrow> string \<Rightarrow> handler" where
  "C2SChatGroupInfo srv c msg =
     request (un_ChatGroupId srv) msg
       (\<lambda>_. SendErrorCode srv c MsgErrCode_proto_unmarshal_msg_struct_C2SChatGroupInfo_has_error 0)
       (\<lambda>groupId. do {
          ex \<leftarrow> dbExists srv (ChatGroupKey groupId);
          (if snd ex \<noteq> None \<or> \<not> fst ex then
             SendErrorCode srv c MsgErrCode_send_chat_group_info_group_id_error 0
           else do {
             g \<leftarrow> ormGetGroup srv groupId;
             (case g of
                None \<Rightarrow> SendErrorCode srv c MsgErrCode_send_chat_group_info_get_group_info_failed 0
              | Some chatGroup \<Rightarrow> do {
                  r \<leftarrow> GetRedisGroupMembers srv groupId;
                  (case r of
                     (Some getAll, None) \<Rightarrow> do {
                       ms \<leftarrow> memberInfos srv (hashValues getAll);
                       SendPbMsg srv c NetMsgId_S2CChatGroupInfo
                         (Grp (S2CChatGroupInfo (cg_ChatGroupId chatGroup) (cg_Name chatGroup)
                           (cg_Pic chatGroup) (cg_Creator chatGroup) ms)) }
                   | _ \<Rightarrow> SendErrorCode srv c MsgErrCode_send_chat_group_info_get_group_member_failed 0) }) }) })"

section \<open>Inviting\<close>

text \<open>
  The check of the invited friends. \<open>Inl\<close> is the error code of an early return; \<open>Inr\<close> are the
  rows, the nick names and the entries of the members' hash.
\<close>

type_synonym inviteAcc = "memberRow list \<times> (int, string) fmap \<times> (string, string) fmap"

fun checkInvited :: "svc \<Rightarrow> nat \<Rightarrow> int \<Rightarrow> int list \<Rightarrow> inviteAcc \<Rightarrow> (server, int + inviteAcc) state" where
  "checkInvited srv c groupId [] a = ret (Inr a)"
| "checkInvited srv c groupId (u # us) a = do {
     isF \<leftarrow> isFriendM c u;
     (if \<not> isF then ret (Inl MsgErrCode_send_invite_join_chat_group_is_not_friend_error)
      else do {
        r \<leftarrow> GetOtherBriefInfoFromRds srv u;
        (case r of
           (Some b, None) \<Rightarrow> do {
             f \<leftarrow> rdsStr srv (RHGet RdsKeyPrefixGroupChatRecord (hashKey groupId) (itoa u));
             (if snd f \<noteq> None \<and> snd f \<noteq> Some ErrNil then checkInvited srv c groupId us a
              else if fst f \<noteq> '''' then
                ret (Inl MsgErrCode_send_invite_join_chat_group_has_joined_chat_group_error)
              else
                (case json_Member srv \<lparr>cm_UserId = ub_AccountId b, cm_UserNickName = ub_Nickname b,
                    cm_Flag = 2, cm_UserHeadPortraitUrl = ''''\<rparr> of
                   None \<Rightarrow> checkInvited srv c groupId us a
                 | Some j \<Rightarrow> do {
                     row \<leftarrow> memberRowM srv u groupId (ub_Nickname b);
                     (case a of (rows, names, hash) \<Rightarrow>
                        checkInvited srv c groupId us
                          (rows @ [row], fmupd u (ub_Nickname b) names, fmupd (itoa u) j hash)) })) }
         | _ \<Rightarrow> ret (Inl MsgErrCode_send_invite_join_chat_group_invitee_id_error)) }) }"

text \<open>Every member but the inviter is told of every invited friend.\<close>

definition notifyInvited :: "svc \<Rightarrow> nat \<Rightarrow> int \<Rightarrow> (int, string) fmap \<Rightarrow> int \<Rightarrow> (server, unit) state" where
  "notifyInvited srv c groupId names accountId = do {
     cl \<leftarrow> cli c;
     whenM (ac_AccountId (account cl) \<noteq> accountId) (do {
       us \<leftarrow> rangeM srv (\<lambda>_. names);
       forM us (\<lambda>u. do {
         _ \<leftarrow> mqSendPbMsg srv accountId NetMsgId_MQInviteJoinChatGroup
                (MQ (MQInviteJoinChatGroup
                  \<lparr>ij_ChatGroupId = groupId, ij_InviterId = ac_AccountId (account cl),
                   ij_InviterNickName = ac_NickName (account cl), ij_InviteeId = u,
                   ij_InviteeNickName = mapGet '''' names u\<rparr>));
         skip }) }) }"

definition inviteMembers :: "svc \<Rightarrow> nat \<Rightarrow> int \<Rightarrow> inviteAcc \<Rightarrow> (server, unit) state" where
  "inviteMembers srv c groupId a = (case a of (rows, names, hash) \<Rightarrow> do {
     r \<leftarrow> dbInsert srv (OrmInsert (ChatGroupMembers rows));
     (if snd r \<noteq> None then
        SendErrorCode srv c MsgErrCode_send_invite_join_chat_group_insert_chat_group_member_failed 0
      else do {
        err \<leftarrow> InsertIntoRedisGroupMembers srv groupId hash;
        (if err \<noteq> None then
           SendErrorCode srv c MsgErrCode_send_invite_join_chat_group_insert_chat_group_member_failed 0
         else do {
           members \<leftarrow> GetRedisGroupMembers srv groupId;
           (if snd members \<noteq> None then
              SendErrorCode srv c MsgErrCode_send_invite_join_chat_group_get_chat_group_member_failed 0
            else do {
              forM (memberIds (fst members)) (notifyInvited srv c groupId names);
              publishJoin srv c groupId;
              SendPbMsg srv c NetMsgId_S2CRecvInviteJoinChatGroup
                (Grp (S2CRecvInviteJoinChatGroup groupId)) }) }) }) })"

definition C2SInviteJoinChatGroup :: "svc \<Rightarrow> nat \<Rightarrow> string \<Rightarrow> handler" where
  "C2SInviteJoinChatGroup srv c msg =
     request (un_C2SInviteJoinChatGroup srv) msg
       (\<lambda>_. SendErrorCode srv c MsgErrCode_proto_unmarshal_msg_struct_C2SInviteJoinChatGroup_has_error 0)
       (\<lambda>p. do {
          g \<leftarrow> rdsStr srv (RGet RdsKeyPrefixChatGroupInfo (itoa (iv_ChatGroupId p)));
          (if snd g \<noteq> None then
             SendErrorCode srv c MsgErrCode_send_invite_join_chat_group_group_id_error 0
           else do {
             r \<leftarrow> checkInvited srv c (iv_ChatGroupId p) (iv_FriendIds p) ([], fmempty, fmempty);
             (case r of
                Inl e \<Rightarrow> SendErrorCode srv c e 0
              | Inr a \<Rightarrow> inviteMembers srv c (iv_ChatGroupId p) a) }) })"

section \<open>Leaving\<close>

definition publishLeave :: "svc \<Rightarrow> int \<Rightarrow> int \<Rightarrow> (server, unit) state" where
  "publishLeave srv accountId groupId =
     Publish srv CancelChatGroupEvent
       (SetInt64 ''groupid'' groupId (SetInt64 ''accountid'' accountId NewEventArg))"

definition leaveGroup :: "svc \<Rightarrow> nat \<Rightarrow> int \<Rightarrow> chatGroup \<Rightarrow> (server, unit) state" where
  "leaveGroup srv c groupId chatGroup = do {
     cl \<leftarrow> cli c;
     let acc = ac_AccountId (account cl); gid = cg_ChatGroupId chatGroup in do {
     _ \<leftarrow> RemoveUserFromRedisGroupMember srv acc groupId;
     _ \<leftarrow> RemoveUserFromDBGroupMember srv acc groupId;
     RecordChatGroupMemberQuitLog srv gid acc (cg_Creator chatGroup) GROUP_MEMBER_QUIT_CHAT_GROUP;
     members \<leftarrow> GetRedisGroupMembers srv groupId;
     forM (memberIds (fst members)) (\<lambda>u. do {
       _ \<leftarrow> mqSendPbMsg srv u NetMsgId_MQCancelChatGroup
              (MQ (MQCancelChatGroup \<lparr>ce_ChatGroupId = gid, ce_UserId = acc,
                ce_UserNickName = ac_NickName (account cl)\<rparr>));
       skip });
     publishLeave srv acc groupId;
     SendPbMsg srv c NetMsgId_S2CRecvCancelChatGroup (Grp (S2CRecvCancelChatGroup gid)) } }"

definition C2SCancelChatGroup :: "svc \<Rightarrow> nat \<Rightarrow> string \<Rightarrow> handler" where
  "C2SCancelChatGroup srv c msg =
     request (un_ChatGroupId srv) msg
       (\<lambda>_. SendErrorCode srv c MsgErrCode_proto_unmarshal_msg_struct_C2SCancelChatGroup_has_error 0)
       (\<lambda>groupId. do {
          g \<leftarrow> ormGetGroup srv groupId;
          acc \<leftarrow> GetAccountId c;
          (case g of
             None \<Rightarrow> SendErrorCode srv c MsgErrCode_send_cancel_chat_group_group_id_error 0
           | Some chatGroup \<Rightarrow> do {
               m \<leftarrow> GetChatGroupMember srv groupId acc;
               (if m = None then SendErrorCode srv c MsgErrCode_send_cancel_chat_group_is_not_member 0
                else if cg_Creator chatGroup = acc then
                  SendErrorCode srv c MsgErrCode_send_cancel_chat_group_is_creator 0
                else leaveGroup srv c groupId chatGroup) }) })"

section \<open>Dissolving\<close>

definition dissolveGroup :: "svc \<Rightarrow> nat \<Rightarrow> int \<Rightarrow> chatGroup \<Rightarrow> int list \<Rightarrow> (server, unit) state" where
  "dissolveGroup srv c groupId chatGroup members = (let gid = cg_ChatGroupId chatGroup in do {
     _ \<leftarrow> RemoveAllUserFromDB srv gid;
     _ \<leftarrow> RemoveDBChatGroup srv gid;
     _ \<leftarrow> RemoveAllUserFromRedisGroupMember srv gid;
     _ \<leftarrow> RecordDestroyChatGroup srv chatGroup;
     acc \<leftarrow> GetAccountId c;
     forM members (\<lambda>u. do {
       RecordChatGroupMemberQuitLog srv gid u (cg_Creator chatGroup) GROUP_OWNER_UN_CHAT_GROUP;
       whenM (acc \<noteq> u) (do {
         _ \<leftarrow> mqSendPbMsg srv u NetMsgId_MQUnChatGroup (MQ (MQUnChatGroup gid));
         skip }) });
     Publish srv UnChatGroupEvent (SetInt64 ''groupid'' groupId NewEventArg);
     SendPbMsg srv c NetMsgId_S2CRecvUnChatGroup (Grp (S2CRecvUnChatGroup groupId)) })"

definition C2SUnChatGroup :: "svc \<Rightarrow> nat \<Rightarrow> string \<Rightarrow> handler" where
  "C2SUnChatGroup srv c msg =
     request (un_ChatGroupId srv) msg
       (\<lambda>_. SendErrorCode srv c MsgErrCode_proto_unmarshal_msg_struct_C2SUnChatGroup_has_error 0)
       (\<lambda>groupId. do {
          g \<leftarrow> ormGetGroup srv groupId;
          acc \<leftarrow> GetAccountId c;
          (case g of
             None \<Rightarrow> SendErrorCode srv c MsgErrCode_send_un_chat_group_group_id_error 0
           | Some chatGroup \<Rightarrow>
               if cg_Creator chatGroup \<noteq> acc then
                 SendErrorCode srv c MsgErrCode_send_un_chat_group_is_not_creator 0
               else do {
                 members \<leftarrow> GetRedisGroupMembers srv (cg_ChatGroupId chatGroup);
                 (if snd members \<noteq> None then
                    SendErrorCode srv c MsgErrCode_send_un_chat_group_get_members_failed 0
                  else dissolveGroup srv c groupId chatGroup (memberIds (fst members))) }) })"

section \<open>Kicking\<close>

definition kickMember :: "svc \<Rightarrow> nat \<Rightarrow> chatGroupKick \<Rightarrow> chatGroup \<Rightarrow> int list \<Rightarrow> (server, unit) state" where
  "kickMember srv c k chatGroup members = do {
     acc \<leftarrow> GetAccountId c;
     forM members (\<lambda>u. whenM (u \<noteq> acc) (do {
       _ \<leftarrow> mqSendPbMsg srv u NetMsgId_MQChatGroupKick (MQ (MQChatGroupKick k));
       skip }));
     _ \<leftarrow> RemoveUserFromRedisGroupMember srv (ki_UserId k) (ki_ChatGroupId k);
     _ \<leftarrow> RemoveUserFromDBGroupMember srv (ki_UserId k) (ki_ChatGroupId k);
     RecordChatGroupMemberQuitLog srv (cg_ChatGroupId chatGroup) (ki_UserId k) (cg_Creator chatGroup)
       GROUP_OWNER_KICK_GROUP_MEMBER;
     publishLeave srv (ki_UserId k) (ki_ChatGroupId k);
     SendPbMsg srv c NetMsgId_S2CRecvChatGroupKick (Grp (S2CRecvChatGroupKick (ki_ChatGroupId k))) }"

definition groupKick :: "svc \<Rightarrow> nat \<Rightarrow> chatGroupKick \<Rightarrow> (server, unit) state" where
  "groupKick srv c k = do {
     g \<leftarrow> ormGetGroup srv (ki_ChatGroupId k);
     acc \<leftarrow> GetAccountId c;
     (case g of
        None \<Rightarrow> SendErrorCode srv c MsgErrCode_send_chat_group_kick_group_id_error 0
      | Some chatGroup \<Rightarrow>
          if cg_Creator chatGroup \<noteq> acc then
            SendErrorCode srv c MsgErrCode_send_chat_group_kick_is_not_creator 0
          else do {
            m \<leftarrow> GetChatGroupMember srv (ki_ChatGroupId k) (ki_UserId k);
            (if m = None then SendErrorCode srv c MsgErrCode_send_chat_group_user_is_not_member 0
             else do {
               members \<leftarrow> GetRedisGroupMembers srv (ki_ChatGroupId k);
               (if snd members \<noteq> None then
                  SendErrorCode srv c MsgErrCode_send_chat_group_kick_get_members_failed 0
                else kickMember srv c k chatGroup (memberIds (fst members))) }) }) }"

definition C2SChatGroupKick :: "svc \<Rightarrow> nat \<Rightarrow> string \<Rightarrow> handler" where
  "C2SChatGroupKick srv c msg =
     requestP (un_C2SChatGroupKick srv) msg
       (\<lambda>_. do {
          SendErrorCode srv c MsgErrCode_proto_unmarshal_msg_struct_C2SChatGroupKick_has_error 0;
          ret Returned })
       (\<lambda>p. case p of None \<Rightarrow> ret Panicked | Some k \<Rightarrow> do { groupKick srv c k; ret Returned })"

section \<open>The process invariant\<close>

lemma keeps_wf_memberInfos [keeps_rules]: "keeps (inv X) (memberInfos srv vs)"
  by (induction vs) (auto intro!: keeps_rules split: option.splits)

lemma keeps_wf_checkInvited [keeps_rules]: "keeps (inv X) (checkInvited srv c g us a)"
proof (induction us arbitrary: a)
  case Nil
  then show ?case by (simp add: keeps_rules)
next
  case (Cons u us)
  then show ?case unfolding checkInvited.simps by (intro keeps_rules Cons.IH)
qed

lemma keeps_wf_group_members [keeps_rules]:
  "keeps (inv X) (C2SChatGroupInfo srv c msg)"
  "keeps (inv X) (C2SInviteJoinChatGroup srv c msg)"
  "keeps (inv X) (C2SCancelChatGroup srv c msg)"
  "keeps (inv X) (C2SUnChatGroup srv c msg)"
  "keeps (inv X) (C2SChatGroupKick srv c msg)"
  unfolding C2SChatGroupInfo_def C2SInviteJoinChatGroup_def inviteMembers_def notifyInvited_def
    C2SCancelChatGroup_def leaveGroup_def publishLeave_def C2SUnChatGroup_def dissolveGroup_def
    C2SChatGroupKick_def groupKick_def kickMember_def Let_def
  by (intro keeps_rules)+

end
