(* ===== verification/GroupChat.thy ===== *)
theory GroupChat
  imports GroupMembers
begin

text \<open>
  msg-server/client/chatGroup.go: messages to a group, read marks, offline messages and
  withdrawing.
\<close>

section \<open>Sending a group message\<close>

text \<open>The checks of voice, file and video messages: the error code of the first that fails.\<close>

definition groupContentErr :: "groupMessage \<Rightarrow> int option" where
  "groupContentErr m =
     (if gm_MsgType m = ''voice'' then
        (case gm_VoiceMessage m of
           None \<Rightarrow> Some MsgErrCode_send_group_chat_msg_type_not_match_message
         | Some v \<Rightarrow>
             if vo_AudioUrl v = '''' then Some MsgErrCode_send_group_chat_msg_voice_url_is_empty
             else if 60 < vo_AudioSecond v then Some MsgErrCode_send_group_chat_msg_voice_too_long
             else None)
      else if gm_MsgType m = ''file'' then
        (case gm_FileMessage m of
           None \<Rightarrow> Some MsgErrCode_send_group_chat_msg_type_not_match_message
         | Some f \<Rightarrow>
             if fi_FileUrl f = '''' then Some MsgErrCode_send_group_chat_msg_file_url_is_empty
             else if fi_FileThumbnail f = '''' then Some MsgErrCode_send_group_chat_msg_file_thumbnail_url_is_empty
             else None)
      else if gm_MsgType m = ''video'' then
        (case gm_VideoMessage m of
           None \<Rightarrow> Some MsgErrCode_send_group_chat_msg_type_not_match_message
         | Some v \<Rightarrow>
             if vi_VideoUrl v = '''' then Some MsgErrCode_send_group_chat_msg_video_url_is_empty
             else if vi_VideoThumbnail v = '''' then Some MsgErrCode_send_group_chat_msg_video_thumbnail_url_is_empty
             else None)
      else None)"

text \<open>The push addresses of the members that are not online: Android and iOS.\<close>

fun pushReceivers :: "svc \<Rightarrow> int list \<Rightarrow> (server, string list \<times> string list) state" where
  "pushReceivers srv [] = ret ([], [])"
| "pushReceivers srv (u # us) = do {
     online \<leftarrow> IsUserOnline srv u;
     (if online then pushReceivers srv us
      else do {
        d \<leftarrow> GetUserPushInfo srv u;
        (case d of
           None \<Rightarrow> pushReceivers srv us
         | Some di \<Rightarrow> do {
             (android, ios) \<leftarrow> pushReceivers srv us;
             ret (if di_DeviceProducter di = ''ios'' \<and> di_DeviceInfo di \<noteq> ''''
                  then (android, di_DeviceInfo di # ios)
                  else if di_DeviceInfo di \<noteq> '''' then (di_DeviceInfo di # android, ios)
                  else (android, ios)) }) }) }"

definition publishGroupMsg :: "svc \<Rightarrow> groupMessage \<Rightarrow> (server, unit) state" where
  "publishGroupMsg srv m =
     Publish srv C2SGroupChatEvent
       (SetUserData ''chatgroupmsg'' (UPb (Sto (PB_GroupMessage m))) NewEventArg)"

text \<open>Store, push to the offline members, deliver to the online ones, acknowledge.\<close>

definition deliverGroupMsg :: "svc \<Rightarrow> nat \<Rightarrow> int \<Rightarrow> groupMessage \<Rightarrow> (server, unit) state" where
  "deliverGroupMsg srv c cliTs m =
     (case marshal srv (Sto (PB_GroupMessage m)) of
        None \<Rightarrow> SendErrorCode srv c MsgErrCode_proto_marshal_msg_struct_GroupMessage_has_error 0
      | Some buf \<Rightarrow> do {
          err \<leftarrow> rdsStatus srv (RZAdd RdsKeyPrefixGroupChatRecord (itoa (gm_ReceiveGroupId m)) (RStr buf)
                  (RStr (itoa (gm_SrvTimeStamp m))));
          (if err \<noteq> None then
             SendErrorCode srv c MsgErrCode_send_group_chat_msg_chat_msg_store_redis_failed 0
           else do {
             members \<leftarrow> GetRedisGroupMembers srv (gm_ReceiveGroupId m);
             (if snd members \<noteq> None then skip
              else do {
                (android, ios) \<leftarrow> pushReceivers srv (memberIds (fst members));
                whenM (android \<noteq> [] \<or> ios \<noteq> []) (do { _ \<leftarrow> pushM srv android ios; skip });
                publishGroupMsg srv m;
                SendPbMsg srv c NetMsgId_S2CGroupChat
                  (Grp (S2CGroupChat (gm_ReceiveGroupId m) (gm_SrvTimeStamp m) cliTs)) }) }) })"

definition sendGroupMsg :: "svc \<Rightarrow> nat \<Rightarrow> int \<Rightarrow> groupMessage \<Rightarrow> (server, unit) state" where
  "sendGroupMsg srv c cliTs chatMsg = do {
     cl \<leftarrow> cli c;
     now \<leftarrow> timeNow srv;
     url \<leftarrow> GetUserHeadPortraitUrl srv (ac_AccountId (account cl));
     let m = chatMsg\<lparr>gm_SenderId := ac_AccountId (account cl), gm_SenderName := ac_NickName (account cl),
                     gm_SrvTimeStamp := micros now, gm_SenderheadPortraitUrl := url\<rparr> in
     (case groupContentErr m of
        Some e \<Rightarrow> SendErrorCode srv c e 0
      | None \<Rightarrow>
          if gm_MsgType m = ''card'' then
            (case gm_CardMessage m of
               None \<Rightarrow> SendErrorCode srv c MsgErrCode_private_chat_card_message_is_empty 0
             | Some cm \<Rightarrow> do {
                 cm' \<leftarrow> fillCard srv cm;
                 deliverGroupMsg srv c cliTs (m\<lparr>gm_CardMessage := Some cm'\<rparr>) })
          else deliverGroupMsg srv c cliTs m) }"

definition C2SGroupChat :: "svc \<Rightarrow> nat \<Rightarrow> string \<Rightarrow> handler" where
  "C2SGroupChat srv c msg =
     request (un_C2SGroupChat srv) msg
       (\<lambda>_. SendErrorCode srv c MsgErrCode_proto_unmarshal_msg_struct_C2SGroupChat_has_error 0)
       (\<lambda>groupChat.
          case gc_ChatMsg groupChat of
            None \<Rightarrow> SendErrorCode srv c MsgErrCode_send_group_chat_msg_chat_msg_is_nil 0
          | Some chatMsg \<Rightarrow>
              if gm_MsgType chatMsg \<notin> set chatMsgTypes then
                SendErrorCode srv c MsgErrCode_send_group_chat_msg_chat_msg_is_illege 0
              else do {
                g \<leftarrow> GetChatGroupInfoFromRedis srv (gm_ReceiveGroupId chatMsg);
                (if g = None then SendErrorCode srv c MsgErrCode_send_group_chat_msg_chat_msg_is_illege 0
                 else do {
                   acc \<leftarrow> GetAccountId c;
                   m \<leftarrow> GetChatGroupMember srv (gm_ReceiveGroupId chatMsg) acc;
                   (if m = None then
                      SendErrorCode srv c MsgErrCode_send_group_chat_sender_is_not_chat_group_member 0
                    else if gm_Text chatMsg = '''' then
                      SendErrorCode srv c MsgErrCode_send_group_chat_msg_chat_msg_is_illege 0
                    else sendGroupMsg srv c (gc_CliTimeStamp groupChat) chatMsg) }) })"

section \<open>Read marks and offline messages\<close>

definition C2SChatGroupLastMsgTimeStamp :: "svc \<Rightarrow> nat \<Rightarrow> string \<Rightarrow> handler" where
  "C2SChatGroupLastMsgTimeStamp srv c msg =
     request (un_C2SChatGroupLastMsgTimeStamp srv) msg (\<lambda>_. skip)
       (\<lambda>reqMsg. do {
          now \<leftarrow> timeNow srv;
          cl \<leftarrow> cli c;
          (case GetChatGroupLastMsgTimestamp (lt_ChatGroupId reqMsg) cl of
             (b, ts) \<Rightarrow>
               whenM (b \<and> lt_SrvTimeStamp reqMsg < micros (now + seconds 10) \<and> lt_SrvTimeStamp reqMsg > ts)
                 (modCli c (SetChatGroupLastMsgTimestamp (lt_ChatGroupId reqMsg) (lt_SrvTimeStamp reqMsg)))) })"

text \<open>
  A record that cannot be decoded makes the handler panic: the log line asserts that what Redis
  answered, a byte slice, is a string.
\<close>

definition C2SGetOfflineGroupChatMsg :: "svc \<Rightarrow> nat \<Rightarrow> string \<Rightarrow> handler" where
  "C2SGetOfflineGroupChatMsg srv c msg =
     requestP (un_C2SGetOfflineGroupChatMsg srv) msg
       (\<lambda>_. do {
          SendErrorCode srv c MsgErrCode_proto_unmarshal_msg_struct_C2SGetOfflineGroupChatMsg_has_error 0;
          ret Returned })
       (\<lambda>p. do {
          ok \<leftarrow> rdsBool srv (RExists RdsKeyPrefixChatGroupInfo (itoa (og_ChatGroupId p)));
          (if \<not> ok then do {
             SendErrorCode srv c MsgErrCode_send_get_offline_group_chat_msg_group_id_illegal (og_MsgTimestamp p);
             ret Returned }
           else do {
             r \<leftarrow> rdsList srv (RZRange RdsKeyPrefixGroupChatRecord (itoa (og_ChatGroupId p))
                    (scoreAbove (wrap64 (og_ChatGroupLastMessageTimestamp p - 10000000))) (RStr ''+inf''));
             (case r of
                (_, Some _) \<Rightarrow> do {
                  SendErrorCode srv c MsgErrCode_send_get_offlien_group_chat_msg_get_offline_msg_failed
                    (og_MsgTimestamp p);
                  ret Returned }
              | (bins, None) \<Rightarrow>
                  let ms = map (un_GroupMessage srv) (case bins of Some l \<Rightarrow> l | None \<Rightarrow> []) in
                  if \<not> list_all fst ms then ret Panicked
                  else do {
                    SendPbMsg srv c NetMsgId_S2CGetOfflineGroupChatMsg
                      (Grp (S2CGetOfflineGroupChatMsg (og_ChatGroupId p) (map snd ms) (og_MsgTimestamp p)));
                    ret Returned }) }) })"

section \<open>Withdrawing\<close>

definition groupWithdrawn :: "svc \<Rightarrow> nat \<Rightarrow> int \<Rightarrow> groupMessage \<Rightarrow> (server, unit) state" where
  "groupWithdrawn srv c ts m = do {
     acc \<leftarrow> GetAccountId c;
     (if acc \<noteq> gm_SenderId m then
        SendErrorCode srv c MsgErrCode_withDraw_message_withDrawer_is_not_sender 0
      else do {
        SendPbMsg srv c NetMsgId_S2CWithdrawGroupMessage (Grp (S2CWithdrawGroupMessage ts));
        publishGroupMsg srv m }) }"

definition C2SWithdrawGroupMessage :: "svc \<Rightarrow> nat \<Rightarrow> string \<Rightarrow> handler" where
  "C2SWithdrawGroupMessage srv c msg =
     requestP (un_C2SWithdrawGroupMessage srv) msg
       (\<lambda>_. do {
          SendErrorCode srv c MsgErrCode_proto_unmarshal_msg_struct_C2SWithdrawGroupMessage_has_error 0;
          ret Returned })
       (\<lambda>p. do {
          r \<leftarrow> withDrawMsg srv c (wg_ServerTimeStamp p) 0 (wg_GroupId p);
          (case r of
             Inr (Some (WGroup m)) \<Rightarrow> do { groupWithdrawn srv c (wg_ServerTimeStamp p) m; ret Returned }
           | Inr (Some (WChat _)) \<Rightarrow> ret Panicked
           | _ \<Rightarrow> do {
               SendErrorCode srv c MsgErrCode_withDraw_group_message_group_chat_withdraw_fail 0;
               ret Returned }) })"

section \<open>The process invariant\<close>

lemma keeps_wf_pushReceivers [keeps_rules]: "keeps (inv X) (pushReceivers srv us)"
  by (induction us) (auto intro!: keeps_rules)

lemma keeps_wf_group_chat [keeps_rules]:
  "keeps (inv X) (publishGroupMsg srv m)"
  "keeps (inv X) (C2SGroupChat srv c msg)"
  "keeps (inv X) (C2SChatGroupLastMsgTimeStamp srv c msg)"
  "keeps (inv X) (C2SGetOfflineGroupChatMsg srv c msg)"
  "keeps (inv X) (C2SWithdrawGroupMessage srv c msg)"
  unfolding publishGroupMsg_def C2SGroupChat_def sendGroupMsg_def deliverGroupMsg_def
    C2SChatGroupLastMsgTimeStamp_def C2SGetOfflineGroupChatMsg_def C2SWithdrawGroupMessage_def
    groupWithdrawn_def Let_def
  by (intro keeps_rules)+

end
