(* ===== verification/MQMsg.thy ===== *)
theory MQMsg
  imports GroupAdmin
begin

text \<open>
  msg-server/client/MQMsg.go: the messages that other users' clients sent to this client over the
  message queue.
\<close>

section \<open>Guards\<close>

text \<open>A chain of checks with early returns: the body runs when every check holds.\<close>

fun ifAll :: "('s, bool) state list \<Rightarrow> ('s, unit) state \<Rightarrow> ('s, unit) state" where
  "ifAll [] m = m"
| "ifAll (g # gs) m = do { b \<leftarrow> g; if b then ifAll gs m else skip }"

lemma keeps_ifAll [keeps_rules]: "list_all (keeps I) gs \<Longrightarrow> keeps I m \<Longrightarrow> keeps I (ifAll gs m)"
  by (induction gs) (auto intro!: keeps_rules)

lemma keeps_list_all [keeps_rules]:
  "list_all (keeps I) []"
  "keeps I (g :: ('s, 'a) state) \<Longrightarrow> list_all (keeps I) gs \<Longrightarrow> list_all (keeps I) (g # gs)"
  by simp_all

section \<open>Private chat and friends\<close>

text \<open>
  The name under which the sender is shown: a friend's remark name, or the user name of the own
  agent or member. None: the sender is neither.
\<close>

definition senderRemark :: "svc \<Rightarrow> nat \<Rightarrow> int \<Rightarrow> (server, string option) state" where
  "senderRemark srv c senderId = do {
     isF \<leftarrow> isFriendM c senderId;
     (if isF then do { cl \<leftarrow> cli c; ret (Some (GetFriendRemarkName senderId cl)) }
      else do {
        sa \<leftarrow> GetStrAccount c;
        m \<leftarrow> rdsInt srv (RIsSetMember RdsKeyPrefixHighAgentSet (itoa senderId) (RStr sa));
        ok \<leftarrow> (if fst m = 1 then ret True else IsAgentOrMember srv c senderId);
        (if \<not> ok then ret None
         else do { n \<leftarrow> GetAgentOrMemberUsername srv c senderId; ret (Some n) }) }) }"

definition MQPrivateChat :: "svc \<Rightarrow> nat \<Rightarrow> string \<Rightarrow> handler" where
  "MQPrivateChat srv c msg =
     request (un_MQPrivateChat srv) msg (\<lambda>_. skip)
       (\<lambda>p. case p of
          None \<Rightarrow> skip
        | Some chatMsg \<Rightarrow> do {
            r \<leftarrow> senderRemark srv c (pm_SenderId chatMsg);
            (case r of
               None \<Rightarrow> skip
             | Some remark \<Rightarrow> do {
                 inB \<leftarrow> isBlackListM c (pm_SenderId chatMsg);
                 whenM (\<not> inB) (SendPbMsg srv c NetMsgId_S2CRecvPrivateChat
                   (Fri (S2CRecvPrivateChat (chatMsg\<lparr>pm_SenderRemarkName := remark\<rparr>)))) }) })"

definition MQAddFriend :: "svc \<Rightarrow> nat \<Rightarrow> string \<Rightarrow> handler" where
  "MQAddFriend srv c msg =
     request (un_MQAddFriend srv) msg (\<lambda>_. skip)
       (\<lambda>(p, senderNickName). case p of
          None \<Rightarrow> skip
        | Some addFriend \<Rightarrow> do {
            acc \<leftarrow> GetAccountId c;
            online \<leftarrow> IsUserOnline srv acc;
            whenM online (do {
              now \<leftarrow> timeNow srv;
              url \<leftarrow> GetUserHeadPortraitUrl srv (af_SenderId addFriend);
              SendPbMsg srv c NetMsgId_S2CRecvAddFriend
                (Fri (S2CRecvAddFriend (af_SenderId addFriend) (af_ReceiverId addFriend) (micros now)
                  senderNickName url)) }) })"

definition MQAgreeBecomeFriend :: "svc \<Rightarrow> nat \<Rightarrow> string \<Rightarrow> handler" where
  "MQAgreeBecomeFriend srv c msg =
     request (un_MQAgreeBecomeFriend srv) msg (\<lambda>_. skip)
       (\<lambda>(p, friendNickName). case p of
          None \<Rightarrow> skip
        | Some agree \<Rightarrow> do {
            let receiverId = ag_ReceiverId agree in do {
            isF \<leftarrow> isFriendM c receiverId;
            whenM (\<not> isF) (do {
              modCli c (BeFriend receiverId);
              SaveContactInfo srv c;
              SaveFriendInfoToRedis srv c });
            acc \<leftarrow> GetAccountId c;
            _ \<leftarrow> db srv (SqlExec ''delete from friend_verification where friend_id = ? and account_id = ?''
                   [AInt acc, AInt receiverId]);
            url \<leftarrow> GetUserHeadPortraitUrl srv receiverId;
            SendPbMsg srv c NetMsgId_S2CRecvAgreeBecomeFriend
              (Fri (S2CRecvAgreeBecomeFriend (ag_SenderId agree) receiverId friendNickName url)) } })"

definition MQDeleteFriend :: "svc \<Rightarrow> nat \<Rightarrow> string \<Rightarrow> handler" where
  "MQDeleteFriend srv c msg =
     request (un_FriendId srv) msg (\<lambda>_. skip)
       (\<lambda>friendId. SendPbMsg srv c NetMsgId_S2CDeleteFriend (Fri (S2CDeleteFriend friendId)))"

section \<open>Chat groups\<close>

definition MQCreateChatGroup :: "svc \<Rightarrow> nat \<Rightarrow> string \<Rightarrow> handler" where
  "MQCreateChatGroup srv c msg =
     request (un_MQCreateChatGroup srv) msg (\<lambda>_. skip)
       (\<lambda>p. case p of
          None \<Rightarrow> skip
        | Some ccg \<Rightarrow> do {
            publishJoin srv c (cc_ChatGroupId ccg);
            SendPbMsg srv c NetMsgId_S2CRecvCreateChatGroup (Grp (S2CCreateChatGroup ccg)) })"

definition MQReqJoinChatGroup :: "svc \<Rightarrow> nat \<Rightarrow> string \<Rightarrow> handler" where
  "MQReqJoinChatGroup srv c msg =
     request (un_MQReqJoinChatGroup srv) msg (\<lambda>_. skip)
       (\<lambda>(rjcg, reqUid). SendPbMsg srv c NetMsgId_S2CSomeOneReqJoinChatGroup
          (Grp (S2CSomeOneReqJoinChatGroup rjcg reqUid)))"

definition MQManagerAgreeSomeOneReqJoinChatGroup :: "svc \<Rightarrow> nat \<Rightarrow> string \<Rightarrow> handler" where
  "MQManagerAgreeSomeOneReqJoinChatGroup srv c msg =
     request (un_MQManagerAgree srv) msg (\<lambda>_. skip)
       (\<lambda>(groupId, userId, nick). SendPbMsg srv c NetMsgId_S2CManagerAgreeSomeOneReqJoinChatGroup
          (Grp (S2CManagerAgreeSomeOneReqJoinChatGroup groupId userId nick)))"

definition S2CManagerAgreeJoinChatGroupH :: "svc \<Rightarrow> nat \<Rightarrow> string \<Rightarrow> handler" where
  "S2CManagerAgreeJoinChatGroupH srv c msg =
     request (un_ChatGroupId srv) msg (\<lambda>_. skip)
       (\<lambda>groupId. SendPbMsg srv c NetMsgId_S2CManagerAgreeJoinChatGroup
          (Grp (S2CManagerAgreeJoinChatGroup groupId)))"

definition MQRefuseSomeOneReqJoinChatGroup :: "svc \<Rightarrow> nat \<Rightarrow> string \<Rightarrow> handler" where
  "MQRefuseSomeOneReqJoinChatGroup srv c msg =
     request (un_MQRefuse srv) msg (\<lambda>_. skip)
       (\<lambda>(groupId, _, text). SendPbMsg srv c NetMsgId_S2CManagerRefuseJoinChatGroup
          (Grp (S2CManagerRefuseJoinChatGroup groupId text)))"

definition MQInviteJoinChatGroup :: "svc \<Rightarrow> nat \<Rightarrow> string \<Rightarrow> handler" where
  "MQInviteJoinChatGroup srv c msg =
     requestP (un_MQInviteJoinChatGroup srv) msg (\<lambda>_. ret Returned)
       (\<lambda>p. case p of
          None \<Rightarrow> ret Panicked
        | Some i \<Rightarrow> do {
            publishJoin srv c (ij_ChatGroupId i);
            SendPbMsg srv c NetMsgId_S2CInviteYouJoinChatGroup (Grp (S2CInviteYouJoinChatGroup (Some i)));
            ret Returned })"

definition MQCancelChatGroup :: "svc \<Rightarrow> nat \<Rightarrow> string \<Rightarrow> handler" where
  "MQCancelChatGroup srv c msg =
     request (un_MQCancelChatGroup srv) msg (\<lambda>_. skip)
       (\<lambda>p. SendPbMsg srv c NetMsgId_S2CSomeOneCancelChatGroup (Grp (S2CSomeOneCancelChatGroup p)))"

definition MQUnChatGroup :: "svc \<Rightarrow> nat \<Rightarrow> string \<Rightarrow> handler" where
  "MQUnChatGroup srv c msg =
     request (un_ChatGroupId srv) msg (\<lambda>_. skip)
       (\<lambda>groupId. SendPbMsg srv c NetMsgId_S2CUnChatGroup (Grp (S2CUnChatGroup groupId)))"

definition MQChatGroupKick :: "svc \<Rightarrow> nat \<Rightarrow> string \<Rightarrow> handler" where
  "MQChatGroupKick srv c msg =
     requestP (un_MQChatGroupKick srv) msg (\<lambda>_. ret Returned)
       (\<lambda>p. case p of
          None \<Rightarrow> ret Panicked
        | Some k \<Rightarrow> do {
            acc \<leftarrow> GetAccountId c;
            SendPbMsg srv c
              (if acc = ki_UserId k then NetMsgId_S2CKickedByChatGroupManager else NetMsgId_S2CManagerKickSomeOne)
              (Grp (S2CKickedByChatGroupManager (Some k)));
            ret Returned })"

section \<open>Weibo\<close>

text \<open>Whether \<open>someoneId\<close> is known not to be on the black list of \<open>otherId\<close>.\<close>

definition notListed :: "svc \<Rightarrow> int \<Rightarrow> int \<Rightarrow> (server, bool) state" where
  "notListed srv someoneId otherId = do {
     r \<leftarrow> IsSomeoneInOtherBlackList srv someoneId otherId;
     ret (snd r = None \<and> \<not> fst r) }"

text \<open>Whether the own account is in the stored friend set of \<open>u\<close>.\<close>

definition friendOf :: "svc \<Rightarrow> nat \<Rightarrow> int \<Rightarrow> (server, bool) state" where
  "friendOf srv c u = do {
     sa \<leftarrow> GetStrAccount c;
     r \<leftarrow> rdsInt srv (RIsSetMember RdsKeyPrefixFriendSet (itoa u) (RStr sa));
     ret (snd r = None \<and> fst r = 1) }"

definition notBlackM :: "nat \<Rightarrow> int \<Rightarrow> (server, bool) state" where
  "notBlackM c u = do { b \<leftarrow> isBlackListM c u; ret (\<not> b) }"

definition MQPublishWeibo :: "svc \<Rightarrow> nat \<Rightarrow> string \<Rightarrow> handler" where
  "MQPublishWeibo srv c msg =
     requestP (un_MQPublishWeibo srv) msg (\<lambda>_. ret Returned)
       (\<lambda>p. case p of
          None \<Rightarrow> ret Panicked
        | Some w \<Rightarrow> do {
            acc \<leftarrow> GetAccountId c;
            let pub = we_PublisherId w in do {
            ifAll [isFriendM c pub, friendOf srv c pub, notListed srv pub acc, notListed srv acc pub,
                   DoesLookFriendWeiboRds srv acc pub, DoesAllowFriendLookMyWeiboRds srv pub acc]
              (SendPbMsg srv c NetMsgId_S2CPublishWeibo (Wei (S2CPublishWeibo w)));
            ret Returned } })"

definition MQLikeWeibo :: "svc \<Rightarrow> nat \<Rightarrow> string \<Rightarrow> handler" where
  "MQLikeWeibo srv c msg =
     requestP (un_MQLikeWeibo srv) msg (\<lambda>_. ret Returned)
       (\<lambda>p. case p of
          None \<Rightarrow> ret Panicked
        | Some l \<Rightarrow> do {
            acc \<leftarrow> GetAccountId c;
            let liker = lw_LikerId l in do {
            ifAll [isFriendM c liker, notBlackM c liker, notListed srv liker acc,
                   DoesLookFriendWeiboRds srv acc liker, DoesAllowFriendLookMyWeiboRds srv liker acc]
              (SendPbMsg srv c NetMsgId_S2CLikeWeibo (Wei (S2CLikeWeibo l)));
            ret Returned } })"

definition MQReplyWeibo :: "svc \<Rightarrow> nat \<Rightarrow> string \<Rightarrow> handler" where
  "MQReplyWeibo srv c msg =
     requestP (un_MQReplyWeibo srv) msg (\<lambda>_. ret Returned)
       (\<lambda>p. case p of
          None \<Rightarrow> ret Panicked
        | Some r \<Rightarrow> do {
            acc \<leftarrow> GetAccountId c;
            let by = rw_CommentatorId r; to = rw_BeCommentatorId r in do {
            ifAll [isFriendM c by, if to = acc then ret True else isFriendM c to,
                   notBlackM c by, notBlackM c to,
                   DoesLookFriendWeiboRds srv by acc, DoesAllowFriendLookMyWeiboRds srv to acc]
              (SendPbMsg srv c NetMsgId_S2CReplyWeibo (Wei (S2CReplyWeibo r)));
            ret Returned } })"

definition MQDeleteWeibo :: "svc \<Rightarrow> nat \<Rightarrow> string \<Rightarrow> handler" where
  "MQDeleteWeibo srv c msg =
     request (un_MQDeleteWeibo srv) msg (\<lambda>_. skip)
       (\<lambda>p. do {
          acc \<leftarrow> GetAccountId c;
          let u = dw_FriendId p in
          ifAll [isFriendM c u, friendOf srv c u, notListed srv acc u, notListed srv acc u,
                 DoesLookFriendWeiboRds srv acc u, DoesLookFriendWeiboRds srv u acc]
            (SendPbMsg srv c NetMsgId_S2CDeleteWeibo (Wei (S2CDeleteWeibo u (dw_WeiboId p)))) })"

section \<open>The process invariant\<close>

lemma keeps_wf_mq_parts [keeps_rules]:
  "keeps (inv X) (senderRemark srv c u)"
  "keeps (inv X) (notListed srv u v)"
  "keeps (inv X) (friendOf srv c u)"
  "keeps (inv X) (notBlackM c u)"
  unfolding senderRemark_def notListed_def friendOf_def notBlackM_def
  by (intro keeps_rules)+

lemma keeps_wf_mq_chat [keeps_rules]:
  "keeps (inv X) (MQPrivateChat srv c msg)"
  "keeps (inv X) (MQAddFriend srv c msg)"
  "keeps (inv X) (MQAgreeBecomeFriend srv c msg)"
  "keeps (inv X) (MQDeleteFriend srv c msg)"
  unfolding MQPrivateChat_def MQAddFriend_def MQAgreeBecomeFriend_def MQDeleteFriend_def Let_def
  by (intro keeps_rules)+

lemma keeps_wf_mq_groups [keeps_rules]:
  "keeps (inv X) (MQCreateChatGroup srv c msg)"
  "keeps (inv X) (MQReqJoinChatGroup srv c msg)"
  "keeps (inv X) (MQManagerAgreeSomeOneReqJoinChatGroup srv c msg)"
  "keeps (inv X) (S2CManagerAgreeJoinChatGroupH srv c msg)"
  "keeps (inv X) (MQRefuseSomeOneReqJoinChatGroup srv c msg)"
  "keeps (inv X) (MQInviteJoinChatGroup srv c msg)"
  "keeps (inv X) (MQCancelChatGroup srv c msg)"
  "keeps (inv X) (MQUnChatGroup srv c msg)"
  "keeps (inv X) (MQChatGroupKick srv c msg)"
  unfolding MQCreateChatGroup_def MQReqJoinChatGroup_def MQManagerAgreeSomeOneReqJoinChatGroup_def
    S2CManagerAgreeJoinChatGroupH_def MQRefuseSomeOneReqJoinChatGroup_def MQInviteJoinChatGroup_def
    MQCancelChatGroup_def MQUnChatGroup_def MQChatGroupKick_def
  by (intro keeps_rules)+

lemma keeps_wf_mq_weibo [keeps_rules]:
  "keeps (inv X) (MQPublishWeibo srv c msg)"
  "keeps (inv X) (MQLikeWeibo srv c msg)"
  "keeps (inv X) (MQReplyWeibo srv c msg)"
  "keeps (inv X) (MQDeleteWeibo srv c msg)"
  unfolding MQPublishWeibo_def MQLikeWeibo_def MQReplyWeibo_def MQDeleteWeibo_def Let_def
  by (intro keeps_rules)+

end
