(* ===== verification/WeiboStore.thy ===== *)
theory WeiboStore
  imports WeiboRds GroupAdmin
begin

text \<open>
  The storage functions of msg-server/client/weibo.go and weiboCover.go: the MySQL transactions
  and the Redis keys of weibos, likes, comments and covers.
\<close>

section \<open>Transactions that answer an error\<close>

text \<open>
  Steps with the error code that the deferred rollback looks at; the first one that fails ends
  the function with its error.
\<close>

fun txSteps :: "(int \<times> (server, goerr option) state) list \<Rightarrow> (server, int \<times> goerr option) state" where
  "txSteps [] = ret (0, None)"
| "txSteps ((code, m) # r) = do {
     err \<leftarrow> m;
     if err \<noteq> None then ret (code, err) else txSteps r }"

definition inTxE :: "svc \<Rightarrow> (server, int \<times> goerr option) state \<Rightarrow> (server, goerr option) state" where
  "inTxE srv body = do {
     err \<leftarrow> db srv TxBegin;
     r \<leftarrow> (if err \<noteq> None then ret err
          else do {
            (errCode, e) \<leftarrow> body;
            whenM (errCode \<noteq> 0) (do { _ \<leftarrow> db srv TxRollback; skip });
            ret e });
     _ \<leftarrow> db srv TxClose;
     ret r }"

definition errOf :: "('s, 'a \<times> goerr option) state \<Rightarrow> ('s, goerr option) state" where
  "errOf m = do { r \<leftarrow> m; ret (snd r) }"

definition txInsert :: "svc \<Rightarrow> row \<Rightarrow> (server, goerr option) state" where
  "txInsert srv r = errOf (dbInsert srv (TxInsert r))"

text \<open>Calls in a row; the first error is answered.\<close>

fun firstErr :: "(server, goerr option) state list \<Rightarrow> (server, goerr option) state" where
  "firstErr [] = ret None"
| "firstErr (m # ms) = do { err \<leftarrow> m; if err \<noteq> None then ret err else firstErr ms }"

section \<open>MySQL\<close>

definition MsgActionWeibo_publish_weibo :: int where "MsgActionWeibo_publish_weibo = 0"
definition MsgActionWeibo_delete_weibo :: int where "MsgActionWeibo_delete_weibo = 1"
definition MsgActionWeibo_like_weibo :: int where "MsgActionWeibo_like_weibo = 2"
definition MsgActionWeibo_cancel_like_weibo :: int where "MsgActionWeibo_cancel_like_weibo = 3"
definition MsgActionWeibo_comment_weibo :: int where "MsgActionWeibo_comment_weibo = 4"
definition MsgActionWeibo_delete_comment_weibo :: int where "MsgActionWeibo_delete_comment_weibo = 5"

text \<open>A failed commit rolls back, but the function still answers nil.\<close>

definition publishWeiboDB :: "svc \<Rightarrow> nat \<Rightarrow> weibo \<Rightarrow> int \<Rightarrow> (server, goerr option) state" where
  "publishWeiboDB srv c w dateTime = inTxE srv (do {
     acc \<leftarrow> GetAccountId c;
     (code, err) \<leftarrow> txSteps
       [(1, txInsert srv (WeiboRow \<lparr>wr_AccountId = acc, wr_PhotosBin = we_UrlBin w, wr_MsgContent = we_Text w,
              wr_WeiboId = we_WeiboId w, wr_MsgDatetime = dateTime, wr_ThumbupTimes = 0\<rparr>)),
        (2, txInsert srv (WeiboActionLog acc (we_WeiboId w) MsgActionWeibo_publish_weibo acc dateTime))];
     (if err \<noteq> None then ret (code, err)
      else do {
        err \<leftarrow> db srv TxCommit;
        ret (if err \<noteq> None then 3 else 0, None) }) })"

text \<open>A weibo that is not in the table is a zero row, not an error.\<close>

definition getWeiboDB :: "svc \<Rightarrow> int \<Rightarrow> (server, weiboRow option \<times> goerr option) state" where
  "getWeiboDB srv weiboId = do {
     r \<leftarrow> dbGetWeibo srv (OrmGet ''weibo_id = ?'' [AInt weiboId]);
     ret (if snd r \<noteq> None then (None, snd r) else (Some (snd (fst r)), None)) }"

definition likeWeiboDB :: "svc \<Rightarrow> nat \<Rightarrow> weiboRow \<Rightarrow> int \<Rightarrow> (server, goerr option) state" where
  "likeWeiboDB srv c w likeTime = inTxE srv (do {
     acc \<leftarrow> GetAccountId c;
     txSteps
       [(1, txInsert srv (WeiboActionLog acc (wr_WeiboId w) MsgActionWeibo_like_weibo (wr_AccountId w) likeTime)),
        (2, txInsert srv (WeiboLike acc (wr_WeiboId w) acc likeTime)),
        (3, db srv (TxDBExec ''UPDATE weibo SET thumbup_times = thumbup_times + 1 WHERE weibo_id = ?''
              [AInt (wr_WeiboId w)])),
        (4, db srv TxCommit)] })"

definition cancelLikeWeiboDB :: "svc \<Rightarrow> nat \<Rightarrow> weibo \<Rightarrow> int \<Rightarrow> (server, goerr option) state" where
  "cancelLikeWeiboDB srv c w unlikeTime = inTxE srv (do {
     acc \<leftarrow> GetAccountId c;
     txSteps
       [(1, txInsert srv (WeiboActionLog acc (we_WeiboId w) MsgActionWeibo_cancel_like_weibo
              (we_PublisherId w) unlikeTime)),
        (2, db srv (TxDBExec ''DELETE FROM weibo_like WHERE weibo_id = ? AND liker_id = ?''
              [AInt (we_WeiboId w), AInt acc])),
        (3, db srv (TxDBExec ''UPDATE weibo SET thumbup_times = thumbup_times - 1 WHERE weibo_id = ?''
              [AInt (we_WeiboId w)])),
        (4, db srv TxCommit)] })"

definition replyWeiboDB :: "svc \<Rightarrow> nat \<Rightarrow> weibo \<Rightarrow> replyWeibo \<Rightarrow> int \<Rightarrow> (server, goerr option) state" where
  "replyWeiboDB srv c w r replyTime = inTxE srv (do {
     acc \<leftarrow> GetAccountId c;
     txSteps
       [(1, txInsert srv (WeiboActionLog acc (we_WeiboId w) MsgActionWeibo_comment_weibo
              (we_PublisherId w) replyTime)),
        (2, txInsert srv (WeiboReply (we_PublisherId w) (we_WeiboId w) (rw_CommentedId r)
              (rw_CommentatorId r) (rw_BeCommentedId r) (rw_BeCommentatorId r) (rw_CommentContent r) replyTime)),
        (3, db srv TxCommit)] })"

definition deleteWeiboReplyDB :: "svc \<Rightarrow> nat \<Rightarrow> weibo \<Rightarrow> int \<Rightarrow> int \<Rightarrow> (server, goerr option) state" where
  "deleteWeiboReplyDB srv c w commentId deleteReplyTime = inTxE srv (do {
     acc \<leftarrow> GetAccountId c;
     txSteps
       [(1, txInsert srv (WeiboActionLog acc (we_WeiboId w) MsgActionWeibo_delete_comment_weibo
              (we_PublisherId w) deleteReplyTime)),
        (2, db srv (TxDBExec ''UPDATE weibo_reply SET status = 1 WHERE weibo_id = ? AND comment_id = ?''
              [AInt (we_WeiboId w), AInt commentId])),
        (3, db srv TxCommit)] })"

text \<open>
  A weibo that is not in the table sets the error code and goes on: the zero row is inserted and
  committed, then the deferred function rolls back.
\<close>

definition deleteWeiboDB :: "svc \<Rightarrow> nat \<Rightarrow> weibo \<Rightarrow> int \<Rightarrow> (server, goerr option) state" where
  "deleteWeiboDB srv c w deleteTime = inTxE srv (let id = we_WeiboId w in do {
     r \<leftarrow> dbGetWeibo srv (TxGet ''weibo_id = ?'' [AInt id]);
     (if snd r \<noteq> None then ret (1, snd r)
      else do {
        (code, err) \<leftarrow> txSteps
          [(3, db srv (TxDBExec ''DELETE FROM weibo WHERE weibo_id = ?'' [AInt id])),
           (4, txInsert srv (WeiboDeleted (snd (fst r)) deleteTime)),
           (5, db srv (TxDBExec ''UPDATE weibo_reply SET deleted = 1 WHERE weibo_id = ?'' [AInt id])),
           (6, db srv (TxDBExec ''UPDATE weibo_like SET deleted = 1 WHERE weibo_id = ?'' [AInt id])),
           (7, db srv TxCommit)];
        ret (if err = None \<and> \<not> fst (fst r) then 2 else code, err) }) })"

text \<open>
  Replacing a cover logs and deletes the old one first. When the log's insertion reports no
  error but not one row either, the function rolls back and answers nil.
\<close>

definition setWeiboCoverDB :: "svc \<Rightarrow> nat \<Rightarrow> string \<Rightarrow> (server, goerr option) state" where
  "setWeiboCoverDB srv c picAddr = inTxE srv (do {
     acc \<leftarrow> GetAccountId c;
     r \<leftarrow> dbGetCover srv (TxGet ''account_id = ?'' [AInt acc]);
     (if snd r \<noteq> None then ret (1, snd r)
      else do {
        old \<leftarrow> (if fst (fst r) then do {
                 n \<leftarrow> dbInsert srv (TxInsert (WeiboCoverDeleteLog (snd (fst r))));
                 (if fst n \<noteq> 1 \<or> snd n \<noteq> None then ret (Some (2, snd n))
                  else do {
                    err \<leftarrow> db srv (TxDBExec ''DELETE FROM weibo_cover WHERE account_id = ?'' [AInt acc]);
                    ret (if err \<noteq> None then Some (3, err) else None) }) }
               else ret None);
        (case old of
           Some e \<Rightarrow> ret e
         | None \<Rightarrow> do {
             now \<leftarrow> timeNow srv;
             txSteps
               [(4, txInsert srv (WeiboCover \<lparr>wc_AccountId = acc, wc_CoverUrl = picAddr, wc_DateTime = now,
                      wc_ThumbupTimes = 0\<rparr>)),
                (3, db srv TxCommit)] }) }) })"

definition likeWeiboCoverDB :: "svc \<Rightarrow> (server, goerr option) state" where
  "likeWeiboCoverDB srv = db srv (SqlExec ''UPDATE weibo_cover SET thumbup_times = thumbup_times + 1'' [])"

section \<open>Redis\<close>

definition weiboKey :: "int \<Rightarrow> int \<Rightarrow> string" where
  "weiboKey pub weiboId = itoa pub @ '':'' @ itoa weiboId"

definition publishWeiboRds :: "svc \<Rightarrow> nat \<Rightarrow> int \<Rightarrow> int \<Rightarrow> string \<Rightarrow> (server, goerr option) state" where
  "publishWeiboRds srv c weiboId timeStamp weibo_bin = do {
     sa \<leftarrow> GetStrAccount c;
     let key = sa @ '':'' @ itoa weiboId in
     firstErr
       [rdsStatus srv (RSet RdsKeyPrefixWeiboString key (RStr weibo_bin)),
        errOf (rdsInt srv (RDo RdsKeyPrefixWeiboList ''LPUSH''
          [RStr (addPrefix srv RdsKeyPrefixWeiboList sa), RStr (itoa weiboId)])),
        errOf (rdsInt srv (RAddSet RdsKeyPrefixWeiboSet sa (RStr (itoa weiboId)))),
        rdsStatus srv (RZAdd RdsKeyPrefixWeiboZset sa (RStr key) (RInt timeStamp))] }"

text \<open>An entry that cannot be decoded is answered as nil without an error.\<close>

definition getWeiboRds :: "svc \<Rightarrow> int \<Rightarrow> int \<Rightarrow> (server, weibo option \<times> goerr option) state" where
  "getWeiboRds srv userId weiboId = do {
     r \<leftarrow> rdsStr srv (RGet RdsKeyPrefixWeiboString (weiboKey userId weiboId));
     (case r of
        (_, Some err) \<Rightarrow> ret (None, Some err)
      | (str, None) \<Rightarrow> (case un_Weibo srv str of (ok, w) \<Rightarrow> ret (if ok then Some w else None, None))) }"

definition likeWeiboRds :: "svc \<Rightarrow> nat \<Rightarrow> weiboRow \<Rightarrow> int \<Rightarrow> (server, goerr option) state" where
  "likeWeiboRds srv c w timeStamp = do {
     sa \<leftarrow> GetStrAccount c;
     let key = weiboKey (wr_AccountId w) (wr_WeiboId w) in
     firstErr
       [errOf (rdsInt srv (RHSet RdsKeyPrefixWeiboLikeHash key sa (RInt timeStamp))),
        errOf (rdsInt srv (RAddSet RdsKeyPrefixWeiboLikeSet key (RStr sa)))] }"

definition cancelLikeWeiboRds :: "svc \<Rightarrow> nat \<Rightarrow> weibo \<Rightarrow> (server, goerr option) state" where
  "cancelLikeWeiboRds srv c w = do {
     sa \<leftarrow> GetStrAccount c;
     let key = weiboKey (we_PublisherId w) (we_WeiboId w) in
     firstErr
       [errOf (rdsInt srv (RHDel RdsKeyPrefixWeiboLikeHash key [sa, sa])),
        errOf (rdsInt srv (RRemSet RdsKeyPrefixWeiboLikeSet key (RStr sa)))] }"

definition deleteWeiboAllLikeRds :: "svc \<Rightarrow> nat \<Rightarrow> string \<Rightarrow> (server, goerr option) state" where
  "deleteWeiboAllLikeRds srv c weiboIdStr = do {
     sa \<leftarrow> GetStrAccount c;
     firstErr
       [errOf (rdsInt srv (RDel RdsKeyPrefixWeiboLikeSet (sa @ '':'' @ weiboIdStr))),
        errOf (rdsInt srv (RDel RdsKeyPrefixWeiboLikeHash (sa @ '':'' @ weiboIdStr)))] }"

definition getLikeWeiboRdsIds :: "svc \<Rightarrow> int \<Rightarrow> int \<Rightarrow> (server, string list option \<times> goerr option) state" where
  "getLikeWeiboRdsIds srv pub weiboId = rdsList srv (RSetMembers RdsKeyPrefixWeiboLikeSet (weiboKey pub weiboId))"

definition replyWeiboRds :: "svc \<Rightarrow> nat \<Rightarrow> weibo \<Rightarrow> replyWeibo \<Rightarrow> (server, goerr option) state" where
  "replyWeiboRds srv c w r = do {
     sa \<leftarrow> GetStrAccount c;
     let key = weiboKey (we_PublisherId w) (we_WeiboId w) in
     firstErr
       [errOf (rdsInt srv (RAddSet RdsKeyPrefixWeiboReplySet key (RStr sa))),
        (case marshal srv (Sto (PB_ReplyWeibo r)) of
           None \<Rightarrow> ret (Some (Err ''protobuf marshal struct msg_struct.ReplyWeibo failed''))
         | Some bin \<Rightarrow> errOf (rdsInt srv (RDo RdsKeyPrefixWeiboReplyList ''RPUSH''
             [RStr (addPrefix srv RdsKeyPrefixWeiboReplyList key), RStr bin])))] }"

text \<open>A comment is shown when the viewer is, or is a friend of, its author and its addressee.\<close>

definition seesReply :: "client \<Rightarrow> replyWeibo \<Rightarrow> bool" where
  "seesReply cl r \<longleftrightarrow>
     (ac_AccountId (account cl) = rw_CommentatorId r \<or> IsFriend (rw_CommentatorId r) cl)
   \<and> (ac_AccountId (account cl) = rw_BeCommentatorId r \<or> IsFriend (rw_BeCommentatorId r) cl)"

definition getReplyWeiboRds :: "svc \<Rightarrow> nat \<Rightarrow> weibo \<Rightarrow> (server, string list \<times> goerr option) state" where
  "getReplyWeiboRds srv c w = do {
     r \<leftarrow> rdsList srv (RDo RdsKeyPrefixWeiboReplyList ''LRANGE''
            [RStr (addPrefix srv RdsKeyPrefixWeiboReplyList (weiboKey (we_PublisherId w) (we_WeiboId w))),
             RStr ''0'', RStr ''-1'']);
     cl \<leftarrow> cli c;
     (case r of
        (_, Some err) \<Rightarrow> ret ([], Some err)
      | (inters, None) \<Rightarrow>
          ret (filter (\<lambda>b. case un_ReplyWeibo srv b of (ok, rw) \<Rightarrow> ok \<and> seesReply cl rw)
                 (case inters of Some l \<Rightarrow> l | None \<Rightarrow> []), None)) }"

definition deleteWeiboSomeoneReplyRds :: "svc \<Rightarrow> nat \<Rightarrow> weibo \<Rightarrow> string \<Rightarrow> (server, goerr option) state" where
  "deleteWeiboSomeoneReplyRds srv c w bytes = do {
     sa \<leftarrow> GetStrAccount c;
     let key = weiboKey (we_PublisherId w) (we_WeiboId w) in
     firstErr
       [errOf (rdsInt srv (RRemSet RdsKeyPrefixWeiboReplySet key (RStr sa))),
        errOf (rdsInt srv (RDo RdsKeyPrefixWeiboReplyList ''LREM''
          [RStr (addPrefix srv RdsKeyPrefixWeiboReplyList key), RInt 0, RStr bytes]))] }"

definition deleteWeiboAllReplyRds :: "svc \<Rightarrow> nat \<Rightarrow> string \<Rightarrow> (server, goerr option) state" where
  "deleteWeiboAllReplyRds srv c weiboIdStr = do {
     sa \<leftarrow> GetStrAccount c;
     firstErr
       [errOf (rdsInt srv (RDel RdsKeyPrefixWeiboReplySet (sa @ '':'' @ weiboIdStr))),
        errOf (rdsInt srv (RDel RdsKeyPrefixWeiboReplyList (sa @ '':'' @ weiboIdStr)))] }"

definition deleteWeiboRds :: "svc \<Rightarrow> nat \<Rightarrow> weibo \<Rightarrow> (server, goerr option) state" where
  "deleteWeiboRds srv c w = do {
     sa \<leftarrow> GetStrAccount c;
     let idStr = itoa (we_WeiboId w) in
     firstErr
       [errOf (rdsInt srv (RDo RdsKeyPrefixWeiboList ''LREM''
          [RStr (addPrefix srv RdsKeyPrefixWeiboList sa), RStr ''1'', RStr idStr])),
        errOf (rdsInt srv (RRemSet RdsKeyPrefixWeiboSet sa (RStr idStr))),
        errOf (rdsInt srv (RDel RdsKeyPrefixWeiboString (sa @ '':'' @ idStr))),
        errOf (rdsInt srv (RZRem RdsKeyPrefixWeiboZset sa (RStr (sa @ '':'' @ idStr)))),
        deleteWeiboAllLikeRds srv c idStr,
        deleteWeiboAllReplyRds srv c idStr] }"

definition getLikeAndReplyWeiboRdsIds ::
    "svc \<Rightarrow> int \<Rightarrow> int \<Rightarrow> (server, string list option \<times> goerr option) state" where
  "getLikeAndReplyWeiboRdsIds srv weiboId pub =
     rdsList srv (RDo RdsKeyPrefixWeiboSet ''SUNION''
       [RStr (addPrefix srv RdsKeyPrefixWeiboReplySet (weiboKey pub weiboId)),
        RStr (addPrefix srv RdsKeyPrefixWeiboLikeSet (weiboKey pub weiboId))])"

definition setWeiboCoverRds :: "svc \<Rightarrow> nat \<Rightarrow> string \<Rightarrow> (server, goerr option) state" where
  "setWeiboCoverRds srv c picAddr = do {
     sa \<leftarrow> GetStrAccount c;
     firstErr
       [errOf (rdsInt srv (RDel RdsKeyPrefixWeiboCoverLiker sa)),
        rdsStatus srv (RSet RdsKeyPrefixWeiboCover sa (RStr picAddr))] }"

definition likeWeiboCoverRds :: "svc \<Rightarrow> nat \<Rightarrow> int \<Rightarrow> (server, goerr option) state" where
  "likeWeiboCoverRds srv c friendId = do {
     acc \<leftarrow> GetAccountId c;
     errOf (rdsInt srv (RAddSet RdsKeyPrefixWeiboCoverLiker (itoa friendId) (RInt acc))) }"

definition GetWeiboCoverRds :: "svc \<Rightarrow> int \<Rightarrow> (server, string \<times> goerr option) state" where
  "GetWeiboCoverRds srv userId = rdsStr srv (RGet RdsKeyPrefixWeiboCover (itoa userId))"

definition DoesLikeFriendWeiboCover :: "svc \<Rightarrow> nat \<Rightarrow> int \<Rightarrow> (server, bool \<times> goerr option) state" where
  "DoesLikeFriendWeiboCover srv c friendId = do {
     sa \<leftarrow> GetStrAccount c;
     r \<leftarrow> rdsInt srv (RIsSetMember RdsKeyPrefixWeiboCoverLiker (itoa friendId) (RStr sa));
     ret (fst r = 1, snd r) }"

section \<open>The process invariant\<close>

lemma keeps_txSteps [keeps_rules]: "list_all (\<lambda>(_, m). keeps I m) ms \<Longrightarrow> keeps I (txSteps ms)"
  by (induction ms) (auto intro!: keeps_rules)

lemma keeps_firstErr [keeps_rules]: "list_all (keeps I) ms \<Longrightarrow> keeps I (firstErr ms)"
  by (induction ms) (auto intro!: keeps_rules)

lemma keeps_all_lists [keeps_rules]:
  "list_all (keeps I) []"
  "keeps I (g :: (server, 'a) state) \<Longrightarrow> list_all (keeps I) gs \<Longrightarrow> list_all (keeps I) (g # gs)"
  "list_all (\<lambda>(_ :: int, m :: (server, 'a) state). keeps I m) []"
  "keeps I (m :: (server, 'a) state) \<Longrightarrow> list_all (\<lambda>(_ :: int, m). keeps I m) ms
     \<Longrightarrow> list_all (\<lambda>(_, m). keeps I m) ((k, m) # ms)"
  by simp_all

lemma keeps_errOf [keeps_rules]: "keeps I m \<Longrightarrow> keeps I (errOf m)"
  unfolding errOf_def by (intro keeps_rules)

lemma keeps_wf_inTxE [keeps_rules]: "keeps (inv X) m \<Longrightarrow> keeps (inv X) (inTxE srv m)"
  unfolding inTxE_def by (intro keeps_rules)

lemma keeps_wf_weibo_db [keeps_rules]:
  "keeps (inv X) (publishWeiboDB srv c w t)"
  "keeps (inv X) (getWeiboDB srv i)"
  "keeps (inv X) (likeWeiboDB srv c wr t)"
  "keeps (inv X) (cancelLikeWeiboDB srv c w t)"
  "keeps (inv X) (replyWeiboDB srv c w r t)"
  "keeps (inv X) (deleteWeiboReplyDB srv c w i t)"
  "keeps (inv X) (deleteWeiboDB srv c w t)"
  "keeps (inv X) (setWeiboCoverDB srv c p)"
  "keeps (inv X) (likeWeiboCoverDB srv)"
  unfolding publishWeiboDB_def getWeiboDB_def likeWeiboDB_def cancelLikeWeiboDB_def replyWeiboDB_def
    deleteWeiboReplyDB_def deleteWeiboDB_def setWeiboCoverDB_def likeWeiboCoverDB_def txInsert_def Let_def
  by (intro keeps_rules)+

lemma keeps_wf_weibo_rds [keeps_rules]:
  "keeps (inv X) (publishWeiboRds srv c i t b)"
  "keeps (inv X) (getWeiboRds srv u i)"
  "keeps (inv X) (likeWeiboRds srv c wr t)"
  "keeps (inv X) (cancelLikeWeiboRds srv c w)"
  "keeps (inv X) (deleteWeiboAllLikeRds srv c str)"
  "keeps (inv X) (getLikeWeiboRdsIds srv u i)"
  "keeps (inv X) (replyWeiboRds srv c w r)"
  "keeps (inv X) (getReplyWeiboRds srv c w)"
  "keeps (inv X) (deleteWeiboSomeoneReplyRds srv c w b)"
  "keeps (inv X) (deleteWeiboAllReplyRds srv c str)"
  "keeps (inv X) (getLikeAndReplyWeiboRdsIds srv i u)"
  "keeps (inv X) (setWeiboCoverRds srv c p)"
  "keeps (inv X) (likeWeiboCoverRds srv c u)"
  "keeps (inv X) (GetWeiboCoverRds srv u)"
  "keeps (inv X) (DoesLikeFriendWeiboCover srv c u)"
  unfolding publishWeiboRds_def getWeiboRds_def likeWeiboRds_def cancelLikeWeiboRds_def
    deleteWeiboAllLikeRds_def getLikeWeiboRdsIds_def replyWeiboRds_def getReplyWeiboRds_def
    deleteWeiboSomeoneReplyRds_def deleteWeiboAllReplyRds_def getLikeAndReplyWeiboRdsIds_def
    setWeiboCoverRds_def likeWeiboCoverRds_def GetWeiboCoverRds_def DoesLikeFriendWeiboCover_def Let_def
  by (intro keeps_rules)+

lemma keeps_wf_deleteWeiboRds [keeps_rules]: "keeps (inv X) (deleteWeiboRds srv c w)"
  unfolding deleteWeiboRds_def Let_def by (intro keeps_rules)

end
