(* ===== verification/Weibo.thy ===== *)
theory Weibo
  imports WeiboStore
begin

text \<open>
  msg-server/client/weibo.go: publishing, deleting, liking, commenting and browsing weibos.
\<close>

section \<open>Publishing\<close>

definition WEIBO_TEXT_MAX_LENTH :: nat where "WEIBO_TEXT_MAX_LENTH = 2048"
definition WEIBO_PIC_MAX_LENTH :: nat where "WEIBO_PIC_MAX_LENTH = 9"
definition WEIBO_RADIO_MAX_LENTH :: nat where "WEIBO_RADIO_MAX_LENTH = 2"
definition WEIBO_REPLY_MAX_LENTH :: nat where "WEIBO_REPLY_MAX_LENTH = 2048"

text \<open>The checks of a post: the error code of the first that fails.\<close>

definition publishErr :: "c2sPublishWeibo \<Rightarrow> int option" where
  "publishErr p = (let ct = pw_ContentType p; n = length (pw_Url p) in
     if wrap32 ct < 0 \<or> 5 < wrap32 ct then Some MsgErrCode_publish_weibo_content_is_illegal
     else if ct AND MsgWeibo_text_only = MsgWeibo_text_only \<and> WEIBO_TEXT_MAX_LENTH < length (pw_Text p) then
       Some MsgErrCode_publish_weibo_text_out_of_limit
     else if ct AND MsgWeibo_picture_only = MsgWeibo_picture_only \<and> (WEIBO_PIC_MAX_LENTH < n \<or> n = 0) then
       Some MsgErrCode_publish_weibo_url_out_of_limit
     else if ct AND MsgWeibo_radio_only = MsgWeibo_radio_only \<and> (WEIBO_RADIO_MAX_LENTH < n \<or> n = 0) then
       Some MsgErrCode_publish_weibo_url_out_of_limit
     else None)"

text \<open>A friend hears of the weibo when it could be put into the friend's sorted set.\<close>

definition tellFriend :: "svc \<Rightarrow> nat \<Rightarrow> weibo \<Rightarrow> int \<Rightarrow> (server, unit) state" where
  "tellFriend srv c w friendId = do {
     sa \<leftarrow> GetStrAccount c;
     err \<leftarrow> rdsStatus srv (RZAdd RdsKeyPrefixWeiboZset (itoa friendId)
             (RStr (sa @ '':'' @ itoa (we_WeiboId w))) (RInt (we_SrvTimestamp w)));
     (if err \<noteq> None then skip
      else do {
        _ \<leftarrow> mqSendPbMsg srv friendId NetMsgId_MQPublishWeibo (MQ (MQPublishWeibo w));
        skip }) }"

definition publishWeiboMsg :: "svc \<Rightarrow> nat \<Rightarrow> c2sPublishWeibo \<Rightarrow> string \<Rightarrow> (server, unit) state" where
  "publishWeiboMsg srv c p urls_bin = do {
     now \<leftarrow> timeNow srv;
     cl \<leftarrow> cli c;
     let ts = micros now;
         w = \<lparr>we_WeiboId = ts, we_PublisherId = ac_AccountId (account cl),
              we_PublisherNickName = ac_NickName (account cl), we_Type = pw_ContentType p,
              we_Text = pw_Text p, we_UrlBin = urls_bin, we_SrvTimestamp = ts, we_BDelete = False\<rparr> in
     (case marshal srv (Sto (PB_Weibo w)) of
        None \<Rightarrow> SendErrorCode srv c MsgErrCode_publish_weibo_server_internal_error 0
      | Some bin \<Rightarrow> do {
          dateTime \<leftarrow> timeNow srv;
          err \<leftarrow> publishWeiboDB srv c w dateTime;
          (if err \<noteq> None then SendErrorCode srv c MsgErrCode_publish_weibo_server_internal_error 0
           else do {
             err \<leftarrow> publishWeiboRds srv c ts ts bin;
             (if err \<noteq> None then SendErrorCode srv c MsgErrCode_publish_weibo_server_internal_error 0
              else do {
                ids \<leftarrow> GetFriendIds srv c;
                forM ids (tellFriend srv c w);
                Publish srv PublishWeibo (SetUserData ''publishWeiboData'' (UPb (Sto (PB_Weibo w)))
                  (SetInt64 ''publishWeiboId'' (pw_WeiboId p) NewEventArg));
                SendPbMsg srv c NetMsgId_S2CRecvPublishWeibo (Wei (S2CRecvPublishWeibo ts)) }) }) }) }"

definition C2SPublishWeibo :: "svc \<Rightarrow> nat \<Rightarrow> string \<Rightarrow> handler" where
  "C2SPublishWeibo srv c msg =
     request (un_C2SPublishWeibo srv) msg
       (\<lambda>_. SendErrorCode srv c MsgErrCode_proto_unmarshal_msg_struct_C2SPublishWeibo_has_error 0)
       (\<lambda>p. case publishErr p of
          Some e \<Rightarrow> SendErrorCode srv c e 0
        | None \<Rightarrow>
            (case marshal srv (Sto (PB_WeiboUrl (pw_Url p))) of
               None \<Rightarrow> SendErrorCode srv c MsgErrCode_publish_weibo_server_internal_error 0
             | Some bin \<Rightarrow> publishWeiboMsg srv c p bin))"

section \<open>Deleting\<close>

text \<open>The answer of a union of sets, asserted to be a list: a nil answer panics.\<close>

definition withIds :: "string list option \<Rightarrow> (int list \<Rightarrow> handler) \<Rightarrow> handler" where
  "withIds l f = (case l of None \<Rightarrow> ret Panicked | Some xs \<Rightarrow> f (map (fst \<circ> ParseInt) xs))"

definition sendIfFriend :: "svc \<Rightarrow> nat \<Rightarrow> int \<Rightarrow> pb \<Rightarrow> int \<Rightarrow> (server, unit) state" where
  "sendIfFriend srv c cmdId p u = do {
     isF \<leftarrow> isFriendM c u;
     whenM isF (do { _ \<leftarrow> mqSendPbMsg srv u cmdId p; skip }) }"

definition deleteOwnWeibo :: "svc \<Rightarrow> nat \<Rightarrow> weibo \<Rightarrow> handler" where
  "deleteOwnWeibo srv c w = do {
     now \<leftarrow> timeNow srv;
     err \<leftarrow> deleteWeiboDB srv c w now;
     (if err \<noteq> None then do {
        SendErrorCode srv c MsgErrCode_delete_weibo_server_internal_error 0;
        ret Returned }
      else do {
        acc \<leftarrow> GetAccountId c;
        r \<leftarrow> getLikeAndReplyWeiboRdsIds srv (we_WeiboId w) acc;
        (if snd r \<noteq> None then ret Returned
         else do {
           err \<leftarrow> deleteWeiboRds srv c w;
           (if err \<noteq> None then do {
              SendErrorCode srv c MsgErrCode_delete_weibo_server_internal_error 0;
              ret Returned }
            else withIds (fst r) (\<lambda>ids. do {
              forM ids (sendIfFriend srv c NetMsgId_MQDeleteWeibo
                (MQ (MQDeleteWeibo \<lparr>dw_FriendId = we_PublisherId w, dw_WeiboId = we_WeiboId w\<rparr>)));
              SendPbMsg srv c NetMsgId_S2CRecvDeleteWeibo (Wei (S2CRecvDeleteWeibo ''Success''));
              ret Returned })) }) }) }"

definition C2SDeleteWeibo :: "svc \<Rightarrow> nat \<Rightarrow> string \<Rightarrow> handler" where
  "C2SDeleteWeibo srv c msg =
     requestP (un_WeiboId srv) msg
       (\<lambda>_. do {
          SendErrorCode srv c MsgErrCode_proto_unmarshal_msg_struct_C2SDeleteWeibo_has_error 0;
          ret Returned })
       (\<lambda>weiboId. do {
          acc \<leftarrow> GetAccountId c;
          r \<leftarrow> getWeiboRds srv acc weiboId;
          (case r of
             (_, Some _) \<Rightarrow> do {
               SendErrorCode srv c MsgErrCode_delete_weibo_weibo_id_is_error 0;
               ret Returned }
           | (None, None) \<Rightarrow> ret Panicked
           | (Some w, None) \<Rightarrow>
               if acc \<noteq> we_PublisherId w then do {
                 SendErrorCode srv c MsgErrCode_delete_weibo_weibo_id_is_error 0;
                 ret Returned }
               else deleteOwnWeibo srv c (w\<lparr>we_BDelete := True\<rparr>)) })"

section \<open>Liking\<close>

definition announceLike :: "svc \<Rightarrow> nat \<Rightarrow> weiboRow \<Rightarrow> int \<Rightarrow> handler" where
  "announceLike srv c w pub = do {
     r \<leftarrow> getLikeAndReplyWeiboRdsIds srv (wr_WeiboId w) (wr_AccountId w);
     (if snd r \<noteq> None then do {
        SendErrorCode srv c MsgErrCode_like_weibo_server_internal_error 0;
        ret Returned }
      else withIds (fst r) (\<lambda>ids. do {
        acc \<leftarrow> GetAccountId c;
        let p = MQ (MQLikeWeibo \<lparr>lw_WeiboId = wr_WeiboId w, lw_WeiboPublisherId = pub, lw_LikerId = acc,
                                 lw_LikerNickName = ''''\<rparr>) in do {
        forM ids (sendIfFriend srv c NetMsgId_MQLikeWeibo p);
        _ \<leftarrow> mqSendPbMsg srv (wr_AccountId w) NetMsgId_MQLikeWeibo p;
        SendPbMsg srv c NetMsgId_S2CRecvLikeWeibo (Wei (S2CRecvLikeWeibo ''Success''));
        ret Returned } })) }"

definition likeStored :: "svc \<Rightarrow> nat \<Rightarrow> weiboRow \<Rightarrow> int \<Rightarrow> handler" where
  "likeStored srv c w pub = do {
     now \<leftarrow> timeNow srv;
     err \<leftarrow> likeWeiboDB srv c w now;
     (if err \<noteq> None then do {
        SendErrorCode srv c MsgErrCode_like_weibo_server_internal_error 0;
        ret Returned }
      else do {
        err \<leftarrow> likeWeiboRds srv c w (micros now);
        (if err \<noteq> None then do {
           SendErrorCode srv c MsgErrCode_like_weibo_server_internal_error 0;
           ret Returned }
         else announceLike srv c w pub) }) }"

definition C2SLikeWeibo :: "svc \<Rightarrow> nat \<Rightarrow> string \<Rightarrow> handler" where
  "C2SLikeWeibo srv c msg =
     requestP (un_C2SWeiboKey srv) msg
       (\<lambda>_. do {
          SendErrorCode srv c MsgErrCode_proto_unmarshal_msg_struct_C2SLickWeibo_has_error 0;
          ret Returned })
       (\<lambda>p. do {
          r \<leftarrow> getWeiboDB srv (wk_WeiboId p);
          (case r of
             (Some w, None) \<Rightarrow> do {
               acc \<leftarrow> GetAccountId c;
               isF \<leftarrow> isFriendM c (wk_WeiboPublisherId p);
               (if acc \<noteq> wk_WeiboPublisherId p \<and> \<not> isF then do {
                  SendErrorCode srv c MsgErrCode_like_weibo_weibo_liker_publisher_is_not_friend 0;
                  ret Returned }
                else likeStored srv c w (wk_WeiboPublisherId p)) }
           | _ \<Rightarrow> do {
               SendErrorCode srv c MsgErrCode_like_weibo_weibo_id_is_error 0;
               ret Returned }) })"

definition cancelLike :: "svc \<Rightarrow> nat \<Rightarrow> weibo \<Rightarrow> (server, unit) state" where
  "cancelLike srv c w = do {
     err \<leftarrow> cancelLikeWeiboRds srv c w;
     (if err \<noteq> None then SendErrorCode srv c MsgErrCode_cancel_like_weibo_server_internal_error 0
      else do {
        now \<leftarrow> timeNow srv;
        err \<leftarrow> cancelLikeWeiboDB srv c w now;
        (if err \<noteq> None then SendErrorCode srv c MsgErrCode_cancel_like_weibo_server_internal_error 0
         else SendPbMsg srv c NetMsgId_S2CCancelLikeWeibo (Wei (S2CCancelLikeWeibo ''Success''))) }) }"

definition C2SCancelLikeWeibo :: "svc \<Rightarrow> nat \<Rightarrow> string \<Rightarrow> handler" where
  "C2SCancelLikeWeibo srv c msg =
     requestP (un_C2SWeiboKey srv) msg
       (\<lambda>_. do {
          SendErrorCode srv c MsgErrCode_proto_unmarshal_msg_struct_C2SCancelLikeWeibo_has_error 0;
          ret Returned })
       (\<lambda>p. do {
          r \<leftarrow> getWeiboRds srv (wk_WeiboPublisherId p) (wk_WeiboId p);
          (if snd r \<noteq> None then do {
             SendErrorCode srv c MsgErrCode_cancel_like_weibo_weibo_id_is_error 0;
             ret Returned }
           else do {
             l \<leftarrow> getLikeWeiboRdsIds srv (wk_WeiboPublisherId p) (wk_WeiboId p);
             sa \<leftarrow> GetStrAccount c;
             (if snd l \<noteq> None \<or> sa \<notin> set (case fst l of Some xs \<Rightarrow> xs | None \<Rightarrow> []) then do {
                SendErrorCode srv c MsgErrCode_cancel_like_weibo_server_internal_error 0;
                ret Returned }
              else (case fst r of
                      None \<Rightarrow> ret Panicked
                    | Some w \<Rightarrow> do { cancelLike srv c w; ret Returned })) }) })"

section \<open>Commenting\<close>

text \<open>The other users who liked or commented, when both are friends of each other.\<close>

definition tellReply :: "svc \<Rightarrow> nat \<Rightarrow> int \<Rightarrow> replyWeibo \<Rightarrow> int \<Rightarrow> (server, unit) state" where
  "tellReply srv c pub r u = do {
     isF \<leftarrow> isFriendM c u;
     (if \<not> isF then skip
      else do {
        sa \<leftarrow> GetStrAccount c;
        k \<leftarrow> rdsInt srv (RIsSetMember RdsKeyPrefixFriendSet (itoa u) (RStr sa));
        (if fst k = 0 then skip
         else whenM (u \<noteq> pub) (do {
           _ \<leftarrow> mqSendPbMsg srv u NetMsgId_MQReplyWeibo (MQ (MQReplyWeibo r));
           skip })) }) }"

definition replyStored :: "svc \<Rightarrow> nat \<Rightarrow> weibo \<Rightarrow> replyWeibo \<Rightarrow> int \<Rightarrow> handler" where
  "replyStored srv c w r now = do {
     err \<leftarrow> replyWeiboDB srv c w r now;
     (if err \<noteq> None then do {
        SendErrorCode srv c MsgErrCode_reply_weibo_server_internal_error 0;
        ret Returned }
      else do {
        err \<leftarrow> replyWeiboRds srv c w r;
        (if err \<noteq> None then do {
           SendErrorCode srv c MsgErrCode_reply_weibo_server_internal_error 0;
           ret Returned }
         else do {
           l \<leftarrow> getLikeAndReplyWeiboRdsIds srv (we_WeiboId w) (we_PublisherId w);
           (if snd l \<noteq> None then do {
              SendErrorCode srv c MsgErrCode_like_weibo_server_internal_error 0;
              ret Returned }
            else withIds (fst l) (\<lambda>ids. do {
              forM ids (tellReply srv c (we_PublisherId w) r);
              _ \<leftarrow> mqSendPbMsg srv (we_PublisherId w) NetMsgId_MQReplyWeibo (MQ (MQReplyWeibo r));
              SendPbMsg srv c NetMsgId_S2CRecvReplyWeibo (Wei (S2CRecvReplyWeibo (rw_CommentedId r)));
              ret Returned })) }) }) }"

text \<open>
  The comment's id and time are set; a weibo that could not be decoded is nil and panics inside
  replyWeiboDB, after Begin and with the session closed by the deferred call.
\<close>

definition replyChecked :: "svc \<Rightarrow> nat \<Rightarrow> weibo option \<Rightarrow> replyWeibo \<Rightarrow> handler" where
  "replyChecked srv c w r = do {
     id \<leftarrow> GetSnowflakeId srv;
     ts \<leftarrow> timeNow srv;
     now \<leftarrow> timeNow srv;
     (case w of
        None \<Rightarrow> do { _ \<leftarrow> db srv TxBegin; _ \<leftarrow> db srv TxClose; ret Panicked }
      | Some wb \<Rightarrow> replyStored srv c wb (r\<lparr>rw_CommentedId := sint id, rw_CommentTimeStamp := micros ts\<rparr>) now) }"

definition C2SReplyWeibo :: "svc \<Rightarrow> nat \<Rightarrow> string \<Rightarrow> handler" where
  "C2SReplyWeibo srv c msg =
     requestP (un_C2SReplyWeibo srv) msg
       (\<lambda>_. do {
          SendErrorCode srv c MsgErrCode_proto_unmarshal_msg_struct_C2SReplyWeibo_has_error 0;
          ret Returned })
       (\<lambda>p. case p of
          None \<Rightarrow> ret Panicked
        | Some r0 \<Rightarrow> do {
            w \<leftarrow> getWeiboRds srv (rw_WeiboPublisherId r0) (rw_WeiboId r0);
            (if snd w \<noteq> None then do {
               SendErrorCode srv c MsgErrCode_reply_weibo_weibo_id_is_error 0;
               ret Returned }
             else do {
               cl \<leftarrow> cli c;
               let acc = ac_AccountId (account cl); r = r0\<lparr>rw_CommentatorId := acc\<rparr> in
               (if \<not> IsFriend (rw_CommentatorId r) cl \<and> acc \<noteq> rw_CommentatorId r
                   \<and> \<not> IsFriend (rw_BeCommentatorId r) cl then do {
                  SendErrorCode srv c MsgErrCode_reply_weibo_commentor_is_not_becommentor_friend 0;
                  ret Returned }
                else if WEIBO_REPLY_MAX_LENTH < length (rw_CommentContent r)
                   \<and> length (rw_CommentContent r) \<le> 0 then do {
                  SendErrorCode srv c MsgErrCode_reply_weibo_comment_content_is_too_long 0;
                  ret Returned }
                else replyChecked srv c (fst w) r) }) })"

text \<open>The first stored comment with the ids is deleted.\<close>

fun deleteReplies :: "svc \<Rightarrow> nat \<Rightarrow> weibo \<Rightarrow> c2sDeleteWeiboReply \<Rightarrow> string list \<Rightarrow> (server, unit) state" where
  "deleteReplies srv c w p [] = skip"
| "deleteReplies srv c w p (b # bs) =
     (case un_ReplyWeibo srv b of
        (ok, r) \<Rightarrow>
          if ok \<and> rw_WeiboId r = dr_WeiboId p \<and> rw_CommentedId r = dr_CommentId p then do {
            now \<leftarrow> timeNow srv;
            err \<leftarrow> deleteWeiboReplyDB srv c w (dr_CommentId p) now;
            whenM (err = None) (do { _ \<leftarrow> deleteWeiboSomeoneReplyRds srv c w b; skip }) }
          else deleteReplies srv c w p bs)"

definition C2SDeleteReplyWeibo :: "svc \<Rightarrow> nat \<Rightarrow> string \<Rightarrow> handler" where
  "C2SDeleteReplyWeibo srv c msg =
     requestP (un_C2SDeleteWeiboReply srv) msg
       (\<lambda>_. do {
          SendErrorCode srv c MsgErrCode_proto_unmarshal_msg_struct_C2SDeleteWeiboReply_has_error 0;
          ret Returned })
       (\<lambda>p. do {
          w \<leftarrow> getWeiboRds srv (dr_WeiboPublisherId p) (dr_WeiboId p);
          (case w of
             (_, Some _) \<Rightarrow> do {
               SendErrorCode srv c MsgErrCode_delete_weibo_reply_weibo_id_is_error 0;
               ret Returned }
           | (None, None) \<Rightarrow> ret Panicked
           | (Some wb, None) \<Rightarrow> do {
               l \<leftarrow> getReplyWeiboRds srv c wb;
               deleteReplies srv c wb p (fst l);
               SendPbMsg srv c NetMsgId_S2CDeleteReplyWeibo (Wei (S2CRecvDeleteWeibo ''Success''));
               ret Returned }) })"

section \<open>Browsing\<close>

text \<open>The likes and comments of a weibo that is shown; None when one of them cannot be read.\<close>

definition weiboDetails :: "svc \<Rightarrow> nat \<Rightarrow> bool \<Rightarrow> weibo \<Rightarrow> (server, browseWeibo option) state" where
  "weiboDetails srv c onlyFriends w = do {
     l \<leftarrow> getLikeWeiboRdsIds srv (we_PublisherId w) (we_WeiboId w);
     cl \<leftarrow> cli c;
     (case l of
        (_, Some _) \<Rightarrow> ret None
      | (ids, None) \<Rightarrow> do {
          let parsed = map ParseInt (case ids of Some xs \<Rightarrow> xs | None \<Rightarrow> []);
              likers = (if onlyFriends
                then map fst (filter (\<lambda>(i, ok). ok \<and> (IsFriend i cl \<or> ac_AccountId (account cl) = i)) parsed)
                else map fst parsed) in do {
          r \<leftarrow> getReplyWeiboRds srv c w;
          (if snd r \<noteq> None then ret None
           else ret (Some \<lparr>bw_Weibo = w, bw_LikerId = likers,
             bw_ReplayWeibo = map snd (filter fst (map (un_ReplyWeibo srv) (fst r)))\<rparr>)) } }) }"

text \<open>Whether the owner's strategy hides a weibo of this age.\<close>

definition tooOld :: "svc \<Rightarrow> int \<Rightarrow> weibo \<Rightarrow> (server, bool) state" where
  "tooOld srv allowTime w =
     (if allowTime = 0 then ret False
      else do {
        now \<leftarrow> timeNow srv;
        ret (we_WeiboId w < wrap64 (micros now - allowTime * 1000000)) })"

definition STRANGER_LOOK_WEIBO_NUM :: nat where "STRANGER_LOOK_WEIBO_NUM = 10"

text \<open>
  One entry of the sorted set of a user's page. \<open>Inl\<close>: the entry has no colon, and the slice up to
  index -1 panics. \<open>Inr None\<close>: skipped.
\<close>

definition someoneEntry :: "svc \<Rightarrow> nat \<Rightarrow> int \<Rightarrow> int \<Rightarrow> string \<Rightarrow> (server, unit + browseWeibo option) state" where
  "someoneEntry srv c friendId allowTime idStr = do {
     r \<leftarrow> rdsStr srv (RGet RdsKeyPrefixWeiboString idStr);
     (case r of
        (_, Some _) \<Rightarrow> ret (Inr None)
      | (bin, None) \<Rightarrow>
          if CHR '':'' \<notin> set idStr then ret (Inl ())
          else if fst (ParseInt (takeWhile (\<lambda>x. x \<noteq> CHR '':'') idStr)) \<noteq> friendId then ret (Inr None)
          else (case un_Weibo srv bin of
                  (ok, w) \<Rightarrow>
                    if \<not> ok then ret (Inr None)
                    else do {
                      old \<leftarrow> tooOld srv allowTime w;
                      (if old then ret (Inr None)
                       else do { b \<leftarrow> weiboDetails srv c True w; ret (Inr b) }) })) }"

text \<open>The loop, with the number of weibos collected: a stranger sees at most ten.\<close>

fun someoneLoop :: "svc \<Rightarrow> nat \<Rightarrow> int \<Rightarrow> int \<Rightarrow> nat \<Rightarrow> string list \<Rightarrow> (server, browseWeibo list option) state" where
  "someoneLoop srv c friendId allowTime n [] = ret (Some [])"
| "someoneLoop srv c friendId allowTime n (v # vs) = do {
     e \<leftarrow> someoneEntry srv c friendId allowTime v;
     (case e of
        Inl _ \<Rightarrow> ret None
      | Inr None \<Rightarrow> someoneLoop srv c friendId allowTime n vs
      | Inr (Some b) \<Rightarrow> do {
          cl \<leftarrow> cli c;
          (if friendId \<noteq> ac_AccountId (account cl) \<and> \<not> IsFriend friendId cl
              \<and> STRANGER_LOOK_WEIBO_NUM \<le> n + 1 then ret (Some [b])
           else do {
             rest \<leftarrow> someoneLoop srv c friendId allowTime (n + 1) vs;
             ret (map_option (\<lambda>bs. b # bs) rest) }) }) }"

definition scoreBelow :: "int \<Rightarrow> (rarg \<times> rarg)" where
  "scoreBelow t = (RStr ''-inf'', RStr (CHR ''('' # itoa t))"

text \<open>A page of the sorted set of \<open>key\<close>: from the beginning, or below the last time stamp.\<close>

definition zsetPage :: "svc \<Rightarrow> string \<Rightarrow> int \<Rightarrow> (server, string list) state" where
  "zsetPage srv key t = do {
     r \<leftarrow> (if t = 0 then rdsList srv (RZRange RdsKeyPrefixWeiboZset key (scoreAbove t) (RStr ''+inf''))
          else rdsList srv (RZRange RdsKeyPrefixWeiboZset key (fst (scoreBelow t)) (snd (scoreBelow t))));
     ret (case fst r of Some l \<Rightarrow> l | None \<Rightarrow> []) }"

definition someonePage :: "svc \<Rightarrow> nat \<Rightarrow> c2sBrowseSomeoneWeibo \<Rightarrow> (server, string list) state" where
  "someonePage srv c p = do {
     sa \<leftarrow> GetStrAccount c;
     acc \<leftarrow> GetAccountId c;
     k \<leftarrow> rdsInt srv (RIsSetMember RdsKeyPrefixFriendSet (itoa (bs_FriendId p)) (RStr sa));
     (if fst k = 0 \<and> bs_FriendId p \<noteq> acc then do {
        allowed \<leftarrow> DoesAllowStrangerLookWeibo srv (bs_FriendId p);
        (if allowed then do {
           r \<leftarrow> rdsList srv (RZRange RdsKeyPrefixWeiboZset (itoa (bs_FriendId p))
                  (scoreAbove (bs_LastTimeStamp p)) (RStr ''+inf''));
           ret (case fst r of Some l \<Rightarrow> l | None \<Rightarrow> []) }
         else ret []) }
      else zsetPage srv (itoa (bs_FriendId p)) (bs_LastTimeStamp p)) }"

definition C2SBrowseSomeoneWeibo :: "svc \<Rightarrow> nat \<Rightarrow> string \<Rightarrow> handler" where
  "C2SBrowseSomeoneWeibo srv c msg =
     requestP (un_C2SBrowseSomeoneWeibo srv) msg
       (\<lambda>_. do {
          SendErrorCode srv c MsgErrCode_proto_unmarshal_msg_struct_C2SBrowseOwnWeibo_has_error 0;
          ret Returned })
       (\<lambda>p. do {
          ids \<leftarrow> someonePage srv c p;
          (strategy, allowTime, _) \<leftarrow> GetFriendLookStrategy srv (bs_FriendId p);
          acc \<leftarrow> GetAccountId c;
          allowed \<leftarrow> DoesAllowFriendLookMyWeiboRds srv (bs_FriendId p) acc;
          r \<leftarrow> (if allowed then someoneLoop srv c (bs_FriendId p) allowTime 0 (rev ids) else ret (Some []));
          (case r of
             None \<Rightarrow> ret Panicked
           | Some ws \<Rightarrow> do {
               SendPbMsg srv c NetMsgId_S2CBrowseSomeoneWeibo (Wei (S2CBrowseSomeoneWeibo ws strategy ''Success''));
               ret Returned }) })"

text \<open>Whether a weibo on the own page may be shown: it is the own, or its author's settings allow it.\<close>

definition showsOnAll :: "svc \<Rightarrow> nat \<Rightarrow> weibo \<Rightarrow> (server, bool) state" where
  "showsOnAll srv c w = do {
     cl \<leftarrow> cli c;
     let acc = ac_AccountId (account cl); pub = we_PublisherId w in
     (if pub = acc then ret True
      else if \<not> IsFriend pub cl \<or> IsBlackList pub cl then ret False
      else do {
        (listed, _) \<leftarrow> IsSomeoneInOtherBlackList srv acc pub;
        (if listed then ret False
         else do {
           look \<leftarrow> DoesLookFriendWeiboRds srv acc pub;
           (if \<not> look then ret False
            else do {
              allow \<leftarrow> DoesAllowFriendLookMyWeiboRds srv pub acc;
              (if \<not> allow then ret False
               else do {
                 (_, allowTime, _) \<leftarrow> GetFriendLookStrategy srv pub;
                 old \<leftarrow> tooOld srv allowTime w;
                 ret (\<not> old) }) }) }) }) }"

definition allEntry :: "svc \<Rightarrow> nat \<Rightarrow> string \<Rightarrow> (server, browseWeibo option) state" where
  "allEntry srv c idStr = do {
     r \<leftarrow> rdsStr srv (RGet RdsKeyPrefixWeiboString idStr);
     (case r of
        (_, Some _) \<Rightarrow> ret None
      | (bin, None) \<Rightarrow>
          (case un_Weibo srv bin of
             (ok, w) \<Rightarrow>
               if \<not> ok then ret None
               else do {
                 shown \<leftarrow> showsOnAll srv c w;
                 (if shown then weiboDetails srv c False w else ret None) })) }"

text \<open>\<open>n\<close> is the number of weibos that are still wanted.\<close>

fun allLoop :: "svc \<Rightarrow> nat \<Rightarrow> nat \<Rightarrow> string list \<Rightarrow> (server, browseWeibo list) state" where
  "allLoop srv c n [] = ret []"
| "allLoop srv c n (v # vs) = do {
     e \<leftarrow> allEntry srv c v;
     (case e of
        None \<Rightarrow> allLoop srv c n vs
      | Some b \<Rightarrow> if n = 1 then ret [b] else do { rest \<leftarrow> allLoop srv c (n - 1) vs; ret (b # rest) }) }"

definition C2SBrowseAllWeibo :: "svc \<Rightarrow> nat \<Rightarrow> string \<Rightarrow> handler" where
  "C2SBrowseAllWeibo srv c msg =
     request (un_C2SBrowseAllWeibo srv) msg (\<lambda>_. skip)
       (\<lambda>t. do {
          sa \<leftarrow> GetStrAccount c;
          ids \<leftarrow> zsetPage srv sa t;
          ws \<leftarrow> allLoop srv c 12 (rev ids);
          SendPbMsg srv c NetMsgId_S2CBrowseAllWeibo (Wei (S2CBrowseAllWeibo ws ''Success'')) })"

section \<open>The process invariant\<close>

lemma keeps_withIds [keeps_rules]: "(\<And>ids. keeps I (f ids)) \<Longrightarrow> keeps I (withIds l f)"
  by (simp add: withIds_def keeps_rules split: option.splits)

lemma keeps_wf_weibo_parts [keeps_rules]:
  "keeps (inv X) (tellFriend srv c w u)"
  "keeps (inv X) (sendIfFriend srv c i p u)"
  "keeps (inv X) (cancelLike srv c w)"
  "keeps (inv X) (tellReply srv c u r v)"
  "keeps (inv X) (weiboDetails srv c b w)"
  "keeps (inv X) (tooOld srv t w)"
  "keeps (inv X) (zsetPage srv k t)"
  "keeps (inv X) (someonePage srv c q)"
  unfolding tellFriend_def sendIfFriend_def cancelLike_def tellReply_def weiboDetails_def tooOld_def
    zsetPage_def someonePage_def Let_def
  by (intro keeps_rules)+

lemma keeps_wf_weibo_parts2 [keeps_rules]:
  "keeps (inv X) (publishWeiboMsg srv c q b)"
  "keeps (inv X) (deleteOwnWeibo srv c w)"
  "keeps (inv X) (likeStored srv c wr pub)"
  "keeps (inv X) (replyChecked srv c ow r)"
  "keeps (inv X) (someoneEntry srv c u t str)"
  "keeps (inv X) (showsOnAll srv c w)"
  unfolding publishWeiboMsg_def deleteOwnWeibo_def likeStored_def announceLike_def replyStored_def
    replyChecked_def someoneEntry_def showsOnAll_def Let_def
  by (intro keeps_rules)+

lemma keeps_wf_weibo_loops [keeps_rules]:
  "keeps (inv X) (deleteReplies srv c w q bs)"
  "keeps (inv X) (allEntry srv c str)"
  unfolding allEntry_def by (induction bs) (auto intro!: keeps_rules split: prod.splits)

lemma keeps_wf_someoneLoop [keeps_rules]: "keeps (inv X) (someoneLoop srv c u t n vs)"
proof (induction vs arbitrary: n)
  case (Cons v vs)
  show ?case unfolding someoneLoop.simps by (intro keeps_rules Cons.IH)
qed (simp add: keeps_rules)

lemma keeps_wf_allLoop [keeps_rules]: "keeps (inv X) (allLoop srv c n vs)"
proof (induction vs arbitrary: n)
  case (Cons v vs)
  show ?case unfolding allLoop.simps by (intro keeps_rules Cons.IH)
qed (simp add: keeps_rules)

lemma keeps_wf_weibo [keeps_rules]:
  "keeps (inv X) (C2SPublishWeibo srv c msg)"
  "keeps (inv X) (C2SDeleteWeibo srv c msg)"
  "keeps (inv X) (C2SLikeWeibo srv c msg)"
  "keeps (inv X) (C2SCancelLikeWeibo srv c msg)"
  "keeps (inv X) (C2SReplyWeibo srv c msg)"
  "keeps (inv X) (C2SDeleteReplyWeibo srv c msg)"
  "keeps (inv X) (C2SBrowseSomeoneWeibo srv c msg)"
  "keeps (inv X) (C2SBrowseAllWeibo srv c msg)"
  unfolding C2SPublishWeibo_def C2SDeleteWeibo_def C2SLikeWeibo_def C2SCancelLikeWeibo_def
    C2SReplyWeibo_def C2SDeleteReplyWeibo_def C2SBrowseSomeoneWeibo_def C2SBrowseAllWeibo_def Let_def
  by (intro keeps_rules)+

end
