(* ===== verification/WeiboSettings.thy ===== *)
theory WeiboSettings
  imports WeiboStore
begin

text \<open>
  The handlers of msg-server/client/weiboAllowQuery.go, by which a user chooses whose weibos to
  see and who may see the own, and those of weiboCover.go.
\<close>

section \<open>Lists of users\<close>

text \<open>The brief information of each user; the first that cannot be read ends the function.\<close>

fun QueryOthersBriefInfos ::
    "svc \<Rightarrow> int list \<Rightarrow> (server, userBriefInfo list \<times> goerr option) state" where
  "QueryOthersBriefInfos srv [] = ret ([], None)"
| "QueryOthersBriefInfos srv (u # us) = do {
     r \<leftarrow> QueryOtherBriefInfo srv u;
     (case r of
        (_, Some err) \<Rightarrow> ret ([], Some err)
      | (p, None) \<Rightarrow> do {
          (ps, err) \<leftarrow> QueryOthersBriefInfos srv us;
          ret (if err \<noteq> None then ([], err)
               else (case p of Some b \<Rightarrow> b # ps | None \<Rightarrow> ps, None)) }) }"

text \<open>The two lists are read alike from the set with the given prefix.\<close>

definition listedUsers :: "svc \<Rightarrow> string \<Rightarrow> nat \<Rightarrow> (server, userBriefInfo list \<times> goerr option) state" where
  "listedUsers srv prefix c = do {
     sa \<leftarrow> GetStrAccount c;
     r \<leftarrow> rdsList srv (RSetMembers prefix sa);
     (case r of
        (_, Some err) \<Rightarrow> ret ([], Some err)
      | (members, None) \<Rightarrow> do {
          (infos, _) \<leftarrow> QueryOthersBriefInfos srv
             (map (fst \<circ> ParseInt) (case members of Some l \<Rightarrow> l | None \<Rightarrow> []));
          ret (infos, None) }) }"

definition getDontlookFriendWeiboIdsRds ::
    "svc \<Rightarrow> nat \<Rightarrow> (server, userBriefInfo list \<times> goerr option) state" where
  "getDontlookFriendWeiboIdsRds srv c = listedUsers srv RdsKeyPrefixDontLookFriendWeiboSet c"

definition getForbiddenFriendLookWeiboList ::
    "svc \<Rightarrow> nat \<Rightarrow> (server, userBriefInfo list \<times> goerr option) state" where
  "getForbiddenFriendLookWeiboList srv c = listedUsers srv RdsKeyPrefixForbiddenFriendLookWeiboSet c"

text \<open>Adding the users to a set or removing them from it: only the last error counts.\<close>

fun changeListed :: "svc \<Rightarrow> string \<Rightarrow> nat \<Rightarrow> bool \<Rightarrow> goerr option \<Rightarrow> int list
    \<Rightarrow> (server, goerr option) state" where
  "changeListed srv prefix c b err [] = ret err"
| "changeListed srv prefix c b err (u # us) = do {
     sa \<leftarrow> GetStrAccount c;
     e \<leftarrow> errOf (rdsInt srv (if b then RAddSet prefix sa (RInt u) else RRemSet prefix sa (RInt u)));
     changeListed srv prefix c b e us }"

definition dontLookFriendWeiboRds :: "svc \<Rightarrow> nat \<Rightarrow> int list \<Rightarrow> bool \<Rightarrow> (server, goerr option) state" where
  "dontLookFriendWeiboRds srv c friendIds bLook =
     changeListed srv RdsKeyPrefixDontLookFriendWeiboSet c bLook None friendIds"

definition forbiddenFriendLookWeiboRds ::
    "svc \<Rightarrow> nat \<Rightarrow> int list \<Rightarrow> bool \<Rightarrow> (server, goerr option) state" where
  "forbiddenFriendLookWeiboRds srv c friendIds bForbidden =
     changeListed srv RdsKeyPrefixForbiddenFriendLookWeiboSet c bForbidden None friendIds"

section \<open>Whose weibos the user sees\<close>

definition C2SGetDontLookFriendWeiboList :: "svc \<Rightarrow> nat \<Rightarrow> string \<Rightarrow> handler" where
  "C2SGetDontLookFriendWeiboList srv c msg =
     request (un_Empty srv) msg (\<lambda>_. skip)
       (\<lambda>_. do {
          (infos, _) \<leftarrow> getDontlookFriendWeiboIdsRds srv c;
          SendPbMsg srv c NetMsgId_S2CGetDontLookFriendWeiboList
            (Wei (S2CGetDontLookFriendWeiboList infos ''Success'')) })"

text \<open>\<open>IsFriends\<close> answers an empty slice, never nil, so the test for nil has no effect.\<close>

definition C2SDontLookFriendWeibo :: "svc \<Rightarrow> nat \<Rightarrow> string \<Rightarrow> handler" where
  "C2SDontLookFriendWeibo srv c msg =
     request (un_C2SFriendIds srv) msg (\<lambda>_. skip)
       (\<lambda>p. do {
          cl \<leftarrow> cli c;
          err \<leftarrow> dontLookFriendWeiboRds srv c (IsFriends (fl_FriendIds p) cl) (fl_Flag p);
          (if err \<noteq> None then skip
           else do {
             (infos, err) \<leftarrow> getDontlookFriendWeiboIdsRds srv c;
             (if err \<noteq> None then skip
              else SendPbMsg srv c NetMsgId_S2CDontLookFriendWeibo
                     (Wei (S2CDontLookFriendWeibo infos ''Success''))) }) })"

section \<open>Who may see the user's weibos\<close>

definition C2SGetForbiddenFriendLookWeiboList :: "svc \<Rightarrow> nat \<Rightarrow> string \<Rightarrow> handler" where
  "C2SGetForbiddenFriendLookWeiboList srv c msg =
     request (un_Empty srv) msg (\<lambda>_. skip)
       (\<lambda>_. do {
          (infos, err) \<leftarrow> getForbiddenFriendLookWeiboList srv c;
          (if err \<noteq> None then skip
           else SendPbMsg srv c NetMsgId_S2CGetForbiddenFriendLookWeiboList
                  (Wei (S2CGetForbiddenFriendLookWeiboList infos ''Success''))) })"

definition C2SForbiddenFriendLookWeibo :: "svc \<Rightarrow> nat \<Rightarrow> string \<Rightarrow> handler" where
  "C2SForbiddenFriendLookWeibo srv c msg =
     request (un_C2SFriendIds srv) msg (\<lambda>_. skip)
       (\<lambda>p. do {
          cl \<leftarrow> cli c;
          err \<leftarrow> forbiddenFriendLookWeiboRds srv c (IsFriends (fl_FriendIds p) cl) (fl_Flag p);
          (if err \<noteq> None then skip
           else do {
             (infos, _) \<leftarrow> getForbiddenFriendLookWeiboList srv c;
             SendPbMsg srv c NetMsgId_S2CForbiddenFriendLookWeibo
               (Wei (S2CForbiddenFriendLookWeibo infos ''Success'')) }) })"

definition C2SIsAllowStrangerLookWeibo :: "svc \<Rightarrow> nat \<Rightarrow> string \<Rightarrow> handler" where
  "C2SIsAllowStrangerLookWeibo srv c msg =
     request (un_Empty srv) msg (\<lambda>_. skip)
       (\<lambda>_. do {
          sa \<leftarrow> GetStrAccount c;
          r \<leftarrow> rdsInt srv (RIsSetMember RdsKeyPrefixAllowStragerLookWeiboSet
                 ALLOW_STRANGERS_LOOK_WEIBO (RStr sa));
          (if snd r \<noteq> None then skip
           else SendPbMsg srv c NetMsgId_S2CIsAllowStrangerLookWeibo
                  (Wei (S2CIsAllowStrangerLookWeibo (fst r = 0) ''Success''))) })"

text \<open>The set holds the users whose weibos strangers may not see.\<close>

definition C2SAllowStrangerLookWeibo :: "svc \<Rightarrow> nat \<Rightarrow> string \<Rightarrow> handler" where
  "C2SAllowStrangerLookWeibo srv c msg =
     request (un_C2SAllow srv) msg (\<lambda>_. skip)
       (\<lambda>allow. do {
          sa \<leftarrow> GetStrAccount c;
          err \<leftarrow> errOf (rdsInt srv
                   (if allow then RRemSet RdsKeyPrefixAllowStragerLookWeiboSet
                                    ALLOW_STRANGERS_LOOK_WEIBO (RStr sa)
                    else RAddSet RdsKeyPrefixAllowStragerLookWeiboSet
                           ALLOW_STRANGERS_LOOK_WEIBO (RStr sa)));
          (if err \<noteq> None \<and> (allow \<longrightarrow> err \<noteq> Some ErrNil) then skip
           else SendPbMsg srv c NetMsgId_S2CAllowStrangerLookWeibo
                  (Wei (S2CAllowStrangerLookWeibo ''Success''))) })"

text \<open>A missing or unreadable entry gives the strategy 0.\<close>

definition C2SGetFriendLookWeiboStrategy :: "svc \<Rightarrow> nat \<Rightarrow> string \<Rightarrow> handler" where
  "C2SGetFriendLookWeiboStrategy srv c msg =
     request (un_Empty srv) msg (\<lambda>_. skip)
       (\<lambda>_. do {
          sa \<leftarrow> GetStrAccount c;
          r \<leftarrow> rdsStr srv (RGet RdsKeyPrefixAllowFriendLookWeiboString sa);
          SendPbMsg srv c NetMsgId_S2CGetFriendLookWeiboStrategy
            (Wei (S2CGetFriendLookWeiboStrategy (wrap32 (fst (ParseInt (fst r)))) ''Success'')) })"

definition FRIEND_ALL :: int where "FRIEND_ALL = 0"
definition FRIEND_HALF_YEAR :: int where "FRIEND_HALF_YEAR = 1"
definition FRIEND_ONE_MONTH :: int where "FRIEND_ONE_MONTH = 2"
definition FRIEND_THREE_DAYS :: int where "FRIEND_THREE_DAYS = 3"

text \<open>Storing a strategy; None for a number that is none.\<close>

definition storeStrategy :: "svc \<Rightarrow> string \<Rightarrow> int \<Rightarrow> (server, goerr option option) state" where
  "storeStrategy srv sa strategy =
     (let put = (\<lambda>v. do {
            err \<leftarrow> rdsStatus srv (RSet RdsKeyPrefixAllowFriendLookWeiboString sa (RStr (itoa v)));
            ret (Some err) }) in
      if strategy = FRIEND_ALL then do {
        err \<leftarrow> errOf (rdsInt srv (RDel RdsKeyPrefixAllowFriendLookWeiboString sa));
        ret (Some err) }
      else if strategy = FRIEND_HALF_YEAR then put FriendLookWeiboStrategy_halfYear
      else if strategy = FRIEND_ONE_MONTH then put FriendLookWeiboStrategy_oneMonth
      else if strategy = FRIEND_THREE_DAYS then put FriendLookWeiboStrategy_threeDays
      else ret None)"

definition C2SFriendLookWeiboStrategy :: "svc \<Rightarrow> nat \<Rightarrow> string \<Rightarrow> handler" where
  "C2SFriendLookWeiboStrategy srv c msg =
     request (un_C2SStrategy srv) msg (\<lambda>_. skip)
       (\<lambda>strategy. do {
          sa \<leftarrow> GetStrAccount c;
          r \<leftarrow> storeStrategy srv sa strategy;
          (if r \<noteq> Some None then skip
           else SendPbMsg srv c NetMsgId_S2CFriendLookWeiboStrategy
                  (Wei (S2CFriendLookWeiboStrategy ''Success''))) })"

section \<open>The cover\<close>

definition C2SSetWeiboCover :: "svc \<Rightarrow> nat \<Rightarrow> string \<Rightarrow> handler" where
  "C2SSetWeiboCover srv c msg =
     request (un_OneString srv) msg
       (\<lambda>_. SendErrorCode srv c MsgErrCode_proto_unmarshal_msg_struct_C2SSetWeiboCover_has_error 0)
       (\<lambda>pic.
          if pic = '''' then SendErrorCode srv c MsgErrCode_set_weibo_cover_cover_picture_is_empty 0
          else do {
            err \<leftarrow> setWeiboCoverRds srv c pic;
            (if err \<noteq> None then SendErrorCode srv c MsgErrCode_set_weibo_cover_cover_picture_is_empty 0
             else do {
               err \<leftarrow> setWeiboCoverDB srv c pic;
               (if err \<noteq> None then SendErrorCode srv c MsgErrCode_set_weibo_cover_cover_picture_is_empty 0
                else SendPbMsg srv c NetMsgId_S2CSetWeiboCover (Wei (S2CSetWeiboCover ''Success''))) }) })"

definition C2SLikeFriendWeiboCover :: "svc \<Rightarrow> nat \<Rightarrow> string \<Rightarrow> handler" where
  "C2SLikeFriendWeiboCover srv c msg =
     request (un_FriendId srv) msg (\<lambda>_. skip)
       (\<lambda>friendId. do {
          err \<leftarrow> firstErr [likeWeiboCoverDB srv, likeWeiboCoverRds srv c friendId];
          (if err \<noteq> None then skip
           else SendPbMsg srv c NetMsgId_S2CLikeFriendWeiboCover
                  (Wei (S2CLikeFriendWeiboCover ''Success''))) })"

definition C2SGetWeiboCover :: "svc \<Rightarrow> nat \<Rightarrow> string \<Rightarrow> handler" where
  "C2SGetWeiboCover srv c msg =
     request (un_FriendId srv) msg (\<lambda>_. skip)
       (\<lambda>userId. do {
          (picUrl, _) \<leftarrow> GetWeiboCoverRds srv userId;
          (bLiked, _) \<leftarrow> DoesLikeFriendWeiboCover srv c userId;
          SendPbMsg srv c NetMsgId_S2CGetWeiboCover (Wei (S2CGetWeiboCover picUrl bLiked ''Success'')) })"

section \<open>The process invariant\<close>

lemma keeps_wf_QueryOthersBriefInfos [keeps_rules]: "keeps (inv X) (QueryOthersBriefInfos srv us)"
  by (induction us) (auto intro!: keeps_rules)

lemma keeps_wf_changeListed [keeps_rules]: "keeps (inv X) (changeListed srv p c b e us)"
proof (induction us arbitrary: e)
  case (Cons u us)
  show ?case unfolding changeListed.simps by (intro keeps_rules Cons.IH)
qed (simp add: keeps_rules)

lemma keeps_wf_listedUsers [keeps_rules]: "keeps (inv X) (listedUsers srv p c)"
  unfolding listedUsers_def by (intro keeps_rules)

lemma keeps_wf_weibo_settings [keeps_rules]:
  "keeps (inv X) (C2SGetDontLookFriendWeiboList srv c msg)"
  "keeps (inv X) (C2SDontLookFriendWeibo srv c msg)"
  "keeps (inv X) (C2SGetForbiddenFriendLookWeiboList srv c msg)"
  "keeps (inv X) (C2SForbiddenFriendLookWeibo srv c msg)"
  "keeps (inv X) (C2SIsAllowStrangerLookWeibo srv c msg)"
  "keeps (inv X) (C2SAllowStrangerLookWeibo srv c msg)"
  "keeps (inv X) (C2SGetFriendLookWeiboStrategy srv c msg)"
  "keeps (inv X) (C2SFriendLookWeiboStrategy srv c msg)"
  "keeps (inv X) (C2SSetWeiboCover srv c msg)"
  "keeps (inv X) (C2SLikeFriendWeiboCover srv c msg)"
  "keeps (inv X) (C2SGetWeiboCover srv c msg)"
  unfolding C2SGetDontLookFriendWeiboList_def C2SDontLookFriendWeibo_def
    C2SGetForbiddenFriendLookWeiboList_def C2SForbiddenFriendLookWeibo_def
    C2SIsAllowStrangerLookWeibo_def C2SAllowStrangerLookWeibo_def C2SGetFriendLookWeiboStrategy_def
    C2SFriendLookWeiboStrategy_def storeStrategy_def Let_def C2SSetWeiboCover_def C2SLikeFriendWeiboCover_def C2SGetWeiboCover_def
    dontLookFriendWeiboRds_def forbiddenFriendLookWeiboRds_def getDontlookFriendWeiboIdsRds_def
    getForbiddenFriendLookWeiboList_def
  by (intro keeps_rules)+

end
