(* ===== verification/Dispatch.thy ===== *)
theory Dispatch
  imports Sessions GroupChat MQMsg Weibo WeiboSettings
begin

text \<open>
  The table of message handlers (mapFunc of msg-server/client/privateChat.go, filled by the init
  functions of the handler files) and handleMsg of client.go, the loop that takes the messages of
  a client's receive queue, from the client itself and from other servers alike, and runs their
  handlers.
\<close>

section \<open>The table\<close>

text \<open>One list per init function, in the order of the registrations.\<close>

type_synonym msgFunc = "nat \<Rightarrow> string \<Rightarrow> handler"

definition privateChatFuncs :: "svc \<Rightarrow> (int \<times> msgFunc) list" where
  "privateChatFuncs srv =
    [(NetMsgId_C2SPrivateChat, C2SPrivateChat srv),
     (NetMsgId_C2SLastMsgTimeStamp, C2SLastMsgTimestamp srv),
     (NetMsgId_C2SHuanXinPush, C2SHuanXinPush srv),
     (NetMsgId_C2SGetOfflinePrivateChatMsg, C2SGetOfflinePrivateChatMsg srv),
     (NetMsgId_C2SPicWillBeSend, C2SPicWillBeSend srv),
     (NetMsgId_C2SLogout, C2SLogout srv),
     (NetMsgId_C2SWithdrawMessage, C2SWithdrawMessage srv)]"

definition friendsFuncs :: "svc \<Rightarrow> (int \<times> msgFunc) list" where
  "friendsFuncs srv =
    [(NetMsgId_C2SAddFriend, C2SAddFriend srv),
     (NetMsgId_C2SAgreeBecomeFriend, C2SAgreeBecomeFriend srv),
     (NetMsgId_C2SReadFriendReq, C2SReadFriendReq srv),
     (NetMsgId_C2SDeleteFriend, C2SDeleteFriend srv),
     (NetMsgId_C2SConfirmDeleteFriend, C2SConfirmDeleteFriend srv),
     (NetMsgId_C2SAddFriendBlackList, C2SAddFriendBlackList srv),
     (NetMsgId_C2SMoveOutFriendBlackList, C2SMoveOutFriendBlackList srv),
     (NetMsgId_C2SGetFriendBlackList, C2SGetFriendBlackList srv),
     (NetMsgId_C2SSetFriendRemarkName, C2SSetFriendRemarkName srv)]"

definition accountFuncs :: "svc \<Rightarrow> (int \<times> msgFunc) list" where
  "accountFuncs srv =
    [(NetMsgId_C2SHeartbeat, C2SHeartbeat srv),
     (NetMsgId_C2SDeviceInfo, C2SDeviceInfo srv),
     (NetMsgId_C2SSetUserName, C2SSetUserName srv),
     (NetMsgId_C2SFindUser, C2SFindUser srv),
     (NetMsgId_C2SSetHeadPortrait, C2SSetHeadPortrait srv),
     (NetMsgId_C2SChangePassword, C2SChangePassword srv)]"

definition renameFuncs :: "svc \<Rightarrow> (int \<times> msgFunc) list" where
  "renameFuncs srv =
    [(NetMsgId_C2SRename, C2SRename srv)]"

definition chatGroupFuncs :: "svc \<Rightarrow> (int \<times> msgFunc) list" where
  "chatGroupFuncs srv =
    [(NetMsgId_C2SCreateChatGroup, C2SCreateChatGroup srv),
     (NetMsgId_C2SReqJoinChatGroup, C2SReqJoinChatGroup srv),
     (NetMsgId_C2SAgreeSomeOneReqJoinChatGroup, C2SAgreeJoinChatGroup srv),
     (NetMsgId_C2SRefuseSomeOneReqJoinChatGroup, C2SRefuseJoinChatGroup srv),
     (NetMsgId_C2SChatGroupInfo, C2SChatGroupInfo srv),
     (NetMsgId_C2SInviteJoinChatGroup, C2SInviteJoinChatGroup srv),
     (NetMsgId_C2SCancelChatGroup, C2SCancelChatGroup srv),
     (NetMsgId_C2SUnChatGroup, C2SUnChatGroup srv),
     (NetMsgId_C2SChatGroupKick, C2SChatGroupKick srv),
     (NetMsgId_C2SGroupChat, C2SGroupChat srv),
     (NetMsgId_C2SChatGroupLastMsgTimeStamp, C2SChatGroupLastMsgTimeStamp srv),
     (NetMsgId_C2SGetOfflineGroupChatMsg, C2SGetOfflineGroupChatMsg srv),
     (NetMsgId_C2SWithdrawGroupMessage, C2SWithdrawGroupMessage srv)]"

definition MQMsgFuncs :: "svc \<Rightarrow> (int \<times> msgFunc) list" where
  "MQMsgFuncs srv =
    [(NetMsgId_MQPrivateChat, MQMsg.MQPrivateChat srv),
     (NetMsgId_MQAddFriend, MQMsg.MQAddFriend srv),
     (NetMsgId_MQAgreeBecomeFriend, MQMsg.MQAgreeBecomeFriend srv),
     (NetMsgId_MQDeleteFriend, MQMsg.MQDeleteFriend srv),
     (NetMsgId_MQCreateChatGroup, MQMsg.MQCreateChatGroup srv),
     (NetMsgId_MQReqJoinChatGroup, MQMsg.MQReqJoinChatGroup srv),
     (NetMsgId_MQManagerAgreeSomeOneReqJoinChatGroup, MQMsg.MQManagerAgreeSomeOneReqJoinChatGroup srv),
     (NetMsgId_S2CManagerAgreeJoinChatGroup, MQMsg.S2CManagerAgreeJoinChatGroupH srv),
     (NetMsgId_MQRefuseSomeOneReqJoinChatGroup, MQMsg.MQRefuseSomeOneReqJoinChatGroup srv),
     (NetMsgId_MQInviteJoinChatGroup, MQMsg.MQInviteJoinChatGroup srv),
     (NetMsgId_MQCancelChatGroup, MQMsg.MQCancelChatGroup srv),
     (NetMsgId_MQUnChatGroup, MQMsg.MQUnChatGroup srv),
     (NetMsgId_MQChatGroupKick, MQMsg.MQChatGroupKick srv),
     (NetMsgId_MQPublishWeibo, MQMsg.MQPublishWeibo srv),
     (NetMsgId_MQLikeWeibo, MQMsg.MQLikeWeibo srv),
     (NetMsgId_MQReplyWeibo, MQMsg.MQReplyWeibo srv),
     (NetMsgId_MQDeleteWeibo, MQMsg.MQDeleteWeibo srv)]"

definition weiboFuncs :: "svc \<Rightarrow> (int \<times> msgFunc) list" where
  "weiboFuncs srv =
    [(NetMsgId_C2SPublishWeibo, C2SPublishWeibo srv),
     (NetMsgId_C2SLikeWeibo, C2SLikeWeibo srv),
     (NetMsgId_C2SCancelLikeWeibo, C2SCancelLikeWeibo srv),
     (NetMsgId_C2SReplyWeibo, C2SReplyWeibo srv),
     (NetMsgId_C2SDeleteReplyWeibo, C2SDeleteReplyWeibo srv),
     (NetMsgId_C2SDeleteWeibo, C2SDeleteWeibo srv),
     (NetMsgId_C2SBrowseSomeoneWeibo, C2SBrowseSomeoneWeibo srv),
     (NetMsgId_C2SBrowseAllWeibo, C2SBrowseAllWeibo srv)]"

definition weiboAllowQueryFuncs :: "svc \<Rightarrow> (int \<times> msgFunc) list" where
  "weiboAllowQueryFuncs srv =
    [(NetMsgId_C2SGetDontLookFriendWeiboList, C2SGetDontLookFriendWeiboList srv),
     (NetMsgId_C2SDontLookFriendWeibo, C2SDontLookFriendWeibo srv),
     (NetMsgId_C2SGetForbiddenFriendLookWeiboList, C2SGetForbiddenFriendLookWeiboList srv),
     (NetMsgId_C2SForbiddenFriendLookWeibo, C2SForbiddenFriendLookWeibo srv),
     (NetMsgId_C2SIsAllowStrangerLookWeibo, C2SIsAllowStrangerLookWeibo srv),
     (NetMsgId_C2SAllowStrangerLookWeibo, C2SAllowStrangerLookWeibo srv),
     (NetMsgId_C2SGetFriendLookWeiboStrategy, C2SGetFriendLookWeiboStrategy srv),
     (NetMsgId_C2SFriendLookWeiboStrategy, C2SFriendLookWeiboStrategy srv)]"

definition weiboCoverFuncs :: "svc \<Rightarrow> (int \<times> msgFunc) list" where
  "weiboCoverFuncs srv =
    [(NetMsgId_C2SSetWeiboCover, C2SSetWeiboCover srv),
     (NetMsgId_C2SLikeFriendWeiboCover, C2SLikeFriendWeiboCover srv),
     (NetMsgId_C2SGetWeiboCover, C2SGetWeiboCover srv)]"

definition mapFunc :: "svc \<Rightarrow> (int \<times> msgFunc) list" where
  "mapFunc srv = privateChatFuncs srv @ friendsFuncs srv @ accountFuncs srv @ renameFuncs srv
     @ chatGroupFuncs srv @ MQMsgFuncs srv @ weiboFuncs srv @ weiboAllowQueryFuncs srv @ weiboCoverFuncs srv"

lemmas mapFunc_defs = mapFunc_def privateChatFuncs_def friendsFuncs_def accountFuncs_def renameFuncs_def chatGroupFuncs_def MQMsgFuncs_def weiboFuncs_def weiboAllowQueryFuncs_def weiboCoverFuncs_def

definition getMsgFunc :: "svc \<Rightarrow> int \<Rightarrow> msgFunc option" where
  "getMsgFunc srv i = map_of (mapFunc srv) i"

section \<open>The receive loop\<close>

text \<open>
  One round of the loop, when the queue has a message: None when it has none. The id is an
  int32 made of the four bytes of the header; a message too short for one panics, and no handler's
  panic is recovered. A message without a handler is dropped.
\<close>

definition handleMsg :: "svc \<Rightarrow> nat \<Rightarrow> (server, outcome option) state" where
  "handleMsg srv c = do {
     cl \<leftarrow> cli c;
     (case chanRecvMsg cl of
        [] \<Rightarrow> ret None
      | msg # msgs \<Rightarrow> do {
          modCli c (\<lambda>cl. cl\<lparr>chanRecvMsg := tl (chanRecvMsg cl)\<rparr>);
          (if length msg < 4 then ret (Some Panicked)
           else (case getMsgFunc srv (wrap32 (Uint32 msg)) of
                   None \<Rightarrow> ret (Some Returned)
                 | Some f \<Rightarrow> do { r \<leftarrow> f c msg; ret (Some r) })) }) }"

text \<open>Any rounds of any clients' loops, one after the other.\<close>

definition handleMsgs :: "svc \<Rightarrow> nat list \<Rightarrow> (server, unit) state" where
  "handleMsgs srv cs = forM cs (\<lambda>c. do { _ \<leftarrow> handleMsg srv c; skip })"

section \<open>Every registration is in effect\<close>

lemma distinct_mapFunc: "distinct (map fst (mapFunc srv))"
  by (simp add: mapFunc_defs wire_ids)

lemma mapFunc_ids: "list_all (\<lambda>(i, _). 0 \<le> i \<and> i < 2 ^ 31) (mapFunc srv)"
  by (simp add: mapFunc_defs wire_ids)

lemma wrap32_id: "0 \<le> i \<Longrightarrow> i < 2 ^ 31 \<Longrightarrow> wrap32 (i mod 2 ^ 32) = i"
  by (simp add: wrap32_def)

lemma mapFunc_wire_id: "(i, f) \<in> set (mapFunc srv) \<Longrightarrow> wrap32 (Uint32 (PackByteMsg i m)) = i"
  using mapFunc_ids[of srv] wrap32_id[of i] by (force simp: list_all_iff PackByteMsg_def Uint32_PutUint32)

lemma length_PackByteMsg: "4 \<le> length (PackByteMsg i m)"
  by (simp add: PackByteMsg_def)

text \<open>
  The init functions register 72 handlers under 72 different ids, so none replaces another,
  and getMsgFunc finds exactly them.
\<close>

lemma registrations_in_effect:
  "length (mapFunc srv) = 72 \<and> distinct (map fst (mapFunc srv))
   \<and> (getMsgFunc srv i = Some f \<longleftrightarrow> (i, f) \<in> set (mapFunc srv))"
  using distinct_mapFunc by (auto simp: getMsgFunc_def map_of_eq_Some_iff) (simp add: mapFunc_defs)

text \<open>
  When the oldest message of a client's receive queue is a packet with a registered id,
  handleMsg takes it from the queue and runs the handler of that id on it; the outcome of the
  handler, a panic included, is that of the round.
\<close>

theorem dispatch_by_id:
  assumes "chanRecvMsg (clients s c) = PackByteMsg i m # q" and "(i, f) \<in> set (mapFunc srv)"
  shows "run_state (handleMsg srv c) s = map_prod Some id (run_state (f c (PackByteMsg i m))
     (s\<lparr>clients := (clients s)(c := (clients s c)\<lparr>chanRecvMsg := q\<rparr>)\<rparr>))"
proof -
  have "getMsgFunc srv (wrap32 (Uint32 (PackByteMsg i m))) = Some f"
    using assms(2) distinct_mapFunc by (simp add: mapFunc_wire_id[OF assms(2)] getMsgFunc_def map_of_eq_Some_iff)
  moreover have "\<not> length (PackByteMsg i m) < 4" by (simp add: PackByteMsg_def)
  ultimately show ?thesis using assms(1)
    by (simp add: handleMsg_def run_simps split_beta map_prod_def)
qed

text \<open>User 1 asks to log out.\<close>

definition demoRecv :: "int \<Rightarrow> server" where
  "demoRecv i = demoServer\<lparr>clients := (clients demoServer)
     (0 := (demoClient 1)\<lparr>chanRecvMsg := [PackByteMsg i ''m'']\<rparr>)\<rparr>"

theorem dispatch_by_id_witness:
  "run_state (handleMsg demoSvc 0) (demoRecv NetMsgId_C2SLogout)
     = map_prod Some id (run_state (C2SLogout demoSvc 0 (PackByteMsg NetMsgId_C2SLogout ''m''))
         (demoServer\<lparr>clients := (clients demoServer)(0 := (demoClient 1)\<lparr>chanRecvMsg := []\<rparr>)\<rparr>))"
  using dispatch_by_id[of "demoRecv NetMsgId_C2SLogout" 0 NetMsgId_C2SLogout "''m''" "[]" "C2SLogout demoSvc" demoSvc]
  by (simp add: demoRecv_def mapFunc_def privateChatFuncs_def)

section \<open>What all handlers keep\<close>

lemma keeps_wf_registered: "list_all (\<lambda>(_, f). keeps (inv X) (f c msg)) (mapFunc srv)"
  by (simp add: mapFunc_def privateChatFuncs_def keeps_wf_private_chat friendsFuncs_def keeps_wf_friends
    accountFuncs_def renameFuncs_def keeps_wf_account chatGroupFuncs_def keeps_wf_create keeps_wf_join
    keeps_wf_group_members keeps_wf_group_chat MQMsgFuncs_def keeps_wf_mq_chat keeps_wf_mq_groups
    keeps_wf_mq_weibo weiboFuncs_def keeps_wf_weibo weiboAllowQueryFuncs_def weiboCoverFuncs_def
    keeps_wf_weibo_settings)

lemma keeps_wf_getMsgFunc: "getMsgFunc srv i = Some f \<Longrightarrow> keeps (inv X) (f c msg)"
  using keeps_wf_registered[of X c msg srv] by (auto simp: getMsgFunc_def list_all_iff dest: map_of_SomeD)

lemma ok_upd_recv [ok_upds]: "ok_upd (\<lambda>cl. cl\<lparr>chanRecvMsg := tl (chanRecvMsg cl)\<rparr>)"
  by (auto simp: ok_upd_def client_wf_def)

lemma keeps_wf_handleMsg [keeps_rules]: "keeps (inv X) (handleMsg srv c)"
proof -
  have call: "keeps (inv X) (case getMsgFunc srv i of None \<Rightarrow> ret (Some Returned)
     | Some f \<Rightarrow> do { r \<leftarrow> f c msg; ret (Some r) })" for i msg
    by (cases "getMsgFunc srv i") (auto intro!: keeps_rules intro: keeps_wf_getMsgFunc)
  show ?thesis unfolding handleMsg_def by (rule call | rule keeps_rules ok_upds)+
qed

lemma keeps_wf_handleMsgs [keeps_rules]: "keeps (inv X) (handleMsgs srv cs)"
  unfolding handleMsgs_def by (intro keeps_rules)

text \<open>So a round is a step of the sessions' transition system.\<close>

lemma handleMsgs_sess_step:
  "sess_step srv ss (ss\<lparr>sv := snd (run_state (handleMsgs srv cs) (sv ss))\<rparr>)"
  by (rule sess_step.rest) (rule keeps_wf_handleMsgs)

text \<open>
  C20: Whatever messages the clients' loops handle, in any order and with any answers of the
  services: a well-formed state stays well-formed, the registry of online clients and every
  client's account, terminal and closed state are untouched, calls that were made are not
  forgotten, and the rounds fit between any steps of logins, kicks and close watchers.
\<close>

theorem handlers_keep_process:
  assumes "server_wf s" and "run_state (handleMsgs srv cs) s = (u, t)"
  shows "server_wf t \<and> mapOnlineClient t = mapOnlineClient s \<and> keyOf t = keyOf s
     \<and> (\<forall>c. isClosed (clients t c) = isClosed (clients s c)
          \<and> closeSignal (clients t c) = closeSignal (clients s c)
          \<and> doneSignal (clients t c) = doneSignal (clients s c))
     \<and> (\<exists>h. hist t = hist s @ h) \<and> (sess_inv ss \<and> sv ss = s \<longrightarrow> sess_inv (ss\<lparr>sv := t\<rparr>))"
proof -
  have "inv (core s, hist s) s" using assms(1) by (simp add: inv_def)
  then have "inv (core s, hist s) t"
    using keepsD[OF keeps_wf_handleMsgs, of _ s srv cs] assms(2) by fastforce
  moreover have "sess_inv ss \<and> sv ss = s \<longrightarrow> sess_inv (ss\<lparr>sv := t\<rparr>)"
    using sess_inv_step[OF handleMsgs_sess_step[of srv ss cs]] assms(2) by auto
  ultimately show ?thesis by (simp add: inv_def core_def fun_eq_iff)
qed

lemma demoRecv_wf: "server_wf (demoRecv i)"
  by (auto simp: demoRecv_def server_wf_def online_wf_def client_wf_def demoClient_def demoAccount_def chanCap_def)

theorem handlers_keep_process_witness:
  "\<exists>t. run_state (handleMsgs demoSvc [0, 0]) (demoRecv NetMsgId_C2SLogout) = ((), t) \<and> server_wf t"
  using handlers_keep_process[OF demoRecv_wf, of demoSvc "[0, 0]" NetMsgId_C2SLogout]
  by (cases "run_state (handleMsgs demoSvc [0, 0]) (demoRecv NetMsgId_C2SLogout)") auto

section \<open>A message nobody handles\<close>

text \<open>
  The message by which C2SAgreeJoinChatGroup tells a user that the request to join a group
  was granted (MQAgreeSomeOneReqJoinChatGroup) has no handler: the receiving server takes it from
  the queue and does nothing, so the user is not told.
\<close>

theorem join_grant_not_handled:
  assumes "chanRecvMsg (clients s c) = PackByteMsg NetMsgId_MQAgreeSomeOneReqJoinChatGroup m # q"
  shows "run_state (handleMsg srv c) s
     = (Some Returned, s\<lparr>clients := (clients s)(c := (clients s c)\<lparr>chanRecvMsg := q\<rparr>)\<rparr>)"
proof -
  let ?i = NetMsgId_MQAgreeSomeOneReqJoinChatGroup
  have "getMsgFunc srv ?i = None" by (simp add: getMsgFunc_def mapFunc_defs wire_ids)
  moreover have "wrap32 (Uint32 (PackByteMsg ?i m)) = ?i"
    by (simp add: PackByteMsg_def Uint32_PutUint32 wrap32_def NetMsgId_MQAgreeSomeOneReqJoinChatGroup_def)
  moreover have "\<not> length (PackByteMsg ?i m) < 4" by (simp add: PackByteMsg_def)
  ultimately show ?thesis using assms by (simp add: handleMsg_def run_simps)
qed

theorem join_grant_not_handled_witness:
  "fst (run_state (handleMsg demoSvc 0) (demoRecv NetMsgId_MQAgreeSomeOneReqJoinChatGroup)) = Some Returned"
  using join_grant_not_handled[of "demoRecv NetMsgId_MQAgreeSomeOneReqJoinChatGroup" 0 "''m''" "[]" demoSvc]
  by (simp add: demoRecv_def)

end
