(* ===== verification/Guards.thy ===== *)
theory Guards
  imports Dispatch
begin

text \<open>
  Who may do what: a request that fails the checks of its handler changes nothing and is at most
  answered with an error code. Each theorem leaves two cases, the refusal and the conditions
  under which the handler goes on, with the answers that Redis and MySQL gave to the very reads
  of the check.
\<close>

section \<open>Refused requests\<close>

text \<open>
  \<open>refused c s t\<close>: from \<open>s\<close> to \<open>t\<close> services were only read, and of the process only what
  the client \<open>c\<close> is sent and its cached agent and members may differ.
\<close>

definition onlyReads :: "call list \<Rightarrow> bool" where
  "onlyReads h \<longleftrightarrow> list_all (\<lambda>q. \<not> is_write q) h"

definition refused :: "nat \<Rightarrow> server \<Rightarrow> server \<Rightarrow> bool" where
  "refused c s t \<longleftrightarrow> (\<exists>h. hist t = hist s @ h \<and> onlyReads h)
     \<and> (\<exists>q a m. t = s\<lparr>hist := hist t, clients := (clients s)(c := (clients s c)
          \<lparr>chanToClientMsg := q, agentInfoC := a, mapMember := m\<rparr>)\<rparr>)"

definition aside_upd :: "(client \<Rightarrow> client) \<Rightarrow> bool" where
  "aside_upd f \<longleftrightarrow> (\<forall>cl. \<exists>q a m. f cl = cl\<lparr>chanToClientMsg := q, agentInfoC := a, mapMember := m\<rparr>)"

lemma refused_refl [simp]: "refused c s s"
  unfolding refused_def onlyReads_def
  by (intro conjI exI[of _ "[]"] exI[of _ "chanToClientMsg (clients s c)"]
      exI[of _ "agentInfoC (clients s c)"] exI[of _ "mapMember (clients s c)"]) simp_all

lemma refused_trans:
  assumes "refused c s t" "refused c t u"
  shows "refused c s u"
proof -
  obtain h q a m where t: "t = s\<lparr>hist := hist s @ h, clients := (clients s)(c := (clients s c)
      \<lparr>chanToClientMsg := q, agentInfoC := a, mapMember := m\<rparr>)\<rparr>" "onlyReads h"
    using assms(1) unfolding refused_def by metis
  obtain h' q' a' m' where u: "u = t\<lparr>hist := hist t @ h', clients := (clients t)(c := (clients t c)
      \<lparr>chanToClientMsg := q', agentInfoC := a', mapMember := m'\<rparr>)\<rparr>" "onlyReads h'"
    using assms(2) unfolding refused_def by metis
  have "u = s\<lparr>hist := hist s @ h @ h', clients := (clients s)(c := (clients s c)
      \<lparr>chanToClientMsg := q', agentInfoC := a', mapMember := m'\<rparr>)\<rparr>"
    unfolding u t by simp
  then show ?thesis using t(2) u(2) by (auto simp: refused_def onlyReads_def)
qed

named_theorems refuse_rules \<open>programs that a refused request may run\<close>

text \<open>\<open>quiet c m\<close>: the program only reads and answers.\<close>

definition quiet :: "nat \<Rightarrow> (server, 'a) state \<Rightarrow> bool" where
  "quiet c m \<longleftrightarrow> (\<forall>s. refused c s (snd (run_state m s)))"

lemma quietD: "quiet c m \<Longrightarrow> refused c s (snd (run_state m s))"
  by (simp add: quiet_def)

lemma quiet_run: "quiet c m \<Longrightarrow> run_state m s = (a, t) \<Longrightarrow> refused c s t"
  using quietD[of c m s] by simp

lemma quiet_ret [refuse_rules]: "quiet c (ret a)"
  by (simp add: quiet_def)

lemma quiet_gets [refuse_rules]: "quiet c (gets f)"
  by (simp add: quiet_def)

lemma quiet_bind [refuse_rules]:
  "quiet c m \<Longrightarrow> (\<And>a. quiet c (f a)) \<Longrightarrow> quiet c (State_Monad.bind m f)"
  unfolding quiet_def by (metis (mono_tags, lifting) run_state_bind prod.collapse refused_trans split_beta)

lemma refused_bind:
  "quiet c m \<Longrightarrow> run_state m s = (a, t) \<Longrightarrow> quiet c (f a)
     \<Longrightarrow> refused c s (snd (run_state (State_Monad.bind m f) s))"
  using refused_trans[OF quiet_run quietD] by simp

lemma refused_step:
  "quiet c m \<Longrightarrow> run_state m s = (a, t) \<Longrightarrow> refused c t (snd (run_state (f a) t))
     \<Longrightarrow> refused c s (snd (run_state (State_Monad.bind m f) s))"
  using refused_trans[OF quiet_run] by simp

named_theorems refused_intros \<open>following a request through its checks\<close>

lemma refused_steps [refused_intros]:
  "(\<And>a t. run_state m s = (a, t) \<Longrightarrow> refused c t (snd (run_state (f a) t))) \<Longrightarrow> quiet c m
     \<Longrightarrow> refused c s (snd (run_state (State_Monad.bind m f) s))"
  "(b \<Longrightarrow> refused c s (snd (run_state k s))) \<Longrightarrow> (\<not> b \<Longrightarrow> refused c s (snd (run_state n s)))
     \<Longrightarrow> refused c s (snd (run_state (if b then k else n) s))"
  "(y = None \<Longrightarrow> refused c s (snd (run_state k s))) \<Longrightarrow> (\<And>x. y = Some x \<Longrightarrow> refused c s (snd (run_state (g x) s)))
     \<Longrightarrow> refused c s (snd (run_state (case y of None \<Rightarrow> k | Some x \<Rightarrow> g x) s))"
  "(\<And>x z. q = (x, z) \<Longrightarrow> refused c s (snd (run_state (h x z) s)))
     \<Longrightarrow> refused c s (snd (run_state (case q of (x, z) \<Rightarrow> h x z) s))"
proof -
  assume f: "\<And>a t. run_state m s = (a, t) \<Longrightarrow> refused c t (snd (run_state (f a) t))" and m: "quiet c m"
  obtain a t where at: "run_state m s = (a, t)" by fastforce
  show "refused c s (snd (run_state (State_Monad.bind m f) s))" by (rule refused_step[where m = m and f = f, OF m at f[OF at]])
qed (auto split: option.splits prod.splits)

lemma refused_returned:
  "refused c s (snd (run_state k s)) \<Longrightarrow> refused c s (snd (run_state (do { k; ret x }) s))"
  by (simp add: split_beta)

lemma quiet_cases [refuse_rules]:
  "quiet c m \<Longrightarrow> quiet c n \<Longrightarrow> quiet c (if b then m else n)"
  "quiet c k \<Longrightarrow> quiet c (whenM b k)"
  "quiet c m \<Longrightarrow> (\<And>x. quiet c (f x)) \<Longrightarrow> quiet c (case y of None \<Rightarrow> m | Some x \<Rightarrow> f x)"
  "(\<And>x z. quiet c (g x z)) \<Longrightarrow> quiet c (case p of (x, z) \<Rightarrow> g x z)"
  "(\<And>x. quiet c (f x)) \<Longrightarrow> quiet c (let x = a in f x)"
  by (simp_all add: quiet_ret whenM_def split: option.splits prod.splits)

lemma quiet_forM [refuse_rules]: "(\<And>x. quiet c (f x)) \<Longrightarrow> quiet c (forM xs f)"
  by (induction xs) (auto intro!: refuse_rules)

lemma refusedI:
  "onlyReads h \<Longrightarrow> t = s\<lparr>hist := hist s @ h, clients := (clients s)(c := (clients s c)
     \<lparr>chanToClientMsg := q, agentInfoC := a, mapMember := m\<rparr>)\<rparr> \<Longrightarrow> refused c s t"
  by (auto simp: refused_def)

lemma quiet_ask [refuse_rules]: "\<not> is_write q \<Longrightarrow> quiet c (ask q f)"
  unfolding quiet_def
proof
  fix s
  show "\<not> is_write q \<Longrightarrow> refused c s (snd (run_state (ask q f) s))"
    by (rule refusedI[where h = "[q]" and q = "chanToClientMsg (clients s c)"
          and a = "agentInfoC (clients s c)" and m = "mapMember (clients s c)"])
      (simp_all add: onlyReads_def)
qed

lemma quiet_modCli [refuse_rules]:
  assumes "aside_upd f"
  shows "quiet c (modCli c f)"
  unfolding quiet_def
proof
  fix s :: server
  obtain q a m where "f (clients s c) = (clients s c)\<lparr>chanToClientMsg := q, agentInfoC := a, mapMember := m\<rparr>"
    using assms unfolding aside_upd_def by blast
  then show "refused c s (snd (run_state (modCli c f) s))"
    by (intro refusedI[where h = "[]"]) (simp_all add: onlyReads_def)
qed

lemma aside_updI: "f = (\<lambda>cl. cl\<lparr>chanToClientMsg := q cl, agentInfoC := a cl, mapMember := m cl\<rparr>) \<Longrightarrow> aside_upd f"
  by (auto simp: aside_upd_def)

lemma aside_upds [refuse_rules]:
  "aside_upd (pushPb srv i p)"
  "aside_upd (\<lambda>cl. cl\<lparr>agentInfoC := x\<rparr>)"
  "aside_upd (\<lambda>cl. cl\<lparr>mapMember := fmupd u v (mapMember cl)\<rparr>)"
proof -
  show "aside_upd (\<lambda>cl. cl\<lparr>agentInfoC := x\<rparr>)"
    by (rule aside_updI[where q = chanToClientMsg and a = "\<lambda>_. x" and m = mapMember]) simp
  show "aside_upd (\<lambda>cl. cl\<lparr>mapMember := fmupd u v (mapMember cl)\<rparr>)"
    by (rule aside_updI[where q = chanToClientMsg and a = agentInfoC and m = "\<lambda>cl. fmupd u v (mapMember cl)"]) simp
  show "aside_upd (pushPb srv i p)"
    by (rule aside_updI[where q = "\<lambda>cl. chanToClientMsg (pushPb srv i p cl)" and a = agentInfoC and m = mapMember])
      (auto simp: pushPb_def SendBuf_def split: option.splits)
qed

lemma quiet_service [refuse_rules]:
  "\<not> rds_write r \<Longrightarrow> quiet c (rdsStatus srv r)" "\<not> rds_write r \<Longrightarrow> quiet c (rdsInt srv r)"
  "\<not> rds_write r \<Longrightarrow> quiet c (rdsStr srv r)" "\<not> rds_write r \<Longrightarrow> quiet c (rdsList srv r)"
  "\<not> rds_write r \<Longrightarrow> quiet c (rdsBool srv r)" "\<not> is_write q \<Longrightarrow> quiet c (db srv q)"
  "\<not> is_write q \<Longrightarrow> quiet c (dbInsert srv q)" "quiet c (dbExists srv w)"
  "\<not> is_write q \<Longrightarrow> quiet c (dbScanInt srv q)" "\<not> is_write q \<Longrightarrow> quiet c (dbGetGroup srv q)"
  "\<not> is_write q \<Longrightarrow> quiet c (dbGetAccount srv q)" "\<not> is_write q \<Longrightarrow> quiet c (dbGetWeibo srv q)"
  "quiet c (timeNow srv)" "quiet c (cli d)" "quiet c (GetAccountId d)" "quiet c (GetStrAccount d)"
  "quiet c (isFriendM d u)" "quiet c (isBlackListM d u)" "quiet c (rangeM srv g)"
  "quiet c (GetFriendIds srv d)"
  unfolding service_calls by (rule refuse_rules | simp; fail)+

lemma quiet_SendPbMsg [refuse_rules]: "quiet c (SendPbMsg srv c i p)"
  unfolding SendPbMsg_def by (intro refuse_rules)

lemma quiet_SendErrorCode [refuse_rules]: "quiet c (SendErrorCode srv c e t)"
  unfolding SendErrorCode_def by (intro refuse_rules)

lemma quiet_reads [refuse_rules]:
  "quiet c (GetUserHeadPortraitUrl srv u)" "quiet c (GetOtherBriefInfoFromRds srv u)"
  "quiet c (GetChatGroupInfoFromRedis srv g)" "quiet c (GetChatGroupMember srv g u)"
  "quiet c (GetRedisGroupMembers srv g)" "quiet c (ormGetGroup srv g)"
  "quiet c (getWeiboRds srv u i)" "quiet c (getWeiboDB srv i)"
  unfolding GetUserHeadPortraitUrl_def GetOtherBriefInfoFromRds_def group_store_defs
    getWeiboRds_def getWeiboDB_def
  by (rule refuse_rules | simp; fail)+

lemma quiet_agents [refuse_rules]: "quiet c (GetAgentAndMember srv c)" "quiet c (IsAgentOrMember srv c u)"
  unfolding IsAgentOrMember_def GetAgentAndMember_def Let_def by (rule refuse_rules | simp; fail)+

lemma quiet_mayChat [refuse_rules]: "quiet c (mayChat srv c u)"
  unfolding mayChat_def by (rule refuse_rules | simp; fail)+

lemmas refused_leaves [refused_intros] = quietD[OF quiet_SendErrorCode] quietD[OF quiet_SendPbMsg]
  quietD[OF quiet_ret]

lemmas quiet_checks [refused_intros] = quiet_reads quiet_mayChat quiet_service quiet_SendErrorCode
  quiet_SendPbMsg

section \<open>The checks\<close>

text \<open>What a request decodes to; a packet without a header or that cannot be decoded has none.\<close>

definition decodes :: "'a decoder \<Rightarrow> string \<Rightarrow> 'a \<Rightarrow> bool" where
  "decodes dec msg p \<longleftrightarrow> PacketHeaderSize \<le> length msg \<and> dec (drop PacketHeaderSize msg) = (True, p)"

text \<open>What the services answered, after the calls \<open>h\<close>, to the reads of the checks.\<close>

definition groupInRedis :: "svc \<Rightarrow> call list \<Rightarrow> int \<Rightarrow> bool" where
  "groupInRedis srv h g \<longleftrightarrow> (case rStr srv h (RGet RdsKeyPrefixChatGroupInfo (itoa g)) of
     (info, None) \<Rightarrow> fst (un_ChatGroup srv info) | _ \<Rightarrow> False)"

definition memberInRedis :: "svc \<Rightarrow> call list \<Rightarrow> int \<Rightarrow> int \<Rightarrow> bool" where
  "memberInRedis srv h g u \<longleftrightarrow>
     (case rStr srv h (RHGet RdsKeyPrefixGroupChatRecord (hashKey g) (itoa u)) of
        (field, None) \<Rightarrow> unjson_Member srv field \<noteq> None | _ \<Rightarrow> False)"

definition ownerInDB :: "svc \<Rightarrow> call list \<Rightarrow> int \<Rightarrow> int option" where
  "ownerInDB srv h g = (case dbGroup srv h (OrmGet ''chat_group_id = ?'' [AInt g]) of
     (Some r, None) \<Rightarrow> Some (cg_Creator r) | _ \<Rightarrow> None)"

text \<open>A refusal, or a request that passes the check \<open>P\<close> in the state in which it is handled.\<close>

definition guarded :: "nat \<Rightarrow> handler \<Rightarrow> 'a decoder \<Rightarrow> string \<Rightarrow> ('a \<Rightarrow> bool) \<Rightarrow> server \<Rightarrow> bool" where
  "guarded c m dec msg P s \<longleftrightarrow> refused c s (snd (run_state m s)) \<or> (\<exists>p. decodes dec msg p \<and> P p)"

lemma guarded_requestP:
  assumes "\<And>p. quiet c (bad p)" and "\<And>p. \<not> P p \<Longrightarrow> refused c s (snd (run_state (good p) s))"
  shows "guarded c (requestP dec msg bad good) dec msg P s"
proof -
  consider "length msg < PacketHeaderSize"
    | p where "PacketHeaderSize \<le> length msg" "dec (drop PacketHeaderSize msg) = (False, p)"
    | p where "PacketHeaderSize \<le> length msg" "dec (drop PacketHeaderSize msg) = (True, p)"
    by (metis (full_types) linorder_not_less surj_pair)
  then show ?thesis
  proof cases
    case 3
    then show ?thesis using assms(2)[of p] by (auto simp: guarded_def decodes_def requestP_def)
  qed (simp_all add: guarded_def requestP_def quietD[OF assms(1)])
qed

lemma guarded_request:
  assumes "\<And>p. quiet c (bad p)" and "\<And>p. \<not> P p \<Longrightarrow> refused c s (snd (run_state (good p) s))"
  shows "guarded c (request dec msg bad good) dec msg P s"
  unfolding request_def
proof (rule guarded_requestP)
  show "quiet c (do { bad p; ret Returned })" for p by (intro refuse_rules assms(1))
  show "\<not> P p \<Longrightarrow> refused c s (snd (run_state (do { good p; ret Returned }) s))" for p
    using assms(2)[of p] by (simp add: split_beta)
qed

section \<open>Private messages\<close>

lemma privateContentErr_sender [simp]:
  "privateContentErr (m\<lparr>pm_SenderId := a, pm_SenderName := b, pm_SenderheadPortraitUrl := d\<rparr>)
     = privateContentErr m"
  by (simp add: privateContentErr_def)

lemma quiet_sendPrivate: "privateContentErr m = Some e \<Longrightarrow> quiet c (sendPrivate srv c ts m)"
  unfolding sendPrivate_def Let_def privateContentErr_sender by (simp, intro refuse_rules)


section \<open>Group messages and group management\<close>

lemma run_GetChatGroupInfo:
  "run_state (GetChatGroupInfoFromRedis srv g) s = (r, t) \<Longrightarrow>
     hist t = hist s @ [Rds (RGet RdsKeyPrefixChatGroupInfo (itoa g))] \<and> clients t = clients s
     \<and> (r \<noteq> None \<longleftrightarrow> groupInRedis srv (hist s) g)"
  by (auto simp: GetChatGroupInfoFromRedis_def groupInRedis_def run_simps split: prod.splits option.splits if_splits)

lemma run_GetChatGroupMember:
  "run_state (GetChatGroupMember srv g u) s = (r, t) \<Longrightarrow>
     hist t = hist s @ [Rds (RHGet RdsKeyPrefixGroupChatRecord (hashKey g) (itoa u))] \<and> clients t = clients s
     \<and> (r \<noteq> None \<longleftrightarrow> memberInRedis srv (hist s) g u)"
  by (auto simp: GetChatGroupMember_def memberInRedis_def run_simps split: prod.splits option.splits)

lemma run_ormGetGroup:
  "run_state (ormGetGroup srv g) s = (r, t) \<Longrightarrow>
     hist t = hist s @ [OrmGet ''chat_group_id = ?'' [AInt g]] \<and> clients t = clients s
     \<and> map_option cg_Creator r = ownerInDB srv (hist s) g"
  by (auto simp: ormGetGroup_def ownerInDB_def run_simps split: prod.splits option.splits if_splits)

lemmas run_checks = run_GetChatGroupInfo run_GetChatGroupMember run_ormGetGroup

lemma groupContentErr_sender [simp]:
  "groupContentErr (m\<lparr>gm_SenderId := a, gm_SenderName := b, gm_SrvTimeStamp := t, gm_SenderheadPortraitUrl := d\<rparr>)
     = groupContentErr m"
  by (simp add: groupContentErr_def)

lemma quiet_sendGroupMsg: "groupContentErr m = Some e \<Longrightarrow> quiet c (sendGroupMsg srv c ts m)"
  unfolding sendGroupMsg_def Let_def groupContentErr_sender by (simp, intro refuse_rules)

text \<open>
  C9: A group message is stored and delivered only when it has text and a known type, passes the
  checks of its type, the group is known in Redis and the sender is in its member hash; else the
  request is refused.
\<close>

theorem group_message_guarded:
  "guarded c (C2SGroupChat srv c msg) (un_C2SGroupChat srv) msg
     (\<lambda>p. \<exists>m. gc_ChatMsg p = Some m \<and> gm_MsgType m \<in> set chatMsgTypes \<and> gm_Text m \<noteq> ''''
        \<and> groupContentErr m = None \<and> groupInRedis srv (hist s) (gm_ReceiveGroupId m)
        \<and> memberInRedis srv (hist s @ [Rds (RGet RdsKeyPrefixChatGroupInfo (itoa (gm_ReceiveGroupId m)))])
            (gm_ReceiveGroupId m) (ac_AccountId (account (clients s c)))) s"
  unfolding C2SGroupChat_def
  apply (rule guarded_request, rule refuse_rules)
  apply (intro refused_intros)
  subgoal for p m
    by (cases "groupContentErr m")
      (auto dest!: run_checks intro: quietD[OF quiet_sendGroupMsg])
  done

text \<open>
  C12: Only the owner that MySQL names may dissolve a group, kick a member (who must be in the
  group's member hash) or grant a request to join it; and only a member who is not the owner may
  leave it. Every other such request is refused.
\<close>

theorem group_management_guarded:
  "guarded c (C2SUnChatGroup srv c msg) (un_ChatGroupId srv) msg
     (\<lambda>g. ownerInDB srv (hist s) g = Some (ac_AccountId (account (clients s c)))) s
   \<and> guarded c (C2SChatGroupKick srv c msg) (un_C2SChatGroupKick srv) msg
     (\<lambda>p. \<exists>k. p = Some k \<and> ownerInDB srv (hist s) (ki_ChatGroupId k) = Some (ac_AccountId (account (clients s c)))
        \<and> memberInRedis srv (hist s @ [OrmGet ''chat_group_id = ?'' [AInt (ki_ChatGroupId k)]])
            (ki_ChatGroupId k) (ki_UserId k)) s
   \<and> guarded c (C2SAgreeJoinChatGroup srv c msg) (un_C2SAgreeSomeOneReqJoinChatGroup srv) msg
     (\<lambda>p. ownerInDB srv (hist s) (aj_ChatGroupId p) = Some (ac_AccountId (account (clients s c)))) s
   \<and> guarded c (C2SCancelChatGroup srv c msg) (un_ChatGroupId srv) msg
     (\<lambda>g. (\<exists>u. ownerInDB srv (hist s) g = Some u \<and> u \<noteq> ac_AccountId (account (clients s c)))
        \<and> memberInRedis srv (hist s @ [OrmGet ''chat_group_id = ?'' [AInt g]]) g
            (ac_AccountId (account (clients s c)))) s"
proof (intro conjI)
  show "guarded c (C2SUnChatGroup srv c msg) (un_ChatGroupId srv) msg
     (\<lambda>g. ownerInDB srv (hist s) g = Some (ac_AccountId (account (clients s c)))) s"
    unfolding C2SUnChatGroup_def
    apply (rule guarded_request, rule refuse_rules)
    apply (intro refused_intros)
    by (auto dest!: run_checks)
  show "guarded c (C2SChatGroupKick srv c msg) (un_C2SChatGroupKick srv) msg
     (\<lambda>p. \<exists>k. p = Some k \<and> ownerInDB srv (hist s) (ki_ChatGroupId k) = Some (ac_AccountId (account (clients s c)))
        \<and> memberInRedis srv (hist s @ [OrmGet ''chat_group_id = ?'' [AInt (ki_ChatGroupId k)]])
            (ki_ChatGroupId k) (ki_UserId k)) s"
    unfolding C2SChatGroupKick_def groupKick_def
    apply (rule guarded_requestP, (rule refuse_rules)+)
    apply (rule refused_steps(3), simp, rule refused_returned)
    apply (intro refused_intros)
    by (auto dest!: run_checks)
  show "guarded c (C2SAgreeJoinChatGroup srv c msg) (un_C2SAgreeSomeOneReqJoinChatGroup srv) msg
     (\<lambda>p. ownerInDB srv (hist s) (aj_ChatGroupId p) = Some (ac_AccountId (account (clients s c)))) s"
    unfolding C2SAgreeJoinChatGroup_def
    apply (rule guarded_requestP, (rule refuse_rules)+)
    apply (intro refused_intros)
    by (auto dest!: run_checks)
  show "guarded c (C2SCancelChatGroup srv c msg) (un_ChatGroupId srv) msg
     (\<lambda>g. (\<exists>u. ownerInDB srv (hist s) g = Some u \<and> u \<noteq> ac_AccountId (account (clients s c)))
        \<and> memberInRedis srv (hist s @ [OrmGet ''chat_group_id = ?'' [AInt g]]) g
            (ac_AccountId (account (clients s c)))) s"
    unfolding C2SCancelChatGroup_def
    apply (rule guarded_request, rule refuse_rules)
    apply (intro refused_intros)
    by (auto dest!: run_checks)
qed

section \<open>Friends and weibos\<close>

lemma run_isFriendM:
  "run_state (isFriendM c u) s = (b, t) \<Longrightarrow> t = s \<and> (b \<longleftrightarrow> IsFriend u (clients s c))"
  "run_state (isBlackListM c u) s = (b, t) \<Longrightarrow> t = s \<and> (b \<longleftrightarrow> IsBlackList u (clients s c))"
  by (auto simp: isFriendM_def isBlackListM_def)

definition friendRequested :: "svc \<Rightarrow> call list \<Rightarrow> int \<Rightarrow> int \<Rightarrow> bool" where
  "friendRequested srv h receiver sender \<longleftrightarrow>
     snd (dbInt srv h (SqlQueryRow ''select id from friend_req where receiver_id = ? and sender_id = ?''
       [AInt receiver, AInt sender])) = None"


definition weiboInRedis :: "svc \<Rightarrow> call list \<Rightarrow> int \<Rightarrow> int \<Rightarrow> weibo option" where
  "weiboInRedis srv h u i = (case rStr srv h (RGet RdsKeyPrefixWeiboString (weiboKey u i)) of
     (str, None) \<Rightarrow> (case un_Weibo srv str of (ok, w) \<Rightarrow> if ok then Some w else None) | _ \<Rightarrow> None)"

lemma run_getWeiboRds:
  "run_state (getWeiboRds srv u i) s = (r, t) \<Longrightarrow> clients t = clients s
     \<and> (case weiboInRedis srv (hist s) u i of Some w \<Rightarrow> r = (Some w, None) | None \<Rightarrow> fst r = None)"
  by (auto simp: getWeiboRds_def weiboInRedis_def run_simps split: prod.splits option.splits if_splits)

lemma run_getWeiboDB: "run_state (getWeiboDB srv i) s = (r, t) \<Longrightarrow> clients t = clients s"
  by (auto simp: getWeiboDB_def dbGetWeibo_def)


end
