(* ===== verification/Transactions.thy ===== *)
theory Transactions
  imports Guards
begin

text \<open>
  What the handlers' transactions do as a whole: the weibo functions against an abstract
  all-or-nothing transaction, and what other servers are told only after a commit.
\<close>

section \<open>The abstract transaction\<close>

text \<open>The error that MySQL answers to a call after the calls \<open>h\<close>.\<close>

definition callErr :: "svc \<Rightarrow> call list \<Rightarrow> call \<Rightarrow> goerr option" where
  "callErr srv h q = (case q of TxInsert _ \<Rightarrow> snd (dbNum srv h q) | _ \<Rightarrow> dbErr srv h q)"

text \<open>Calls in a row up to the first that fails: the calls that were made, and the error.\<close>

fun txRun :: "svc \<Rightarrow> call list \<Rightarrow> call list \<Rightarrow> call list \<times> goerr option" where
  "txRun srv h [] = (h, None)"
| "txRun srv h (q # qs) =
     (case callErr srv h q of None \<Rightarrow> txRun srv (h @ [q]) qs | Some e \<Rightarrow> (h @ [q], Some e))"

text \<open>
  The specification: begin, make the calls, commit; on an error roll back and report it; close.
\<close>

definition atomically :: "svc \<Rightarrow> call list \<Rightarrow> call list \<Rightarrow> call list \<times> goerr option" where
  "atomically srv h qs = (case dbErr srv h TxBegin of
       Some e \<Rightarrow> (h @ [TxBegin, TxClose], Some e)
     | None \<Rightarrow> (case txRun srv (h @ [TxBegin]) (qs @ [TxCommit]) of
         (h', None) \<Rightarrow> (h' @ [TxClose], None)
       | (h', Some e) \<Rightarrow> (h' @ [TxRollback, TxClose], Some e)))"

lemma txRun_append:
  "txRun srv h (qs @ rs) = (case txRun srv h qs of (h', None) \<Rightarrow> txRun srv h' rs | r \<Rightarrow> r)"
  by (induction qs arbitrary: h) (auto split: option.splits)

lemma txRun_made: "txRun srv h qs = (h', e) \<Longrightarrow> \<exists>m. h' = h @ m \<and> set m \<subseteq> set qs \<and> (e = None \<longrightarrow> m = qs)"
proof (induction qs arbitrary: h)
  case (Cons q qs)
  show ?case
  proof (cases "callErr srv h q")
    case None
    then obtain m where "h' = (h @ [q]) @ m" "set m \<subseteq> set qs" "e = None \<longrightarrow> m = qs"
      using Cons by fastforce
    then show ?thesis by (intro exI[of _ "q # m"]) auto
  qed (use Cons.prems in auto)
qed simp

text \<open>
  All or nothing: without an error the last call before closing is a commit that succeeded,
  with one either the transaction never began or it was rolled back after its last call.
\<close>

lemma atomically_cases:
  assumes "atomically srv h qs = (h', e)"
  obtains "e = None" "h' = h @ TxBegin # qs @ [TxCommit, TxClose]"
      "dbErr srv (h @ TxBegin # qs) TxCommit = None"
    | err where "e = Some err" "dbErr srv h TxBegin = Some err" "h' = h @ [TxBegin, TxClose]"
    | err m where "e = Some err" "dbErr srv h TxBegin = None" "h' = h @ TxBegin # m @ [TxRollback, TxClose]"
      "set m \<subseteq> insert TxCommit (set qs)"
proof (cases "dbErr srv h TxBegin")
  case None
  obtain h1 e1 where r: "txRun srv (h @ [TxBegin]) qs = (h1, e1)" by fastforce
  obtain h2 e2 where r2: "txRun srv (h @ [TxBegin]) (qs @ [TxCommit]) = (h2, e2)" by fastforce
  obtain m where m: "h2 = (h @ [TxBegin]) @ m" "set m \<subseteq> set (qs @ [TxCommit])"
      "e2 = None \<longrightarrow> m = qs @ [TxCommit]" using txRun_made[OF r2] by blast
  obtain m1 where m1: "h1 = (h @ [TxBegin]) @ m1" "e1 = None \<longrightarrow> m1 = qs" using txRun_made[OF r] by blast
  have ok: "e2 = None \<Longrightarrow> e1 = None \<and> dbErr srv h1 TxCommit = None"
    using r r2 by (auto simp: txRun_append callErr_def split: option.splits)
  show thesis
  proof (cases e2)
    case None
    then show thesis using that(1) assms \<open>dbErr srv h TxBegin = None\<close> r2 m m1 ok
      by (simp add: atomically_def)
  next
    case (Some err)
    then show thesis using that(3)[of err m] assms \<open>dbErr srv h TxBegin = None\<close> r2 m
      by (simp add: atomically_def)
  qed
next
  case (Some err)
  then show thesis using that(2)[of err] assms by (simp add: atomically_def)
qed

section \<open>The weibo functions refine it\<close>

definition makes :: "svc \<Rightarrow> call \<Rightarrow> (server, goerr option) state \<Rightarrow> bool" where
  "makes srv q m \<longleftrightarrow> (\<forall>s. run_state m s = (callErr srv (hist s) q, s\<lparr>hist := hist s @ [q]\<rparr>))"

lemma makes_calls:
  "makes srv (TxInsert r) (txInsert srv (r :: row))"
  "makes srv (TxDBExec x a) (db srv (TxDBExec x a))"
  "makes srv TxCommit (db srv TxCommit)"
  by (simp_all add: makes_def txInsert_def errOf_def run_simps callErr_def)

lemma run_txSteps:
  assumes "list_all2 (\<lambda>(k, m) q. k \<noteq> 0 \<and> makes srv q m) ms qs"
  shows "\<exists>k. run_state (txSteps ms) s = ((k, snd (txRun srv (hist s) qs)), s\<lparr>hist := fst (txRun srv (hist s) qs)\<rparr>)
    \<and> (k = 0 \<longleftrightarrow> snd (txRun srv (hist s) qs) = None)"
  using assms
proof (induction ms qs arbitrary: s rule: list_all2_induct)
  case (Cons km ms q qs)
  obtain k m where km: "km = (k, m)" by fastforce
  have run: "run_state m s = (callErr srv (hist s) q, s\<lparr>hist := hist s @ [q]\<rparr>)" and "k \<noteq> 0"
    using Cons.hyps km by (auto simp: makes_def)
  then show ?case
    using Cons.IH[of "s\<lparr>hist := hist s @ [q]\<rparr>"] by (auto simp: km split: option.splits)
qed simp

lemma run_inTxE:
  assumes "list_all2 (\<lambda>(k, m) q. k \<noteq> 0 \<and> makes srv q m) ms (qs @ [TxCommit])"
  shows "run_state (inTxE srv (txSteps ms)) s
    = (snd (atomically srv (hist s) qs), s\<lparr>hist := fst (atomically srv (hist s) qs)\<rparr>)"
proof -
  obtain k where "run_state (txSteps ms) (s\<lparr>hist := hist s @ [TxBegin]\<rparr>)
      = ((k, snd (txRun srv (hist s @ [TxBegin]) (qs @ [TxCommit]))),
         s\<lparr>hist := fst (txRun srv (hist s @ [TxBegin]) (qs @ [TxCommit]))\<rparr>)"
    "k = 0 \<longleftrightarrow> snd (txRun srv (hist s @ [TxBegin]) (qs @ [TxCommit])) = None"
    using run_txSteps[OF assms, of "s\<lparr>hist := hist s @ [TxBegin]\<rparr>"] by auto
  then show ?thesis
    by (auto simp: inTxE_def atomically_def run_simps split: option.splits prod.splits)
qed


text \<open>
  A failed commit of publishWeiboDB is rolled back but not reported: the function answers nil,
  and its caller goes on to store and announce a weibo that is not in MySQL.
\<close>

theorem failed_publish_commit_hidden:
  assumes "dbErr srv (hist s) TxBegin = None"
    and "txRun srv (hist s @ [TxBegin])
      [TxInsert (WeiboRow \<lparr>wr_AccountId = a, wr_PhotosBin = we_UrlBin w, wr_MsgContent = we_Text w,
         wr_WeiboId = we_WeiboId w, wr_MsgDatetime = ts, wr_ThumbupTimes = 0\<rparr>),
       TxInsert (WeiboActionLog a (we_WeiboId w) MsgActionWeibo_publish_weibo a ts)] = (h, None)"
    and "dbErr srv h TxCommit = Some err" and "a = ac_AccountId (account (clients s c))"
  shows "run_state (publishWeiboDB srv c w ts) s = (None, s\<lparr>hist := h @ [TxCommit, TxRollback, TxClose]\<rparr>)"
proof -
  let ?qs = "[TxInsert (WeiboRow \<lparr>wr_AccountId = a, wr_PhotosBin = we_UrlBin w, wr_MsgContent = we_Text w,
         wr_WeiboId = we_WeiboId w, wr_MsgDatetime = ts, wr_ThumbupTimes = 0\<rparr>),
       TxInsert (WeiboActionLog a (we_WeiboId w) MsgActionWeibo_publish_weibo a ts)]"
  let ?ms = "[(1 :: int, txInsert srv (WeiboRow \<lparr>wr_AccountId = a, wr_PhotosBin = we_UrlBin w, wr_MsgContent = we_Text w,
         wr_WeiboId = we_WeiboId w, wr_MsgDatetime = ts, wr_ThumbupTimes = 0\<rparr>)),
       (2, txInsert srv (WeiboActionLog a (we_WeiboId w) MsgActionWeibo_publish_weibo a ts))]"
  have "list_all2 (\<lambda>(k, m) q. k \<noteq> 0 \<and> makes srv q m) ?ms ?qs" by (simp add: makes_calls)
  from run_txSteps[OF this, of "s\<lparr>hist := hist s @ [TxBegin]\<rparr>"] assms(2)
  have "run_state (txSteps ?ms) (s\<lparr>hist := hist s @ [TxBegin]\<rparr>) = ((0, None), s\<lparr>hist := h\<rparr>)" by simp
  then show ?thesis using assms(1,3,4)
    by (simp add: publishWeiboDB_def inTxE_def run_simps del: txSteps.simps)
qed

theorem failed_publish_commit_hidden_witness:
  "fst (run_state (publishWeiboDB (demoSvc\<lparr>dbErr := \<lambda>h q. if q = TxCommit then Some ErrNil else None\<rparr>) 0 no_weibo 0)
     demoServer) = None"
  by (subst failed_publish_commit_hidden[where a = 1 and err = ErrNil and h = "[TxBegin,
      TxInsert (WeiboRow \<lparr>wr_AccountId = 1, wr_PhotosBin = we_UrlBin no_weibo, wr_MsgContent = we_Text no_weibo,
         wr_WeiboId = we_WeiboId no_weibo, wr_MsgDatetime = 0, wr_ThumbupTimes = 0\<rparr>),
      TxInsert (WeiboActionLog 1 (we_WeiboId no_weibo) MsgActionWeibo_publish_weibo 1 0)]"])
    (simp_all add: callErr_def demoSvc_def)

section \<open>Nothing is announced before the commit\<close>

text \<open>A message to another server.\<close>

fun announces :: "call \<Rightarrow> bool" where
  "announces (Rds (RDo prefix _ _)) = (prefix = ''pub'')"
| "announces _ = False"

text \<open>
  \<open>unannounced s t\<close>: nothing has been announced since \<open>s\<close>. \<open>committed srv s t\<close>: nothing had
  been when a commit succeeded.
\<close>

definition unannounced :: "server \<Rightarrow> server \<Rightarrow> bool" where
  "unannounced s t \<longleftrightarrow> (\<exists>h. hist t = hist s @ h \<and> list_all (\<lambda>q. \<not> announces q) h)"

definition committed :: "svc \<Rightarrow> server \<Rightarrow> server \<Rightarrow> bool" where
  "committed srv s t \<longleftrightarrow> (\<exists>h h'. hist t = hist s @ h @ TxCommit # h' \<and> list_all (\<lambda>q. \<not> announces q) h
     \<and> dbErr srv (hist s @ h) TxCommit = None)"

definition pre :: "server \<Rightarrow> server \<Rightarrow> bool" where
  "pre s t \<longleftrightarrow> server_wf t \<and> unannounced s t"

definition commits_first :: "svc \<Rightarrow> server \<Rightarrow> (server, 'a) state \<Rightarrow> bool" where
  "commits_first srv s m \<longleftrightarrow> (\<forall>t. pre s t \<longrightarrow> pre s (snd (run_state m t))
     \<or> server_wf (snd (run_state m t)) \<and> committed srv s (snd (run_state m t)))"

lemma committed_later: "committed srv s t \<Longrightarrow> hist u = hist t @ h \<Longrightarrow> committed srv s u"
  by (fastforce simp: committed_def)

lemma late_keeps:
  assumes "\<And>X. keeps (inv X) m" "server_wf t" "committed srv s t"
  shows "server_wf (snd (run_state m t)) \<and> committed srv s (snd (run_state m t))"
  using inv_run[OF assms(1,2)] committed_later[OF assms(3)] by blast

named_theorems tx_rules \<open>programs that announce nothing before a commit\<close>

lemma keeps_pre_ask [tx_rules]: "\<not> announces q \<Longrightarrow> keeps (pre s) (ask q f)"
  using keepsD[OF inv_server_wf[OF keeps_wf_ask[of _ q f]]]
  by (force simp: keeps_def pre_def unannounced_def)

lemma keeps_pre_modCli [tx_rules]: "ok_upd f \<Longrightarrow> keeps (pre s) (modCli c f)"
  using keepsD[OF inv_server_wf[OF keeps_wf_modCli[of f _ c]]]
  by (force simp: keeps_def pre_def unannounced_def)

lemma commits_first_keeps: "keeps (pre s) m \<Longrightarrow> commits_first srv s m"
  by (simp add: keeps_def commits_first_def)

lemma commits_first_bind:
  assumes "keeps (pre s) m" "\<And>a. commits_first srv s (f a)"
  shows "commits_first srv s (State_Monad.bind m f)"
  using assms by (auto simp: keeps_def commits_first_def split_beta)

lemma commits_first_later:
  assumes "commits_first srv s m" "\<And>a X. keeps (inv X) (f a)" "\<And>a. keeps (pre s) (f a)"
  shows "commits_first srv s (State_Monad.bind m f)"
  unfolding commits_first_def
proof (intro allI impI)
  fix t assume "pre s t"
  obtain a u where u: "run_state m t = (a, u)" by fastforce
  from \<open>pre s t\<close> assms(1) u have "pre s u \<or> server_wf u \<and> committed srv s u"
    by (fastforce simp: commits_first_def)
  then show "pre s (snd (run_state (State_Monad.bind m f) t))
     \<or> server_wf (snd (run_state (State_Monad.bind m f) t))
       \<and> committed srv s (snd (run_state (State_Monad.bind m f) t))"
    using u late_keeps[OF assms(2)[of _ a], of u] keepsD[OF assms(3)[of a], of u] by auto
qed

lemma commits_first_commit:
  assumes "\<And>e. keeps (pre s) (f (Some e))" "\<And>X. keeps (inv X) (f None)"
  shows "commits_first srv s (State_Monad.bind (db srv TxCommit) f)"
  unfolding commits_first_def
proof (intro allI impI)
  fix t assume pre: "pre s t"
  let ?u = "t\<lparr>hist := hist t @ [TxCommit]\<rparr>"
  have u: "pre s ?u" using keepsD[OF keeps_pre_ask pre, of TxCommit undefined] by simp
  have run: "run_state (db srv TxCommit) t = (dbErr srv (hist t) TxCommit, ?u)" by (simp add: run_simps)
  show "pre s (snd (run_state (State_Monad.bind (db srv TxCommit) f) t))
     \<or> server_wf (snd (run_state (State_Monad.bind (db srv TxCommit) f) t))
       \<and> committed srv s (snd (run_state (State_Monad.bind (db srv TxCommit) f) t))"
  proof (cases "dbErr srv (hist t) TxCommit")
    case None
    obtain h where "hist t = hist s @ h" "list_all (\<lambda>q. \<not> announces q) h"
      using pre by (auto simp: pre_def unannounced_def)
    then have "committed srv s ?u" using None unfolding committed_def
      by (intro exI[of _ h] exI[of _ "[]"]) simp
    then show ?thesis using late_keeps[OF assms(2), of ?u] u run None by (simp add: pre_def)
  next
    case (Some e)
    then show ?thesis using keepsD[OF assms(1) u, of e] run by simp
  qed
qed

lemma commits_first_cases:
  "commits_first srv s m \<Longrightarrow> commits_first srv s n \<Longrightarrow> commits_first srv s (if b then m else n)"
  "commits_first srv s m \<Longrightarrow> (\<And>x. commits_first srv s (f x)) \<Longrightarrow> commits_first srv s (case y of None \<Rightarrow> m | Some x \<Rightarrow> f x)"
  "(\<And>x z. commits_first srv s (g x z)) \<Longrightarrow> commits_first srv s (case p of (x, z) \<Rightarrow> g x z)"
  "(\<And>x. commits_first srv s (f x)) \<Longrightarrow> commits_first srv s (let x = a in f x)"
  "(\<And>x. commits_first srv s (f x)) \<Longrightarrow> (\<And>x. commits_first srv s (h x)) \<Longrightarrow> commits_first srv s (case z of Inl x \<Rightarrow> f x | Inr x \<Rightarrow> h x)"
  by (simp_all split: option.splits prod.splits sum.splits)

lemma keeps_pre_service [tx_rules]:
  "\<not> announces (Rds r) \<Longrightarrow> keeps (pre s) (rdsStatus srv r)" "\<not> announces (Rds r) \<Longrightarrow> keeps (pre s) (rdsInt srv r)"
  "\<not> announces (Rds r) \<Longrightarrow> keeps (pre s) (rdsStr srv r)" "\<not> announces (Rds r) \<Longrightarrow> keeps (pre s) (rdsList srv r)"
  "\<not> announces q \<Longrightarrow> keeps (pre s) (db srv q)" "\<not> announces q \<Longrightarrow> keeps (pre s) (dbInsert srv q)"
  "keeps (pre s) (dbExists srv w)" "\<not> announces q \<Longrightarrow> keeps (pre s) (dbGetGroup srv q)"
  "keeps (pre s) (timeNow srv)" "keeps (pre s) (cli d)" "keeps (pre s) (GetAccountId d)"
  "keeps (pre s) (GetStrAccount d)" "keeps (pre s) (isFriendM d u)" "keeps (pre s) (rangeIds srv ids)"
  "keeps (pre s) (GetFriendIds srv d)"
  unfolding service_calls rangeIds_def by (rule keeps_rules tx_rules | simp; fail)+

lemma keeps_pre_sends [tx_rules]:
  "keeps (pre s) (SendPbMsg srv c i p)" "keeps (pre s) (SendErrorCode srv c e t)"
  unfolding SendErrorCode_def SendPbMsg_def by (rule tx_rules keeps_rules)+

lemma keeps_pre_reads [tx_rules]:
  "keeps (pre s) (GetOtherBriefInfoFromRds srv u)" "keeps (pre s) (GetChatGroupMember srv g u)"
  "keeps (pre s) (memberRowM srv u g n)"
  unfolding GetOtherBriefInfoFromRds_def GetChatGroupMember_def memberRowM_def
  by (rule keeps_rules tx_rules | simp; fail)+

lemma keeps_pre_checkInvitees [tx_rules]: "keeps (pre s) (checkInvitees srv c us ids hash)"
proof (induction us arbitrary: ids hash)
  case (Cons u us)
  show ?case unfolding checkInvitees.simps by (rule Cons.IH keeps_rules tx_rules)+
qed (simp add: keeps_rules)

lemma keeps_pre_inviteeRows [tx_rules]: "keeps (pre s) (inviteeRows srv g us)"
  by (induction us) (auto intro!: keeps_rules tx_rules)

lemma keeps_pre_snowflake [tx_rules]: "keeps (pre s) (GetSnowflakeId srv)"
  unfolding GetSnowflakeId_def sleepM_def Let_def
  by (intro keeps_rules tx_rules)
    (auto simp: keeps_def pre_def unannounced_def server_wf_def online_wf_def)

lemma commits_first_inTx:
  assumes "commits_first srv s m" "\<And>X. keeps (inv X) m"
  shows "commits_first srv s (inTx srv m)"
proof -
  have roll: "keeps (pre s) (whenM b (do { _ \<leftarrow> db srv TxRollback; skip }))"
    and close: "keeps (pre s) (do { _ \<leftarrow> db srv TxClose; skip })" for b
    by (rule keeps_rules tx_rules | simp; fail)+
  have "commits_first srv s (do { errCode \<leftarrow> m; whenM (errCode \<noteq> 0) (do { _ \<leftarrow> db srv TxRollback; skip }) })"
    by (rule commits_first_later[OF assms(1) _ roll]) (rule keeps_rules)+
  then have "commits_first srv s (if err \<noteq> None then skip
      else do { errCode \<leftarrow> m; whenM (errCode \<noteq> 0) (do { _ \<leftarrow> db srv TxRollback; skip }) })" for err :: "goerr option"
    by (simp add: commits_first_keeps keeps_rules)
  then have rest: "commits_first srv s (do {
      _ \<leftarrow> (if err \<noteq> None then skip
            else do { errCode \<leftarrow> m; whenM (errCode \<noteq> 0) (do { _ \<leftarrow> db srv TxRollback; skip }) });
      _ \<leftarrow> db srv TxClose;
      skip })" for err :: "goerr option"
    by (rule commits_first_later) (rule close keeps_rules)+
  show ?thesis unfolding inTx_def by (rule commits_first_bind[OF keeps_pre_service(5) rest]) simp
qed

lemma commits_first_request:
  assumes "\<And>p. keeps (pre s) (bad p)" "\<And>p. commits_first srv s (good p)" "\<And>p X. keeps (inv X) (good p)"
  shows "commits_first srv s (request dec msg bad good)"
proof -
  have "commits_first srv s (do { good p; ret Returned })" for p
    by (rule commits_first_later[OF assms(2)]) (rule keeps_rules)+
  moreover have "commits_first srv s (do { bad p; ret Returned })" for p
    by (rule commits_first_keeps, intro keeps_rules assms(1))
  ultimately show ?thesis unfolding request_def requestP_def
    by (auto intro!: commits_first_keeps keeps_rules split: prod.splits)
qed

lemma commits_first_commit_if:
  "(\<And>e. keeps (pre s) (m e)) \<Longrightarrow> (\<And>e X. keeps (inv X) (n e)) \<Longrightarrow>
     commits_first srv s (State_Monad.bind (db srv TxCommit) (\<lambda>e. if e \<noteq> None then m e else n e))"
  by (rule commits_first_commit) simp_all

lemma keeps_wf_announceGroup [keeps_rules]: "keeps (inv X) (announceGroup srv c q g ids hash)"
  unfolding announceGroup_def Let_def by (intro keeps_rules)

lemma commits_first_createTx: "commits_first srv s (createGroupTx srv c q g rows ids hash)"
proof -
  have fail: "keeps (pre s) (do { SendErrorCode srv c e 0; ret k })" for e and k :: int
    by (intro keeps_rules tx_rules)
  have ins: "keeps (pre s) (dbInsert srv (TxInsert r))" for r by (rule tx_rules) simp
  show ?thesis unfolding createGroupTx_def
    by (intro commits_first_bind[OF ins] commits_first_cases(1) commits_first_keeps[OF fail]
        commits_first_commit_if fail) (intro keeps_rules)
qed

lemma keeps_wf_createTx [keeps_rules]: "keeps (inv X) (createGroupTx srv c q g rows ids hash)"
  unfolding createGroupTx_def by (intro keeps_rules)

lemma commits_first_locked: "commits_first srv s (createGroupLocked srv c q ids hash)"
  unfolding createGroupLocked_def Let_def
  by (intro commits_first_bind tx_rules commits_first_inTx commits_first_createTx keeps_rules)

lemma keeps_wf_locked [keeps_rules]: "keeps (inv X) (createGroupLocked srv c q ids hash)"
  unfolding createGroupLocked_def Let_def by (intro keeps_rules)

lemma commits_first_create: "commits_first srv s (C2SCreateChatGroup srv c msg)"
proof -
  have del: "keeps (pre s) (do { _ \<leftarrow> rdsInt srv (RDel k v); skip })" for k v
    by (intro keeps_rules tx_rules) simp
  have "commits_first srv s (do { createGroupLocked srv c q ids hash; _ \<leftarrow> rdsInt srv (RDel k v); skip })"
    for q ids hash k v
    by (rule commits_first_later[OF commits_first_locked _ del]) (intro keeps_rules)
  note locked = this
  have setex: "keeps (pre s) (rdsStatus srv (RSetex a b d e))" for a b d e by (rule tx_rules) simp
  show ?thesis unfolding C2SCreateChatGroup_def
    by (intro commits_first_request locked commits_first_cases commits_first_bind[OF keeps_pre_service(10)]
        commits_first_bind[OF keeps_pre_checkInvitees] commits_first_bind[OF setex]
        commits_first_keeps[OF keeps_return] commits_first_keeps[OF keeps_pre_sends(2)] keeps_rules tx_rules)
qed

lemma commits_first_reqJoinTx: "commits_first srv s (reqJoinTx srv c rjcg)"
proof -
  have get: "keeps (pre s) (dbGetGroup srv (TxGet a b))" and ins: "keeps (pre s) (dbInsert srv (TxInsert r))"
    for a b r by (rule tx_rules, simp)+
  have fail: "keeps (pre s) (do { SendErrorCode srv c e 0; ret k })" for e and k :: int
    by (intro keeps_rules tx_rules)
  show ?thesis unfolding reqJoinTx_def Let_def
    by (intro commits_first_bind[OF get] commits_first_bind[OF ins] commits_first_bind[OF keeps_pre_snowflake]
        commits_first_bind[OF keeps_pre_service(9)] commits_first_bind[OF keeps_pre_service(10)]
        commits_first_cases commits_first_keeps[OF fail] commits_first_commit_if keeps_rules)
qed

lemma keeps_wf_reqJoinTx [keeps_rules]: "keeps (inv X) (reqJoinTx srv c rjcg)" "keeps (inv X) (reqJoin srv c rjcg)"
  unfolding reqJoin_def reqJoinTx_def Let_def by (intro keeps_rules)+

lemma commits_first_reqJoin: "commits_first srv s (C2SReqJoinChatGroup srv c msg)"
proof -
  have "commits_first srv s (reqJoin srv c rjcg)" for rjcg
    unfolding reqJoin_def
    by (intro commits_first_bind tx_rules commits_first_cases(1) commits_first_inTx commits_first_reqJoinTx
        keeps_rules commits_first_keeps[OF keeps_pre_sends(2)])
  then have "commits_first srv s (do { reqJoin srv c rjcg; ret Returned })" for rjcg
    by (rule commits_first_later) (rule keeps_rules)+
  moreover have "commits_first srv s (do { SendErrorCode srv c e 0; ret Returned })" for e
    by (rule commits_first_keeps, intro keeps_rules tx_rules)
  ultimately show ?thesis unfolding C2SReqJoinChatGroup_def requestP_def
    by (intro commits_first_cases commits_first_keeps[OF keeps_return])
qed

lemma deleteFriend_inTx:
  "C2SDeleteFriend srv c msg = request (un_FriendId srv) msg
       (\<lambda>_. SendErrorCode srv c MsgErrCode_proto_unmarshal_msg_struct_C2SDeleteFriend_has_error 0)
       (\<lambda>friendId. do {
          isF \<leftarrow> isFriendM c friendId;
          (if \<not> isF then SendErrorCode srv c MsgErrCode_delete_friend_is_not_friend 0
           else inTx srv (deleteFriendBody srv c friendId)) })"
  unfolding C2SDeleteFriend_def inTx_def by (rule refl)

lemma keeps_pre_bareContacts [tx_rules]: "keeps (pre s) (bareContacts srv c)"
  unfolding bareContacts_def by (intro keeps_rules tx_rules)

lemma keeps_wf_deleteFriendBody [keeps_rules]: "keeps (inv X) (deleteFriendBody srv c u)"
  unfolding deleteFriendBody_def friendDeleted_def Let_def by (intro keeps_rules)

lemma commits_first_deleteFriend: "commits_first srv s (C2SDeleteFriend srv c msg)"
proof -
  have exec: "keeps (pre s) (db srv (TxDBExec a b))" and ins: "keeps (pre s) (dbInsert srv (TxInsert r))"
    for a b r by (rule tx_rules, simp)+
  have undo: "keeps (pre s) (do { modCli c (BeFriend u); ret k })" for u and k :: int
    by (intro keeps_rules tx_rules)
  have fail: "keeps (pre s) (do { modCli c (BeFriend u); SendErrorCode srv c e 0; ret k })" for u e and k :: int
    by (intro keeps_rules tx_rules)
  have drop: "keeps (pre s) (modCli c (BeNotFriend u))" for u by (intro tx_rules ok_upds)
  have "commits_first srv s (deleteFriendBody srv c u)" for u
    unfolding deleteFriendBody_def friendDeleted_def Let_def
    by (intro commits_first_bind[OF exec] commits_first_bind[OF ins] commits_first_bind[OF keeps_pre_bareContacts]
        commits_first_bind[OF keeps_pre_service(9)] commits_first_bind[OF keeps_pre_service(11)]
        commits_first_bind[OF drop] commits_first_cases(1) commits_first_keeps[OF undo]
        commits_first_commit_if fail keeps_rules)
  then show ?thesis unfolding deleteFriend_inTx
    by (intro commits_first_request commits_first_bind[OF keeps_pre_service(13)] commits_first_cases(1)
        commits_first_inTx commits_first_keeps[OF keeps_pre_sends(2)] keeps_rules tx_rules)
qed

text \<open>
  C14: Creating a group, asking to join one and deleting a friend tell other servers nothing
  until the transaction's commit has succeeded: either nothing is announced, or a successful
  commit comes before everything that is.
\<close>

theorem announced_after_commit:
  assumes "server_wf s"
    and "m \<in> {C2SCreateChatGroup srv c msg, C2SReqJoinChatGroup srv c msg, C2SDeleteFriend srv c msg}"
  shows "unannounced s (snd (run_state m s)) \<or> committed srv s (snd (run_state m s))"
proof -
  have "commits_first srv s m"
    using assms(2) commits_first_create commits_first_reqJoin commits_first_deleteFriend by blast
  moreover have "pre s s" using assms(1) by (simp add: pre_def unannounced_def)
  ultimately show ?thesis by (auto simp: commits_first_def pre_def)
qed

theorem announced_after_commit_witness:
  "let t = snd (run_state (C2SCreateChatGroup demoSvc 0 ''01234567'') (demoRecv 0))
   in unannounced (demoRecv 0) t \<or> committed demoSvc (demoRecv 0) t"
  using announced_after_commit[OF demoRecv_wf, of "C2SCreateChatGroup demoSvc 0 ''01234567''" demoSvc 0 "''01234567''"]
  by simp

end
