(* ===== verification/Deliveries.thy ===== *)
theory Deliveries
  imports Transactions
begin

text \<open>
  What reaches whom: the pages of weibos, private messages, the members of a dissolved group, the
  black list, and a message withdrawn by someone else.
\<close>

section \<open>Pages of weibos\<close>

text \<open>Programs that leave the clients alone.\<close>

definition clientsAre :: "(nat \<Rightarrow> client) \<Rightarrow> server \<Rightarrow> bool" where
  "clientsAre X s \<longleftrightarrow> clients s = X"

lemma keeps_clients_ask [keeps_rules]: "keeps (clientsAre X) (ask q f)"
  by (simp add: keeps_def clientsAre_def)

lemma keeps_clients_reads [keeps_rules]:
  "keeps (clientsAre X) (rdsStr srv r)" "keeps (clientsAre X) (rdsInt srv r)"
  "keeps (clientsAre X) (rdsList srv r)" "keeps (clientsAre X) (timeNow srv)"
  "keeps (clientsAre X) (cli d)" "keeps (clientsAre X) (GetAccountId d)" "keeps (clientsAre X) (GetStrAccount d)"
  unfolding service_calls by (intro keeps_rules)+

lemma keeps_clients_weibo [keeps_rules]:
  "keeps (clientsAre X) (weiboDetails srv c b w)" "keeps (clientsAre X) (showsOnAll srv c w)"
  "keeps (clientsAre X) (tooOld srv n w)"
  unfolding weiboDetails_def getLikeWeiboRdsIds_def getReplyWeiboRds_def showsOnAll_def tooOld_def
    IsSomeoneInOtherBlackList_def DoesLookFriendWeiboRds_def DoesAllowFriendLookMyWeiboRds_def
    GetFriendLookStrategy_def Let_def
  by (intro keeps_rules)+

lemma keeps_clients_entries [keeps_rules]:
  "keeps (clientsAre X) (allEntry srv c v)" "keeps (clientsAre X) (someoneEntry srv c u n v)"
  unfolding allEntry_def someoneEntry_def by (intro keeps_rules)+

lemma entry_clients:
  "run_state (allEntry srv c v) s = (e, t) \<Longrightarrow> clients t = clients s"
  "run_state (someoneEntry srv c u n v) s = (d, t) \<Longrightarrow> clients t = clients s"
  using keepsD[OF keeps_clients_entries(1), of "clients s" s srv c v]
    keepsD[OF keeps_clients_entries(2), of "clients s" s srv c u n v]
  by (simp_all add: clientsAre_def)

text \<open>Whose weibos a client sees on its own page: its own, and those of friends off its black list.\<close>

definition ownPage :: "client \<Rightarrow> browseWeibo \<Rightarrow> bool" where
  "ownPage cl b \<longleftrightarrow> (let u = we_PublisherId (bw_Weibo b) in
     u = ac_AccountId (account cl) \<or> (IsFriend u cl \<and> \<not> IsBlackList u cl))"

text \<open>Programs whose every answer has a property.\<close>

definition returns :: "('a \<Rightarrow> bool) \<Rightarrow> ('s, 'a) state \<Rightarrow> bool" where
  "returns P m \<longleftrightarrow> (\<forall>s. P (fst (run_state m s)))"

named_theorems returns_rules \<open>structural rules for the answers of programs\<close>

lemma returns_run: "returns P m \<Longrightarrow> run_state m s = (a, t) \<Longrightarrow> P a"
  by (metis fst_conv returns_def)

lemma returns_ret [returns_rules]: "P a \<Longrightarrow> returns P (ret a)"
  by (simp add: returns_def)

lemma returns_bind [returns_rules]: "(\<And>a. returns P (f a)) \<Longrightarrow> returns P (State_Monad.bind m f)"
  by (simp add: returns_def split_beta)

lemma returns_cases [returns_rules]:
  "(b \<Longrightarrow> returns P m) \<Longrightarrow> (\<not> b \<Longrightarrow> returns P n) \<Longrightarrow> returns P (if b then m else n)"
  "returns P m \<Longrightarrow> (\<And>x. returns P (f x)) \<Longrightarrow> returns P (case y of None \<Rightarrow> m | Some x \<Rightarrow> f x)"
  "(\<And>x y. returns P (h x y)) \<Longrightarrow> returns P (case p of (x, y) \<Rightarrow> h x y)"
  by (auto split: option.split prod.split)

lemma weiboDetails_weibo: "run_state (weiboDetails srv c f w) s = (Some b, t) \<Longrightarrow> bw_Weibo b = w"
proof -
  have "returns (\<lambda>e. \<forall>b. e = Some b \<longrightarrow> bw_Weibo b = w) (weiboDetails srv c f w)"
    unfolding weiboDetails_def Let_def by (intro returns_rules) simp_all
  from returns_run[OF this] show "run_state (weiboDetails srv c f w) s = (Some b, t) \<Longrightarrow> ?thesis" by simp
qed

lemma showsOnAll_friend:
  "run_state (showsOnAll srv c w) s = (True, t) \<Longrightarrow> we_PublisherId w = ac_AccountId (account (clients s c))
     \<or> IsFriend (we_PublisherId w) (clients s c) \<and> \<not> IsBlackList (we_PublisherId w) (clients s c)"
  by (auto simp: showsOnAll_def Let_def split: if_splits)

lemma allEntry_own:
  assumes "run_state (allEntry srv c v) s = (Some b, t)"
  shows "ownPage (clients s c) b"
proof -
  obtain bin h w where bin: "run_state (rdsStr srv (RGet RdsKeyPrefixWeiboString v)) s = ((bin, None), s\<lparr>hist := h\<rparr>)"
    and w: "un_Weibo srv bin = (True, w)"
    using assms by (auto simp: allEntry_def run_simps split: prod.splits option.splits if_splits)
  obtain shown u where shown: "run_state (showsOnAll srv c w) (s\<lparr>hist := h\<rparr>) = (shown, u)" by fastforce
  have "shown" and "bw_Weibo b = w"
    using assms bin w shown by (auto simp: allEntry_def dest: weiboDetails_weibo split: if_splits)
  with showsOnAll_friend[of srv c w "s\<lparr>hist := h\<rparr>" u] shown show ?thesis by (simp add: ownPage_def Let_def)
qed

lemma allLoop_page:
  assumes "0 < n"
  shows "length (fst (run_state (allLoop srv c n vs) s)) \<le> n
    \<and> list_all (ownPage (clients s c)) (fst (run_state (allLoop srv c n vs) s))"
  using assms
proof (induction vs arbitrary: n s)
  case (Cons v vs)
  obtain e t where e: "run_state (allEntry srv c v) s = (e, t)" by fastforce
  have IH: "0 < k \<Longrightarrow> length (fst (run_state (allLoop srv c k vs) t)) \<le> k
      \<and> list_all (ownPage (clients s c)) (fst (run_state (allLoop srv c k vs) t))" for k
    using Cons.IH[of k t] entry_clients(1)[OF e] by simp
  show ?case
  proof (cases e)
    case None
    then show ?thesis using e IH[OF Cons.prems] by simp
  next
    case (Some b)
    have "ownPage (clients s c) b" using allEntry_own e Some by simp
    then show ?thesis using e IH[of "n - 1"] Cons.prems Some by (auto simp: split_beta)
  qed
qed simp

lemma someoneLoop_bound:
  assumes "friendId \<noteq> ac_AccountId (account (clients s c))" "\<not> IsFriend friendId (clients s c)"
    "n < STRANGER_LOOK_WEIBO_NUM"
    and "fst (run_state (someoneLoop srv c friendId a n vs) s) = Some bs"
  shows "n + length bs \<le> STRANGER_LOOK_WEIBO_NUM"
  using assms
proof (induction vs arbitrary: n s bs)
  case (Cons v vs)
  obtain e t where e: "run_state (someoneEntry srv c friendId a v) s = (e, t)" by fastforce
  have same: "clients t = clients s" using entry_clients(2)[OF e] .
  show ?case
  proof (cases e)
    case (Inr r)
    show ?thesis
    proof (cases r)
      case None
      then show ?thesis using Cons.IH[of t n bs] Cons.prems e Inr same by simp
    next
      case (Some b)
      show ?thesis
      proof (cases "STRANGER_LOOK_WEIBO_NUM \<le> n + 1")
        case True
        then show ?thesis using Cons.prems e Inr Some same by auto
      next
        case False
        then obtain rest where "fst (run_state (someoneLoop srv c friendId a (n + 1) vs) t) = Some rest"
          "bs = b # rest" using Cons.prems e Inr Some same by (auto simp: split_beta)
        then show ?thesis using Cons.IH[of t "n + 1" rest] Cons.prems same False by simp
      qed
    qed
  qed (use Cons.prems e in simp)
qed simp

text \<open>
  The page of everyone's weibos has at most twelve, all by the client itself or by friends
  who are not on its black list.
\<close>

theorem all_page_own_and_friends:
  "length (fst (run_state (allLoop srv c 12 vs) s)) \<le> 12
   \<and> list_all (ownPage (clients s c)) (fst (run_state (allLoop srv c 12 vs) s))"
  by (rule allLoop_page) simp

text \<open>A stranger sees at most ten weibos of a user's page.\<close>

theorem stranger_page_bounded:
  assumes "friendId \<noteq> ac_AccountId (account (clients s c))" "\<not> IsFriend friendId (clients s c)"
    and "fst (run_state (someoneLoop srv c friendId a 0 vs) s) = Some bs"
  shows "length bs \<le> 10"
  using someoneLoop_bound[OF assms(1,2) _ assms(3)] by (simp add: STRANGER_LOOK_WEIBO_NUM_def)

theorem stranger_page_bounded_witness:
  "\<exists>bs. fst (run_state (someoneLoop demoSvc 0 2 0 0 []) demoServer) = Some bs \<and> length bs \<le> 10"
  using stranger_page_bounded[of 2 demoServer 0 demoSvc 0 "[]" "[]"] by (simp add: IsFriend_def)

end
