(* ===== verification/Login.thy ===== *)
theory Login
  imports Dispatch
begin

text \<open>
  msg-server/msgServerApp/clientLogin.go and ThirdPlatform.go: the first message of a connection
  (registration, the three logins, verification codes, a forgotten password) and what the client
  object contributes to the answer. Before the client object exists, answers are written straight
  to the socket, whose address is the one the client object will get. \<open>wait\<close> is what the other
  goroutines of the process do between KickClient and the done signal of the kicked client.
\<close>

section \<open>The socket\<close>

definition socketSendPbMsg :: "svc \<Rightarrow> nat \<Rightarrow> int \<Rightarrow> pb \<Rightarrow> (server, unit) state" where
  "socketSendPbMsg srv c pid pb =
     (case marshal srv pb of
        None \<Rightarrow> skip
      | Some msg \<Rightarrow> ask (SocketWrite c (PutUint32 pid @ PutUint32 (int (length msg)) @ msg)) (\<lambda>_. ()))"

definition socketClose :: "nat \<Rightarrow> (server, unit) state" where
  "socketClose c = ask (SocketClose c) (\<lambda>_. ())"

definition sendErrCode :: "svc \<Rightarrow> nat \<Rightarrow> int \<Rightarrow> int \<Rightarrow> (server, unit) state" where
  "sendErrCode srv c errCode msgTimeStamp =
     socketSendPbMsg srv c NetMsgId_S2CErrorCode (Acc (S2CErrorCode errCode msgTimeStamp ''''))"

text \<open>The request is refused with an error code, and the connection closed.\<close>

definition refuse :: "svc \<Rightarrow> nat \<Rightarrow> int \<Rightarrow> int \<Rightarrow> (server, unit) state" where
  "refuse srv c errCode ts = do { sendErrCode srv c errCode ts; socketClose c }"

section \<open>Redis key prefixes\<close>

definition RdsKeyPrefixHuanXinString :: string where "RdsKeyPrefixHuanXinString = ''huanxin:string''"
definition RdsKeyPrefixVerificationForgetPasswordString :: string where "RdsKeyPrefixVerificationForgetPasswordString = ''verification_forget_password:string''"
definition RdsKeyPrefixThirdPlatformLoginToken :: string where "RdsKeyPrefixThirdPlatformLoginToken = ''third_platform_login_token:string''"
definition RdsKeyRegisterAccount :: string where "RdsKeyRegisterAccount = ''registerstatus''"
definition RdskeyLoginAccount :: string where "RdskeyLoginAccount = ''loginstatus''"

section \<open>Accounts in MySQL\<close>

text \<open>
  xorm's Get takes the non-zero fields of the bean as its conditions: here AccountId or UserName,
  and Pwd. No row is reported as sql.ErrNoRows.
\<close>

definition queryAccount :: "svc \<Rightarrow> int \<Rightarrow> string \<Rightarrow> string \<Rightarrow> (server, account option \<times> goerr option) state" where
  "queryAccount srv accountId userName pwd = do {
     r \<leftarrow> dbGetAccount srv (OrmGetBean accountId userName pwd);
     ret (case r of
            (a, Some err) \<Rightarrow> (a, Some err)
          | (None, None) \<Rightarrow> (None, Some ErrNoRows)
          | (Some a, None) \<Rightarrow> (Some a, None)) }"

definition queryAccountById :: "svc \<Rightarrow> int \<Rightarrow> string \<Rightarrow> (server, account option \<times> goerr option) state" where
  "queryAccountById srv accountId pwd = queryAccount srv accountId '''' pwd"

definition queryAccountByUsername :: "svc \<Rightarrow> string \<Rightarrow> string \<Rightarrow> (server, account option \<times> goerr option) state" where
  "queryAccountByUsername srv username pwd = queryAccount srv 0 username pwd"

definition createAccount :: "svc \<Rightarrow> int \<Rightarrow> string \<Rightarrow> (server, account \<times> goerr option) state" where
  "createAccount srv accountId pwd = do {
     nickname \<leftarrow> gets (\<lambda>s. randName srv (hist s));
     now \<leftarrow> timeNow srv;
     r \<leftarrow> dbInsert srv (OrmInsert (AccountRow accountId nickname pwd now));
     ret (\<lparr>ac_AccountId = accountId, ac_UserName = '''', ac_NickName = nickname, ac_ContactList = '''',
           ac_BlackList = '''', ac_LastMsgTimestamp = 0, ac_HeadPortrait = '''', ac_Pwd = pwd,
           ac_Status = 0, ac_AgentId = 0\<rparr>, snd r) }"

definition recordLogin :: "svc \<Rightarrow> nat \<Rightarrow> int \<Rightarrow> (server, unit) state" where
  "recordLogin srv c accountId = do {
     now \<leftarrow> timeNow srv;
     _ \<leftarrow> db srv (SqlExec (''UPDATE account SET last_login_timestamp = '' @ [CHR 0x27] @ formatTime srv (now div 1000000000)
        @ [CHR 0x27] @ '', last_login_ip = '' @ [CHR 0x27] @ remoteAddr srv c @ [CHR 0x27] @ '' WHERE account_id = '' @ itoa accountId) []);
     skip }"

section \<open>Huanxin accounts\<close>

definition GetHuanXinToken :: "svc \<Rightarrow> (server, string) state" where
  "GetHuanXinToken srv = do {
     r \<leftarrow> rdsStr srv (RGet RdsKeyPrefixHuanXinString ''token'');
     (case r of
        (token, None) \<Rightarrow> ret token
      | (_, Some _) \<Rightarrow> do {
          response \<leftarrow> ask HuanXinToken (huanXinToken srv);
          (case response of
             None \<Rightarrow> ret ''''
           | Some (accessToken, expiresIn) \<Rightarrow> do {
               _ \<leftarrow> rdsInt srv (RDel RdsKeyPrefixHuanXinString ''token'');
               _ \<leftarrow> rdsStatus srv (RSetex RdsKeyPrefixHuanXinString ''token'' (wrap64 (expiresIn * 1000000000)) (RStr accessToken));
               ret accessToken }) }) }"

text \<open>Whether the account could be created: the request succeeded and its answer has entities.\<close>

definition CreateHuanXinAccount :: "svc \<Rightarrow> string \<Rightarrow> string \<Rightarrow> string \<Rightarrow> string \<Rightarrow> (server, bool) state" where
  "CreateHuanXinAccount srv token username password nickName = do {
     r \<leftarrow> (let q = HuanXinCreate token username password nickName in ask q (\<lambda>h. huanXinCreate srv h q));
     ret (case r of (_, Some _) \<Rightarrow> False | (response, None) \<Rightarrow> unjson_CreateUser srv response) }"

definition ConfirmOwnHuanXinAccountExist :: "svc \<Rightarrow> nat \<Rightarrow> string \<Rightarrow> (server, string) state" where
  "ConfirmOwnHuanXinAccountExist srv c token = do {
     sa \<leftarrow> GetStrAccount c;
     r \<leftarrow> rdsStr srv (RGet RdsKeyPrefixHuanXinString sa);
     (case r of
        (password, None) \<Rightarrow> ret password
      | (password, Some err) \<Rightarrow>
          if err \<noteq> ErrNil then ret password
          else do {
            now \<leftarrow> timeNow srv;
            cl \<leftarrow> cli c;
            let newPassword = itoa (ac_AccountId (account cl)) @ itoa (now div 1000000000) in do {
            created \<leftarrow> CreateHuanXinAccount srv token sa newPassword (ac_NickName (account cl));
            (if \<not> created then ret ''''
             else do {
               _ \<leftarrow> rdsStatus srv (RSet RdsKeyPrefixHuanXinString sa (RStr newPassword));
               ret newPassword }) } }) }"

section \<open>What a user missed while offline\<close>

fun friendRequests :: "svc \<Rightarrow> (int \<times> int) option list \<Rightarrow> (server, friendRequest list option) state" where
  "friendRequests srv [] = ret (Some [])"
| "friendRequests srv (None # rows) = ret None"
| "friendRequests srv (Some (senderId, reqDateTime) # rows) = do {
     r \<leftarrow> QueryOtherBriefInfo srv senderId;
     (case r of
        (Some p, None) \<Rightarrow> do {
          url \<leftarrow> GetUserHeadPortraitUrl srv senderId;
          rest \<leftarrow> friendRequests srv rows;
          ret (map_option (\<lambda>rs. \<lparr>fr_SenderId = senderId, fr_ReqDateTime = reqDateTime div 1000000000,
            fr_SenderNickName = ub_Nickname p, fr_SenderHeadPortrait = url\<rparr> # rs) rest) }
      | _ \<Rightarrow> friendRequests srv rows) }"

text \<open>The answer is None for a nil slice: the query or the scan of a row failed.\<close>

definition GetAddFriendOfflineRequest :: "svc \<Rightarrow> nat \<Rightarrow> (server, friendRequest list option) state" where
  "GetAddFriendOfflineRequest srv c = do {
     acc \<leftarrow> GetAccountId c;
     r \<leftarrow> (let q = SqlQuery ''select sender_id, req_datetime from friend_req WHERE receiver_id = ?'' [AInt acc]
          in ask q (\<lambda>h. dbRowsII srv h q));
     (case r of (_, Some _) \<Rightarrow> ret None | (rows, None) \<Rightarrow> friendRequests srv rows) }"

fun friendVerifications :: "svc \<Rightarrow> (int \<times> int) option list \<Rightarrow> (server, friendVerification list option) state" where
  "friendVerifications srv [] = ret (Some [])"
| "friendVerifications srv (None # rows) = ret None"
| "friendVerifications srv (Some (accountId, t) # rows) = do {
     r \<leftarrow> GetOtherBriefInfoFromRds srv accountId;
     (case r of
        (Some briefInfo, None) \<Rightarrow> do {
          url \<leftarrow> GetUserHeadPortraitUrl srv accountId;
          rest \<leftarrow> friendVerifications srv rows;
          ret (map_option (\<lambda>rs. \<lparr>fv_FriendId = accountId, fv_BecomeFriendDateTime = t div 1000000000,
            fv_FriendNickName = ub_Nickname briefInfo, fv_FriendHeadPortrait = url\<rparr> # rs) rest) }
      | _ \<Rightarrow> friendVerifications srv rows) }"

definition getAgreeBecomeFriendOfflineRequest :: "svc \<Rightarrow> nat \<Rightarrow> (server, friendVerification list option) state" where
  "getAgreeBecomeFriendOfflineRequest srv c = do {
     acc \<leftarrow> GetAccountId c;
     r \<leftarrow> (let q = SqlQuery ''select account_id, become_friend_datetime from friend_verification where friend_id = ?'' [AInt acc]
          in ask q (\<lambda>h. dbRowsII srv h q));
     (case r of (_, Some _) \<Rightarrow> ret None | (rows, None) \<Rightarrow> friendVerifications srv rows) }"

definition elems :: "'a list option \<Rightarrow> 'a list" where
  "elems x = (case x of Some xs \<Rightarrow> xs | None \<Rightarrow> [])"

definition handleOfflineFriendData :: "svc \<Rightarrow> nat \<Rightarrow> (server, friendRequest list \<times> friendVerification list) state" where
  "handleOfflineFriendData srv c = do {
     reqs \<leftarrow> GetAddFriendOfflineRequest srv c;
     vers \<leftarrow> getAgreeBecomeFriendOfflineRequest srv c;
     forM (elems vers) (\<lambda>v. modCli c (BeFriend (fv_FriendId v)));
     whenM (elems vers \<noteq> []) (do {
       SaveContactInfo srv c;
       SaveFriendInfoToRedis srv c;
       acc \<leftarrow> GetAccountId c;
       _ \<leftarrow> db srv (SqlExec ''delete from friend_verification where friend_id = ?'' [AInt acc]);
       skip });
     ret (elems reqs, elems vers) }"

text \<open>Rows that cannot be scanned are left out.\<close>

definition assignPersonChatGroup :: "svc \<Rightarrow> nat \<Rightarrow> (server, personChatGroup list) state" where
  "assignPersonChatGroup srv c = do {
     acc \<leftarrow> GetAccountId c;
     r \<leftarrow> (let q = SqlQuery ''select chat_group_id, last_msg_timestamp from chat_group_member WHERE account_id = ?'' [AInt acc]
          in ask q (\<lambda>h. dbRowsII srv h q));
     cl \<leftarrow> cli c;
     ret (case r of
            (_, Some _) \<Rightarrow> []
          | (rows, None) \<Rightarrow> map (\<lambda>(g, t). \<lparr>pg_ChatGroup = fmlookup (mapChatGroup cl) g, pg_LastMsgTimestamp = t\<rparr>)
                             (map the (filter (\<lambda>x. x \<noteq> None) rows))) }"

definition GetDeletedFriendMsg :: "svc \<Rightarrow> nat \<Rightarrow> (server, int list) state" where
  "GetDeletedFriendMsg srv c = do {
     acc \<leftarrow> GetAccountId c;
     r \<leftarrow> (let q = SqlQuery ''SELECT sender_id FROM friend_delete WHERE receiver_id = ? AND status = 0'' [AInt acc]
          in ask q (\<lambda>h. dbRowsI srv h q));
     ret (case r of
            (_, Some _) \<Rightarrow> []
          | (rows, None) \<Rightarrow> rev (fold (\<lambda>d ds. if d \<in> set ds then ds else d # ds)
                             (map the (filter (\<lambda>x. x \<noteq> None) rows)) [])) }"

text \<open>Friends who agreed and then deleted the user while it was offline.\<close>

definition dropDeletedFriends :: "svc \<Rightarrow> nat \<Rightarrow> int list \<Rightarrow> friendVerification list \<Rightarrow> (server, unit) state" where
  "dropDeletedFriends srv c deleted vers =
     forM deleted (\<lambda>d. forM vers (\<lambda>v. whenM (d = fv_FriendId v) (do { _ \<leftarrow> DeleteFriend srv c d; skip })))"

fun friendInfos :: "svc \<Rightarrow> nat \<Rightarrow> string list \<Rightarrow> (server, friendInfo list) state" where
  "friendInfos srv c [] = ret []"
| "friendInfos srv c (bin # bins) =
     (if bin = '''' then friendInfos srv c bins
      else case un_UserBriefInfo srv bin of
        (ok, bi) \<Rightarrow>
          if \<not> ok then friendInfos srv c bins
          else do {
            cl \<leftarrow> cli c;
            url \<leftarrow> GetUserHeadPortraitUrl srv (ub_AccountId bi);
            rest \<leftarrow> friendInfos srv c bins;
            ret (\<lparr>fi_AccountId = ub_AccountId bi, fi_NickName = ub_Nickname bi,
                  fi_RemarkName = GetFriendRemarkName (ub_AccountId bi) cl, fi_PortraitUrl = url\<rparr> # rest) })"

definition GetFriendInfoFromRedis :: "svc \<Rightarrow> nat \<Rightarrow> (server, friendInfo list) state" where
  "GetFriendInfoFromRedis srv c = do {
     friendIds \<leftarrow> GetFriendStrIds srv c;
     bins \<leftarrow> rdsList srv (RMGet RdsKeyPrefixBriefInfo friendIds);
     friendInfos srv c (elems (fst bins)) }"

section \<open>The answer to a login\<close>

text \<open>
  The common end of the logins: the friends' data, the online mark, the record of the login and the
  Huanxin account. None: there is no Huanxin token, and the login is not answered.
\<close>

definition finishAnswer :: "svc \<Rightarrow> nat \<Rightarrow> s2cLogin \<Rightarrow> (server, s2cLogin option) state" where
  "finishAnswer srv c p = do {
     dropDeletedFriends srv c (sl_DeleteFriendId p) (sl_FriendVers p);
     infos \<leftarrow> GetFriendInfoFromRedis srv c;
     SetClientOnlineExpire srv c;
     acc \<leftarrow> GetAccountId c;
     recordLogin srv c acc;
     token \<leftarrow> GetHuanXinToken srv;
     (if token = '''' then ret None
      else do {
        password \<leftarrow> ConfirmOwnHuanXinAccountExist srv c token;
        ret (Some (p\<lparr>sl_FriendInfo := infos, sl_HuanXinAccount := Some password\<rparr>)) }) }"

definition startAnswer :: "int \<Rightarrow> account \<Rightarrow> friendRequest list \<Rightarrow> friendVerification list \<Rightarrow> s2cLogin" where
  "startAnswer accountId a reqs vers = \<lparr>sl_AccountId = accountId, sl_Nickname = ac_NickName a,
     sl_PortraitUrl = ac_HeadPortrait a, sl_LastMsgTimestamp = ac_LastMsgTimestamp a, sl_FriendReqs = reqs,
     sl_FriendVers = vers, sl_FriendInfo = [], sl_ChatGroups = [], sl_DeleteFriendId = [],
     sl_HuanXinAccount = None, sl_AgentInfo = []\<rparr>"

section \<open>Checks and lock\<close>

text \<open>The account of a login, or None when the login has been refused.\<close>

definition checkAccount :: "svc \<Rightarrow> nat \<Rightarrow> int \<Rightarrow> account option \<times> goerr option \<Rightarrow> (server, account option) state" where
  "checkAccount srv c ts r =
     (case r of
        (Some a, None) \<Rightarrow>
          if ac_Status a = 1 then do {
            sendErrCode srv c MsgErrCode_login_account_is_out_of_service ts; ret None }
          else ret (Some a)
      | (_, err) \<Rightarrow> do {
          refuse srv c (if err = Some ErrNoRows then MsgErrCode_login_account_or_pwd_is_wrong
                        else MsgErrCode_login_access_mysql_has_error_when_load_account) ts;
          ret None })"

text \<open>The Setex that is meant as a lock, and the client's answer when it fails.\<close>

definition loginLock :: "svc \<Rightarrow> nat \<Rightarrow> string \<Rightarrow> (server, bool) state" where
  "loginLock srv c accountKey = do {
     e \<leftarrow> rdsStatus srv (RSetex RdskeyLoginAccount accountKey (30 * 1000000000) (RInt 1));
     (if e = None then ret True
      else do {
        now \<leftarrow> timeNow srv;
        socketSendPbMsg srv c NetMsgId_S2CLoginSomewhereElse (Acc (S2CLoginSomewhereElse (micros now)));
        socketClose c;
        ret False }) }"

definition unlock :: "svc \<Rightarrow> string \<Rightarrow> string \<Rightarrow> (server, unit) state" where
  "unlock srv prefix key = do { _ \<leftarrow> rdsInt srv (RDel prefix key); skip }"

section \<open>Login with account and password\<close>

definition clientLoginCheck :: "svc \<Rightarrow> nat \<Rightarrow> string \<Rightarrow> (server, (c2sLogin \<times> account) option) state" where
  "clientLoginCheck srv c msg =
     (case un_C2SLogin srv (drop PacketHeaderSize msg) of
        (ok, req) \<Rightarrow>
          if \<not> ok then do {
            sendErrCode srv c MsgErrCode_proto_unmarshal_msg_struct_C2SLogin_failed (lo_CliTimeStamp req); ret None }
          else if lo_AccountId req = 0 then do {
            refuse srv c MsgErrCode_login_account_id_is_zero (lo_CliTimeStamp req); ret None }
          else do {
            r \<leftarrow> queryAccountById srv (lo_AccountId req) (lo_Pwd req);
            a \<leftarrow> checkAccount srv c (lo_CliTimeStamp req) r;
            (case a of
               None \<Rightarrow> ret None
             | Some a \<Rightarrow> do {
                 locked \<leftarrow> loginLock srv c (itoa (lo_AccountId req));
                 ret (if locked then Some (req, a) else None) }) })"

definition announceLogin :: "svc \<Rightarrow> nat \<Rightarrow> (server, unit) state" where
  "announceLogin srv c = Publish srv ClientLoginEvent (clientArg c)"

text \<open>
  WatchCloseSignal and Run only start goroutines: the watcher of Sessions and the loops of
  the client object.
\<close>

definition clientLoginAnswer :: "svc \<Rightarrow> nat \<Rightarrow> c2sLogin \<Rightarrow> account \<Rightarrow> (server, unit) state" where
  "clientLoginAnswer srv c req a = do {
     announceLogin srv c;
     (reqs, vers) \<leftarrow> handleOfflineFriendData srv c;
     groups \<leftarrow> assignPersonChatGroup srv c;
     deleted \<leftarrow> GetDeletedFriendMsg srv c;
     agents \<leftarrow> GetAgentAndMember srv c;
     p \<leftarrow> finishAnswer srv c ((startAnswer (lo_AccountId req) a reqs vers)
            \<lparr>sl_ChatGroups := groups, sl_DeleteFriendId := deleted, sl_AgentInfo := agents\<rparr>);
     (case p of None \<Rightarrow> skip | Some p \<Rightarrow> SendPbMsg srv c NetMsgId_S2CLogin (Lgn (S2CLogin p))) }"

definition clientLogin :: "svc \<Rightarrow> nat \<Rightarrow> (int \<Rightarrow> int \<Rightarrow> (server, unit) state) \<Rightarrow> int \<Rightarrow> string \<Rightarrow> (server, unit) state" where
  "clientLogin srv c wait serial msg = do {
     r \<leftarrow> clientLoginCheck srv c msg;
     (case r of
        None \<Rightarrow> skip
      | Some (req, a) \<Rightarrow> do {
          wait (lo_AccountId req) (lo_TerminalType req);
          now \<leftarrow> timeNow srv;
          enterClient srv c True (NewClient srv a now serial (lo_TerminalType req));
          clientLoginAnswer srv c req a;
          unlock srv RdskeyLoginAccount (itoa (lo_AccountId req)) }) }"

section \<open>Login with user name and password\<close>

definition userNameLoginCheck :: "svc \<Rightarrow> nat \<Rightarrow> string \<Rightarrow> (server, (c2sUsernameLogin \<times> account) option) state" where
  "userNameLoginCheck srv c msg =
     (case un_C2SUsernameLogin srv (drop PacketHeaderSize msg) of
        (ok, req) \<Rightarrow>
          if \<not> ok then do {
            sendErrCode srv c MsgErrCode_proto_unmarshal_msg_struct_C2SLogin_failed (ul_CliTimeStamp req); ret None }
          else if ul_Username req = '''' then do {
            refuse srv c MsgErrCode_login_account_id_is_zero (ul_CliTimeStamp req); ret None }
          else do {
            r \<leftarrow> queryAccountByUsername srv (ul_Username req) (ul_Pwd req);
            a \<leftarrow> checkAccount srv c (ul_CliTimeStamp req) r;
            (case a of
               None \<Rightarrow> ret None
             | Some a \<Rightarrow> do {
                 locked \<leftarrow> loginLock srv c (itoa (ac_AccountId a));
                 ret (if locked then Some (req, a) else None) }) })"

definition userNameLoginAnswer :: "svc \<Rightarrow> nat \<Rightarrow> account \<Rightarrow> (server, unit) state" where
  "userNameLoginAnswer srv c a = do {
     announceLogin srv c;
     (reqs, vers) \<leftarrow> handleOfflineFriendData srv c;
     agents \<leftarrow> GetAgentAndMember srv c;
     groups \<leftarrow> assignPersonChatGroup srv c;
     deleted \<leftarrow> GetDeletedFriendMsg srv c;
     p \<leftarrow> finishAnswer srv c ((startAnswer (ac_AccountId a) a reqs vers)
            \<lparr>sl_ChatGroups := groups, sl_DeleteFriendId := deleted, sl_AgentInfo := agents\<rparr>);
     (case p of None \<Rightarrow> skip | Some p \<Rightarrow> SendPbMsg srv c NetMsgId_S2CLogin (Lgn (S2CUsernameLogin p))) }"

definition userNameLogin :: "svc \<Rightarrow> nat \<Rightarrow> (int \<Rightarrow> int \<Rightarrow> (server, unit) state) \<Rightarrow> int \<Rightarrow> string \<Rightarrow> (server, unit) state" where
  "userNameLogin srv c wait serial msg = do {
     r \<leftarrow> userNameLoginCheck srv c msg;
     (case r of
        None \<Rightarrow> skip
      | Some (req, a) \<Rightarrow> do {
          wait (ac_AccountId a) (ul_TerminalType req);
          now \<leftarrow> timeNow srv;
          enterClient srv c True (NewClient srv a now serial (ul_TerminalType req));
          userNameLoginAnswer srv c a;
          unlock srv RdskeyLoginAccount (itoa (ac_AccountId a)) }) }"

section \<open>Login through a third platform\<close>

text \<open>
  \<open>splits[1]\<close> panics when the value has no hyphen, and the deferred deletion of the token still
  runs.
\<close>

definition thirdPlatformCheck ::
    "svc \<Rightarrow> nat \<Rightarrow> string \<Rightarrow> (server, unit + (int \<times> string \<times> account) option) state" where
  "thirdPlatformCheck srv c strAccountIdAndPwd =
     (case splitOn CHR ''-'' strAccountIdAndPwd of
        strAccountId # pwd # _ \<Rightarrow>
          (let accountId = fst (ParseInt strAccountId) in do {
             r \<leftarrow> queryAccountById srv accountId pwd;
             a \<leftarrow> checkAccount srv c 0 r;
             (case a of
                None \<Rightarrow> ret (Inr None)
              | Some a \<Rightarrow> do {
                  e \<leftarrow> rdsStatus srv (RSetex RdskeyLoginAccount strAccountId (30 * 1000000000) (RInt 1));
                  (if e = None then ret (Inr (Some (accountId, strAccountId, a)))
                   else do { socketClose c; ret (Inr None) }) }) })
      | _ \<Rightarrow> ret (Inl ()))"

definition thirdPlatformAnswer :: "svc \<Rightarrow> nat \<Rightarrow> int \<Rightarrow> account \<Rightarrow> (server, unit) state" where
  "thirdPlatformAnswer srv c accountId a = do {
     _ \<leftarrow> GetAgentAndMember srv c;
     announceLogin srv c;
     SetClientOnlineExpire srv c;
     acc \<leftarrow> GetAccountId c;
     recordLogin srv c acc;
     agentName \<leftarrow> GetAgentOrMemberUsername srv c (ac_AgentId a);
     SendPbMsg srv c NetMsgId_S2CThirdPlatformAccountLogin
       (Lgn (S2CThirdPlatformAccountLogin accountId (ac_UserName a) (ac_LastMsgTimestamp a) (ac_AgentId a) agentName)) }"

definition ThirdPlatformLogin ::
    "svc \<Rightarrow> nat \<Rightarrow> (int \<Rightarrow> int \<Rightarrow> (server, unit) state) \<Rightarrow> int \<Rightarrow> string \<Rightarrow> handler" where
  "ThirdPlatformLogin srv c wait serial msg =
     (case un_C2SThirdPlatformAccountLogin srv (drop PacketHeaderSize msg) of
        (ok, req) \<Rightarrow>
          if \<not> ok then ret Returned
          else do {
            t \<leftarrow> rdsStr srv (RGet RdsKeyPrefixThirdPlatformLoginToken (tp_Token req));
            out \<leftarrow> (case t of
              (_, Some _) \<Rightarrow> ret Returned
            | (strAccountIdAndPwd, None) \<Rightarrow> do {
                r \<leftarrow> thirdPlatformCheck srv c strAccountIdAndPwd;
                (case r of
                   Inl _ \<Rightarrow> ret Panicked
                 | Inr None \<Rightarrow> ret Returned
                 | Inr (Some (accountId, strAccountId, a)) \<Rightarrow> do {
                     wait accountId (tp_TerminalType req);
                     now \<leftarrow> timeNow srv;
                     enterClient srv c False (NewClient srv a now serial (tp_TerminalType req));
                     thirdPlatformAnswer srv c accountId a;
                     unlock srv RdskeyLoginAccount strAccountId;
                     ret Returned }) });
            unlock srv RdsKeyPrefixThirdPlatformLoginToken (tp_Token req);
            ret out })"

section \<open>Registration\<close>

text \<open>
  The checks of registerAccount up to the lock; the verification code is kept under the prefix
  and key that the lock uses too.
\<close>

definition registerCheck :: "svc \<Rightarrow> nat \<Rightarrow> string \<Rightarrow> (server, c2sRegisterAccount option) state" where
  "registerCheck srv c msg =
     (case un_C2SRegisterAccount srv (drop PacketHeaderSize msg) of
        (ok, req) \<Rightarrow> let ts = ra_CliTimeStamp req; accountKey = itoa (ra_AccountId req) in
          (if \<not> ok then do {
             sendErrCode srv c MsgErrCode_proto_unmarshal_msg_struct_C2SRegisterAccount_failed ts; ret None }
           else if ra_AccountId req = 0 then do {
             refuse srv c MsgErrCode_register_account_account_id_is_zero ts; ret None }
           else if ra_Pwd req = '''' then do {
             refuse srv c MsgErrCode_register_account_password_is_empty ts; ret None }
           else if ra_VerificationCode req = '''' then do {
             refuse srv c MsgErrCode_register_account_verification_is_empty ts; ret None }
           else do {
             code \<leftarrow> rdsStr srv (RGet RdsKeyRegisterAccount accountKey);
             (if snd code \<noteq> None \<or> fst code \<noteq> ra_VerificationCode req then do {
                refuse srv c MsgErrCode_register_account_verification_is_error ts; ret None }
              else do {
                known \<leftarrow> rdsStr srv (RGet RdsKeyPrefixBriefInfo accountKey);
                (if snd known = None then do {
                   sendErrCode srv c MsgErrCode_register_account_account_is_already_used ts; ret None }
                 else do {
                   e \<leftarrow> rdsStatus srv (RSetex RdsKeyRegisterAccount accountKey (30 * 1000000000) (RInt 1));
                   (if e \<noteq> None then do { socketClose c; ret None } else ret (Some req)) }) }) }))"

definition registerAnswer :: "svc \<Rightarrow> nat \<Rightarrow> int \<Rightarrow> account \<Rightarrow> (server, unit) state" where
  "registerAnswer srv c accountId a = do {
     SetClientOnlineExpire srv c;
     acc \<leftarrow> GetAccountId c;
     recordLogin srv c acc;
     token \<leftarrow> GetHuanXinToken srv;
     (if token = '''' then skip
      else do {
        password \<leftarrow> ConfirmOwnHuanXinAccountExist srv c token;
        SendPbMsg srv c NetMsgId_S2CRegisterAccount
          (Lgn (S2CRegisterAccount accountId (ac_NickName a) (ac_LastMsgTimestamp a) (Some password))) }) }"

definition registerAccount :: "svc \<Rightarrow> nat \<Rightarrow> int \<Rightarrow> string \<Rightarrow> (server, unit) state" where
  "registerAccount srv c serial msg = do {
     r \<leftarrow> registerCheck srv c msg;
     (case r of
        None \<Rightarrow> skip
      | Some req \<Rightarrow> do {
          created \<leftarrow> createAccount srv (ra_AccountId req) (ra_Pwd req);
          (case created of
             (_, Some _) \<Rightarrow>
               refuse srv c MsgErrCode_register_access_mysql_has_error_when_create_account (ra_CliTimeStamp req)
           | (a, None) \<Rightarrow> do {
               now \<leftarrow> timeNow srv;
               enterClient srv c False (NewClient srv a now serial (ra_TerminalType req));
               registerAnswer srv c (ra_AccountId req) a });
          unlock srv RdsKeyRegisterAccount (itoa (ra_AccountId req)) }) }"

section \<open>Verification codes\<close>

definition VerificationCodeAction_register :: int where "VerificationCodeAction_register = 0"
definition VerificationCodeAction_forget_password :: int where "VerificationCodeAction_forget_password = 1"

text \<open>\<open>rand.Intn(n)\<close> is below \<open>n\<close>; the digits are drawn one after the other.\<close>

definition GetValidateCode :: "svc \<Rightarrow> nat \<Rightarrow> (server, string) state" where
  "GetValidateCode srv width = do {
     _ \<leftarrow> timeNow srv;
     gets (\<lambda>s. concat (map (\<lambda>i. itoa (int (randIntn srv (hist s) i mod 10))) [0..<width])) }"

text \<open>
  One of the two actions: \<open>prefix\<close> is that of its Redis session, \<open>wanted\<close> whether the account must
  exist, and the two error codes are for the wrong answer to that and for a code that has not
  timed out. Whether a success answer is due.
\<close>

definition sendCode :: "svc \<Rightarrow> nat \<Rightarrow> string \<Rightarrow> bool \<Rightarrow> int \<Rightarrow> int \<Rightarrow> int \<Rightarrow> string \<Rightarrow> (server, bool) state" where
  "sendCode srv c prefix wanted existErr pendingErr phone region = (let key = itoa phone in do {
     r \<leftarrow> (let q = OrmWhereExist ''account_id = ?'' [AInt phone] in ask q (\<lambda>h. dbBool srv h q));
     (if snd r \<noteq> None then do { sendErrCode srv c MsgErrCode_get_verification_code_server_internal_error 0; ret False }
      else if fst r \<noteq> wanted then do { sendErrCode srv c existErr 0; ret False }
      else do {
        validateCode \<leftarrow> GetValidateCode srv 6;
        exist \<leftarrow> rdsInt srv (RDo prefix ''SETNX'' [RStr (addPrefix srv prefix key), RStr validateCode]);
        (if snd exist \<noteq> None then do { sendErrCode srv c MsgErrCode_get_verification_code_server_internal_error 0; ret False }
         else if fst exist = 0 then do { sendErrCode srv c pendingErr 0; ret False }
         else do {
           e \<leftarrow> rdsStatus srv (RSetex prefix key (120 * 1000000000) (RStr validateCode));
           (if e \<noteq> None then do { sendErrCode srv c MsgErrCode_get_verification_code_server_internal_error 0; ret False }
            else do {
              e \<leftarrow> (let q = SmsSend key validateCode (region = ''+86'') in ask q (\<lambda>h. smsErr srv h q));
              (if e \<noteq> None then do { sendErrCode srv c MsgErrCode_get_verification_code_server_internal_error 0; ret False }
               else ret True) }) }) }) })"

definition getVerificationCode :: "svc \<Rightarrow> nat \<Rightarrow> string \<Rightarrow> (server, unit) state" where
  "getVerificationCode srv c msg =
     (case un_C2SGetVerificationCode srv (drop PacketHeaderSize msg) of
        (ok, req) \<Rightarrow>
          if \<not> ok then sendErrCode srv c MsgErrCode_proto_unmarshal_get_verification_code_has_error 0
          else do {
            sent \<leftarrow>
              (if vc_Action req = VerificationCodeAction_register then
                 sendCode srv c RdsKeyRegisterAccount False
                   MsgErrCode_get_verification_code_register_account_exist
                   MsgErrCode_get_verification_code_register_not_timeout (vc_PhoneNum req) (vc_Region req)
               else if vc_Action req = VerificationCodeAction_forget_password then
                 sendCode srv c RdsKeyPrefixVerificationForgetPasswordString True
                   MsgErrCode_get_verification_code_forget_password_account_is_not_exist
                   MsgErrCode_get_verification_code_forget_password_not_timeout (vc_PhoneNum req) (vc_Region req)
               else do { sendErrCode srv c MsgErrCode_get_verification_code_action_has_error 0; ret False });
            whenM sent (socketSendPbMsg srv c NetMsgId_S2CGetVerificationCode
              (Lgn (S2CGetVerificationCode ''Success''))) })"

section \<open>A forgotten password\<close>

definition forgetPassword :: "svc \<Rightarrow> nat \<Rightarrow> string \<Rightarrow> (server, unit) state" where
  "forgetPassword srv c msg =
     (case un_C2SForgetPassword srv (drop PacketHeaderSize msg) of
        (ok, req) \<Rightarrow> let key = itoa (fp_PhoneNum req) in
          (if \<not> ok then sendErrCode srv c MsgErrCode_proto_unmarshal_forget_password_has_error 0
           else if fp_PhoneNum req = 0 then sendErrCode srv c MsgErrCode_forget_password_phone_num_is_empty 0
           else if fp_VerificationCode req = '''' then
             sendErrCode srv c MsgErrCode_forget_password_verification_code_is_empty 0
           else if fp_Password req = '''' then sendErrCode srv c MsgErrCode_forget_password_password_is_empty 0
           else do {
             code \<leftarrow> rdsStr srv (RGet RdsKeyPrefixVerificationForgetPasswordString key);
             (if snd code \<noteq> None then sendErrCode srv c MsgErrCode_forget_password_server_internal_error 0
              else if fst code \<noteq> fp_VerificationCode req then
                sendErrCode srv c MsgErrCode_forget_password_verification_code_error 0
              else do {
                unlock srv RdsKeyPrefixVerificationForgetPasswordString key;
                e \<leftarrow> db srv (SqlExec ''UPDATE account SET pwd = ? WHERE account_id = ?''
                       [AStr (fp_Password req), AInt (fp_PhoneNum req)]);
                (if e \<noteq> None then sendErrCode srv c MsgErrCode_forget_password_server_internal_error 0
                 else socketSendPbMsg srv c NetMsgId_S2CForgetPassword (Lgn (S2CForgetPassword ''Success''))) }) }))"

section \<open>The first message\<close>

text \<open>
  What \<open>ReadOne\<close> returns on the connection's first packet decides; a panic is caught by the deferred
  function.Catch.
\<close>

definition clientRegOrLogin ::
    "svc \<Rightarrow> nat \<Rightarrow> (int \<Rightarrow> int \<Rightarrow> (server, unit) state) \<Rightarrow> int \<Rightarrow> readErr + string \<Rightarrow> (server, unit) state" where
  "clientRegOrLogin srv c wait serial r =
     (case r of
        Inl _ \<Rightarrow> socketClose c
      | Inr buf \<Rightarrow> let msgId = Uint32 buf in
          (if msgId = NetMsgId_C2SRegisterAccount then registerAccount srv c serial buf
           else if msgId = NetMsgId_C2SLogin then clientLogin srv c wait serial buf
           else if msgId = NetMsgId_C2SUsernameLogin then userNameLogin srv c wait serial buf
           else if msgId = NetMsgId_C2SThirdPlatformAccountLogin then do {
             _ \<leftarrow> ThirdPlatformLogin srv c wait serial buf; skip }
           else if msgId = NetMsgId_C2SGetVerificationCode then getVerificationCode srv c buf
           else if msgId = NetMsgId_C2SForgetPassword then forgetPassword srv c buf
           else socketClose c))"

section \<open>What the parts keep\<close>

lemma keeps_wf_login_parts [keeps_rules]:
  "keeps (inv X) (socketSendPbMsg srv c i p)" "keeps (inv X) (socketClose c)"
  "keeps (inv X) (sendErrCode srv c e t)" "keeps (inv X) (refuse srv c e t)"
  "keeps (inv X) (recordLogin srv c a)" "keeps (inv X) (CreateHuanXinAccount srv tk u pw n)"
  "keeps (inv X) (GetHuanXinToken srv)" "keeps (inv X) (unlock srv pf k)"
  "keeps (inv X) (assignPersonChatGroup srv c)" "keeps (inv X) (GetDeletedFriendMsg srv c)"
  unfolding socketSendPbMsg_def socketClose_def sendErrCode_def refuse_def recordLogin_def
    CreateHuanXinAccount_def GetHuanXinToken_def unlock_def assignPersonChatGroup_def
    GetDeletedFriendMsg_def Let_def
  by (intro keeps_rules)+

lemma keeps_wf_offline_rows [keeps_rules]:
  "keeps (inv X) (friendRequests srv rows)" "keeps (inv X) (friendVerifications srv rows')"
  "keeps (inv X) (friendInfos srv c bins)"
proof -
  show "keeps (inv X) (friendRequests srv rows)"
    by (induction srv rows rule: friendRequests.induct) (auto intro!: keeps_rules)
  show "keeps (inv X) (friendVerifications srv rows')"
    by (induction srv rows' rule: friendVerifications.induct) (auto intro!: keeps_rules)
  show "keeps (inv X) (friendInfos srv c bins)"
    by (induction bins) (auto intro!: keeps_rules)
qed

lemma keeps_wf_login_answer [keeps_rules]:
  "keeps (inv X) (ConfirmOwnHuanXinAccountExist srv c tk)"
  "keeps (inv X) (handleOfflineFriendData srv c)" "keeps (inv X) (dropDeletedFriends srv c ds vs)"
  "keeps (inv X) (GetFriendInfoFromRedis srv c)" "keeps (inv X) (announceLogin srv c)"
  unfolding ConfirmOwnHuanXinAccountExist_def handleOfflineFriendData_def GetAddFriendOfflineRequest_def
    getAgreeBecomeFriendOfflineRequest_def dropDeletedFriends_def GetFriendInfoFromRedis_def GetFriendStrIds_def
    announceLogin_def Let_def
  by (intro keeps_rules)+

lemma keeps_wf_answers [keeps_rules]:
  "keeps (inv X) (finishAnswer srv c p)" "keeps (inv X) (thirdPlatformAnswer srv c i a)"
  "keeps (inv X) (registerAnswer srv c i a)"
  unfolding finishAnswer_def thirdPlatformAnswer_def registerAnswer_def by (intro keeps_rules)+

lemma keeps_wf_logins [keeps_rules]:
  "keeps (inv X) (clientLoginAnswer srv c req a)" "keeps (inv X) (userNameLoginAnswer srv c a)"
  unfolding clientLoginAnswer_def userNameLoginAnswer_def by (intro keeps_rules)+

text \<open>A verification code has exactly the digits asked for, whatever the random numbers are.\<close>

lemma validate_code_digits:
  "length (fst (run_state (GetValidateCode srv width) s)) = width
   \<and> list_all is_digit (fst (run_state (GetValidateCode srv width) s))"
proof -
  have "\<exists>ch. itoa (int (m mod 10)) = [ch] \<and> is_digit ch" for m
    by (subst itoa_def, subst nat_digits.simps) (simp add: is_digit_digit_char)
  then obtain ch where ch: "itoa (int (m mod 10)) = [ch m] \<and> is_digit (ch m)" for m by metis
  have "concat (map (\<lambda>i. itoa (int (f i mod 10))) xs) = map (\<lambda>i. ch (f i)) xs" for f xs
    by (induction xs) (auto simp: ch)
  then show ?thesis by (simp add: GetValidateCode_def run_simps list_all_iff ch)
qed

end
