(* ===== verification/Admission.thy ===== *)
theory Admission
  imports Login
begin

text \<open>
  Who gets in: the checks of the logins, of a registration and of a new password; what happens
  with an empty password and with the registration's lock; and a login as steps of the sessions.
\<close>

section \<open>Before the client object\<close>

text \<open>The calls of a connection that has not been admitted: nothing is stored but the login lock.\<close>

fun preLogin :: "nat \<Rightarrow> call \<Rightarrow> bool" where
  "preLogin c (SocketWrite d _) = (d = c)"
| "preLogin c (SocketClose d) = (d = c)"
| "preLogin c (Rds (RSetex prefix _ _ _)) = (prefix = RdskeyLoginAccount \<or> prefix = RdsKeyRegisterAccount)"
| "preLogin c q = (\<not> is_write q)"

text \<open>
  A check admits a connection only with a result of which \<open>P\<close> holds, and leaves the process as it
  was.
\<close>

definition admits :: "nat \<Rightarrow> (server, 'r option) state \<Rightarrow> ('r \<Rightarrow> bool) \<Rightarrow> server \<Rightarrow> bool" where
  "admits c m P s \<longleftrightarrow> (case run_state m s of (r, t) \<Rightarrow>
     (\<exists>h. t = s\<lparr>hist := hist s @ h\<rparr> \<and> list_all (preLogin c) h) \<and> (\<forall>q. r = Some q \<longrightarrow> P q))"

text \<open>A program that only calls services, and with calls of which \<open>P\<close> holds.\<close>

definition calls :: "(call \<Rightarrow> bool) \<Rightarrow> (server, 'r) state \<Rightarrow> bool" where
  "calls P m \<longleftrightarrow> (\<forall>s. \<exists>h. snd (run_state m s) = s\<lparr>hist := hist s @ h\<rparr> \<and> list_all P h)"

abbreviation outside :: "nat \<Rightarrow> (server, 'r) state \<Rightarrow> bool" where
  "outside c \<equiv> calls (preLogin c)"

named_theorems calls_rules \<open>programs that only make certain calls\<close>

lemma calls_ret [calls_rules]: "calls P (ret x)" "calls P (gets f)"
  by (auto simp: calls_def intro!: exI[of _ "[]"])

lemma calls_ask [calls_rules]: "P q \<Longrightarrow> calls P (ask q f)"
  by (auto simp: calls_def)

lemma calls_bind [calls_rules]:
  assumes "calls P m" "\<And>x. calls P (f x)"
  shows "calls P (State_Monad.bind m f)"
  unfolding calls_def
proof
  fix s
  obtain x t where m: "run_state m s = (x, t)" by fastforce
  obtain h where h: "t = s\<lparr>hist := hist s @ h\<rparr>" "list_all P h"
    using assms(1) m unfolding calls_def by (metis snd_conv)
  obtain k where k: "snd (run_state (f x) t) = t\<lparr>hist := hist t @ k\<rparr>" "list_all P k"
    using assms(2)[of x] unfolding calls_def by blast
  show "\<exists>h. snd (run_state (State_Monad.bind m f) s) = s\<lparr>hist := hist s @ h\<rparr> \<and> list_all P h"
    using m h k by (intro exI[of _ "h @ k"]) simp
qed

lemma calls_cases [calls_rules]:
  "(b \<Longrightarrow> calls P m) \<Longrightarrow> (\<not> b \<Longrightarrow> calls P n) \<Longrightarrow> calls P (if b then m else n)"
  "calls P m \<Longrightarrow> (\<And>x. calls P (f x)) \<Longrightarrow> calls P (case y of None \<Rightarrow> m | Some x \<Rightarrow> f x)"
  "(\<And>x y. calls P (g x y)) \<Longrightarrow> calls P (case p of (x, y) \<Rightarrow> g x y)"
  "(\<And>x. calls P (f x)) \<Longrightarrow> calls P (let x = a in f x)"
  by (auto split: option.split prod.split)

lemma calls_run: "calls P m \<Longrightarrow> \<exists>h. snd (run_state m s) = s\<lparr>hist := hist s @ h\<rparr> \<and> list_all P h"
  by (simp add: calls_def)

lemma outside_calls [calls_rules]:
  "outside c (socketSendPbMsg srv c i p)" "outside c (socketClose c)" "outside c (timeNow srv)"
  "outside c (rdsStr srv (RGet f k))" "outside c (dbGetAccount srv (OrmGetBean a u w))"
  "outside c (rdsStatus srv (RSetex RdskeyLoginAccount k d v))"
  "outside c (rdsStatus srv (RSetex RdsKeyRegisterAccount k d v))"
  by (simp_all add: socketSendPbMsg_def socketClose_def service_calls calls_rules split: option.split)

lemma outside_parts [calls_rules]:
  "outside c (sendErrCode srv c e t)" "outside c (refuse srv c e t)"
  "outside c (queryAccount srv a u w)"
  unfolding sendErrCode_def refuse_def queryAccount_def
  by (intro calls_rules)+

lemma outside_checkAccount [calls_rules]: "outside c (checkAccount srv c t r)"
  unfolding checkAccount_def by (intro calls_rules)

lemma outside_loginLock [calls_rules]: "outside c (loginLock srv c k)"
  unfolding loginLock_def by (intro calls_rules)

lemma admitsI:
  assumes "outside c m" and "\<And>q t. run_state m s = (Some q, t) \<Longrightarrow> P q"
  shows "admits c m P s"
proof -
  obtain r t where "run_state m s = (r, t)" by fastforce
  moreover obtain h where "snd (run_state m s) = s\<lparr>hist := hist s @ h\<rparr>" "list_all (preLogin c) h"
    using assms(1) unfolding calls_def by blast
  ultimately show ?thesis using assms(2) by (auto simp: admits_def)
qed

section \<open>Logins\<close>

text \<open>
  What xorm documents of Get: the row satisfies the conditions, which are the non-zero fields of
  the bean.
\<close>

definition rowMatches :: "int \<Rightarrow> string \<Rightarrow> string \<Rightarrow> account \<Rightarrow> bool" where
  "rowMatches accountId userName pwd a \<longleftrightarrow> (accountId \<noteq> 0 \<longrightarrow> ac_AccountId a = accountId)
     \<and> (userName \<noteq> '''' \<longrightarrow> ac_UserName a = userName) \<and> (pwd \<noteq> '''' \<longrightarrow> ac_Pwd a = pwd)"

definition xormGet :: "svc \<Rightarrow> bool" where
  "xormGet srv \<longleftrightarrow> (\<forall>h i u w a. dbAccount srv h (OrmGetBean i u w) = (Some a, None) \<longrightarrow> rowMatches i u w a)"

text \<open>What a login has shown, with the password it gave.\<close>

definition authentic :: "string \<Rightarrow> account \<Rightarrow> bool" where
  "authentic pwd a \<longleftrightarrow> ac_Status a \<noteq> 1 \<and> (pwd \<noteq> '''' \<longrightarrow> ac_Pwd a = pwd)"

lemma queryAccount_matches:
  assumes "xormGet srv" and "run_state (queryAccount srv i u w) s = ((Some a, None), t)"
  shows "rowMatches i u w a"
  using assms by (auto simp: queryAccount_def xormGet_def dbGetAccount_def split: prod.splits option.splits)

lemma checkAccount_Some:
  "run_state (checkAccount srv c ts r) s = (Some a, t) \<Longrightarrow> r = (Some a, None) \<and> ac_Status a \<noteq> 1"
  by (cases r) (auto simp: checkAccount_def split_beta split: option.splits if_splits)


text \<open>A MySQL with the accounts \<open>T\<close>, as xorm's Get sees it.\<close>

definition accountTable :: "svc \<Rightarrow> account list \<Rightarrow> bool" where
  "accountTable srv T \<longleftrightarrow> (\<forall>h i u w. dbAccount srv h (OrmGetBean i u w) = (find (rowMatches i u w) T, None))"

lemma accountTable_xormGet: "accountTable srv T \<Longrightarrow> xormGet srv"
  by (auto simp: accountTable_def xormGet_def find_Some_iff)

definition demoLogin :: "string \<Rightarrow> c2sLogin" where
  "demoLogin w = \<lparr>lo_AccountId = 1, lo_CliTimeStamp = 0, lo_Pwd = w, lo_TerminalType = 1\<rparr>"

definition demoLoginSvc :: "string \<Rightarrow> svc" where
  "demoLoginSvc w = demoSvc\<lparr>un_C2SLogin := \<lambda>_. (True, demoLogin w),
     dbAccount := \<lambda>_ q. case q of OrmGetBean i u w \<Rightarrow> (find (rowMatches i u w) [demoAccount 1], None) | _ \<Rightarrow> (None, None)\<rparr>"

lemma demoSvc_rStatus [simp]: "rStatus demoSvc h r = None"
  by (simp add: demoSvc_def)

lemma demoLoginSvc_table: "accountTable (demoLoginSvc w) [demoAccount 1]"
  by (simp add: accountTable_def demoLoginSvc_def)

lemma demoLogin_admitted:
  "w = '''' \<or> w = ''pw'' \<Longrightarrow> fst (run_state (clientLoginCheck (demoLoginSvc w) 0 []) demoServer) = Some (demoLogin w, demoAccount 1)"
  by (auto simp: clientLoginCheck_def demoLoginSvc_def demoLogin_def queryAccountById_def queryAccount_def run_simps
      dbGetAccount_def rowMatches_def demoAccount_def checkAccount_def loginLock_def)


text \<open>
  C18: A login by account id that gives no password is admitted: the empty password is no
  condition of the query. Whoever knows an account id gets into the account.
\<close>

theorem empty_password_logs_in:
  assumes "accountTable srv T" and "distinct (map ac_AccountId T)" and "a \<in> set T"
    and "ac_AccountId a \<noteq> 0" and "ac_Status a \<noteq> 1"
    and "un_C2SLogin srv (drop PacketHeaderSize msg) = (True, q)"
    and "lo_AccountId q = ac_AccountId a" and "lo_Pwd q = ''''"
    and "\<And>h k d. rStatus srv h (RSetex RdskeyLoginAccount k d (RInt 1)) = None"
  shows "fst (run_state (clientLoginCheck srv c msg) s) = Some (q, a)"
proof -
  have "find (rowMatches (ac_AccountId a) '''' '''') T = Some a"
    using assms(2-4) by (induction T) (auto simp: rowMatches_def)
  then show ?thesis
    using assms by (simp add: clientLoginCheck_def queryAccountById_def queryAccount_def dbGetAccount_def
        accountTable_def checkAccount_def loginLock_def run_simps)
qed

theorem empty_password_logs_in_witness:
  "fst (run_state (clientLoginCheck (demoLoginSvc '''') 0 []) demoServer) = Some (demoLogin '''', demoAccount 1)"
  by (rule empty_password_logs_in[OF demoLoginSvc_table])
    (simp_all add: demoAccount_def demoLoginSvc_def demoLogin_def)

section \<open>Verification codes\<close>


text \<open>
  A password is replaced only for a request with a number and a new password whose code is the
  one that Redis has for the number, and the code is deleted before. Every other request leaves
  the process as it was and stores nothing.
\<close>

theorem password_reset_needs_code:
  "\<exists>h. snd (run_state (forgetPassword srv c msg) s) = s\<lparr>hist := hist s @ h\<rparr>
    \<and> (list_all (preLogin c) h
       \<or> (\<exists>q w. un_C2SForgetPassword srv (drop PacketHeaderSize msg) = (True, q)
           \<and> fp_PhoneNum q \<noteq> 0 \<and> fp_Password q \<noteq> '''' \<and> fp_VerificationCode q \<noteq> ''''
           \<and> rStr srv (hist s) (RGet RdsKeyPrefixVerificationForgetPasswordString (itoa (fp_PhoneNum q)))
               = (fp_VerificationCode q, None)
           \<and> h = [Rds (RGet RdsKeyPrefixVerificationForgetPasswordString (itoa (fp_PhoneNum q))),
                  Rds (RDel RdsKeyPrefixVerificationForgetPasswordString (itoa (fp_PhoneNum q))),
                  SqlExec ''UPDATE account SET pwd = ? WHERE account_id = ?''
                    [AStr (fp_Password q), AInt (fp_PhoneNum q)]] @ w
           \<and> list_all (preLogin c) w))"
proof -
  obtain ok q where dec: "un_C2SForgetPassword srv (drop PacketHeaderSize msg) = (ok, q)" by fastforce
  define get where "get = RGet RdsKeyPrefixVerificationForgetPasswordString (itoa (fp_PhoneNum q))"
  let ?good = "ok \<and> fp_PhoneNum q \<noteq> 0 \<and> fp_VerificationCode q \<noteq> '''' \<and> fp_Password q \<noteq> ''''"
  let ?code = "rStr srv (hist s) get"
  consider "\<not> ?good" | "?good" "?code \<noteq> (fp_VerificationCode q, None)"
    | "?good" "?code = (fp_VerificationCode q, None)" by blast
  then show ?thesis
  proof cases
    case 1
    then have "\<exists>e. forgetPassword srv c msg = sendErrCode srv c e 0"
      using dec by (auto simp: forgetPassword_def Let_def)
    then show ?thesis using calls_run[OF outside_parts(1), of srv c _ 0 s] by fastforce
  next
    case 2
    then have "fst ?code \<noteq> fp_VerificationCode q \<or> snd ?code \<noteq> None" by (metis prod.collapse)
    with 2 have "\<exists>e. snd (run_state (forgetPassword srv c msg) s)
        = snd (run_state (sendErrCode srv c e 0) (s\<lparr>hist := hist s @ [Rds get]\<rparr>))"
      using dec by (auto simp: forgetPassword_def Let_def run_simps get_def)
    then obtain e h where "snd (run_state (forgetPassword srv c msg) s)
        = s\<lparr>hist := (hist s @ [Rds get]) @ h\<rparr>" "list_all (preLogin c) h"
      using calls_run[OF outside_parts(1), of srv c _ 0 "s\<lparr>hist := hist s @ [Rds get]\<rparr>"] by fastforce
    then show ?thesis by (intro exI[of _ "Rds get # h"]) (simp add: get_def)
  next
    case 3
    define pre where "pre = [Rds get, Rds (RDel RdsKeyPrefixVerificationForgetPasswordString (itoa (fp_PhoneNum q))),
      SqlExec ''UPDATE account SET pwd = ? WHERE account_id = ?'' [AStr (fp_Password q), AInt (fp_PhoneNum q)]]"
    define m where "m = (if dbErr srv (hist s @ butlast pre) (last pre) \<noteq> None
      then sendErrCode srv c MsgErrCode_forget_password_server_internal_error 0
      else socketSendPbMsg srv c NetMsgId_S2CForgetPassword (Lgn (S2CForgetPassword ''Success'')))"
    have "outside c m" unfolding m_def by (intro calls_rules)
    moreover have "snd (run_state (forgetPassword srv c msg) s) = snd (run_state m (s\<lparr>hist := hist s @ pre\<rparr>))"
      using 3 dec by (simp add: forgetPassword_def Let_def run_simps get_def unlock_def pre_def m_def)
    ultimately obtain w where "snd (run_state (forgetPassword srv c msg) s) = s\<lparr>hist := (hist s @ pre) @ w\<rparr>"
      "list_all (preLogin c) w"
      using calls_run[of "preLogin c" m "s\<lparr>hist := hist s @ pre\<rparr>"] by auto
    then show ?thesis using 3 dec by (intro exI[of _ "pre @ w"]) (auto simp: get_def pre_def)
  qed
qed

text \<open>
  The lock of a registration is kept under the key of the verification code, with the value 1:
  while one registration runs, another connection registers the same number with the code "1".
\<close>

theorem registration_lock_is_code:
  assumes admitted: "run_state (registerCheck srv c msg) s = (Some q, t)"
    and setex: "\<And>h p k d i. rStr srv (h @ [Rds (RSetex p k d (RInt i))]) (RGet p k) = (itoa i, None)"
    and unknown: "snd (rStr srv (hist t @ [Rds (RGet RdsKeyRegisterAccount (itoa (ra_AccountId q)))])
       (RGet RdsKeyPrefixBriefInfo (itoa (ra_AccountId q)))) \<noteq> None"
    and lock: "\<And>h k d. rStatus srv h (RSetex RdsKeyRegisterAccount k d (RInt 1)) = None"
    and other: "un_C2SRegisterAccount srv (drop PacketHeaderSize msg') = (True, r)"
      "ra_AccountId r = ra_AccountId q" "ra_Pwd r \<noteq> ''''" "ra_VerificationCode r = itoa 1"
  shows "fst (run_state (registerCheck srv d msg') t) = Some r"
proof -
  obtain ok req where dec: "un_C2SRegisterAccount srv (drop PacketHeaderSize msg) = (ok, req)" by fastforce
  have "req = q" and id: "ra_AccountId q \<noteq> 0"
    using admitted dec by (auto simp: registerCheck_def Let_def split_beta split: if_splits)
  then have "hist t = (hist s @ [Rds (RGet RdsKeyRegisterAccount (itoa (ra_AccountId q))),
      Rds (RGet RdsKeyPrefixBriefInfo (itoa (ra_AccountId q)))])
      @ [Rds (RSetex RdsKeyRegisterAccount (itoa (ra_AccountId q)) (30 * 1000000000) (RInt 1))]"
    using admitted dec by (auto simp: registerCheck_def Let_def split_beta run_simps split: if_splits)
  then have "rStr srv (hist t) (RGet RdsKeyRegisterAccount (itoa (ra_AccountId q))) = (itoa 1, None)"
    by (simp only: setex)
  moreover have "itoa 1 \<noteq> ''''" by (simp add: itoa_def)
  ultimately show ?thesis
    using other id unknown lock by (auto simp: registerCheck_def Let_def run_simps)
qed

text \<open>A Redis that has the code c for every number, and the values that have just been set.\<close>

definition demoRegister :: "string \<Rightarrow> string \<Rightarrow> c2sRegisterAccount" where
  "demoRegister w v = \<lparr>ra_AccountId = 5, ra_Pwd = w, ra_CliTimeStamp = 0, ra_TerminalType = 1,
     ra_VerificationCode = v\<rparr>"

fun justSet :: "call list \<Rightarrow> string \<Rightarrow> string \<Rightarrow> string option" where
  "justSet [Rds (RSetex p k d (RInt i))] p' k' = (if p = p' \<and> k = k' then Some (itoa i) else None)"
| "justSet (q # h) p k = justSet h p k"
| "justSet [] p k = None"

lemma justSet_last: "justSet (h @ [Rds (RSetex p k d (RInt i))]) p k = Some (itoa i)"
proof (induction h)
  case (Cons q h)
  then show ?case by (cases "h @ [Rds (RSetex p k d (RInt i))]") auto
qed simp

definition demoRegisterSvc :: svc where
  "demoRegisterSvc = demoSvc\<lparr>
     un_C2SRegisterAccount := \<lambda>m. (True, if m = '''' then demoRegister ''mine'' ''c'' else demoRegister ''theirs'' ''1''),
     rStr := \<lambda>h q. case q of
         RGet p k \<Rightarrow> (case justSet h p k of
             Some v \<Rightarrow> (v, None)
           | None \<Rightarrow> if p = RdsKeyRegisterAccount then (''c'', None) else ('''', Some ErrNil))
       | _ \<Rightarrow> ('''', None)\<rparr>"

theorem registration_lock_is_code_witness:
  "\<exists>t. run_state (registerCheck demoRegisterSvc 0 []) demoServer = (Some (demoRegister ''mine'' ''c''), t)
     \<and> fst (run_state (registerCheck demoRegisterSvc 1 ''123456789'') t) = Some (demoRegister ''theirs'' ''1'')"
proof -
  define t where "t = snd (run_state (registerCheck demoRegisterSvc 0 []) demoServer)"
  have run: "run_state (registerCheck demoRegisterSvc 0 []) demoServer = (Some (demoRegister ''mine'' ''c''), t)"
    by (simp add: t_def registerCheck_def demoRegisterSvc_def demoRegister_def run_simps Let_def
        RdsKeyRegisterAccount_def RdsKeyPrefixBriefInfo_def)
  have ht: "hist t = [Rds (RGet RdsKeyRegisterAccount (itoa 5)), Rds (RGet RdsKeyPrefixBriefInfo (itoa 5)),
      Rds (RSetex RdsKeyRegisterAccount (itoa 5) (30 * 1000000000) (RInt 1))]"
    by (simp add: t_def registerCheck_def demoRegisterSvc_def demoRegister_def run_simps Let_def
        RdsKeyRegisterAccount_def RdsKeyPrefixBriefInfo_def)
  have one: "itoa 1 = ''1''" by code_simp
  have "fst (run_state (registerCheck demoRegisterSvc 1 ''123456789'') t) = Some (demoRegister ''theirs'' ''1'')"
    by (rule registration_lock_is_code[OF run])
      (simp_all add: one demoRegisterSvc_def demoRegister_def justSet_last ht RdsKeyPrefixBriefInfo_def
        RdsKeyRegisterAccount_def PacketHeaderSize_def)
  then show ?thesis using run by blast
qed

section \<open>A login as steps of the sessions\<close>

lemma steps_trans: "sess_steps srv s t \<Longrightarrow> sess_step srv t u \<Longrightarrow> sess_steps srv s u"
  by (rule sess_steps.more)



section \<open>Groups of a user from a third platform\<close>

definition noGroups :: "(int, int fset) fmap \<Rightarrow> (int, (string, evHandler) fmap) fmap \<Rightarrow> nat \<Rightarrow> server \<Rightarrow> bool" where
  "noGroups X H c t \<longleftrightarrow> mmLocalOnlineGroupMember t = X \<and> handlers t = H \<and> mapChatGroup (clients t c) = fmempty"

lemma keeps_noGroups_ask [keeps_rules]: "keeps (noGroups X H c) (ask q f)"
  by (simp add: keeps_def noGroups_def)

lemma keeps_noGroups_modify [keeps_rules]:
  "(\<And>cl. mapChatGroup (f cl) = mapChatGroup cl) \<Longrightarrow> keeps (noGroups X H c) (modCli d f)"
  "keeps (noGroups X H c) (modify (StoreClient d))"
  by (auto simp: keeps_def noGroups_def StoreClient_def Let_def split: option.splits)

lemma keeps_noGroups_parts [keeps_rules]:
  "keeps (noGroups X H c) (SaveUsrBriefInfoToRedis srv c)" "keeps (noGroups X H c) (GetAgentAndMember srv c)"
  unfolding SaveUsrBriefInfoToRedis_def GetAgentAndMember_def GetUserHeadPortraitUrl_def service_calls Let_def
  by (intro keeps_rules; simp)+

lemma range_keys_empty: "range_keys srv h (fmempty :: (int, 'v) fmap) = []"
  using set_range_keys[of srv h "fmempty :: (int, 'v) fmap"]
  by (simp only: fmdom'_empty set_empty)

lemma noGroups_login: "noGroups X H c s \<Longrightarrow> noGroups X H c (snd (run_state (onClientLoginEvent srv (clientArg c)) s))"
  by (simp add: onClientLoginEvent_def evClient_def asClient_def clientArg_def event_args noGroups_def
      GetChatGroupIds_def range_keys_empty localChatGroupMemberLogin_def)

lemma noGroups_callSubscribers:
  "set hs \<subseteq> {OnClientLogin} \<Longrightarrow> noGroups X H c s
    \<Longrightarrow> noGroups X H c (snd (run_state (callSubscribers (\<lambda>h. runHandler srv h (clientArg c)) hs) s))"
proof (induction hs arbitrary: s)
  case (Cons h hs)
  then show ?case using noGroups_login[OF Cons.prems(2), of srv] by (simp add: split_beta)
qed simp

text \<open>
  A login through a third platform never loads the user's groups: its login event finds none,
  and the table of online members, which decides who gets a group's messages here, stays
  without the user.
\<close>

theorem third_platform_joins_no_group:
  assumes "\<And>n h. subscription ClientLoginEvent n s = Some h \<Longrightarrow> h = OnClientLogin"
  shows "mmLocalOnlineGroupMember (snd (run_state (do {
      enterClient srv c False (NewClient srv a now serial terminal);
      _ \<leftarrow> GetAgentAndMember srv c;
      announceLogin srv c }) s)) = mmLocalOnlineGroupMember s"
proof -
  define s1 where "s1 = s\<lparr>clients := (clients s)(c := NewClient srv a now serial terminal)\<rparr>"
  define m where "m = do { SaveUsrBriefInfoToRedis srv c; modify (StoreClient c); _ \<leftarrow> GetAgentAndMember srv c; skip }"
  define s2 where "s2 = snd (run_state m s1)"
  let ?I = "noGroups (mmLocalOnlineGroupMember s) (handlers s) c"
  have "keeps ?I m" unfolding m_def by (intro keeps_rules)
  moreover have "?I s1" by (simp add: noGroups_def s1_def NewClient_def)
  ultimately have I: "?I s2" unfolding s2_def by (rule keepsD)
  have "?I (snd (run_state (announceLogin srv c) s2))"
  proof (cases "fmlookup (handlers s2) ClientLoginEvent")
    case None
    then show ?thesis using I by (simp add: announceLogin_def Publish_def publishWith_def)
  next
    case (Some hs)
    then have "the (fmlookup hs n) = OnClientLogin" if "n \<in> fmdom' hs" for n
      using that I assms[of n "the (fmlookup hs n)"] by (auto simp: noGroups_def subscription_def fmlookup_dom'_iff)
    then have "set (map (\<lambda>k. the (fmlookup hs k)) (range_strs srv (hist s2) hs)) \<subseteq> {OnClientLogin}"
      by (auto simp: set_range_strs)
    from noGroups_callSubscribers[OF this I, of srv] show ?thesis
      using Some by (simp add: announceLogin_def Publish_def publishWith_def)
  qed
  then show ?thesis
    by (simp add: noGroups_def enterClient_def s2_def s1_def m_def split_beta)
qed

theorem third_platform_joins_no_group_witness:
  "mmLocalOnlineGroupMember (snd (run_state (do {
      enterClient demoSvc 0 False (NewClient demoSvc (demoAccount 1) 0 0 1);
      _ \<leftarrow> GetAgentAndMember demoSvc 0;
      announceLogin demoSvc 0 }) (subscribeOnline demoServer))) = mmLocalOnlineGroupMember (subscribeOnline demoServer)"
  by (rule third_platform_joins_no_group)
    (auto simp: subscribeOnline_def Subscribe_def subscription_def has_def event_ids split: option.splits if_splits)

end
