(* ===== verification/Manager.thy ===== *)
theory Manager
  imports Transactions Admission
begin

text \<open>
  im-manager/manager.go: the management server, a web service over the same Redis and MySQL. A
  handler returns what it writes to the response, in order. Its process has no state of its own but
  the id generator; what it calls is recorded in the history.
\<close>

section \<open>Requests and responses\<close>

record httpReq =
  rq_token :: string
  rq_query :: "string \<Rightarrow> string"
  rq_body :: string

text \<open>The texts of the responses, by their meaning.\<close>

datatype (plugins only: size code) respText =
    TokenError goerr | WrongNameOrPassword | ManagerDisabled | NoToken | TokenText string
  | BadParameters | NoUserName | NoAuthority | ChangeDone | UpdateFailed | Created | CreateFailed
  | ReadFailed | SetFailed | SetDone | RegionsFailed | JsonFailed | NothingFound | NoData | Updated
  | PasswordReset | BodyFailed | NoPlatformName | NoLevel | PlatformForbidden | NoPlatformId
  | PlatformFailed | PlatformRegistered string | BadPage | QueryFailed | Forbidden int
  | NoMessage | PlatformUnknown | AgentUnknown | AccountQueryFailed | AccountCreateFailed | TokenFailed

text \<open>The values that are marshalled to JSON.\<close>

record managerItem =
  mi_Username :: string
  mi_LastLoginTime :: string
  mi_RegisterDate :: string
  mi_Level :: int
  mi_Status :: int

record loginItem =
  li_AccountId :: int
  li_NickName :: string
  li_LastLoginTimestamp :: string
  li_LastLoginIp :: string
  li_DeviceProducter :: string

record registerItem =
  ri_AccountId :: int
  ri_NickName :: string
  ri_CreationTime :: string
  ri_DeviceProducter :: string

record platformItem =
  pi_ThirdPlatformId :: int
  pi_ThirdPlatformName :: string
  pi_AppKey :: string
  pi_AppSecret :: string
  pi_RegisterTime :: int
  pi_Status :: int

record playerToken =
  pt_AccessToken :: string
  pt_ErrorMsg :: respText
  pt_ExpiresIn :: int
  pt_ErrorCode :: int

datatype (plugins only: size code) json =
    JManagers "managerItem list"
  | JRegions "(string \<times> string) list"
  | JOnline int "string list"
  | JLogins "loginItem list"
  | JRegisters "registerItem list"
  | JNums "(int \<times> string) list"
  | JVersion "string list"
  | JPlatforms "platformItem list"

datatype (plugins only: size code) reply =
    Reply int respText
  | ReplyJson int string
  | ReplyToken int playerToken

text \<open>A handler panics or replies; gin recovers from the panic.\<close>

datatype (plugins only: size code) webOut = Replied "reply list" | WebPanic

type_synonym webHandler = "(server, webOut) state"

definition reply :: "int \<Rightarrow> respText \<Rightarrow> webHandler" where
  "reply status t = ret (Replied [Reply status t])"

definition StatusOK :: int where "StatusOK = 200"
definition StatusBadRequest :: int where "StatusBadRequest = 400"
definition StatusInternalServerError :: int where "StatusInternalServerError = 500"

section \<open>Rows, requests and parameters\<close>

record managerRow =
  mg_Id :: int
  mg_Username :: string
  mg_Password :: string
  mg_Level :: string
  mg_Status :: int

record changePassword =
  cp_Username :: string
  cp_Password :: string

record changeStatus =
  cs_Username :: string
  cs_Status :: int

record regionRegular =
  rr_Region :: string
  rr_Regular :: string

record forbidPlatform =
  fb_ThirdPlatformId :: int
  fb_Status :: int

record getPlayerTokenRequest =
  gp_UserId :: int
  gp_UserName :: string
  gp_AppKey :: string
  gp_Timestamp :: int
  gp_ParentId :: int
  gp_Sign :: string

text \<open>
  What is not in the repository: the JWT library, MD5 and UUIDs, JSON coding, the session's prefix,
  and MySQL's answers to the queries that only this server makes. A JSON decoder returns None for
  an error; requests with the same fields share one.
\<close>

record web =
  jwtParse :: "string \<Rightarrow> goerr option"
  jwtSign :: "string \<Rightarrow> int \<Rightarrow> int \<Rightarrow> int \<Rightarrow> int \<Rightarrow> string option"
  md5 :: "string \<Rightarrow> string"
  newUuid :: "call list \<Rightarrow> string"
  sessionPrefix :: "string \<Rightarrow> string"
  json_marshal :: "json \<Rightarrow> string option"
  json_UserPassword :: "string \<Rightarrow> changePassword option"
  json_ChangeStatus :: "string \<Rightarrow> changeStatus option"
  json_RegionRegular :: "string \<Rightarrow> regionRegular option"
  json_UpdateSet :: "string \<Rightarrow> string list option"
  json_AccountStatus :: "string \<Rightarrow> int \<times> int"
  json_PlatformName :: "string \<Rightarrow> string option"
  json_ForbidPlatform :: "string \<Rightarrow> forbidPlatform option"
  json_PlayerToken :: "string \<Rightarrow> getPlayerTokenRequest option"
  dbManager :: "call list \<Rightarrow> call \<Rightarrow> (bool \<times> managerRow) \<times> goerr option"
  dbManagers :: "call list \<Rightarrow> call \<Rightarrow> managerItem option list \<times> goerr option"
  dbLogins :: "call list \<Rightarrow> call \<Rightarrow> loginItem option list \<times> goerr option"
  dbRegisters :: "call list \<Rightarrow> call \<Rightarrow> registerItem option list \<times> goerr option"
  dbVersion :: "call list \<Rightarrow> (bool \<times> string list) \<times> goerr option"
  dbPlatforms :: "call list \<Rightarrow> call \<Rightarrow> platformItem option list \<times> goerr option"
  dbPlatform :: "call list \<Rightarrow> call \<Rightarrow> (bool \<times> int) \<times> goerr option"

definition RdsKeyPrefixManagerLoginString :: string where "RdsKeyPrefixManagerLoginString = ''manager:string''"
definition RdsKeyPrefixRegionRegularString :: string where "RdsKeyPrefixRegionRegularString = ''manager:region_regular:string''"

definition CHANGE_CONFIG :: int where "CHANGE_CONFIG = 1"
definition CHANGE_OTHER_MANAGER_PASSWORD :: int where "CHANGE_OTHER_MANAGER_PASSWORD = 4"

definition DefaultThirdPlatformId :: int where "DefaultThirdPlatformId = 1000000"
definition DefaultThirdPlatformUserId :: int where "DefaultThirdPlatformUserId = 100000000"
definition DefaultAgentPassword :: string where "DefaultAgentPassword = ''1234567888''"

section \<open>Tokens\<close>

text \<open>The error of CheckToken, None for nil.\<close>

definition CheckToken :: "web \<Rightarrow> httpReq \<Rightarrow> goerr option" where
  "CheckToken w rq = (if rq_token rq = '''' then Some (Err ''empty token'') else jwtParse w (rq_token rq))"

definition withToken :: "web \<Rightarrow> httpReq \<Rightarrow> webHandler \<Rightarrow> webHandler" where
  "withToken w rq m = (case CheckToken w rq of Some err \<Rightarrow> reply StatusBadRequest (TokenError err) | None \<Rightarrow> m)"

text \<open>None when the token could not be signed.\<close>

definition CreateToken :: "web \<Rightarrow> svc \<Rightarrow> string \<Rightarrow> int \<Rightarrow> int \<Rightarrow> (server, string option) state" where
  "CreateToken w srv username accountId validity = do {
     now \<leftarrow> timeNow srv;
     snowFlakeId \<leftarrow> GetSnowflakeId srv;
     issued \<leftarrow> timeNow srv;
     ret (jwtSign w username accountId (issued div 1000000000) ((now + validity) div 1000000000) (sint snowFlakeId)) }"

definition tokenUser :: "svc \<Rightarrow> httpReq \<Rightarrow> (server, string \<times> goerr option) state" where
  "tokenUser srv rq = rdsStr srv (RGet RdsKeyPrefixManagerLoginString (rq_token rq))"

text \<open>The handlers that insist on the name behind the token.\<close>

definition withUser :: "svc \<Rightarrow> httpReq \<Rightarrow> (string \<Rightarrow> webHandler) \<Rightarrow> webHandler" where
  "withUser srv rq f = do {
     u \<leftarrow> tokenUser srv rq;
     (if snd u \<noteq> None \<or> fst u = '''' then reply StatusInternalServerError NoUserName else f (fst u)) }"

definition replyJson :: "web \<Rightarrow> json \<Rightarrow> webHandler" where
  "replyJson w j = (case json_marshal w j of
       None \<Rightarrow> reply StatusInternalServerError JsonFailed
     | Some bytes \<Rightarrow> ret (Replied [ReplyJson StatusOK bytes]))"

definition getManager :: "web \<Rightarrow> string \<Rightarrow> (server, (bool \<times> managerRow) \<times> goerr option) state" where
  "getManager w userName = (let q = OrmGet ''username = ?'' [AStr userName] in ask q (\<lambda>h. dbManager w h q))"

section \<open>Managers\<close>

definition managerLogin :: "web \<Rightarrow> svc \<Rightarrow> httpReq \<Rightarrow> webHandler" where
  "managerLogin w srv rq = (let userName = rq_query rq ''username''; passWord = rq_query rq ''password'' in do {
     r \<leftarrow> getManager w userName;
     (if snd r \<noteq> None \<or> \<not> fst (fst r) then reply StatusBadRequest WrongNameOrPassword
      else let manager = snd (fst r) in
        (if passWord \<noteq> mg_Password manager then reply StatusBadRequest WrongNameOrPassword
         else if mg_Status manager = 1 then reply StatusBadRequest ManagerDisabled
         else do {
           token \<leftarrow> CreateToken w srv (mg_Username manager) (mg_Id manager) (72 * 3600 * 1000000000);
           (case token of
              None \<Rightarrow> reply StatusInternalServerError NoToken
            | Some token \<Rightarrow> do {
                now \<leftarrow> timeNow srv;
                _ \<leftarrow> db srv (SqlExec ''UPDATE manager SET last_login_time = ? WHERE username = ? AND password = ?''
                       [AStr (formatTime srv (now div 1000000000)), AStr userName, AStr passWord]);
                _ \<leftarrow> rdsStatus srv (RSetex RdsKeyPrefixManagerLoginString token (3600 * 1000000000) (RStr userName));
                reply StatusOK (TokenText token) }) })) })"

text \<open>The authority that the last row has; 0 when the query or the scan of a row fails.\<close>

definition GetManagerAccountAuthority :: "svc \<Rightarrow> string \<Rightarrow> (server, int) state" where
  "GetManagerAccountAuthority srv username =
     (let q = SqlQuery ''SELECT authority FROM manager WHERE username = ?'' [AStr username] in do {
     r \<leftarrow> ask q (\<lambda>h. dbRowsI srv h q);
     ret (case r of
            (_, Some _) \<Rightarrow> 0
          | (rows, None) \<Rightarrow> if None \<in> set rows \<or> rows = [] then 0 else the (last rows)) })"

definition ChangePassword :: "web \<Rightarrow> svc \<Rightarrow> httpReq \<Rightarrow> webHandler" where
  "ChangePassword w srv rq = withToken w rq (withUser srv rq (\<lambda>userName.
     case json_UserPassword w (rq_body rq) of
       None \<Rightarrow> reply StatusBadRequest BadParameters
     | Some r \<Rightarrow>
         if cp_Username r = '''' \<or> cp_Password r = '''' then reply StatusBadRequest BadParameters
         else do {
           refusal \<leftarrow> (if cp_Username r = userName then ret None
             else do {
               accountAuthority \<leftarrow> GetManagerAccountAuthority srv userName;
               ret (if accountAuthority = 0 then Some (Reply StatusInternalServerError NoAuthority)
                    else if accountAuthority AND CHANGE_OTHER_MANAGER_PASSWORD = 0
                    then Some (Reply StatusBadRequest NoAuthority) else None) });
           (case refusal of
              Some rep \<Rightarrow> ret (Replied [rep])
            | None \<Rightarrow> do {
                e \<leftarrow> db srv (SqlExec ''UPDATE manager SET password = ? WHERE username = ?''
                       [AStr (cp_Password r), AStr userName]);
                (if e \<noteq> None then reply StatusInternalServerError UpdateFailed
                 else reply StatusOK ChangeDone) }) }))"

definition ChangeStatus :: "web \<Rightarrow> svc \<Rightarrow> httpReq \<Rightarrow> webHandler" where
  "ChangeStatus w srv rq = withToken w rq (withUser srv rq (\<lambda>userName.
     case json_ChangeStatus w (rq_body rq) of
       None \<Rightarrow> reply StatusBadRequest BadParameters
     | Some r \<Rightarrow>
         if cs_Username r = '''' \<or> cs_Status r \<noteq> 1 \<and> cs_Status r \<noteq> 0 then reply StatusBadRequest BadParameters
         else do {
           e \<leftarrow> db srv (SqlExec ''UPDATE manager SET status = ? WHERE username = ?''
                  [AInt (cs_Status r), AStr (cs_Username r)]);
           (if e \<noteq> None then reply StatusInternalServerError UpdateFailed else reply StatusOK ChangeDone) }))"

text \<open>The rows of a result that can be scanned.\<close>

definition scanned :: "'a option list \<Rightarrow> 'a list" where
  "scanned rows = map the (filter (\<lambda>r. r \<noteq> None) rows)"

definition GetManagerList :: "web \<Rightarrow> svc \<Rightarrow> httpReq \<Rightarrow> webHandler" where
  "GetManagerList w srv rq = withToken w rq
     (let q = SqlQuery ''SELECT username, last_login_time, register_date, level, status FROM manager'' [] in do {
     r \<leftarrow> ask q (\<lambda>h. dbManagers w h q);
     (case r of
        (_, Some _) \<Rightarrow> reply StatusInternalServerError ReadFailed
      | (rows, None) \<Rightarrow> replyJson w (JManagers (scanned rows))) })"

definition quoted :: "string \<Rightarrow> string" where
  "quoted s = [CHR 0x27] @ s @ [CHR 0x27]"

definition NewManager :: "web \<Rightarrow> svc \<Rightarrow> httpReq \<Rightarrow> webHandler" where
  "NewManager w srv rq = withToken w rq
     (case json_UserPassword w (rq_body rq) of
        None \<Rightarrow> reply StatusBadRequest BadParameters
      | Some r \<Rightarrow>
          if cp_Username r = '''' \<or> cp_Password r = '''' then reply StatusBadRequest BadParameters
          else do {
            u \<leftarrow> tokenUser srv rq;
            (if snd u \<noteq> None then reply StatusInternalServerError ReadFailed
             else do {
               m \<leftarrow> getManager w (fst u);
               (if snd m \<noteq> None \<or> \<not> fst (fst m) then reply StatusInternalServerError ReadFailed
                else case ParseInt (mg_Level (snd (fst m))) of
                  (level, ok) \<Rightarrow>
                    if \<not> ok then reply StatusInternalServerError ReadFailed
                    else do {
                      now \<leftarrow> timeNow srv;
                      let timeStr = quoted (formatTime srv (now div 1000000000)) in do {
                      e \<leftarrow> db srv (SqlExec (''INSERT INTO manager (username, password, last_login_time, register_date, level) VALUES (''
                             @ quoted (cp_Username r) @ '', '' @ quoted (cp_Password r) @ '', '' @ timeStr @ '', '' @ timeStr
                             @ '', '' @ itoa (wrap64 (level + 1)) @ '')'') []);
                      (if e \<noteq> None then reply StatusInternalServerError CreateFailed
                       else reply StatusOK Created) } }) }) })"

definition GetManagerAccountLevel :: "web \<Rightarrow> string \<Rightarrow> (server, string \<times> goerr option) state" where
  "GetManagerAccountLevel w username = do {
     r \<leftarrow> getManager w username;
     ret (if snd r \<noteq> None then ('''', snd r) else (if fst (fst r) then mg_Level (snd (fst r)) else '''', None)) }"

section \<open>Configuration\<close>

definition SetRegionRegularConfig :: "web \<Rightarrow> svc \<Rightarrow> httpReq \<Rightarrow> webHandler" where
  "SetRegionRegularConfig w srv rq = withToken w rq (withUser srv rq (\<lambda>userName.
     case json_RegionRegular w (rq_body rq) of
       None \<Rightarrow> reply StatusBadRequest BadParameters
     | Some r \<Rightarrow>
         if rr_Region r = '''' \<or> rr_Regular r = '''' \<or> take 1 (rr_Region r) \<noteq> ''+''
         then reply StatusBadRequest BadParameters
         else do {
           accountAuthority \<leftarrow> GetManagerAccountAuthority srv userName;
           (if CHANGE_CONFIG AND accountAuthority = 0 then reply StatusBadRequest NoAuthority
            else do {
              e \<leftarrow> rdsStatus srv (RSet RdsKeyPrefixRegionRegularString (rr_Region r) (RStr (rr_Regular r)));
              (if e \<noteq> None then reply StatusInternalServerError SetFailed else reply StatusOK SetDone) }) }))"

text \<open>The slice of a key that is shorter than the session's prefix panics: None.\<close>

fun regionConfigs :: "web \<Rightarrow> svc \<Rightarrow> string list \<Rightarrow> (server, (string \<times> string) list option) state" where
  "regionConfigs w srv [] = ret (Some [])"
| "regionConfigs w srv (k # ks) = (let n = length (sessionPrefix w RdsKeyPrefixRegionRegularString) in
     (if length k < n then ret None
      else do {
        regular \<leftarrow> rdsStr srv (RGet RdsKeyPrefixRegionRegularString (drop n k));
        rest \<leftarrow> regionConfigs w srv ks;
        ret (map_option (\<lambda>rs. (drop n k, fst regular) # rs) rest) }))"

definition QueryRegionRegularConfig :: "web \<Rightarrow> svc \<Rightarrow> httpReq \<Rightarrow> webHandler" where
  "QueryRegionRegularConfig w srv rq = withToken w rq (withUser srv rq (\<lambda>userName. do {
     accountAuthority \<leftarrow> GetManagerAccountAuthority srv userName;
     (if CHANGE_CONFIG AND accountAuthority = 0 then reply StatusBadRequest NoAuthority
      else do {
        keys \<leftarrow> rdsList srv (RKeys RdsKeyPrefixRegionRegularString ''+*'');
        (case keys of
           (_, Some _) \<Rightarrow> reply StatusInternalServerError RegionsFailed
         | (ks, None) \<Rightarrow> do {
             configs \<leftarrow> regionConfigs w srv (elems ks);
             (case configs of None \<Rightarrow> ret WebPanic | Some cs \<Rightarrow> replyJson w (JRegions cs)) }) }) }))"

definition GetUpdateSet :: "web \<Rightarrow> svc \<Rightarrow> httpReq \<Rightarrow> webHandler" where
  "GetUpdateSet w srv rq = withToken w rq (do {
     r \<leftarrow> ask OrmGetVersion (dbVersion w);
     (if snd r \<noteq> None \<or> \<not> fst (fst r) then reply StatusInternalServerError NoData
      else replyJson w (JVersion (snd (fst r)))) })"

definition UpdateSet :: "web \<Rightarrow> svc \<Rightarrow> httpReq \<Rightarrow> webHandler" where
  "UpdateSet w srv rq = withToken w rq (do {
     u \<leftarrow> tokenUser srv rq;
     (if snd u \<noteq> None then reply StatusInternalServerError NoUserName
      else case json_UpdateSet w (rq_body rq) of
        None \<Rightarrow> reply StatusBadRequest BadParameters
      | Some version \<Rightarrow>
          if '''' \<in> set version then reply StatusBadRequest BadParameters
          else do {
            r \<leftarrow> dbInsert srv (OrmUpdate (VersionRow version));
            (if snd r \<noteq> None then reply StatusInternalServerError UpdateFailed else reply StatusOK Updated) }) })"

section \<open>Statistics\<close>

definition TrimPrefix :: "string \<Rightarrow> string \<Rightarrow> string" where
  "TrimPrefix s p = (if take (length p) s = p then drop (length p) s else s)"

definition GetOnlineUser :: "web \<Rightarrow> svc \<Rightarrow> httpReq \<Rightarrow> webHandler" where
  "GetOnlineUser w srv rq = withToken w rq (do {
     keys \<leftarrow> rdsList srv (RKeys RdsKeyPrefixUserOnline ''*'');
     replyJson w (JOnline (int (length (elems (fst keys))))
       (map (\<lambda>k. TrimPrefix k (sessionPrefix w RdsKeyPrefixUserOnline)) (elems (fst keys)))) })"

text \<open>The time span and the offset and size of a page; None when one is missing or no number.\<close>

definition pageArgs :: "httpReq \<Rightarrow> (string \<times> string \<times> int \<times> int) option" where
  "pageArgs rq =
     (let b = rq_query rq ''begin''; e = rq_query rq ''end''; p = rq_query rq ''page''; z = rq_query rq ''pageSize'' in
      if b = '''' \<or> e = '''' \<or> p = '''' \<or> z = '''' \<or> \<not> snd (ParseInt p) \<or> \<not> snd (ParseInt z) then None
      else Some (b, e, wrap64 (fst (ParseInt z) * wrap64 (fst (ParseInt p) - 1)), fst (ParseInt z)))"

definition createdBetween :: "string \<Rightarrow> string \<Rightarrow> string \<Rightarrow> int \<Rightarrow> int \<Rightarrow> string" where
  "createdBetween cols b e minLimit maxLimit = ''SELECT '' @ cols @ '' FROM account WHERE creation_time>='' @ quoted b
     @ '' AND creation_time<='' @ quoted e @ '' LIMIT '' @ itoa minLimit @ '', '' @ itoa maxLimit"

text \<open>A failed query is answered twice, since the handler goes on.\<close>

definition queryFailed :: webHandler where
  "queryFailed = ret (Replied [Reply StatusBadRequest QueryFailed, Reply StatusOK NothingFound])"

definition GetLoginUser :: "web \<Rightarrow> svc \<Rightarrow> httpReq \<Rightarrow> webHandler" where
  "GetLoginUser w srv rq = withToken w rq (case pageArgs rq of
       None \<Rightarrow> reply StatusBadRequest BadParameters
     | Some (b, e, minLimit, maxLimit) \<Rightarrow>
         (let q = SqlQuery (createdBetween ''account_id, nick_name, last_login_timestamp, last_login_ip, device_producter''
                     b e minLimit maxLimit) [] in do {
         r \<leftarrow> ask q (\<lambda>h. dbLogins w h q);
         (case r of (_, Some _) \<Rightarrow> queryFailed | (rows, None) \<Rightarrow> replyJson w (JLogins (scanned rows))) }))"

definition GetRegisterUser :: "web \<Rightarrow> svc \<Rightarrow> httpReq \<Rightarrow> webHandler" where
  "GetRegisterUser w srv rq = withToken w rq (case pageArgs rq of
       None \<Rightarrow> reply StatusBadRequest BadParameters
     | Some (b, e, minLimit, maxLimit) \<Rightarrow>
         (let q = SqlQuery (createdBetween ''account_id, nick_name, creation_time, device_producter'' b e minLimit maxLimit) [] in do {
         r \<leftarrow> ask q (\<lambda>h. dbRegisters w h q);
         (case r of (_, Some _) \<Rightarrow> queryFailed | (rows, None) \<Rightarrow> replyJson w (JRegisters (scanned rows))) }))"

text \<open>
  The two counts per day. The second destination of the scan is a string and no pointer, so that
  Scan reports an error for every row and none is kept.
\<close>

definition numQuery :: "string \<Rightarrow> string \<Rightarrow> string \<Rightarrow> string" where
  "numQuery col b e = ''SELECT COUNT(1),a from (SELECT DATE('' @ col @ '') a FROM account WHERE '' @ col @ ''>='' @ quoted b
     @ '' AND '' @ col @ ''<='' @ quoted e @ '') ret GROUP BY a''"

definition userNums :: "web \<Rightarrow> svc \<Rightarrow> string \<Rightarrow> httpReq \<Rightarrow> webHandler" where
  "userNums w srv col rq = withToken w rq
     (let q = SqlQuery (numQuery col (rq_query rq ''begin'') (rq_query rq ''end'')) [] in do {
      r \<leftarrow> ask q (\<lambda>h. dbRowsI srv h q);
      (if snd r \<noteq> None then queryFailed else replyJson w (JNums [])) })"

definition GetLoginUserNum :: "web \<Rightarrow> svc \<Rightarrow> httpReq \<Rightarrow> webHandler" where
  "GetLoginUserNum w srv rq = userNums w srv ''last_login_timestamp'' rq"

definition GetRegisterUserNum :: "web \<Rightarrow> svc \<Rightarrow> httpReq \<Rightarrow> webHandler" where
  "GetRegisterUserNum w srv rq = userNums w srv ''creation_time'' rq"

section \<open>Accounts\<close>

text \<open>The decoder's error is not looked at.\<close>

definition ChangeAccountStatus :: "web \<Rightarrow> svc \<Rightarrow> httpReq \<Rightarrow> webHandler" where
  "ChangeAccountStatus w srv rq = withToken w rq (do {
     u \<leftarrow> tokenUser srv rq;
     (if snd u \<noteq> None then reply StatusInternalServerError NoUserName
      else case json_AccountStatus w (rq_body rq) of
        (accountId, status) \<Rightarrow>
          if status \<noteq> 0 \<and> status \<noteq> 1 then reply StatusBadRequest BadParameters
          else do {
            e \<leftarrow> db srv (SqlExec ''UPDATE account SET status = ? WHERE account_id = ?'' [AInt status, AInt accountId]);
            (if e \<noteq> None then reply StatusInternalServerError UpdateFailed else reply StatusOK ChangeDone) }) })"

definition ResetAccountPassword :: "web \<Rightarrow> svc \<Rightarrow> httpReq \<Rightarrow> webHandler" where
  "ResetAccountPassword w srv rq = withToken w rq (do {
     u \<leftarrow> tokenUser srv rq;
     (if snd u \<noteq> None then reply StatusInternalServerError NoUserName
      else case json_UserPassword w (rq_body rq) of
        None \<Rightarrow> reply StatusBadRequest BadParameters
      | Some r \<Rightarrow>
          if cp_Username r = '''' \<or> cp_Password r = '''' then reply StatusBadRequest BadParameters
          else do {
            e \<leftarrow> db srv (SqlExec ''UPDATE account SET pwd = ? WHERE account_id = %s''
                   [AStr (cp_Password r), AStr (cp_Username r)]);
            (if e \<noteq> None then reply StatusInternalServerError UpdateFailed else reply StatusOK PasswordReset) }) })"

section \<open>Third platforms\<close>

definition GetNewThirdPlatformIdDB :: "svc \<Rightarrow> (server, int \<times> goerr option) state" where
  "GetNewThirdPlatformIdDB srv =
     (let q = SqlQuery ''SELECT third_platform_id FROM third_platform WHERE third_platform_id = (SELECT MAX(third_platform_id) FROM third_platform)'' [] in do {
      r \<leftarrow> ask q (\<lambda>h. dbRowsI srv h q);
      ret (case r of
             (_, Some err) \<Rightarrow> (0, Some err)
           | (rows, None) \<Rightarrow>
               if None \<in> set rows then (0, Some (Err ''scan''))
               else let last = (if rows = [] then 0 else the (last rows)) in
                 (if last = 0 then DefaultThirdPlatformId else wrap64 (last + 1), None)) })"

definition alphabet :: string where
  "alphabet = ''0123456789abcdefghijklmnopqrstuvwxyz''"

definition GetRandomString :: "svc \<Rightarrow> nat \<Rightarrow> (server, string) state" where
  "GetRandomString srv l = do {
     _ \<leftarrow> timeNow srv;
     gets (\<lambda>s. map (\<lambda>i. alphabet ! (randIntn srv (hist s) i mod length alphabet)) [0..<l]) }"

definition RegisterThirdPlatform :: "web \<Rightarrow> svc \<Rightarrow> httpReq \<Rightarrow> webHandler" where
  "RegisterThirdPlatform w srv rq = withToken w rq
     (case json_PlatformName w (rq_body rq) of
        None \<Rightarrow> reply StatusInternalServerError BodyFailed
      | Some name \<Rightarrow>
          if name = '''' then reply StatusInternalServerError NoPlatformName
          else withUser srv rq (\<lambda>userName. do {
            lever \<leftarrow> GetManagerAccountLevel w userName;
            (if snd lever \<noteq> None then reply StatusInternalServerError NoLevel
             else if fst lever \<noteq> ''0'' then reply StatusBadRequest PlatformForbidden
             else do {
               i \<leftarrow> GetNewThirdPlatformIdDB srv;
               (if snd i \<noteq> None then reply StatusOK NoPlatformId
                else do {
                  now \<leftarrow> timeNow srv;
                  appKey \<leftarrow> GetRandomString srv 8;
                  uuid \<leftarrow> gets (\<lambda>s. newUuid w (hist s));
                  r \<leftarrow> dbInsert srv (OrmInsert (ThirdPlatformRow (fst i) name now appKey
                         (filter (\<lambda>ch. ch \<noteq> CHR ''-'') uuid)));
                  (if snd r \<noteq> None then reply StatusOK PlatformFailed
                   else reply StatusOK (PlatformRegistered name)) }) }) }))"

definition QueryThirdPlatform :: "web \<Rightarrow> svc \<Rightarrow> httpReq \<Rightarrow> webHandler" where
  "QueryThirdPlatform w srv rq = withToken w rq (withUser srv rq (\<lambda>userName.
     let p = rq_query rq ''page''; z = rq_query rq ''pageSize'' in
     (if p = '''' \<or> z = '''' \<or> \<not> snd (ParseInt p) \<or> \<not> snd (ParseInt z) then reply StatusBadRequest BadPage
      else let q = SqlQuery ''SELECT third_platform_id, third_platform_name, app_key, app_password, register_time, status FROM third_platform LIMIT ?, ?''
          [AInt (wrap64 (fst (ParseInt z) * wrap64 (fst (ParseInt p) - 1))), AInt (fst (ParseInt z))] in do {
        r \<leftarrow> ask q (\<lambda>h. dbPlatforms w h q);
        (case r of
           (_, Some _) \<Rightarrow> reply StatusInternalServerError QueryFailed
         | (rows, None) \<Rightarrow>
             if None \<in> set rows then reply StatusInternalServerError QueryFailed
             else replyJson w (JPlatforms (map the rows))) })))"

definition ForbidThirdPlatform :: "web \<Rightarrow> svc \<Rightarrow> httpReq \<Rightarrow> webHandler" where
  "ForbidThirdPlatform w srv rq = withToken w rq (withUser srv rq (\<lambda>userName.
     case json_ForbidPlatform w (rq_body rq) of
       None \<Rightarrow> reply StatusOK BadParameters
     | Some r \<Rightarrow>
         if userName \<noteq> ''imusername'' then reply StatusBadRequest NoAuthority
         else do {
           e \<leftarrow> db srv (SqlExec ''UPDATE third_platform SET status = ? WHERE third_platform_id = ?''
                  [AInt (fb_Status r), AInt (fb_ThirdPlatformId r)]);
           (if e \<noteq> None then reply StatusOK UpdateFailed else reply StatusOK (Forbidden (fb_ThirdPlatformId r))) }))"

section \<open>Tokens for the users of third platforms\<close>

definition GetPlayerTokenResponse :: "string \<Rightarrow> respText \<Rightarrow> int \<Rightarrow> int \<Rightarrow> playerToken" where
  "GetPlayerTokenResponse token errorMsg expiresIn errorCode =
     \<lparr>pt_AccessToken = token, pt_ErrorMsg = errorMsg, pt_ExpiresIn = expiresIn, pt_ErrorCode = errorCode\<rparr>"

definition noPlayer :: "int \<Rightarrow> respText \<Rightarrow> int \<Rightarrow> webHandler" where
  "noPlayer status errorMsg errorCode =
     ret (Replied [ReplyToken status (GetPlayerTokenResponse '''' errorMsg 0 errorCode)])"

text \<open>The account id of a user of a third platform.\<close>

definition platformUser :: "int \<Rightarrow> int \<Rightarrow> int" where
  "platformUser platformId userId = wrap64 (userId + wrap64 (platformId * DefaultThirdPlatformUserId))"

text \<open>What a token stands for in Redis; the message server splits it at the hyphen.\<close>

definition playerTokenValue :: "int \<Rightarrow> string \<Rightarrow> string" where
  "playerTokenValue userId pwd = itoa userId @ ''-'' @ pwd"

definition CheckSign :: "web \<Rightarrow> (string \<Rightarrow> string) \<Rightarrow> getPlayerTokenRequest \<Rightarrow> string \<Rightarrow> bool" where
  "CheckSign w toUpper req password \<longleftrightarrow> gp_Sign req = toUpper (md5 w
     (''app_key='' @ gp_AppKey req @ ''&parent_id='' @ itoa (gp_ParentId req) @ ''&timestamp='' @ itoa (gp_Timestamp req)
      @ ''&user_id='' @ itoa (gp_UserId req) @ ''&user_name='' @ gp_UserName req @ password))"

definition CreateThirdPlatformAccountDB ::
    "svc \<Rightarrow> getPlayerTokenRequest \<Rightarrow> int \<Rightarrow> string \<Rightarrow> string \<Rightarrow> (server, goerr option) state" where
  "CreateThirdPlatformAccountDB srv req thirdPlatformId nickname pwd =
     (let agentId = (if gp_ParentId req \<noteq> 0 then platformUser thirdPlatformId (gp_ParentId req) else 0) in
      inTxE srv (do {
       now \<leftarrow> timeNow srv;
       txSteps
        ([(1, txInsert srv (AgentAccountRow (gp_UserId req) nickname (gp_UserName req) pwd agentId now))]
         @ (if gp_ParentId req \<noteq> 0
            then [(2, txInsert srv (AgentClientRow (gp_UserId req) agentId thirdPlatformId))] else [])
         @ [(3, db srv TxCommit)]) }))"

text \<open>
  The last value that could be scanned into the first destination, else the initial one.
\<close>

definition lastScanned :: "int \<Rightarrow> int option list \<Rightarrow> int" where
  "lastScanned z rows = fold (\<lambda>r a. case r of None \<Rightarrow> a | Some i \<Rightarrow> i) rows z"

definition NoAccountId :: int where
  "NoAccountId = 202001151553"

text \<open>
  \<open>rows.Scan(&accountId, pwd)\<close> fails at its second destination, which is no pointer, after it has stored
  the first; so the password of the token is always that of a new account. The signature is not
  checked: the call of CheckSign is commented out.
\<close>

definition GetPlayerToken :: "web \<Rightarrow> svc \<Rightarrow> httpReq \<Rightarrow> webHandler" where
  "GetPlayerToken w srv rq =
     (case json_PlayerToken w (rq_body rq) of
        None \<Rightarrow> noPlayer StatusBadRequest BadParameters 1
      | Some req \<Rightarrow> do {
          pl \<leftarrow> (let q = OrmGet ''app_key = ?'' [AStr (gp_AppKey req)] in ask q (\<lambda>h. dbPlatform w h q));
          (if snd pl \<noteq> None \<or> \<not> fst (fst pl) then noPlayer StatusBadRequest PlatformUnknown 2
           else let platformId = snd (fst pl); parent = platformUser platformId (gp_ParentId req) in do {
             known \<leftarrow> (if gp_ParentId req = 0 then ret True
               else do {
                 r \<leftarrow> (let q = SqlQuery ''SELECT account_id FROM account WHERE account_id = ?'' [AInt parent]
                      in ask q (\<lambda>h. dbRowsI srv h q));
                 ret (snd r = None \<and> lastScanned NoAccountId (fst r) = parent) });
             (if \<not> known then noPlayer StatusBadRequest AgentUnknown 3
              else let user = platformUser platformId (gp_UserId req); pwd = md5 w DefaultAgentPassword in do {
                r \<leftarrow> (let q = SqlQuery ''SELECT account_id, pwd FROM account WHERE account_id = ?'' [AInt user]
                     in ask q (\<lambda>h. dbRowsI srv h q));
                (if snd r \<noteq> None then noPlayer StatusInternalServerError AccountQueryFailed 5
                 else do {
                   let exists = (lastScanned NoAccountId (fst r) = user) in do {
                   created \<leftarrow> (if exists then ret True
                     else do {
                       _ \<leftarrow> rdsStatus srv (RSetex RdsKeyRegisterAccount (itoa user) (30 * 1000000000) (RInt 1));
                       nickName \<leftarrow> GetRandomString srv 10;
                       e \<leftarrow> CreateThirdPlatformAccountDB srv (req\<lparr>gp_UserId := user\<rparr>) platformId nickName pwd;
                       (if e \<noteq> None then ret False
                        else do {
                          (case marshal srv (Sto (PB_UserBriefInfo \<lparr>ub_AccountId = user, ub_Nickname = nickName,
                              ub_UserName = gp_UserName req, ub_HeadPortrait = '''', ub_Signature = ''''\<rparr>)) of
                             None \<Rightarrow> skip
                           | Some bytes \<Rightarrow> do {
                               _ \<leftarrow> rdsStatus srv (RSet RdsKeyPrefixBriefInfo (itoa user) (RStr bytes)); skip });
                          ret True }) });
                   out \<leftarrow> (if \<not> created then noPlayer StatusInternalServerError AccountCreateFailed 5
                     else do {
                       loginToken \<leftarrow> CreateToken w srv (gp_UserName req) user (10 * 60 * 1000000000);
                       (case loginToken of
                          None \<Rightarrow> noPlayer StatusInternalServerError TokenFailed 5
                        | Some token \<Rightarrow> do {
                            _ \<leftarrow> rdsStatus srv (RSetex RdsKeyPrefixThirdPlatformLoginToken token (10 * 60 * 1000000000)
                                   (RStr (playerTokenValue user pwd)));
                            whenM (gp_ParentId req \<noteq> 0) (do {
                              _ \<leftarrow> rdsInt srv (RAddSet RdsKeyPrefixHighAgentSet (itoa parent) (RStr (itoa user))); skip });
                            ret (Replied [ReplyToken StatusOK (GetPlayerTokenResponse token NoMessage 600 0)]) }) });
                   whenM (\<not> exists) (unlock srv RdsKeyRegisterAccount (itoa user));
                   ret out } }) }) }) })"

section \<open>Routes\<close>

definition NewImManager :: "web \<Rightarrow> svc \<Rightarrow> (string \<times> string \<times> (httpReq \<Rightarrow> webHandler)) list" where
  "NewImManager w srv =
    [(''GET'', ''/login'', managerLogin w srv),
     (''POST'', ''/changePassword'', ChangePassword w srv),
     (''POST'', ''/changeStatus'', ChangeStatus w srv),
     (''GET'', ''/getManagerList'', GetManagerList w srv),
     (''POST'', ''/newManager'', NewManager w srv),
     (''POST'', ''/setRegionRegularConfig'', SetRegionRegularConfig w srv),
     (''GET'', ''/queryRegionRegularConfig'', QueryRegionRegularConfig w srv),
     (''GET'', ''/getOnlineUser'', GetOnlineUser w srv),
     (''GET'', ''/getLoginUser'', GetLoginUser w srv),
     (''GET'', ''/getRegisterUser'', GetRegisterUser w srv),
     (''GET'', ''/getLoginUserNum'', GetLoginUserNum w srv),
     (''GET'', ''/getRegisterUserNum'', GetRegisterUserNum w srv),
     (''GET'', ''/getUpdateSet'', GetUpdateSet w srv),
     (''POST'', ''/updateSet'', UpdateSet w srv),
     (''POST'', ''/changeAccountStatus'', ChangeAccountStatus w srv),
     (''POST'', ''/resetAccountPassword'', ResetAccountPassword w srv),
     (''POST'', ''/registerThirdPlatform'', RegisterThirdPlatform w srv),
     (''GET'', ''/queryThirdPlatform'', QueryThirdPlatform w srv),
     (''POST'', ''/forbidThirdPlatform'', ForbidThirdPlatform w srv),
     (''POST'', ''/getPlayerToken'', GetPlayerToken w srv)]"

end
