(* ===== verification/Management.thy ===== *)
theory Management
  imports Manager
begin

text \<open>
  The management server: which requests need a token and which a permission, what its handlers
  write without one, and the accounts and tokens it makes for the users of third platforms.
\<close>

section \<open>Requests without a token\<close>

lemma withToken_error:
  "CheckToken w rq = Some err \<Longrightarrow> withToken w rq m = reply StatusBadRequest (TokenError err)"
  by (simp add: withToken_def)

lemma run_reply [simp, run_simps]: "run_state (reply code t) s = (Replied [Reply code t], s)"
  by (simp add: reply_def)

lemma token_first:
  assumes "CheckToken w rq = Some err"
  shows
    "ChangePassword w srv rq = reply StatusBadRequest (TokenError err)"
    "ChangeStatus w srv rq = reply StatusBadRequest (TokenError err)"
    "GetManagerList w srv rq = reply StatusBadRequest (TokenError err)"
    "NewManager w srv rq = reply StatusBadRequest (TokenError err)"
    "SetRegionRegularConfig w srv rq = reply StatusBadRequest (TokenError err)"
    "QueryRegionRegularConfig w srv rq = reply StatusBadRequest (TokenError err)"
    "GetUpdateSet w srv rq = reply StatusBadRequest (TokenError err)"
    "UpdateSet w srv rq = reply StatusBadRequest (TokenError err)"
    "GetOnlineUser w srv rq = reply StatusBadRequest (TokenError err)"
    "GetLoginUser w srv rq = reply StatusBadRequest (TokenError err)"
    "GetRegisterUser w srv rq = reply StatusBadRequest (TokenError err)"
    "GetLoginUserNum w srv rq = reply StatusBadRequest (TokenError err)"
    "GetRegisterUserNum w srv rq = reply StatusBadRequest (TokenError err)"
    "ChangeAccountStatus w srv rq = reply StatusBadRequest (TokenError err)"
    "ResetAccountPassword w srv rq = reply StatusBadRequest (TokenError err)"
    "RegisterThirdPlatform w srv rq = reply StatusBadRequest (TokenError err)"
    "QueryThirdPlatform w srv rq = reply StatusBadRequest (TokenError err)"
    "ForbidThirdPlatform w srv rq = reply StatusBadRequest (TokenError err)"
  unfolding ChangePassword_def ChangeStatus_def GetManagerList_def NewManager_def SetRegionRegularConfig_def QueryRegionRegularConfig_def GetUpdateSet_def UpdateSet_def GetOnlineUser_def GetLoginUser_def GetRegisterUser_def GetLoginUserNum_def GetRegisterUserNum_def ChangeAccountStatus_def ResetAccountPassword_def RegisterThirdPlatform_def QueryThirdPlatform_def ForbidThirdPlatform_def userNums_def
  by (rule withToken_error[OF assms])+

text \<open>
  C21: Every route of the management server but the login and the player tokens refuses a request
  without a valid token: it answers the token's error, calls nothing and changes nothing.
\<close>

theorem management_needs_token:
  assumes "(verb, path, h) \<in> set (NewImManager w srv)" and "path \<noteq> ''/login''" and "path \<noteq> ''/getPlayerToken''"
    and "CheckToken w rq = Some err"
  shows "run_state (h rq) s = (Replied [Reply StatusBadRequest (TokenError err)], s)"
proof -
  have "list_all (\<lambda>(verb, path, h). path = ''/login'' \<or> path = ''/getPlayerToken''
      \<or> h rq = reply StatusBadRequest (TokenError err)) (NewImManager w srv)"
    unfolding NewImManager_def by (simp add: token_first[OF assms(4)])
  then show ?thesis using assms(1-3) by (fastforce simp: list_all_iff)
qed

section \<open>A concrete management server\<close>

definition demoManager :: managerRow where
  "demoManager = \<lparr>mg_Id = 1, mg_Username = ''root'', mg_Password = ''pw'', mg_Level = ''0'', mg_Status = 0\<rparr>"

definition demoPlayer :: getPlayerTokenRequest where
  "demoPlayer = \<lparr>gp_UserId = 7, gp_UserName = ''u'', gp_AppKey = ''k'', gp_Timestamp = 0, gp_ParentId = 0, gp_Sign = ''''\<rparr>"

definition demoWeb :: web where
  "demoWeb = \<lparr>jwtParse = \<lambda>t. if t = ''t'' then None else Some (Err ''token''), jwtSign = \<lambda>_ _ _ _ _. Some ''t'',
     md5 = \<lambda>_. ''d41d'', newUuid = \<lambda>_. ''uuid'', sessionPrefix = \<lambda>p. p @ '':'', json_marshal = \<lambda>_. Some ''[]'',
     json_UserPassword = \<lambda>_. Some \<lparr>cp_Username = ''other'', cp_Password = ''new''\<rparr>,
     json_ChangeStatus = \<lambda>_. Some \<lparr>cs_Username = ''other'', cs_Status = 1\<rparr>,
     json_RegionRegular = \<lambda>_. Some \<lparr>rr_Region = ''+86'', rr_Regular = ''.*''\<rparr>,
     json_UpdateSet = \<lambda>_. Some [], json_AccountStatus = \<lambda>_. (1, 1), json_PlatformName = \<lambda>_. Some ''p'',
     json_ForbidPlatform = \<lambda>_. Some \<lparr>fb_ThirdPlatformId = 1, fb_Status = 1\<rparr>,
     json_PlayerToken = \<lambda>_. Some demoPlayer,
     dbManager = \<lambda>_ _. ((True, demoManager), None), dbManagers = \<lambda>_ _. ([], None), dbLogins = \<lambda>_ _. ([], None),
     dbRegisters = \<lambda>_ _. ([], None), dbVersion = \<lambda>_. ((False, []), None), dbPlatforms = \<lambda>_ _. ([], None),
     dbPlatform = \<lambda>_ _. ((True, 1000000), None)\<rparr>"

definition demoReq :: "string \<Rightarrow> httpReq" where
  "demoReq token = \<lparr>rq_token = token, rq_query = \<lambda>_. '''', rq_body = ''''\<rparr>"

theorem management_needs_token_witness:
  "run_state (ForbidThirdPlatform demoWeb demoSvc (demoReq '''')) demoServer
     = (Replied [Reply StatusBadRequest (TokenError (Err ''empty token''))], demoServer)"
  by (rule management_needs_token[of "''POST''" "''/forbidThirdPlatform''" _ demoWeb demoSvc])
    (simp_all add: NewImManager_def CheckToken_def demoReq_def)

section \<open>Permissions\<close>

text \<open>A program that stores nothing and leaves the process alone.\<close>

abbreviation browses :: "(server, 'a) state \<Rightarrow> bool" where
  "browses \<equiv> calls (\<lambda>q. \<not> is_write q)"

definition browsed :: "server \<Rightarrow> server \<Rightarrow> bool" where
  "browsed s t \<longleftrightarrow> (\<exists>h. t = s\<lparr>hist := hist s @ h\<rparr> \<and> list_all (\<lambda>q. \<not> is_write q) h)"

lemma browsedD: "browses m \<Longrightarrow> browsed s (snd (run_state m s))"
  by (simp add: calls_def browsed_def)

lemma browsed_refl [simp]: "browsed s s"
  unfolding browsed_def by (rule exI[of _ "[]"]) simp

lemma browsed_call [simp]: "\<not> is_write q \<Longrightarrow> browsed s t \<Longrightarrow> browsed s (t\<lparr>hist := hist t @ [q]\<rparr>)"
  unfolding browsed_def by force

text \<open>The user that Redis has for a token, and the authority and level that MySQL has for a user.\<close>

definition tokenOf :: "svc \<Rightarrow> call list \<Rightarrow> httpReq \<Rightarrow> string \<Rightarrow> bool" where
  "tokenOf srv h rq u \<longleftrightarrow> u \<noteq> '''' \<and> rStr srv h (RGet RdsKeyPrefixManagerLoginString (rq_token rq)) = (u, None)"

definition tokenCall :: "httpReq \<Rightarrow> call" where
  "tokenCall rq = Rds (RGet RdsKeyPrefixManagerLoginString (rq_token rq))"

definition authorityCall :: "string \<Rightarrow> call" where
  "authorityCall u = SqlQuery ''SELECT authority FROM manager WHERE username = ?'' [AStr u]"

definition authorityIn :: "svc \<Rightarrow> call list \<Rightarrow> string \<Rightarrow> int" where
  "authorityIn srv h u = (case dbRowsI srv h (authorityCall u) of
       (_, Some _) \<Rightarrow> 0 | (rows, None) \<Rightarrow> if None \<in> set rows \<or> rows = [] then 0 else the (last rows))"

definition hasAuthority :: "svc \<Rightarrow> call list \<Rightarrow> string \<Rightarrow> int \<Rightarrow> bool" where
  "hasAuthority srv h u b \<longleftrightarrow> authorityIn srv h u AND b \<noteq> 0"

definition levelIn :: "web \<Rightarrow> call list \<Rightarrow> string \<Rightarrow> string" where
  "levelIn w h u = (case dbManager w h (OrmGet ''username = ?'' [AStr u]) of
       ((True, m), None) \<Rightarrow> mg_Level m | _ \<Rightarrow> '''')"

lemma run_tokenUser [run_simps]:
  "run_state (tokenUser srv rq) s = (rStr srv (hist s) (RGet RdsKeyPrefixManagerLoginString (rq_token rq)),
     s\<lparr>hist := hist s @ [tokenCall rq]\<rparr>)"
  by (simp add: tokenUser_def tokenCall_def run_simps)

lemma run_authority [run_simps]:
  "run_state (GetManagerAccountAuthority srv u) s
     = (authorityIn srv (hist s) u, s\<lparr>hist := hist s @ [authorityCall u]\<rparr>)"
  by (simp add: GetManagerAccountAuthority_def authorityIn_def authorityCall_def Let_def run_simps)

lemma run_level [run_simps]:
  "run_state (GetManagerAccountLevel w u) s = ((levelIn w (hist s) u, snd (dbManager w (hist s) (OrmGet ''username = ?'' [AStr u]))),
     s\<lparr>hist := hist s @ [OrmGet ''username = ?'' [AStr u]]\<rparr>)"
  by (auto simp: GetManagerAccountLevel_def getManager_def levelIn_def Let_def run_simps split: option.splits prod.splits)

lemma reads_calls [simp]: "\<not> is_write (tokenCall rq)" "\<not> is_write (authorityCall u)"
  by (simp_all add: tokenCall_def authorityCall_def)

lemma run_withUser:
  "run_state (withUser srv rq f) s = (let t = s\<lparr>hist := hist s @ [tokenCall rq]\<rparr> in
     case rStr srv (hist s) (RGet RdsKeyPrefixManagerLoginString (rq_token rq)) of
       (u, e) \<Rightarrow> if tokenOf srv (hist s) rq u then run_state (f u) t
          else (Replied [Reply StatusInternalServerError NoUserName], t))"
  by (auto simp: withUser_def tokenOf_def Let_def run_simps split: prod.splits)

lemma run_withUser_known:
  "tokenOf srv (hist s) rq u \<Longrightarrow> run_state (withUser srv rq f) s = run_state (f u) (s\<lparr>hist := hist s @ [tokenCall rq]\<rparr>)"
  by (simp add: withUser_def tokenOf_def run_simps)

text \<open>
  A handler that stores nothing unless the token is valid and stands for a user of whom \<open>P\<close>
  holds, with the answers given after the token was looked up.
\<close>

definition permitted :: "web \<Rightarrow> svc \<Rightarrow> httpReq \<Rightarrow> webHandler \<Rightarrow> (string \<Rightarrow> call list \<Rightarrow> bool) \<Rightarrow> server \<Rightarrow> bool" where
  "permitted w srv rq m P s \<longleftrightarrow> browsed s (snd (run_state m s))
     \<or> CheckToken w rq = None \<and> (\<exists>u. tokenOf srv (hist s) rq u \<and> P u (hist s @ [tokenCall rq]))"

lemma permitted_withUser:
  assumes "\<And>u t. \<not> P u (hist t) \<Longrightarrow> browsed t (snd (run_state (f u) t))"
  shows "permitted w srv rq (withToken w rq (withUser srv rq f)) P s"
proof (cases "CheckToken w rq")
  case None
  obtain u e where r: "rStr srv (hist s) (RGet RdsKeyPrefixManagerLoginString (rq_token rq)) = (u, e)" by fastforce
  let ?t = "s\<lparr>hist := hist s @ [tokenCall rq]\<rparr>"
  have "browsed s (snd (run_state (f u) ?t))" if "\<not> P u (hist ?t)"
    using assms[OF that] unfolding browsed_def by force
  then show ?thesis using None r
    by (auto simp: permitted_def withToken_def run_withUser tokenOf_def Let_def)
qed (simp add: permitted_def withToken_error)


text \<open>
  A manager who may change the passwords of others changes the own one instead: the request
  names another manager, the statement names the one behind the token.
\<close>

theorem change_password_hits_own_account:
  assumes "CheckToken w rq = None" and "tokenOf srv (hist s) rq u"
    and "json_UserPassword w (rq_body rq) = Some \<lparr>cp_Username = other, cp_Password = pw\<rparr>"
    and "other \<noteq> ''''" and "pw \<noteq> ''''" and "other \<noteq> u"
    and "authorityIn srv (hist s @ [tokenCall rq]) u AND CHANGE_OTHER_MANAGER_PASSWORD \<noteq> 0"
  shows "hist (snd (run_state (ChangePassword w srv rq) s)) = hist s @ [tokenCall rq, authorityCall u,
    SqlExec ''UPDATE manager SET password = ? WHERE username = ?'' [AStr pw, AStr u]]"
proof -
  have "authorityIn srv (hist s @ [tokenCall rq]) u \<noteq> 0" using assms(7) by auto
  then show ?thesis using assms
    by (auto simp: ChangePassword_def withToken_def run_withUser_known run_simps)
qed

theorem change_password_hits_own_account_witness:
  "hist (snd (run_state (ChangePassword demoWeb (demoSvc\<lparr>rStr := \<lambda>_ _. (''root'', None), dbRowsI := \<lambda>_ _. ([Some 4], None)\<rparr>)
      (demoReq ''t'')) demoServer)) ! 2
   = SqlExec ''UPDATE manager SET password = ? WHERE username = ?'' [AStr ''new'', AStr ''root'']"
  by (subst change_password_hits_own_account[where u = "''root''" and other = "''other''" and pw = "''new''"])
    (simp_all add: CheckToken_def demoReq_def demoWeb_def tokenOf_def authorityIn_def CHANGE_OTHER_MANAGER_PASSWORD_def
      demoServer_def)

text \<open>
  Enabling and disabling managers needs no authority: whoever has a token switches off any
  other manager, the one of level 0 included.
\<close>

theorem status_needs_no_authority:
  assumes "CheckToken w rq = None" and "tokenOf srv (hist s) rq u"
    and "json_ChangeStatus w (rq_body rq) = Some \<lparr>cs_Username = other, cs_Status = v\<rparr>"
    and "other \<noteq> ''''" and "v = 0 \<or> v = 1"
  shows "hist (snd (run_state (ChangeStatus w srv rq) s)) = hist s @ [tokenCall rq,
    SqlExec ''UPDATE manager SET status = ? WHERE username = ?'' [AInt v, AStr other]]"
  using assms by (auto simp: ChangeStatus_def withToken_def run_withUser_known run_simps)

theorem status_needs_no_authority_witness:
  "hist (snd (run_state (ChangeStatus demoWeb (demoSvc\<lparr>rStr := \<lambda>_ _. (''u'', None)\<rparr>) (demoReq ''t'')) demoServer)) ! 1
   = SqlExec ''UPDATE manager SET status = ? WHERE username = ?'' [AInt 1, AStr ''other'']"
  by (subst status_needs_no_authority[where u = "''u''" and other = "''other''" and v = 1])
    (simp_all add: CheckToken_def demoReq_def demoWeb_def tokenOf_def demoServer_def)

section \<open>The users of third platforms\<close>

lemma wrap64_add: "wrap64 (x + wrap64 y) = wrap64 (x + y)"
  using mod_add_right_eq[of x "y + 2 ^ 63" "2 ^ 64"] by (simp add: wrap64_def algebra_simps)

lemma wrap64_add_left: "wrap64 (x + (y + wrap64 z)) = wrap64 (x + (y + z))"
  using wrap64_add[of "x + y" z] by (simp add: add.assoc)

text \<open>
  Users below 100000000 of different platforms have different account ids; but the id after
  them is that of a user of the next platform.
\<close>

theorem platform_users_disjoint:
  "inj_on (\<lambda>(p, u). platformUser p u) ({0..92233720366} \<times> {0..<DefaultThirdPlatformUserId})
   \<and> platformUser p (DefaultThirdPlatformUserId + u) = platformUser (p + 1) u"
proof
  have id: "platformUser p u = u + p * 100000000" if "p \<in> {0..92233720366}" "u \<in> {0..<DefaultThirdPlatformUserId}" for p u
    using that by (simp add: platformUser_def DefaultThirdPlatformUserId_def int64_def)
  show "inj_on (\<lambda>(p, u). platformUser p u) ({0..92233720366} \<times> {0..<DefaultThirdPlatformUserId})"
    by (rule inj_on_inverseI[where g = "\<lambda>i. (i div DefaultThirdPlatformUserId, i mod DefaultThirdPlatformUserId)"])
      (auto simp: id DefaultThirdPlatformUserId_def)
  show "platformUser p (DefaultThirdPlatformUserId + u) = platformUser (p + 1) u"
    by (simp add: platformUser_def wrap64_add wrap64_add_left DefaultThirdPlatformUserId_def algebra_simps)
qed

text \<open>
  The signature of a request for a player token is not looked at, nor its timestamp: with
  any other signature and timestamp the server does the same, so that the public key of a
  platform is enough to log in as any of its users.
\<close>

theorem player_token_unsigned:
  assumes "json_PlayerToken w (rq_body rq) = Some q"
    and "json_PlayerToken w (rq_body rq') = Some (q\<lparr>gp_Sign := sig, gp_Timestamp := time\<rparr>)"
  shows "run_state (GetPlayerToken w srv rq') s = run_state (GetPlayerToken w srv rq) s"
proof -
  have "CreateThirdPlatformAccountDB srv (q\<lparr>gp_Sign := sig, gp_Timestamp := time, gp_UserId := u\<rparr>) p n pw
      = CreateThirdPlatformAccountDB srv (q\<lparr>gp_UserId := u\<rparr>) p n pw" for u p n pw
    by (cases "gp_ParentId q = 0") (simp_all add: CreateThirdPlatformAccountDB_def Let_def cong: if_cong)
  then show ?thesis unfolding GetPlayerToken_def assms by (simp cong: if_cong)
qed

theorem player_token_unsigned_witness:
  "run_state (GetPlayerToken (demoWeb\<lparr>json_PlayerToken := \<lambda>b. Some (demoPlayer\<lparr>gp_Sign := b, gp_Timestamp := 9\<rparr>)\<rparr>) demoSvc
      (demoReq ''t''\<lparr>rq_body := ''forged''\<rparr>)) demoServer
   = run_state (GetPlayerToken (demoWeb\<lparr>json_PlayerToken := \<lambda>b. Some (demoPlayer\<lparr>gp_Sign := b, gp_Timestamp := 9\<rparr>)\<rparr>) demoSvc
      (demoReq ''t''\<lparr>rq_body := ''signed''\<rparr>)) demoServer"
  by (rule player_token_unsigned[where q = "demoPlayer\<lparr>gp_Sign := ''signed'', gp_Timestamp := 9\<rparr>" and sig = "''forged''" and time = 9])
    simp_all

lemma itoa_no_hyphen: "0 \<le> i \<Longrightarrow> CHR ''-'' \<notin> set (itoa i)"
  using nat_digits_all_digits[of "nat i"] by (auto simp: itoa_def list_all_iff is_digit_def)

text \<open>
  What the management server stores for a player token is what the message server reads: the
  login with the token is admitted to the account of the token, when that has the password of
  the accounts that the management server creates.
\<close>

theorem player_token_roundtrip:
  assumes "accountTable srv T" and "distinct (map ac_AccountId T)" and "a \<in> set T" and "ac_Status a \<noteq> 1"
    and "ac_Pwd a = md5 w DefaultAgentPassword" and "CHR ''-'' \<notin> set (md5 w DefaultAgentPassword)"
    and "0 < ac_AccountId a" and "int64 (ac_AccountId a)"
    and "\<And>h k d. rStatus srv h (RSetex RdskeyLoginAccount k d (RInt 1)) = None"
  shows "fst (run_state (thirdPlatformCheck srv c (playerTokenValue (ac_AccountId a) (md5 w DefaultAgentPassword))) s)
    = Inr (Some (ac_AccountId a, itoa (ac_AccountId a), a))"
proof -
  have "find (rowMatches (ac_AccountId a) '''' (md5 w DefaultAgentPassword)) T = Some a"
    using assms(2,3,5,7) by (induction T) (auto simp: rowMatches_def)
  moreover have "splitOn CHR ''-'' (playerTokenValue (ac_AccountId a) (md5 w DefaultAgentPassword))
      = [itoa (ac_AccountId a), md5 w DefaultAgentPassword]"
    using assms(6,7) itoa_no_hyphen[of "ac_AccountId a"] by (simp add: playerTokenValue_def splitOn_append splitOn_none)
  ultimately show ?thesis using assms(1,4,8,9)
    by (simp add: thirdPlatformCheck_def queryAccountById_def queryAccount_def dbGetAccount_def
        accountTable_def checkAccount_def ParseInt_itoa Let_def run_simps)
qed

theorem player_token_roundtrip_witness:
  "fst (run_state (thirdPlatformCheck (demoLoginSvc ''pw'') 0 (playerTokenValue 1 (md5 (demoWeb\<lparr>md5 := \<lambda>_. ''pw''\<rparr>) DefaultAgentPassword)))
      demoServer) = Inr (Some (1, ''1'', demoAccount 1))"
proof -
  have "itoa 1 = ''1''" by code_simp
  moreover have "rStatus (demoLoginSvc w) h r = None" for w h r by (simp add: demoLoginSvc_def)
  moreover have "ac_AccountId (demoAccount 1) = 1" "ac_Status (demoAccount 1) = 0" "ac_Pwd (demoAccount 1) = ''pw''"
    by (simp_all add: demoAccount_def)
  ultimately show ?thesis
    using player_token_roundtrip[OF demoLoginSvc_table, of "demoAccount 1" "demoWeb\<lparr>md5 := \<lambda>_. ''pw''\<rparr>" "''pw''" 0 demoServer]
    by (simp add: int64_def)
qed
end
