(* ===== verification/Calendar.thy ===== *)
theory Calendar
  imports IM_Prelude
begin

text \<open>
  What the timers use of Go's package time: the calendar. A time is the number of seconds since
  the start of the year 1 on the clock of its location, whose offset from UTC is fixed and a
  whole number of hours, so that truncating to an hour is the same there and in UTC.
\<close>

section \<open>The calendar\<close>

definition leap :: "int \<Rightarrow> bool" where
  "leap y \<longleftrightarrow> y mod 4 = 0 \<and> (y mod 100 \<noteq> 0 \<or> y mod 400 = 0)"

text \<open>Days from the start of the year 1 to the start of year \<open>y\<close>.\<close>

definition yearStart :: "int \<Rightarrow> int" where
  "yearStart y = 365 * (y - 1) + (y - 1) div 4 - (y - 1) div 100 + (y - 1) div 400"

text \<open>The year of a day: 400 years at a time, then at most three centuries, 4 years, 3 years.\<close>

definition yearOf :: "int \<Rightarrow> int" where
  "yearOf d =
     (let n400 = d div 146097; d1 = d mod 146097;
          n100 = min 3 (d1 div 36524); d2 = d1 - 36524 * n100;
          n4 = d2 div 1461; d3 = d2 mod 1461;
          n1 = min 3 (d3 div 365)
      in 400 * n400 + 100 * n100 + 4 * n4 + n1 + 1)"

text \<open>Days from the start of the year to that of month \<open>m\<close>, 1 to 12; 13 is the next year.\<close>

definition monthDays :: "bool \<Rightarrow> int \<Rightarrow> int" where
  "monthDays l m = [0, 31, 59, 90, 120, 151, 181, 212, 243, 273, 304, 334, 365] ! nat (m - 1)
     + (if l \<and> 3 \<le> m then 1 else 0)"

text \<open>The month that contains day \<open>n\<close> of a year, counted from 0.\<close>

definition monthOf :: "bool \<Rightarrow> int \<Rightarrow> int" where
  "monthOf l n = int (length (takeWhile (\<lambda>m. monthDays l m \<le> n) [1..12]))"

definition dayNumber :: "int \<Rightarrow> int" where
  "dayNumber t = t div 86400"

definition Year :: "int \<Rightarrow> int" where
  "Year t = yearOf (dayNumber t)"

definition YearDay :: "int \<Rightarrow> int" where
  "YearDay t = dayNumber t - yearStart (Year t)"

definition Month :: "int \<Rightarrow> int" where
  "Month t = monthOf (leap (Year t)) (YearDay t)"

definition Day :: "int \<Rightarrow> int" where
  "Day t = YearDay t - monthDays (leap (Year t)) (Month t) + 1"

definition Hour :: "int \<Rightarrow> int" where
  "Hour t = t mod 86400 div 3600"

definition Minute :: "int \<Rightarrow> int" where
  "Minute t = t mod 3600 div 60"

definition Second :: "int \<Rightarrow> int" where
  "Second t = t mod 60"

text \<open>Sunday is 0; the first day of the year 1 was a Monday.\<close>

definition Weekday :: "int \<Rightarrow> int" where
  "Weekday t = (dayNumber t + 1) mod 7"

text \<open>\<open>time.Date\<close> brings the month into the year; days and hours may be out of range.\<close>

definition Date :: "int \<Rightarrow> int \<Rightarrow> int \<Rightarrow> int \<Rightarrow> int \<Rightarrow> int \<Rightarrow> int" where
  "Date y m d h mi s =
     (let y' = y + (m - 1) div 12; m' = (m - 1) mod 12 + 1 in
      (yearStart y' + monthDays (leap y') m' + d - 1) * 86400 + h * 3600 + mi * 60 + s)"

definition AddDate :: "int \<Rightarrow> int \<Rightarrow> int \<Rightarrow> int \<Rightarrow> int" where
  "AddDate t years months days =
     Date (Year t + years) (Month t + months) (Day t + days) (Hour t) (Minute t) (Second t)"

section \<open>Units of time\<close>

text \<open>
  A grid: \<open>idx t\<close> is the number of the unit that contains \<open>t\<close>, \<open>start k\<close> where unit \<open>k\<close> begins.
\<close>

definition grid :: "(int \<Rightarrow> int) \<Rightarrow> (int \<Rightarrow> int) \<Rightarrow> bool" where
  "grid idx start \<longleftrightarrow> (\<forall>k. start k < start (k + 1)) \<and> (\<forall>t k. idx t = k \<longleftrightarrow> start k \<le> t \<and> t < start (k + 1))"

lemma grid_bounds:
  "grid idx start \<Longrightarrow> start (idx t) \<le> t" "grid idx start \<Longrightarrow> t < start (idx t + 1)"
  by (auto simp: grid_def)

lemma grid_idx: "grid idx start \<Longrightarrow> start k \<le> t \<Longrightarrow> t < start (k + 1) \<Longrightarrow> idx t = k"
  by (auto simp: grid_def)

lemma grid_start: "grid idx start \<Longrightarrow> idx (start k) = k"
  by (simp add: grid_def)

lemma grid_less: "grid idx start \<Longrightarrow> j < k \<Longrightarrow> start j < start k"
proof -
  assume g: "grid idx start" and "j < k"
  have "start j < start (j + int (Suc n))" for n
  proof (induction n)
    case (Suc n)
    have "start (j + int (Suc n)) < start (j + int (Suc n) + 1)" using g unfolding grid_def by blast
    then show ?case using Suc by (simp add: algebra_simps)
  qed (use g in \<open>simp add: grid_def\<close>)
  from this[of "nat (k - j) - 1"] show ?thesis using \<open>j < k\<close> by simp
qed

lemma grid_less_iff: "grid idx start \<Longrightarrow> start j < start k \<longleftrightarrow> j < k"
  using grid_less[of idx start j k] grid_less[of idx start k j] by (cases j k rule: linorder_cases) auto

lemma grid_mono: "grid idx start \<Longrightarrow> t \<le> t' \<Longrightarrow> idx t \<le> idx t'"
  using grid_bounds[of idx start t] grid_bounds[of idx start t'] grid_less_iff[of idx start "idx t" "idx t' + 1"]
  by (smt (verit))

lemma gridI:
  assumes "\<And>t. start (idx t) \<le> t \<and> t < start (idx t + 1)" and "\<And>k. start k < start (k + 1)"
  shows "grid idx start"
proof -
  have "start j < start (j + int (Suc n))" for j n
  proof (induction n)
    case (Suc n)
    then show ?case using assms(2)[of "j + int (Suc n)"] by (simp add: algebra_simps)
  qed (use assms(2)[of j] in simp)
  note suc = this
  have less: "start j < start k" if "j < k" for j k
    using suc[of j "nat (k - j) - 1"] that by simp
  have "idx t = k" if "start k \<le> t" "t < start (k + 1)" for t k
  proof (rule ccontr)
    assume "idx t \<noteq> k"
    then consider "idx t + 1 \<le> k" | "k + 1 \<le> idx t" by linarith
    then show False
    proof cases
      case 1
      then have "start (idx t + 1) \<le> start k" using less[of "idx t + 1" k] by (cases "idx t + 1 = k") auto
      then show ?thesis using assms(1)[of t] that by linarith
    next
      case 2
      then have "start (k + 1) \<le> start (idx t)" using less[of "k + 1" "idx t"] by (cases "k + 1 = idx t") auto
      then show ?thesis using assms(1)[of t] that by linarith
    qed
  qed
  then show ?thesis using assms unfolding grid_def by blast
qed

section \<open>Years\<close>

lemma yearStart_succ: "yearStart (y + 1) = yearStart y + 365 + (if leap y then 1 else 0)"
proof -
  have d: "y div n = (y - 1) div n + (if y mod n = 0 then 1 else 0)" if "0 < n" for n :: int
  proof (cases "y mod n = 0")
    case True
    then have "y - 1 = n * (y div n - 1) + (n - 1)" using mult_div_mod_eq[of n y] by (simp add: algebra_simps)
    then have "(y - 1) div n = y div n - 1" by (rule int_div_pos_eq) (use that in auto)
    then show ?thesis using True by simp
  next
    case False
    then have "0 \<le> y mod n - 1" using pos_mod_sign[OF that, of y] by linarith
    moreover have "y - 1 = n * (y div n) + (y mod n - 1)" using mult_div_mod_eq[of n y] by simp
    ultimately have "(y - 1) div n = y div n" using pos_mod_bound[OF that, of y]
        int_div_pos_eq[of "y - 1" n "y div n" "y mod n - 1"] by linarith
    then show ?thesis using False by simp
  qed
  have "y mod 400 = 0 \<Longrightarrow> y mod 100 = 0" "y mod 100 = 0 \<Longrightarrow> y mod 4 = 0" by presburger+
  then have i: "(if leap y then 1 else 0 :: int) = (if y mod 4 = 0 then 1 else 0)
      - (if y mod 100 = 0 then 1 else 0) + (if y mod 400 = 0 then 1 else 0)"
    unfolding leap_def by presburger
  have Y: "yearStart (y + 1) = 365 * y + y div 4 - y div 100 + y div 400" by (simp add: yearStart_def)
  have "Y = Z + 365 + i"
    if "i = i4 - i100 + i400" "Y = 365 * y + q4 - q100 + q400" "Z = 365 * (y - 1) + p4 - p100 + p400"
      "q4 = p4 + i4" "q100 = p100 + i100" "q400 = p400 + i400"
    for Y Z i i4 i100 i400 q4 q100 q400 p4 p100 p400 :: int using that by simp
  from this[OF i Y yearStart_def d d d] show ?thesis by simp
qed

lemma succ_mod_0: "(n * k + x + 1) mod n = 0 \<longleftrightarrow> x + 1 = n" if "0 \<le> x" "x < n" for x n k :: int
proof (cases "x + 1 = n")
  case False
  have "(n * k + (x + 1)) mod n = (x + 1) mod n" by simp
  also have "\<dots> = x + 1" using False that by (intro mod_pos_pos_trivial) auto
  finally show ?thesis using False that by (simp add: add.assoc)
next
  case True
  then have "n * k + x + 1 = n * (k + 1)" by (simp add: algebra_simps)
  then show ?thesis using True by simp
qed

lemma yearOf_bounds: "yearStart (yearOf d) \<le> d \<and> d < yearStart (yearOf d + 1)"
proof -
  define a b c e where "a = d div 146097" and "b = min 3 (d mod 146097 div 36524)"
    and "c = (d mod 146097 - 36524 * b) div 1461" and "e = min 3 ((d mod 146097 - 36524 * b) mod 1461 div 365)"
  define y where "y = 400 * a + 100 * b + 4 * c + e"
  have y: "yearOf d = y + 1"
    by (simp add: yearOf_def Let_def a_def b_def c_def e_def y_def)
  have b: "0 \<le> b" "b \<le> 3" by (auto simp: b_def)
  define r where "r = d mod 146097 - 36524 * b"
  have r: "0 \<le> r" "r < (if b = 3 then 36525 else 36524)" 
  proof -
    let ?m = "d mod 146097"
    have m: "?m = 36524 * (?m div 36524) + ?m mod 36524" "0 \<le> ?m mod 36524" "?m mod 36524 < 36524" "?m < 146097"
      by simp_all
    have "?m div 36524 \<le> 4" using m by linarith
    then consider "?m div 36524 \<le> 3" | "?m div 36524 = 4" by linarith
    then have "0 \<le> r \<and> r < (if b = 3 then 36525 else 36524)"
    proof cases
      case 1
      then have "b = ?m div 36524" by (simp add: b_def)
      then have "r = ?m mod 36524" using m(1) unfolding r_def by linarith
      then show ?thesis using m(2,3) by auto
    next
      case 2
      then have "b = 3" by (simp add: b_def)
      then show ?thesis using m 2 unfolding r_def by simp
    qed
    then show "0 \<le> r" "r < (if b = 3 then 36525 else 36524)" by simp_all
  qed
  have c: "0 \<le> c" "c \<le> 24" using r unfolding c_def r_def[symmetric] by (auto split: if_splits)
  have e: "0 \<le> e" "e \<le> 3" by (auto simp: e_def)
  have y4: "y div 4 = 100 * a + 25 * b + c" "y div 100 = 4 * a + b" "y div 400 = a"
    using b c e int_div_pos_eq[of y 4 "100 * a + 25 * b + c" e] int_div_pos_eq[of y 100 "4 * a + b" "4 * c + e"]
      int_div_pos_eq[of y 400 a "100 * b + 4 * c + e"] by (simp_all add: y_def)
  have s: "yearStart (y + 1) = 146097 * a + 36524 * b + 1461 * c + 365 * e"
  proof -
    have "yearStart (y + 1) = 365 * y + y div 4 - y div 100 + y div 400" by (simp add: yearStart_def)
    then show ?thesis unfolding y4 by (simp add: y_def)
  qed
  have d: "d = 146097 * a + 36524 * b + r" by (simp add: a_def r_def)
  define q where "q = r mod 1461"
  have rq: "r = 1461 * c + q" by (simp add: q_def c_def r_def)
  have q: "0 \<le> q" "q < 1461" "365 * e \<le> q" "e < 3 \<Longrightarrow> q < 365 * (e + 1)"
  proof -
    have m: "q = 365 * (q div 365) + q mod 365" "0 \<le> q mod 365" "q mod 365 < 365" by simp_all
    have e': "e = min 3 (q div 365)" by (simp add: e_def q_def r_def)
    show "0 \<le> q" "q < 1461" by (simp_all add: q_def)
    show "365 * e \<le> q" using m unfolding e' by linarith
    show "q < 365 * (e + 1)" if "e < 3"
    proof -
      have "e = q div 365" using that e' by simp
      then show ?thesis by presburger
    qed
  qed
  have l: "leap (y + 1) \<longleftrightarrow> e = 3 \<and> (c = 24 \<longrightarrow> b = 3)"
  proof -
    have "(y + 1) mod 4 = 0 \<longleftrightarrow> e = 3"
      using e succ_mod_0[of e 4 "100 * a + 25 * b + c"] by (auto simp: y_def)
    moreover have "(y + 1) mod 100 = 0 \<longleftrightarrow> e = 3 \<and> c = 24"
      using e c succ_mod_0[of "4 * c + e" 100 "4 * a + b"] by (auto simp: y_def add.assoc)
    moreover have "(y + 1) mod 400 = 0 \<longleftrightarrow> e = 3 \<and> c = 24 \<and> b = 3"
      using e c b succ_mod_0[of "100 * b + 4 * c + e" 400 a] by (auto simp: y_def add.assoc)
    ultimately show ?thesis by (auto simp: leap_def)
  qed
  have "q < 365 * (e + 1) + (if leap (y + 1) then 1 else 0)"
  proof (cases "e = 3")
    case True
    then show ?thesis using q r b c rq l by (auto split: if_splits)
  qed (use q e in auto)
  then show ?thesis unfolding y using s d rq q yearStart_succ[of "y + 1"] by simp
qed

lemma year_grid: "grid yearOf yearStart"
  by (rule gridI, rule yearOf_bounds) (simp add: yearStart_succ)


section \<open>Months\<close>

text \<open>Months are counted through: month 0 is January of the year 0.\<close>

definition monthIdx :: "int \<Rightarrow> int" where
  "monthIdx d = 12 * yearOf d + monthOf (leap (yearOf d)) (d - yearStart (yearOf d)) - 1"

definition monthFirst :: "int \<Rightarrow> int" where
  "monthFirst k = yearStart (k div 12) + monthDays (leap (k div 12)) (k mod 12 + 1)"

lemma months_12: "m \<in> {1..12} \<longleftrightarrow> m = 1 \<or> m = 2 \<or> m = 3 \<or> m = 4 \<or> m = 5 \<or> m = 6 \<or> m = 7 \<or> m = 8
    \<or> m = 9 \<or> m = 10 \<or> m = 11 \<or> m = (12 :: int)"
  unfolding atLeastAtMost_iff by presburger

lemma monthDays_values:
  "monthDays l 1 = 0" "monthDays l 13 = 365 + (if l then 1 else 0)"
  "m \<in> {1..12} \<Longrightarrow> monthDays l m < monthDays l (m + 1)"
proof -
  show "monthDays l m < monthDays l (m + 1)" if "m \<in> {1..12}"
    using that unfolding months_12 by (elim disjE) (simp_all add: monthDays_def)
qed (simp_all add: monthDays_def)

lemma monthOf_bounds:
  assumes "0 \<le> n" "n < 365 + (if l then 1 else 0)"
  shows "monthOf l n \<in> {1..12} \<and> monthDays l (monthOf l n) \<le> n \<and> n < monthDays l (monthOf l n + 1)"
proof -
  have list: "[1..12] = [1, 2, 3, 4, 5, 6, 7, 8, 9, 10, 11, 12 :: int]" by code_simp
  show ?thesis using assms unfolding monthOf_def list by (cases l) (simp_all add: monthDays_def)
qed


lemma month_in_year:
  "m \<in> {1..12} \<Longrightarrow> (12 * y + m - 1) div 12 = y" "m \<in> {1..12} \<Longrightarrow> (12 * y + m - 1) mod 12 = m - 1" for m y :: int
proof -
  assume m: "m \<in> {1..12}"
  have "12 * y + m - 1 = 12 * y + (m - 1)" by simp
  then show "(12 * y + m - 1) div 12 = y" "(12 * y + m - 1) mod 12 = m - 1"
    using m int_div_pos_eq[of "12 * y + m - 1" 12 y "m - 1"] int_mod_pos_eq[of "12 * y + m - 1" 12 y "m - 1"] by auto
qed

lemma monthFirst_month:
  assumes "m \<in> {1..12}"
  shows "monthFirst (12 * y + m - 1) = yearStart y + monthDays (leap y) m"
  unfolding monthFirst_def month_in_year[OF assms] by simp

lemma monthFirst_succ:
  assumes "m \<in> {1..12}"
  shows "monthFirst (12 * y + m) = yearStart y + monthDays (leap y) (m + 1)"
proof (cases "m = 12")
  case True
  have "monthFirst (12 * y + 12) = yearStart (y + 1)"
    using monthFirst_month[of 1 "y + 1"] by (simp add: monthDays_values algebra_simps)
  then show ?thesis using True by (simp add: monthDays_values yearStart_succ)
qed (use monthFirst_month[of "m + 1" y] assms in simp)

lemma month_grid: "grid monthIdx monthFirst"
proof (rule gridI)
  fix d
  let ?y = "yearOf d"
  have y: "yearStart ?y \<le> d" "d < yearStart ?y + 365 + (if leap ?y then 1 else 0)"
    using yearOf_bounds[of d] yearStart_succ[of ?y] by auto
  let ?m = "monthOf (leap ?y) (d - yearStart ?y)"
  have "?m \<in> {1..12}" "monthDays (leap ?y) ?m \<le> d - yearStart ?y" "d - yearStart ?y < monthDays (leap ?y) (?m + 1)"
    using monthOf_bounds[of "d - yearStart ?y" "leap ?y"] y by (auto simp: algebra_simps)
  then show "monthFirst (monthIdx d) \<le> d \<and> d < monthFirst (monthIdx d + 1)"
    using monthFirst_month[of ?m ?y] monthFirst_succ[of ?m ?y] by (simp add: monthIdx_def)
next
  fix k :: int
  have k: "k = 12 * (k div 12) + (k mod 12 + 1) - 1" "k mod 12 + 1 \<in> {1..12}" by auto
  show "monthFirst k < monthFirst (k + 1)"
    using monthFirst_month[OF k(2), of "k div 12"] monthFirst_succ[OF k(2), of "k div 12"]
      monthDays_values(3)[OF k(2)] k(1) by (smt (verit))
qed

lemma grid_scale:
  assumes "grid i s" "0 < c"
  shows "grid (\<lambda>t. i (t div c)) (\<lambda>k. c * s k)"
proof -
  have le: "c * a \<le> t \<longleftrightarrow> a \<le> t div c" for a t
  proof
    assume "c * a \<le> t"
    then have "c * a div c \<le> t div c" using assms(2) by (intro zdiv_mono1)
    then show "a \<le> t div c" using assms(2) by simp
  next
    assume "a \<le> t div c"
    then have "c * a \<le> c * (t div c)" using assms(2) by (intro mult_left_mono) auto
    then show "c * a \<le> t" using mult_div_mod_eq[of c t] pos_mod_sign[OF assms(2), of t] by linarith
  qed
  then have "t < c * a \<longleftrightarrow> t div c < a" for a t by (simp add: not_le[symmetric])
  then show ?thesis using assms le by (simp add: grid_def)
qed

end
