(* ===== verification/Cron_Search.thy ===== *)
theory Cron_Search
  imports Calendar
begin

text \<open>
  The search that the cron expressions share (Next in common-library/timer/cronexpr.go and
  custom_cronexpr.go): one loop per field, from months to seconds, each stepping through the
  units of its field until the field matches; when a loop reaches the first unit of the field
  above, the search starts over from there.
\<close>

section \<open>The loops\<close>

text \<open>
  One loop: whether the field matches, the start of the unit that a time is in, one unit later,
  and whether the unit is the first within the unit of the field above.
\<close>

record level =
  lv_match :: "int \<Rightarrow> bool"
  lv_floor :: "int \<Rightarrow> int"
  lv_next :: "int \<Rightarrow> int"
  lv_first :: "int \<Rightarrow> bool"

text \<open>
  The result is the time, \<open>initFlag\<close>, and whether the loop left by \<open>goto retry\<close>; None is a loop
  that does not end.
\<close>

partial_function (option) fieldLoop :: "level \<Rightarrow> int \<Rightarrow> bool \<Rightarrow> (int \<times> bool \<times> bool) option" where
  "fieldLoop l t initFlag =
     (if lv_match l t then Some (t, initFlag, False)
      else let t' = lv_next l (if initFlag then t else lv_floor l t) in
        if lv_first l t' then Some (t', True, True) else fieldLoop l t' True)"

fun fieldLoops :: "level list \<Rightarrow> int \<Rightarrow> bool \<Rightarrow> (int \<times> bool \<times> bool) option" where
  "fieldLoops [] t initFlag = Some (t, initFlag, False)"
| "fieldLoops (l # ls) t initFlag =
     (case fieldLoop l t initFlag of
        None \<Rightarrow> None
      | Some (t', initFlag', again) \<Rightarrow>
          if again then Some (t', initFlag', True) else fieldLoops ls t' initFlag')"

text \<open>The search: Some None is the zero time, which means that there is no time.\<close>

partial_function (option) searchFrom :: "(int \<Rightarrow> bool) \<Rightarrow> level list \<Rightarrow> int \<Rightarrow> bool \<Rightarrow> int option option" where
  "searchFrom stop ls t initFlag =
     (if stop t then Some None
      else case fieldLoops ls t initFlag of
        None \<Rightarrow> None
      | Some (t', initFlag', again) \<Rightarrow>
          if again then searchFrom stop ls t' initFlag' else Some (Some t'))"

section \<open>One loop\<close>

text \<open>
  A loop over the units \<open>u\<close>, \<open>s\<close> within the units \<open>U\<close>, \<open>S\<close> of the field above: its functions do what
  they are for.
\<close>

definition level_ok :: "(int \<Rightarrow> int) \<Rightarrow> (int \<Rightarrow> int) \<Rightarrow> (int \<Rightarrow> int) \<Rightarrow> level \<Rightarrow> bool" where
  "level_ok S u s l \<longleftrightarrow> grid u s \<and> (\<forall>k. \<exists>j. S k = s j)
     \<and> (\<forall>t t'. u t = u t' \<longrightarrow> lv_match l t = lv_match l t') \<and> (\<forall>t. lv_floor l t = s (u t))
     \<and> (\<forall>k. lv_next l (s k) = s (k + 1)) \<and> (\<forall>k. lv_first l (s k) \<longleftrightarrow> (\<exists>j. s k = S j))"

lemma level_okD:
  assumes "level_ok S u s l"
  shows "grid u s" "\<exists>j. S k = s j" "u t = u t' \<Longrightarrow> lv_match l t = lv_match l t'" "lv_floor l t = s (u t)"
    "lv_next l (s k) = s (k + 1)" "lv_first l (s k) \<longleftrightarrow> (\<exists>j. s k = S j)"
  using assms unfolding level_ok_def by blast+

definition at_start :: "(int \<Rightarrow> int) \<Rightarrow> (int \<Rightarrow> int) \<Rightarrow> int \<Rightarrow> bool" where
  "at_start u s t \<longleftrightarrow> t = s (u t)"

text \<open>What a loop or several find: no time up to \<open>t'\<close> matches.\<close>

definition none_match :: "(int \<Rightarrow> bool) \<Rightarrow> int \<Rightarrow> int \<Rightarrow> bool" where
  "none_match P t t' \<longleftrightarrow> t \<le> t' \<and> (\<forall>x. t \<le> x \<and> x < t' \<longrightarrow> \<not> P x)"

lemma none_match_refl [simp]: "none_match P t t"
  by (auto simp: none_match_def)

lemma none_match_trans: "none_match P t t' \<Longrightarrow> none_match P t' t'' \<Longrightarrow> none_match P t t''"
  unfolding none_match_def by (meson linorder_le_less_linear order_trans)

lemma none_match_mono: "none_match Q t t' \<Longrightarrow> (\<And>x. P x \<Longrightarrow> Q x) \<Longrightarrow> none_match P t t'"
  by (auto simp: none_match_def)

lemma fieldLoop_spec:
  assumes "grid U S" and ok: "level_ok S u s l" and "initFlag \<Longrightarrow> lv_match l t \<or> at_start u s t"
  shows "\<exists>t' i' again. fieldLoop l t initFlag = Some (t', i', again) \<and> none_match (lv_match l) t t'
    \<and> (if again then t < t' \<and> i' \<and> t' = S (U t + 1)
       else lv_match l t' \<and> U t' = U t \<and> (t' = t \<and> i' = initFlag \<or> i' \<and> at_start u s t'))"
proof -
  note g = level_okD(1)[OF ok] and unit = level_okD(3)[OF ok] and floor = level_okD(4)[OF ok]
    and nxt = level_okD(5)[OF ok] and first = level_okD(6)[OF ok]
  obtain c where c: "S (U t + 1) = s c" using level_okD(2)[OF ok] by blast
  have "u t < c"
    using grid_bounds[OF g, of t] grid_bounds[OF assms(1), of t] c grid_less_iff[OF g, of "u t" c] by linarith
  then show ?thesis using assms(3) c
  proof (induction "nat (c - u t)" arbitrary: t initFlag rule: less_induct)
    case less
    show ?case
    proof (cases "lv_match l t")
      case True
      then show ?thesis by (subst fieldLoop.simps) (auto intro: exI[of _ False])
    next
      case False
      let ?t = "s (u t + 1)"
      have nx: "lv_next l (if initFlag then t else lv_floor l t) = ?t"
      proof -
        have "(if initFlag then t else lv_floor l t) = s (u t)"
          using less.prems(2) False floor by (auto simp: at_start_def)
        then show ?thesis using nxt by simp
      qed
      have up: "t < ?t" using grid_bounds[OF g] by blast
      have same: "u x = u t" if "t \<le> x" "x < ?t" for x
        using that grid_bounds[OF g, of t] g unfolding grid_def by force
      have none: "none_match (lv_match l) t ?t"
        unfolding none_match_def
      proof (intro conjI allI impI)
        show "t \<le> ?t" using up by simp
        fix x assume "t \<le> x \<and> x < ?t"
        then have "u x = u t" using same by blast
        then show "\<not> lv_match l x" using unit[of x t] False by blast
      qed
      have le: "?t \<le> S (U t + 1)"
        using less.prems(1,3) grid_less_iff[OF g, of c "u t + 1"] by linarith
      have S: "S (U t) \<le> t" using grid_bounds[OF assms(1)] by blast
      show ?thesis
      proof (cases "lv_first l ?t")
        case True
        then obtain j where j: "?t = S j" using first by blast
        then have "S (U t) < S j" "S j \<le> S (U t + 1)" using S up le by auto
        then have "j = U t + 1"
          using grid_less_iff[OF assms(1), of "U t" j] grid_less_iff[OF assms(1), of "U t + 1" j] by linarith
        then show ?thesis using True False nx none up j
          by (subst fieldLoop.simps) (auto simp: Let_def intro!: exI[of _ True])
      next
        case rest: False
        have ut: "u ?t = u t + 1" by (rule grid_start[OF g])
        have "?t \<noteq> S (U t + 1)" using rest first by blast
        then have less': "?t < S (U t + 1)" using le by simp
        then have U: "U ?t = U t" using S up assms(1) unfolding grid_def by force
        have "u t + 1 < c" using less' less.prems(3) grid_less_iff[OF g] by simp
        have m: "nat (c - u ?t) < nat (c - u t)" "u ?t < c" using \<open>u t + 1 < c\<close> ut by simp_all
        have "lv_match l ?t \<or> at_start u s ?t" by (simp add: at_start_def ut)
        then obtain t' i' again where rec: "fieldLoop l ?t True = Some (t', i', again)"
            "none_match (lv_match l) ?t t'"
            "if again then ?t < t' \<and> i' \<and> t' = S (U t + 1)
             else lv_match l t' \<and> U t' = U t \<and> (t' = ?t \<and> i' = True \<or> i' \<and> at_start u s t')"
          using less.hyps[of ?t True, OF m, unfolded U] less.prems(3) by blast
        have "fieldLoop l t initFlag = Some (t', i', again)"
          using False rest nx rec(1) by (subst fieldLoop.simps) (simp add: Let_def)
        then show ?thesis using rec up none none_match_trans[OF none rec(2)] ut
          by (auto simp: at_start_def split: if_splits)
      qed
    qed
  qed
qed

section \<open>All loops\<close>

text \<open>Each loop within the one before; \<open>aligned\<close> is what holds of a time once \<open>initFlag\<close> is set.\<close>

fun nested :: "(int \<Rightarrow> int) \<Rightarrow> ((int \<Rightarrow> int) \<times> (int \<Rightarrow> int) \<times> level) list \<Rightarrow> bool" where
  "nested S [] = True"
| "nested S ((u, s, l) # r) = (level_ok S u s l \<and> nested s r)"

definition aligned :: "((int \<Rightarrow> int) \<times> (int \<Rightarrow> int) \<times> level) list \<Rightarrow> int \<Rightarrow> bool" where
  "aligned us t \<longleftrightarrow> list_all (\<lambda>(u, s, l). lv_match l t \<or> at_start u s t) us"

definition all_match :: "((int \<Rightarrow> int) \<times> (int \<Rightarrow> int) \<times> level) list \<Rightarrow> int \<Rightarrow> bool" where
  "all_match us t \<longleftrightarrow> list_all (\<lambda>(u, s, l). lv_match l t) us"

definition loops_of :: "((int \<Rightarrow> int) \<times> (int \<Rightarrow> int) \<times> level) list \<Rightarrow> level list" where
  "loops_of us = map (\<lambda>(u, s, l). l) us"

lemma level_list_simps [simp]:
  "aligned [] t" "aligned ((u, s, l) # us) t \<longleftrightarrow> (lv_match l t \<or> at_start u s t) \<and> aligned us t"
  "all_match [] t" "all_match ((u, s, l) # us) t \<longleftrightarrow> lv_match l t \<and> all_match us t"
  "loops_of [] = []" "loops_of ((u, s, l) # us) = l # loops_of us"
  by (simp_all add: aligned_def all_match_def loops_of_def)

text \<open>A start of a unit is the start of a unit in every finer field.\<close>

lemma nested_starts: "nested S us \<Longrightarrow> list_all (\<lambda>(u, s, l). at_start u s (S k)) us"
proof (induction us arbitrary: S k)
  case (Cons x us)
  obtain u s l where x: "x = (u, s, l)" by (cases x)
  have ok: "level_ok S u s l" using Cons.prems unfolding x by simp
  obtain j where j: "S k = s j" using level_okD(2)[OF ok] by blast
  have "at_start u s (S k)" using grid_start[OF level_okD(1)[OF ok], of j] j by (simp add: at_start_def)
  then show ?case using Cons.IH[of s j] Cons.prems j unfolding x by simp
qed simp

lemma nested_aligned: "nested S us \<Longrightarrow> aligned us (S k)"
  using nested_starts[of S us k] unfolding aligned_def by (auto simp: list_all_iff)

text \<open>Within one unit of a field, or at the start of the next.\<close>

definition same_or_next :: "(int \<Rightarrow> int) \<Rightarrow> (int \<Rightarrow> int) \<Rightarrow> int \<Rightarrow> int \<Rightarrow> bool" where
  "same_or_next u s t t' \<longleftrightarrow> u t' = u t \<or> t' = s (u t + 1)"

lemma same_or_next_up:
  assumes "grid U S" "level_ok S u s l" "same_or_next u s t t'" "t \<le> t'"
  shows "same_or_next U S t t'"
proof -
  note g = level_okD(1)[OF assms(2)]
  obtain c where c: "S (U t + 1) = s c" using level_okD(2)[OF assms(2)] by blast
  have "u t < c"
    using grid_bounds[OF g, of t] grid_bounds[OF assms(1), of t] c grid_less_iff[OF g, of "u t" c] by linarith
  have "t' \<le> S (U t + 1)"
  proof (cases "u t' = u t")
    case True
    then show ?thesis using grid_bounds[OF g, of t'] \<open>u t < c\<close> c grid_less_iff[OF g, of c "u t' + 1"] by linarith
  next
    case False
    then show ?thesis
      using assms(3) \<open>u t < c\<close> c grid_less_iff[OF g, of c "u t + 1"] unfolding same_or_next_def by linarith
  qed
  moreover have "S (U t) \<le> t'" using grid_bounds[OF assms(1), of t] assms(4) by linarith
  ultimately show ?thesis using grid_idx[OF assms(1), of "U t" t'] unfolding same_or_next_def by linarith
qed

lemma fieldLoops_spec:
  assumes "grid U S" "nested S us" "initFlag \<Longrightarrow> aligned us t"
  shows "\<exists>t' i' again. fieldLoops (loops_of us) t initFlag = Some (t', i', again) \<and> none_match (all_match us) t t'
    \<and> (if again then t < t' \<and> i' \<and> aligned us t' \<and> same_or_next U S t t'
       else all_match us t' \<and> U t' = U t)"
  using assms
proof (induction us arbitrary: U S t initFlag)
  case (Cons x us)
  obtain u s l where x: "x = (u, s, l)" by (cases x)
  have ok: "level_ok S u s l" and n: "nested s us" using Cons.prems(2) unfolding x by simp_all
  note g = level_okD(1)[OF ok]
  have start: "lv_match l t \<or> at_start u s t" if initFlag using Cons.prems(3) that unfolding x by simp
  obtain t1 i1 a1 where one: "fieldLoop l t initFlag = Some (t1, i1, a1)" "none_match (lv_match l) t t1"
      "if a1 then t < t1 \<and> i1 \<and> t1 = S (U t + 1)
       else lv_match l t1 \<and> U t1 = U t \<and> (t1 = t \<and> i1 = initFlag \<or> i1 \<and> at_start u s t1)"
    using fieldLoop_spec[OF Cons.prems(1) ok start] by blast
  have none1: "none_match (all_match (x # us)) t t1" using one(2) unfolding x by (rule none_match_mono) simp
  show ?case
  proof (cases a1)
    case True
    then have t1: "t < t1" i1 "t1 = S (U t + 1)" using one(3) by simp_all
    have run: "fieldLoops (loops_of (x # us)) t initFlag = Some (t1, i1, True)" using one(1) True unfolding x by simp
    have "aligned (x # us) t1" using nested_aligned[OF Cons.prems(2)] t1 by simp
    with run none1 t1 show ?thesis by (auto simp: same_or_next_def)
  next
    case False
    then have m: "lv_match l t1" "U t1 = U t" using one(3) by simp_all
    have "aligned us t1" if i1
    proof (cases "at_start u s t1")
      case True
      then show ?thesis using nested_aligned[OF n, of "u t1"] by (simp add: at_start_def)
    next
      case no: False
      then have "t1 = t" "initFlag" using one(3) that False by auto
      then show ?thesis using Cons.prems(3) unfolding x by simp
    qed
    then obtain t2 i2 a2 where two: "fieldLoops (loops_of us) t1 i1 = Some (t2, i2, a2)" "none_match (all_match us) t1 t2"
        "if a2 then t1 < t2 \<and> i2 \<and> aligned us t2 \<and> same_or_next u s t1 t2 else all_match us t2 \<and> u t2 = u t1"
      using Cons.IH[OF g n, of i1 t1] by blast
    have "none_match (all_match (x # us)) t1 t2" using two(2) by (rule none_match_mono) (simp add: x)
    note none = none_match_trans[OF none1 this]
    have run: "fieldLoops (loops_of (x # us)) t initFlag = Some (t2, i2, a2)" using one(1) two(1) False unfolding x by simp
    have le: "t \<le> t1" "t1 \<le> t2" using one(2) two(2) by (auto simp: none_match_def)
    have match: "lv_match l t2" if "u t2 = u t1"
      using level_okD(3)[OF ok that] m(1) by simp
    have U: "same_or_next U S t t2" if "same_or_next u s t1 t2"
      using same_or_next_up[OF Cons.prems(1) ok that le(2)] m(2) by (simp add: same_or_next_def)
    show ?thesis
    proof (cases a2)
      case True
      then have "lv_match l t2 \<or> at_start u s t2"
        using two(3) match grid_start[OF g] by (auto simp: same_or_next_def at_start_def)
      then have "aligned (x # us) t2" using two(3) True unfolding x by simp
      with run none two(3) True U le show ?thesis by auto
    next
      case rest: False
      then have "u t2 = u t1" using two(3) by simp
      then have "U t2 = U t1"
      proof -
        have "S (U t1) \<le> t2" using grid_bounds[OF Cons.prems(1), of t1] le by linarith
        moreover have "t2 < S (U t1 + 1)"
        proof -
          obtain c where c: "S (U t1 + 1) = s c" using level_okD(2)[OF ok] by blast
          have "u t1 < c"
            using grid_bounds[OF g, of t1] grid_bounds[OF Cons.prems(1), of t1] c grid_less_iff[OF g, of "u t1" c] by linarith
          then show ?thesis using \<open>u t2 = u t1\<close> grid_bounds[OF g, of t2] c grid_less_iff[OF g, of c "u t2 + 1"] by linarith
        qed
        ultimately show ?thesis by (rule grid_idx[OF Cons.prems(1)])
      qed
      moreover have "all_match (x # us) t2" using two(3) rest match[OF \<open>u t2 = u t1\<close>] unfolding x by simp
      ultimately show ?thesis using run none rest m(2) by auto
    qed
  qed
qed auto

section \<open>The search\<close>

text \<open>
  What a search from \<open>t\<close> returns: a time that matches, the first from \<open>t\<close> on and in a unit of the
  outermost field where the search does not stop, or nothing when no time matches before one at
  which it stops.
\<close>

definition found :: "(int \<Rightarrow> bool) \<Rightarrow> (int \<Rightarrow> bool) \<Rightarrow> int \<Rightarrow> int option \<Rightarrow> bool" where
  "found stop P t r \<longleftrightarrow> (case r of
       None \<Rightarrow> \<exists>t'. stop t' \<and> none_match P t t'
     | Some n \<Rightarrow> \<not> stop n \<and> P n \<and> none_match P t n)"

lemma found_later: "none_match P t t' \<Longrightarrow> found stop P t' r \<Longrightarrow> found stop P t r"
  by (auto simp: found_def intro: none_match_trans split: option.splits)

lemma searchFrom_found:
  assumes g: "grid U S" and n: "nested S us" and unit: "\<And>t t'. U t = U t' \<Longrightarrow> stop t = stop t'"
    and run: "searchFrom stop (loops_of us) t initFlag = Some r" and init: "initFlag \<Longrightarrow> aligned us t"
  shows "found stop (all_match us) t r"
proof -
  have "loops_of us = ls \<and> stop = st \<longrightarrow> (i \<longrightarrow> aligned us t) \<longrightarrow> found st (all_match us) t r"
    if "searchFrom st ls t i = Some r" for st ls t i r
  proof (rule searchFrom.raw_induct[where P = "\<lambda>st ls t i r. loops_of us = ls \<and> stop = st \<longrightarrow> (i \<longrightarrow> aligned us t)
      \<longrightarrow> found st (all_match us) t r", OF _ that], intro impI)
    fix f st ls t i r
    assume IH: "\<And>st ls t i r. f st ls t i = Some r \<Longrightarrow> loops_of us = ls \<and> stop = st \<longrightarrow> (i \<longrightarrow> aligned us t)
        \<longrightarrow> found st (all_match us) t r"
      and eq: "(if st t then Some None else case fieldLoops ls t i of None \<Rightarrow> None
        | Some (t', i', again) \<Rightarrow> if again then f st ls t' i' else Some (Some t')) = Some r"
      and ls: "loops_of us = ls \<and> stop = st" and i: "i \<longrightarrow> aligned us t"
    show "found st (all_match us) t r"
    proof (cases "st t")
      case True
      then show ?thesis using eq by (auto simp: found_def intro: exI[of _ t])
    next
      case False
      obtain t' i' again where one: "fieldLoops (loops_of us) t i = Some (t', i', again)" "none_match (all_match us) t t'"
          "if again then t < t' \<and> i' \<and> aligned us t' \<and> same_or_next U S t t' else all_match us t' \<and> U t' = U t"
        using fieldLoops_spec[OF g n, of i t] i by blast
      show ?thesis
      proof (cases again)
        case True
        then have "f st ls t' i' = Some r" using eq one(1) ls False by simp
        then have "found st (all_match us) t' r" using IH one(3) True ls by simp
        then show ?thesis by (rule found_later[OF one(2)])
      next
        case rest: False
        then have "r = Some t'" using eq one(1) ls False by simp
        then show ?thesis using one(2,3) rest False unit[of t' t] ls by (simp add: found_def)
      qed
    qed
  qed
  then show ?thesis using run init by blast
qed

lemma searchFrom_ends:
  assumes g: "grid U S" and n: "nested S us" and stop: "\<And>t. limit \<le> t \<Longrightarrow> stop t"
    and init: "initFlag \<Longrightarrow> aligned us t"
  shows "\<exists>r. searchFrom stop (loops_of us) t initFlag = Some r"
  using init
proof (induction "nat (limit - t)" arbitrary: t initFlag rule: less_induct)
  case less
  show ?case
  proof (cases "stop t")
    case True
    then show ?thesis by (subst searchFrom.simps) simp
  next
    case False
    obtain t' i' again where one: "fieldLoops (loops_of us) t initFlag = Some (t', i', again)"
        "if again then t < t' \<and> i' \<and> aligned us t' \<and> same_or_next U S t t' else all_match us t' \<and> U t' = U t"
      using fieldLoops_spec[OF g n less.prems] by blast
    show ?thesis
    proof (cases again)
      case True
      have "t < limit" using False stop linorder_not_le by blast
      then have "\<exists>r. searchFrom stop (loops_of us) t' i' = Some r" using one(2) True by (intro less.hyps) auto
      then show ?thesis using one(1) True by (subst searchFrom.simps) auto
    qed (use one(1) in \<open>subst searchFrom.simps, simp\<close>)
  qed
qed

section \<open>Computing a search\<close>

text \<open>A loop with a bound on its steps, to compute with.\<close>

fun fieldLoopUpTo :: "nat \<Rightarrow> level \<Rightarrow> int \<Rightarrow> bool \<Rightarrow> (int \<times> bool \<times> bool) option" where
  "fieldLoopUpTo 0 l t initFlag = None"
| "fieldLoopUpTo (Suc n) l t initFlag =
     (if lv_match l t then Some (t, initFlag, False)
      else let t' = lv_next l (if initFlag then t else lv_floor l t) in
        if lv_first l t' then Some (t', True, True) else fieldLoopUpTo n l t' True)"

lemma fieldLoopUpTo_sound: "fieldLoopUpTo n l t i = Some r \<Longrightarrow> fieldLoop l t i = Some r"
proof (induction n arbitrary: t i)
  case (Suc n)
  then show ?case by (subst fieldLoop.simps) (auto simp: Let_def split: if_splits)
qed simp

lemma searchFrom_stops: "stop t \<Longrightarrow> searchFrom stop ls t i = Some None"
  by (subst searchFrom.simps) simp

lemma searchFrom_again:
  "\<not> stop t \<Longrightarrow> fieldLoops ls t i = Some (t', i', True) \<Longrightarrow> searchFrom stop ls t i = searchFrom stop ls t' i'"
  by (subst searchFrom.simps) simp

end
