(* ===== verification/Cron.thy ===== *)
theory Cron
  imports Cron_Search "HOL-Library.Word"
begin

unbundle bit_operations_syntax

text \<open>
  common-library/timer/cronexpr.go and custom_cronexpr.go: parsing the two kinds of cron
  expressions into bit sets, and the next and previous time of an expression. Expressions are
  ASCII: only the ASCII white space separates fields.
\<close>

section \<open>Fields\<close>

text \<open>The shift of a uint64 by an int converted to uint: a negative number shifts everything out.\<close>

definition shl :: "64 word \<Rightarrow> int \<Rightarrow> 64 word" where
  "shl w i = (if 0 \<le> i \<and> i < 64 then push_bit (nat i) w else 0)"

definition hasBit :: "64 word \<Rightarrow> int \<Rightarrow> bool" where
  "hasBit w i \<longleftrightarrow> shl 1 i AND w \<noteq> 0"

datatype cronErr =
    FieldCount | TooManySlashes | TooManyHyphens | InvalidRange | OutOfRange | InvalidIncrement | InvalidYear

definition rangeBits :: "int \<Rightarrow> int \<Rightarrow> 64 word" where
  "rangeBits start stop = NOT (shl (- 1) (wrap64 (stop + 1))) AND shl (- 1) start"

text \<open>The loop over a range with an increment; \<open>i\<close> is an int, which wraps. None: it does not end.\<close>

partial_function (option) incrBits :: "int \<Rightarrow> int \<Rightarrow> int \<Rightarrow> 64 word \<Rightarrow> 64 word option" where
  "incrBits i stop incr w =
     (if i \<le> stop then incrBits (wrap64 (i + incr)) stop incr (w OR shl 1 i) else Some w)"

definition parseRange :: "string \<Rightarrow> bool \<Rightarrow> int \<Rightarrow> int \<Rightarrow> cronErr + (int \<times> int)" where
  "parseRange rng hasIncr lo hi =
     (let startAndEnd = splitOn CHR ''-'' rng; n = length startAndEnd; start = ParseInt (hd startAndEnd) in
      if 2 < n then Inl TooManyHyphens
      else if hd startAndEnd = ''*'' then (if n \<noteq> 1 then Inl InvalidRange else Inr (lo, hi))
      else if \<not> snd start then Inl InvalidRange
      else if n = 1 then Inr (fst start, if hasIncr then hi else fst start)
      else if \<not> snd (ParseInt (startAndEnd ! 1)) then Inl InvalidRange
      else Inr (fst start, fst (ParseInt (startAndEnd ! 1))))"

text \<open>The range and the increment of an item, in the order of the checks.\<close>

definition parseItem :: "string \<Rightarrow> int \<Rightarrow> int \<Rightarrow> cronErr + (int \<times> int \<times> int)" where
  "parseItem item lo hi =
     (let rangeAndIncr = splitOn CHR ''/'' item; n = length rangeAndIncr in
      if 2 < n then Inl TooManySlashes
      else case parseRange (hd rangeAndIncr) (n = 2) lo hi of
        Inl err \<Rightarrow> Inl err
      | Inr (start, stop) \<Rightarrow>
          if stop < start then Inl InvalidRange
          else if start < lo then Inl OutOfRange
          else if hi < stop then Inl OutOfRange
          else if n = 1 then Inr (start, stop, 1)
          else (case ParseInt (rangeAndIncr ! 1) of
            (incr, ok) \<Rightarrow> if \<not> ok \<or> incr \<le> 0 then Inl InvalidIncrement else Inr (start, stop, incr)))"

text \<open>The bits so far are returned with an error, too.\<close>

fun parseItems :: "string list \<Rightarrow> int \<Rightarrow> int \<Rightarrow> 64 word \<Rightarrow> (64 word \<times> cronErr option) option" where
  "parseItems [] lo hi w = Some (w, None)"
| "parseItems (item # items) lo hi w =
     (case parseItem item lo hi of
        Inl err \<Rightarrow> Some (w, Some err)
      | Inr (start, stop, incr) \<Rightarrow>
          if incr = 1 then parseItems items lo hi (w OR rangeBits start stop)
          else (case incrBits start stop incr w of
            None \<Rightarrow> None
          | Some w' \<Rightarrow> parseItems items lo hi w'))"

definition parseCronField :: "string \<Rightarrow> int \<Rightarrow> int \<Rightarrow> (64 word \<times> cronErr option) option" where
  "parseCronField field lo hi = parseItems (splitOn CHR '','' field) lo hi 0"

section \<open>Expressions\<close>

record CronExpr =
  ce_sec :: "64 word"
  ce_min :: "64 word"
  ce_hour :: "64 word"
  ce_dom :: "64 word"
  ce_month :: "64 word"
  ce_dow :: "64 word"

definition is_space :: "char \<Rightarrow> bool" where
  "is_space c \<longleftrightarrow> c \<in> {CHR '' '', CHR 0x09, CHR 0x0A, CHR 0x0B, CHR 0x0C, CHR 0x0D}"

text \<open>\<open>strings.FieldsFunc\<close>: the longest pieces without a separator, none of them empty.\<close>

fun fieldsBy :: "(char \<Rightarrow> bool) \<Rightarrow> string \<Rightarrow> string \<Rightarrow> string list" where
  "fieldsBy p [] acc = (if acc = [] then [] else [acc])"
| "fieldsBy p (c # cs) acc =
     (if p c then (if acc = [] then fieldsBy p cs [] else acc # fieldsBy p cs []) else fieldsBy p cs (acc @ [c]))"

definition Fields :: "string \<Rightarrow> string list" where
  "Fields s = fieldsBy is_space s []"

text \<open>
  The fields are parsed up to the first error. What was parsed before it stays in the expression,
  which is returned with the error; only with a wrong number of fields there is none.
\<close>

fun parseFields :: "(string \<times> int \<times> int) list \<Rightarrow> (64 word list \<times> cronErr option) option" where
  "parseFields [] = Some ([], None)"
| "parseFields ((field, lo, hi) # r) =
     (case parseCronField field lo hi of
        None \<Rightarrow> None
      | Some (w, Some err) \<Rightarrow> Some ([w], Some err)
      | Some (w, None) \<Rightarrow> map_option (\<lambda>(ws, err). (w # ws, err)) (parseFields r))"

definition wordAt :: "64 word list \<Rightarrow> nat \<Rightarrow> 64 word" where
  "wordAt ws i = (if i < length ws then ws ! i else 0)"

definition NewCronExpr :: "string \<Rightarrow> (CronExpr option \<times> cronErr option) option" where
  "NewCronExpr expr =
     (let given = Fields expr; fields = (if length given = 5 then ''0'' # given else given) in
      if length given \<noteq> 5 \<and> length given \<noteq> 6 then Some (None, Some FieldCount)
      else map_option (\<lambda>(ws, err).
          (Some \<lparr>ce_sec = wordAt ws 0, ce_min = wordAt ws 1, ce_hour = wordAt ws 2,
             ce_dom = wordAt ws 3, ce_month = wordAt ws 4, ce_dow = wordAt ws 5\<rparr>, err))
        (parseFields (zip fields [(0, 59), (0, 59), (0, 23), (1, 31), (1, 12), (0, 6)])))"

section \<open>Times that match\<close>

definition matchDay :: "'a CronExpr_scheme \<Rightarrow> int \<Rightarrow> bool" where
  "matchDay e t =
     (if ce_dom e = 0xfffffffe then hasBit (ce_dow e) (Weekday t)
      else if ce_dow e = 0x7f then hasBit (ce_dom e) (Day t)
      else hasBit (ce_dow e) (Weekday t) \<or> hasBit (ce_dom e) (Day t))"

definition monthLoop :: "'a CronExpr_scheme \<Rightarrow> level" where
  "monthLoop e = \<lparr>lv_match = \<lambda>t. hasBit (ce_month e) (Month t), lv_floor = \<lambda>t. Date (Year t) (Month t) 1 0 0 0,
     lv_next = \<lambda>t. AddDate t 0 1 0, lv_first = \<lambda>t. Month t = 1\<rparr>"

definition dayLoop :: "'a CronExpr_scheme \<Rightarrow> level" where
  "dayLoop e = \<lparr>lv_match = matchDay e, lv_floor = \<lambda>t. Date (Year t) (Month t) (Day t) 0 0 0,
     lv_next = \<lambda>t. AddDate t 0 0 1, lv_first = \<lambda>t. Day t = 1\<rparr>"

definition hourLoop :: "'a CronExpr_scheme \<Rightarrow> level" where
  "hourLoop e = \<lparr>lv_match = \<lambda>t. hasBit (ce_hour e) (Hour t), lv_floor = \<lambda>t. t - t mod 3600,
     lv_next = \<lambda>t. t + 3600, lv_first = \<lambda>t. Hour t = 0\<rparr>"

definition minuteLoop :: "'a CronExpr_scheme \<Rightarrow> level" where
  "minuteLoop e = \<lparr>lv_match = \<lambda>t. hasBit (ce_min e) (Minute t), lv_floor = \<lambda>t. t - t mod 60,
     lv_next = \<lambda>t. t + 60, lv_first = \<lambda>t. Minute t = 0\<rparr>"

definition secondLoop :: "'a CronExpr_scheme \<Rightarrow> level" where
  "secondLoop e = \<lparr>lv_match = \<lambda>t. hasBit (ce_sec e) (Second t), lv_floor = \<lambda>t. t,
     lv_next = \<lambda>t. t + 1, lv_first = \<lambda>t. Second t = 0\<rparr>"

definition cronLoops :: "'a CronExpr_scheme \<Rightarrow> level list" where
  "cronLoops e = [monthLoop e, dayLoop e, hourLoop e, minuteLoop e, secondLoop e]"

text \<open>The argument is in nanoseconds; the search starts at the upcoming second.\<close>

definition upcoming :: "int \<Rightarrow> int" where
  "upcoming t = t div 1000000000 + 1"

definition Next :: "CronExpr \<Rightarrow> int \<Rightarrow> int option option" where
  "Next e t = (let t = upcoming t; year = Year t in searchFrom (\<lambda>t. year + 1 < Year t) (cronLoops e) t False)"

section \<open>Custom expressions\<close>

record CustomCronExpr = CronExpr +
  ce_year :: int

definition MaxInt32 :: int where
  "MaxInt32 = 2 ^ 31 - 1"

definition parseCustomCronField :: "string \<Rightarrow> int \<Rightarrow> int \<Rightarrow> 64 word \<times> bool" where
  "parseCustomCronField field lo hi =
     (if field = ''*'' then (rangeBits lo hi, True)
      else case ParseInt field of (start, ok) \<Rightarrow> if ok then (rangeBits start start, True) else (0, False))"

fun parseCustomFields :: "(string \<times> int \<times> int) list \<Rightarrow> 64 word list \<times> cronErr option" where
  "parseCustomFields [] = ([], None)"
| "parseCustomFields ((field, lo, hi) # r) =
     (case parseCustomCronField field lo hi of
        (w, False) \<Rightarrow> ([w], Some InvalidRange)
      | (w, True) \<Rightarrow> (case parseCustomFields r of (ws, err) \<Rightarrow> (w # ws, err)))"

text \<open>Year, month, day, hour, minute, second and, when it is given, the day of the week.\<close>

definition NewCustomCronExpr :: "string \<Rightarrow> CustomCronExpr option \<times> cronErr option" where
  "NewCustomCronExpr expr =
     (let given = fieldsBy (\<lambda>c. c = CHR '','') expr []; fields = (if length given = 6 then given @ [''*''] else given) in
      if length given \<noteq> 6 \<and> length given \<noteq> 7 then (None, Some FieldCount)
      else
        let year = (if hd fields = ''*'' then (MaxInt32, True) else ParseInt (hd fields));
            (ws, err) = (if snd year
              then parseCustomFields (zip (tl fields) [(1, 12), (1, 31), (0, 23), (0, 59), (0, 59), (0, 6)])
              else ([], Some InvalidYear))
        in (Some \<lparr>ce_sec = wordAt ws 4, ce_min = wordAt ws 3, ce_hour = wordAt ws 2, ce_dom = wordAt ws 1,
              ce_month = wordAt ws 0, ce_dow = wordAt ws 5, ce_year = fst year\<rparr>, err))"

definition otherYear :: "CustomCronExpr \<Rightarrow> int \<Rightarrow> bool" where
  "otherYear e t \<longleftrightarrow> Year t \<noteq> ce_year e \<and> ce_year e \<noteq> MaxInt32"

definition customNext :: "CustomCronExpr \<Rightarrow> int \<Rightarrow> int option option" where
  "customNext e t = searchFrom (otherYear e) (cronLoops e) (upcoming t) False"

text \<open>
  Prev goes backwards: a loop starts at the last second of a unit, steps to the unit before and
  starts over at the last unit of the field above. The month loop means to stay on the last day of
  the month: from the last day of the month before the current one it goes forward by a month and
  then back month by month, and again so when the day changes. The day loop compares the months
  before and after a step, which is a day back.
\<close>

definition prevMonthFloor :: "int \<Rightarrow> int" where
  "prevMonthFloor t = AddDate (Date (Year t) (Month t) 0 23 59 59) 0 1 0"

definition prevMonthStep :: "int \<Rightarrow> int" where
  "prevMonthStep t = (let t' = AddDate t 0 (- 1) 0 in
     if Day t \<noteq> Day t' then AddDate (Date (Year t') (Month t') 0 (Hour t') (Minute t') (Second t')) 0 1 0 else t')"

definition prevMonthLoop :: "'a CronExpr_scheme \<Rightarrow> level" where
  "prevMonthLoop e = \<lparr>lv_match = \<lambda>t. hasBit (ce_month e) (Month t), lv_floor = prevMonthFloor,
     lv_next = prevMonthStep, lv_first = \<lambda>t. Month t = 12\<rparr>"

definition prevDayFloor :: "int \<Rightarrow> int" where
  "prevDayFloor t = Date (Year t) (Month t) (Day t) 23 59 59"

definition prevDayStep :: "int \<Rightarrow> int" where
  "prevDayStep t = AddDate t 0 0 (- 1)"

definition lastOfMonth :: "int \<Rightarrow> bool" where
  "lastOfMonth t \<longleftrightarrow> Month (AddDate t 0 0 1) \<noteq> Month t"

definition prevDayLoop :: "'a CronExpr_scheme \<Rightarrow> level" where
  "prevDayLoop e = \<lparr>lv_match = matchDay e, lv_floor = prevDayFloor, lv_next = prevDayStep, lv_first = lastOfMonth\<rparr>"

definition prevHourLoop :: "'a CronExpr_scheme \<Rightarrow> level" where
  "prevHourLoop e = \<lparr>lv_match = \<lambda>t. hasBit (ce_hour e) (Hour t),
     lv_floor = \<lambda>t. Date (Year t) (Month t) (Day t) (Hour t) 59 59,
     lv_next = \<lambda>t. t - 3600, lv_first = \<lambda>t. Hour t = 23\<rparr>"

definition prevMinuteLoop :: "'a CronExpr_scheme \<Rightarrow> level" where
  "prevMinuteLoop e = \<lparr>lv_match = \<lambda>t. hasBit (ce_min e) (Minute t),
     lv_floor = \<lambda>t. Date (Year t) (Month t) (Day t) (Hour t) (Minute t) 59,
     lv_next = \<lambda>t. t - 60, lv_first = \<lambda>t. Minute t = 59\<rparr>"

definition prevSecondLoop :: "'a CronExpr_scheme \<Rightarrow> level" where
  "prevSecondLoop e = \<lparr>lv_match = \<lambda>t. hasBit (ce_sec e) (Second t), lv_floor = \<lambda>t. t,
     lv_next = \<lambda>t. t - 1, lv_first = \<lambda>t. Second t = 59\<rparr>"

definition Prev :: "CustomCronExpr \<Rightarrow> int \<Rightarrow> int option option" where
  "Prev e t = searchFrom (otherYear e)
     [prevMonthLoop e, prevDayLoop e, prevHourLoop e, prevMinuteLoop e, prevSecondLoop e]
     (t div 1000000000 - 1) False"

end
