(* ===== verification/Cron_Correct.thy ===== *)
theory Cron_Correct
  imports Cron
begin

text \<open>
  What a cron expression means and that parsing and searching agree with it: the bits of a field
  are the values its items name, the next time is the first that matches; and where custom
  expressions fail.
\<close>

section \<open>The loops step through the units of their fields\<close>

text \<open>The units of a year, month, day, hour, minute and second, in seconds.\<close>

definition yearUnit :: "int \<Rightarrow> int" where "yearUnit k = 86400 * yearStart k"
definition monthUnit :: "int \<Rightarrow> int" where "monthUnit k = 86400 * monthFirst k"

lemma id_grid: "grid (\<lambda>t. t) (\<lambda>k. k)"
  by (auto simp: grid_def)

lemmas unit_grid = grid_scale[OF id_grid]

lemma year_units: "grid Year yearUnit"
  using grid_scale[OF year_grid, of 86400] by (simp add: Year_def[abs_def] yearUnit_def[abs_def] dayNumber_def)

lemma month_units: "grid (\<lambda>t. monthIdx (dayNumber t)) monthUnit"
  using grid_scale[OF month_grid, of 86400] by (simp add: monthUnit_def[abs_def] dayNumber_def)

lemma Month_range: "Month t \<in> {1..12}"
proof -
  let ?y = "yearOf (dayNumber t)"
  have "yearStart ?y \<le> dayNumber t" "dayNumber t < yearStart ?y + 365 + (if leap ?y then 1 else 0)"
    using yearOf_bounds[of "dayNumber t"] yearStart_succ[of ?y] by auto
  then show ?thesis using monthOf_bounds[of "dayNumber t - yearStart ?y" "leap ?y"]
    by (simp add: Month_def YearDay_def Year_def)
qed

lemma monthIdx_eq: "monthIdx (dayNumber t) = 12 * Year t + Month t - 1"
  by (simp add: monthIdx_def Year_def Month_def YearDay_def)

lemma month_of_idx: "Year t = monthIdx (dayNumber t) div 12" "Month t = monthIdx (dayNumber t) mod 12 + 1"
  using month_in_year[OF Month_range, of "Year t" t] by (simp_all add: monthIdx_eq)

lemma day_of_idx: "Day t = dayNumber t - monthFirst (monthIdx (dayNumber t)) + 1"
  unfolding monthIdx_eq monthFirst_month[OF Month_range] by (simp add: Day_def YearDay_def)

lemma Date_days: "Date y m d 0 0 0 = 86400 * (monthFirst (12 * y + m - 1) + d - 1)"
proof -
  have "(12 * y + m - 1) div 12 = y + (m - 1) div 12"
    using div_mult_self2[of 12 "m - 1" y] by (simp add: algebra_simps)
  moreover have "(12 * y + m - 1) mod 12 = (m - 1) mod 12"
    using mod_mult_self2[of "m - 1" 12 y] by (simp add: algebra_simps)
  ultimately show ?thesis by (simp add: Date_def monthFirst_def Let_def)
qed

lemma clock_zero: "Hour (86400 * k) = 0" "Minute (86400 * k) = 0" "Second (86400 * k) = 0"
proof -
  have dvd: "86400 * k mod n = 0" if "n dvd 86400" for n using that by simp
  show "Hour (86400 * k) = 0" "Minute (86400 * k) = 0" "Second (86400 * k) = 0"
    using dvd[of 86400] dvd[of 3600] dvd[of 60] by (simp_all add: Hour_def Minute_def Second_def)
qed

lemma dayNumber_day [simp]: "dayNumber (86400 * k) = k"
  by (simp add: dayNumber_def)

lemma monthLoop_ok: "level_ok yearUnit (\<lambda>t. monthIdx (dayNumber t)) monthUnit (monthLoop e)"
  unfolding level_ok_def
proof (intro conjI allI)
  show "grid (\<lambda>t. monthIdx (dayNumber t)) monthUnit" by (rule month_units)
  have year: "yearUnit k = monthUnit (12 * k)" for k
    using monthFirst_month[of 1 k] by (simp add: yearUnit_def monthUnit_def monthDays_values)
  then show "\<exists>j. yearUnit k = monthUnit j" for k by blast
  show "monthIdx (dayNumber t) = monthIdx (dayNumber t') \<longrightarrow> lv_match (monthLoop e) t = lv_match (monthLoop e) t'" for t t'
    by (simp add: monthLoop_def month_of_idx)
  show "lv_floor (monthLoop e) t = monthUnit (monthIdx (dayNumber t))" for t
    by (simp add: monthLoop_def Date_days monthUnit_def monthIdx_eq)
  have idx: "monthIdx (dayNumber (monthUnit k)) = k" for k using grid_start[OF month_units] by simp
  have day: "Day (monthUnit k) = 1" for k using idx[of k] by (simp add: day_of_idx) (simp add: monthUnit_def)
  show "lv_next (monthLoop e) (monthUnit k) = monthUnit (k + 1)" for k
  proof -
    have "12 * Year (monthUnit k) + (Month (monthUnit k) + 1) - 1 = k + 1"
      using idx[of k] monthIdx_eq[of "monthUnit k"] by simp
    then show ?thesis using day[of k] clock_zero[of "monthFirst k"]
      by (simp add: monthLoop_def AddDate_def monthUnit_def Date_days)
  qed
  show "lv_first (monthLoop e) (monthUnit k) = (\<exists>j. monthUnit k = yearUnit j)" for k
  proof
    assume "lv_first (monthLoop e) (monthUnit k)"
    then have "k mod 12 = 0" by (simp add: monthLoop_def month_of_idx idx)
    then have "k = 12 * (k div 12)" using mult_div_mod_eq[of 12 k] by simp
    then show "\<exists>j. monthUnit k = yearUnit j" using year[of "k div 12"] by metis
  next
    assume "\<exists>j. monthUnit k = yearUnit j"
    then obtain j where "monthUnit k = monthUnit (12 * j)" using year by auto
    then have "k = 12 * j" using idx by metis
    then show "lv_first (monthLoop e) (monthUnit k)" by (simp add: monthLoop_def month_of_idx idx)
  qed
qed

lemma dayLoop_ok: "level_ok monthUnit dayNumber (\<lambda>k. 86400 * k) (dayLoop e)"
  unfolding level_ok_def
proof (intro conjI allI)
  show "grid dayNumber (\<lambda>k. 86400 * k)" using unit_grid[of 86400] by (simp add: dayNumber_def[abs_def])
  show "\<exists>j. monthUnit k = 86400 * j" for k by (auto simp: monthUnit_def)
  show "dayNumber t = dayNumber t' \<longrightarrow> lv_match (dayLoop e) t = lv_match (dayLoop e) t'" for t t'
    by (simp add: dayLoop_def matchDay_def Weekday_def day_of_idx)
  have date: "Date (Year t) (Month t) (Day t + d) 0 0 0 = 86400 * (dayNumber t + d)" for t d
    using monthIdx_eq[of t, symmetric] by (simp add: Date_days day_of_idx)
  show "lv_floor (dayLoop e) t = 86400 * dayNumber t" for t using date[of t 0] by (simp add: dayLoop_def)
  show "lv_next (dayLoop e) (86400 * k) = 86400 * (k + 1)" for k
    using date[of "86400 * k" 1] by (simp add: dayLoop_def AddDate_def clock_zero)
  show "lv_first (dayLoop e) (86400 * k) = (\<exists>j. 86400 * k = monthUnit j)" for k
  proof
    assume "lv_first (dayLoop e) (86400 * k)"
    then have "k = monthFirst (monthIdx k)" by (simp add: dayLoop_def day_of_idx)
    then show "\<exists>j. 86400 * k = monthUnit j" by (auto simp: monthUnit_def)
  next
    assume "\<exists>j. 86400 * k = monthUnit j"
    then obtain j where "k = monthFirst j" by (auto simp: monthUnit_def)
    then show "lv_first (dayLoop e) (86400 * k)" using grid_start[OF month_grid, of j] by (simp add: dayLoop_def day_of_idx)
  qed
qed

lemma clock_loop_ok:
  assumes "0 < c" "0 < n"
    and "\<And>t t'. t div c = t' div c \<Longrightarrow> lv_match l t = lv_match l t'" and "\<And>t. lv_floor l t = t - t mod c"
    and "\<And>t. lv_next l t = t + c" and "\<And>k. lv_first l (c * k) \<longleftrightarrow> k mod n = 0"
  shows "level_ok (\<lambda>k. c * n * k) (\<lambda>t. t div c) (\<lambda>k. c * k) l"
  unfolding level_ok_def
proof (intro conjI allI)
  show "grid (\<lambda>t. t div c) (\<lambda>k. c * k)" by (rule unit_grid[OF assms(1)])
  show "\<exists>j. c * n * k = c * j" for k by (rule exI[of _ "n * k"]) simp
  show "t div c = t' div c \<longrightarrow> lv_match l t = lv_match l t'" for t t' using assms(3) by blast
  show "lv_floor l t = c * (t div c)" for t using mult_div_mod_eq[of c t] assms(4)[of t] by linarith
  show "lv_next l (c * k) = c * (k + 1)" for k using assms(5) by (simp add: algebra_simps)
  show "lv_first l (c * k) = (\<exists>j. c * k = c * n * j)" for k
    using assms(1,6) by (auto simp: mod_eq_0_iff_dvd dvd_def)
qed

lemma mod_div_mod: "0 < c \<Longrightarrow> 0 \<le> n \<Longrightarrow> t mod (c * n) div c = t div c mod n" for t c n :: int
  by (subst zmod_zmult2_eq) simp_all

lemma clock_units: "Hour t = t div 3600 mod 24" "Minute t = t div 60 mod 60"
  unfolding Hour_def Minute_def
  by (subst mod_div_mod[of 3600 24 t, symmetric], simp_all, subst mod_div_mod[of 60 60 t, symmetric], simp_all)

lemma hourLoop_ok: "level_ok (\<lambda>k. 86400 * k) (\<lambda>t. t div 3600) (\<lambda>k. 3600 * k) (hourLoop e)"
  using clock_loop_ok[of 3600 24 "hourLoop e"] by (simp add: hourLoop_def clock_units)

lemma minuteLoop_ok: "level_ok (\<lambda>k. 3600 * k) (\<lambda>t. t div 60) (\<lambda>k. 60 * k) (minuteLoop e)"
  using clock_loop_ok[of 60 60 "minuteLoop e"] by (simp add: minuteLoop_def clock_units)

lemma secondLoop_ok: "level_ok (\<lambda>k. 60 * k) (\<lambda>t. t) (\<lambda>k. k) (secondLoop e)"
  using clock_loop_ok[of 1 60 "secondLoop e"] by (simp add: secondLoop_def Second_def)

definition cronUnits :: "'a CronExpr_scheme \<Rightarrow> ((int \<Rightarrow> int) \<times> (int \<Rightarrow> int) \<times> level) list" where
  "cronUnits e = [(\<lambda>t. monthIdx (dayNumber t), monthUnit, monthLoop e), (dayNumber, \<lambda>k. 86400 * k, dayLoop e),
     (\<lambda>t. t div 3600, \<lambda>k. 3600 * k, hourLoop e), (\<lambda>t. t div 60, \<lambda>k. 60 * k, minuteLoop e),
     (\<lambda>t. t, \<lambda>k. k, secondLoop e)]"

lemma cronUnits_nested: "nested yearUnit (cronUnits e)"
  by (simp add: cronUnits_def monthLoop_ok dayLoop_ok hourLoop_ok minuteLoop_ok secondLoop_ok)

lemma cronUnits_loops: "loops_of (cronUnits e) = cronLoops e"
  by (simp add: cronUnits_def cronLoops_def)

section \<open>The next time\<close>

text \<open>The times of an expression.\<close>

definition matches :: "'a CronExpr_scheme \<Rightarrow> int \<Rightarrow> bool" where
  "matches e t \<longleftrightarrow> hasBit (ce_month e) (Month t) \<and> matchDay e t \<and> hasBit (ce_hour e) (Hour t)
     \<and> hasBit (ce_min e) (Minute t) \<and> hasBit (ce_sec e) (Second t)"

lemma cronUnits_match: "all_match (cronUnits e) = matches e"
  by (auto simp: fun_eq_iff cronUnits_def matches_def monthLoop_def dayLoop_def hourLoop_def
      minuteLoop_def secondLoop_def)

lemma cron_search:
  assumes "searchFrom stop (cronLoops e) t False = Some r" and "\<And>t t'. Year t = Year t' \<Longrightarrow> stop t = stop t'"
  shows "found stop (matches e) t r"
  using searchFrom_found[OF year_units cronUnits_nested[of e] assms(2), where t = t and initFlag = False] assms(1)
  by (simp add: cronUnits_loops cronUnits_match)

lemma cron_search_ends:
  assumes "\<And>t. limit \<le> t \<Longrightarrow> stop t"
  shows "\<exists>r. searchFrom stop (cronLoops e) t False = Some r"
  using searchFrom_ends[OF year_units cronUnits_nested[of e] assms, where t = t and initFlag = False]
  by (simp add: cronUnits_loops)

lemma year_from: "yearUnit y \<le> t \<longleftrightarrow> y \<le> Year t"
proof
  show "y \<le> Year t" if "yearUnit y \<le> t" using grid_mono[OF year_units that] grid_start[OF year_units, of y] by simp
  show "yearUnit y \<le> t" if "y \<le> Year t"
    using grid_bounds(1)[OF year_units, of t] grid_less_iff[OF year_units, of "Year t" y] that by linarith
qed

text \<open>
  C23: For every expression and time, Next ends. It returns the first second after the time that
  matches the expression, if there is one up to the end of the following year, and else the zero
  time.
\<close>

theorem next_is_first_match:
  "\<exists>r. Next e t = Some r \<and> (case r of
     Some n \<Rightarrow> matches e n \<and> none_match (matches e) (upcoming t) n \<and> Year n \<le> Year (upcoming t) + 1
   | None \<Rightarrow> none_match (matches e) (upcoming t) (yearUnit (Year (upcoming t) + 2)))"
proof -
  let ?u = "upcoming t"
  let ?stop = "\<lambda>x. Year ?u + 1 < Year x"
  obtain r where r: "searchFrom ?stop (cronLoops e) ?u False = Some r"
    using cron_search_ends[of "yearUnit (Year ?u + 2)" ?stop e ?u] by (auto simp: year_from)
  have "found ?stop (matches e) ?u r" using cron_search[OF r] by simp
  moreover have "none_match (matches e) ?u (yearUnit (Year ?u + 2))" if "?stop t'" "none_match (matches e) ?u t'" for t'
  proof -
    have "yearUnit (Year ?u + 2) \<le> t'" using that(1) by (simp add: year_from)
    moreover have "?u \<le> yearUnit (Year ?u + 2)" using year_from[of "Year ?u + 2" ?u] by simp
    ultimately show ?thesis using that(2) by (auto simp: none_match_def)
  qed
  ultimately show ?thesis using r by (auto simp: Next_def Let_def found_def split: option.splits)
qed

section \<open>Parsing ends\<close>

text \<open>
  A small increment makes the loop's variable grow. A large one may wrap it to a negative number,
  from which it comes back, smaller than before, or leaves the range.
\<close>

lemma wrap64_over:
  assumes "2 ^ 63 \<le> i" "i < 2 ^ 63 + 2 ^ 64"
  shows "wrap64 i = i - 2 ^ 64"
proof -
  have "i + 2 ^ 63 = (i - 2 ^ 63) + 2 ^ 64" by simp
  then have "(i + 2 ^ 63) mod 2 ^ 64 = (i - 2 ^ 63) mod 2 ^ 64" by (metis mod_add_self2)
  also have "\<dots> = i - 2 ^ 63" by (rule mod_pos_pos_trivial) (use assms in simp_all)
  finally show ?thesis unfolding wrap64_def by simp
qed

lemma incrBits_small:
  assumes "0 < incr" "incr < 2 ^ 62" "stop \<le> 62" "0 \<le> i"
  shows "\<exists>w'. incrBits i stop incr w = Some w'
    \<and> (\<forall>n. bit w' n \<longleftrightarrow> bit w n \<or> (i \<le> int n \<and> int n \<le> stop \<and> (int n - i) mod incr = 0))"
  using assms(4)
proof (induction "nat (stop + 1 - i)" arbitrary: i w rule: less_induct)
  case less
  show ?case
  proof (cases "i \<le> stop")
    case True
    have i: "wrap64 (i + incr) = i + incr" using assms less.prems True by (intro wrap64_id) (simp add: int64_def)
    obtain w' where w': "incrBits (i + incr) stop incr (w OR shl 1 i) = Some w'"
        "\<And>n. bit w' n \<longleftrightarrow> bit (w OR shl 1 i) n \<or> (i + incr \<le> int n \<and> int n \<le> stop \<and> (int n - (i + incr)) mod incr = 0)"
      using less.hyps[of "i + incr" "w OR shl 1 i"] assms True less.prems by auto
    have one: "bit (shl 1 i) n \<longleftrightarrow> int n = i" for n
      using less.prems True assms(3) by (auto simp: shl_def bit_exp_iff)
    have key: "(i + incr \<le> int n \<and> (int n - (i + incr)) mod incr = 0) \<or> int n = i
        \<longleftrightarrow> i \<le> int n \<and> (int n - i) mod incr = 0" for n
    proof -
      have "(int n - (i + incr)) mod incr = (int n - i) mod incr" by (simp add: diff_diff_eq[symmetric])
      moreover have "i + incr \<le> int n" if "i \<le> int n" "int n \<noteq> i" "(int n - i) mod incr = 0"
        using zdvd_imp_le[of incr "int n - i"] that by (simp add: mod_eq_0_iff_dvd)
      ultimately show ?thesis using assms(1) by auto
    qed
    have "bit w' n \<longleftrightarrow> bit w n \<or> (i \<le> int n \<and> int n \<le> stop \<and> (int n - i) mod incr = 0)" for n
    proof -
      have "int n = i \<Longrightarrow> int n \<le> stop" using True by simp
      then show ?thesis using w'(2)[of n] one[of n] key[of n] unfolding bit_or_iff by argo
    qed
    moreover have "incrBits i stop incr w = Some w'" using w'(1) i True by (subst incrBits.simps) simp
    ultimately show ?thesis by blast
  qed (subst incrBits.simps, auto)
qed

lemma incrBits_large:
  assumes "2 ^ 62 \<le> incr" "incr < 2 ^ 63" "stop \<le> 62" "0 \<le> i" "i \<le> 62"
  shows "\<exists>w'. incrBits i stop incr w = Some w'"
  using assms(4,5)
proof (induction "nat i" arbitrary: i w rule: less_induct)
  case less
  have high: "\<exists>w'. incrBits j stop incr w = Some w'" if "62 < j" for j w
    using that assms(3) by (subst incrBits.simps) auto
  show ?case
  proof (cases "i + incr < 2 ^ 63")
    case True
    then have "wrap64 (i + incr) = i + incr" using less.prems assms by (intro wrap64_id) (simp add: int64_def)
    then show ?thesis using high[of "i + incr"] less.prems assms by (subst incrBits.simps) simp
  next
    case False
    let ?j = "i + incr - 2 ^ 64" and ?k = "i + 2 * incr - 2 ^ 64"
    have j: "wrap64 (i + incr) = ?j" using False less.prems assms by (intro wrap64_over) simp_all
    have k: "wrap64 (?j + incr) = ?k"
    proof -
      have "?j + incr = ?k" by simp
      moreover have "int64 ?k" using less.prems assms by (simp add: int64_def)
      ultimately show ?thesis by (simp only: wrap64_id)
    qed
    have fin: "\<exists>w'. incrBits ?k stop incr w = Some w'" for w
    proof (cases "0 \<le> ?k")
      case True
      then show ?thesis using less.hyps[of ?k w] less.prems assms by simp
    next
      case no: False
      have "wrap64 (?k + incr) = ?k + incr" using no less.prems assms by (intro wrap64_id) (simp add: int64_def)
      moreover have "62 < ?k + incr" using less.prems assms False by simp
      ultimately show ?thesis using high[of "?k + incr"] by (subst incrBits.simps) simp
    qed
    then have "\<exists>w'. incrBits ?j stop incr w = Some w'" for w using k by (subst incrBits.simps) simp
    then show ?thesis using j by (subst incrBits.simps) simp
  qed
qed

lemma ParseInt_bounds: "ParseInt s = (i, ok) \<Longrightarrow> i < 2 ^ 63"
  by (auto simp: ParseInt_def Let_def split: if_splits)

lemma parseItem_range:
  assumes "parseItem item lo hi = Inr (start, stop, incr)" "0 \<le> lo" "hi \<le> 62"
  shows "0 \<le> start" "start \<le> stop" "stop \<le> 62" "0 < incr" "incr < 2 ^ 63"
  using assms ParseInt_bounds by (auto simp: parseItem_def Let_def split: sum.splits if_splits prod.splits)

lemma parseItems_ends: "0 \<le> lo \<Longrightarrow> hi \<le> 62 \<Longrightarrow> \<exists>r. parseItems items lo hi w = Some r"
proof (induction items arbitrary: w)
  case (Cons item items)
  show ?case
  proof (cases "parseItem item lo hi")
    case (Inr b)
    obtain start stop incr where b: "b = (start, stop, incr)" by (cases b) auto
    note r = parseItem_range[OF Inr[unfolded b] Cons.prems]
    have "\<exists>w'. incrBits start stop incr w = Some w'"
      using incrBits_small[of incr stop start w] incrBits_large[of incr stop start w] r by (cases "incr < 2 ^ 62") auto
    then show ?thesis using Inr b Cons by auto
  qed simp
qed simp

text \<open>
  C25: Parsing a cron expression always ends, also when an increment is so large that the loop over
  its range wraps around.
\<close>

theorem cron_parsing_ends: "\<exists>r. NewCronExpr expr = Some r"
proof -
  have field: "\<exists>r. parseCronField f lo hi = Some r" if "0 \<le> lo" "hi \<le> 62" for f lo hi
    using parseItems_ends[OF that] by (simp add: parseCronField_def)
  have "\<exists>r. parseFields fs = Some r" if "list_all (\<lambda>(f, lo, hi). 0 \<le> lo \<and> hi \<le> 62) fs" for fs
    using that
  proof (induction fs)
    case (Cons x fs)
    obtain f lo hi where x: "x = (f, lo, hi)" by (cases x)
    then obtain w e where "parseCronField f lo hi = Some (w, e)" using field[of lo hi f] Cons.prems by auto
    then show ?case using Cons x by (cases e) auto
  qed simp
  moreover have "list_all (\<lambda>(f, lo, hi). (0 :: int) \<le> lo \<and> hi \<le> (62 :: int))
      (zip fs [(0, 59), (0, 59), (0, 23), (1, 31), (1, 12), (0, 6)])" for fs :: "string list"
    unfolding list_all_iff by (auto dest!: set_zip_rightD)
  ultimately obtain r where "parseFields (zip (if length (Fields expr) = 5 then ''0'' # Fields expr else Fields expr)
      [(0, 59), (0, 59), (0, 23), (1, 31), (1, 12), (0, 6)]) = Some r" by blast
  then show ?thesis by (cases r) (simp add: NewCronExpr_def Let_def)
qed

section \<open>Custom expressions\<close>

lemma otherYear_year: "Year t = Year t' \<Longrightarrow> otherYear e t = otherYear e t'"
  by (simp add: otherYear_def)

lemma customNext_found: "customNext e t = Some r \<Longrightarrow> found (otherYear e) (matches e) (upcoming t) r"
  unfolding customNext_def by (rule cron_search) (assumption, rule otherYear_year)

text \<open>
  The next time of a custom expression with a year is found whenever the upcoming second is in
  that year: the first second that matches, or the zero time if none does to the end of the year.
\<close>

theorem custom_next_first_match:
  assumes "ce_year e \<noteq> MaxInt32" and "Year (upcoming t) = ce_year e"
  shows "\<exists>r. customNext e t = Some r \<and> (case r of
     Some n \<Rightarrow> matches e n \<and> none_match (matches e) (upcoming t) n \<and> Year n = ce_year e
   | None \<Rightarrow> none_match (matches e) (upcoming t) (yearUnit (ce_year e + 1)))"
proof -
  have stop: "otherYear e x \<longleftrightarrow> Year x \<noteq> ce_year e" for x using assms(1) by (simp add: otherYear_def)
  have "otherYear e x" if "yearUnit (ce_year e + 1) \<le> x" for x using that by (simp add: year_from stop)
  then obtain r where r: "customNext e t = Some r"
    using cron_search_ends[of "yearUnit (ce_year e + 1)" "otherYear e" e "upcoming t"] unfolding customNext_def by blast
  have "none_match (matches e) (upcoming t) (yearUnit (ce_year e + 1))"
    if t': "otherYear e t'" "none_match (matches e) (upcoming t) t'" for t'
  proof -
    have "ce_year e \<le> Year t'" using t'(2) grid_mono[OF year_units, of "upcoming t" t'] assms(2) by (simp add: none_match_def)
    then have "yearUnit (ce_year e + 1) \<le> t'" using t'(1) by (simp add: stop year_from)
    moreover have "upcoming t \<le> yearUnit (ce_year e + 1)" using year_from[of "ce_year e + 1" "upcoming t"] assms(2) by simp
    ultimately show ?thesis using t'(2) by (auto simp: none_match_def)
  qed
  then show ?thesis using r customNext_found[OF r] by (auto simp: found_def stop split: option.splits)
qed

text \<open>
  A custom expression for another year than the current one is dropped: the next time is the zero
  time, also when the year is still to come.
\<close>

theorem custom_future_year_dropped:
  assumes "Year (upcoming t) < ce_year e" and "ce_year e \<noteq> MaxInt32"
  shows "customNext e t = Some None"
  unfolding customNext_def using assms by (subst searchFrom.simps) (simp add: otherYear_def)

text \<open>
  A custom expression for every year that no time matches, which the parser accepts, makes Next
  search forever.
\<close>

theorem custom_search_diverges:
  assumes "NewCustomCronExpr expr = (Some e, None)" and "ce_year e = MaxInt32" and "\<And>t. \<not> matches e t"
  shows "customNext e t = None"
proof (cases "customNext e t")
  case (Some r)
  then show ?thesis using customNext_found[OF Some] assms(2,3)
    by (auto simp: found_def otherYear_def split: option.splits)
qed

definition month13 :: CustomCronExpr where
  "month13 = \<lparr>ce_sec = 1, ce_min = 1, ce_hour = 1, ce_dom = 2, ce_month = 2 ^ 13, ce_dow = 127, ce_year = MaxInt32\<rparr>"

lemma month13_parsed: "NewCustomCronExpr ''*,13,1,0,0,0'' = (Some month13, None)"
  by code_simp

lemma month13_never: "\<not> matches month13 t"
proof -
  have "hasBit (2 ^ 13) m = (m = 13)" if "m \<in> {1..12}" for m
    using that unfolding months_12 by (elim disjE) (simp_all add: hasBit_def shl_def)
  then show ?thesis using Month_range[of t] by (auto simp: matches_def month13_def)
qed

theorem custom_search_diverges_witness: "customNext month13 0 = None"
  by (rule custom_search_diverges[OF month13_parsed _ month13_never]) (simp add: month13_def)

definition newYear2030 :: CustomCronExpr where
  "newYear2030 = month13\<lparr>ce_month := 2, ce_year := 2030\<rparr>"

theorem custom_future_year_dropped_witness: "customNext newYear2030 0 = Some None"
proof (rule custom_future_year_dropped)
  have "Year (upcoming 0) = 1" by code_simp
  then show "Year (upcoming 0) < ce_year newYear2030" by (simp add: newYear2030_def)
qed (simp add: newYear2030_def MaxInt32_def)

theorem custom_next_first_match_witness:
  "\<exists>r. customNext (month13\<lparr>ce_year := 1\<rparr>) 0 = Some r"
proof -
  have "Year (upcoming 0) = 1" by code_simp
  then show ?thesis using custom_next_first_match[of "month13\<lparr>ce_year := 1\<rparr>" 0]
    by (auto simp: month13_def MaxInt32_def)
qed

section \<open>What a field means\<close>

text \<open>The six forms that the comment of parseCronField lists, how they are written and what they mean.\<close>

datatype cronItem =
    Every | Single int | Span int int | EveryStep int | FromStep int int | SpanStep int int int

fun printItem :: "cronItem \<Rightarrow> string" where
  "printItem Every = ''*''"
| "printItem (Single a) = itoa a"
| "printItem (Span a b) = itoa a @ ''-'' @ itoa b"
| "printItem (EveryStep k) = ''*/'' @ itoa k"
| "printItem (FromStep a k) = itoa a @ ''/'' @ itoa k"
| "printItem (SpanStep a b k) = itoa a @ ''-'' @ itoa b @ ''/'' @ itoa k"

text \<open>The first and last value and the step.\<close>

fun itemRange :: "int \<Rightarrow> int \<Rightarrow> cronItem \<Rightarrow> int \<times> int \<times> int" where
  "itemRange lo hi Every = (lo, hi, 1)"
| "itemRange lo hi (Single a) = (a, a, 1)"
| "itemRange lo hi (Span a b) = (a, b, 1)"
| "itemRange lo hi (EveryStep k) = (lo, hi, k)"
| "itemRange lo hi (FromStep a k) = (a, hi, k)"
| "itemRange lo hi (SpanStep a b k) = (a, b, k)"

definition itemOk :: "int \<Rightarrow> int \<Rightarrow> cronItem \<Rightarrow> bool" where
  "itemOk lo hi item \<longleftrightarrow> (case itemRange lo hi item of (a, b, k) \<Rightarrow> lo \<le> a \<and> a \<le> b \<and> b \<le> hi \<and> 0 < k \<and> k < 2 ^ 62)"

definition itemHas :: "int \<Rightarrow> int \<Rightarrow> int \<Rightarrow> cronItem \<Rightarrow> bool" where
  "itemHas lo hi i item \<longleftrightarrow> (case itemRange lo hi item of (a, b, k) \<Rightarrow> a \<le> i \<and> i \<le> b \<and> (i - a) mod k = 0)"

fun printField :: "cronItem list \<Rightarrow> string" where
  "printField [] = ''''"
| "printField [item] = printItem item"
| "printField (item # items) = printItem item @ '','' @ printField items"

lemma itoa_chars: "0 \<le> i \<Longrightarrow> c \<in> set (itoa i) \<Longrightarrow> is_digit c"
  using nat_digits_all_digits[of "nat i"] by (auto simp: itoa_def list_all_iff)

lemma itoa_clean:
  assumes "0 \<le> i"
  shows "CHR ''-'' \<notin> set (itoa i)" "CHR ''/'' \<notin> set (itoa i)" "CHR '','' \<notin> set (itoa i)" "itoa i \<noteq> ''*''"
proof -
  show "itoa i \<noteq> ''*''"
  proof
    assume "itoa i = ''*''"
    then show False using itoa_chars[OF assms, of "CHR ''*''"] by (simp add: is_digit_def)
  qed
qed (use itoa_chars[OF assms] in \<open>force simp: is_digit_def\<close>)+

lemma split_parts:
  "c \<notin> set xs \<Longrightarrow> splitOn c xs = [xs]"
  "c \<notin> set xs \<Longrightarrow> c \<notin> set ys \<Longrightarrow> splitOn c (xs @ c # ys) = [xs, ys]"
  by (simp_all add: splitOn_append splitOn_none)

lemma parse_printed:
  assumes "itemOk lo hi item" "0 \<le> lo" "hi \<le> 62"
  shows "parseItem (printItem item) lo hi = Inr (itemRange lo hi item)"
proof -
  have num: "ParseInt (itoa i) = (i, True)" if "0 \<le> i" "i < 2 ^ 62" for i
    using that by (intro ParseInt_itoa) (simp add: int64_def)
  note clean = itoa_clean split_parts num parseItem_def parseRange_def Let_def
  show ?thesis
  proof (cases item)
    case Every
    have "splitOn CHR ''/'' ''*'' = [''*'']" "splitOn CHR ''-'' ''*'' = [''*'']" by code_simp+
    then show ?thesis using assms Every by (simp add: parseItem_def parseRange_def itemOk_def)
  next
    case (Single a)
    then have "0 \<le> a" "a < 2 ^ 62" "lo \<le> a" "a \<le> hi" using assms by (auto simp: itemOk_def)
    then show ?thesis using Single by (simp add: clean)
  next
    case (Span a b)
    then have r: "0 \<le> a" "a < 2 ^ 62" "lo \<le> a" "a \<le> b" "0 \<le> b" "b < 2 ^ 62" "b \<le> hi"
      using assms by (auto simp: itemOk_def)
    then have "CHR ''/'' \<notin> set (itoa a @ ''-'' @ itoa b)" by (simp add: clean)
    then show ?thesis using r Span by (simp add: clean)
  next
    case (EveryStep k)
    then have r: "0 < k" "0 \<le> k" "k < 2 ^ 62" "lo \<le> hi" using assms by (auto simp: itemOk_def)
    then have "splitOn CHR ''/'' (printItem item) = [''*'', itoa k]"
      using EveryStep split_parts(2)[of "CHR ''/''" "''*''" "itoa k"] by (simp add: clean)
    moreover have "splitOn CHR ''-'' ''*'' = [''*'']" by code_simp
    ultimately show ?thesis using r EveryStep by (simp add: clean)
  next
    case (FromStep a k)
    then have "0 < k" "0 \<le> k" "k < 2 ^ 62" "0 \<le> a" "a < 2 ^ 62" "lo \<le> a" "a \<le> hi"
      using assms by (auto simp: itemOk_def)
    then show ?thesis using FromStep by (simp add: clean)
  next
    case (SpanStep a b k)
    then have r: "0 < k" "0 \<le> k" "k < 2 ^ 62" "0 \<le> a" "a < 2 ^ 62" "lo \<le> a" "a \<le> b" "0 \<le> b" "b < 2 ^ 62" "b \<le> hi"
      using assms by (auto simp: itemOk_def)
    then have "splitOn CHR ''/'' (printItem item) = [itoa a @ ''-'' @ itoa b, itoa k]"
      using SpanStep split_parts(2)[of "CHR ''/''" "itoa a @ ''-'' @ itoa b" "itoa k"] by (simp add: clean)
    then show ?thesis using r SpanStep by (simp add: clean)
  qed
qed

lemma printItem_clean:
  assumes "itemOk lo hi item" "0 \<le> lo"
  shows "CHR '','' \<notin> set (printItem item)"
  using assms by (cases item) (auto simp: itemOk_def itoa_clean)

lemma split_printed:
  "items \<noteq> [] \<Longrightarrow> list_all (itemOk lo hi) items \<Longrightarrow> 0 \<le> lo \<Longrightarrow> splitOn CHR '','' (printField items) = map printItem items"
proof (induction items rule: printField.induct)
  case (2 item)
  then show ?case using splitOn_none[OF printItem_clean[of lo hi item]] by simp
next
  case (3 item i items)
  then show ?case using splitOn_append[OF printItem_clean[of lo hi item], of "printField (i # items)"] by simp
qed simp

lemma bit_rangeBits:
  assumes "0 \<le> start" "start \<le> stop" "stop \<le> 62"
  shows "bit (rangeBits start stop) n \<longleftrightarrow> start \<le> int n \<and> int n \<le> stop"
proof -
  have "wrap64 (stop + 1) = stop + 1" using assms by (intro wrap64_id) (simp add: int64_def)
  then show ?thesis using assms
    by (auto simp: rangeBits_def shl_def bit_and_iff bit_not_iff bit_push_bit_iff possible_bit_word
        bit_mask_iff zless_nat_eq_int_zless)
qed

lemma parseItems_printed:
  assumes "list_all (itemOk lo hi) items" "0 \<le> lo" "hi \<le> 62"
  shows "\<exists>w'. parseItems (map printItem items) lo hi w = Some (w', None)
    \<and> (\<forall>n. bit w' n \<longleftrightarrow> bit w n \<or> list_ex (itemHas lo hi (int n)) items)"
  using assms(1)
proof (induction items arbitrary: w)
  case (Cons item items)
  obtain a b k where r: "itemRange lo hi item = (a, b, k)" by (cases "itemRange lo hi item") auto
  have ok: "lo \<le> a" "a \<le> b" "b \<le> hi" "0 < k" "k < 2 ^ 62" using Cons.prems r by (simp_all add: itemOk_def)
  have p: "parseItem (printItem item) lo hi = Inr (a, b, k)" using parse_printed[OF _ assms(2,3)] Cons.prems r by simp
  have has: "itemHas lo hi i item \<longleftrightarrow> a \<le> i \<and> i \<le> b \<and> (i - a) mod k = 0" for i by (simp add: itemHas_def r)
  have "\<exists>v. parseItems (map printItem (item # items)) lo hi w = parseItems (map printItem items) lo hi v
      \<and> (\<forall>n. bit v n \<longleftrightarrow> bit w n \<or> itemHas lo hi (int n) item)"
  proof (cases "k = 1")
    case True
    then show ?thesis using p bit_rangeBits[of a b] ok assms
      by (intro exI[of _ "w OR rangeBits a b"]) (simp add: bit_or_iff has)
  next
    case False
    have "0 \<le> a" "b \<le> 62" using ok assms by simp_all
    from incrBits_small[OF ok(4,5) this(2,1), of w] obtain v where v: "incrBits a b k w = Some v"
        "\<And>n. bit v n \<longleftrightarrow> bit w n \<or> (a \<le> int n \<and> int n \<le> b \<and> (int n - a) mod k = 0)" by blast
    then show ?thesis using p False by (intro exI[of _ v]) (simp add: has)
  qed
  then obtain v where v: "parseItems (map printItem (item # items)) lo hi w = parseItems (map printItem items) lo hi v"
      "\<And>n. bit v n \<longleftrightarrow> bit w n \<or> itemHas lo hi (int n) item" by blast
  show ?case using Cons.IH[of v] Cons.prems v by auto
qed simp

text \<open>
  C24: A field that is written from items of the six forms is parsed without an error, and its bits
  are the values that the items name.
\<close>

theorem cron_field_roundtrip:
  assumes "items \<noteq> []" and "list_all (itemOk lo hi) items" and "0 \<le> lo" and "hi \<le> 62"
  shows "\<exists>w. parseCronField (printField items) lo hi = Some (w, None)
    \<and> (\<forall>i. 0 \<le> i \<longrightarrow> hasBit w i \<longleftrightarrow> list_ex (itemHas lo hi i) items)"
proof -
  obtain w where w: "parseCronField (printField items) lo hi = Some (w, None)"
      "\<And>n. bit w n \<longleftrightarrow> list_ex (itemHas lo hi (int n)) items"
    using parseItems_printed[OF assms(2-4), of 0] split_printed[OF assms(1-3)] by (auto simp: parseCronField_def)
  have "hasBit w i \<longleftrightarrow> list_ex (itemHas lo hi i) items" if "0 \<le> i" for i
  proof (cases "i < 64")
    case True
    then have "hasBit w i \<longleftrightarrow> bit w (nat i)" using that
      by (simp add: hasBit_def shl_def and.commute[of "2 ^ nat i"] and_exp_eq_0_iff_not_bit)
    then show ?thesis using w(2)[of "nat i"] that by simp
  next
    case False
    have "\<not> itemHas lo hi i item" if "item \<in> set items" for item
      using that assms(2,4) False by (fastforce simp: list_all_iff itemOk_def itemHas_def split: prod.splits)
    then show ?thesis using False by (auto simp: hasBit_def shl_def list_ex_iff)
  qed
  then show ?thesis using w(1) by blast
qed

theorem cron_field_roundtrip_witness:
  "\<exists>w. parseCronField (printField [Single 5, SpanStep 10 20 4]) 0 59 = Some (w, None)
    \<and> (\<forall>i. 0 \<le> i \<longrightarrow> hasBit w i \<longleftrightarrow> list_ex (itemHas 0 59 i) [Single 5, SpanStep 10 20 4])"
  by (rule cron_field_roundtrip) (simp_all add: itemOk_def)

section \<open>The previous time\<close>

definition march31 :: CustomCronExpr where
  "march31 = \<lparr>ce_sec = 1, ce_min = 1, ce_hour = 1, ce_dom = 2 ^ 31, ce_month = 2 ^ 3, ce_dow = 127, ce_year = 2018\<rparr>"

lemma hasBit_power: "n < 64 \<Longrightarrow> hasBit (2 ^ n) i \<longleftrightarrow> i = int n"
  by (auto simp: hasBit_def shl_def and_exp_eq_0_iff_not_bit bit_exp_iff and.commute[of "2 ^ nat i"])

text \<open>Its loops over months and days, without words.\<close>

definition inMarch :: "int \<Rightarrow> bool" where "inMarch t \<longleftrightarrow> Month t = 3"
definition inDecember :: "int \<Rightarrow> bool" where "inDecember t \<longleftrightarrow> Month t = 12"
definition onDay31 :: "int \<Rightarrow> bool" where "onDay31 t \<longleftrightarrow> Day t = 31"

definition marchLoop :: level where
  "marchLoop = \<lparr>lv_match = inMarch, lv_floor = prevMonthFloor, lv_next = prevMonthStep, lv_first = inDecember\<rparr>"

definition day31Loop :: level where
  "day31Loop = \<lparr>lv_match = onDay31, lv_floor = prevDayFloor, lv_next = prevDayStep, lv_first = lastOfMonth\<rparr>"

lemma march31_loops: "prevMonthLoop march31 = marchLoop" "prevDayLoop march31 = day31Loop"
  using hasBit_power[of 3] hasBit_power[of 31]
  by (simp_all add: prevMonthLoop_def prevDayLoop_def marchLoop_def day31Loop_def march31_def fun_eq_iff
      inMarch_def inDecember_def onDay31_def matchDay_def)

lemma march31_steps:
  "fieldLoop marchLoop (Date 2018 5 14 23 59 59) False = Some (Date 2018 3 30 23 59 59, True, False)"
  "fieldLoop day31Loop (Date 2018 3 30 23 59 59) True = Some (Date 2018 2 28 23 59 59, True, True)"
  "fieldLoop marchLoop (Date 2018 2 28 23 59 59) True = Some (Date 2017 12 28 23 59 59, True, True)"
  by (rule fieldLoopUpTo_sound[of 40], code_simp)+

text \<open>
  Going back from a later month, Prev comes to 30 March by subtracting a month from 30 April, and
  never sees 31 March: on 15 May 2018 the expression for 31 March 2018 has no previous time.
\<close>

theorem prev_misses_last_day:
  "NewCustomCronExpr ''2018,3,31,0,0,0'' = (Some march31, None)
   \<and> matches march31 (Date 2018 3 31 0 0 0) \<and> Date 2018 3 31 0 0 0 < Date 2018 5 15 0 0 0
   \<and> Prev march31 (1000000000 * Date 2018 5 15 0 0 0) = Some None"
proof (intro conjI)
  show "NewCustomCronExpr ''2018,3,31,0,0,0'' = (Some march31, None)" by code_simp
  show "matches march31 (Date 2018 3 31 0 0 0)" by code_simp
  show "Date 2018 3 31 0 0 0 < Date 2018 5 15 0 0 0" by code_simp
  have "Date 2018 5 15 0 0 0 - 1 = Date 2018 5 14 23 59 59" by code_simp
  moreover have "Year (Date 2018 5 14 23 59 59) = 2018" "Year (Date 2018 2 28 23 59 59) = 2018"
      "Year (Date 2017 12 28 23 59 59) = 2017" by code_simp+
  then have "\<not> otherYear march31 (Date 2018 5 14 23 59 59)" "\<not> otherYear march31 (Date 2018 2 28 23 59 59)"
      "otherYear march31 (Date 2017 12 28 23 59 59)" by (simp_all add: otherYear_def march31_def MaxInt32_def)
  ultimately show "Prev march31 (1000000000 * Date 2018 5 15 0 0 0) = Some None"
    by (simp add: Prev_def march31_loops march31_steps searchFrom_again searchFrom_stops)
qed

end
