(* ===== verification/Timers.thy ===== *)
theory Timers
  imports Cron_Correct
begin

text \<open>
  common-library/timer/timer.go: the three kinds of timers as step relations. A step is what happens
  atomically: an operation of common-library/sync2/atomic on the flag, a section under the mutex, a
  receive from a channel, a call of the runtime. Goroutines are in a phase between two steps, and
  the number of actions begun is kept. A Stop that loses the race for the flag does nothing and is
  not a step. The action is any program; it returns in a step of its own.
\<close>

section \<open>The interface\<close>

text \<open>
  What the users of a TimerId rely on: the flag is cleared for good by the Stop that wins, and once
  it is cleared only an action that was already let through begins.
\<close>

locale timerId =
  fixes active :: "'s \<Rightarrow> bool" and stop :: "'s \<Rightarrow> 's" and runs :: "'s \<Rightarrow> nat" and let_through :: "'s \<Rightarrow> bool"
    and step :: "'s \<Rightarrow> 's \<Rightarrow> bool"
  assumes stop_clears: "\<not> active (stop s)"
    and stop_runs: "runs (stop s) = runs s" "let_through (stop s) = let_through s"
    and stays_clear: "step s s' \<Longrightarrow> \<not> active s \<Longrightarrow> \<not> active s'"
    and no_more: "step s s' \<Longrightarrow> \<not> active s \<Longrightarrow> runs s' + of_bool (let_through s') \<le> runs s + of_bool (let_through s)"
begin

lemma after_stop:
  assumes "step\<^sup>*\<^sup>* s s'" and "\<not> active s"
  shows "\<not> active s' \<and> runs s' + of_bool (let_through s') \<le> runs s + of_bool (let_through s)"
  using assms
proof (induction rule: rtranclp_induct)
  case (step s' s'')
  then show ?case using stays_clear no_more by (meson order_trans)
qed simp

lemma at_most_one_more: "step\<^sup>*\<^sup>* (stop s) s' \<Longrightarrow> runs s' \<le> runs s + of_bool (let_through s)"
  using after_stop[of "stop s" s'] stop_clears stop_runs by fastforce

end

text \<open>The compare-and-swap of \<open>atomic.Bool\<close>: the new value, and whether it was set.\<close>

definition SetToIf :: "bool \<Rightarrow> bool \<Rightarrow> bool \<Rightarrow> bool \<times> bool" where
  "SetToIf old new v = (if v = old then (new, True) else (v, False))"

section \<open>Once\<close>

record onceTimer =
  o_active :: bool
  o_pending :: bool
  o_fired :: bool
  o_stopping :: bool
  o_runs :: nat

definition RunAfter :: onceTimer where
  "RunAfter = \<lparr>o_active = True, o_pending = True, o_fired = False, o_stopping = False, o_runs = 0\<rparr>"

text \<open>The runtime starts the function in its own goroutine, which begins the action if the flag is still set.\<close>

definition onceFire :: "onceTimer \<Rightarrow> onceTimer" where
  "onceFire s = s\<lparr>o_pending := False, o_fired := True\<rparr>"

definition onceCallback :: "onceTimer \<Rightarrow> onceTimer" where
  "onceCallback s = (case SetToIf True False (o_active s) of
     (v, ok) \<Rightarrow> s\<lparr>o_fired := False, o_active := v, o_runs := o_runs s + of_bool ok\<rparr>)"

text \<open>Stop: the flag first, and the runtime's timer if the flag was set.\<close>

definition onceStop :: "onceTimer \<Rightarrow> onceTimer" where
  "onceStop s = (case SetToIf True False (o_active s) of (v, ok) \<Rightarrow> s\<lparr>o_active := v, o_stopping := o_stopping s \<or> ok\<rparr>)"

definition onceStopTimer :: "onceTimer \<Rightarrow> onceTimer" where
  "onceStopTimer s = s\<lparr>o_stopping := False, o_pending := False\<rparr>"

inductive onceStep :: "onceTimer \<Rightarrow> onceTimer \<Rightarrow> bool" where
  fire: "o_pending s \<Longrightarrow> onceStep s (onceFire s)"
| callback: "o_fired s \<Longrightarrow> onceStep s (onceCallback s)"
| stop: "o_active s \<Longrightarrow> onceStep s (onceStop s)"
| stopTimer: "o_stopping s \<Longrightarrow> onceStep s (onceStopTimer s)"

inductive_cases onceStepE: "onceStep s s'"

lemmas once_defs = onceFire_def onceCallback_def onceStop_def onceStopTimer_def SetToIf_def

interpretation once: timerId o_active onceStop o_runs "\<lambda>_. False" onceStep
  by unfold_locales (auto simp: once_defs elim!: onceStepE)

text \<open>The flag is cleared by the one action or by the one Stop that wins.\<close>

lemma once_step_counts:
  assumes "onceStep s s'" and "o_runs s \<le> 1" and "o_active s \<longrightarrow> o_runs s = 0"
  shows "o_runs s' \<le> 1 \<and> (o_active s' \<longrightarrow> o_runs s' = 0) \<and> o_runs s \<le> o_runs s'"
  using assms by (auto simp: once_defs elim!: onceStepE)

lemma once_reachable:
  "onceStep\<^sup>*\<^sup>* RunAfter s \<Longrightarrow> o_runs s \<le> 1 \<and> (o_active s \<longrightarrow> o_runs s = 0)"
  by (induction rule: rtranclp_induct) (auto simp: RunAfter_def dest: once_step_counts)

text \<open>
  However the runtime, the callback and Stops interleave, the action of RunAfter begins at most
  once; and a Stop that finds the timer active excludes it altogether, also when the timer has fired
  already.
\<close>

theorem once_at_most_once:
  assumes "onceStep\<^sup>*\<^sup>* RunAfter s"
  shows "o_runs s \<le> 1 \<and> (o_active s \<longrightarrow> (\<forall>s'. onceStep\<^sup>*\<^sup>* (onceStop s) s' \<longrightarrow> o_runs s' = 0))"
  using once_reachable[OF assms] once.at_most_one_more[of s] by fastforce

theorem once_at_most_once_witness: "o_runs (onceCallback (onceStop (onceFire RunAfter))) = 0"
proof -
  have "onceStep\<^sup>*\<^sup>* RunAfter (onceFire RunAfter)"
    by (rule r_into_rtranclp, rule onceStep.fire) (simp add: RunAfter_def)
  moreover have "onceStep (onceStop (onceFire RunAfter)) (onceCallback (onceStop (onceFire RunAfter)))"
    by (rule onceStep.callback) (simp add: RunAfter_def once_defs)
  ultimately show ?thesis using once_at_most_once[of "onceFire RunAfter"] by (auto simp: RunAfter_def onceFire_def)
qed

section \<open>Every interval\<close>

datatype stopPhase = NotStopped | Clearing | Closing | Stopped

datatype tickPhase = Waiting | Received | LetThrough | Acting | Ended

record periodTimer =
  p_active :: bool
  p_ticking :: bool
  p_tick :: bool
  p_closed :: bool
  p_phase :: tickPhase
  p_stop :: stopPhase
  p_runs :: nat

text \<open>\<open>time.NewTicker\<close> panics when the interval is not positive.\<close>

definition RunEvery :: "int \<Rightarrow> periodTimer option" where
  "RunEvery interval = (if interval \<le> 0 then None else Some
     \<lparr>p_active = True, p_ticking = True, p_tick = False, p_closed = False, p_phase = Waiting, p_stop = NotStopped, p_runs = 0\<rparr>)"

text \<open>The channel of a ticker holds one tick; ticks that find it full are dropped.\<close>

definition periodTick :: "periodTimer \<Rightarrow> periodTimer" where
  "periodTick s = s\<lparr>p_tick := True\<rparr>"

text \<open>The goroutine: a tick is received, the flag is read, the action runs; or the closed channel is received.\<close>

definition periodReceive :: "periodTimer \<Rightarrow> periodTimer" where
  "periodReceive s = s\<lparr>p_tick := False, p_phase := Received\<rparr>"

definition periodCheck :: "periodTimer \<Rightarrow> periodTimer" where
  "periodCheck s = s\<lparr>p_phase := (if p_active s then LetThrough else Waiting)\<rparr>"

definition periodAct :: "periodTimer \<Rightarrow> periodTimer" where
  "periodAct s = s\<lparr>p_phase := Acting, p_runs := p_runs s + 1\<rparr>"

definition periodActed :: "periodTimer \<Rightarrow> periodTimer" where
  "periodActed s = s\<lparr>p_phase := Waiting\<rparr>"

definition periodEnd :: "periodTimer \<Rightarrow> periodTimer" where
  "periodEnd s = s\<lparr>p_phase := Ended\<rparr>"

definition periodStop :: "periodTimer \<Rightarrow> periodTimer" where
  "periodStop s = (case SetToIf True False (p_active s) of
     (v, ok) \<Rightarrow> s\<lparr>p_active := v, p_stop := (if ok then Clearing else p_stop s)\<rparr>)"

definition periodStopTicker :: "periodTimer \<Rightarrow> periodTimer" where
  "periodStopTicker s = s\<lparr>p_ticking := False, p_stop := Closing\<rparr>"

definition periodClose :: "periodTimer \<Rightarrow> periodTimer" where
  "periodClose s = s\<lparr>p_closed := True, p_stop := Stopped\<rparr>"

inductive periodStep :: "periodTimer \<Rightarrow> periodTimer \<Rightarrow> bool" where
  tick: "p_ticking s \<Longrightarrow> periodStep s (periodTick s)"
| receive: "p_phase s = Waiting \<Longrightarrow> p_tick s \<Longrightarrow> periodStep s (periodReceive s)"
| check: "p_phase s = Received \<Longrightarrow> periodStep s (periodCheck s)"
| act: "p_phase s = LetThrough \<Longrightarrow> periodStep s (periodAct s)"
| acted: "p_phase s = Acting \<Longrightarrow> periodStep s (periodActed s)"
| ended: "p_phase s = Waiting \<Longrightarrow> p_closed s \<Longrightarrow> periodStep s (periodEnd s)"
| stop: "p_active s \<Longrightarrow> periodStep s (periodStop s)"
| stopTicker: "p_stop s = Clearing \<Longrightarrow> periodStep s (periodStopTicker s)"
| close: "p_stop s = Closing \<Longrightarrow> periodStep s (periodClose s)"

inductive_cases periodStepE: "periodStep s s'"

lemmas period_defs = periodTick_def periodReceive_def periodCheck_def periodAct_def periodActed_def
  periodEnd_def periodStop_def periodStopTicker_def periodClose_def SetToIf_def

interpretation period: timerId p_active periodStop p_runs "\<lambda>s. p_phase s = LetThrough" periodStep
  by unfold_locales (auto simp: period_defs elim!: periodStepE)

text \<open>The parts agree: the flag, the ticker and the channel are closed in this order, each once.\<close>

definition periodOk :: "periodTimer \<Rightarrow> bool" where
  "periodOk s \<longleftrightarrow> (p_active s \<longleftrightarrow> p_stop s = NotStopped) \<and> (p_ticking s \<longleftrightarrow> p_stop s \<in> {NotStopped, Clearing})
     \<and> (p_closed s \<longleftrightarrow> p_stop s = Stopped) \<and> (p_phase s = Ended \<longrightarrow> p_closed s)"

lemma periodOk_step: "periodStep s s' \<Longrightarrow> periodOk s \<Longrightarrow> periodOk s'"
  by (cases "p_stop s"; erule periodStepE; auto simp: periodOk_def period_defs)

lemma period_reachable:
  assumes "RunEvery interval = Some s\<^sub>0" and "periodStep\<^sup>*\<^sup>* s\<^sub>0 s"
  shows "periodOk s"
  using assms(2)
proof (induction rule: rtranclp_induct)
  case base
  then show ?case using assms(1) by (auto simp: RunEvery_def periodOk_def split: if_splits)
next
  case (step s s')
  then show ?case using periodOk_step by blast
qed

text \<open>What is left to do once Stop has come through.\<close>

fun phaseLeft :: "tickPhase \<Rightarrow> nat" where
  "phaseLeft Ended = 0" | "phaseLeft Waiting = 1" | "phaseLeft Acting = 2" | "phaseLeft LetThrough = 3" | "phaseLeft Received = 2"

definition periodLeft :: "periodTimer \<Rightarrow> nat" where
  "periodLeft s = phaseLeft (p_phase s) + (if p_tick s then 2 else 0)"

lemma period_stopped_step:
  assumes "periodStep s s'" and "periodOk s" and "p_stop s = Stopped"
  shows "periodOk s' \<and> p_stop s' = Stopped \<and> periodLeft s' < periodLeft s"
  using assms by (auto simp: periodOk_def period_defs periodLeft_def elim!: periodStepE)

lemma period_stopped_steps:
  "(periodStep ^^ n) s s' \<Longrightarrow> periodOk s \<Longrightarrow> p_stop s = Stopped \<Longrightarrow>
     periodOk s' \<and> p_stop s' = Stopped \<and> n + periodLeft s' \<le> periodLeft s"
proof (induction n arbitrary: s')
  case (Suc n)
  then obtain m where "(periodStep ^^ n) s m" "periodStep m s'" by auto
  then show ?case using Suc.IH[of m] Suc.prems period_stopped_step[of m s'] by auto
qed simp

lemma periodLeft_le: "periodLeft s \<le> 5"
  by (cases "p_phase s") (auto simp: periodLeft_def)

text \<open>
  C27: After a Stop that wins, RunEvery begins at most the one action that had been let through. When
  Stop has returned, at most five more steps are possible, whatever is chosen, and they end with
  the goroutine having returned: it neither leaks nor ticks on.
\<close>

theorem period_stops:
  assumes "RunEvery interval = Some s\<^sub>0" and "periodStep\<^sup>*\<^sup>* s\<^sub>0 s"
  shows "(periodStep\<^sup>*\<^sup>* (periodStop s) s' \<longrightarrow> p_runs s' \<le> p_runs s + of_bool (p_phase s = LetThrough))
    \<and> (p_stop s = Stopped \<and> (periodStep ^^ n) s s' \<longrightarrow> n \<le> 5 \<and> (p_phase s' = Ended \<or> (\<exists>s''. periodStep s' s'')))"
proof (intro conjI impI)
  show "p_runs s' \<le> p_runs s + of_bool (p_phase s = LetThrough)" if "periodStep\<^sup>*\<^sup>* (periodStop s) s'"
    using that by (rule period.at_most_one_more)
  assume "p_stop s = Stopped \<and> (periodStep ^^ n) s s'"
  then have s': "periodOk s'" "p_stop s' = Stopped" "n \<le> 5"
    using period_stopped_steps[of n s s'] period_reachable[OF assms] periodLeft_le[of s] by auto
  then show "n \<le> 5" "p_phase s' = Ended \<or> (\<exists>s''. periodStep s' s'')"
    by (simp, cases "p_phase s'") (auto simp: periodOk_def intro: periodStep.intros)
qed

definition stoppedPeriod :: periodTimer where
  "stoppedPeriod = periodClose (periodStopTicker (periodStop (the (RunEvery 1))))"

lemma stoppedPeriod_reached: "periodStep\<^sup>*\<^sup>* (the (RunEvery 1)) stoppedPeriod"
proof -
  let ?s = "the (RunEvery 1)"
  have a: "periodStep ?s (periodStop ?s)" by (rule periodStep.stop) (simp add: RunEvery_def)
  have b: "periodStep (periodStop ?s) (periodStopTicker (periodStop ?s))"
    by (rule periodStep.stopTicker) (simp add: RunEvery_def period_defs)
  have c: "periodStep (periodStopTicker (periodStop ?s)) stoppedPeriod"
    unfolding stoppedPeriod_def by (rule periodStep.close) (simp add: RunEvery_def period_defs)
  show ?thesis
    by (rule converse_rtranclp_into_rtranclp[of periodStep, OF a converse_rtranclp_into_rtranclp[of periodStep, OF b r_into_rtranclp[of periodStep, OF c]]])
qed

theorem period_stops_witness:
  "p_phase (periodEnd stoppedPeriod) = Ended \<or> (\<exists>s''. periodStep (periodEnd stoppedPeriod) s'')"
proof -
  have s: "p_stop stoppedPeriod = Stopped" "p_phase stoppedPeriod = Waiting" "p_closed stoppedPeriod"
    by (simp_all add: stoppedPeriod_def RunEvery_def period_defs)
  then have "(periodStep ^^ 1) stoppedPeriod (periodEnd stoppedPeriod)" using periodStep.ended relpowp_1 by metis
  moreover have "RunEvery 1 = Some (the (RunEvery 1))" by (simp add: RunEvery_def)
  ultimately show ?thesis using period_stops[OF _ stoppedPeriod_reached, of 1 "periodEnd stoppedPeriod" 1] s(1) by blast
qed

section \<open>Cron expressions\<close>

text \<open>
  A firing is the time at which the next time was computed, and that next time. The function runs
  through the phases below; it is started by one runtime timer at a time.
\<close>

datatype cronPhase =
    Idle | Fired "int \<times> int" | Passed "int \<times> int" | InAction "int \<times> int" | Rearm "int \<times> int" | Arming "int \<times> int" | Giving_up

text \<open>
  \<open>c_armed\<close> is the runtime timer that is pending, with its number, and \<open>c_t\<close> the number of the one that
  the field \<open>t\<close> points to. The clock is in nanoseconds. \<open>c_runs\<close> are the firings whose action began,
  with the clock then, the newest first.
\<close>

record cronTimer =
  c_active :: bool
  c_clock :: int
  c_armed :: "(nat \<times> int \<times> int) option"
  c_t :: "nat option"
  c_created :: nat
  c_assigned :: bool
  c_phase :: cronPhase
  c_stop :: stopPhase
  c_runs :: "((int \<times> int) \<times> int) list"

text \<open>Up to the first AfterFunc; with no next time the timer is made inactive and nothing is started.\<close>

definition startCron :: "int \<Rightarrow> int option \<Rightarrow> cronTimer" where
  "startCron now n = \<lparr>c_active = (n \<noteq> None), c_clock = now, c_armed = map_option (\<lambda>n. (0, now, n)) n, c_t = None,
     c_created = (if n = None then 0 else 1), c_assigned = (n = None), c_phase = Idle,
     c_stop = (if n = None then Stopped else NotStopped), c_runs = []\<rparr>"

text \<open>
  A parse error is only logged: without an expression, Next panics (Some None), else it runs on what
  was parsed. None: the search for the next time does not end.
\<close>

definition Cron :: "string \<Rightarrow> int \<Rightarrow> cronTimer option option" where
  "Cron expr now = (case NewCronExpr expr of
     None \<Rightarrow> None
   | Some (None, _) \<Rightarrow> Some None
   | Some (Some e, _) \<Rightarrow> map_option (\<lambda>n. Some (startCron now n)) (Next e now))"

definition Customcron :: "string \<Rightarrow> int \<Rightarrow> cronTimer option option" where
  "Customcron expr now = (case fst (NewCustomCronExpr expr) of
     None \<Rightarrow> Some None
   | Some e \<Rightarrow> map_option (\<lambda>n. Some (startCron now n)) (customNext e now))"

definition cronAssign :: "cronTimer \<Rightarrow> cronTimer" where
  "cronAssign s = s\<lparr>c_t := Some 0, c_assigned := True\<rparr>"

definition cronFire :: "int \<times> int \<Rightarrow> cronTimer \<Rightarrow> cronTimer" where
  "cronFire f s = s\<lparr>c_armed := None, c_phase := Fired f\<rparr>"

definition cronCheck :: "int \<times> int \<Rightarrow> cronTimer \<Rightarrow> cronTimer" where
  "cronCheck f s = s\<lparr>c_phase := (if c_active s then Passed f else Idle)\<rparr>"

definition cronAct :: "int \<times> int \<Rightarrow> cronTimer \<Rightarrow> cronTimer" where
  "cronAct f s = s\<lparr>c_phase := InAction f, c_runs := (f, c_clock s) # c_runs s\<rparr>"

text \<open>The action has returned: the next time is computed from the clock.\<close>

definition cronActed :: "int option \<Rightarrow> cronTimer \<Rightarrow> cronTimer" where
  "cronActed n s = s\<lparr>c_phase := (case n of None \<Rightarrow> Giving_up | Some n \<Rightarrow> Rearm (c_clock s, n))\<rparr>"

text \<open>Under the mutex, the flag is read again, and then the runtime timer started.\<close>

definition cronLock :: "int \<times> int \<Rightarrow> cronTimer \<Rightarrow> cronTimer" where
  "cronLock f s = s\<lparr>c_phase := (if c_active s then Arming f else Idle)\<rparr>"

definition cronArm :: "int \<times> int \<Rightarrow> cronTimer \<Rightarrow> cronTimer" where
  "cronArm f s = s\<lparr>c_armed := Some (c_created s, f), c_t := Some (c_created s), c_created := c_created s + 1, c_phase := Idle\<rparr>"

definition cronStop :: "cronTimer \<Rightarrow> cronTimer" where
  "cronStop s = (case SetToIf True False (c_active s) of
     (v, ok) \<Rightarrow> s\<lparr>c_active := v, c_stop := (if ok then Clearing else c_stop s)\<rparr>)"

definition cronGiveUp :: "cronTimer \<Rightarrow> cronTimer" where
  "cronGiveUp s = (cronStop s)\<lparr>c_phase := Idle\<rparr>"

text \<open>The section of Stop under the mutex: the runtime timer that the field points to is stopped.\<close>

definition cronStopTimer :: "cronTimer \<Rightarrow> cronTimer" where
  "cronStopTimer s = s\<lparr>c_armed := (if map_option fst (c_armed s) = c_t s then None else c_armed s),
     c_t := None, c_stop := Stopped\<rparr>"

inductive cronStep :: "(int \<Rightarrow> int option option) \<Rightarrow> cronTimer \<Rightarrow> cronTimer \<Rightarrow> bool" for nxt where
  clock: "c_clock s \<le> now \<Longrightarrow> cronStep nxt s (s\<lparr>c_clock := now\<rparr>)"
| assign: "\<not> c_assigned s \<Longrightarrow> cronStep nxt s (cronAssign s)"
| fire: "c_armed s = Some (i, f) \<Longrightarrow> 1000000000 * snd f \<le> c_clock s \<Longrightarrow> cronStep nxt s (cronFire f s)"
| check: "c_phase s = Fired f \<Longrightarrow> cronStep nxt s (cronCheck f s)"
| act: "c_phase s = Passed f \<Longrightarrow> cronStep nxt s (cronAct f s)"
| acted: "c_phase s = InAction f \<Longrightarrow> nxt (c_clock s) = Some n \<Longrightarrow> cronStep nxt s (cronActed n s)"
| lock: "c_phase s = Rearm f \<Longrightarrow> cronStep nxt s (cronLock f s)"
| arm: "c_phase s = Arming f \<Longrightarrow> cronStep nxt s (cronArm f s)"
| giveUp: "c_phase s = Giving_up \<Longrightarrow> cronStep nxt s (cronGiveUp s)"
| stop: "c_active s \<Longrightarrow> c_assigned s \<Longrightarrow> cronStep nxt s (cronStop s)"
| stopTimer: "c_stop s = Clearing \<Longrightarrow> \<forall>f. c_phase s \<noteq> Arming f \<Longrightarrow> cronStep nxt s (cronStopTimer s)"

inductive_cases cronStepE: "cronStep nxt s s'"

lemmas cron_defs = cronAssign_def cronFire_def cronCheck_def cronAct_def cronActed_def cronLock_def cronArm_def
  cronStop_def cronGiveUp_def cronStopTimer_def SetToIf_def

definition cronPassed :: "cronTimer \<Rightarrow> bool" where
  "cronPassed s \<longleftrightarrow> (case c_phase s of Passed f \<Rightarrow> True | _ \<Rightarrow> False)"

interpretation cron: timerId c_active cronStop "\<lambda>s. length (c_runs s)" cronPassed "cronStep nxt"
  by unfold_locales (auto simp: cron_defs cronPassed_def split: option.splits elim!: cronStepE)

text \<open>What is to be fired next, and the invariant of what was fired.\<close>

fun firing :: "cronPhase \<Rightarrow> (nat \<times> int \<times> int) option \<Rightarrow> (int \<times> int) option" where
  "firing Idle armed = map_option snd armed"
| "firing (Fired f) armed = Some f"
| "firing (Passed f) armed = Some f"
| "firing (InAction f) armed = None"
| "firing (Rearm f) armed = Some f"
| "firing (Arming f) armed = Some f"
| "firing Giving_up armed = None"

definition firstMatch :: "(int \<Rightarrow> bool) \<Rightarrow> int \<times> int \<Rightarrow> bool" where
  "firstMatch P f \<longleftrightarrow> P (snd f) \<and> none_match P (upcoming (fst f)) (snd f)"

definition cronOk :: "(int \<Rightarrow> bool) \<Rightarrow> cronTimer \<Rightarrow> bool" where
  "cronOk P s \<longleftrightarrow> (\<forall>f. firing (c_phase s) (c_armed s) = Some f \<longrightarrow>
        firstMatch P f \<and> fst f \<le> c_clock s \<and> (\<forall>r \<in> set (c_runs s). snd r \<le> fst f))
     \<and> (\<forall>f. c_phase s = Fired f \<or> c_phase s = Passed f \<longrightarrow> 1000000000 * snd f \<le> c_clock s)
     \<and> (c_armed s \<noteq> None \<longrightarrow> c_phase s = Idle)
     \<and> (\<forall>r \<in> set (c_runs s). firstMatch P (fst r) \<and> 1000000000 * snd (fst r) \<le> snd r \<and> snd r \<le> c_clock s)
     \<and> sorted_wrt (\<lambda>r' r. snd r \<le> fst (fst r')) (c_runs s)"

lemma cronOk_step:
  assumes "cronStep nxt s s'" and "\<And>now n. nxt now = Some (Some n) \<Longrightarrow> firstMatch P (now, n)" and "cronOk P s"
  shows "cronOk P s'"
  using assms(1)
proof (cases rule: cronStep.cases)
  case (clock now)
  then show ?thesis using assms(3) unfolding cronOk_def by fastforce
next
  case (acted f n)
  then show ?thesis using assms(2)[of "c_clock s"] assms(3) by (cases n) (auto simp: cronOk_def cron_defs)
next
  case (fire i f)
  then show ?thesis using assms(3) by (cases f) (simp add: cronOk_def cron_defs)
next
  case stopTimer
  then show ?thesis using assms(3) by (cases "c_phase s"; simp add: cronOk_def cron_defs)
qed (use assms(3) in \<open>auto simp: cronOk_def cron_defs\<close>)

lemma cronOk_reached:
  assumes "(cronStep nxt)\<^sup>*\<^sup>* (startCron now n) s" and "nxt now = Some n"
    and "\<And>now n. nxt now = Some (Some n) \<Longrightarrow> firstMatch P (now, n)"
  shows "cronOk P s"
  using assms(1)
proof (induction rule: rtranclp_induct)
  case base
  then show ?case using assms(2,3) by (cases n) (simp_all add: cronOk_def startCron_def)
next
  case (step s s')
  show ?case by (rule cronOk_step[OF step.hyps(2) assms(3) step.IH])
qed

text \<open>A run after the clock of another is for a later second.\<close>

lemma later_second:
  assumes "firstMatch P f'" and "1000000000 * n \<le> c" and "c \<le> fst f'"
  shows "n < snd f'"
proof -
  have "1000000000 * n \<le> fst f'" using assms(2,3) by simp
  then have "n \<le> fst f' div 1000000000" using zdiv_mono1[of "1000000000 * n" "fst f'" 1000000000] by simp
  then show ?thesis using assms(1) by (simp add: firstMatch_def none_match_def upcoming_def)
qed

lemma Next_firstMatch:
  assumes "Next e now = Some (Some n)"
  shows "firstMatch (matches e) (now, n)"
proof -
  have r: "searchFrom (\<lambda>t. Year (upcoming now) + 1 < Year t) (cronLoops e) (upcoming now) False = Some (Some n)"
    using assms by (simp add: Next_def Let_def)
  have "found (\<lambda>t. Year (upcoming now) + 1 < Year t) (matches e) (upcoming now) (Some n)"
    using cron_search[OF r] by simp
  then show ?thesis by (simp add: found_def firstMatch_def)
qed

lemma customNext_firstMatch: "customNext e now = Some (Some n) \<Longrightarrow> firstMatch (matches e) (now, n)"
  by (drule customNext_found) (simp add: found_def firstMatch_def)

text \<open>The runs of an expression's action, the newest first: each for the second that is due, and each second once.\<close>

definition runsInTime :: "'a CronExpr_scheme \<Rightarrow> ((int \<times> int) \<times> int) list \<Rightarrow> bool" where
  "runsInTime e rs \<longleftrightarrow>
     (\<forall>((now, n), c) \<in> set rs. matches e n \<and> none_match (matches e) (upcoming now) n \<and> 1000000000 * n \<le> c)
   \<and> sorted_wrt (\<lambda>((now', n'), _) ((now, n), c). c \<le> now' \<and> n < n') rs"

lemma runsInTime_reached:
  assumes "(cronStep nxt)\<^sup>*\<^sup>* (startCron now n) s" and "nxt now = Some n"
    and "\<And>now n. nxt now = Some (Some n) \<Longrightarrow> firstMatch (matches e) (now, n)"
  shows "runsInTime e (c_runs s)"
proof -
  have ok: "cronOk (matches e) s" by (rule cronOk_reached[OF assms])
  have "sorted_wrt (\<lambda>r' r. snd r \<le> fst (fst r') \<and> snd (fst r) < snd (fst r')) (c_runs s)"
  proof (rule sorted_wrt_mono_rel[rotated])
    show "sorted_wrt (\<lambda>r' r. snd r \<le> fst (fst r')) (c_runs s)" using ok by (simp add: cronOk_def)
    fix r' r assume "r' \<in> set (c_runs s)" "r \<in> set (c_runs s)" "snd r \<le> fst (fst r')"
    then show "snd r \<le> fst (fst r') \<and> snd (fst r) < snd (fst r')"
      using ok later_second[of "matches e" "fst r'" "snd (fst r)" "snd r"] by (auto simp: cronOk_def)
  qed
  then show ?thesis using ok by (auto simp: runsInTime_def cronOk_def firstMatch_def case_prod_unfold)
qed


definition everySecond :: CronExpr where
  "everySecond = \<lparr>ce_sec = 0xfffffffffffffff, ce_min = 0xfffffffffffffff, ce_hour = 0xffffff, ce_dom = 0xfffffffe,
     ce_month = 0x1ffe, ce_dow = 0x7f\<rparr>"

lemma everySecond_parsed: "NewCronExpr ''* * * * * *'' = Some (Some everySecond, None)"
  by code_simp

lemma everySecond_next: "Next everySecond 0 = Some (Some 1)"
proof -
  have "hasBit (ce_month everySecond) (Month 1)" "matchDay everySecond 1" "hasBit (ce_hour everySecond) (Hour 1)"
    "hasBit (ce_min everySecond) (Minute 1)" "hasBit (ce_sec everySecond) (Second 1)" by code_simp+
  then show ?thesis
    by (simp add: Next_def upcoming_def cronLoops_def searchFrom.simps fieldLoop.simps
        monthLoop_def dayLoop_def hourLoop_def minuteLoop_def secondLoop_def)
qed


lemma customcron_runs_in_time:
  assumes "fst (NewCustomCronExpr expr) = Some e" and "Customcron expr now = Some (Some s\<^sub>0)"
    and "(cronStep (customNext e))\<^sup>*\<^sup>* s\<^sub>0 s"
  shows "runsInTime e (c_runs s)"
proof -
  obtain n where "s\<^sub>0 = startCron now n" "customNext e now = Some n" using assms(1,2) by (auto simp: Customcron_def)
  then show ?thesis using runsInTime_reached[of "customNext e" now n s e] assms(3) customNext_firstMatch by blast
qed

text \<open>
  The field is first written without the mutex: when the function has come round before, the field
  then names the timer that has fired, and Stop leaves the new one running. It fires into nothing.
\<close>

lemma stop_leaves_timer:
  assumes "nxt now = Some (Some n)" and "now \<le> 1000000000 * n" and "nxt (1000000000 * n) = Some (Some n')"
  shows "\<exists>s. (cronStep nxt)\<^sup>*\<^sup>* (startCron now (Some n)) s \<and> c_stop s = Stopped \<and> c_armed s \<noteq> None"
proof -
  let ?f = "(now, n)" and ?f' = "(1000000000 * n, n')" and ?s = "startCron now (Some n)"
  let ?due = "?s\<lparr>c_clock := 1000000000 * n\<rparr>"
  let ?acting = "cronAct ?f (cronCheck ?f (cronFire ?f ?due))"
  let ?armed = "cronArm ?f' (cronLock ?f' (cronActed (Some n') ?acting))"
  note defs = cron_defs startCron_def
  have "(cronStep nxt)\<^sup>*\<^sup>* ?s ?due"
    using r_into_rtranclp[of "cronStep nxt", OF cronStep.clock[of ?s "1000000000 * n"]] assms(2) by (simp add: startCron_def)
  moreover have "cronStep nxt ?due (cronFire ?f ?due)" by (rule cronStep.fire) (simp_all add: defs)
  moreover have "cronStep nxt (cronFire ?f ?due) (cronCheck ?f (cronFire ?f ?due))" by (rule cronStep.check) (simp add: defs)
  moreover have "cronStep nxt (cronCheck ?f (cronFire ?f ?due)) ?acting" by (rule cronStep.act) (simp add: defs)
  moreover have "cronStep nxt ?acting (cronActed (Some n') ?acting)"
    by (rule cronStep.acted[of _ ?f]) (simp_all add: defs assms(3))
  moreover have "cronStep nxt (cronActed (Some n') ?acting) (cronLock ?f' (cronActed (Some n') ?acting))"
    by (rule cronStep.lock) (simp add: defs)
  moreover have "cronStep nxt (cronLock ?f' (cronActed (Some n') ?acting)) ?armed" by (rule cronStep.arm) (simp add: defs)
  moreover have "cronStep nxt ?armed (cronAssign ?armed)" by (rule cronStep.assign) (simp add: defs)
  moreover have "cronStep nxt (cronAssign ?armed) (cronStop (cronAssign ?armed))" by (rule cronStep.stop) (simp_all add: defs)
  moreover have "cronStep nxt (cronStop (cronAssign ?armed)) (cronStopTimer (cronStop (cronAssign ?armed)))"
    by (rule cronStep.stopTimer) (simp_all add: defs)
  ultimately have "(cronStep nxt)\<^sup>*\<^sup>* ?s (cronStopTimer (cronStop (cronAssign ?armed)))" by (meson rtranclp.rtrancl_into_rtrancl)
  moreover have "c_stop (cronStopTimer (cronStop (cronAssign ?armed))) = Stopped"
    "c_armed (cronStopTimer (cronStop (cronAssign ?armed))) \<noteq> None" by (simp_all add: defs)
  ultimately show ?thesis by blast
qed

end
