(* ===== verification/STimer.thy ===== *)
theory STimer
  imports Timers
begin

text \<open>
  common-library/stimer/stimer.go: the table of timers by number, over the three kinds of timers of
  Timers. Sections under the table's mutex are steps; a timer's own steps happen in between.
\<close>

datatype anyTimer = OnceTimer onceTimer | PeriodTimer periodTimer | CronTimer cronTimer

fun anyStop :: "anyTimer \<Rightarrow> anyTimer" where
  "anyStop (OnceTimer t) = OnceTimer (onceStop t)"
| "anyStop (PeriodTimer t) = PeriodTimer (periodStop t)"
| "anyStop (CronTimer t) = CronTimer (cronStop t)"

fun anyActive :: "anyTimer \<Rightarrow> bool" where
  "anyActive (OnceTimer t) = o_active t"
| "anyActive (PeriodTimer t) = p_active t"
| "anyActive (CronTimer t) = c_active t"

fun anyRuns :: "anyTimer \<Rightarrow> nat" where
  "anyRuns (OnceTimer t) = o_runs t"
| "anyRuns (PeriodTimer t) = p_runs t"
| "anyRuns (CronTimer t) = length (c_runs t)"

fun anyPassed :: "anyTimer \<Rightarrow> bool" where
  "anyPassed (OnceTimer t) = False"
| "anyPassed (PeriodTimer t) = (p_phase t = LetThrough)"
| "anyPassed (CronTimer t) = cronPassed t"

text \<open>Whether the function of the package timer that makes the timer has returned.\<close>

fun anyReturned :: "anyTimer \<Rightarrow> bool" where
  "anyReturned (OnceTimer t) = True"
| "anyReturned (PeriodTimer t) = True"
| "anyReturned (CronTimer t) = c_assigned t"

inductive anyStep :: "anyTimer \<Rightarrow> anyTimer \<Rightarrow> bool" where
  once: "onceStep t t' \<Longrightarrow> anyStep (OnceTimer t) (OnceTimer t')"
| period: "periodStep t t' \<Longrightarrow> anyStep (PeriodTimer t) (PeriodTimer t')"
| cron: "cronStep nxt t t' \<Longrightarrow> anyStep (CronTimer t) (CronTimer t')"

inductive_cases anyStepE: "anyStep t t'"

interpretation anyTimer: timerId anyActive anyStop anyRuns anyPassed anyStep
proof
  fix t t' assume "anyStep t t'" "\<not> anyActive t"
  then show "\<not> anyActive t'" "anyRuns t' + of_bool (anyPassed t') \<le> anyRuns t + of_bool (anyPassed t)"
    using once.stays_clear once.no_more period.stays_clear period.no_more cron.stays_clear cron.no_more
    by (fastforce elim!: anyStepE)+
next
  fix t show "\<not> anyActive (anyStop t)" "anyRuns (anyStop t) = anyRuns t" "anyPassed (anyStop t) = anyPassed t"
    using once.stop_clears once.stop_runs period.stop_clears period.stop_runs cron.stop_clears cron.stop_runs
    by (cases t; simp)+
qed

text \<open>A timer as it is made by the package timer. RunEvery and Cron may panic; then nothing is made.\<close>

inductive newTimer :: "anyTimer \<Rightarrow> bool" where
  "newTimer (OnceTimer RunAfter)"
| "RunEvery interval = Some t \<Longrightarrow> newTimer (PeriodTimer t)"
| "Cron expr now = Some (Some t) \<Longrightarrow> newTimer (CronTimer t)"
| "Customcron expr now = Some (Some t) \<Longrightarrow> newTimer (CronTimer t)"

text \<open>
  The timers in the order they were made, and the number each was made under. Between two sections
  a timer waits to be entered into the table, to be removed by its own function after the action
  (RunAfter), or to be stopped by StopTimer; \<open>removed\<close> are those whose function has removed.
\<close>

record sTimer =
  globalId :: int
  timersMap :: "int \<Rightarrow> nat option"
  timers :: "anyTimer list"
  numbers :: "int list"
  entering :: "nat set"
  removed :: "nat set"
  stopping :: "nat set"

definition Instance :: sTimer where
  "Instance = \<lparr>globalId = 0, timersMap = Map.empty, timers = [], numbers = [], entering = {}, removed = {}, stopping = {}\<rparr>"

definition makeTimer :: "anyTimer \<Rightarrow> sTimer \<Rightarrow> sTimer" where
  "makeTimer t s = (let i = wrap64 (globalId s + 1) in
     s\<lparr>globalId := i, timers := timers s @ [t], numbers := numbers s @ [i], entering := insert (length (timers s)) (entering s)\<rparr>)"

definition enterTimer :: "nat \<Rightarrow> sTimer \<Rightarrow> sTimer" where
  "enterTimer h s = s\<lparr>timersMap := (timersMap s)(numbers s ! h \<mapsto> h), entering := entering s - {h}\<rparr>"

definition stopIn :: "nat \<Rightarrow> sTimer \<Rightarrow> sTimer" where
  "stopIn h s = s\<lparr>timers := (timers s)[h := anyStop (timers s ! h)]\<rparr>"

definition removeTimer :: "nat \<Rightarrow> sTimer \<Rightarrow> sTimer" where
  "removeTimer h s = (let i = numbers s ! h; s' = (case timersMap s i of Some v \<Rightarrow> stopIn v s | None \<Rightarrow> s) in
     s'\<lparr>timersMap := (timersMap s)(i := None), removed := insert h (removed s)\<rparr>)"

definition StopTimer :: "int \<Rightarrow> sTimer \<Rightarrow> sTimer" where
  "StopTimer i s = s\<lparr>timersMap := (timersMap s)(i := None),
     stopping := (case timersMap s i of Some h \<Rightarrow> insert h (stopping s) | None \<Rightarrow> stopping s)\<rparr>"

definition stopFound :: "nat \<Rightarrow> sTimer \<Rightarrow> sTimer" where
  "stopFound h s = (stopIn h s)\<lparr>stopping := stopping s - {h}\<rparr>"

inductive sTimerStep :: "sTimer \<Rightarrow> sTimer \<Rightarrow> bool" where
  made: "newTimer t \<Longrightarrow> sTimerStep s (makeTimer t s)"
| enter: "h \<in> entering s \<Longrightarrow> anyReturned (timers s ! h) \<Longrightarrow> sTimerStep s (enterTimer h s)"
| own: "h < length (timers s) \<Longrightarrow> anyStep (timers s ! h) t \<Longrightarrow> sTimerStep s (s\<lparr>timers := (timers s)[h := t]\<rparr>)"
| remove: "h < length (timers s) \<Longrightarrow> timers s ! h = OnceTimer t \<Longrightarrow> 0 < o_runs t \<Longrightarrow> h \<notin> removed s \<Longrightarrow>
    sTimerStep s (removeTimer h s)"
| stopped: "sTimerStep s (StopTimer i s)"
| found: "h \<in> stopping s \<Longrightarrow> sTimerStep s (stopFound h s)"

inductive_cases sTimerStepE: "sTimerStep s s'"

text \<open>Numbers count up and name one timer for ever.\<close>

definition sTimerOk :: "sTimer \<Rightarrow> bool" where
  "sTimerOk s \<longleftrightarrow> length (numbers s) = length (timers s)
     \<and> (length (timers s) < 2 ^ 63 \<longrightarrow> globalId s = int (length (timers s)) \<and> (\<forall>h < length (timers s). numbers s ! h = int h + 1))
     \<and> (\<forall>i h. timersMap s i = Some h \<longrightarrow> h < length (timers s) \<and> numbers s ! h = i)
     \<and> (\<forall>h \<in> entering s \<union> stopping s. h < length (timers s))"

lemma stopIn_simps [simp]:
  "globalId (stopIn h s) = globalId s" "timersMap (stopIn h s) = timersMap s" "numbers (stopIn h s) = numbers s"
  "entering (stopIn h s) = entering s" "stopping (stopIn h s) = stopping s" "removed (stopIn h s) = removed s"
  "length (timers (stopIn h s)) = length (timers s)"
  by (simp_all add: stopIn_def)

lemma removeTimer_simps [simp]:
  "globalId (removeTimer h s) = globalId s" "timersMap (removeTimer h s) = (timersMap s)(numbers s ! h := None)"
  "numbers (removeTimer h s) = numbers s" "entering (removeTimer h s) = entering s"
  "stopping (removeTimer h s) = stopping s" "length (timers (removeTimer h s)) = length (timers s)"
  by (simp_all add: removeTimer_def Let_def split: option.splits)

lemma sTimerOk_step:
  assumes "sTimerStep s s'" and ok: "sTimerOk s"
  shows "sTimerOk s'"
  using assms(1)
proof (cases rule: sTimerStep.cases)
  case (made t)
  have "wrap64 (int (length (timers s)) + 1) = int (length (timers s)) + 1" if "length (timers s) + 1 < 2 ^ 63"
    using that by (simp add: int64_def)
  then show ?thesis using ok made
    by (auto simp: sTimerOk_def makeTimer_def Let_def nth_append less_Suc_eq split: if_splits)
qed (use ok in \<open>auto simp: sTimerOk_def enterTimer_def StopTimer_def stopFound_def split: option.splits if_splits\<close>)

lemma sTimerOk_reached: "sTimerStep\<^sup>*\<^sup>* Instance s \<Longrightarrow> sTimerOk s"
  by (induction rule: rtranclp_induct) (simp add: Instance_def sTimerOk_def, rule sTimerOk_step)

text \<open>A timer that is not active begins no more than what was let through, whatever the table does.\<close>

lemma anyStop_inactive: "\<not> anyActive t \<Longrightarrow> anyStop t = t"
  by (cases t) (simp_all add: onceStop_def periodStop_def cronStop_def SetToIf_def)

lemma stopIn_timer:
  assumes "\<not> anyActive (timers s ! h)"
  shows "timers (stopIn v s) ! h = timers s ! h"
  using anyStop_inactive[OF assms] by (cases "v = h"; cases "h < length (timers s)") (simp_all add: stopIn_def)

definition inactive :: "nat \<Rightarrow> nat \<Rightarrow> sTimer \<Rightarrow> bool" where
  "inactive h n s \<longleftrightarrow> h < length (timers s) \<and> \<not> anyActive (timers s ! h)
     \<and> anyRuns (timers s ! h) + of_bool (anyPassed (timers s ! h)) \<le> n"

lemma inactive_step:
  assumes "sTimerStep s s'" and h: "inactive h n s"
  shows "inactive h n s'"
  using assms(1)
proof (cases rule: sTimerStep.cases)
  case (own h' t)
  then show ?thesis using h anyTimer.stays_clear[of "timers s ! h" t] anyTimer.no_more[of "timers s ! h" t]
    by (cases "h' = h") (auto simp: inactive_def)
next
  case (remove h' t)
  then show ?thesis using h stopIn_timer[of s h] by (auto simp: inactive_def removeTimer_def Let_def split: option.splits)
next
  case (found h')
  then show ?thesis using h stopIn_timer[of s h] by (simp add: inactive_def stopFound_def)
qed (use h in \<open>auto simp: inactive_def makeTimer_def Let_def nth_append enterTimer_def StopTimer_def\<close>)

lemma inactive_steps: "sTimerStep\<^sup>*\<^sup>* s s' \<Longrightarrow> inactive h n s \<Longrightarrow> inactive h n s'"
  by (induction rule: rtranclp_induct) (auto intro: inactive_step)

text \<open>
  C28: A number names one timer: whatever is made, fired, stopped and removed in between, StopTimer of
  a number stops the timer that was made under it and no other, and that timer begins at most the one
  action that it had let through.
\<close>

theorem StopTimer_stops_own:
  assumes "sTimerStep\<^sup>*\<^sup>* Instance s" and "length (timers s) < 2 ^ 63" and "timersMap s i = Some h"
  shows "numbers s ! h = i \<and> (\<forall>h' < length (timers s). numbers s ! h' = i \<longrightarrow> h' = h)
    \<and> h \<in> stopping (StopTimer i s)
    \<and> (\<forall>h' < length (timers s). h' \<noteq> h \<longrightarrow> timers (stopFound h (StopTimer i s)) ! h' = timers s ! h')
    \<and> (\<forall>s'. sTimerStep\<^sup>*\<^sup>* (stopFound h (StopTimer i s)) s' \<longrightarrow>
         anyRuns (timers s' ! h) \<le> anyRuns (timers s ! h) + of_bool (anyPassed (timers s ! h)))"
proof (intro conjI allI impI)
  have ok: "sTimerOk s" by (rule sTimerOk_reached[OF assms(1)])
  then have h: "h < length (timers s)" "numbers s ! h = i" using assms(3) by (simp_all add: sTimerOk_def)
  show "numbers s ! h = i" by (rule h(2))
  show "h' = h" if "h' < length (timers s)" "numbers s ! h' = i" for h'
    using that ok h assms(2) by (auto simp: sTimerOk_def)
  show "h \<in> stopping (StopTimer i s)" using assms(3) by (simp add: StopTimer_def)
  show "timers (stopFound h (StopTimer i s)) ! h' = timers s ! h'" if "h' \<noteq> h" for h'
    using that by (simp add: stopFound_def stopIn_def StopTimer_def)
  have "inactive h (anyRuns (timers s ! h) + of_bool (anyPassed (timers s ! h))) (stopFound h (StopTimer i s))"
    using h by (simp add: inactive_def stopFound_def stopIn_def StopTimer_def anyTimer.stop_clears anyTimer.stop_runs)
  then show "anyRuns (timers s' ! h) \<le> anyRuns (timers s ! h) + of_bool (anyPassed (timers s ! h))"
    if "sTimerStep\<^sup>*\<^sup>* (stopFound h (StopTimer i s)) s'" for s'
    using inactive_steps[OF that] unfolding inactive_def by (meson add_leD1)
qed

definition onePeriod :: sTimer where
  "onePeriod = enterTimer 0 (makeTimer (PeriodTimer (the (RunEvery 1))) Instance)"

theorem StopTimer_stops_own_witness:
  "timersMap onePeriod 1 = Some 0 \<and> 0 \<in> stopping (StopTimer 1 onePeriod)"
proof -
  have "newTimer (PeriodTimer (the (RunEvery 1)))" by (rule newTimer.intros(2)[of 1]) (simp add: RunEvery_def)
  then have "sTimerStep Instance (makeTimer (PeriodTimer (the (RunEvery 1))) Instance)" by (rule sTimerStep.made)
  moreover have "sTimerStep (makeTimer (PeriodTimer (the (RunEvery 1))) Instance) onePeriod"
    unfolding onePeriod_def by (rule sTimerStep.enter) (simp_all add: makeTimer_def Let_def Instance_def)
  ultimately have "sTimerStep\<^sup>*\<^sup>* Instance onePeriod" by (meson rtranclp.rtrancl_into_rtrancl rtranclp.rtrancl_refl)
  moreover have "timersMap onePeriod 1 = Some 0" "length (timers onePeriod) < 2 ^ 63"
    by (simp_all add: onePeriod_def enterTimer_def makeTimer_def Let_def Instance_def wrap64_def)
  ultimately show ?thesis using StopTimer_stops_own by blast
qed

text \<open>
  A timer of RunAfter whose function comes through before its number is entered leaves its entry
  in the table for good: the function finds nothing to remove, and the entry is made afterwards.
\<close>

theorem sTimer_entry_leaks:
  "\<exists>s. sTimerStep\<^sup>*\<^sup>* Instance s \<and> 0 \<in> removed s \<and> entering s = {} \<and> timersMap s 1 = Some 0"
proof -
  let ?t = "onceCallback (onceFire RunAfter)"
  let ?made = "makeTimer (OnceTimer RunAfter) Instance"
  let ?fired = "?made\<lparr>timers := [OnceTimer (onceFire RunAfter)]\<rparr>"
  let ?ran = "?made\<lparr>timers := [OnceTimer ?t]\<rparr>"
  note defs = makeTimer_def Let_def Instance_def
  have fired: "anyStep (OnceTimer RunAfter) (OnceTimer (onceFire RunAfter))"
    and ran: "anyStep (OnceTimer (onceFire RunAfter)) (OnceTimer ?t)"
    by (intro anyStep.once onceStep.fire onceStep.callback; simp add: RunAfter_def onceFire_def)+
  have "sTimerStep Instance ?made" by (rule sTimerStep.made) (rule newTimer.intros)
  moreover have "sTimerStep ?made ?fired"
    using sTimerStep.own[of 0 ?made "OnceTimer (onceFire RunAfter)"] fired by (simp add: defs)
  moreover have "sTimerStep ?fired ?ran"
    using sTimerStep.own[of 0 ?fired "OnceTimer ?t"] ran by (simp add: defs)
  moreover have "sTimerStep ?ran (removeTimer 0 ?ran)"
    by (rule sTimerStep.remove[of 0 _ ?t]) (simp_all add: defs, simp add: once_defs RunAfter_def)
  moreover have "sTimerStep (removeTimer 0 ?ran) (enterTimer 0 (removeTimer 0 ?ran))"
    by (rule sTimerStep.enter) (simp_all add: defs removeTimer_def)
  ultimately have "sTimerStep\<^sup>*\<^sup>* Instance (enterTimer 0 (removeTimer 0 ?ran))"
    by (meson rtranclp.rtrancl_into_rtrancl rtranclp.rtrancl_refl)
  moreover have "0 \<in> removed (enterTimer 0 (removeTimer 0 ?ran))" "entering (enterTimer 0 (removeTimer 0 ?ran)) = {}"
    "timersMap (enterTimer 0 (removeTimer 0 ?ran)) 1 = Some 0"
    by (simp_all add: enterTimer_def removeTimer_def defs wrap64_def)
  ultimately show ?thesis by blast
qed

end
