(* ===== verification/VersionServer.thy ===== *)
theory VersionServer
  imports IM_Prelude "HOL-Library.List_Lexorder"
begin

text \<open>
  version-server/main.go: the row of the newest version is loaded once; the routes /ios and /android
  compare the client's version with it. The configuration, the database and the headers of Cors are
  left out.
\<close>

section \<open>The server\<close>

text \<open>The columns of common-library/models/version.go.\<close>

record versionRow =
  IosMinVersion :: string
  IosMaxVersion :: string
  IosUpdateUrl :: string
  IosUpdateDescribe :: string
  AndroidMinVersion :: string
  AndroidMaxVersion :: string
  AndroidUpdateUrl :: string
  AndroidUpdateDescribe :: string

record versionInfo =
  HttpCode :: int
  LogicCode :: int
  UpdateUrl :: string
  Describe :: string

record versionServer =
  version :: versionRow
  iosMinVersion :: int
  iosMaxVersion :: int
  androidMinVersion :: int
  androidMaxVersion :: int

text \<open>\<open>strings.Replace(s, ".", "", -1)\<close>\<close>

definition withoutDots :: "string \<Rightarrow> string" where
  "withoutDots s = filter (\<lambda>c. c \<noteq> CHR ''.'') s"

definition parseClientVersion :: "string \<Rightarrow> int option" where
  "parseClientVersion strVer = (case ParseInt (withoutDots strVer) of (v, ok) \<Rightarrow> if ok then Some v else None)"

text \<open>None: \<open>function.Must\<close> panics at the first of the four numbers that is none.\<close>

definition loadDb :: "versionRow \<Rightarrow> versionServer option" where
  "loadDb row =
     (case parseClientVersion (IosMinVersion row) of None \<Rightarrow> None | Some a \<Rightarrow>
      case parseClientVersion (IosMaxVersion row) of None \<Rightarrow> None | Some b \<Rightarrow>
      case parseClientVersion (AndroidMinVersion row) of None \<Rightarrow> None | Some c \<Rightarrow>
      case parseClientVersion (AndroidMaxVersion row) of None \<Rightarrow> None | Some d \<Rightarrow>
        Some \<lparr>version = row, iosMinVersion = a, iosMaxVersion = b, androidMinVersion = c, androidMaxVersion = d\<rparr>)"

definition noAnswer :: versionInfo where
  "noAnswer = \<lparr>HttpCode = 0, LogicCode = 0, UpdateUrl = [], Describe = []\<rparr>"

text \<open>0: the update is forced, 1: it is offered, 2: there is none. The three tests are made one after the other.\<close>

definition ios :: "versionServer \<Rightarrow> string \<Rightarrow> versionInfo" where
  "ios srv cliVer = (case parseClientVersion cliVer of
     None \<Rightarrow> noAnswer\<lparr>HttpCode := 400\<rparr>
   | Some v \<Rightarrow>
       let a1 = (if v < iosMinVersion srv then noAnswer\<lparr>LogicCode := 0\<rparr> else noAnswer);
           a2 = (if iosMinVersion srv \<le> v \<and> v \<le> iosMaxVersion srv then a1\<lparr>LogicCode := 1\<rparr> else a1);
           a3 = (if iosMaxVersion srv < v then a2\<lparr>LogicCode := 2\<rparr> else a2)
       in a3\<lparr>UpdateUrl := IosUpdateUrl (version srv), Describe := IosUpdateDescribe (version srv), HttpCode := 200\<rparr>)"

definition android :: "versionServer \<Rightarrow> string \<Rightarrow> versionInfo" where
  "android srv cliVer = (case parseClientVersion cliVer of
     None \<Rightarrow> noAnswer\<lparr>HttpCode := 400\<rparr>
   | Some v \<Rightarrow>
       let a1 = (if v < androidMinVersion srv then noAnswer\<lparr>LogicCode := 0\<rparr> else noAnswer);
           a2 = (if androidMinVersion srv \<le> v \<and> v < androidMaxVersion srv then a1\<lparr>LogicCode := 1\<rparr> else a1);
           a3 = (if androidMaxVersion srv \<le> v then a2\<lparr>LogicCode := 2\<rparr> else a2)
       in a3\<lparr>UpdateUrl := AndroidUpdateUrl (version srv), Describe := AndroidUpdateDescribe (version srv), HttpCode := 200\<rparr>)"

section \<open>Versions\<close>

text \<open>A version as it is written, from its components, and the order of releases: component by component.\<close>

fun dotted :: "string list \<Rightarrow> string" where
  "dotted [] = []"
| "dotted [c] = c"
| "dotted (c # cs) = c @ CHR ''.'' # dotted cs"

definition components :: "string list \<Rightarrow> bool" where
  "components cs \<longleftrightarrow> cs \<noteq> [] \<and> (\<forall>c \<in> set cs. c \<noteq> [] \<and> list_all is_digit c) \<and> length (concat cs) \<le> 18"

definition release :: "string list \<Rightarrow> nat list" where
  "release cs = map digits_val cs"

lemma digits_val_append: "digits_val (a @ b) = digits_val a * 10 ^ length b + digits_val b"
proof (induction b rule: rev_induct)
  case Nil
  then show ?case by (simp add: digits_val_def)
next
  case (snoc x b)
  then show ?case using digits_val_snoc[of "a @ b" x] digits_val_snoc[of b x] by simp
qed

lemma digits_val_less: "list_all is_digit ds \<Longrightarrow> digits_val ds < 10 ^ length ds"
proof (induction ds rule: rev_induct)
  case Nil
  then show ?case by (simp add: digits_val_def)
next
  case (snoc x ds)
  then have "digits_val ds < 10 ^ length ds" "of_char x - 48 \<le> (9 :: nat)" by (auto simp: is_digit_def)
  then show ?case by (simp add: digits_val_snoc)
qed

lemma positional_less:
  fixes a b r r' p :: nat
  assumes "r < p" and "r' < p"
  shows "a * p + r < b * p + r' \<longleftrightarrow> a < b \<or> a = b \<and> r < r'"
proof -
  have gap: "x * p + s < y * p + s'" if "x < y" "s < p" for x y s s'
  proof -
    have "x * p + p \<le> y * p" using that(1) mult_le_mono1[of "Suc x" y p] by simp
    then show ?thesis using that(2) by linarith
  qed
  show ?thesis using gap[of a b r r'] gap[of b a r' r] assms by (cases a b rule: linorder_cases) auto
qed

text \<open>Numbers without the dots are in the order of releases when the components are equally wide.\<close>

lemma concat_order:
  assumes "map length cs = map length ds" and "\<forall>c \<in> set cs \<union> set ds. list_all is_digit c"
  shows "digits_val (concat cs) < digits_val (concat ds) \<longleftrightarrow> release cs < release ds"
  using assms
proof (induction cs arbitrary: ds)
  case Nil
  then show ?case by (simp add: release_def)
next
  case (Cons c cs)
  then obtain d ds' where ds: "ds = d # ds'" "map length cs = map length ds'" by (cases ds) auto
  have len: "length (concat cs) = length (concat ds')" using ds(2) by (simp add: length_concat)
  have "list_all is_digit (concat cs)" "list_all is_digit (concat ds')"
    using Cons.prems(2) ds(1) by (auto simp: list_all_iff)
  then have "digits_val (concat cs) < 10 ^ length (concat cs)" "digits_val (concat ds') < 10 ^ length (concat cs)"
    using digits_val_less[of "concat cs"] digits_val_less[of "concat ds'"] len by simp_all
  from positional_less[OF this] show ?case
    using Cons.IH[OF ds(2)] Cons.prems(2) ds len by (simp add: digits_val_append release_def)
qed

lemma withoutDots_simps:
  "withoutDots (a @ b) = withoutDots a @ withoutDots b" "withoutDots (CHR ''.'' # b) = withoutDots b" "withoutDots [] = []"
  by (simp_all add: withoutDots_def)

lemma withoutDots_digits: "list_all is_digit c \<Longrightarrow> withoutDots c = c"
  by (induction c) (auto simp: withoutDots_def is_digit_def)

lemma withoutDots_dotted: "components cs \<Longrightarrow> withoutDots (dotted cs) = concat cs"
proof -
  have "\<forall>c \<in> set cs. list_all is_digit c \<Longrightarrow> withoutDots (dotted cs) = concat cs"
    by (induction cs rule: dotted.induct) (auto simp: withoutDots_simps withoutDots_digits)
  then show "components cs \<Longrightarrow> withoutDots (dotted cs) = concat cs" by (simp add: components_def)
qed

lemma parse_dotted:
  assumes "components cs"
  shows "parseClientVersion (dotted cs) = Some (int (digits_val (concat cs)))"
proof -
  obtain x xs where ds: "concat cs = x # xs" using assms by (cases cs; cases "hd cs") (auto simp: components_def)
  have digits: "list_all is_digit (concat cs)" using assms by (auto simp: components_def list_all_iff)
  then have "x \<noteq> CHR ''-''" "x \<noteq> CHR ''+''" by (auto simp: ds is_digit_def)
  moreover have "digits_val (concat cs) < 2 ^ 63"
  proof -
    have "10 ^ length (concat cs) \<le> (10 :: nat) ^ 18" using assms by (intro power_increasing) (auto simp: components_def)
    then show ?thesis using digits_val_less[OF digits] by simp
  qed
  ultimately have "ParseInt (concat cs) = (int (digits_val (concat cs)), True)"
    using digits by (simp add: ParseInt_def ds)
  then show ?thesis by (simp add: parseClientVersion_def withoutDots_dotted[OF assms])
qed

lemma parsed_order:
  assumes "components cs" and "components ds" and "map length cs = map length ds"
    and "parseClientVersion (dotted cs) = Some v" and "parseClientVersion (dotted ds) = Some w"
  shows "v < w \<longleftrightarrow> release cs < release ds"
proof -
  have "\<forall>c \<in> set cs \<union> set ds. list_all is_digit c" using assms(1,2) by (auto simp: components_def)
  then show ?thesis using concat_order[OF assms(3)] assms(4,5) parse_dotted[OF assms(1)] parse_dotted[OF assms(2)] by auto
qed


definition demoRow :: versionRow where
  "demoRow = \<lparr>IosMinVersion = ''1.2.0'', IosMaxVersion = ''1.4.0'', IosUpdateUrl = ''u'', IosUpdateDescribe = ''d'',
     AndroidMinVersion = ''1.2.0'', AndroidMaxVersion = ''1.4.0'', AndroidUpdateUrl = ''u'', AndroidUpdateDescribe = ''d''\<rparr>"


text \<open>
  With components of different widths the order is lost: the later release 1.3.0 is forced to
  update to 1.2.10, because 130 is less than 1210.
\<close>

theorem later_release_forced:
  "release [''1'', ''2'', ''10''] < release [''1'', ''3'', ''0'']
   \<and> LogicCode (ios (the (loadDb (demoRow\<lparr>IosMinVersion := ''1.2.10'', IosMaxVersion := ''1.2.10''\<rparr>))) ''1.3.0'') = 0"
  by code_simp

end
