(* ===== verification/LoginServer.thy ===== *)
theory LoginServer
  imports Dispatch
begin

text \<open>
  The login server (login-server/login_app), which tells a client the message server of its account,
  the configuration of the hash ring (im-library/consistentHash), and the agent through which a web
  client asks it (wslogin/main.go).
\<close>

section \<open>The hash ring's nodes\<close>

text \<open>
  The nodes and their weights, from lines of the form \<open>address,weight\<close>. None: the panic when a weight
  is no number. Lines that do not have exactly one comma are skipped.
\<close>

fun parseLogic :: "string list \<Rightarrow> (string \<rightharpoonup> int) \<Rightarrow> (string \<rightharpoonup> int) option" where
  "parseLogic [] nodeWeight = Some nodeWeight"
| "parseLogic (v # vs) nodeWeight =
     (let ss = splitOn CHR '','' v in
      if length ss = 2 then
        (case ParseInt (ss ! 1) of (weight, ok) \<Rightarrow> if ok then parseLogic vs (nodeWeight(hd ss \<mapsto> weight)) else None)
      else parseLogic vs nodeWeight)"

lemma itoa_no_comma: "CHR '','' \<notin> set (itoa w)"
proof -
  have "CHR '','' \<notin> set (nat_digits n)" for n
    using nat_digits_all_digits[of n] by (auto simp: list_all_iff is_digit_def)
  then show ?thesis by (simp add: itoa_def)
qed

text \<open>
  Every node that the configuration lists as address and weight is in the ring with that weight,
  the last line of an address counting, and no other node is.
\<close>

theorem ring_has_configured_nodes:
  assumes "\<forall>(ip, w) \<in> set nodes. CHR '','' \<notin> set ip \<and> int64 w"
  shows "parseLogic (map (\<lambda>(ip, w). ip @ '','' @ itoa w) nodes) Map.empty = Some (map_of (rev nodes))"
proof -
  have "parseLogic (map (\<lambda>(ip, w). ip @ '','' @ itoa w) nodes) m = Some (m ++ map_of (rev nodes))" for m
    using assms
  proof (induction nodes arbitrary: m)
    case (Cons n nodes)
    then show ?case
      by (cases n) (simp add: splitOn_append splitOn_none itoa_no_comma ParseInt_itoa map_add_upd_left)
  qed simp
  then show ?thesis by simp
qed

theorem ring_has_configured_nodes_witness:
  "parseLogic (map (\<lambda>(ip, w). ip @ '','' @ itoa w) [(''10.0.0.1:5001'', 10)]) Map.empty = Some [''10.0.0.1:5001'' \<mapsto> 10]"
  using ring_has_configured_nodes[of "[(''10.0.0.1:5001'', 10)]"] by (simp add: int64_def)

section \<open>The connection\<close>

definition NetMsgId_C2l_gate_addr :: int where "NetMsgId_C2l_gate_addr = 60000"
definition NetMsgId_L2c_gate_addr :: int where "NetMsgId_L2c_gate_addr = 60001"
definition proto_unmarshal_failed :: int where "proto_unmarshal_failed = 110"
definition login_account_id_is_zero :: int where "login_account_id_is_zero = 111"

text \<open>
  Coding of the messages: C2LGateAddr (the account id), L2CGateAddr (the address), S2CErrorCode (the
  code), WebSocketMessage (id, the id's name, content); None is an error.
\<close>

record gateCodec =
  un_C2LGateAddr :: "string \<Rightarrow> int option"
  mk_L2CGateAddr :: "string \<Rightarrow> string option"
  un_L2CGateAddr :: "string \<Rightarrow> string option"
  mk_S2CErrorCode :: "int \<Rightarrow> string option"
  un_WebSocketMessage :: "string \<Rightarrow> (int \<times> string \<times> string) option"
  mk_WebSocketMessage :: "int \<times> string \<times> string \<Rightarrow> string option"
  NetMsgId_name :: "int \<Rightarrow> string"

text \<open>\<open>Socket.SendPbMsg\<close>: nothing is written when the message cannot be coded.\<close>

definition SendPbMsg_socket :: "int \<Rightarrow> string option \<Rightarrow> string list" where
  "SendPbMsg_socket pid msg = (case msg of Some m \<Rightarrow> [PackByteMsg pid m] | None \<Rightarrow> [])"

definition loginLogic :: "'a gateCodec_scheme \<Rightarrow> (string \<Rightarrow> string) \<Rightarrow> string \<Rightarrow> string list" where
  "loginLogic cdc GetNode bf =
     (case un_C2LGateAddr cdc bf of
        None \<Rightarrow> SendPbMsg_socket NetMsgId_S2CErrorCode (mk_S2CErrorCode cdc proto_unmarshal_failed)
      | Some accountId \<Rightarrow>
          if accountId = 0 then SendPbMsg_socket NetMsgId_S2CErrorCode (mk_S2CErrorCode cdc login_account_id_is_zero)
          else SendPbMsg_socket NetMsgId_L2c_gate_addr (mk_L2CGateAddr cdc (GetNode (itoa accountId))))"

text \<open>The packets written on a connection with the given input; then it is closed.\<close>

function receiveClientConnection :: "'a gateCodec_scheme \<Rightarrow> (string \<Rightarrow> string) \<Rightarrow> string \<Rightarrow> bool \<Rightarrow> string list" where
  "receiveClientConnection cdc GetNode inp b =
     (case socket_read (2 ^ 14) inp of
        Inl e \<Rightarrow> []
      | Inr (bf, rest) \<Rightarrow>
          if length bf < 4 then []
          else if b then []
          else if Uint32 bf = NetMsgId_C2l_gate_addr
          then loginLogic cdc GetNode (drop PacketHeaderSize bf) @ receiveClientConnection cdc GetNode rest True
          else [])"
  by pat_completeness auto
termination
  by (relation "measure (\<lambda>(_, _, inp, _). length inp)")
    (auto dest!: socket_read_shrinks simp: PacketHeaderSize_def)

declare receiveClientConnection.simps [simp del]

lemma second_request: "receiveClientConnection cdc GetNode inp True = []"
  by (simp add: receiveClientConnection.simps[of _ _ inp] split: sum.splits)

lemma gate_answer:
  assumes "un_C2LGateAddr cdc q = Some accountId" and "accountId \<noteq> 0" and "length q \<le> 2 ^ 14"
  shows "receiveClientConnection cdc GetNode (PackByteMsg NetMsgId_C2l_gate_addr q @ rest) False
    = SendPbMsg_socket NetMsgId_L2c_gate_addr (mk_L2CGateAddr cdc (GetNode (itoa accountId)))"
proof -
  have "socket_read (2 ^ 14) (PackByteMsg NetMsgId_C2l_gate_addr q @ rest) = Inr (PackByteMsg NetMsgId_C2l_gate_addr q, rest)"
    using assms(3) by (simp add: socket_read_frame)
  then show ?thesis
    using assms(1,2) PackByteMsg_header[of NetMsgId_C2l_gate_addr q]
    by (subst receiveClientConnection.simps)
      (simp add: second_request loginLogic_def PacketHeaderSize_def NetMsgId_C2l_gate_addr_def)
qed

text \<open>
  Whatever a client sends, it gets at most one packet on a connection. If its first packet asks
  for the gate of an account that is not 0, it is the address of the account's node in the ring,
  whatever follows.
\<close>

theorem login_one_answer:
  assumes "un_C2LGateAddr cdc q = Some accountId" and "accountId \<noteq> 0" and "length q \<le> 2 ^ 14"
  shows "length (receiveClientConnection cdc GetNode inp False) \<le> 1
    \<and> receiveClientConnection cdc GetNode (PackByteMsg NetMsgId_C2l_gate_addr q @ rest) False
       = SendPbMsg_socket NetMsgId_L2c_gate_addr (mk_L2CGateAddr cdc (GetNode (itoa accountId)))"
proof
  have "length (loginLogic cdc GetNode bf) \<le> 1" for bf
    by (simp add: loginLogic_def SendPbMsg_socket_def split: option.splits)
  then show "length (receiveClientConnection cdc GetNode inp False) \<le> 1"
    by (simp add: receiveClientConnection.simps[of _ _ inp] second_request split: sum.splits)
qed (rule gate_answer[OF assms])

section \<open>The web clients' agent\<close>

text \<open>
  The messages of a web client (None: the read fails) and what is written to it. \<open>msgsrv\<close> is the table
  of the message servers' agents, an address that is not in it is empty; \<open>dials\<close> says whether the
  login server can be reached, and \<open>backend\<close> what it answers on a connection, as bytes, to what is
  written on it.
\<close>

fun wsloginRun :: "'a gateCodec_scheme \<Rightarrow> (string \<rightharpoonup> string) \<Rightarrow> bool \<Rightarrow> (string \<Rightarrow> string) \<Rightarrow> string option list \<Rightarrow> bool \<Rightarrow> string list" where
  "wsloginRun cdc msgsrv dials backend [] b = []"
| "wsloginRun cdc msgsrv dials backend (None # ms) b = []"
| "wsloginRun cdc msgsrv dials backend (Some message # ms) b =
     (if b then []
      else case un_WebSocketMessage cdc message of
        None \<Rightarrow> []
      | Some (MsgId, _, BinMsg) \<Rightarrow>
          if \<not> dials then []
          else case socket_read 1024 (backend (PackByteMsg MsgId BinMsg)) of
            Inl e \<Rightarrow> []
          | Inr (ackBuf, _) \<Rightarrow>
              (case un_L2CGateAddr cdc (drop 8 ackBuf) of
                 None \<Rightarrow> []
               | Some ip \<Rightarrow>
                   (case mk_L2CGateAddr cdc (case msgsrv ip of Some w \<Rightarrow> w | None \<Rightarrow> []) of
                      None \<Rightarrow> []
                    | Some msg \<Rightarrow>
                        let pid = wrap32 (Uint32 ackBuf) in
                        (case mk_WebSocketMessage cdc (pid, NetMsgId_name cdc pid, msg) of None \<Rightarrow> [] | Some m \<Rightarrow> [m])
                          @ wsloginRun cdc msgsrv dials backend ms True)))"

text \<open>What the login server writes, as the bytes of the connection.\<close>

definition loginServer :: "'a gateCodec_scheme \<Rightarrow> (string \<Rightarrow> string) \<Rightarrow> string \<Rightarrow> string" where
  "loginServer cdc GetNode inp = concat (receiveClientConnection cdc GetNode inp False)"

text \<open>What protobuf documents of the messages that occur: coding them succeeds and is undone by decoding.\<close>

definition codes_gate :: "'a gateCodec_scheme \<Rightarrow> bool" where
  "codes_gate cdc \<longleftrightarrow> (\<forall>ip. \<exists>m. mk_L2CGateAddr cdc ip = Some m \<and> un_L2CGateAddr cdc m = Some ip)
     \<and> (\<forall>nm bin. \<exists>m. mk_WebSocketMessage cdc (NetMsgId_L2c_gate_addr, nm, bin) = Some m
          \<and> un_WebSocketMessage cdc m = Some (NetMsgId_L2c_gate_addr, nm, bin))"

lemma wsloginRun_second: "wsloginRun cdc msgsrv dials backend ms True = []"
  by (cases ms rule: list.exhaust; cases "hd ms") auto

lemma wsloginRun_first:
  assumes "un_WebSocketMessage cdc message = Some (i, nm, q)" and "backend (PackByteMsg i q) = PackByteMsg j a"
    and "length a \<le> 1024" and "0 \<le> j" "j < 2 ^ 31" and "un_L2CGateAddr cdc a = Some ip"
    and "mk_L2CGateAddr cdc (case msgsrv ip of Some w \<Rightarrow> w | None \<Rightarrow> []) = Some msg"
  shows "wsloginRun cdc msgsrv True backend (Some message # ms) False =
    (case mk_WebSocketMessage cdc (j, NetMsgId_name cdc j, msg) of None \<Rightarrow> [] | Some m \<Rightarrow> [m])"
proof -
  have "socket_read 1024 (PackByteMsg j a) = Inr (PackByteMsg j a, [])"
    using socket_read_frame[of a 1024 j "[]"] assms(3) by simp
  moreover have "drop 8 (PackByteMsg j a) = a" "wrap32 (Uint32 (PackByteMsg j a)) = j"
    using PackByteMsg_header[of j a] wrap32_id[OF assms(4,5)] by (simp_all only: PacketHeaderSize_def)
  ultimately show ?thesis using assms(1,2,6,7) by (simp add: wsloginRun_second Let_def)
qed

text \<open>
  C29: A web client that asks for its message server gets, as its one answer, the agent of the node to
  which the message servers publish what is sent to the account, when both use the same ring and the
  agents' table has the node.
\<close>

theorem web_login_finds_mailbox:
  assumes "codes_gate cdc" and "un_WebSocketMessage cdc message = Some (NetMsgId_C2l_gate_addr, nm, q)"
    and "un_C2LGateAddr cdc q = Some accountId" and "accountId \<noteq> 0" and "length q \<le> 2 ^ 14"
    and "mk_L2CGateAddr cdc node = Some a" and "length a \<le> 1024"
    and "node = hashNode srv (itoa accountId)" and "msgsrv node = Some agent" and "marshal srv p = Some m"
  shows "(\<exists>out body name. wsloginRun cdc msgsrv True (loginServer cdc (hashNode srv)) (Some message # ms) False = [out]
        \<and> un_WebSocketMessage cdc out = Some (NetMsgId_L2c_gate_addr, name, body) \<and> un_L2CGateAddr cdc body = Some agent)
    \<and> hist (snd (run_state (mqSendPbMsg srv accountId i p) s))
        = hist s @ [Rds (RDo ''pub'' ''publish'' [RStr node, RStr (mqBuf accountId 0 i m)])]"
proof
  have "un_L2CGateAddr cdc a = Some node" using assms(1,6) unfolding codes_gate_def by (metis option.inject)
  obtain body where body: "mk_L2CGateAddr cdc agent = Some body" "un_L2CGateAddr cdc body = Some agent"
    using assms(1) unfolding codes_gate_def by blast
  obtain out where out: "mk_WebSocketMessage cdc (NetMsgId_L2c_gate_addr, NetMsgId_name cdc NetMsgId_L2c_gate_addr, body) = Some out"
      "un_WebSocketMessage cdc out = Some (NetMsgId_L2c_gate_addr, NetMsgId_name cdc NetMsgId_L2c_gate_addr, body)"
    using assms(1) unfolding codes_gate_def by blast
  have "receiveClientConnection cdc (hashNode srv) (PackByteMsg NetMsgId_C2l_gate_addr q) False
      = SendPbMsg_socket NetMsgId_L2c_gate_addr (mk_L2CGateAddr cdc node)"
    using gate_answer[OF assms(3-5), of "hashNode srv" "[]"] assms(8) by simp
  then have answer: "loginServer cdc (hashNode srv) (PackByteMsg NetMsgId_C2l_gate_addr q) = PackByteMsg NetMsgId_L2c_gate_addr a"
    by (simp add: loginServer_def assms(6) SendPbMsg_socket_def)
  have table: "mk_L2CGateAddr cdc (case msgsrv node of Some w \<Rightarrow> w | None \<Rightarrow> []) = Some body"
    by (simp add: assms(9) body(1))
  have "0 \<le> NetMsgId_L2c_gate_addr" "NetMsgId_L2c_gate_addr < 2 ^ 31" by (simp_all add: NetMsgId_L2c_gate_addr_def)
  from wsloginRun_first[where backend = "loginServer cdc (hashNode srv)" and ms = ms and msgsrv = msgsrv and ip = node, OF assms(2) answer assms(7) this
      \<open>un_L2CGateAddr cdc a = Some node\<close> table]
  have "wsloginRun cdc msgsrv True (loginServer cdc (hashNode srv)) (Some message # ms) False = [out]"
    by (simp add: out(1))
  then show "\<exists>out body name. wsloginRun cdc msgsrv True (loginServer cdc (hashNode srv)) (Some message # ms) False = [out]
      \<and> un_WebSocketMessage cdc out = Some (NetMsgId_L2c_gate_addr, name, body) \<and> un_L2CGateAddr cdc body = Some agent"
    using out(2) body(2) by blast
  show "hist (snd (run_state (mqSendPbMsg srv accountId i p) s))
      = hist s @ [Rds (RDo ''pub'' ''publish'' [RStr node, RStr (mqBuf accountId 0 i m)])]"
    using assms(8,10) by (simp add: mqSendPbMsg_def run_simps)
qed

text \<open>A coding for the witnesses: a web socket's message is its id, the length of the name in crosses, the name and the content.\<close>

definition demoWs :: "int \<times> string \<times> string \<Rightarrow> string" where
  "demoWs w = (case w of (i, nm, bin) \<Rightarrow> itoa i @ CHR '','' # replicate (length nm) CHR ''x'' @ CHR '','' # nm @ bin)"

definition demoUnWs :: "string \<Rightarrow> int \<times> string \<times> string" where
  "demoUnWs s = (let r = tl (dropWhile (\<lambda>c. c \<noteq> CHR '','') s); n = length (takeWhile (\<lambda>c. c \<noteq> CHR '','') r) in
     (fst (ParseInt (takeWhile (\<lambda>c. c \<noteq> CHR '','') s)), take n (drop (n + 1) r), drop (n + 1 + n) r))"

lemma takeWhile_sep: "c \<notin> set a \<Longrightarrow> takeWhile (\<lambda>x. x \<noteq> c) (a @ c # b) = a \<and> dropWhile (\<lambda>x. x \<noteq> c) (a @ c # b) = c # b"
  by (induction a) auto

lemma demoUnWs_demoWs: "int64 i \<Longrightarrow> demoUnWs (demoWs (i, nm, bin)) = (i, nm, bin)"
  using takeWhile_sep[of "CHR '',''" "itoa i"] takeWhile_sep[of "CHR '',''" "replicate (length nm) CHR ''x''"] itoa_no_comma[of i]
  by (simp add: demoWs_def demoUnWs_def Let_def ParseInt_itoa)

definition demoCodec :: gateCodec where
  "demoCodec = \<lparr>un_C2LGateAddr = (\<lambda>s. Some (fst (ParseInt s))), mk_L2CGateAddr = Some, un_L2CGateAddr = Some,
     mk_S2CErrorCode = (\<lambda>i. Some (itoa i)), un_WebSocketMessage = (\<lambda>s. Some (demoUnWs s)),
     mk_WebSocketMessage = (\<lambda>w. Some (demoWs w)), NetMsgId_name = (\<lambda>_. ''name'')\<rparr>"

lemma demoCodec_codes: "codes_gate demoCodec"
  by (simp add: codes_gate_def demoCodec_def demoUnWs_demoWs int64_def NetMsgId_L2c_gate_addr_def)

theorem login_one_answer_witness:
  "receiveClientConnection demoCodec (\<lambda>_. ''node'') (PackByteMsg NetMsgId_C2l_gate_addr ''7'' @ ''more'') False
    = [PackByteMsg NetMsgId_L2c_gate_addr ''node'']"
proof -
  have "ParseInt ''7'' = (7, True)" by code_simp
  then show ?thesis
    using login_one_answer[of demoCodec "''7''" 7 "\<lambda>_. ''node''" "[]" "''more''"]
    by (simp add: demoCodec_def SendPbMsg_socket_def)
qed

theorem web_login_finds_mailbox_witness:
  "\<exists>out body name. wsloginRun demoCodec [''node'' \<mapsto> ''agent''] True (loginServer demoCodec (hashNode demoSvc))
       [Some (demoWs (NetMsgId_C2l_gate_addr, [], ''7''))] False = [out]
     \<and> un_WebSocketMessage demoCodec out = Some (NetMsgId_L2c_gate_addr, name, body) \<and> un_L2CGateAddr demoCodec body = Some ''agent''"
proof -
  let ?m = "demoWs (NetMsgId_C2l_gate_addr, [], ''7'')"
  have "un_WebSocketMessage demoCodec ?m = Some (NetMsgId_C2l_gate_addr, [], ''7'')"
    by (simp add: demoCodec_def demoUnWs_demoWs int64_def NetMsgId_C2l_gate_addr_def)
  moreover have "ParseInt ''7'' = (7, True)" by code_simp
  then have "un_C2LGateAddr demoCodec ''7'' = Some 7" by (simp add: demoCodec_def)
  moreover have "mk_L2CGateAddr demoCodec ''node'' = Some ''node''" by (simp add: demoCodec_def)
  moreover have "''node'' = hashNode demoSvc (itoa 7)" "marshal demoSvc (Acc (S2CRename ''x'')) = Some ''m''" by (simp_all add: demoSvc_def)
  moreover have "(7 :: int) \<noteq> 0" "length ''7'' \<le> 2 ^ 14" "length ''node'' \<le> 1024"
    "[''node'' \<mapsto> ''agent''] ''node'' = Some ''agent''" by simp_all
  ultimately show ?thesis using web_login_finds_mailbox[OF demoCodec_codes, of ?m "[]" "''7''" 7 "''node''" "''node''" demoSvc
      "[''node'' \<mapsto> ''agent'']" "''agent''" "Acc (S2CRename ''x'')" "''m''" "[]"] by blast
qed

end
