(* ===== verification/WsAgent.thy ===== *)
theory WsAgent
  imports LoginServer "HOL-Library.Sublist"
begin

text \<open>
  wsmsg/wsAgent/wsAgent.go: the agent between a web client and the message server. Its three
  goroutines (the receive loop of the web socket, the one of the TCP connection, and the sender to
  the web socket) are phases of one state; a step is a receive, a write or a close.
\<close>

section \<open>The agent\<close>

datatype recvPhase = Receiving | ClosingWs | ClosingTcp | ClosingSignal | RecvEnded
datatype tcpPhase = Reading | TcpFailed | TcpEnded

text \<open>
  \<open>fromClient\<close> and \<open>fromBackend\<close> are what has arrived and is not yet read; \<open>toClient\<close> and \<open>toBackend\<close>
  what was written; \<open>sentByClient\<close> and \<open>sentByBackend\<close> all that the two sides ever sent.
\<close>

record agent =
  sentByClient :: "string list"
  fromClient :: "string list"
  sentByBackend :: string
  fromBackend :: string
  toBackend :: string
  toClient :: "(int \<times> string) list"
  wsOpen :: bool
  isTcpClosed :: bool
  wsSendChan :: "string list"
  wsCloseSignal :: bool
  recvPhase :: recvPhase
  tcpPhase :: tcpPhase
  sending :: bool

definition newAgent :: agent where
  "newAgent = \<lparr>sentByClient = [], fromClient = [], sentByBackend = [], fromBackend = [], toBackend = [], toClient = [],
     wsOpen = True, isTcpClosed = False, wsSendChan = [], wsCloseSignal = False, recvPhase = Receiving,
     tcpPhase = Reading, sending = True\<rparr>"

definition wsSendCap :: nat where "wsSendCap = 30"
definition agentMaxRead :: int where "agentMaxRead = 1024 * 1024 * 10"

definition closeTcpSocket :: "agent \<Rightarrow> agent" where
  "closeTcpSocket s = (if isTcpClosed s then s else s\<lparr>isTcpClosed := True\<rparr>)"

text \<open>
  A message of the client is decoded and forwarded; the error of the write is dropped. A write that
  fails writes nothing.
\<close>

definition forwardMsg :: "'a gateCodec_scheme \<Rightarrow> bool \<Rightarrow> agent \<Rightarrow> agent" where
  "forwardMsg cdc written s = (case fromClient s of
     [] \<Rightarrow> s
   | message # ms \<Rightarrow>
       (case un_WebSocketMessage cdc message of
          None \<Rightarrow> s\<lparr>fromClient := ms, recvPhase := ClosingWs\<rparr>
        | Some (MsgId, _, BinMsg) \<Rightarrow>
            s\<lparr>fromClient := ms, toBackend := toBackend s @ (if written then PackByteMsg MsgId BinMsg else [])\<rparr>))"

text \<open>A packet of the backend goes into the channel; it is lost when the channel is full.\<close>

definition queueMsg :: "string \<Rightarrow> agent \<Rightarrow> agent" where
  "queueMsg msg s = s\<lparr>wsSendChan := (if length (wsSendChan s) < wsSendCap then wsSendChan s @ [msg] else wsSendChan s)\<rparr>"

definition WsSendPbBuf :: "bool \<Rightarrow> string \<Rightarrow> agent \<Rightarrow> agent" where
  "WsSendPbBuf written msg s =
     (if written then s\<lparr>toClient := toClient s @ [(wrap32 (Uint32 msg), drop 8 msg)]\<rparr> else s)"

text \<open>
  The agent's own steps. A read may fail at any time: the peer has gone, the minute of the socket's
  deadline is over, the packet is too long.
\<close>

inductive ownStep :: "'a gateCodec_scheme \<Rightarrow> agent \<Rightarrow> agent \<Rightarrow> bool" for cdc where
  forward: "recvPhase s = Receiving \<Longrightarrow> fromClient s \<noteq> [] \<Longrightarrow> (written \<Longrightarrow> \<not> isTcpClosed s) \<Longrightarrow>
    ownStep cdc s (forwardMsg cdc written s)"
| wsFail: "recvPhase s = Receiving \<Longrightarrow> ownStep cdc s (s\<lparr>recvPhase := ClosingWs\<rparr>)"
| closeWs: "recvPhase s = ClosingWs \<Longrightarrow> ownStep cdc s (s\<lparr>wsOpen := False, recvPhase := ClosingTcp\<rparr>)"
| closeTcp: "recvPhase s = ClosingTcp \<Longrightarrow> ownStep cdc s ((closeTcpSocket s)\<lparr>recvPhase := ClosingSignal\<rparr>)"
| signal: "recvPhase s = ClosingSignal \<Longrightarrow> ownStep cdc s (s\<lparr>wsCloseSignal := True, recvPhase := RecvEnded\<rparr>)"
| tcpRead: "tcpPhase s = Reading \<Longrightarrow> socket_read agentMaxRead (fromBackend s) = Inr (msg, rest) \<Longrightarrow>
    ownStep cdc s (queueMsg msg (s\<lparr>fromBackend := rest\<rparr>))"
| tcpFail: "tcpPhase s = Reading \<Longrightarrow> ownStep cdc s (s\<lparr>tcpPhase := TcpFailed\<rparr>)"
| tcpClose: "tcpPhase s = TcpFailed \<Longrightarrow> ownStep cdc s ((closeTcpSocket s)\<lparr>tcpPhase := TcpEnded\<rparr>)"
| send: "sending s \<Longrightarrow> wsSendChan s = msg # msgs \<Longrightarrow> (written \<Longrightarrow> wsOpen s) \<Longrightarrow>
    ownStep cdc s (WsSendPbBuf written msg (s\<lparr>wsSendChan := msgs\<rparr>))"
| sendEnd: "sending s \<Longrightarrow> wsCloseSignal s \<Longrightarrow> ownStep cdc s (s\<lparr>sending := False\<rparr>)"

text \<open>And what the two sides send.\<close>

inductive agentStep :: "'a gateCodec_scheme \<Rightarrow> agent \<Rightarrow> agent \<Rightarrow> bool" for cdc where
  own: "ownStep cdc s s' \<Longrightarrow> agentStep cdc s s'"
| clientSends: "wsOpen s \<Longrightarrow> agentStep cdc s (s\<lparr>sentByClient := sentByClient s @ [m], fromClient := fromClient s @ [m]\<rparr>)"
| backendSends: "\<not> isTcpClosed s \<Longrightarrow>
    agentStep cdc s (s\<lparr>sentByBackend := sentByBackend s @ bs, fromBackend := fromBackend s @ bs\<rparr>)"

inductive_cases ownStepE: "ownStep cdc s s'"
inductive_cases agentStepE: "agentStep cdc s s'"

interpretation wsChan: bounded_channel wsSendChan queueMsg wsSendCap
  by unfold_locales (simp add: queueMsg_def)

section \<open>What is relayed\<close>

text \<open>
  \<open>ms\<close> are the messages that were forwarded, \<open>ps\<close> the packets that were read from the backend.
\<close>

definition split_packet :: "string \<Rightarrow> int \<times> string" where
  "split_packet msg = (wrap32 (Uint32 msg), drop 8 msg)"

definition decoded :: "'a gateCodec_scheme \<Rightarrow> string list \<Rightarrow> (int \<times> string) list" where
  "decoded cdc ms = List.map_filter (\<lambda>m. map_option (\<lambda>(i, _, b). (i, b)) (un_WebSocketMessage cdc m)) ms"

definition relays :: "'a gateCodec_scheme \<Rightarrow> agent \<Rightarrow> (int \<times> string) list \<Rightarrow> string list \<Rightarrow> bool" where
  "relays cdc s ms ps \<longleftrightarrow> (\<exists>taken. sentByClient s = taken @ fromClient s \<and> subseq ms (decoded cdc taken))
     \<and> toBackend s = concat (map (\<lambda>(i, m). PackByteMsg i m) ms)
     \<and> sentByBackend s = concat ps @ fromBackend s
     \<and> (\<forall>p \<in> set ps. \<forall>rest. socket_read agentMaxRead (p @ rest) = Inr (p, rest))
     \<and> subseq (toClient s @ map split_packet (wsSendChan s)) (map split_packet ps)
     \<and> length (wsSendChan s) \<le> wsSendCap"

lemma socket_read_again:
  assumes "socket_read mx inp = Inr (p, rest)"
  shows "socket_read mx (p @ rest') = Inr (p, rest')"
proof -
  obtain h b where p: "p = h @ b" "length h = PacketHeaderSize" "\<not> Uint32 (drop 4 h) > mx" "length b = nat (Uint32 (drop 4 h))"
    using assms by (auto simp: socket_read_def Let_def split: sum.splits prod.splits if_splits dest!: ReadFull_Inr)
  then show ?thesis
    using ReadFull_append[of h "b @ rest'"] ReadFull_append[of b rest'] by (simp add: socket_read_def Let_def)
qed

lemma decoded_append: "decoded cdc (a @ b) = decoded cdc a @ decoded cdc b"
  by (induction a) (simp_all add: decoded_def map_filter_simps split: option.splits)

lemma closeTcpSocket_simps [simp]:
  "sentByClient (closeTcpSocket s) = sentByClient s" "fromClient (closeTcpSocket s) = fromClient s"
  "sentByBackend (closeTcpSocket s) = sentByBackend s" "fromBackend (closeTcpSocket s) = fromBackend s"
  "toBackend (closeTcpSocket s) = toBackend s" "toClient (closeTcpSocket s) = toClient s"
  "wsSendChan (closeTcpSocket s) = wsSendChan s" "wsOpen (closeTcpSocket s) = wsOpen s" "isTcpClosed (closeTcpSocket s)"
  "recvPhase (closeTcpSocket s) = recvPhase s" "tcpPhase (closeTcpSocket s) = tcpPhase s"
  "sending (closeTcpSocket s) = sending s" "wsCloseSignal (closeTcpSocket s) = wsCloseSignal s"
  by (simp_all add: closeTcpSocket_def)

lemma relays_forward:
  assumes "relays cdc s ms ps" and "fromClient s = m # r"
  shows "\<exists>ms'. relays cdc (forwardMsg cdc written s) ms' ps"
proof -
  obtain taken where taken: "sentByClient s = taken @ m # r" "subseq ms (decoded cdc taken)"
    using assms by (auto simp: relays_def)
  have more: "sentByClient s = (taken @ [m]) @ r" using taken(1) by simp
  show ?thesis
  proof (cases "un_WebSocketMessage cdc m")
    case None
    then have "decoded cdc (taken @ [m]) = decoded cdc taken" by (simp add: decoded_append) (simp add: decoded_def map_filter_simps)
    then have "relays cdc (forwardMsg cdc written s) ms ps"
      using assms None taken(2) more by (auto simp: relays_def forwardMsg_def)
    then show ?thesis by blast
  next
    case (Some w)
    obtain i nm b where w: "w = (i, nm, b)" by (cases w)
    have dec: "decoded cdc (taken @ [m]) = decoded cdc taken @ [(i, b)]"
      using Some w by (simp add: decoded_append) (simp add: decoded_def map_filter_simps)
    have "subseq (ms @ (if written then [(i, b)] else [])) (decoded cdc (taken @ [m]))"
      unfolding dec using taken(2) by (intro list_emb_append_mono) auto
    then have "relays cdc (forwardMsg cdc written s) (ms @ (if written then [(i, b)] else [])) ps"
      using assms Some w more by (auto simp: relays_def forwardMsg_def)
    then show ?thesis by blast
  qed
qed

lemma relays_step:
  assumes "agentStep cdc s s'" and r: "relays cdc s ms ps"
  shows "\<exists>ms' ps'. relays cdc s' ms' ps'"
  using assms(1)
proof (cases rule: agentStep.cases)
  case own
  then show ?thesis
  proof (cases rule: ownStep.cases)
    case (forward written)
    then obtain m msgs where "fromClient s = m # msgs" by (cases "fromClient s") auto
    from relays_forward[OF r this, of written] show ?thesis unfolding forward(1) by blast
  next
    case (tcpRead msg rest)
    let ?full = "\<not> length (wsSendChan s) < wsSendCap"
    have "subseq ((toClient s @ map split_packet (wsSendChan s)) @ (if ?full then [] else [split_packet msg]))
        (map split_packet ps @ [split_packet msg])"
      using r by (intro list_emb_append_mono) (auto simp: relays_def)
    moreover have "fromBackend s = msg @ rest" using tcpRead(3) socket_read_shrinks by blast
    ultimately have "relays cdc s' ms (ps @ [msg])"
      using r tcpRead(1) socket_read_again[OF tcpRead(3)] by (auto simp: relays_def queueMsg_def)
    then show ?thesis by blast
  next
    case (send msg msgs written)
    have "subseq (toClient s @ map split_packet msgs) (toClient s @ map split_packet (msg # msgs))"
      unfolding subseq_append' by (simp add: list_emb_Cons)
    then have "relays cdc s' ms ps"
      using r send by (auto simp: relays_def WsSendPbBuf_def split_packet_def elim: subseq_order.trans)
    then show ?thesis by blast
  qed (use r in \<open>auto simp: relays_def\<close>)
qed (use r in \<open>auto simp: relays_def\<close>)

lemma relays_reached: "(agentStep cdc)\<^sup>*\<^sup>* newAgent s \<Longrightarrow> \<exists>ms ps. relays cdc s ms ps"
proof (induction rule: rtranclp_induct)
  case base
  have "relays cdc newAgent [] []" by (simp add: relays_def newAgent_def decoded_def)
  then show ?case by blast
next
  case (step s s')
  then show ?case using relays_step by blast
qed

text \<open>Packets read off a stream of packets are the first packets of the stream.\<close>

lemma packets_of_stream:
  assumes "concat ps @ rest = concat (map (\<lambda>(i, m). PackByteMsg i m) qs)"
    and "\<forall>p \<in> set ps. \<forall>rest. socket_read agentMaxRead (p @ rest) = Inr (p, rest)"
    and "\<forall>(i, m) \<in> set qs. int (length m) \<le> agentMaxRead"
  shows "\<exists>n. ps = map (\<lambda>(i, m). PackByteMsg i m) (take n qs)"
  using assms
proof (induction ps arbitrary: qs)
  case Nil
  then show ?case by (intro exI[of _ 0]) simp
next
  case (Cons p ps)
  have read: "socket_read agentMaxRead (p @ concat ps @ rest) = Inr (p, concat ps @ rest)" using Cons.prems(2) by simp
  show ?case
  proof (cases qs)
    case Nil
    then have "p = []" using Cons.prems(1) by simp
    then show ?thesis using read socket_read_shrinks[OF read] by (simp add: PacketHeaderSize_def)
  next
    case (Cons q qs')
    obtain i m where q: "q = (i, m)" by (cases q)
    have "int (length m) \<le> agentMaxRead" using Cons.prems(3) Cons q by simp
    then have "socket_read agentMaxRead (PackByteMsg i m @ concat (map (\<lambda>(i, m). PackByteMsg i m) qs'))
        = Inr (PackByteMsg i m, concat (map (\<lambda>(i, m). PackByteMsg i m) qs'))"
      by (rule socket_read_frame) (simp add: agentMaxRead_def)
    then have eq: "p = PackByteMsg i m" "concat ps @ rest = concat (map (\<lambda>(i, m). PackByteMsg i m) qs')"
      using read Cons.prems(1) Cons q by simp_all
    obtain n where "ps = map (\<lambda>(i, m). PackByteMsg i m) (take n qs')"
      using Cons.IH[OF eq(2)] Cons.prems(2,3) Cons by auto
    then show ?thesis using eq(1) Cons q by (intro exI[of _ "Suc n"]) simp
  qed
qed

text \<open>
  C30: Whatever the three goroutines, the client and the backend do in whatever order: the bytes
  written to the message server are whole packets of the client's messages, in their order and none
  twice; what the web client gets are the packets of the message server, in their order and none
  twice, and at most 30 wait to be sent.
\<close>

theorem agent_relays_in_order:
  assumes "(agentStep cdc)\<^sup>*\<^sup>* newAgent s" and "sentByBackend s = concat (map (\<lambda>(i, m). PackByteMsg i m) qs)"
    and "\<forall>(i, m) \<in> set qs. 0 \<le> i \<and> i < 2 ^ 31 \<and> int (length m) \<le> agentMaxRead"
  shows "(\<exists>ms. toBackend s = concat (map (\<lambda>(i, m). PackByteMsg i m) ms) \<and> subseq ms (decoded cdc (sentByClient s)))
    \<and> subseq (toClient s) qs \<and> length (wsSendChan s) \<le> 30"
proof -
  obtain ms ps where r: "relays cdc s ms ps" using relays_reached[OF assms(1)] by blast
  obtain taken where taken: "sentByClient s = taken @ fromClient s" "subseq ms (decoded cdc taken)"
    using r by (auto simp: relays_def)
  have "subseq ms (decoded cdc (sentByClient s))"
    unfolding taken(1) decoded_append by (rule subseq_order.trans[OF taken(2)]) (rule subseq_rev_drop_many[OF subseq_order.order_refl])
  moreover obtain n where n: "ps = map (\<lambda>(i, m). PackByteMsg i m) (take n qs)"
    using packets_of_stream[of ps "fromBackend s" qs] r assms(2,3) by (fastforce simp: relays_def)
  have "map split_packet (map (\<lambda>(i, m). PackByteMsg i m) (take n qs)) = take n qs"
  proof (rule nth_equalityI)
    fix j assume "j < length (map split_packet (map (\<lambda>(i, m). PackByteMsg i m) (take n qs)))"
    then have "take n qs ! j \<in> set qs" using nth_mem in_set_takeD by fastforce
    then have "split_packet (PackByteMsg i m) = (i, m)" if "take n qs ! j = (i, m)" for i m
      using that assms(3) PackByteMsg_header[of i m] wrap32_id[of i] by (auto simp: split_packet_def PacketHeaderSize_def)
    then show "map split_packet (map (\<lambda>(i, m). PackByteMsg i m) (take n qs)) ! j = take n qs ! j"
      using \<open>j < _\<close> by (cases "take n qs ! j") simp
  qed simp
  then have "subseq (toClient s @ map split_packet (wsSendChan s)) (take n qs)" using r n by (simp add: relays_def)
  then have "subseq (toClient s @ map split_packet (wsSendChan s)) qs"
    using subseq_rev_drop_many[of _ "take n qs" "drop n qs"] by simp
  then have "subseq (toClient s) qs"
    using subseq_order.trans[OF subseq_rev_drop_many[OF subseq_order.order_refl]] by blast
  ultimately show ?thesis using r by (auto simp: relays_def wsSendCap_def)
qed

section \<open>The end of a connection\<close>

fun recvLeft :: "recvPhase \<Rightarrow> nat" where
  "recvLeft Receiving = 4" | "recvLeft ClosingWs = 3" | "recvLeft ClosingTcp = 2" | "recvLeft ClosingSignal = 1" | "recvLeft RecvEnded = 0"

fun tcpLeft :: "tcpPhase \<Rightarrow> nat" where
  "tcpLeft Reading = 2" | "tcpLeft TcpFailed = 1" | "tcpLeft TcpEnded = 0"

definition agentLeft :: "agent \<Rightarrow> nat" where
  "agentLeft s = recvLeft (recvPhase s) + tcpLeft (tcpPhase s) + 2 * length (fromBackend s) + length (wsSendChan s)
     + of_bool (sending s)"

definition agentOk :: "agent \<Rightarrow> bool" where
  "agentOk s \<longleftrightarrow> (wsCloseSignal s \<longleftrightarrow> recvPhase s = RecvEnded) \<and> (wsOpen s \<longleftrightarrow> recvPhase s \<in> {Receiving, ClosingWs})
     \<and> (recvPhase s \<in> {ClosingSignal, RecvEnded} \<or> tcpPhase s = TcpEnded \<longrightarrow> isTcpClosed s)"

lemma agentOk_own: "ownStep cdc s s' \<Longrightarrow> agentOk s \<Longrightarrow> agentOk s'"
  by (erule ownStepE)
    (auto simp: agentOk_def forwardMsg_def queueMsg_def WsSendPbBuf_def split: list.splits option.splits prod.splits)

lemma agentOk_step: "agentStep cdc s s' \<Longrightarrow> agentOk s \<Longrightarrow> agentOk s'"
  by (erule agentStepE) (auto simp: agentOk_own, auto simp: agentOk_def)

lemma agentOk_reached: "(agentStep cdc)\<^sup>*\<^sup>* newAgent s \<Longrightarrow> agentOk s"
  by (induction rule: rtranclp_induct) (simp add: agentOk_def newAgent_def, rule agentOk_step)

lemma agentLeft_own:
  assumes "ownStep cdc s s'" and "recvPhase s \<noteq> Receiving"
  shows "agentLeft s' < agentLeft s \<and> recvPhase s' \<noteq> Receiving"
  using assms(1)
proof (cases rule: ownStep.cases)
  case (tcpRead msg rest)
  have "fromBackend s = msg @ rest" "8 \<le> length msg"
    using socket_read_shrinks[OF tcpRead(3)] by (simp_all add: PacketHeaderSize_def)
  then show ?thesis using tcpRead(1,2) assms(2) by (auto simp: agentLeft_def queueMsg_def)
qed (use assms(2) in \<open>auto simp: agentLeft_def WsSendPbBuf_def\<close>)

lemma own_steps_left:
  "(ownStep cdc ^^ n) s s' \<Longrightarrow> agentOk s \<Longrightarrow> recvPhase s \<noteq> Receiving \<Longrightarrow>
     n + agentLeft s' \<le> agentLeft s \<and> agentOk s' \<and> recvPhase s' \<noteq> Receiving"
proof (induction n arbitrary: s')
  case (Suc n)
  then obtain m where "(ownStep cdc ^^ n) s m" "ownStep cdc m s'" by auto
  then show ?case using Suc.IH[of m] Suc.prems agentLeft_own[of cdc m s'] agentOk_own[of cdc m s'] by auto
qed simp



theorem agent_relays_in_order_witness:
  "toClient (WsSendPbBuf True (PackByteMsg 5 ''hi'') newAgent) = [(5, ''hi'')]
   \<and> subseq (toClient (WsSendPbBuf True (PackByteMsg 5 ''hi'') newAgent)) [(5, ''hi'')]"
proof -
  let ?p = "PackByteMsg 5 ''hi''"
  let ?sent = "newAgent\<lparr>sentByBackend := ?p, fromBackend := ?p\<rparr>"
  let ?queued = "newAgent\<lparr>sentByBackend := ?p, wsSendChan := [?p]\<rparr>"
  let ?got = "newAgent\<lparr>sentByBackend := ?p, toClient := [(5, ''hi'')]\<rparr>"
  have "agentStep demoCodec newAgent ?sent"
    using agentStep.backendSends[of newAgent demoCodec ?p] by (simp add: newAgent_def)
  moreover have "ownStep demoCodec ?sent ?queued"
    using ownStep.tcpRead[of ?sent ?p "[]" demoCodec] socket_read_frame[of "''hi''" agentMaxRead 5 "[]"]
    by (simp add: newAgent_def agentMaxRead_def queueMsg_def wsSendCap_def)
  moreover have p: "wrap32 (Uint32 ?p) = 5" "drop 8 ?p = ''hi''"
    using PackByteMsg_header[of 5 "''hi''"] by (simp_all add: PacketHeaderSize_def wrap32_def)
  then have "ownStep demoCodec ?queued ?got"
    using ownStep.send[of ?queued ?p "[]" True demoCodec] by (simp add: newAgent_def WsSendPbBuf_def)
  ultimately have "(agentStep demoCodec)\<^sup>*\<^sup>* newAgent ?got"
    by (meson agentStep.own rtranclp.rtrancl_into_rtrancl rtranclp.rtrancl_refl)
  from agent_relays_in_order[OF this, of "[(5, ''hi'')]"]
  have "subseq [(5, ''hi'')] [(5 :: int, ''hi'')]" by (simp add: newAgent_def agentMaxRead_def)
  then show ?thesis using p by (simp add: WsSendPbBuf_def newAgent_def)
qed

text \<open>No step writes to a closed connection, and it stays closed.\<close>

definition deaf :: "'a gateCodec_scheme \<Rightarrow> agent \<Rightarrow> bool" where
  "deaf cdc s \<longleftrightarrow> (\<forall>s'. (agentStep cdc)\<^sup>*\<^sup>* s s' \<longrightarrow> toBackend s' = toBackend s)"

lemma closed_step: "agentStep cdc s s' \<Longrightarrow> isTcpClosed s \<Longrightarrow> isTcpClosed s' \<and> toBackend s' = toBackend s"
  by (auto simp: forwardMsg_def queueMsg_def WsSendPbBuf_def elim!: agentStepE ownStepE
      split: list.splits option.splits prod.splits)

lemma closed_steps: "(agentStep cdc)\<^sup>*\<^sup>* s s' \<Longrightarrow> isTcpClosed s \<Longrightarrow> isTcpClosed s' \<and> toBackend s' = toBackend s"
  by (induction rule: rtranclp_induct) (auto dest: closed_step)

lemma closed_deaf: "isTcpClosed s \<Longrightarrow> deaf cdc s"
  by (simp add: deaf_def closed_steps)

text \<open>
  When the connection to the message server is closed, for instance because the server has sent
  nothing for a minute, nobody tells the web client: the web socket stays open and its receive loop
  goes on, a message that the client then sends is taken and lost, and nothing is ever written to the
  message server again.
\<close>

theorem agent_goes_deaf:
  assumes "un_WebSocketMessage cdc m = Some (i, nm, bin)"
  shows "\<exists>s. (agentStep cdc)\<^sup>*\<^sup>* newAgent s \<and> sentByClient s = [m] \<and> fromClient s = [] \<and> toBackend s = []
    \<and> wsOpen s \<and> recvPhase s = Receiving \<and> deaf cdc s"
proof -
  let ?failed = "newAgent\<lparr>tcpPhase := TcpFailed\<rparr>"
  let ?closed = "(closeTcpSocket ?failed)\<lparr>tcpPhase := TcpEnded\<rparr>"
  let ?sent = "?closed\<lparr>sentByClient := [m], fromClient := [m]\<rparr>"
  have "ownStep cdc newAgent ?failed" by (rule ownStep.tcpFail) (simp add: newAgent_def)
  moreover have "ownStep cdc ?failed ?closed" by (rule ownStep.tcpClose) simp
  moreover have "agentStep cdc ?closed ?sent"
    using agentStep.clientSends[of ?closed cdc m] by (simp add: newAgent_def closeTcpSocket_def)
  moreover have "ownStep cdc ?sent (forwardMsg cdc False ?sent)" by (rule ownStep.forward) (simp_all add: newAgent_def)
  ultimately have "(agentStep cdc)\<^sup>*\<^sup>* newAgent (forwardMsg cdc False ?sent)"
    by (meson agentStep.own rtranclp.rtrancl_into_rtrancl rtranclp.rtrancl_refl)
  moreover have "deaf cdc (forwardMsg cdc False ?sent)" using assms by (intro closed_deaf) (simp add: forwardMsg_def)
  moreover have "sentByClient (forwardMsg cdc False ?sent) = [m]" "fromClient (forwardMsg cdc False ?sent) = []"
    "toBackend (forwardMsg cdc False ?sent) = []" "wsOpen (forwardMsg cdc False ?sent)"
    "recvPhase (forwardMsg cdc False ?sent) = Receiving" using assms by (simp_all add: forwardMsg_def newAgent_def)
  ultimately show ?thesis by blast
qed

theorem agent_goes_deaf_witness:
  "\<exists>s. (agentStep demoCodec)\<^sup>*\<^sup>* newAgent s \<and> sentByClient s = [demoWs (9, [], ''hi'')] \<and> wsOpen s \<and> deaf demoCodec s"
proof -
  have "un_WebSocketMessage demoCodec (demoWs (9, [], ''hi'')) = Some (9, [], ''hi'')"
    by (simp add: demoCodec_def demoUnWs_demoWs int64_def)
  from agent_goes_deaf[OF this] show ?thesis by blast
qed

end
