(* ===== verification/Logger.thy ===== *)
theory Logger
  imports IM_Prelude "HOL-Library.Sublist"
begin

unbundle bit_operations_syntax

text \<open>
  common-library/log/log.go: the logger, whose callers format a message into a buffer and hand it to
  the goroutine that writes it. Buffers are reused; they are addresses here, with their contents in
  a store, so that sharing one would show.
\<close>

section \<open>The text of a message\<close>

definition Ltime :: int where "Ltime = 1"
definition Lfile :: int where "Lfile = 2"
definition Llevel :: int where "Llevel = 4"

definition LevelInfo :: int where "LevelInfo = 2"

definition LevelName :: "string list" where
  "LevelName = [''Trace'', ''Debug'', ''Info '', ''Warn '', ''Error'', ''Fatal'']"

text \<open>
  The last two parts of a path, searched from its end for the second slash; the first character is
  not looked at. \<open>depth\<close> is the number of slashes to be found.
\<close>

definition FileReversedDepth :: nat where "FileReversedDepth = 2"

fun shortFrom :: "nat \<Rightarrow> nat \<Rightarrow> string \<Rightarrow> string" where
  "shortFrom 0 depth file = file"
| "shortFrom (Suc i) depth file =
     (if file ! Suc i = CHR ''/'' then
        (if depth = FileReversedDepth then drop (Suc i + 1) file else shortFrom i (depth + 1) file)
      else shortFrom i depth file)"

definition shortFile :: "string \<Rightarrow> string" where
  "shortFile file = shortFrom (length file - 1) 1 file"

text \<open>None: \<open>s[len(s)-1]\<close> is out of range. \<open>caller\<close> is what \<open>runtime.Caller\<close> returned, if anything.\<close>

definition formatMsg :: "int \<Rightarrow> string \<Rightarrow> nat \<Rightarrow> (string \<times> int) option \<Rightarrow> string \<Rightarrow> string option" where
  "formatMsg flag now level caller s =
     (let a = (if flag AND Ltime > 0 then ''['' @ now @ ''] '' else []);
          b = (if flag AND Llevel > 0 then ''['' @ LevelName ! level @ ''] '' else []);
          (file, line) = (case caller of None \<Rightarrow> (''???'', 0) | Some (f, l) \<Rightarrow> (shortFile f, l));
          c = (if flag AND Lfile > 0 then ''['' @ file @ '':'' @ itoa line @ ''] '' else [])
      in if s = [] then None
         else Some (a @ b @ c @ s @ (if last s \<noteq> CHR 0x0A then [CHR 0x0A] else [])))"

lemma shortFrom_skip:
  "k \<le> i \<Longrightarrow> (\<And>j. k < j \<Longrightarrow> j \<le> i \<Longrightarrow> file ! j \<noteq> CHR ''/'') \<Longrightarrow> shortFrom i depth file = shortFrom k depth file"
proof (induction i)
  case (Suc i)
  then show ?case by (cases "k = Suc i") auto
qed simp

lemma shortFile_last_two:
  assumes "pre \<noteq> []" and "CHR ''/'' \<notin> set dir" and "CHR ''/'' \<notin> set f"
  shows "shortFile (pre @ ''/'' @ dir @ ''/'' @ f) = dir @ ''/'' @ f"
proof -
  let ?file = "pre @ ''/'' @ dir @ ''/'' @ f"
  let ?a = "length pre" and ?b = "length pre + 1 + length dir"
  have at: "?file ! ?a = CHR ''/''" "?file ! ?b = CHR ''/''" by (simp_all add: nth_append)
  have in_f: "?file ! j \<noteq> CHR ''/''" if "?b < j" "j \<le> length ?file - 1" for j
  proof -
    have "?file ! j = f ! (j - (?b + 1))" "j - (?b + 1) < length f"
      using that nth_append[of "pre @ ''/'' @ dir @ ''/''" f j] by simp_all
    then show ?thesis using assms(3) nth_mem by metis
  qed
  have in_dir: "?file ! j \<noteq> CHR ''/''" if "?a < j" "j \<le> ?b - 1" for j
  proof -
    have "?file ! j = (dir @ ''/'' @ f) ! (j - (?a + 1))" "j - (?a + 1) < length dir"
      using that nth_append[of "pre @ ''/''" "dir @ ''/'' @ f" j] by simp_all
    then have "?file ! j = dir ! (j - (?a + 1))" "j - (?a + 1) < length dir" by (simp_all add: nth_append)
    then show ?thesis using assms(2) nth_mem by metis
  qed
  have "shortFile ?file = shortFrom ?b 1 ?file" unfolding shortFile_def by (rule shortFrom_skip) (use in_f in auto)
  also have "\<dots> = shortFrom (?b - 1) 2 ?file" using at(2) by (cases "?b") (simp_all add: FileReversedDepth_def numeral_2_eq_2)
  also have "\<dots> = shortFrom ?a 2 ?file" by (rule shortFrom_skip) (use in_dir in auto)
  also have "\<dots> = drop (?a + 1) ?file" using at(1) assms(1) by (cases "?a") (simp_all add: FileReversedDepth_def)
  finally show ?thesis by simp
qed

section \<open>The logger\<close>

text \<open>
  A caller: it has called Output, holds a buffer to be filled, or is about to send one. The writing
  goroutine: it waits, writes a buffer, is about to put it back, or has returned. Close: not called,
  to signal, waiting for the goroutine, done.
\<close>

datatype caller = NoCall | Called nat string | Filling nat nat string | Sending nat
datatype writer = Waiting | Writing nat | Putting nat | Returned
datatype closer = Open | Quitting | Joining | Done

text \<open>
  \<open>written\<close> is what the handlers were given, with the handler; \<open>sent\<close> what callers have sent. Handlers
  are numbered.
\<close>

record logger =
  level :: nat
  flag :: int
  handler :: nat
  closedHandlers :: "nat set"
  contents :: "nat \<Rightarrow> string"
  next_buf :: nat
  bufs :: "nat list"
  msg :: "nat list"
  quit :: bool
  closed :: bool
  callers :: "nat \<Rightarrow> caller"
  writer :: writer
  closer :: closer
  setting :: "nat option"
  written :: "(nat \<times> string) list"
  sent :: "string list"

definition newLogger :: "nat \<Rightarrow> int \<Rightarrow> logger" where
  "newLogger h fl = \<lparr>level = 2, flag = fl, handler = h, closedHandlers = {}, contents = (\<lambda>_. []), next_buf = 0, bufs = [],
     msg = [], quit = False, closed = False, callers = (\<lambda>_. NoCall), writer = Waiting, closer = Open, setting = None,
     written = [], sent = []\<rparr>"

definition msgCap :: nat where "msgCap = 1024"
definition maxBufPoolSize :: nat where "maxBufPoolSize = 16"

text \<open>The last buffer of the pool, or a new one, empty.\<close>

definition popBuf :: "logger \<Rightarrow> nat \<times> logger" where
  "popBuf l = (if bufs l = [] then (next_buf l, l\<lparr>next_buf := next_buf l + 1\<rparr>)
     else (last (bufs l), l\<lparr>bufs := butlast (bufs l)\<rparr>))"

definition putBuf :: "nat \<Rightarrow> logger \<Rightarrow> logger" where
  "putBuf b l = (if length (bufs l) < maxBufPoolSize then l\<lparr>bufs := bufs l @ [b]\<rparr> else l)"

definition startOutput :: "nat \<Rightarrow> nat \<Rightarrow> string \<Rightarrow> logger \<Rightarrow> logger" where
  "startOutput p lv s l = l\<lparr>callers := (callers l)(p := Called lv s)\<rparr>"

text \<open>What is not to be logged is an empty buffer of its own; it is sent all the same.\<close>

definition enterOutput :: "nat \<Rightarrow> nat \<Rightarrow> string \<Rightarrow> logger \<Rightarrow> logger" where
  "enterOutput p lv s l =
     (if closed l \<or> level l > lv
      then l\<lparr>callers := (callers l)(p := Sending (next_buf l)), contents := (contents l)(next_buf l := []), next_buf := next_buf l + 1\<rparr>
      else case popBuf l of (b, l') \<Rightarrow> l'\<lparr>callers := (callers l)(p := Filling b lv s)\<rparr>)"

text \<open>A caller whose message is empty panics; its buffer is lost.\<close>

definition fillBuf :: "nat \<Rightarrow> nat \<Rightarrow> string option \<Rightarrow> logger \<Rightarrow> logger" where
  "fillBuf p b text l = (case text of
     None \<Rightarrow> l\<lparr>callers := (callers l)(p := NoCall)\<rparr>
   | Some t \<Rightarrow> l\<lparr>contents := (contents l)(b := t), callers := (callers l)(p := Sending b)\<rparr>)"

definition sendMsg :: "nat \<Rightarrow> nat \<Rightarrow> logger \<Rightarrow> logger" where
  "sendMsg p b l = l\<lparr>msg := msg l @ [b], sent := sent l @ [contents l b], callers := (callers l)(p := NoCall)\<rparr>"

definition writeMsg :: "nat \<Rightarrow> logger \<Rightarrow> logger" where
  "writeMsg b l = l\<lparr>written := written l @ [(handler l, contents l b)], writer := Putting b\<rparr>"

definition setHandler :: "nat \<Rightarrow> logger \<Rightarrow> logger" where
  "setHandler h l = l\<lparr>closedHandlers := insert (handler l) (closedHandlers l), handler := h, setting := None\<rparr>"

text \<open>
  The steps. The handler is written and replaced under one mutex, so not while it is being written to;
  the handlers that are set are new ones. Close is called once, and one caller at a time sets a handler.
\<close>

inductive logStep :: "logger \<Rightarrow> logger \<Rightarrow> bool" where
  called: "callers l p = NoCall \<Longrightarrow> logStep l (startOutput p lv s l)"
| entered: "callers l p = Called lv s \<Longrightarrow> logStep l (enterOutput p lv s l)"
| filled: "callers l p = Filling b lv s \<Longrightarrow> logStep l (fillBuf p b (formatMsg (flag l) now lv caller s) l)"
| sendTo: "callers l p = Sending b \<Longrightarrow> length (msg l) < msgCap \<Longrightarrow> logStep l (sendMsg p b l)"
| take: "writer l = Waiting \<Longrightarrow> msg l = b # bs \<Longrightarrow> logStep l (l\<lparr>msg := bs, writer := Writing b\<rparr>)"
| writes: "writer l = Writing b \<Longrightarrow> logStep l (writeMsg b l)"
| put: "writer l = Putting b \<Longrightarrow> logStep l ((putBuf b l)\<lparr>writer := Waiting\<rparr>)"
| returns: "writer l = Waiting \<Longrightarrow> quit l \<Longrightarrow> msg l = [] \<Longrightarrow> logStep l (l\<lparr>writer := Returned\<rparr>)"
| close: "closer l = Open \<Longrightarrow> logStep l (l\<lparr>closed := True, closer := Quitting\<rparr>)"
| quit: "closer l = Quitting \<Longrightarrow> logStep l (l\<lparr>quit := True, closer := Joining\<rparr>)"
| joined: "closer l = Joining \<Longrightarrow> writer l = Returned \<Longrightarrow>
    logStep l (l\<lparr>closedHandlers := insert (handler l) (closedHandlers l), closer := Done\<rparr>)"
| setLevel: "logStep l (l\<lparr>level := lv\<rparr>)"
| setStart: "\<not> closed l \<Longrightarrow> setting l = None \<Longrightarrow> h \<notin> closedHandlers l \<Longrightarrow> h \<noteq> handler l \<Longrightarrow> logStep l (l\<lparr>setting := Some h\<rparr>)"
| setEnd: "setting l = Some h \<Longrightarrow> (\<And>b. writer l \<noteq> Writing b) \<Longrightarrow> logStep l (setHandler h l)"

inductive_cases logStepE: "logStep l l'"

text \<open>Setting the level by its name, in any case; another name changes nothing.\<close>

definition toLower :: "char \<Rightarrow> char" where
  "toLower c = (let n = (of_char c :: nat) in if 65 \<le> n \<and> n \<le> 90 then char_of (n + 32) else c)"

definition SetLevelByName :: "string \<Rightarrow> logger \<Rightarrow> logger" where
  "SetLevelByName name l =
     (case map_of (zip [''trace'', ''debug'', ''info'', ''warn'', ''error'', ''fatal''] [0..<6]) (map toLower name) of
        None \<Rightarrow> l
      | Some lv \<Rightarrow> l\<lparr>level := lv\<rparr>)"

lemma SetLevelByName_step: "SetLevelByName name l = l \<or> logStep l (SetLevelByName name l)"
  by (simp add: SetLevelByName_def logStep.setLevel split: option.split)

lemmas log_defs = startOutput_def enterOutput_def popBuf_def putBuf_def fillBuf_def sendMsg_def writeMsg_def setHandler_def

section \<open>Ownership\<close>

text \<open>Who holds a buffer: the pool, the channel, the writer, or a caller.\<close>

fun writer_bufs :: "writer \<Rightarrow> nat list" where
  "writer_bufs (Writing b) = [b]"
| "writer_bufs (Putting b) = [b]"
| "writer_bufs _ = []"

fun caller_bufs :: "caller \<Rightarrow> nat set" where
  "caller_bufs (Filling b lv s) = {b}"
| "caller_bufs (Sending b) = {b}"
| "caller_bufs _ = {}"

definition shared :: "logger \<Rightarrow> nat list" where
  "shared l = bufs l @ msg l @ writer_bufs (writer l)"

definition held :: "logger \<Rightarrow> nat \<Rightarrow> nat set" where
  "held l = (\<lambda>p. caller_bufs (callers l p))"

definition apart :: "nat list \<Rightarrow> nat \<Rightarrow> (nat \<Rightarrow> nat set) \<Rightarrow> bool" where
  "apart sh n hs \<longleftrightarrow> distinct sh \<and> set sh \<subseteq> {..<n} \<and> (\<forall>p. hs p \<inter> set sh = {} \<and> hs p \<subseteq> {..<n})
     \<and> (\<forall>p q. p \<noteq> q \<longrightarrow> hs p \<inter> hs q = {})"

definition owned :: "logger \<Rightarrow> bool" where
  "owned l \<longleftrightarrow> apart (shared l) (next_buf l) (held l)"

lemma apart_mono:
  "apart sh n hs \<Longrightarrow> distinct sh' \<Longrightarrow> set sh' \<subseteq> set sh \<Longrightarrow> (\<And>p. hs' p \<subseteq> hs p) \<Longrightarrow> apart sh' n hs'"
  unfolding apart_def by (meson disjoint_iff subset_iff)

lemma apart_new: "apart sh n hs \<Longrightarrow> apart sh (Suc n) (hs(p := {n}))"
  unfolding apart_def by (auto simp: subset_iff less_Suc_eq disjoint_iff split: if_splits)

lemma apart_take:
  "apart sh n hs \<Longrightarrow> b \<in> set sh \<Longrightarrow> distinct sh' \<Longrightarrow> set sh' \<subseteq> set sh - {b} \<Longrightarrow> apart sh' n (hs(p := {b}))"
  unfolding apart_def by (auto simp: subset_iff disjoint_iff)

lemma apart_give:
  "apart sh n hs \<Longrightarrow> b \<in> hs p \<Longrightarrow> distinct sh' \<Longrightarrow> set sh' = insert b (set sh) \<Longrightarrow> apart sh' n (hs(p := {}))"
  unfolding apart_def by (auto simp: subset_iff disjoint_iff)

lemma owned_new: "owned (newLogger h fl)"
  by (simp add: owned_def apart_def shared_def held_def newLogger_def)

text \<open>What the steps that do not touch a buffer leave as it is.\<close>

lemma owned_same:
  assumes "owned l" and "shared l' = shared l" "next_buf l' = next_buf l" "\<And>p. held l' p \<subseteq> held l p"
  shows "owned l'"
  using apart_mono[OF assms(1)[unfolded owned_def], of "shared l'" "held l'"] assms by (auto simp: owned_def apart_def)

lemma owned_step:
  assumes "logStep l l'" and o: "owned l"
  shows "owned l'"
  using assms(1)
proof (cases rule: logStep.cases)
  case (entered p lv s)
  have a: "apart (shared l) (next_buf l) (held l)" using o by (simp add: owned_def)
  consider "closed l \<or> level l > lv" | "\<not> (closed l \<or> level l > lv)" "bufs l = []"
    | bs b where "\<not> (closed l \<or> level l > lv)" "bufs l = bs @ [b]" by (cases "bufs l" rule: rev_cases) auto
  then show ?thesis
  proof cases
    case 3
    have "apart (bs @ msg l @ writer_bufs (writer l)) (next_buf l) ((held l)(p := {b}))"
      using a 3(2) by (intro apart_take[OF a, of b]) (auto simp: apart_def shared_def)
    then show ?thesis using entered(1) 3 by (simp add: owned_def enterOutput_def popBuf_def shared_def held_def fun_upd_def if_distrib cong: if_cong)
  qed (use entered(1) apart_new[OF a, of p] in
      \<open>simp add: owned_def enterOutput_def popBuf_def shared_def held_def fun_upd_def if_distrib cong: if_cong\<close>)+
next
  case (filled p b lv s now caller)
  then show ?thesis by (intro owned_same[OF o]) (auto simp: fillBuf_def shared_def held_def split: option.splits)
next
  case (sendTo p b)
  have a: "apart (shared l) (next_buf l) (held l)" using o by (simp add: owned_def)
  have b: "b \<in> held l p" using sendTo(2) by (simp add: held_def)
  then have "b \<notin> set (shared l)" using a by (auto simp: apart_def)
  then have "apart (bufs l @ (msg l @ [b]) @ writer_bufs (writer l)) (next_buf l) ((held l)(p := {}))"
    using a by (intro apart_give[OF a b]) (auto simp: apart_def shared_def)
  then show ?thesis using sendTo(1) by (simp add: owned_def sendMsg_def shared_def held_def fun_upd_def if_distrib cong: if_cong)
next
  case (take b bs)
  then show ?thesis using o by (auto simp: owned_def apart_def shared_def held_def)
next
  case (put b)
  then show ?thesis using o by (auto simp: owned_def apart_def shared_def held_def putBuf_def)
qed (intro owned_same[OF o]; auto simp: shared_def held_def startOutput_def writeMsg_def setHandler_def)+

section \<open>What is written\<close>

text \<open>
  What was sent and is not yet written, from the contents of the buffers now; and that the parts of
  Close agree.
\<close>

fun being_written :: "(nat \<Rightarrow> string) \<Rightarrow> writer \<Rightarrow> string list" where
  "being_written c (Writing b) = [c b]"
| "being_written c _ = []"

definition pending :: "logger \<Rightarrow> string list" where
  "pending l = being_written (contents l) (writer l) @ map (contents l) (msg l)"

definition closing_ok :: "logger \<Rightarrow> bool" where
  "closing_ok l \<longleftrightarrow> (closed l \<longleftrightarrow> closer l \<noteq> Open) \<and> (quit l \<longleftrightarrow> closer l \<in> {Joining, Done})
     \<and> (writer l = Returned \<longrightarrow> quit l) \<and> (closer l = Done \<longrightarrow> writer l = Returned)"

definition log_ok :: "logger \<Rightarrow> bool" where
  "log_ok l \<longleftrightarrow> owned l \<and> sent l = map snd (written l) @ pending l \<and> length (msg l) \<le> msgCap \<and> closing_ok l"

lemma owned_caller: "owned l \<Longrightarrow> b \<in> caller_bufs (callers l p) \<Longrightarrow> b \<notin> set (shared l)"
  by (auto simp: owned_def apart_def held_def disjoint_iff)

lemma owned_next: "owned l \<Longrightarrow> next_buf l \<notin> set (shared l)"
  by (auto simp: owned_def apart_def)

text \<open>Filling a buffer that is neither in the channel nor being written does not show.\<close>

lemma pending_fill:
  assumes "b \<notin> set (shared l)" and "msg l' = msg l" "writer l' = writer l" "contents l' = (contents l)(b := t)"
  shows "pending l' = pending l"
  using assms by (cases "writer l") (auto simp: pending_def shared_def)

lemma pending_same: "contents l' = contents l \<Longrightarrow> msg l' = msg l \<Longrightarrow> writer l' = writer l \<Longrightarrow> pending l' = pending l"
  by (simp add: pending_def)

lemma sent_step:
  assumes "logStep l l'" and o: "owned l" and eq: "sent l = map snd (written l) @ pending l"
  shows "sent l' = map snd (written l') @ pending l'"
  using assms(1)
proof (cases rule: logStep.cases)
  case (entered p lv s)
  show ?thesis
  proof (cases "closed l \<or> level l > lv")
    case True
    then have "pending l' = pending l"
      using entered(1) by (intro pending_fill[OF owned_next[OF o], of _ "[]"]) (simp_all add: enterOutput_def)
    then show ?thesis using entered(1) True eq by (simp add: enterOutput_def)
  next
    case False
    then show ?thesis using entered(1) eq pending_same[of l' l] by (cases "bufs l = []") (simp_all add: enterOutput_def popBuf_def)
  qed
next
  case (filled p b lv s now caller)
  have b: "b \<notin> set (shared l)" using owned_caller[OF o, of b p] filled(2) by simp
  show ?thesis
  proof (cases "formatMsg (flag l) now lv caller s")
    case None
    then show ?thesis using filled(1) eq pending_same[of l' l] by (simp add: fillBuf_def)
  next
    case (Some t)
    then have "pending l' = pending l" using filled(1) by (intro pending_fill[OF b, of _ t]) (simp_all add: fillBuf_def)
    then show ?thesis using filled(1) Some eq by (simp add: fillBuf_def)
  qed
next
  case (put b)
  then show ?thesis using eq by (simp add: pending_def putBuf_def)
next
  case (sendTo p b)
  then show ?thesis using eq by (simp add: pending_def sendMsg_def)
qed (use eq in \<open>auto simp: pending_def startOutput_def writeMsg_def setHandler_def\<close>)

lemma closing_same:
  "closed l' = closed l \<Longrightarrow> closer l' = closer l \<Longrightarrow> quit l' = quit l \<Longrightarrow> (writer l' = Returned \<longleftrightarrow> writer l = Returned)
     \<Longrightarrow> closing_ok l' = closing_ok l"
  by (simp add: closing_ok_def)

lemma closing_step:
  assumes "logStep l l'" and ok: "closing_ok l"
  shows "closing_ok l'"
  using assms(1)
proof (cases rule: logStep.cases)
  case returns
  then show ?thesis using ok by (cases "closer l") (simp_all add: closing_ok_def)
next
  case close
  then show ?thesis using ok by (auto simp: closing_ok_def)
next
  case quit
  then show ?thesis using ok by (auto simp: closing_ok_def)
next
  case joined
  then show ?thesis using ok by (auto simp: closing_ok_def)
qed (rule closing_same[THEN iffD2, OF _ _ _ _ ok]; simp add: log_defs split: option.split)+

lemma log_ok_step:
  assumes "logStep l l'" and ok: "log_ok l"
  shows "log_ok l'"
proof -
  have "length (msg l') \<le> msgCap" if "length (msg l) \<le> msgCap"
    using assms(1) that by (cases rule: logStep.cases) (simp_all add: log_defs split: option.split)
  then show ?thesis using owned_step[OF assms(1)] sent_step[OF assms(1)] closing_step[OF assms(1)] ok by (simp add: log_ok_def)
qed

lemma log_ok_new: "log_ok (newLogger h fl)"
  by (simp add: log_ok_def owned_new pending_def closing_ok_def) (simp add: newLogger_def)

lemma log_ok_reached: "logStep\<^sup>*\<^sup>* (newLogger h fl) l \<Longrightarrow> log_ok l"
  by (induction rule: rtranclp_induct) (rule log_ok_new, rule log_ok_step)

text \<open>A text ends its line, or is the empty one of what is not to be logged.\<close>

definition ends_line :: "string \<Rightarrow> bool" where
  "ends_line t \<longleftrightarrow> t = [] \<or> last t = CHR 0x0A"

definition lines_ok :: "logger \<Rightarrow> bool" where
  "lines_ok l \<longleftrightarrow> list_all ends_line (sent l) \<and> (\<forall>p b. callers l p = Sending b \<longrightarrow> ends_line (contents l b))"

lemma formatMsg_ends_line: "formatMsg fl now lv caller s = Some t \<Longrightarrow> ends_line t"
  by (auto simp: formatMsg_def Let_def ends_line_def split: prod.splits if_splits)

lemma owned_callers_apart:
  assumes "owned l" and "callers l q = Sending b'"
  shows "b' < next_buf l" and "b \<in> caller_bufs (callers l p) \<Longrightarrow> q \<noteq> p \<Longrightarrow> b' \<noteq> b"
proof -
  have h: "held l q = {b'}" using assms(2) by (simp add: held_def)
  have "held l q \<subseteq> {..<next_buf l}" using assms(1) by (simp add: owned_def apart_def)
  then show "b' < next_buf l" using h by simp
  assume "b \<in> caller_bufs (callers l p)" "q \<noteq> p"
  then have "b \<in> held l p" "held l q \<inter> held l p = {}" using assms(1) by (auto simp: held_def owned_def apart_def)
  then show "b' \<noteq> b" using h by auto
qed

lemma lines_ok_step:
  assumes "logStep l l'" and "owned l" and "lines_ok l"
  shows "lines_ok l'"
  using assms(1)
proof (cases rule: logStep.cases)
  case (entered p lv s)
  then show ?thesis using assms(3) owned_callers_apart(1)[OF assms(2)]
    by (auto simp: lines_ok_def enterOutput_def popBuf_def ends_line_def)
next
  case (filled p b lv s now caller)
  then show ?thesis using assms(3) owned_callers_apart(2)[OF assms(2), of _ _ b p]
    by (auto simp: lines_ok_def fillBuf_def formatMsg_ends_line split: option.splits)
qed (use assms(3) in \<open>auto simp: lines_ok_def startOutput_def sendMsg_def writeMsg_def putBuf_def setHandler_def split: if_splits\<close>)

lemma lines_ok_reached: "logStep\<^sup>*\<^sup>* (newLogger h fl) l \<Longrightarrow> lines_ok l"
proof (induction rule: rtranclp_induct)
  case base
  then show ?case by (simp add: lines_ok_def newLogger_def)
next
  case (step l l')
  then show ?case using lines_ok_step log_ok_reached by (auto simp: log_ok_def)
qed

text \<open>
  C33: However callers, writer, Close and SetHandler interleave, no buffer is held twice; what the
  handlers have been given are the texts that were sent, unchanged, in the order of sending and none
  left out or twice; what is missing waits in the channel or is being written; and every text ends its
  line or is empty.
\<close>

theorem log_written_in_order:
  assumes "logStep\<^sup>*\<^sup>* (newLogger h fl) l"
  shows "sent l = map snd (written l) @ pending l \<and> distinct (bufs l @ msg l @ writer_bufs (writer l))
    \<and> length (pending l) \<le> 1025 \<and> list_all ends_line (map snd (written l))"
proof -
  have "log_ok l" by (rule log_ok_reached[OF assms])
  moreover from this have "length (pending l) \<le> 1025" by (cases "writer l") (auto simp: log_ok_def pending_def msgCap_def)
  moreover have "list_all ends_line (sent l)" using lines_ok_reached[OF assms] by (simp add: lines_ok_def)
  ultimately show ?thesis by (simp add: log_ok_def owned_def apart_def shared_def)
qed

section \<open>Close\<close>

definition handler_ok :: "logger \<Rightarrow> bool" where
  "handler_ok l \<longleftrightarrow> (closer l \<noteq> Done \<longrightarrow> handler l \<notin> closedHandlers l
     \<and> (\<forall>h. setting l = Some h \<longrightarrow> h \<notin> closedHandlers l \<and> h \<noteq> handler l))"

lemma handler_same:
  "closer l' = closer l \<Longrightarrow> handler l' = handler l \<Longrightarrow> closedHandlers l' = closedHandlers l \<Longrightarrow> setting l' = setting l
     \<Longrightarrow> handler_ok l' = handler_ok l"
  by (simp add: handler_ok_def)

lemma handler_ok_step:
  assumes "logStep l l'" and ok: "handler_ok l"
  shows "handler_ok l'"
  using assms(1)
proof (cases rule: logStep.cases)
  case close
  then show ?thesis using ok by (auto simp: handler_ok_def)
next
  case quit
  then show ?thesis using ok by (auto simp: handler_ok_def)
next
  case joined
  then show ?thesis by (simp add: handler_ok_def)
next
  case (setStart h)
  then show ?thesis using ok by (auto simp: handler_ok_def)
next
  case (setEnd h)
  then show ?thesis using ok by (auto simp: handler_ok_def setHandler_def)
qed (rule handler_same[THEN iffD2, OF _ _ _ _ ok]; simp add: log_defs split: option.split)+

lemma handler_ok_reached: "logStep\<^sup>*\<^sup>* (newLogger h fl) l \<Longrightarrow> handler_ok l"
  by (induction rule: rtranclp_induct) (simp add: handler_ok_def newLogger_def, rule handler_ok_step)

lemma sent_grows: "logStep l l' \<Longrightarrow> prefix (sent l) (sent l') \<and> prefix (written l) (written l')"
  by (erule logStep.cases) (simp_all add: log_defs split: option.split)

lemma returns_empty:
  assumes "logStep l l'" and "writer l' = Returned" and "writer l \<noteq> Returned"
  shows "l' = l\<lparr>writer := Returned\<rparr> \<and> writer l = Waiting \<and> msg l = []"
  using assms(1)
proof (cases rule: logStep.cases)
  case (entered p lv s)
  then have "writer l' = writer l" by (cases "bufs l = []") (simp_all add: enterOutput_def popBuf_def)
  then show ?thesis using assms(2,3) by simp
next
  case (filled p b lv s now caller)
  then have "writer l' = writer l" by (simp add: fillBuf_def split: option.split)
  then show ?thesis using assms(2,3) by simp
qed (use assms(2,3) in \<open>simp_all add: log_defs\<close>)

text \<open>What has to be written: what was sent up to when the writer returned.\<close>

definition flushed :: "string list \<Rightarrow> logger \<Rightarrow> bool" where
  "flushed ts l \<longleftrightarrow> prefix ts (if writer l = Returned then map snd (written l) else sent l)"

lemma flushed_step:
  assumes "logStep l l'" and "log_ok l" and "flushed ts l"
  shows "flushed ts l'"
proof (cases "writer l = Returned")
  case True
  with assms(1) have "writer l' = Returned" by (cases rule: logStep.cases) (simp_all add: log_defs split: option.split)
  moreover have "prefix (map snd (written l)) (map snd (written l'))" using sent_grows[OF assms(1)] by (auto intro: map_mono_prefix)
  ultimately show ?thesis using assms(3) True by (auto simp: flushed_def intro: prefix_order.trans)
next
  case False
  have "map snd (written l') = sent l'" if "writer l' = Returned"
    using returns_empty[OF assms(1) that False] assms(2) by (auto simp: log_ok_def pending_def)
  then show ?thesis using sent_grows[OF assms(1)] assms(3) False by (auto simp: flushed_def intro: prefix_order.trans)
qed

text \<open>
  C34: Close loses nothing that was sent before the writer returned: when Close is done, all of it has
  been written. And no handler is written to after it was closed, by Close or by SetHandler.
\<close>

theorem log_close_flushes:
  assumes "logStep\<^sup>*\<^sup>* (newLogger h fl) l"
  shows "(writer l = Writing b \<longrightarrow> handler l \<notin> closedHandlers l)
    \<and> (writer l \<noteq> Returned \<and> logStep\<^sup>*\<^sup>* l l' \<and> closer l' = Done \<longrightarrow> prefix (sent l) (map snd (written l')))"
proof (intro conjI impI)
  have ok: "log_ok l" by (rule log_ok_reached[OF assms])
  show "handler l \<notin> closedHandlers l" if "writer l = Writing b"
    using that ok handler_ok_reached[OF assms] by (auto simp: log_ok_def closing_ok_def handler_ok_def)
  assume l': "writer l \<noteq> Returned \<and> logStep\<^sup>*\<^sup>* l l' \<and> closer l' = Done"
  then have "logStep\<^sup>*\<^sup>* l l'" by simp
  then have "log_ok l' \<and> flushed (sent l) l'"
  proof (induction rule: rtranclp_induct)
    case base
    then show ?case using l' ok by (simp add: flushed_def)
  next
    case (step l' l'')
    then show ?case using log_ok_step flushed_step by blast
  qed
  moreover from this have "writer l' = Returned" using l' by (simp add: log_ok_def closing_ok_def)
  ultimately show "prefix (sent l) (map snd (written l'))" by (simp add: flushed_def)
qed

text \<open>A caller that can never send.\<close>

definition stuck :: "nat \<Rightarrow> logger \<Rightarrow> bool" where
  "stuck p l \<longleftrightarrow> (\<forall>l'. logStep\<^sup>*\<^sup>* l l' \<longrightarrow> callers l' p = callers l p)"

definition full :: "nat \<Rightarrow> nat \<Rightarrow> logger \<Rightarrow> bool" where
  "full p b l \<longleftrightarrow> writer l = Returned \<and> length (msg l) = msgCap \<and> callers l p = Sending b"

lemma full_step: "logStep l l' \<Longrightarrow> full p b l \<Longrightarrow> full p b l'"
  by (erule logStep.cases) (auto simp: full_def log_defs split: option.splits)

lemma full_steps: "logStep\<^sup>*\<^sup>* l l' \<Longrightarrow> full p b l \<Longrightarrow> full p b l'"
  by (induction rule: rtranclp_induct) (auto intro: full_step)

lemma full_stuck: "full p b l \<Longrightarrow> stuck p l"
  using full_steps by (fastforce simp: stuck_def full_def)

text \<open>A closed logger takes what is not to be logged into the channel until it is full.\<close>

definition over :: "nat \<Rightarrow> logger \<Rightarrow> bool" where
  "over n l \<longleftrightarrow> closed l \<and> closer l = Done \<and> writer l = Returned \<and> length (msg l) = n \<and> callers l = (\<lambda>_. NoCall)"

lemma one_more:
  assumes "over n l" and "n < msgCap"
  shows "\<exists>l'. logStep\<^sup>*\<^sup>* l l' \<and> over (n + 1) l'"
proof -
  let ?a = "startOutput 0 0 [] l"
  let ?b = "enterOutput 0 0 [] ?a"
  let ?c = "sendMsg 0 (next_buf l) ?b"
  have "logStep l ?a" by (rule logStep.called) (use assms(1) in \<open>simp add: over_def\<close>)
  moreover have "logStep ?a ?b" by (rule logStep.entered) (simp add: startOutput_def)
  moreover have "logStep ?b ?c"
    by (rule logStep.sendTo) (use assms in \<open>simp_all add: over_def enterOutput_def startOutput_def\<close>)
  ultimately have "logStep\<^sup>*\<^sup>* l ?c" by (meson rtranclp.rtrancl_into_rtrancl rtranclp.rtrancl_refl)
  moreover have "over (n + 1) ?c" using assms(1) by (auto simp: over_def sendMsg_def enterOutput_def startOutput_def)
  ultimately show ?thesis by blast
qed

lemma up_to_full: "over n l \<Longrightarrow> n + k \<le> msgCap \<Longrightarrow> \<exists>l'. logStep\<^sup>*\<^sup>* l l' \<and> over (n + k) l'"
proof (induction k)
  case (Suc k)
  then obtain l' where l': "logStep\<^sup>*\<^sup>* l l'" "over (n + k) l'" by auto
  then obtain l'' where "logStep\<^sup>*\<^sup>* l' l''" "over (n + k + 1) l''" using one_more[of "n + k" l'] Suc.prems by auto
  then show ?case using l'(1) by (intro exI[of _ l'']) auto
qed auto

lemma close_all: "\<exists>l. logStep\<^sup>*\<^sup>* (newLogger h fl) l \<and> over 0 l"
proof -
  let ?a = "(newLogger h fl)\<lparr>closed := True, closer := Quitting\<rparr>"
  let ?b = "?a\<lparr>quit := True, closer := Joining\<rparr>"
  let ?c = "?b\<lparr>writer := Returned\<rparr>"
  let ?d = "?c\<lparr>closedHandlers := insert (handler ?c) (closedHandlers ?c), closer := Done\<rparr>"
  have "logStep (newLogger h fl) ?a" by (rule logStep.close) (simp add: newLogger_def)
  moreover have "logStep ?a ?b" by (rule logStep.quit) simp
  moreover have "logStep ?b ?c" by (rule logStep.returns) (simp_all add: newLogger_def)
  moreover have "logStep ?c ?d" by (rule logStep.joined) simp_all
  ultimately have "logStep\<^sup>*\<^sup>* (newLogger h fl) ?d" by (meson rtranclp.rtrancl_into_rtrancl rtranclp.rtrancl_refl)
  moreover have "over 0 ?d" by (simp add: over_def newLogger_def)
  ultimately show ?thesis by blast
qed

text \<open>
  Logging after Close is not refused: what is not to be logged is sent to the channel that nobody
  reads any more, and when 1024 messages are in it, the next caller, whatever it logs, hangs for
  ever.
\<close>

theorem closed_logger_hangs:
  "\<exists>l b. logStep\<^sup>*\<^sup>* (newLogger h fl) l \<and> closer l = Done \<and> callers l p = Sending b \<and> stuck p l"
proof -
  obtain l where l: "logStep\<^sup>*\<^sup>* (newLogger h fl) l" "over msgCap l"
    using close_all up_to_full[of 0 _ msgCap] by (metis add_0 order_refl rtranclp_trans)
  let ?a = "startOutput p 0 s l" and ?b = "enterOutput p 0 s (startOutput p 0 s l)"
  have "logStep l ?a" by (rule logStep.called) (use l(2) in \<open>simp add: over_def\<close>)
  moreover have "logStep ?a ?b" by (rule logStep.entered) (simp add: startOutput_def)
  ultimately have "logStep\<^sup>*\<^sup>* (newLogger h fl) ?b" using l(1) by (meson rtranclp.rtrancl_into_rtrancl)
  moreover have "full p (next_buf l) ?b" "closer ?b = Done"
    using l(2) by (simp_all add: full_def over_def enterOutput_def startOutput_def)
  ultimately show ?thesis using full_stuck by (auto simp: full_def)
qed

text \<open>A message that is written and flushed, for the witnesses.\<close>

definition demoSent :: logger where
  "demoSent = sendMsg 1 0 (enterOutput 1 0 ''x'' (startOutput 1 0 ''x'' (newLogger 7 0)))"

lemma demoSent_reached: "logStep\<^sup>*\<^sup>* (newLogger 7 0) demoSent"
proof -
  let ?a = "startOutput 1 0 ''x'' (newLogger 7 0)"
  have "logStep (newLogger 7 0) ?a" by (rule logStep.called) (simp add: newLogger_def)
  moreover have "logStep ?a (enterOutput 1 0 ''x'' ?a)" by (rule logStep.entered) (simp add: startOutput_def)
  moreover have "logStep (enterOutput 1 0 ''x'' ?a) demoSent"
    unfolding demoSent_def by (rule logStep.sendTo) (simp_all add: enterOutput_def startOutput_def newLogger_def msgCap_def)
  ultimately show ?thesis by (meson rtranclp.rtrancl_into_rtrancl rtranclp.rtrancl_refl)
qed

theorem log_written_in_order_witness: "sent demoSent = map snd (written demoSent) @ pending demoSent \<and> sent demoSent = [[]]"
  using log_written_in_order[OF demoSent_reached]
  by (simp add: demoSent_def sendMsg_def enterOutput_def startOutput_def newLogger_def)

text \<open>From there Close, the writer's round and its return, and the end of Close.\<close>

definition demoClosed :: logger where
  "demoClosed = demoSent\<lparr>msg := [], bufs := [0], written := [(7, [])], writer := Returned, closed := True, quit := True,
     closer := Done, closedHandlers := {7}\<rparr>"

lemma demoClosed_reached: "logStep\<^sup>*\<^sup>* demoSent demoClosed"
proof -
  let ?a = "demoSent\<lparr>closed := True, closer := Quitting\<rparr>"
  let ?b = "?a\<lparr>quit := True, closer := Joining\<rparr>"
  let ?c = "?b\<lparr>msg := [], writer := Writing 0\<rparr>"
  let ?d = "writeMsg 0 ?c"
  let ?e = "(putBuf 0 ?d)\<lparr>writer := Waiting\<rparr>"
  let ?f = "?e\<lparr>writer := Returned\<rparr>"
  have m: "msg demoSent = [0]" "writer demoSent = Waiting" "closer demoSent = Open" "bufs demoSent = []" "handler demoSent = 7"
    "contents demoSent 0 = []" "written demoSent = []" "closedHandlers demoSent = {}"
    by (simp_all add: demoSent_def sendMsg_def enterOutput_def startOutput_def newLogger_def)
  have "logStep demoSent ?a" by (rule logStep.close) (rule m)
  moreover have "logStep ?a ?b" by (rule logStep.quit) simp
  moreover have "logStep ?b ?c" by (rule logStep.take) (simp_all add: m)
  moreover have "logStep ?c ?d" by (rule logStep.writes) simp
  moreover have "logStep ?d ?e" by (rule logStep.put) (simp add: writeMsg_def)
  moreover have "logStep ?e ?f" by (rule logStep.returns) (simp_all add: writeMsg_def putBuf_def)
  moreover have "logStep ?f (?f\<lparr>closedHandlers := insert (handler ?f) (closedHandlers ?f), closer := Done\<rparr>)"
    by (rule logStep.joined) (simp_all add: writeMsg_def putBuf_def)
  moreover have "?f\<lparr>closedHandlers := insert (handler ?f) (closedHandlers ?f), closer := Done\<rparr> = demoClosed"
    by (simp add: demoClosed_def m writeMsg_def putBuf_def maxBufPoolSize_def)
  ultimately show ?thesis by (metis (no_types, lifting) rtranclp.rtrancl_into_rtrancl rtranclp.rtrancl_refl)
qed

theorem log_close_flushes_witness: "prefix (sent demoSent) (map snd (written demoClosed)) \<and> sent demoSent = [[]]"
proof -
  have "writer demoSent \<noteq> Returned" "sent demoSent = [[]]" "closer demoClosed = Done"
    by (simp_all add: demoClosed_def demoSent_def sendMsg_def enterOutput_def startOutput_def newLogger_def)
  with log_close_flushes[OF demoSent_reached, of 0 demoClosed] demoClosed_reached show ?thesis by simp
qed

end
