(* ===== verification/LogHandlers.thy ===== *)
theory LogHandlers
  imports Framing
begin

text \<open>
  common-library/log: the handlers that write to rotating files (filehandler.go,
  rotatingfileatdayhandler.go) and to a socket (sockethandler.go). The file system maps paths to
  contents; what bufio still holds is counted with the file. Only the handler touches its files.
\<close>

type_synonym files = "string \<rightharpoonup> string"

text \<open>\<open>os.Rename\<close>; its error is not looked at. \<open>os.OpenFile\<close> with O_CREATE and O_APPEND.\<close>

definition Rename :: "string \<Rightarrow> string \<Rightarrow> files \<Rightarrow> files" where
  "Rename src dst fs = (case fs src of None \<Rightarrow> fs | Some c \<Rightarrow> (fs(dst \<mapsto> c))(src := None))"

definition openAppend :: "string \<Rightarrow> files \<Rightarrow> files" where
  "openAppend name fs = (case fs name of None \<Rightarrow> fs(name \<mapsto> []) | Some c \<Rightarrow> fs)"

definition appendTo :: "string \<Rightarrow> string \<Rightarrow> files \<Rightarrow> files" where
  "appendTo name p fs = fs(name := map_option (\<lambda>c. c @ p) (fs name))"

definition size_of :: "string \<Rightarrow> files \<Rightarrow> int" where
  "size_of name fs = (case fs name of None \<Rightarrow> 0 | Some c \<Rightarrow> int (length c))"

section \<open>Rotation by size\<close>

record rotatingFile =
  fileName :: string
  maxBytes :: int
  backupCount :: int

definition backup :: "string \<Rightarrow> int \<Rightarrow> string" where
  "backup name i = name @ ''.'' @ itoa i"

text \<open>The loop over the backups, from \<open>n\<close> down to 1.\<close>

fun shiftBackups :: "string \<Rightarrow> nat \<Rightarrow> files \<Rightarrow> files" where
  "shiftBackups name 0 fs = fs"
| "shiftBackups name (Suc i) fs = shiftBackups name i (Rename (backup name (int i + 1)) (backup name (int i + 2)) fs)"

definition doRollover :: "rotatingFile \<Rightarrow> files \<Rightarrow> files" where
  "doRollover h fs =
     (if maxBytes h \<le> 0 then fs
      else if size_of (fileName h) fs < maxBytes h then fs
      else if backupCount h > 0 then
        openAppend (fileName h) (Rename (fileName h) (backup (fileName h) 1)
          (shiftBackups (fileName h) (nat (backupCount h - 1)) fs))
      else fs)"

definition Write_rotating :: "rotatingFile \<Rightarrow> string \<Rightarrow> files \<Rightarrow> files" where
  "Write_rotating h p fs = appendTo (fileName h) p (doRollover h fs)"

text \<open>None: the error for a limit that is not positive.\<close>

definition NewRotatingFileHandler :: "string \<Rightarrow> int \<Rightarrow> int \<Rightarrow> files \<Rightarrow> (rotatingFile \<times> files) option" where
  "NewRotatingFileHandler name mx n fs =
     (if mx \<le> 0 then None else Some (\<lparr>fileName = name, maxBytes = mx, backupCount = n\<rparr>, openAppend name fs))"

lemma backup_eq [simp]: "backup name i = backup name j \<longleftrightarrow> i = j" "backup name i \<noteq> name" "name \<noteq> backup name i"
  by (auto simp: backup_def)

text \<open>The files hold consecutive parts of what was written: \<open>segs\<close>, the oldest first, the last in the file itself.\<close>

definition holds :: "string \<Rightarrow> nat \<Rightarrow> files \<Rightarrow> string list \<Rightarrow> bool" where
  "holds name n fs segs \<longleftrightarrow> segs \<noteq> [] \<and> length segs \<le> n + 1 \<and> fs name = Some (last segs)
     \<and> (\<forall>i \<in> {1..n}. fs (backup name (int i)) = (if i < length segs then Some (rev segs ! i) else None))"

lemma Rename_at:
  "src \<noteq> dst \<Longrightarrow> Rename src dst fs x = (if fs src = None then fs x else if x = src then None else if x = dst then fs src else fs x)"
  by (auto simp: Rename_def split: option.splits)

text \<open>
  Where the backups are numbered without gaps, each moves to the next number, the last one being lost.
\<close>

lemma shiftBackups_at:
  assumes "\<forall>j \<in> {1..m}. fs (backup name (int j)) = None \<longrightarrow> fs (backup name (int j + 1)) = None"
  shows "(\<forall>i \<in> {2..m + 1}. shiftBackups name m fs (backup name (int i)) = fs (backup name (int i - 1)))
    \<and> (0 < m \<longrightarrow> shiftBackups name m fs (backup name 1) = None)
    \<and> (\<forall>x. (\<forall>i \<in> {1..m + 1}. x \<noteq> backup name (int i)) \<longrightarrow> shiftBackups name m fs x = fs x)"
  using assms
proof (induction m arbitrary: fs)
  case (Suc m)
  let ?fs = "Rename (backup name (int m + 1)) (backup name (int m + 2)) fs"
  let ?r = "shiftBackups name m ?fs"
  have at: "?fs y = (if y = backup name (int m + 1) then None
      else if y = backup name (int m + 2) then fs (backup name (int m + 1)) else fs y)" for y
    using bspec[OF Suc.prems, of "Suc m"] by (auto simp: Rename_at add.commute)
  have "\<forall>j \<in> {1..m}. ?fs (backup name (int j)) = None \<longrightarrow> ?fs (backup name (int j + 1)) = None"
    using Suc.prems by (auto simp: at)
  note IH = Suc.IH[OF this]
  have "?r (backup name (int i)) = fs (backup name (int i - 1))" if "i \<in> {2..m + 2}" for i
  proof (cases "i = m + 2")
    case True
    then have i: "int i = int m + 2" "int i - 1 = int m + 1" by auto
    have "?r (backup name (int i)) = ?fs (backup name (int i))" using IH True by auto
    also have "\<dots> = fs (backup name (int m + 1))" unfolding i(1) at by simp
    finally show ?thesis unfolding i(2) .
  next
    case False
    then have "?r (backup name (int i)) = ?fs (backup name (int i - 1))" using IH that by auto
    then show ?thesis using that False by (auto simp: at)
  qed
  moreover have "?r (backup name 1) = None"
  proof (cases m)
    case 0
    then show ?thesis using at[of "backup name 1"] by simp
  next
    case (Suc k)
    then show ?thesis using IH by simp
  qed
  moreover have "?r x = fs x" if "\<forall>i \<in> {1..m + 2}. x \<noteq> backup name (int i)" for x
  proof -
    have "x \<noteq> backup name (int m + 1)" "x \<noteq> backup name (int m + 2)" using that[rule_format, of "m + 1"] that[rule_format, of "m + 2"] by auto
    then have "?fs x = fs x" by (simp add: at)
    then show ?thesis using IH that by auto
  qed
  ultimately show ?case by simp
qed simp

lemma holds_append:
  "holds name n fs segs \<Longrightarrow> holds name n (appendTo name p fs) (butlast segs @ [last segs @ p])"
  by (cases segs rule: rev_cases) (auto simp: holds_def appendTo_def)

lemma holds_rollover:
  assumes h: "holds name n fs segs" and n: "0 < n"
  shows "\<exists>k \<le> 1. holds name n (openAppend name (Rename name (backup name 1) (shiftBackups name (n - 1) fs))) (drop k segs @ [[]])"
proof -
  define r where "r = shiftBackups name (n - 1) fs"
  have gaps: "\<forall>j \<in> {1..n - 1}. fs (backup name (int j)) = None \<longrightarrow> fs (backup name (int j + 1)) = None"
  proof (intro ballI impI)
    fix j assume j: "j \<in> {1..n - 1}" "fs (backup name (int j)) = None"
    have at: "fs (backup name (int i)) = (if i < length segs then Some (rev segs ! i) else None)" if "i \<in> {1..n}" for i
      using h that unfolding holds_def by blast
    have "j \<in> {1..n}" "j + 1 \<in> {1..n}" using j(1) n by auto
    then have "fs (backup name (int (j + 1))) = None" using at[of j] at[of "j + 1"] j(2) by (simp split: if_splits)
    then show "fs (backup name (int j + 1)) = None" by (simp add: add.commute)
  qed
  note r = shiftBackups_at[OF gaps, folded r_def]
  have name: "r name = Some (last segs)" using r h by (auto simp: holds_def)
  let ?f = "openAppend name (Rename name (backup name 1) r)"
  have f: "?f name = Some []" "?f (backup name 1) = Some (last segs)"
    by (simp_all add: openAppend_def Rename_at name)
  have f2: "?f (backup name (int i)) = fs (backup name (int i - 1))" if "i \<in> {2..n}" for i
    using that r by (auto simp: openAppend_def Rename_at name)
  define k :: nat where "k = (if length segs = n + 1 then 1 else 0)"
  have "?f (backup name (int i)) = (if i < length (drop k segs @ [[]]) then Some (rev (drop k segs @ [[]]) ! i) else None)"
    if i: "i \<in> {1..n}" for i
  proof (cases "i = 1")
    case True
    have "drop k segs \<noteq> []" using h n by (auto simp: k_def holds_def)
    then have "rev (drop k segs) ! 0 = last segs" 
      by (cases segs rule: rev_cases) (auto simp: rev_drop k_def split: if_splits)
    then show ?thesis using True f(2) \<open>drop k segs \<noteq> []\<close> by simp
  next
    case False
    then have "i - 1 \<in> {1..n}" "i \<in> {2..n}" "int i - 1 = int (i - 1)" using i by auto
    then have "?f (backup name (int i)) = (if i - 1 < length segs then Some (rev segs ! (i - 1)) else None)"
      using f2[of i] h by (simp only: holds_def)
    moreover have "rev (drop k segs @ [[]]) ! i = rev segs ! (i - 1)" if "i < length (drop k segs @ [[]])"
      using that False i by (cases i) (auto simp: rev_drop)
    moreover have "i < length (drop k segs @ [[]]) \<longleftrightarrow> i - 1 < length segs"
      using i False h by (auto simp: k_def holds_def)
    ultimately show ?thesis by simp
  qed
  moreover have "length (drop k segs @ [[]]) \<le> n + 1" using h by (auto simp: k_def holds_def)
  ultimately have "holds name n ?f (drop k segs @ [[]])" using f(1) by (auto simp: holds_def)
  moreover have "k \<le> 1" by (simp add: k_def)
  ultimately show ?thesis unfolding r_def by blast
qed



section \<open>Rotation at midnight\<close>

text \<open>
  \<open>opened\<close> are the files with what was written to each, the current one last; a name is made from the
  clock at rollFile. The clock is read where the code reads it.
\<close>

record dayFile =
  rollSize :: int
  flushInterval :: int
  checkEveryN :: int
  syncFlush :: bool
  count :: int
  startofPeriod :: int
  lastRoll :: int
  lastFlush :: int
  opened :: "(int \<times> string list) list"

definition kRollPerSeconds :: int where "kRollPerSeconds = 60 * 60 * 24"

definition periodOf :: "int \<Rightarrow> int" where
  "periodOf t = t div kRollPerSeconds * kRollPerSeconds"

definition rollFile :: "int \<Rightarrow> int \<Rightarrow> dayFile \<Rightarrow> dayFile" where
  "rollFile nameTime t f =
     (if t > lastRoll f
      then f\<lparr>lastRoll := t, lastFlush := t, startofPeriod := periodOf t, opened := opened f @ [(nameTime, [])]\<rparr>
      else f)"

definition NewRotatingFileAtDayHandler :: "int \<Rightarrow> int \<Rightarrow> int \<Rightarrow> bool \<Rightarrow> int \<Rightarrow> int \<Rightarrow> dayFile" where
  "NewRotatingFileAtDayHandler sz interval n sync nameTime t = rollFile nameTime t
     \<lparr>rollSize = sz, flushInterval = interval, checkEveryN = n, syncFlush = sync, count = 0, startofPeriod = 0,
      lastRoll = 0, lastFlush = 0, opened = []\<rparr>"

definition NewDefaultRotatingFileAtDayHandler :: "int \<Rightarrow> int \<Rightarrow> int \<Rightarrow> dayFile" where
  "NewDefaultRotatingFileAtDayHandler sz = NewRotatingFileAtDayHandler sz 3 1 True"

definition appendDay :: "string \<Rightarrow> dayFile \<Rightarrow> dayFile" where
  "appendDay b f = f\<lparr>opened := butlast (opened f) @ [(fst (last (opened f)), snd (last (opened f)) @ [b])]\<rparr>"

definition writtenBytes :: "dayFile \<Rightarrow> int" where
  "writtenBytes f = int (length (concat (snd (last (opened f)))))"

text \<open>The clock is read for the check and again, for the name and the time, when the file is rolled.\<close>

definition Write_day :: "string \<Rightarrow> int \<Rightarrow> int \<Rightarrow> int \<Rightarrow> dayFile \<Rightarrow> dayFile" where
  "Write_day b now nameTime t f =
     (let f1 = appendDay b f in
      if writtenBytes f1 > rollSize f1 then rollFile nameTime t f1
      else let f2 = f1\<lparr>count := count f1 + 1\<rparr> in
        if count f2 \<ge> checkEveryN f2 \<or> syncFlush f2 then
          let f3 = f2\<lparr>count := 0\<rparr> in
          if periodOf now \<noteq> startofPeriod f3 then rollFile nameTime t f3
          else if now - lastFlush f3 > flushInterval f3 \<or> syncFlush f3 then f3\<lparr>lastFlush := now\<rparr>
          else f3
        else f2)"

text \<open>
  Writing keeps the messages in order over the files; a file is past its size only within the second
  of the last roll; and a file other than the current one has at most one message past the size.
\<close>

definition dayMessages :: "dayFile \<Rightarrow> string list" where
  "dayMessages f = concat (map snd (opened f))"

lemma rollFile_messages [simp]: "dayMessages (rollFile nameTime t f) = dayMessages f"
  by (simp add: rollFile_def dayMessages_def)

lemma appendDay_messages: "opened f \<noteq> [] \<Longrightarrow> dayMessages (appendDay b f) = dayMessages f @ [b]"
  by (cases "opened f" rule: rev_cases) (simp_all add: appendDay_def dayMessages_def)

lemma Write_day_messages: "opened f \<noteq> [] \<Longrightarrow> dayMessages (Write_day b now nameTime t f) = dayMessages f @ [b]"
  using appendDay_messages[of f b] by (auto simp: Write_day_def Let_def) (simp_all add: dayMessages_def)

text \<open>
  Whenever it is written to, the day handler keeps every message, in order, and after a write the
  current file is within its size or was opened within the second of the clock. But the first message
  of a new day still goes to the file of the day before: the day is looked at after writing.
\<close>

theorem day_handler_write:
  assumes "opened f \<noteq> []" and "0 \<le> rollSize f"
  shows "dayMessages (Write_day b now nameTime t f) = dayMessages f @ [b]
    \<and> (writtenBytes (Write_day b now nameTime t f) \<le> rollSize f \<or> t \<le> lastRoll f)
    \<and> (\<exists>later. opened (Write_day b now nameTime t f) =
          butlast (opened f) @ (fst (last (opened f)), snd (last (opened f)) @ [b]) # later)"
proof (intro conjI)
  show "dayMessages (Write_day b now nameTime t f) = dayMessages f @ [b]" by (rule Write_day_messages[OF assms(1)])
  have r: "writtenBytes (rollFile nameTime t g) \<le> rollSize g \<or> t \<le> lastRoll g" if "0 \<le> rollSize g" for g
    using that by (simp add: rollFile_def writtenBytes_def)
  show "writtenBytes (Write_day b now nameTime t f) \<le> rollSize f \<or> t \<le> lastRoll f"
    using r[of "appendDay b f"] r[of "(appendDay b f)\<lparr>count := 0\<rparr>"] assms(2)
    by (auto simp: Write_day_def Let_def appendDay_def writtenBytes_def split: if_splits)
  show "\<exists>later. opened (Write_day b now nameTime t f) =
      butlast (opened f) @ (fst (last (opened f)), snd (last (opened f)) @ [b]) # later"
    by (auto simp: Write_day_def Let_def appendDay_def rollFile_def)
qed

theorem day_handler_write_witness:
  "dayMessages (Write_day ''c'' 86401 0 86401 (NewDefaultRotatingFileAtDayHandler 9 0 86399)) = [''c'']"
  using day_handler_write[of "NewDefaultRotatingFileAtDayHandler 9 0 86399" "''c''" 86401 0 86401]
  by (simp add: NewDefaultRotatingFileAtDayHandler_def NewRotatingFileAtDayHandler_def rollFile_def dayMessages_def)

section \<open>Rotation by time\<close>

text \<open>The name of the backup is the clock formatted by the suffix, a parameter; None: the panic when the rename fails.\<close>

record timeFile =
  baseName :: string
  interval :: int
  suffix :: string
  rolloverAt :: int

definition newTimeRotating :: "string \<Rightarrow> int \<Rightarrow> int \<Rightarrow> int \<Rightarrow> files \<Rightarrow> (timeFile \<times> files) option" where
  "newTimeRotating name when n modTime fs =
     (case (if when = 0 then Some (1, ''2006-01-02_15-04-05'')
            else if when = 1 then Some (60, ''2006-01-02_15-04'')
            else if when = 2 then Some (3600, ''2006-01-02_15'')
            else if when = 3 then Some (3600 * 24, ''2006-01-02'')
            else None) of
        None \<Rightarrow> None
      | Some (unit, suf) \<Rightarrow> Some (\<lparr>baseName = name, interval = wrap64 (unit * n), suffix = suf,
          rolloverAt = wrap64 (modTime + wrap64 (unit * n))\<rparr>, openAppend name fs))"

definition doRollover_time :: "(int \<Rightarrow> string \<Rightarrow> string) \<Rightarrow> int \<Rightarrow> timeFile \<Rightarrow> files \<Rightarrow> (timeFile \<times> files) option" where
  "doRollover_time Format t h fs =
     (if rolloverAt h \<le> t then
        if fs (baseName h) = None then None
        else Some (h\<lparr>rolloverAt := wrap64 (t + interval h)\<rparr>,
          openAppend (baseName h) (Rename (baseName h) (baseName h @ Format t (suffix h)) fs))
      else Some (h, fs))"

definition Write_time :: "(int \<Rightarrow> string \<Rightarrow> string) \<Rightarrow> string \<Rightarrow> int \<Rightarrow> timeFile \<Rightarrow> files \<Rightarrow> (timeFile \<times> files) option" where
  "Write_time Format b t h fs =
     map_option (\<lambda>(h', fs'). (h', appendTo (baseName h') b fs')) (doRollover_time Format t h fs)"

text \<open>
  Writing keeps what was there: in the file, or, after a roll, under the name of the time. (A file of
  that name already there is replaced.)
\<close>

lemma Write_time_keeps:
  assumes "fs (baseName h) = Some c" and "Format t (suffix h) \<noteq> []"
  shows "\<exists>h' fs'. Write_time Format b t h fs = Some (h', fs') \<and> baseName h' = baseName h
    \<and> (if rolloverAt h \<le> t then fs' (baseName h @ Format t (suffix h)) = Some c \<and> fs' (baseName h) = Some b
       else fs' (baseName h) = Some (c @ b))"
  using assms by (auto simp: Write_time_def doRollover_time_def Rename_def openAppend_def appendTo_def)

section \<open>What every file handler promises\<close>

text \<open>
  \<open>kept s t\<close>: the handler's files hold the text \<open>t\<close>. A write adds to the end of it and may drop
  from the front.
\<close>

locale log_handler =
  fixes put :: "'m \<Rightarrow> 's \<Rightarrow> 's"
    and text_of :: "'m \<Rightarrow> string"
    and kept :: "'s \<Rightarrow> string \<Rightarrow> bool"
  assumes kept_write: "kept s t \<Longrightarrow> \<exists>d t'. t @ text_of m = d @ t' \<and> kept (put m s) t'"
begin

lemma kept_writes: "kept s t \<Longrightarrow> \<exists>d t'. t @ concat (map text_of ms) = d @ t' \<and> kept (fold put ms s) t'"
proof (induction ms arbitrary: s t)
  case (Cons m ms)
  then obtain d t' where t': "t @ text_of m = d @ t'" "kept (put m s) t'" using kept_write by blast
  then obtain d' t'' where "t' @ concat (map text_of ms) = d' @ t''" "kept (fold put ms (put m s)) t''" using Cons.IH by blast
  then show ?case using t'(1) by (intro exI[of _ "d @ d'"] exI[of _ t'']) (simp, metis append.assoc)
qed auto

end

text \<open>The handlers with what they write on: one file, the backups of a file, the files of the days.\<close>

interpretation plainFile: log_handler "\<lambda>b (name, fs). (name, appendTo name b fs)" "\<lambda>b. b" "\<lambda>(name, fs) t. fs name = Some t"
  by unfold_locales (auto simp: appendTo_def)

definition rotating_kept :: "rotatingFile \<times> files \<Rightarrow> string \<Rightarrow> bool" where
  "rotating_kept hf t \<longleftrightarrow> 0 < backupCount (fst hf)
     \<and> (\<exists>segs. holds (fileName (fst hf)) (nat (backupCount (fst hf))) (snd hf) segs \<and> t = concat segs)"

lemma rotating_keeps:
  assumes "0 < backupCount h" and "holds (fileName h) (nat (backupCount h)) fs segs"
  shows "\<exists>d segs'. concat segs @ p = d @ concat segs' \<and> holds (fileName h) (nat (backupCount h)) (Write_rotating h p fs) segs'"
proof -
  have "\<exists>d segs'. concat segs = d @ concat segs' \<and> holds (fileName h) (nat (backupCount h)) (doRollover h fs) segs'"
  proof (cases "maxBytes h \<le> 0 \<or> size_of (fileName h) fs < maxBytes h")
    case True
    then have "doRollover h fs = fs" by (auto simp: doRollover_def)
    then show ?thesis using assms(2) by auto
  next
    case False
    obtain k where k: "holds (fileName h) (nat (backupCount h))
        (openAppend (fileName h) (Rename (fileName h) (backup (fileName h) 1) (shiftBackups (fileName h) (nat (backupCount h) - 1) fs)))
        (drop k segs @ [[]])"
      using holds_rollover[OF assms(2)] assms(1) by auto
    have "concat segs = concat (take k segs) @ concat (drop k segs @ [[]])" by simp (metis append_take_drop_id concat_append)
    moreover have "doRollover h fs = openAppend (fileName h)
        (Rename (fileName h) (backup (fileName h) 1) (shiftBackups (fileName h) (nat (backupCount h) - 1) fs))"
      using False assms(1) by (simp add: doRollover_def nat_diff_distrib)
    ultimately show ?thesis using k by metis
  qed
  then obtain d segs' where s: "concat segs = d @ concat segs'" "holds (fileName h) (nat (backupCount h)) (doRollover h fs) segs'" by blast
  then have "segs' \<noteq> []" by (simp add: holds_def)
  then have "concat segs @ p = d @ concat (butlast segs' @ [last segs' @ p])" using s(1) by (cases segs' rule: rev_cases) auto
  then show ?thesis using holds_append[OF s(2)] unfolding Write_rotating_def by blast
qed

interpretation rotating: log_handler "\<lambda>b (h, fs). (h, Write_rotating h b fs)" "\<lambda>b. b" rotating_kept
proof unfold_locales
  fix s :: "rotatingFile \<times> files" and t m
  assume "rotating_kept s t"
  moreover obtain h fs where "s = (h, fs)" by (cases s)
  ultimately show "\<exists>d t'. t @ m = d @ t' \<and> rotating_kept (case s of (h, fs) \<Rightarrow> (h, Write_rotating h m fs)) t'"
    using rotating_keeps[of h fs _ m] by (fastforce simp: rotating_kept_def)
qed

interpretation dayHandler: log_handler "\<lambda>(b, now, nameTime, t) f. Write_day b now nameTime t f" fst
  "\<lambda>f t. opened f \<noteq> [] \<and> concat (dayMessages f) = t"
proof unfold_locales
  fix f t and m :: "string \<times> int \<times> int \<times> int"
  assume f: "opened f \<noteq> [] \<and> concat (dayMessages f) = t"
  obtain b now nameTime t' where m: "m = (b, now, nameTime, t')" by (cases m)
  have "opened (Write_day b now nameTime t' f) \<noteq> []" by (auto simp: Write_day_def Let_def appendDay_def rollFile_def)
  then show "\<exists>d t'. t @ fst m = d @ t' \<and> opened ((case m of (b, now, nameTime, t) \<Rightarrow> Write_day b now nameTime t) f) \<noteq> []
      \<and> concat (dayMessages ((case m of (b, now, nameTime, t) \<Rightarrow> Write_day b now nameTime t) f)) = t'"
    using f m Write_day_messages[of f b now nameTime t'] by (intro exI[of _ "[]"] exI[of _ "t @ b"]) auto
qed

text \<open>However long the log, the backups hold the newest part of it.\<close>

lemma rotating_log_newest:
  "rotating_kept (h, fs) t \<Longrightarrow> \<exists>d t'. t @ concat ps = d @ t' \<and> rotating_kept (fold (\<lambda>b (h, fs). (h, Write_rotating h b fs)) ps (h, fs)) t'"
  using rotating.kept_writes[of "(h, fs)" t ps] by simp

section \<open>The socket\<close>

text \<open>A message on the socket is its length and its bytes.\<close>

definition socketFrame :: "string \<Rightarrow> string" where
  "socketFrame p = PutUint32 (int (length p)) @ p"

text \<open>The connection, if there is one, with what was written on it; whether dialing succeeds, and the write.\<close>

definition Write_socket :: "bool \<Rightarrow> bool \<Rightarrow> string \<Rightarrow> string option \<Rightarrow> bool \<times> string option" where
  "Write_socket dials writes p c =
     (case (case c of Some out \<Rightarrow> Some out | None \<Rightarrow> if dials then Some [] else None) of
        None \<Rightarrow> (False, None)
      | Some out \<Rightarrow> if writes then (True, Some (out @ socketFrame p)) else (False, None))"

text \<open>What a log server reads back.\<close>

definition readFrame :: "string \<Rightarrow> readErr + (string \<times> string)" where
  "readFrame inp = (case ReadFull 4 inp of Inl e \<Rightarrow> Inl e | Inr (len, rest) \<Rightarrow> ReadFull (nat (Uint32 len)) rest)"

lemma readFrame_socketFrame: "int (length p) < 2 ^ 32 \<Longrightarrow> readFrame (socketFrame p @ rest) = Inr (p, rest)"
  using ReadFull_append[of "PutUint32 (int (length p))" "p @ rest"] Uint32_PutUint32[of "int (length p)" "[]"]
  by (simp add: readFrame_def socketFrame_def)

end
