(* ===== verification/Discovery.thy ===== *)
theory Discovery
  imports Interfaces
begin

text \<open>
  im-library/etcd: register.go, where a message server puts its number of users under a lease, and
  watch.go, where the login server follows what the message servers have put.
\<close>

definition TrimRight :: "string \<Rightarrow> string \<Rightarrow> string" where
  "TrimRight s cutset = rev (dropWhile (\<lambda>c. c \<in> set cutset) (rev s))"

definition TrimLeft :: "string \<Rightarrow> string \<Rightarrow> string" where
  "TrimLeft s cutset = dropWhile (\<lambda>c. c \<in> set cutset) s"

definition dirOf :: "string \<Rightarrow> string" where
  "dirOf dir = TrimRight dir ''/'' @ ''/''"

section \<open>Registering\<close>

text \<open>
  What the loop asks of etcd, and how it answers: a lease or an error, whether a lease is not found
  any more, whether a value was put. The answers may depend on all that was asked before.
\<close>

datatype etcdCall = Grant | Put string string int | KeepAliveOnce int

record etcd =
  grants :: "etcdCall list \<Rightarrow> int option"
  leaseLost :: "etcdCall list \<Rightarrow> bool"
  putOk :: "etcdCall list \<Rightarrow> bool"

record 'v registration =
  lastValue :: 'v
  curLeaseId :: int
  seconds :: int
  asked :: "etcdCall list"

definition sleepS :: "'v registration \<Rightarrow> 'v registration" where
  "sleepS r = r\<lparr>seconds := wrap64 (seconds r + 1)\<rparr>"

definition ask :: "etcdCall \<Rightarrow> 'v registration \<Rightarrow> 'v registration" where
  "ask c r = r\<lparr>asked := asked r @ [c]\<rparr>"

text \<open>The part of the loop without a lease; \<open>sh\<close> writes a value as a string.\<close>

definition registerNew :: "etcd \<Rightarrow> string \<Rightarrow> ('v \<Rightarrow> string) \<Rightarrow> 'v \<Rightarrow> 'v registration \<Rightarrow> 'v registration" where
  "registerNew e key sh value r =
     (case grants e (asked r) of
        None \<Rightarrow> sleepS (ask Grant r)
      | Some leaseId \<Rightarrow>
          if value = lastValue r then sleepS (ask Grant r)
          else let r1 = (ask Grant r)\<lparr>lastValue := value\<rparr> in
            if putOk e (asked r1) then sleepS ((ask (Put key (sh value) leaseId) r1)\<lparr>curLeaseId := leaseId\<rparr>)
            else sleepS (ask (Put key (sh value) leaseId) r1))"

text \<open>The part with a lease, after it was kept alive.\<close>

definition registerAgain :: "etcd \<Rightarrow> string \<Rightarrow> ('v \<Rightarrow> string) \<Rightarrow> 'v \<Rightarrow> 'v registration \<Rightarrow> 'v registration" where
  "registerAgain e key sh value r =
     (if value = lastValue r then sleepS r
      else sleepS (ask (Put key (sh value) (curLeaseId r)) (r\<lparr>lastValue := value\<rparr>)))"

text \<open>
  The loop up to the next sleep. Where the lease is lost, \<open>continue\<close> goes back to the part without a
  lease, without sleeping; the value is read after that.
\<close>

definition registerSecond :: "etcd \<Rightarrow> string \<Rightarrow> ('v \<Rightarrow> string) \<Rightarrow> 'v \<Rightarrow> 'v registration \<Rightarrow> 'v registration" where
  "registerSecond e key sh value r =
     (if curLeaseId r = 0 then registerNew e key sh value r
      else if seconds r mod 15 = 0 then
        let r1 = ask (KeepAliveOnce (curLeaseId r)) r in
        if leaseLost e (asked r) then registerNew e key sh value (r1\<lparr>curLeaseId := 0\<rparr>)
        else registerAgain e key sh value r1
      else registerAgain e key sh value r)"

text \<open>The loops, for the numbers of users that are read second by second.\<close>

definition RegisterOnlineUserNumber :: "etcd \<Rightarrow> string \<Rightarrow> string \<Rightarrow> int list \<Rightarrow> int registration" where
  "RegisterOnlineUserNumber e dir localTopic vs =
     fold (registerSecond e (dirOf dir @ localTopic) itoa) vs \<lparr>lastValue = 0, curLeaseId = 0, seconds = 0, asked = []\<rparr>"

definition RegisterOnlineChatGroup :: "etcd \<Rightarrow> string \<Rightarrow> string \<Rightarrow> nat \<Rightarrow> string registration" where
  "RegisterOnlineChatGroup e dir localTopic n =
     (registerSecond e (dirOf dir @ localTopic) id ''xxx'' ^^ n) \<lparr>lastValue = [], curLeaseId = 0, seconds = 0, asked = []\<rparr>"

text \<open>The third loop counts its value up whenever the lease was kept alive.\<close>

definition testSecond :: "etcd \<Rightarrow> string \<Rightarrow> int \<times> int registration \<Rightarrow> int \<times> int registration" where
  "testSecond e key = (\<lambda>(value, r).
     if curLeaseId r = 0 then (value, registerNew e key itoa value r)
     else if seconds r mod 15 = 0 then
       let r1 = ask (KeepAliveOnce (curLeaseId r)) r in
       if leaseLost e (asked r) then (value, registerNew e key itoa value (r1\<lparr>curLeaseId := 0\<rparr>))
       else (wrap64 (value + 1), registerAgain e key itoa (wrap64 (value + 1)) r1)
     else (value, registerAgain e key itoa value r))"

definition RegisterOnlineUserNumberTest :: "etcd \<Rightarrow> string \<Rightarrow> string \<Rightarrow> int \<Rightarrow> nat \<Rightarrow> int \<times> int registration" where
  "RegisterOnlineUserNumberTest e dir localTopic value n =
     (testSecond e (dirOf dir @ localTopic) ^^ n) (value, \<lparr>lastValue = 0, curLeaseId = 0, seconds = 0, asked = []\<rparr>)"

lemmas reg_defs = registerSecond_def registerNew_def registerAgain_def sleepS_def ask_def

text \<open>What was put, in order.\<close>

definition putsOf :: "etcdCall list \<Rightarrow> (string \<times> string) list" where
  "putsOf h = concat (map (\<lambda>c. case c of Put k v l \<Rightarrow> [(k, v)] | _ \<Rightarrow> []) h)"

lemma putsOf_simps [simp]: "putsOf [] = []" "putsOf (h @ h') = putsOf h @ putsOf h'" "putsOf (Grant # h) = putsOf h"
  "putsOf (KeepAliveOnce l # h) = putsOf h" "putsOf (Put k v l # h) = (k, v) # putsOf h"
  by (simp_all add: putsOf_def)

definition reliable :: "etcd \<Rightarrow> bool" where
  "reliable e \<longleftrightarrow> (\<forall>h. (\<exists>l. grants e h = Some l \<and> l \<noteq> 0) \<and> \<not> leaseLost e h \<and> putOk e h)"

lemma registerSecond_reliable:
  assumes "reliable e"
  shows "lastValue (registerSecond e key sh v r) = v
    \<and> putsOf (asked (registerSecond e key sh v r)) = putsOf (asked r) @ (if v = lastValue r then [] else [(key, sh v)])"
proof -
  obtain l where "grants e (asked r) = Some l" "\<not> leaseLost e (asked r)" "putOk e (asked r @ [Grant])"
    using assms by (auto simp: reliable_def)
  then show ?thesis by (simp add: reg_defs Let_def)
qed

lemma registerSeconds_reliable:
  assumes "reliable e"
  shows "putsOf (asked (fold (registerSecond e key sh) vs r))
    = putsOf (asked r) @ map (\<lambda>v. (key, sh v)) (tl (remdups_adj (lastValue r # vs)))"
proof (induction vs arbitrary: r)
  case (Cons v vs)
  note s = registerSecond_reliable[OF assms, of key sh v r]
  obtain t where "remdups_adj (v # vs) = v # t" by (metis remdups_adj_Cons_alt)
  then show ?case using s by (auto simp: Cons)
qed simp

text \<open>
  While etcd answers, what a message server puts are exactly the changes of its number of users,
  in order; a server without users is not put before the first has come.
\<close>

theorem changes_are_registered:
  assumes "reliable e"
  shows "putsOf (asked (RegisterOnlineUserNumber e dir localTopic vs))
    = map (\<lambda>v. (dirOf dir @ localTopic, itoa v)) (tl (remdups_adj (0 # vs)))"
  by (simp add: RegisterOnlineUserNumber_def registerSeconds_reliable[OF assms])

lemma registerNew_same:
  assumes "curLeaseId r = 0" and "lastValue r = v"
  shows "registerSecond e key sh v r = sleepS (ask Grant r)"
  using assms by (auto simp: registerSecond_def registerNew_def split: option.split)

lemma registerNew_stays:
  assumes "curLeaseId r = 0" and "lastValue r = v"
  shows "curLeaseId (fold (registerSecond e key sh) (replicate n v) r) = 0
    \<and> asked (fold (registerSecond e key sh) (replicate n v) r) = asked r @ replicate n Grant"
  using assms
proof (induction n arbitrary: r)
  case (Suc n)
  have "registerSecond e key sh v r = sleepS (ask Grant r)" using Suc.prems by (rule registerNew_same)
  then show ?case using Suc by (simp add: sleepS_def ask_def)
qed simp

text \<open>
  When etcd reports the lease lost, the server is not registered again before its number of users
  changes: until then it only has a new lease granted every second.
\<close>

theorem lost_lease_not_registered:
  assumes "curLeaseId r \<noteq> 0" and "seconds r mod 15 = 0" and "leaseLost e (asked r)" and "lastValue r = v"
  shows "asked (fold (registerSecond e key sh) (replicate (Suc n) v) r) = asked r @ KeepAliveOnce (curLeaseId r) # replicate (Suc n) Grant"
proof -
  let ?r = "(ask (KeepAliveOnce (curLeaseId r)) r)\<lparr>curLeaseId := 0\<rparr>"
  have "registerSecond e key sh v r = registerSecond e key sh v ?r" using assms by (simp add: registerSecond_def)
  then have "fold (registerSecond e key sh) (replicate (Suc n) v) r = fold (registerSecond e key sh) (replicate (Suc n) v) ?r" by simp
  moreover have "asked (fold (registerSecond e key sh) (replicate (Suc n) v) ?r) = asked ?r @ replicate (Suc n) Grant"
    using registerNew_stays[of ?r v e key sh "Suc n"] assms(4) by (simp add: ask_def)
  ultimately show ?thesis by (simp add: ask_def)
qed

definition lossyEtcd :: etcd where
  "lossyEtcd = \<lparr>grants = (\<lambda>h. Some 5), leaseLost = (\<lambda>h. True), putOk = (\<lambda>h. True)\<rparr>"

theorem changes_are_registered_witness:
  "putsOf (asked (RegisterOnlineUserNumber (lossyEtcd\<lparr>leaseLost := (\<lambda>h. False)\<rparr>) ''d/'' ''s'' [0, 2, 2, 3, 0]))
    = [(''d/s'', ''2''), (''d/s'', ''3''), (''d/s'', ''0'')]"
proof -
  have "reliable (lossyEtcd\<lparr>leaseLost := (\<lambda>h. False)\<rparr>)" by (simp add: reliable_def lossyEtcd_def)
  moreover have "itoa 2 = ''2''" "itoa 3 = ''3''" "itoa 0 = ''0''" by code_simp+
  ultimately show ?thesis using changes_are_registered[of _ "''d/''" "''s''" "[0, 2, 2, 3, 0]"]
    by (simp add: dirOf_def TrimRight_def)
qed

theorem lost_lease_not_registered_witness:
  "asked (fold (registerSecond lossyEtcd ''d/s'' itoa) [7, 7] \<lparr>lastValue = 7, curLeaseId = 5, seconds = 15, asked = [Grant, Put ''d/s'' ''7'' 5]\<rparr>)
    = [Grant, Put ''d/s'' ''7'' 5, KeepAliveOnce 5, Grant, Grant]"
  using lost_lease_not_registered[of "\<lparr>lastValue = 7, curLeaseId = 5, seconds = 15, asked = [Grant, Put ''d/s'' ''7'' 5]\<rparr>"
      lossyEtcd 7 "''d/s''" itoa 1]
  by (simp add: lossyEtcd_def numeral_2_eq_2)

text \<open>A value whose Put failed is not put again either: the loop takes it for put.\<close>

lemma failed_put_not_repeated:
  assumes "curLeaseId r = 0" and "grants e (asked r) = Some l" and "v \<noteq> lastValue r" and "\<not> putOk e (asked r @ [Grant])"
  shows "asked (fold (registerSecond e key sh) (replicate (Suc n) v) r) = asked r @ Grant # Put key (sh v) l # replicate n Grant"
proof -
  let ?r = "registerSecond e key sh v r"
  have "?r = sleepS (ask (Put key (sh v) l) ((ask Grant r)\<lparr>lastValue := v\<rparr>))"
    using assms by (simp add: registerSecond_def registerNew_def Let_def ask_def)
  then have "curLeaseId ?r = 0" "lastValue ?r = v" "asked ?r = asked r @ [Grant, Put key (sh v) l]"
    using assms(1) by (simp_all add: sleepS_def ask_def)
  then show ?thesis using registerNew_stays[of ?r v e key sh n] by simp
qed

section \<open>Watching\<close>

record onlineUserNumber =
  prefix :: string
  loads :: "string \<rightharpoonup> int"

definition NewOnlineUserNumber :: "string \<Rightarrow> onlineUserNumber" where
  "NewOnlineUserNumber dir = \<lparr>prefix = dirOf dir, loads = Map.empty\<rparr>"

definition setLoad :: "string \<Rightarrow> int \<Rightarrow> onlineUserNumber \<Rightarrow> onlineUserNumber" where
  "setLoad topic load on = on\<lparr>loads := (loads on)(topic \<mapsto> load)\<rparr>"

definition removeTopic :: "string \<Rightarrow> onlineUserNumber \<Rightarrow> onlineUserNumber" where
  "removeTopic topic on = on\<lparr>loads := (loads on)(topic := None)\<rparr>"

text \<open>The entries are gone through in the order in which Go ranges over the map, a parameter.\<close>

definition lessLoaded :: "(string \<rightharpoonup> int) \<Rightarrow> string \<Rightarrow> string \<times> int \<Rightarrow> string \<times> int" where
  "lessLoaded m topic best = (case m topic of None \<Rightarrow> best | Some numbers \<Rightarrow> if numbers < snd best then (topic, numbers) else best)"

definition GetMininumLoad :: "string list \<Rightarrow> onlineUserNumber \<Rightarrow> string \<times> int" where
  "GetMininumLoad order on =
     (case fold (lessLoaded (loads on)) order ([], 2 ^ 31 - 1) of (r, minium) \<Rightarrow> (TrimLeft r (prefix on), minium))"

text \<open>An event of etcd. A value that is no 32 bit integer is not looked at.\<close>

datatype etcdEvent = PutEvent string string | DeleteEvent string

definition watchEvent :: "etcdEvent \<Rightarrow> onlineUserNumber \<Rightarrow> onlineUserNumber" where
  "watchEvent ev on = (case ev of
     PutEvent key value \<Rightarrow>
       (case ParseInt value of (num, ok) \<Rightarrow> if ok \<and> - (2 ^ 31) \<le> num \<and> num < 2 ^ 31 then setLoad key num on else on)
   | DeleteEvent key \<Rightarrow> removeTopic key on)"

text \<open>What etcd has when the watch begins is printed and not entered.\<close>

definition WatchOnlineUserNmuber :: "(string \<times> string) list \<Rightarrow> etcdEvent list \<Rightarrow> onlineUserNumber \<Rightarrow> onlineUserNumber" where
  "WatchOnlineUserNmuber existing events on = fold watchEvent events on"

lemma least_of_order:
  "fold (lessLoaded m) order best = (r, n) \<Longrightarrow>
     ((r, n) = best \<or> r \<in> set order \<and> m r = Some n) \<and> n \<le> snd best \<and> (\<forall>t \<in> set order. \<forall>k. m t = Some k \<longrightarrow> n \<le> k)"
proof (induction order arbitrary: best)
  case (Cons t ts)
  then have IH: "((r, n) = lessLoaded m t best \<or> r \<in> set ts \<and> m r = Some n) \<and> n \<le> snd (lessLoaded m t best)
      \<and> (\<forall>t \<in> set ts. \<forall>k. m t = Some k \<longrightarrow> n \<le> k)" by simp
  then show ?case by (fastforce simp: lessLoaded_def split: option.splits if_splits)
qed auto

interpretation loadsOf: last_wins "\<lambda>topic on. loads on topic" setLoad removeTopic
  by unfold_locales (simp_all add: setLoad_def removeTopic_def)

text \<open>The events of numbers that fit are the updates of the table.\<close>

lemma watch_puts_loads:
  "\<forall>(t, n) \<in> set puts. 0 \<le> n \<and> n < 2 ^ 31 \<Longrightarrow>
     fold watchEvent (map (\<lambda>(t, n). PutEvent (d @ t) (itoa n)) puts) on = fold (\<lambda>(j, n). setLoad j n) (map (\<lambda>(t, n). (d @ t, n)) puts) on"
proof (induction puts arbitrary: on)
  case (Cons p puts)
  obtain t n where p: "p = (t, n)" by (cases p)
  have "ParseInt (itoa n) = (n, True)" using Cons.prems p by (intro ParseInt_itoa) (auto simp: int64_def)
  then have "watchEvent (PutEvent (d @ t) (itoa n)) on = setLoad (d @ t) n on" using Cons.prems p by (simp add: watchEvent_def)
  then show ?case using Cons p by simp
qed simp

lemma setLoads_prefix: "prefix (fold (\<lambda>(j, n). setLoad j n) xs on) = prefix on"
  by (induction xs arbitrary: on) (auto simp: setLoad_def)

lemma watch_puts:
  assumes "\<forall>(t, n) \<in> set puts. 0 \<le> n \<and> n < 2 ^ 31"
  shows "prefix (fold watchEvent (map (\<lambda>(t, n). PutEvent (d @ t) (itoa n)) puts) on) = prefix on
    \<and> loads (fold watchEvent (map (\<lambda>(t, n). PutEvent (d @ t) (itoa n)) puts) on)
      = loads on ++ map_of (rev (map (\<lambda>(t, n). (d @ t, n)) puts))"
  unfolding watch_puts_loads[OF assms] setLoads_prefix by (simp add: fun_eq_iff loadsOf.get_puts map_add_def)

lemma map_of_prefixed: "map_of (rev (map (\<lambda>(t, n). (d @ t, n)) puts)) (d @ t) = map_of (rev puts) t"
  by (induction puts rule: rev_induct) auto

lemma map_of_prefixed_dom: "map_of (rev (map (\<lambda>(t, n). (d @ t, n)) puts)) k = Some n \<Longrightarrow> \<exists>t. k = d @ t \<and> map_of (rev puts) t = Some n"
  (is "?m k = _ \<Longrightarrow> _")
proof -
  assume k: "?m k = Some n"
  then have "(k, n) \<in> set (rev (map (\<lambda>(t, n). (d @ t, n)) puts))" by (rule map_of_SomeD)
  then obtain t where t: "k = d @ t" by auto
  then show ?thesis using k map_of_prefixed[of d puts t] by auto
qed



text \<open>A name that begins with characters of the directory's loses them: \<open>strings.TrimLeft\<close> takes a set of characters.\<close>

lemma topic_cut: "fst (GetMininumLoad [''OnlineUserNumberDir/server1''] ((NewOnlineUserNumber ''OnlineUserNumberDir'')
    \<lparr>loads := [''OnlineUserNumberDir/server1'' \<mapsto> 4]\<rparr>)) = ''v'' @ ''er1''"
  by (simp add: GetMininumLoad_def lessLoaded_def NewOnlineUserNumber_def dirOf_def TrimRight_def TrimLeft_def)

end
