(* ===== verification/Huanxin.thy ===== *)
theory Huanxin
  imports IM_Prelude "HOL-Library.Sublist"
begin

text \<open>
  im-library/im_audio_video/huanxin/huanxin.go: the requests to the Huanxin service. Sending a request
  and JSON are parameters; what is modelled is which requests are made and what is made of the answers.
\<close>

section \<open>Templates\<close>

text \<open>\<open>strings.Replace\<close> of every occurrence; what is replaced is never empty here.\<close>

function replaceAll :: "string \<Rightarrow> string \<Rightarrow> string \<Rightarrow> string" where
  "replaceAll old new s =
     (if s = [] \<or> old = [] then s
      else if prefix old s then new @ replaceAll old new (drop (length old) s)
      else hd s # replaceAll old new (tl s))"
  by pat_completeness auto
termination by (relation "measure (\<lambda>(old, new, s). length s)") auto

declare replaceAll.simps [simp del]

definition resolveTemplate :: "string \<Rightarrow> string \<Rightarrow> string \<Rightarrow> string" where
  "resolveTemplate template variable value = replaceAll (''{'' @ variable @ ''}'') value template"

lemma replaceAll_none: "c \<notin> set s \<Longrightarrow> replaceAll (c # old) new s = s"
proof (induction s)
  case (Cons x s)
  then show ?case by (subst replaceAll.simps) auto
qed (simp add: replaceAll.simps)

lemma replaceAll_skip: "c \<notin> set pre \<Longrightarrow> replaceAll (c # old) new (pre @ s) = pre @ replaceAll (c # old) new s"
proof (induction pre)
  case (Cons x pre)
  then show ?case by (subst replaceAll.simps) auto
qed simp

lemma replaceAll_here: "old \<noteq> [] \<Longrightarrow> replaceAll old new (old @ s) = new @ replaceAll old new s"
  by (subst replaceAll.simps) simp

text \<open>A variable between texts without braces, and one that is not the first.\<close>

lemma resolveTemplate_once:
  assumes "CHR ''{'' \<notin> set pre" and "CHR ''{'' \<notin> set post"
  shows "resolveTemplate (pre @ ''{'' @ var @ ''}'' @ post) var new = pre @ new @ post"
  using replaceAll_skip[OF assms(1), of "var @ ''}''" new "''{'' @ var @ ''}'' @ post"]
    replaceAll_here[of "''{'' @ var @ ''}''" new post] replaceAll_none[OF assms(2)]
  by (simp add: resolveTemplate_def)

section \<open>Requests\<close>

record httpRequest =
  r_url :: string
  r_body :: "string option"
  r_method :: string
  r_header :: "(string \<times> string) list"

text \<open>
  The HTTP client: whether a request can be made of a method and URL, and what becomes of it: None when
  there is no response, else its body, or the error in reading it.
\<close>

record http =
  makes :: "string \<Rightarrow> string \<Rightarrow> bool"
  answers :: "httpRequest \<Rightarrow> (string + string) option"

datatype reply = Reply string | Failed string | Panics

definition requestOf :: "string \<Rightarrow> string option \<Rightarrow> string \<Rightarrow> string \<Rightarrow> httpRequest" where
  "requestOf url body method token = \<lparr>r_url = url, r_body = body, r_method = method,
     r_header = (''Content-Type'', ''application/json;charset=utf-8'')
       # (if token \<noteq> [] then [(''Authorization'', ''Bearer '' @ token)] else [])\<rparr>"

text \<open>The error of \<open>client.Do\<close> is overwritten; without a response \<open>res.Body\<close> is a nil dereference.\<close>

definition sendRequest :: "http \<Rightarrow> string \<Rightarrow> string option \<Rightarrow> string \<Rightarrow> string \<Rightarrow> reply" where
  "sendRequest net url body method token =
     (if \<not> makes net method url then Failed ''invalid request''
      else case answers net (requestOf url body method token) of
        None \<Rightarrow> Panics
      | Some (Inl e) \<Rightarrow> Failed e
      | Some (Inr result) \<Rightarrow> Reply result)"

section \<open>The operations\<close>

record huanXinConfig =
  Url :: string
  OrgName :: string
  AppName :: string
  ClientId :: string
  ClientSecret :: string

definition baseUrl :: "huanXinConfig \<Rightarrow> string" where
  "baseUrl cfg = Url cfg @ ''/'' @ OrgName cfg @ ''/'' @ AppName cfg"

definition tokenUrl :: "huanXinConfig \<Rightarrow> string" where "tokenUrl cfg = baseUrl cfg @ ''/token''"
definition usersUrl :: "huanXinConfig \<Rightarrow> string" where "usersUrl cfg = baseUrl cfg @ ''/users''"
definition userUrl :: "huanXinConfig \<Rightarrow> string" where "userUrl cfg = baseUrl cfg @ ''/users'' @ ''/{username}''"
definition createConferencesUrl :: "huanXinConfig \<Rightarrow> string" where
  "createConferencesUrl cfg = baseUrl cfg @ ''/conferences''"
definition dissolveConferencesUrl :: "huanXinConfig \<Rightarrow> string" where
  "dissolveConferencesUrl cfg = baseUrl cfg @ ''/{confrId}''"
definition kickOutConferencesMemberUrl :: "huanXinConfig \<Rightarrow> string" where
  "kickOutConferencesMemberUrl cfg = baseUrl cfg @ ''/{confrId}'' @ ''/{userName}''"
definition getConferencesUrl :: "huanXinConfig \<Rightarrow> string" where
  "getConferencesUrl cfg = baseUrl cfg @ ''/conferences'' @ ''/{confrId}''"

text \<open>
  Bodies are objects with named fields; \<open>marshal\<close> is \<open>json.Marshal\<close> of them, which does not fail for
  these, and \<open>unmarshal\<close> reads a token, its life and the application.
\<close>

datatype jsonValue = JStr string | JInt int | JBool bool

type_synonym jsonObj = "(string \<times> jsonValue) list"

record tokenResponse =
  AccessToken :: string
  ExpiresIn :: int
  Application :: string

text \<open>None: the call panics. The result and whether the error is nil: where the answer is no JSON, both are nil.\<close>

definition GetHuanXinAccessToken ::
    "(jsonObj \<Rightarrow> string) \<Rightarrow> (string \<Rightarrow> tokenResponse option) \<Rightarrow> http \<Rightarrow> huanXinConfig \<Rightarrow> (tokenResponse option \<times> bool) option" where
  "GetHuanXinAccessToken marshal unmarshal net cfg =
     (let b = marshal [(''grant_type'', JStr ''client_credentials''), (''client_id'', JStr (ClientId cfg)),
           (''client_secret'', JStr (ClientSecret cfg))]
      in case sendRequest net (tokenUrl cfg) (Some b) ''POST'' [] of
        Panics \<Rightarrow> None
      | Failed e \<Rightarrow> Some (None, False)
      | Reply response \<Rightarrow> (case unmarshal response of None \<Rightarrow> Some (None, True) | Some t \<Rightarrow> Some (Some t, True)))"

definition CreateHuanXinUser :: "(jsonObj \<Rightarrow> string) \<Rightarrow> http \<Rightarrow> huanXinConfig \<Rightarrow> string \<Rightarrow> string \<Rightarrow> string \<Rightarrow> string \<Rightarrow> reply" where
  "CreateHuanXinUser marshal net cfg token username password nickName =
     sendRequest net (usersUrl cfg)
       (Some (marshal [(''username'', JStr username), (''password'', JStr password), (''nickname'', JStr nickName)])) ''POST'' token"

definition GetHuanXinUser :: "http \<Rightarrow> huanXinConfig \<Rightarrow> string \<Rightarrow> string \<Rightarrow> reply" where
  "GetHuanXinUser net cfg token username =
     sendRequest net (resolveTemplate (userUrl cfg) ''username'' username) None ''GET'' token"

definition usersPageUrl :: "huanXinConfig \<Rightarrow> string \<Rightarrow> int \<Rightarrow> string" where
  "usersPageUrl cfg cursor limit = usersUrl cfg @ (if 0 < limit then ''?limit='' @ itoa limit else [])
     @ (if cursor \<noteq> [] then ''&cursor='' @ cursor else [])"

definition GetHuanXinUsers :: "http \<Rightarrow> huanXinConfig \<Rightarrow> string \<Rightarrow> string \<Rightarrow> int \<Rightarrow> reply" where
  "GetHuanXinUsers net cfg token cursor limit = sendRequest net (usersPageUrl cfg cursor limit) None ''GET'' token"

definition CreateHuanXinConferences ::
    "(jsonObj \<Rightarrow> string) \<Rightarrow> http \<Rightarrow> huanXinConfig \<Rightarrow> int \<Rightarrow> int \<Rightarrow> string \<Rightarrow> string \<Rightarrow> string \<Rightarrow> reply" where
  "CreateHuanXinConferences marshal net cfg conferencesType memDefaultRole token huanXinUserId password =
     sendRequest net (createConferencesUrl cfg)
       (Some (marshal [(''confrType'', JInt conferencesType), (''password'', JStr password), (''confrDelayMillis'', JInt 0),
          (''memDefaultRole'', JInt memDefaultRole), (''allowAudienceTalk'', JBool True), (''creator'', JStr huanXinUserId),
          (''rec'', JBool False), (''recMerge'', JBool False)])) ''POST'' token"

definition DissolveHuanXinConferences :: "http \<Rightarrow> huanXinConfig \<Rightarrow> string \<Rightarrow> string \<Rightarrow> reply" where
  "DissolveHuanXinConferences net cfg token huanXinConferenceId =
     sendRequest net (resolveTemplate (dissolveConferencesUrl cfg) ''confrId'' huanXinConferenceId) None ''DELETE'' token"

definition KickOutHuanXinConferencesMember :: "http \<Rightarrow> huanXinConfig \<Rightarrow> string \<Rightarrow> string \<Rightarrow> string \<Rightarrow> reply" where
  "KickOutHuanXinConferencesMember net cfg token huanXinConferenceId huanXinConferenceMemberId =
     sendRequest net (resolveTemplate (resolveTemplate (kickOutConferencesMemberUrl cfg) ''confrId'' huanXinConferenceId)
       ''userName'' huanXinConferenceMemberId) None ''DELETE'' token"

definition GetHuanXinConferences :: "http \<Rightarrow> huanXinConfig \<Rightarrow> string \<Rightarrow> string \<Rightarrow> reply" where
  "GetHuanXinConferences net cfg token huanXinConferenceId =
     sendRequest net (resolveTemplate (getConferencesUrl cfg) ''confrId'' huanXinConferenceId) None ''GET'' token"

section \<open>Conferences of a message server\<close>

text \<open>
  msg-server/client/huanxin.go. What \<open>json.Unmarshal\<close> makes of an answer as a conference, or whether
  it is an object of the service's errors, are parameters. True with an error stands for the branch
  of an error of the service, False for the unknown error.
\<close>

record conference =
  conf_type :: int
  talkerLimit :: int
  conf_id :: string
  conf_password :: string
  conf_allowAudienceTalk :: bool
  audienceLimit :: int
  expireDate :: string

definition emptyConference :: conference where
  "emptyConference = \<lparr>conf_type = 0, talkerLimit = 0, conf_id = [], conf_password = [], conf_allowAudienceTalk = False,
     audienceLimit = 0, expireDate = []\<rparr>"

datatype 'a conferenceAnswer = Got 'a | HttpError string | ServiceError | UnknownError | ConfPanics

definition conferenceOf :: "(string \<Rightarrow> 'a option) \<Rightarrow> (string \<Rightarrow> bool) \<Rightarrow> reply \<Rightarrow> 'a conferenceAnswer" where
  "conferenceOf unmarshalConf isServerError r = (case r of
     Panics \<Rightarrow> ConfPanics
   | Failed e \<Rightarrow> HttpError e
   | Reply response \<Rightarrow> (case unmarshalConf response of
        Some c \<Rightarrow> Got c
      | None \<Rightarrow> if isServerError response then ServiceError else UnknownError))"

definition client_CreateConferences ::
    "(jsonObj \<Rightarrow> string) \<Rightarrow> (string \<Rightarrow> conference option) \<Rightarrow> (string \<Rightarrow> bool) \<Rightarrow> http \<Rightarrow> huanXinConfig
       \<Rightarrow> int \<Rightarrow> int \<Rightarrow> string \<Rightarrow> string \<Rightarrow> string \<Rightarrow> conference conferenceAnswer" where
  "client_CreateConferences marshal unmarshalConf isServerError net cfg conferencesType memDefaultRole token huanXinUserId password =
     conferenceOf unmarshalConf isServerError
       (CreateHuanXinConferences marshal net cfg conferencesType memDefaultRole token huanXinUserId password)"

definition client_DissolveConferences ::
    "(string \<Rightarrow> conference option) \<Rightarrow> (string \<Rightarrow> bool) \<Rightarrow> http \<Rightarrow> huanXinConfig \<Rightarrow> string \<Rightarrow> string \<Rightarrow> conference conferenceAnswer" where
  "client_DissolveConferences unmarshalConf isServerError net cfg token huanXinConferenceId =
     conferenceOf unmarshalConf isServerError (DissolveHuanXinConferences net cfg token huanXinConferenceId)"

text \<open>
  An object without the fields of a conference is read as the empty conference, as \<open>json.Unmarshal\<close>
  ignores unknown fields: the service's error comes back as a conference without an id.
\<close>

lemma service_error_taken_for_conference:
  assumes "makes net = (\<lambda>_ _. True)" and "answers net = (\<lambda>_. Some (Inr e))" and "isServerError e" and "unmarshalConf e = Some emptyConference"
  shows "client_CreateConferences marshal unmarshalConf isServerError net cfg 10 3 token user password = Got emptyConference"
  using assms by (simp add: client_CreateConferences_def conferenceOf_def CreateHuanXinConferences_def sendRequest_def)

section \<open>Which requests are made\<close>

text \<open>The path below the base URL that a request is for.\<close>

definition requests :: "huanXinConfig \<Rightarrow> http \<Rightarrow> string \<Rightarrow> string \<Rightarrow> string \<Rightarrow> reply \<Rightarrow> bool" where
  "requests cfg net method path token r \<longleftrightarrow> r = sendRequest net (baseUrl cfg @ path) None method token"

text \<open>
  The templates are filled in: a user, a conference and a member of it are asked for under their own
  names, whatever those are; only the name of a conference that is kicked from must not have a brace.
  Where a conference is dissolved or kicked from, the path lacks the \<open>/conferences\<close> that creating and
  asking for it have.
\<close>

lemma huanxin_paths:
  assumes "CHR ''{'' \<notin> set (baseUrl cfg)" and "CHR ''{'' \<notin> set confr"
  shows "requests cfg net ''GET'' (''/users/'' @ user) token (GetHuanXinUser net cfg token user)
    \<and> requests cfg net ''GET'' (''/conferences/'' @ confr) token (GetHuanXinConferences net cfg token confr)
    \<and> requests cfg net ''DELETE'' (''/'' @ confr) token (DissolveHuanXinConferences net cfg token confr)
    \<and> requests cfg net ''DELETE'' (''/'' @ confr @ ''/'' @ member) token (KickOutHuanXinConferencesMember net cfg token confr member)"
proof -
  have "resolveTemplate (userUrl cfg) ''username'' user = baseUrl cfg @ ''/users/'' @ user"
    using resolveTemplate_once[of "baseUrl cfg @ ''/users/''" "[]" "''username''" user] assms by (simp add: userUrl_def)
  moreover have "resolveTemplate (getConferencesUrl cfg) ''confrId'' confr = baseUrl cfg @ ''/conferences/'' @ confr"
    using resolveTemplate_once[of "baseUrl cfg @ ''/conferences/''" "[]" "''confrId''" confr] assms by (simp add: getConferencesUrl_def)
  moreover have "resolveTemplate (dissolveConferencesUrl cfg) ''confrId'' confr = baseUrl cfg @ ''/'' @ confr"
    using resolveTemplate_once[of "baseUrl cfg @ ''/''" "[]" "''confrId''" confr] assms by (simp add: dissolveConferencesUrl_def)
  moreover have "resolveTemplate (resolveTemplate (kickOutConferencesMemberUrl cfg) ''confrId'' confr) ''userName'' member
      = baseUrl cfg @ ''/'' @ confr @ ''/'' @ member"
  proof -
    have "resolveTemplate (kickOutConferencesMemberUrl cfg) ''confrId'' confr = baseUrl cfg @ ''/'' @ confr @ ''/{userName}''"
      using replaceAll_skip[of "CHR ''{''" "baseUrl cfg @ ''/''" "''confrId}''" confr "''{confrId}/{userName}''"] assms
        replaceAll_here[of "''{confrId}''" confr "''/{userName}''"]
      by (simp add: resolveTemplate_def kickOutConferencesMemberUrl_def) (simp add: replaceAll.simps)
    then show ?thesis
      using resolveTemplate_once[of "baseUrl cfg @ ''/'' @ confr @ ''/''" "[]" "''userName''" member] assms by simp
  qed
  ultimately show ?thesis
    by (simp add: requests_def GetHuanXinUser_def GetHuanXinConferences_def DissolveHuanXinConferences_def
      KickOutHuanXinConferencesMember_def)
qed

text \<open>A page that is asked for by its cursor alone is not asked for: there is no query in the URL.\<close>

lemma cursor_without_limit:
  assumes "CHR ''?'' \<notin> set (baseUrl cfg)" and "CHR ''?'' \<notin> set cursor" and "limit \<le> 0"
  shows "CHR ''?'' \<notin> set (usersPageUrl cfg cursor limit)"
  using assms by (simp add: usersPageUrl_def usersUrl_def)

text \<open>When the service cannot be reached every operation panics; an answer that is no JSON is no error.\<close>

lemma unreachable_panics:
  assumes "answers net = (\<lambda>_. None)" and "makes net = (\<lambda>_ _. True)"
  shows "GetHuanXinAccessToken marshal unmarshal net cfg = None" and "GetHuanXinUser net cfg token user = Panics"
    and "CreateHuanXinUser marshal net cfg token user password nick = Panics"
    and "DissolveHuanXinConferences net cfg token confr = Panics"
  using assms
  by (simp_all add: GetHuanXinAccessToken_def GetHuanXinUser_def CreateHuanXinUser_def DissolveHuanXinConferences_def sendRequest_def)

lemma no_token_no_error:
  assumes "answers net = (\<lambda>_. Some (Inr r))" and "makes net = (\<lambda>_ _. True)" and "unmarshal r = None"
  shows "GetHuanXinAccessToken marshal unmarshal net cfg = Some (None, True)"
  using assms by (simp add: GetHuanXinAccessToken_def sendRequest_def)

end
