(* ===== verification/CsvReader.thy ===== *)
theory CsvReader
  imports IM_Prelude "HOL-Library.Sublist"
begin

text \<open>
  What common-library/csvrecord uses of Go's standard library: the reader of encoding/csv, and the
  conversions of strconv with base 0 and a width.
\<close>

section \<open>encoding/csv\<close>

text \<open>
  A quoted field after its opening quote: what is read, the rest of the line behind the comma, if
  any, and the lines that follow. A quote is written twice; a line break inside belongs to the field.
  None: an error.
\<close>

function quotedField :: "char \<Rightarrow> string \<Rightarrow> string \<Rightarrow> string list \<Rightarrow> (string \<times> string option \<times> string list) option" where
  "quotedField comma acc line ls =
     (case line of
        [] \<Rightarrow> (case ls of [] \<Rightarrow> None | l # ls' \<Rightarrow> quotedField comma (acc @ [CHR 0x0A]) l ls')
      | c # cs \<Rightarrow>
          if c \<noteq> CHR 0x22 then quotedField comma (acc @ [c]) cs ls
          else (case cs of
             [] \<Rightarrow> Some (acc, None, ls)
           | d # ds \<Rightarrow>
               if d = CHR 0x22 then quotedField comma (acc @ [d]) ds ls
               else if d = comma then Some (acc, Some ds, ls)
               else None))"
  by pat_completeness auto
termination
  by (relation "measure (\<lambda>(comma, acc, line, ls). length line + sum_list (map length ls) + length ls)") auto

declare quotedField.simps [simp del]

definition csvSize :: "string \<Rightarrow> string list \<Rightarrow> nat" where
  "csvSize line ls = length line + sum_list (map length ls) + length ls"

lemma quotedField_size:
  "quotedField comma acc line ls = Some (f, r, ls') \<Longrightarrow>
     sum_list (map length ls') + length ls' \<le> sum_list (map length ls) + length ls
     \<and> (\<forall>l. r = Some l \<longrightarrow> csvSize l ls' < csvSize line ls)"
proof (induction comma acc line ls rule: quotedField.induct)
  case (1 comma acc line ls)
  note q = "1.prems"[unfolded quotedField.simps[of comma acc line ls]]
  show ?case
  proof (cases line)
    case Nil
    then obtain l ls1 where l: "ls = l # ls1" using q by (cases ls) auto
    then show ?thesis using "1.IH"(1)[OF Nil l] q Nil by (auto simp: csvSize_def)
  next
    case (Cons c cs)
    show ?thesis
    proof (cases "c = CHR 0x22")
      case False
      then show ?thesis using "1.IH"(2)[OF Cons] q Cons by (auto simp: csvSize_def)
    next
      case True
      show ?thesis
      proof (cases cs)
        case Nil
        then show ?thesis using q Cons True by auto
      next
        case (Cons d ds)
        then show ?thesis using "1.IH"(3)[OF \<open>line = c # cs\<close> _ Cons] q \<open>line = c # cs\<close> True
          by (cases "d = CHR 0x22") (auto simp: csvSize_def split: if_splits)
      qed
    qed
  qed
qed

text \<open>One field and what is behind it; a field that does not begin with a quote must not have one.\<close>

definition csvField :: "char \<Rightarrow> string \<Rightarrow> string list \<Rightarrow> (string \<times> string option \<times> string list) option" where
  "csvField comma line ls =
     (if line \<noteq> [] \<and> hd line = CHR 0x22 then quotedField comma [] (tl line) ls
      else let f = takeWhile (\<lambda>c. c \<noteq> comma) line; r = dropWhile (\<lambda>c. c \<noteq> comma) line
        in if CHR 0x22 \<in> set f then None else Some (f, if r = [] then None else Some (tl r), ls))"

lemma csvField_size:
  assumes "csvField comma line ls = Some (f, r, ls')"
  shows "sum_list (map length ls') + length ls' \<le> sum_list (map length ls) + length ls
    \<and> (\<forall>l. r = Some l \<longrightarrow> csvSize l ls' < csvSize line ls)"
proof (cases "line \<noteq> [] \<and> hd line = CHR 0x22")
  case True
  then have "quotedField comma [] (tl line) ls = Some (f, r, ls')" using assms by (simp add: csvField_def)
  from quotedField_size[OF this] show ?thesis using True by (fastforce simp: csvSize_def)
next
  case False
  define d where "d = dropWhile (\<lambda>c. c \<noteq> comma) line"
  have "length d \<le> length line" by (simp add: d_def length_dropWhile_le)
  moreover have "r = (if d = [] then None else Some (tl d))" "ls' = ls"
    using assms False by (auto simp: csvField_def d_def Let_def split: if_splits)
  ultimately show ?thesis by (cases d) (auto simp: csvSize_def)
qed

text \<open>The fields of a record that begins on a line, and the lines behind it.\<close>

function csvRecord :: "char \<Rightarrow> string \<Rightarrow> string list \<Rightarrow> (string list \<times> string list) option" where
  "csvRecord comma line ls =
     (case csvField comma line ls of
        None \<Rightarrow> None
      | Some (f, None, ls') \<Rightarrow> Some ([f], ls')
      | Some (f, Some l, ls') \<Rightarrow> (case csvRecord comma l ls' of None \<Rightarrow> None | Some (fs, ls'') \<Rightarrow> Some (f # fs, ls'')))"
  by pat_completeness auto
termination
  by (relation "measure (\<lambda>(comma, line, ls). csvSize line ls)") (use csvField_size in force)+

declare csvRecord.simps [simp del]

lemma csvRecord_size:
  "csvRecord comma line ls = Some (fs, ls') \<Longrightarrow> sum_list (map length ls') + length ls' \<le> sum_list (map length ls) + length ls"
proof (induction comma line ls arbitrary: fs rule: csvRecord.induct)
  case (1 comma line ls)
  obtain f r l' where f: "csvField comma line ls = Some (f, r, l')" using "1.prems" by (subst (asm) csvRecord.simps) (auto split: option.splits)
  show ?case
  proof (cases r)
    case None
    then show ?thesis using "1.prems" f csvField_size[OF f] by (subst (asm) csvRecord.simps) simp
  next
    case (Some l)
    then obtain gs where "csvRecord comma l l' = Some (gs, ls')"
      using "1.prems" f by (subst (asm) csvRecord.simps) (auto split: option.splits)
    then have "sum_list (map length ls') + length ls' \<le> sum_list (map length l') + length l'"
      using "1.IH"[OF f refl refl Some] by blast
    then show ?thesis using csvField_size[OF f] by linarith
  qed
qed

text \<open>Empty lines and lines that begin with the comment character are skipped.\<close>

function csvRecords :: "char \<Rightarrow> char \<Rightarrow> string list \<Rightarrow> string list list option" where
  "csvRecords comma comment [] = Some []"
| "csvRecords comma comment (line # ls) =
     (if line = [] \<or> hd line = comment then csvRecords comma comment ls
      else case csvRecord comma line ls of
        None \<Rightarrow> None
      | Some (r, ls') \<Rightarrow> map_option ((#) r) (csvRecords comma comment ls'))"
  by pat_completeness auto
termination
  by (relation "measure (\<lambda>(comma, comment, ls). sum_list (map length ls) + length ls)") (use csvRecord_size in force)+

text \<open>
  The lines of a file: the last need not end in a line break; a carriage return before it, or at
  the end of the file, is dropped.
\<close>

definition fileLines :: "string \<Rightarrow> string list" where
  "fileLines content =
     (let ls = splitOn (CHR 0x0A) content; ls' = (if last ls = [] then butlast ls else ls)
      in map (\<lambda>l. if l \<noteq> [] \<and> last l = CHR 0x0D then butlast l else l) ls')"

text \<open>All records of a file; each has as many fields as the first.\<close>

definition csvReadAll :: "char \<Rightarrow> char \<Rightarrow> string \<Rightarrow> string list list option" where
  "csvReadAll comma comment content =
     (case csvRecords comma comment (fileLines content) of
        None \<Rightarrow> None
      | Some rs \<Rightarrow> if \<forall>r \<in> set rs. length r = length (hd rs) then Some rs else None)"

text \<open>A field that is written in quotes is read back.\<close>

definition quoteField :: "string \<Rightarrow> string" where
  "quoteField f = concat (map (\<lambda>c. if c = CHR 0x22 then [c, c] else [c]) f)"

lemma quoteField_simps [simp]: "quoteField [] = []" "quoteField (c # f) = (if c = CHR 0x22 then [c, c] else [c]) @ quoteField f"
  by (simp_all add: quoteField_def)

lemma quotedField_quoteField:
  "quotedField comma acc (quoteField f @ CHR 0x22 # rest) ls =
     (case rest of [] \<Rightarrow> Some (acc @ f, None, ls)
      | d # ds \<Rightarrow> if d = CHR 0x22 then quotedField comma (acc @ f @ [d]) ds ls else if d = comma then Some (acc @ f, Some ds, ls) else None)"
proof (induction f arbitrary: acc)
  case Nil
  show ?case by (subst quotedField.simps) (simp split: list.split)
next
  case (Cons c f)
  have "quotedField comma acc (quoteField (c # f) @ CHR 0x22 # rest) ls = quotedField comma (acc @ [c]) (quoteField f @ CHR 0x22 # rest) ls"
    by (subst quotedField.simps) simp
  also have "\<dots> = (case rest of [] \<Rightarrow> Some ((acc @ [c]) @ f, None, ls)
      | d # ds \<Rightarrow> if d = CHR 0x22 then quotedField comma ((acc @ [c]) @ f @ [d]) ds ls
          else if d = comma then Some ((acc @ [c]) @ f, Some ds, ls) else None)" by (rule Cons)
  finally show ?case by (simp only: append.assoc append_Cons append_Nil)
qed

section \<open>strconv\<close>

definition ParseBool :: "string \<Rightarrow> bool option" where
  "ParseBool s = (if s \<in> {''1'', ''t'', ''T'', ''TRUE'', ''true'', ''True''} then Some True
     else if s \<in> {''0'', ''f'', ''F'', ''FALSE'', ''false'', ''False''} then Some False else None)"

text \<open>The value of a digit, a letter of either case counting from ten.\<close>

definition digitOf :: "char \<Rightarrow> nat option" where
  "digitOf c = (let n = (of_char c :: nat) in
     if 48 \<le> n \<and> n \<le> 57 then Some (n - 48)
     else if 97 \<le> n \<and> n \<le> 122 then Some (n - 97 + 10)
     else if 65 \<le> n \<and> n \<le> 90 then Some (n - 65 + 10)
     else None)"

fun digitsIn :: "nat \<Rightarrow> nat \<Rightarrow> string \<Rightarrow> nat option" where
  "digitsIn base n [] = Some n"
| "digitsIn base n (c # cs) =
     (case digitOf c of None \<Rightarrow> None | Some d \<Rightarrow> if d < base then digitsIn base (n * base + d) cs else None)"

text \<open>
  \<open>ParseUint(s, 0, bits)\<close>: a number that begins with 0x is hexadecimal, one that begins with 0 is octal.
  None: an error of syntax or range.
\<close>

definition uintOf :: "string \<Rightarrow> nat option" where
  "uintOf s =
     (case s of
        [] \<Rightarrow> None
      | c # cs \<Rightarrow>
          if c = CHR ''0'' then
            (case cs of
               [] \<Rightarrow> Some 0
             | x # ds \<Rightarrow>
                 if x = CHR ''x'' \<or> x = CHR ''X'' then (if ds = [] then None else digitsIn 16 0 ds)
                 else digitsIn 8 0 cs)
          else digitsIn 10 0 s)"

definition ParseUint0 :: "string \<Rightarrow> nat \<Rightarrow> nat option" where
  "ParseUint0 s bits = (case uintOf s of None \<Rightarrow> None | Some n \<Rightarrow> if n < 2 ^ bits then Some n else None)"

definition ParseInt0 :: "string \<Rightarrow> nat \<Rightarrow> int option" where
  "ParseInt0 s bits =
     (let neg = (s \<noteq> [] \<and> hd s = CHR ''-'');
          ds = (if s \<noteq> [] \<and> (hd s = CHR ''-'' \<or> hd s = CHR ''+'') then tl s else s)
      in case ParseUint0 ds bits of
        None \<Rightarrow> None
      | Some n \<Rightarrow> if neg then (if n \<le> 2 ^ (bits - 1) then Some (- int n) else None)
          else (if n < 2 ^ (bits - 1) then Some (int n) else None))"

lemma ParseUint0_bounds: "ParseUint0 s bits = Some n \<Longrightarrow> n < 2 ^ bits"
  by (simp add: ParseUint0_def split: option.splits if_splits)

lemma ParseInt0_bounds: "ParseInt0 s bits = Some i \<Longrightarrow> - (2 ^ (bits - 1)) \<le> i \<and> i < 2 ^ (bits - 1)"
proof -
  have nat: "int n \<le> 2 ^ b \<longleftrightarrow> n \<le> 2 ^ b" "int n < 2 ^ b \<longleftrightarrow> n < 2 ^ b" for n b :: nat
    by simp_all
  have pos: "(0::int) < 2 ^ (bits - 1)" by simp
  assume "ParseInt0 s bits = Some i"
  then obtain n where "i = - int n \<and> n \<le> 2 ^ (bits - 1) \<or> i = int n \<and> n < 2 ^ (bits - 1)"
    by (simp add: ParseInt0_def Let_def split: option.splits if_splits) blast+
  then show ?thesis using nat[of n "bits - 1"] pos by linarith
qed

lemma leading_zero_is_octal: "ParseInt0 ''010'' 64 = Some 8" "ParseInt0 ''08'' 64 = None"
  by (simp_all add: ParseInt0_def ParseUint0_def uintOf_def digitOf_def Let_def)

end
