(* ===== verification/CsvRecord.thy ===== *)
theory CsvRecord
  imports CsvReader
begin

text \<open>
  common-library/csvrecord: tables that are read from CSV files into records of a given type, with
  indexes over some of their fields. Reflection on the type is a schema of its fields.
\<close>

section \<open>Types and values\<close>

text \<open>
  The kinds of fields, with the width of numbers; \<open>KStruct\<close> and \<open>KOther\<close> (a map, a channel and so on) carry a name.
  Values of structs and floating point numbers are opaque: \<open>Parse\<close> is a method of the user's type.
\<close>

datatype kind = KString | KBool | KInt nat | KUint nat | KFloat nat | KSlice kind | KStruct string | KPtr kind | KOther string

datatype 'x cval = VStr string | VBool bool | VInt int | VUint nat | VFloat 'x | VSlice "'x cval list" | VStruct 'x | VPtr "'x cval option" | VNil

text \<open>The zero values, \<open>ParseFloat\<close>, and what \<open>Parse\<close> leaves in a struct, if its type has the method.\<close>

record 'x csvEnv =
  zeroFloat :: 'x
  zeroStruct :: "string \<Rightarrow> 'x"
  ParseFloat :: "string \<Rightarrow> nat \<Rightarrow> 'x option"
  ParseOf :: "string \<Rightarrow> (string \<Rightarrow> 'x \<times> bool) option"

record field =
  f_kind :: kind
  csvTag :: string
  indexTag :: bool
  canSet :: bool

fun zeroOf :: "'x csvEnv \<Rightarrow> kind \<Rightarrow> 'x cval" where
  "zeroOf e KString = VStr []"
| "zeroOf e KBool = VBool False"
| "zeroOf e (KInt bits) = VInt 0"
| "zeroOf e (KUint bits) = VUint 0"
| "zeroOf e (KFloat bits) = VFloat (zeroFloat e)"
| "zeroOf e (KSlice k) = VSlice []"
| "zeroOf e (KStruct t) = VStruct (zeroStruct e t)"
| "zeroOf e (KPtr k) = VPtr None"
| "zeroOf e (KOther t) = VNil"

text \<open>\<open>New\<close>, which refuses other kinds, and an index on a slice.\<close>

definition New :: "field list \<Rightarrow> bool" where
  "New fs = list_all (\<lambda>f. (case f_kind f of KOther t \<Rightarrow> False | _ \<Rightarrow> True)
     \<and> (indexTag f \<longrightarrow> (case f_kind f of KSlice k \<Rightarrow> False | _ \<Rightarrow> True))) fs"

text \<open>
  None: an error. A pointer is nil for an empty text; what it points to must not be a pointer
  again. The error that \<open>Parse\<close> returns is not returned.
\<close>

fun setValue :: "'x csvEnv \<Rightarrow> kind \<Rightarrow> string \<Rightarrow> 'x cval option" where
  "setValue e KString v = Some (VStr v)"
| "setValue e KBool v = map_option VBool (ParseBool v)"
| "setValue e (KInt bits) v = (if v = [] then Some (VInt 0) else map_option VInt (ParseInt0 v bits))"
| "setValue e (KUint bits) v = map_option VUint (ParseUint0 v bits)"
| "setValue e (KFloat bits) v = map_option VFloat (ParseFloat e v bits)"
| "setValue e (KStruct t) v = (case ParseOf e t of None \<Rightarrow> None | Some p \<Rightarrow> Some (VStruct (fst (p v))))"
| "setValue e (KSlice k) v =
     map_option VSlice (those (map (setValue e k) (if v = [] then [] else splitOn (CHR '','') v)))"
| "setValue e (KPtr k) v =
     (if v = [] then Some (VPtr None)
      else if (case k of KPtr k' \<Rightarrow> True | _ \<Rightarrow> False) then None
      else map_option (\<lambda>x. VPtr (Some x)) (setValue e k v))"
| "setValue e (KOther t) v = None"

fun hasKind :: "kind \<Rightarrow> 'x cval \<Rightarrow> bool" where
  "hasKind KString v \<longleftrightarrow> (\<exists>s. v = VStr s)"
| "hasKind KBool v \<longleftrightarrow> (\<exists>b. v = VBool b)"
| "hasKind (KInt bits) v \<longleftrightarrow> (\<exists>i. v = VInt i \<and> - (2 ^ (bits - 1)) \<le> i \<and> i < 2 ^ (bits - 1))"
| "hasKind (KUint bits) v \<longleftrightarrow> (\<exists>n. v = VUint n \<and> n < 2 ^ bits)"
| "hasKind (KFloat bits) v \<longleftrightarrow> (\<exists>x. v = VFloat x)"
| "hasKind (KSlice k) v \<longleftrightarrow> (\<exists>vs. v = VSlice vs \<and> (\<forall>w \<in> set vs. hasKind k w))"
| "hasKind (KStruct t) v \<longleftrightarrow> (\<exists>x. v = VStruct x)"
| "hasKind (KPtr k) v \<longleftrightarrow> (\<exists>p. v = VPtr p \<and> (\<forall>w. p = Some w \<longrightarrow> hasKind k w))"
| "hasKind (KOther t) v \<longleftrightarrow> False"

lemma those_set: "those xs = Some ys \<Longrightarrow> y \<in> set ys \<Longrightarrow> Some y \<in> set xs"
  by (induction xs arbitrary: ys) (auto split: option.splits)

lemma setValue_typed: "setValue e k v = Some x \<Longrightarrow> hasKind k x"
proof (induction e k v arbitrary: x rule: setValue.induct)
  case (7 e k v)
  then obtain vs where vs: "x = VSlice vs" "those (map (setValue e k) (if v = [] then [] else splitOn (CHR '','') v)) = Some vs" by auto
  have "hasKind k w" if "w \<in> set vs" for w
    using those_set[OF vs(2) that] "7.IH" by auto
  then show ?case using vs(1) by simp
qed (auto split: if_splits option.splits dest: ParseInt0_bounds ParseUint0_bounds)

lemma zeroOf_typed: "(case k of KOther t \<Rightarrow> False | _ \<Rightarrow> True) \<Longrightarrow> hasKind k (zeroOf e k)"
  by (cases k) auto

section \<open>Reading a table\<close>

text \<open>
  A record is the list of its values; the pointer to it is its number. A key of an index is a value with its
  type, or, for a pointer that is not nil, an address of its own. (Struct values are taken to be comparable.)
\<close>

datatype 'x key = KeyVal kind "'x cval" | KeyAddr nat nat

type_synonym 'x indexes = "string \<rightharpoonup> ('x key \<rightharpoonup> nat)"

definition indexKey :: "nat \<Rightarrow> nat \<Rightarrow> field \<Rightarrow> 'x cval \<Rightarrow> 'x key" where
  "indexKey n i f v = (case v of VPtr (Some w) \<Rightarrow> KeyAddr n i | _ \<Rightarrow> KeyVal (f_kind f) v)"

definition addIndex :: "nat \<Rightarrow> nat \<Rightarrow> field \<Rightarrow> 'x cval \<Rightarrow> 'x indexes \<Rightarrow> 'x indexes option" where
  "addIndex n i f v ix =
     (if indexTag f then
        (case ix (csvTag f) of
           None \<Rightarrow> None
         | Some index \<Rightarrow>
             if index (indexKey n i f v) \<noteq> None then None
             else Some (ix(csvTag f \<mapsto> index(indexKey n i f v \<mapsto> n))))
      else Some ix)"

text \<open>The fields of record \<open>n\<close>, from field \<open>i\<close> on. A field that cannot be set keeps its zero value and is not indexed.\<close>

fun readFields :: "'x csvEnv \<Rightarrow> (string \<rightharpoonup> nat) \<Rightarrow> nat \<Rightarrow> string list \<Rightarrow> nat \<Rightarrow> field list \<Rightarrow> 'x indexes
    \<Rightarrow> ('x cval list \<times> 'x indexes) option" where
  "readFields e infos n line i [] ix = Some ([], ix)"
| "readFields e infos n line i (f # fs) ix =
     (case infos (csvTag f) of
        None \<Rightarrow> None
      | Some j \<Rightarrow>
          if \<not> canSet f then map_option (apfst ((#) (zeroOf e (f_kind f)))) (readFields e infos n line (i + 1) fs ix)
          else (case setValue e (f_kind f) (line ! j) of
             None \<Rightarrow> None
           | Some v \<Rightarrow>
               (case addIndex n i f v ix of
                  None \<Rightarrow> None
                | Some ix' \<Rightarrow> map_option (apfst ((#) v)) (readFields e infos n line (i + 1) fs ix'))))"

fun readLines :: "'x csvEnv \<Rightarrow> (string \<rightharpoonup> nat) \<Rightarrow> field list \<Rightarrow> nat \<Rightarrow> string list list \<Rightarrow> 'x indexes
    \<Rightarrow> ('x cval list list \<times> 'x indexes) option" where
  "readLines e infos fs n [] ix = Some ([], ix)"
| "readLines e infos fs n (line # ls) ix =
     (case readFields e infos n line 0 fs ix of
        None \<Rightarrow> None
      | Some (r, ix') \<Rightarrow> map_option (apfst ((#) r)) (readLines e infos fs (n + 1) ls ix'))"

text \<open>The column of a name, the last one of it.\<close>

definition fieldInfoMap :: "string list \<Rightarrow> string \<rightharpoonup> nat" where
  "fieldInfoMap names = map_of (rev (zip names [0..<length names]))"

definition emptyIndexes :: "field list \<Rightarrow> 'x indexes" where
  "emptyIndexes fs = (\<lambda>t. if \<exists>f \<in> set fs. indexTag f \<and> csvTag f = t then Some Map.empty else None)"

text \<open>The first record has the types of the columns, which only errors mention, the second their names.\<close>

definition readConfigToTempMemory :: "'x csvEnv \<Rightarrow> char \<Rightarrow> char \<Rightarrow> field list \<Rightarrow> string option
    \<Rightarrow> ('x cval list list \<times> 'x indexes) option" where
  "readConfigToTempMemory e comma comment fs file =
     (case file of
        None \<Rightarrow> None
      | Some content \<Rightarrow>
          (case csvReadAll comma comment content of
             Some (fieldTypeLine # fieldNameLine # dataLines) \<Rightarrow>
               readLines e (fieldInfoMap fieldNameLine) fs 0 dataLines (emptyIndexes fs)
           | _ \<Rightarrow> None))"

section \<open>Tables\<close>

text \<open>\<open>inits\<close> are the copies that the callback was called with, the latest last.\<close>

record 'x csvTable =
  Comma :: char
  Comment :: char
  typeRecord :: "field list"
  records :: "'x cval list list"
  indexesMap :: "'x indexes"
  hasInit :: bool
  inits :: "('x cval list list \<times> 'x indexes) list"

definition NewTable :: "field list \<Rightarrow> bool \<Rightarrow> 'x csvTable option" where
  "NewTable fs callback = (if New fs then Some \<lparr>Comma = CHR 0x09, Comment = CHR ''#'', typeRecord = fs, records = [],
     indexesMap = Map.empty, hasInit = callback, inits = []\<rparr> else None)"

definition replaceNewData :: "'x cval list list \<Rightarrow> 'x indexes \<Rightarrow> 'x csvTable \<Rightarrow> 'x csvTable" where
  "replaceNewData r m cr = cr\<lparr>records := r, indexesMap := m, inits := inits cr @ (if hasInit cr then [(r, m)] else [])\<rparr>"

definition readTemp :: "'x csvEnv \<Rightarrow> (string \<rightharpoonup> string) \<Rightarrow> string \<Rightarrow> 'x csvTable \<Rightarrow> ('x cval list list \<times> 'x indexes) option" where
  "readTemp e fs fileName cr = readConfigToTempMemory e (Comma cr) (Comment cr) (typeRecord cr) (fs fileName)"

text \<open>The table, and whether the error is nil.\<close>

definition Read :: "'x csvEnv \<Rightarrow> (string \<rightharpoonup> string) \<Rightarrow> string \<Rightarrow> 'x csvTable \<Rightarrow> 'x csvTable \<times> bool" where
  "Read e fs fileName cr = (case readTemp e fs fileName cr of
     None \<Rightarrow> (cr, False)
   | Some (r, m) \<Rightarrow> (replaceNewData r m cr, True))"

definition Record :: "int \<Rightarrow> 'x csvTable \<Rightarrow> 'x cval list option" where
  "Record i cr = (if 0 \<le> i \<and> i < int (length (records cr)) then Some (records cr ! nat i) else None)"

definition NumRecrod :: "'x csvTable \<Rightarrow> int" where
  "NumRecrod cr = int (length (records cr))"

definition Index :: "string \<Rightarrow> 'x key \<Rightarrow> 'x csvTable \<Rightarrow> nat option" where
  "Index fieldName key cr = (case indexesMap cr fieldName of None \<Rightarrow> None | Some index \<Rightarrow> index key)"

text \<open>csvmanager.go: loading table by table up to the first error, and all of them or none.\<close>

fun LoadAll :: "'x csvEnv \<Rightarrow> (string \<rightharpoonup> string) \<Rightarrow> (string \<times> 'x csvTable) list \<Rightarrow> (string \<times> 'x csvTable) list \<times> bool" where
  "LoadAll e fs [] = ([], True)"
| "LoadAll e fs ((fileName, cr) # ts) =
     (case Read e fs fileName cr of
        (cr', False) \<Rightarrow> ((fileName, cr') # ts, False)
      | (cr', True) \<Rightarrow> apfst ((#) (fileName, cr')) (LoadAll e fs ts))"

fun readAllTemp :: "'x csvEnv \<Rightarrow> (string \<rightharpoonup> string) \<Rightarrow> (string \<times> 'x csvTable) list \<Rightarrow> ('x cval list list \<times> 'x indexes) list option" where
  "readAllTemp e fs [] = Some []"
| "readAllTemp e fs ((fileName, cr) # ts) =
     (case readTemp e fs fileName cr of None \<Rightarrow> None | Some rm \<Rightarrow> map_option ((#) rm) (readAllTemp e fs ts))"

definition ReloadCsvs :: "'x csvEnv \<Rightarrow> (string \<rightharpoonup> string) \<Rightarrow> (string \<times> 'x csvTable) list \<Rightarrow> (string \<times> 'x csvTable) list \<times> bool" where
  "ReloadCsvs e fs ts = (case readAllTemp e fs ts of
     None \<Rightarrow> (ts, False)
   | Some rms \<Rightarrow> (map2 (\<lambda>(fileName, cr) (r, m). (fileName, replaceNewData r m cr)) ts rms, True))"

section \<open>What is read\<close>

lemma readFields_typed:
  "readFields e infos n line i fs ix = Some (r, ix') \<Longrightarrow> New fs \<Longrightarrow> list_all2 (\<lambda>f v. hasKind (f_kind f) v) fs r"
proof (induction e infos n line i fs ix arbitrary: r rule: readFields.induct)
  case (2 e infos n line i f fs ix)
  then have "New fs" "(case f_kind f of KOther t \<Rightarrow> False | _ \<Rightarrow> True)" by (auto simp: New_def)
  then show ?case using 2 by (fastforce simp: zeroOf_typed split: option.splits if_splits dest: setValue_typed)
qed simp

lemma readLines_typed:
  "readLines e infos fs n ls ix = Some (rs, ix') \<Longrightarrow> New fs \<Longrightarrow> \<forall>r \<in> set rs. list_all2 (\<lambda>f v. hasKind (f_kind f) v) fs r"
  by (induction e infos fs n ls ix arbitrary: rs rule: readLines.induct)
    (fastforce split: option.splits dest: readFields_typed)+

lemma readTemp_typed:
  "readTemp e fs fileName cr = Some (rs, ix) \<Longrightarrow> New (typeRecord cr) \<Longrightarrow>
     \<forall>r \<in> set rs. list_all2 (\<lambda>f v. hasKind (f_kind f) v) (typeRecord cr) r"
  by (auto simp: readTemp_def readConfigToTempMemory_def split: option.splits list.splits dest: readLines_typed)

definition table_typed :: "'x csvTable \<Rightarrow> bool" where
  "table_typed cr \<longleftrightarrow> New (typeRecord cr) \<and> (\<forall>r \<in> set (records cr). list_all2 (\<lambda>f v. hasKind (f_kind f) v) (typeRecord cr) r)"

lemma replaceNewData_typed:
  "readTemp e fs fileName cr = Some (r, m) \<Longrightarrow> table_typed cr \<Longrightarrow> table_typed (replaceNewData r m cr)"
  using readTemp_typed[of e fs fileName cr r m] by (simp add: table_typed_def replaceNewData_def)

lemma readAllTemp_length: "readAllTemp e fs ts = Some rms \<Longrightarrow> length rms = length ts"
  by (induction ts arbitrary: rms) (auto split: option.splits)

lemma reload_typed:
  "readAllTemp e fs ts = Some rms \<Longrightarrow> \<forall>(fn, cr) \<in> set ts. table_typed cr \<Longrightarrow>
     \<forall>(fn, cr) \<in> set (map2 (\<lambda>(fileName, cr) (r, m). (fileName, replaceNewData r m cr)) ts rms). table_typed cr"
proof (induction ts arbitrary: rms)
  case (Cons t ts)
  obtain fileName cr where t: "t = (fileName, cr)" by (cases t)
  obtain r m rms' where r: "readTemp e fs fileName cr = Some (r, m)" "readAllTemp e fs ts = Some rms'" "rms = (r, m) # rms'"
    using Cons.prems(1) t by (auto split: option.splits)
  then have "table_typed (replaceNewData r m cr)" using Cons.prems(2) t replaceNewData_typed by auto
  then show ?case using Cons.IH[OF r(2)] Cons.prems(2) t r(3) by auto
qed simp

lemma load_typed: "\<forall>(fn, cr) \<in> set ts. table_typed cr \<Longrightarrow> \<forall>(fn, cr) \<in> set (fst (LoadAll e fs ts)). table_typed cr"
  by (induction e fs ts rule: LoadAll.induct)
    (auto simp: Read_def replaceNewData_typed split: option.splits prod.splits)


section \<open>Indexes\<close>

definition find_in :: "'x indexes \<Rightarrow> string \<Rightarrow> 'x key \<Rightarrow> nat option" where
  "find_in ix t k = (case ix t of None \<Rightarrow> None | Some index \<Rightarrow> index k)"

text \<open>Whether field \<open>i\<close>, of value \<open>v\<close> in record \<open>m\<close>, is indexed under a name and key.\<close>

definition indexedAs :: "nat \<Rightarrow> nat \<Rightarrow> field \<Rightarrow> 'x cval \<Rightarrow> string \<Rightarrow> 'x key \<Rightarrow> bool" where
  "indexedAs m i f v t k \<longleftrightarrow> indexTag f \<and> canSet f \<and> csvTag f = t \<and> indexKey m i f v = k"

lemma addIndex_find:
  assumes "addIndex n i f v ix = Some ix'" and "canSet f"
  shows "find_in ix' t k = Some m \<longleftrightarrow> find_in ix t k = Some m \<or> m = n \<and> indexedAs n i f v t k"
  using assms by (auto simp: addIndex_def find_in_def indexedAs_def split: option.splits if_splits)

lemma readFields_find:
  "readFields e infos n line i fs ix = Some (r, ix') \<Longrightarrow>
     find_in ix' t k = Some m \<longleftrightarrow> find_in ix t k = Some m \<or> m = n \<and> (\<exists>j < length fs. indexedAs n (i + j) (fs ! j) (r ! j) t k)"
proof (induction e infos n line i fs ix arbitrary: r rule: readFields.induct)
  case (2 e infos n line i f fs ix)
  then obtain j where j: "infos (csvTag f) = Some j" by (auto split: option.splits)
  have ex: "(\<exists>l < length (f # fs). indexedAs n (i + l) ((f # fs) ! l) ((v # r') ! l) t k)
      \<longleftrightarrow> indexedAs n i f v t k \<or> (\<exists>l < length fs. indexedAs n (i + 1 + l) (fs ! l) (r' ! l) t k)" for v and r' :: "'a cval list"
    by (simp add: Ex_less_Suc2)
  show ?case
  proof (cases "canSet f")
    case False
    then obtain r' where r': "readFields e infos n line (i + 1) fs ix = Some (r', ix')" "r = zeroOf e (f_kind f) # r'"
      using "2.prems" j by auto
    show ?thesis unfolding "2.IH"(1)[OF j False r'(1)] r'(2) ex using False by (simp add: indexedAs_def)
  next
    case True
    then obtain v ix1 r' where v: "setValue e (f_kind f) (line ! j) = Some v" "addIndex n i f v ix = Some ix1"
        "readFields e infos n line (i + 1) fs ix1 = Some (r', ix')" "r = v # r'"
      using "2.prems" j by (auto split: option.splits)
    have "find_in ix' t k = Some m \<longleftrightarrow> find_in ix1 t k = Some m
        \<or> m = n \<and> (\<exists>l < length fs. indexedAs n (i + 1 + l) (fs ! l) (r' ! l) t k)"
      by (rule "2.IH"(2)[OF j _ v(1,2,3)]) (use True in simp)
    then show ?thesis unfolding v(4) ex addIndex_find[OF v(2) True] by blast
  qed
qed simp

lemma readLines_find:
  "readLines e infos fs n ls ix = Some (rs, ix') \<Longrightarrow>
     find_in ix' t k = Some m \<longleftrightarrow> find_in ix t k = Some m
       \<or> (\<exists>d < length rs. m = n + d \<and> (\<exists>j < length fs. indexedAs m j (fs ! j) (rs ! d ! j) t k))"
proof (induction e infos fs n ls ix arbitrary: rs rule: readLines.induct)
  case (2 e infos fs n line ls ix)
  then obtain r ix1 rs' where r: "readFields e infos n line 0 fs ix = Some (r, ix1)"
      "readLines e infos fs (n + 1) ls ix1 = Some (rs', ix')" "rs = r # rs'"
    by (auto split: option.splits)
  have "(\<exists>d < length (r # rs'). m = n + d \<and> (\<exists>j < length fs. indexedAs m j (fs ! j) ((r # rs') ! d ! j) t k))
      \<longleftrightarrow> m = n \<and> (\<exists>j < length fs. indexedAs n j (fs ! j) (r ! j) t k)
        \<or> (\<exists>d < length rs'. m = n + 1 + d \<and> (\<exists>j < length fs. indexedAs m j (fs ! j) (rs' ! d ! j) t k))"
    by (auto simp: less_Suc_eq_0_disj)
  then show ?case unfolding "2.IH"[OF r(1) refl r(2)] readFields_find[OF r(1)] r(3) by auto
qed simp

lemma find_in_empty [simp]: "find_in (emptyIndexes fs) t k = None"
  by (simp add: find_in_def emptyIndexes_def)

text \<open>
  C38: After a table was read, looking up a key in an index gives exactly the one record that has the key in an indexed
  field of that name; a file in which two records share a key is refused, and the table then stays as it was.
\<close>

theorem index_finds_record:
  "case Read e fs fileName cr of
     (cr', True) \<Rightarrow> (\<forall>t k m. Index t k cr' = Some m \<longleftrightarrow>
        m < length (records cr') \<and> (\<exists>j < length (typeRecord cr). indexedAs m j (typeRecord cr ! j) (records cr' ! m ! j) t k))
   | (cr', False) \<Rightarrow> cr' = cr"
proof (cases "readTemp e fs fileName cr")
  case (Some rm)
  obtain rs ix where rm: "rm = (rs, ix)" by (cases rm)
  then obtain infos ls where ls: "readLines e infos (typeRecord cr) 0 ls (emptyIndexes (typeRecord cr)) = Some (rs, ix)"
    using Some by (auto simp: readTemp_def readConfigToTempMemory_def split: option.splits list.splits)
  show ?thesis using readLines_find[OF ls] by (auto simp: Read_def Some rm replaceNewData_def Index_def find_in_def[symmetric])
qed (simp add: Read_def)

text \<open>Reloading replaces all tables or none; loading stops in between.\<close>

lemma reload_all_or_nothing:
  "ReloadCsvs e fs ts = (ts', ok) \<Longrightarrow>
     (if ok then list_all2 (\<lambda>t t'. \<exists>r m. readTemp e fs (fst t) (snd t) = Some (r, m) \<and> t' = (fst t, replaceNewData r m (snd t))) ts ts'
      else ts' = ts)"
proof -
  assume r: "ReloadCsvs e fs ts = (ts', ok)"
  have "list_all2 (\<lambda>t t'. \<exists>r m. readTemp e fs (fst t) (snd t) = Some (r, m) \<and> t' = (fst t, replaceNewData r m (snd t))) ts
      (map2 (\<lambda>(fileName, cr) (r, m). (fileName, replaceNewData r m cr)) ts rms)" if "readAllTemp e fs ts = Some rms" for rms
    using that by (induction e fs ts arbitrary: rms rule: readAllTemp.induct) (auto split: option.splits)
  then show ?thesis using r by (auto simp: ReloadCsvs_def split: option.splits)
qed

section \<open>Examples\<close>

definition noParsers :: "unit csvEnv" where
  "noParsers = \<lparr>zeroFloat = (), zeroStruct = (\<lambda>_. ()), ParseFloat = (\<lambda>_ _. Some ()), ParseOf = Map.empty\<rparr>"

definition demoTable :: "unit csvTable" where
  "demoTable = \<lparr>Comma = CHR '';'', Comment = CHR ''#'',
     typeRecord = [\<lparr>f_kind = KInt 8, csvTag = ''id'', indexTag = True, canSet = True\<rparr>,
       \<lparr>f_kind = KSlice (KUint 8), csvTag = ''keys'', indexTag = False, canSet = True\<rparr>],
     records = [], indexesMap = Map.empty, hasInit = False, inits = []\<rparr>"

text \<open>A file with a comment, an octal number, a quoted field and a duplicate key.\<close>

definition demoFile :: "string \<Rightarrow> string" where
  "demoFile rest = ''int;list'' @ [CHR 0x0A] @ ''id;keys'' @ [CHR 0x0A] @ ''#c'' @ [CHR 0x0A] @ ''010;1,0xff'' @ [CHR 0x0D, CHR 0x0A] @ rest"


lemma demo_values:
  "setValue noParsers (KInt 8) ''010'' = Some (VInt 8)" "setValue noParsers (KInt 8) ''7'' = Some (VInt 7)"
  "setValue noParsers (KInt 8) ''8'' = Some (VInt 8)" "setValue noParsers (KSlice (KUint 8)) ''1,0xff'' = Some (VSlice [VUint 1, VUint 255])"
  "setValue noParsers (KSlice (KUint 8)) [] = Some (VSlice [])" "setValue noParsers (KSlice (KUint 8)) ''3'' = Some (VSlice [VUint 3])"
  by code_simp+

lemma demo_lines:
  "csvReadAll (CHR '';'') (CHR ''#'') (demoFile ([CHR ''7'', CHR '';'', CHR 0x22, CHR 0x22]))
     = Some [[''int'', ''list''], [''id'', ''keys''], [''010'', ''1,0xff''], [''7'', []]]"
  "csvReadAll (CHR '';'') (CHR ''#'') (demoFile ''8;3'')
     = Some [[''int'', ''list''], [''id'', ''keys''], [''010'', ''1,0xff''], [''8'', ''3'']]"
  by code_simp+

lemma demo_read:
  "map_option fst (readTemp noParsers [''t'' \<mapsto> demoFile ([CHR ''7'', CHR '';'', CHR 0x22, CHR 0x22])] ''t'' demoTable)
     = Some [[VInt 8, VSlice [VUint 1, VUint 255]], [VInt 7, VSlice []]]"
  "map_option fst (readTemp noParsers [''t'' \<mapsto> demoFile ''8;3''] ''t'' demoTable) = None"
  by (simp_all add: readTemp_def demoTable_def readConfigToTempMemory_def demo_lines demo_values fieldInfoMap_def addIndex_def
    emptyIndexes_def indexKey_def del: setValue.simps)

text \<open>An empty text is zero for an integer, but an error for an unsigned one; the error of \<open>Parse\<close> is lost.\<close>

lemma empty_numbers: "setValue e (KInt 32) [] = Some (VInt 0)" "setValue e (KUint 32) [] = None"
  by (simp_all add: ParseUint0_def uintOf_def)

lemma parse_error_lost: "ParseOf e t = Some (\<lambda>v. (x, False)) \<Longrightarrow> setValue e (KStruct t) v = Some (VStruct x)"
  by simp

end
