(* ===== verification/Pulsar.thy ===== *)
theory Pulsar
  imports Framing "HOL-Library.Sublist"
begin

text \<open>
  im-library/pulsar_client: publishing to Pulsar and the goroutine of a subscribed topic that moves
  messages from the consumer to a channel. Pulsar is a parameter: what it is asked to do is recorded,
  what it answers is arbitrary.
\<close>

section \<open>Publishing\<close>

text \<open>
  \<open>sends\<close> are the messages given to producers. Creating a producer or consumer may fail, which
  panics (None). \<open>subscribed\<close> are the keys of the two maps of consumers and channels.
\<close>

record pulsarClient =
  connected :: bool
  producers :: "string set"
  subscribed :: "string set"
  sliceSubscribeTopices :: "string list"
  sends :: "(string \<times> string) list"

definition noPulsar :: pulsarClient where
  "noPulsar = \<lparr>connected = False, producers = {}, subscribed = {}, sliceSubscribeTopices = [], sends = []\<rparr>"

text \<open>What Pulsar accepts: the URL, producers of and subscriptions to topics, and messages.\<close>

record pulsar =
  newClient :: "string \<Rightarrow> bool"
  createProducer :: "string \<Rightarrow> bool"
  createConsumer :: "string \<Rightarrow> bool"
  sendError :: "(string \<times> string) list \<Rightarrow> string option"

definition publish :: "pulsar \<Rightarrow> string list \<Rightarrow> pulsarClient \<Rightarrow> pulsarClient option" where
  "publish P topices c = (if list_all (createProducer P) topices then Some (c\<lparr>producers := producers c \<union> set topices\<rparr>) else None)"

definition subscribe :: "pulsar \<Rightarrow> string list \<Rightarrow> pulsarClient \<Rightarrow> pulsarClient option" where
  "subscribe P topices c = (if list_all (createConsumer P) topices then Some (c\<lparr>subscribed := subscribed c \<union> set topices\<rparr>) else None)"

definition Init :: "pulsar \<Rightarrow> string \<Rightarrow> string list \<Rightarrow> string list \<Rightarrow> pulsarClient \<Rightarrow> pulsarClient option" where
  "Init P url publishTopices subscribeTopices c =
     (if connected c then Some c
      else if \<not> newClient P url then None
      else case publish P publishTopices (c\<lparr>connected := True\<rparr>) of
        None \<Rightarrow> None
      | Some c1 \<Rightarrow>
          (case subscribe P subscribeTopices c1 of
             None \<Rightarrow> None
           | Some c2 \<Rightarrow> Some (c2\<lparr>sliceSubscribeTopices := sliceSubscribeTopices c2 @ subscribeTopices\<rparr>)))"

text \<open>A message for a topic without a producer is dropped, without an error.\<close>

definition Send :: "pulsar \<Rightarrow> string \<Rightarrow> string \<Rightarrow> pulsarClient \<Rightarrow> pulsarClient \<times> string option" where
  "Send P topic msg c =
     (if topic \<in> producers c then (c\<lparr>sends := sends c @ [(topic, msg)]\<rparr>, sendError P (sends c @ [(topic, msg)]))
      else (c, None))"

text \<open>\<open>marshalled\<close> is what proto.Marshal returned, None for an error.\<close>

definition SendPbMsg :: "pulsar \<Rightarrow> string \<Rightarrow> int \<Rightarrow> int \<Rightarrow> string option \<Rightarrow> pulsarClient \<Rightarrow> pulsarClient \<times> string option" where
  "SendPbMsg P topic receiverId cmdId marshalled c =
     (case marshalled of None \<Rightarrow> (c, Some ''proto'') | Some msg \<Rightarrow> Send P topic (mqBuf receiverId 0 cmdId msg) c)"

definition SendGroupBuf :: "pulsar \<Rightarrow> string \<Rightarrow> int \<Rightarrow> int \<Rightarrow> string \<Rightarrow> pulsarClient \<Rightarrow> pulsarClient \<times> string option" where
  "SendGroupBuf P topic groupId cmdId msg c = Send P topic (mqBuf 0 groupId cmdId msg) c"

definition SendGroupMsg :: "pulsar \<Rightarrow> string \<Rightarrow> int \<Rightarrow> int \<Rightarrow> string option \<Rightarrow> pulsarClient \<Rightarrow> pulsarClient \<times> string option" where
  "SendGroupMsg P topic groupId cmdId marshalled c =
     (case marshalled of None \<Rightarrow> (c, Some ''proto'') | Some msg \<Rightarrow> Send P topic (mqBuf 0 groupId cmdId msg) c)"

definition GetSubscribeTopices :: "pulsarClient \<Rightarrow> string list" where
  "GetSubscribeTopices c = sliceSubscribeTopices c"

text \<open>Whether there is a channel for the topic; else nil, on which a reader waits for ever.\<close>

definition GetMsgFromTopic :: "string \<Rightarrow> pulsarClient \<Rightarrow> bool" where
  "GetMsgFromTopic topic c \<longleftrightarrow> topic \<in> subscribed c"

text \<open>Close empties the maps. The client stays, so that a later Init does nothing: nothing can be sent any more.\<close>

definition Close :: "pulsarClient \<Rightarrow> pulsarClient" where
  "Close c = c\<lparr>producers := {}, subscribed := {}\<rparr>"

lemma Send_unknown_topic: "topic \<notin> producers c \<Longrightarrow> Send P topic msg c = (c, None)"
  by (simp add: Send_def)

lemma Init_after_Close: "connected c \<Longrightarrow> Init P url ps ss (Close c) = Some (Close c) \<and> Send P topic msg (Close c) = (Close c, None)"
  by (simp add: Init_def Close_def Send_def)

lemma Init_topics:
  assumes "Init P url ps ss noPulsar = Some c"
  shows "producers c = set ps" and "subscribed c = set ss" and "GetSubscribeTopices c = ss"
  using assms by (auto simp: Init_def noPulsar_def publish_def subscribe_def GetSubscribeTopices_def split: if_splits option.splits)

section \<open>A subscribed topic\<close>

text \<open>
  The goroutine: it waits for a message, is about to put one into the channel, or to acknowledge one;
  or it has returned, or panicked on a closed channel.
\<close>

datatype receiver = Receiving | Queueing string | Acking string | Gone | Panicked

text \<open>\<open>received\<close> is what Pulsar delivered, \<open>acked\<close> what was acknowledged, \<open>taken\<close> what was read off the channel.\<close>

record topicState =
  receiver :: receiver
  channel :: "string list"
  consumerClosed :: bool
  channelClosed :: bool
  received :: "string list"
  acked :: "string list"
  taken :: "string list"

definition newTopic :: topicState where
  "newTopic = \<lparr>receiver = Receiving, channel = [], consumerClosed = False, channelClosed = False, received = [], acked = [], taken = []\<rparr>"

definition channelCap :: nat where "channelCap = 10000"

definition queueIt :: "string \<Rightarrow> topicState \<Rightarrow> topicState" where
  "queueIt m s = s\<lparr>channel := channel s @ [m], receiver := Acking m\<rparr>"

definition ackIt :: "string \<Rightarrow> topicState \<Rightarrow> topicState" where
  "ackIt m s = s\<lparr>acked := acked s @ [m], receiver := Receiving\<rparr>"

text \<open>A nil message or an error ends the goroutine. Close closes the consumers first, then the channels.\<close>

inductive topicStep :: "topicState \<Rightarrow> topicState \<Rightarrow> bool" where
  receive: "receiver s = Receiving \<Longrightarrow> \<not> consumerClosed s \<Longrightarrow> topicStep s (s\<lparr>receiver := Queueing m, received := received s @ [m]\<rparr>)"
| ends: "receiver s = Receiving \<Longrightarrow> topicStep s (s\<lparr>receiver := Gone\<rparr>)"
| queue: "receiver s = Queueing m \<Longrightarrow> \<not> channelClosed s \<Longrightarrow> length (channel s) < channelCap \<Longrightarrow> topicStep s (queueIt m s)"
| panic: "receiver s = Queueing m \<Longrightarrow> channelClosed s \<Longrightarrow> topicStep s (s\<lparr>receiver := Panicked\<rparr>)"
| ack: "receiver s = Acking m \<Longrightarrow> topicStep s (ackIt m s)"
| takes: "channel s = m # ms \<Longrightarrow> topicStep s (s\<lparr>channel := ms, taken := taken s @ [m]\<rparr>)"
| closeConsumer: "topicStep s (s\<lparr>consumerClosed := True\<rparr>)"
| closeChannel: "consumerClosed s \<Longrightarrow> \<not> channelClosed s \<Longrightarrow> topicStep s (s\<lparr>channelClosed := True\<rparr>)"

inductive_cases topicStepE: "topicStep s s'"

text \<open>What the goroutine has received and not put into the channel, and what it has put and not acknowledged.\<close>

fun unqueued :: "receiver \<Rightarrow> string list" where
  "unqueued (Queueing m) = [m]"
| "unqueued r = []"

fun unacked :: "receiver \<Rightarrow> string list" where
  "unacked (Acking m) = [m]"
| "unacked r = []"

definition topic_ok :: "topicState \<Rightarrow> bool" where
  "topic_ok s \<longleftrightarrow> length (channel s) \<le> channelCap \<and> taken s @ channel s = acked s @ unacked (receiver s)
     \<and> (receiver s \<noteq> Panicked \<longrightarrow> received s = taken s @ channel s @ unqueued (receiver s))
     \<and> (receiver s = Panicked \<longrightarrow> (\<exists>m. received s = taken s @ channel s @ [m]))"

lemma topic_ok_step: "topicStep s s' \<Longrightarrow> topic_ok s \<Longrightarrow> topic_ok s'"
  by (erule topicStep.cases) (auto simp: topic_ok_def queueIt_def ackIt_def channelCap_def)

lemma topic_ok_reached: "topicStep\<^sup>*\<^sup>* newTopic s \<Longrightarrow> topic_ok s"
proof (induction rule: rtranclp_induct)
  case base
  then show ?case by (simp add: topic_ok_def newTopic_def)
next
  case (step s s')
  then show ?case using topic_ok_step by blast
qed

text \<open>
  However the goroutine of a topic, the readers of its channel and Close interleave: what was read off the
  channel and what is in it are the messages Pulsar delivered, in order and none twice; at most one more
  is in the goroutine's hands; and a message is acknowledged only after it was put into the channel, one at a time.
\<close>

theorem acked_after_queued:
  assumes "topicStep\<^sup>*\<^sup>* newTopic s"
  shows "prefix (taken s @ channel s) (received s) \<and> length (received s) \<le> length (taken s @ channel s) + 1
    \<and> prefix (acked s) (taken s @ channel s) \<and> length (taken s @ channel s) \<le> length (acked s) + 1
    \<and> length (channel s) \<le> 10000"
proof -
  have ok: "topic_ok s" by (rule topic_ok_reached[OF assms])
  have "\<exists>ms. received s = taken s @ channel s @ ms \<and> length ms \<le> 1"
  proof (cases "receiver s = Panicked")
    case False
    moreover have "length (unqueued (receiver s)) \<le> 1" by (cases "receiver s") simp_all
    ultimately show ?thesis using ok unfolding topic_ok_def by blast
  next
    case True
    then obtain m where "received s = taken s @ channel s @ [m]" using ok by (auto simp: topic_ok_def)
    then show ?thesis by (intro exI[of _ "[m]"]) simp
  qed
  then obtain ms where ms: "received s = taken s @ channel s @ ms" "length ms \<le> 1" by blast
  have "length (unacked (receiver s)) \<le> 1" by (cases "receiver s") simp_all
  then have a: "prefix (acked s) (taken s @ channel s)" "length (taken s @ channel s) \<le> length (acked s) + 1" "length (channel s) \<le> 10000"
    using ok by (simp_all add: topic_ok_def channelCap_def)
  have "prefix (taken s @ channel s) (received s)" "length (received s) \<le> length (taken s @ channel s) + 1"
    using ms by (simp_all add: prefix_def)
  with a show ?thesis by blast
qed

text \<open>A message delivered just before Close makes the goroutine panic, which ends the process.\<close>

lemma close_can_panic: "\<exists>s. topicStep\<^sup>*\<^sup>* newTopic s \<and> receiver s = Panicked \<and> received s = [m] \<and> acked s = []"
proof -
  let ?a = "newTopic\<lparr>receiver := Queueing m, received := received newTopic @ [m]\<rparr>"
  let ?b = "?a\<lparr>consumerClosed := True\<rparr>"
  let ?c = "?b\<lparr>channelClosed := True\<rparr>"
  let ?d = "?c\<lparr>receiver := Panicked\<rparr>"
  have "topicStep newTopic ?a" by (rule topicStep.receive) (simp_all add: newTopic_def)
  moreover have "topicStep ?a ?b" by (rule topicStep.closeConsumer)
  moreover have "topicStep ?b ?c" by (rule topicStep.closeChannel) (simp_all add: newTopic_def)
  moreover have "topicStep ?c ?d" by (rule topicStep.panic[of _ m]) simp_all
  ultimately have "topicStep\<^sup>*\<^sup>* newTopic ?d" by (meson rtranclp.rtrancl_into_rtrancl rtranclp.rtrancl_refl)
  then show ?thesis by (intro exI[of _ ?d]) (simp add: newTopic_def)
qed

text \<open>Two messages, the first read off the channel and acknowledged, for the witness.\<close>

definition demoTopic :: topicState where
  "demoTopic = queueIt ''b'' ((ackIt ''a'' (queueIt ''a'' (newTopic\<lparr>receiver := Queueing ''a'', received := [''a'']\<rparr>)))
     \<lparr>receiver := Queueing ''b'', received := [''a'', ''b'']\<rparr>)"

lemma demoTopic_reached: "topicStep\<^sup>*\<^sup>* newTopic demoTopic"
proof -
  let ?a = "newTopic\<lparr>receiver := Queueing ''a'', received := received newTopic @ [''a'']\<rparr>"
  let ?c = "ackIt ''a'' (queueIt ''a'' ?a)"
  let ?d = "?c\<lparr>receiver := Queueing ''b'', received := received ?c @ [''b'']\<rparr>"
  have "topicStep newTopic ?a" by (rule topicStep.receive) (simp_all add: newTopic_def)
  moreover have "topicStep ?a (queueIt ''a'' ?a)" by (rule topicStep.queue) (simp_all add: newTopic_def channelCap_def)
  moreover have "topicStep (queueIt ''a'' ?a) ?c" by (rule topicStep.ack) (simp add: queueIt_def)
  moreover have "topicStep ?c ?d" by (rule topicStep.receive) (simp_all add: ackIt_def queueIt_def newTopic_def)
  moreover have "topicStep ?d (queueIt ''b'' ?d)"
    by (rule topicStep.queue) (simp_all add: ackIt_def queueIt_def newTopic_def channelCap_def)
  ultimately have "topicStep\<^sup>*\<^sup>* newTopic (queueIt ''b'' ?d)" by (meson rtranclp.rtrancl_into_rtrancl rtranclp.rtrancl_refl)
  moreover have "queueIt ''b'' ?d = demoTopic" by (simp add: demoTopic_def ackIt_def queueIt_def newTopic_def)
  ultimately show ?thesis by simp
qed

theorem acked_after_queued_witness:
  "prefix (acked demoTopic) (taken demoTopic @ channel demoTopic) \<and> acked demoTopic = [''a''] \<and> channel demoTopic = [''a'', ''b'']"
  using acked_after_queued[OF demoTopic_reached] by (simp add: demoTopic_def ackIt_def queueIt_def newTopic_def)

end
