(* ===== verification/Functions.thy ===== *)
theory Functions
  imports Framing Calendar
begin

unbundle bit_operations_syntax

text \<open>
  Helpers of common-library: convert (colours as strings, dates), math, and the rest of
  function/function.go: packets that are batched for a socket and read into a given buffer.
\<close>

section \<open>Colours\<close>

text \<open>The fields are optional; the getters return 0 for one that is not there.\<close>

record RGBColor =
  Color_R :: "int option"
  Color_G :: "int option"
  Color_B :: "int option"
  Color_Alpha :: "int option"

definition orZero :: "int option \<Rightarrow> int" where
  "orZero v = (case v of None \<Rightarrow> 0 | Some i \<Rightarrow> i)"

definition convertRGBColorToInt64 :: "RGBColor \<Rightarrow> int" where
  "convertRGBColorToInt64 color =
     (let r = orZero (Color_R color) in if r > 255 \<or> r < 0 then -10
      else let g = orZero (Color_G color) in if g > 255 \<or> g < 0 then -11
      else let b = orZero (Color_B color) in if b > 255 \<or> b < 0 then -12
      else let alpha = orZero (Color_Alpha color) in if alpha > 100 \<or> alpha < 0 then -13
      else push_bit 8 (push_bit 8 (push_bit 8 (0 OR r) OR g) OR b) OR alpha)"

definition convertInt64ToRGBColor :: "int \<Rightarrow> RGBColor" where
  "convertInt64ToRGBColor combineNum =
     \<lparr>Color_R = Some (drop_bit 24 combineNum AND 0xFF), Color_G = Some (drop_bit 16 combineNum AND 0xFF),
      Color_B = Some (drop_bit 8 combineNum AND 0xFF), Color_Alpha = Some (combineNum AND 0xFF)\<rparr>"

fun RGBColorArrayToStrFrom :: "string \<Rightarrow> RGBColor list \<Rightarrow> string" where
  "RGBColorArrayToStrFrom acc [] = acc"
| "RGBColorArrayToStrFrom acc (v # vs) =
     (let colorV = convertRGBColorToInt64 v in
      if colorV < 0 then [] else RGBColorArrayToStrFrom (acc @ itoa colorV @ '','') vs)"

definition RGBColorArrayToStr :: "RGBColor list \<Rightarrow> string" where
  "RGBColorArrayToStr colorArr = RGBColorArrayToStrFrom [] colorArr"

text \<open>\<open>strings.FieldsFunc\<close> at commas: the parts that are not empty. A wrong part gives nil, like the empty string.\<close>

fun colorsOf :: "string list \<Rightarrow> RGBColor list option" where
  "colorsOf [] = Some []"
| "colorsOf (valueStr # vs) =
     (case ParseInt valueStr of (value, err) \<Rightarrow>
        if \<not> err then None else map_option ((#) (convertInt64ToRGBColor value)) (colorsOf vs))"

definition StrToRGBColorArray :: "string \<Rightarrow> RGBColor list" where
  "StrToRGBColorArray str =
     (if str = [] then []
      else case colorsOf (filter (\<lambda>s. s \<noteq> []) (splitOn (CHR '','') str)) of None \<Rightarrow> [] | Some cs \<Rightarrow> cs)"

definition rgb_ok :: "RGBColor \<Rightarrow> bool" where
  "rgb_ok c \<longleftrightarrow> (\<exists>r g b a. c = \<lparr>Color_R = Some r, Color_G = Some g, Color_B = Some b, Color_Alpha = Some a\<rparr>
     \<and> 0 \<le> r \<and> r \<le> 255 \<and> 0 \<le> g \<and> g \<le> 255 \<and> 0 \<le> b \<and> b \<le> 255 \<and> 0 \<le> a \<and> a \<le> 100)"

lemma push_or: "0 \<le> y \<Longrightarrow> y < 256 \<Longrightarrow> push_bit 8 x OR y = x * 256 + (y::int)"
proof -
  assume y: "0 \<le> y" "y < 256"
  then have "y = take_bit 8 y" by (simp add: take_bit_eq_mod)
  then have b: "bit y n \<Longrightarrow> n < 8" for n by (metis bit_take_bit_iff)
  have "push_bit 8 x + y = push_bit 8 x OR y"
    by (rule disjunctive_add) (use b in \<open>force simp: bit_push_bit_iff\<close>)
  then show ?thesis by (simp add: push_bit_eq_mult)
qed

lemma and_255: "(x::int) AND 0xFF = x mod 256"
  using take_bit_eq_mask[of 8 x] by (simp add: take_bit_eq_mod mask_eq_exp_minus_1)

lemma color_roundtrip:
  assumes "rgb_ok c"
  shows "0 \<le> convertRGBColorToInt64 c \<and> convertRGBColorToInt64 c < 2 ^ 32 \<and> convertInt64ToRGBColor (convertRGBColorToInt64 c) = c"
proof -
  obtain r g b a where c: "c = \<lparr>Color_R = Some r, Color_G = Some g, Color_B = Some b, Color_Alpha = Some a\<rparr>"
      and r: "0 \<le> r" "r \<le> 255" and g: "0 \<le> g" "g \<le> 255" and b: "0 \<le> b" "b \<le> 255" and a: "0 \<le> a" "a \<le> 100"
    using assms by (auto simp: rgb_ok_def)
  have v: "convertRGBColorToInt64 c = ((r * 256 + g) * 256 + b) * 256 + a"
    using r g b a by (simp add: convertRGBColorToInt64_def c orZero_def push_or)
  have "(((r * 256 + g) * 256 + b) * 256 + a) div 256 = (r * 256 + g) * 256 + b" using a by simp
  moreover have "((r * 256 + g) * 256 + b) div 256 = r * 256 + g" using b by simp
  moreover have "(r * 256 + g) div 256 = r" using g by simp
  ultimately have "((r * 256 + g) * 256 + b) * 256 + a = v' \<Longrightarrow> v' div 2 ^ 8 = (r * 256 + g) * 256 + b
      \<and> v' div 2 ^ 16 = r * 256 + g \<and> v' div 2 ^ 24 = r" for v'
    using zdiv_zmult2_eq[of "256::int" v' 256] zdiv_zmult2_eq[of "256::int" v' 65536] zdiv_zmult2_eq[of "256::int" "v' div 256" 256] by auto
  note d = this[OF refl]
  have "((r * 256 + g) * 256 + b) mod 256 = b" "(((r * 256 + g) * 256 + b) * 256 + a) mod 256 = a" "(r * 256 + g) mod 256 = g"
    using g b a by (simp_all only: mod_mult_self3) auto
  then have "convertInt64ToRGBColor (((r * 256 + g) * 256 + b) * 256 + a) = c"
    using r g b a d by (simp add: convertInt64ToRGBColor_def c and_255 drop_bit_eq_div)
  then show ?thesis unfolding v using r g b a by simp
qed

lemma colors_joined:
  "list_all rgb_ok cs \<Longrightarrow> RGBColorArrayToStrFrom acc cs = acc @ concat (map (\<lambda>c. itoa (convertRGBColorToInt64 c) @ '','') cs)"
proof (induction cs arbitrary: acc)
  case (Cons c cs)
  then have "0 \<le> convertRGBColorToInt64 c" using color_roundtrip by simp
  then show ?case using Cons by (simp add: Let_def)
qed simp

lemma no_comma: "0 \<le> i \<Longrightarrow> CHR '','' \<notin> set (itoa i)"
  using nat_digits_all_digits[of "nat i"] by (auto simp: itoa_def list_all_iff is_digit_def)

lemma itoa_not_Nil [simp]: "itoa i \<noteq> []"
  by (simp add: itoa_def)

lemma colors_split:
  "list_all rgb_ok cs \<Longrightarrow> colorsOf (filter (\<lambda>s. s \<noteq> [])
     (splitOn (CHR '','') (concat (map (\<lambda>c. itoa (convertRGBColorToInt64 c) @ '','') cs)))) = Some cs"
proof (induction cs)
  case (Cons c cs)
  then have c: "0 \<le> convertRGBColorToInt64 c" "convertRGBColorToInt64 c < 2 ^ 32" "convertInt64ToRGBColor (convertRGBColorToInt64 c) = c"
    using color_roundtrip[of c] by auto
  then have "ParseInt (itoa (convertRGBColorToInt64 c)) = (convertRGBColorToInt64 c, True)"
    by (intro ParseInt_itoa) (simp add: int64_def)
  then show ?case using Cons c splitOn_append[OF no_comma[OF c(1)]] by simp
qed simp

text \<open>
  An array of colours whose parts are in their range, all there, is read back from its string.
\<close>

theorem colors_roundtrip:
  assumes "list_all rgb_ok cs"
  shows "StrToRGBColorArray (RGBColorArrayToStr cs) = cs"
proof (cases cs)
  case (Cons c cs')
  define str where "str = concat (map (\<lambda>c. itoa (convertRGBColorToInt64 c) @ '','') cs)"
  have "str \<noteq> []" by (simp add: str_def Cons)
  moreover have "RGBColorArrayToStr cs = str" using colors_joined[OF assms, of "[]"] by (simp add: RGBColorArrayToStr_def str_def)
  moreover have "colorsOf (filter (\<lambda>s. s \<noteq> []) (splitOn (CHR '','') str)) = Some cs" unfolding str_def by (rule colors_split[OF assms])
  ultimately show ?thesis by (simp add: StrToRGBColorArray_def)
qed (simp add: RGBColorArrayToStr_def StrToRGBColorArray_def)

theorem colors_roundtrip_witness:
  "StrToRGBColorArray (RGBColorArrayToStr [\<lparr>Color_R = Some 255, Color_G = Some 0, Color_B = Some 17, Color_Alpha = Some 100\<rparr>])
     = [\<lparr>Color_R = Some 255, Color_G = Some 0, Color_B = Some 17, Color_Alpha = Some 100\<rparr>]"
  by (rule colors_roundtrip) (simp add: rgb_ok_def)

text \<open>One colour out of range loses all of them.\<close>

lemma one_bad_color_loses_all: "convertRGBColorToInt64 c < 0 \<Longrightarrow> list_all rgb_ok cs \<Longrightarrow> RGBColorArrayToStr (cs @ c # cs') = []"
proof -
  have "list_all rgb_ok cs \<Longrightarrow> convertRGBColorToInt64 c < 0 \<Longrightarrow> RGBColorArrayToStrFrom acc (cs @ c # cs') = []" for acc
    by (induction cs arbitrary: acc) (auto simp: Let_def)
  then show "convertRGBColorToInt64 c < 0 \<Longrightarrow> list_all rgb_ok cs \<Longrightarrow> ?thesis" by (simp add: RGBColorArrayToStr_def)
qed

section \<open>Numbers and dates\<close>

definition AbsInt64 :: "int \<Rightarrow> int" where
  "AbsInt64 x = (if x < 0 then wrap64 (- x) else if x = 0 then 0 else x)"

text \<open>The least number has no absolute value of 64 bits.\<close>

lemma AbsInt64_abs: "int64 x \<Longrightarrow> AbsInt64 x = (if x = - (2 ^ 63) then x else \<bar>x\<bar>)"
  by (auto simp: AbsInt64_def int64_def wrap64_def)

definition twoDigits :: "int \<Rightarrow> string" where
  "twoDigits n = (if n < 10 then ''0'' @ itoa n else itoa n)"

definition fourDigits :: "int \<Rightarrow> string" where
  "fourDigits n = (if n < 10 then ''000'' @ itoa n else if n < 100 then ''00'' @ itoa n else if n < 1000 then ''0'' @ itoa n else itoa n)"

text \<open>The layout is 02/01/2006 15:04:05 PM; \<open>off\<close> is the offset of the local zone in seconds. The years are those from 0 on.\<close>

definition TimestampToDate :: "int \<Rightarrow> int \<Rightarrow> string" where
  "TimestampToDate off ts =
     (let dt = ts + 62135596800 + off in
      twoDigits (Day dt) @ ''/'' @ twoDigits (Month dt) @ ''/'' @ fourDigits (Year dt) @ '' ''
        @ twoDigits (Hour dt) @ '':'' @ twoDigits (Minute dt) @ '':'' @ twoDigits (Second dt) @ '' ''
        @ (if Hour dt \<ge> 12 then ''PM'' else ''AM''))"

section \<open>Batching packets for a socket\<close>

definition PacketMaxSize_16K :: nat where "PacketMaxSize_16K = 16384"

text \<open>
  The loop over what is in the channel: as long as 16K are free in the buffer of \<open>n\<close> bytes, take a
  packet, if there is one. What is in the buffer, whether the channel is open, what is left in it.
\<close>

fun waitLoop :: "nat \<Rightarrow> bool \<Rightarrow> string \<Rightarrow> string list \<Rightarrow> string \<times> bool \<times> string list" where
  "waitLoop n closed out [] = (out, n - length out < PacketMaxSize_16K \<or> \<not> closed, [])"
| "waitLoop n closed out (msg # q) =
     (if n - length out \<ge> PacketMaxSize_16K then waitLoop n closed (out @ take (n - length out) msg) q
      else (out, True, msg # q))"

datatype waitResult = Blocks | Panic | Batch string bool "string list"

text \<open>
  The first packet is waited for. One that is longer than the buffer is cut, but counted in full: the
  slice behind it is then out of range.
\<close>

definition Wait :: "nat \<Rightarrow> bool \<Rightarrow> string list \<Rightarrow> waitResult" where
  "Wait n closed q = (case q of
     [] \<Rightarrow> if closed then Batch [] False [] else Blocks
   | msg # q' \<Rightarrow>
       if length msg > n then Panic
       else (case waitLoop n closed msg q' of (out, ok, rest) \<Rightarrow> Batch out ok rest))"

lemma waitLoop_whole:
  "\<forall>m \<in> set q. length m \<le> PacketMaxSize_16K \<Longrightarrow> length out \<le> n \<Longrightarrow>
     \<exists>k \<le> length q. waitLoop n closed out q = (out @ concat (take k q), snd (snd (waitLoop n closed out q)) \<noteq> []
         \<or> n - length (out @ concat (take k q)) < PacketMaxSize_16K \<or> \<not> closed, drop k q)
       \<and> length (out @ concat (take k q)) \<le> n"
proof (induction q arbitrary: out)
  case (Cons m q)
  show ?case
  proof (cases "n - length out \<ge> PacketMaxSize_16K")
    case True
    then have "take (n - length out) m = m" "length (out @ m) \<le> n" using Cons.prems by (auto simp: PacketMaxSize_16K_def)
    moreover have "\<forall>m \<in> set q. length m \<le> PacketMaxSize_16K" using Cons.prems(1) by simp
    note Cons.IH[OF this \<open>length (out @ m) \<le> n\<close>]
    ultimately obtain k where "k \<le> length q" "waitLoop n closed (out @ m) q = ((out @ m) @ concat (take k q),
        snd (snd (waitLoop n closed (out @ m) q)) \<noteq> [] \<or> n - length ((out @ m) @ concat (take k q)) < PacketMaxSize_16K \<or> \<not> closed, drop k q)"
        "length ((out @ m) @ concat (take k q)) \<le> n" by blast
    then show ?thesis using True \<open>take (n - length out) m = m\<close> by (intro exI[of _ "Suc k"]) simp
  next
    case False
    then show ?thesis using Cons.prems by (intro exI[of _ 0]) simp
  qed
qed simp

text \<open>
  A batch for the socket holds whole packets, the first ones of the channel in their order, and fits
  the buffer; the rest stays in the channel. The channel is reported closed only when nothing is left in it.
\<close>

theorem batch_holds_whole_packets:
  assumes "\<forall>m \<in> set q. length m \<le> PacketMaxSize_16K" and "PacketMaxSize_16K \<le> n" and "q \<noteq> []"
  shows "\<exists>k ok. 0 < k \<and> Wait n closed q = Batch (concat (take k q)) ok (drop k q) \<and> length (concat (take k q)) \<le> n
    \<and> (ok \<or> closed \<and> drop k q = [])"
proof -
  obtain msg q' where q: "q = msg # q'" using assms(3) by (cases q) auto
  then have "length msg \<le> n" using assms(1,2) by simp
  moreover have "\<forall>m \<in> set q'. length m \<le> PacketMaxSize_16K" using assms(1) q by simp
  ultimately obtain k where k: "waitLoop n closed msg q' = (msg @ concat (take k q'), snd (snd (waitLoop n closed msg q')) \<noteq> []
         \<or> n - length (msg @ concat (take k q')) < PacketMaxSize_16K \<or> \<not> closed, drop k q')"
      "length (msg @ concat (take k q')) \<le> n"
    using waitLoop_whole[of q' msg n closed] by blast
  define ok where "ok = (snd (snd (waitLoop n closed msg q')) \<noteq> [] \<or> n - length (msg @ concat (take k q')) < PacketMaxSize_16K \<or> \<not> closed)"
  have w: "waitLoop n closed msg q' = (msg @ concat (take k q'), ok, drop k q')" unfolding ok_def by (rule k(1))
  then have "ok \<or> closed \<and> drop k q' = []" by (auto simp: ok_def)
  with w k(2) show ?thesis using q \<open>length msg \<le> n\<close> by (intro exI[of _ "Suc k"] exI[of _ ok]) (simp add: Wait_def)
qed

theorem batch_holds_whole_packets_witness:
  "\<exists>k ok. 0 < k \<and> Wait 20000 True [''abc'', ''de''] = Batch (concat (take k [''abc'', ''de''])) ok (drop k [''abc'', ''de''])"
  using batch_holds_whole_packets[of "[''abc'', ''de'']" 20000 True] by (auto simp: PacketMaxSize_16K_def)

section \<open>Reading into a buffer\<close>

text \<open>
  \<open>buflen\<close> is the length of the buffer, whose first part gets the packet; None: a slice is out of range.
  A packet that is too long is no error: nothing is returned, and its body stays in the stream.
\<close>

definition ReadPacketBuf :: "nat \<Rightarrow> string \<Rightarrow> (readErr + (string \<times> string)) option" where
  "ReadPacketBuf buflen inp =
     (if buflen < PacketHeaderSize then None
      else case ReadFull PacketHeaderSize inp of
        Inl e \<Rightarrow> Some (Inl e)
      | Inr (head, inp1) \<Rightarrow>
          (let dataBodyLen = Uint32 (drop 4 head) in
           if dataBodyLen \<le> 1024 * 1024 - int PacketHeaderSize then
             (if buflen < PacketHeaderSize + nat dataBodyLen then None
              else case ReadFull (nat dataBodyLen) inp1 of
                Inl e \<Rightarrow> Some (Inl e)
              | Inr (body, inp2) \<Rightarrow> Some (Inr (head @ body, inp2)))
           else Some (Inr ([], inp1))))"

lemma ReadPacketBuf_same:
  "ReadPacketBuf (1024 * 1024) inp
     = Some (case ReadPacket2 inp of Inl (ReachMaxLen i l) \<Rightarrow> Inr ([], drop PacketHeaderSize inp) | r \<Rightarrow> r)"
proof (cases "8 \<le> length inp")
  case True
  then have h: "ReadFull 8 inp = Inr (take 8 inp, drop 8 inp)" by (simp add: ReadFull_def)
  define len where "len = Uint32 (drop 4 (take 8 inp))"
  note defs = ReadPacketBuf_def ReadPacket2_def PacketHeaderSize_def h Let_def len_def[symmetric]
  show ?thesis
  proof (cases "len \<le> 1048568")
    case True
    then have n: "\<not> 1048568 < nat len" by linarith
    show ?thesis
    proof (cases "ReadFull (nat len) (drop 8 inp)")
      case (Inl e)
      then have "e = EOF \<or> e = UnexpectedEOF" by (auto simp: ReadFull_def split: if_splits)
      then show ?thesis using Inl True n by (auto simp: defs)
    next
      case (Inr p)
      then show ?thesis using True n by (cases p) (simp add: defs)
    qed
  qed (simp add: defs)
qed (simp add: ReadPacketBuf_def ReadPacket2_def ReadFull_def PacketHeaderSize_def)

end
