(* ===== verification/Robot.thy ===== *)
theory Robot
  imports LoginServer
begin

text \<open>
  im-library/im_net/net.go, the listener of the servers, and robot/client, the test client: its
  two goroutines, one that reads packets and one that handles them.
\<close>

section \<open>Listening\<close>

text \<open>
  What Accept returns, with the flag that Close sets: a connection, a temporary error, or another. The
  callbacks and sleeps, in milliseconds, and how the loop ends: closed, with an error, or not yet.
\<close>

datatype accepted = Conn nat | Temporary | Fails
datatype listenAct = Callback nat | SleepMs nat
datatype listenEnd = ListenerClosed | ListenError | Listening

definition nextDelay :: "nat \<Rightarrow> nat" where
  "nextDelay tempDelay = (let d = (if tempDelay = 0 then 5 else tempDelay * 2) in if d > 1000 then 1000 else d)"

fun Start :: "nat \<Rightarrow> (accepted \<times> bool) list \<Rightarrow> listenAct list \<times> listenEnd" where
  "Start tempDelay [] = ([], Listening)"
| "Start tempDelay ((conn, down) # rest) =
     (if down then ([], ListenerClosed)
      else case conn of
        Fails \<Rightarrow> ([], ListenError)
      | Temporary \<Rightarrow> apfst ((#) (SleepMs (nextDelay tempDelay))) (Start (nextDelay tempDelay) rest)
      | Conn c \<Rightarrow> apfst ((#) (Callback c)) (Start 0 rest))"

lemma delays_double:
  "Start (min (5 * 2 ^ k) 1000) (replicate n (Temporary, False) @ rest)
     = apfst ((@) (map (\<lambda>j. SleepMs (min (5 * 2 ^ j) 1000)) [k + 1..<k + 1 + n])) (Start (min (5 * 2 ^ (k + n)) 1000) rest)"
proof (induction n arbitrary: k)
  case (Suc n)
  have "nextDelay (min (5 * 2 ^ k) 1000) = min (5 * 2 ^ (k + 1)) 1000" by (auto simp: nextDelay_def Let_def min_def)
  moreover have "[k + 1..<k + 1 + Suc n] = (k + 1) # [k + 2..<k + 2 + n]" by (simp add: upt_rec)
  ultimately show ?case using Suc[of "k + 1"] by (simp add: prod_eq_iff)
qed (simp add: prod_eq_iff)

text \<open>
  While Accept fails temporarily, the listener waits twice as long each time, from 5 milliseconds up
  to a second, and goes on; a connection that is accepted resets it.
\<close>

theorem listener_backs_off:
  "Start 0 (replicate (Suc n) (Temporary, False) @ (Conn c, False) # rest)
     = apfst ((@) (map (\<lambda>j. SleepMs (min (5 * 2 ^ j) 1000)) [0..<Suc n] @ [Callback c])) (Start 0 rest)"
proof -
  have "nextDelay 0 = min (5 * 2 ^ 0) 1000" by (simp add: nextDelay_def)
  moreover have "[0..<Suc n] = 0 # [1..<1 + n]" by (simp add: upt_rec)
  ultimately show ?thesis using delays_double[of 0 n "(Conn c, False) # rest"] by (simp add: prod_eq_iff)
qed

section \<open>The robot\<close>

text \<open>
  The reading goroutine: it reads, offers bytes on the channel, which has no buffer, or has ended; the
  handling one: it waits, handles a message, or has ended. \<open>handled\<close> are the messages given to handlers.
  \<open>isClosed\<close> is never set.
\<close>

datatype recvPhase = Reading | Offering string | RecvEnded
datatype handlePhase = Idle | Handling string | HandleEnded

record robot =
  accountIdR :: int
  isClosedR :: bool
  sockClosed :: bool
  recvPhase :: recvPhase
  handlePhase :: handlePhase
  readR :: "string list"
  handledR :: "string list"

definition NewClient :: "int \<Rightarrow> robot" where
  "NewClient accountId = \<lparr>accountIdR = accountId, isClosedR = False, sockClosed = False, recvPhase = Reading,
     handlePhase = Idle, readR = [], handledR = []\<rparr>"

text \<open>The ids that have a handler; the servers do not send this one any more.\<close>

definition NetMsgId_S2CRecvReqJoinChatGroup :: int where "NetMsgId_S2CRecvReqJoinChatGroup = 65711"

definition handleMsgMap :: "int list" where
  "handleMsgMap = [NetMsgId_L2c_gate_addr, NetMsgId_S2CErrorCode, NetMsgId_S2CLogin, NetMsgId_S2CHeartbeat, NetMsgId_S2CAddFriend,
     NetMsgId_S2CRecvAddFriend, NetMsgId_S2CAgreeBecomeFriend, NetMsgId_S2CRecvAgreeBecomeFriend, NetMsgId_S2CRecvPrivateChat,
     NetMsgId_S2CGetOfflinePrivateChatMsg, NetMsgId_S2CCreateChatGroup, NetMsgId_S2CRecvCreateChatGroup,
     NetMsgId_S2CRecvReqJoinChatGroup, NetMsgId_S2CSomeOneReqJoinChatGroup, NetMsgId_S2CManagerAgreeSomeOneReqJoinChatGroup,
     NetMsgId_S2CManagerAgreeJoinChatGroup, NetMsgId_S2CManagerRefuseJoinChatGroup, NetMsgId_S2CChatGroupInfo,
     NetMsgId_S2CInviteYouJoinChatGroup, NetMsgId_S2CSomeOneCancelChatGroup, NetMsgId_S2CUnChatGroup,
     NetMsgId_S2CManagerKickSomeOne, NetMsgId_S2CKickedByChatGroupManager, NetMsgId_S2CGroupChat]"

text \<open>One round of the reading goroutine after ReadOne: a packet, the end of the stream, or another error.\<close>

datatype readOne = Packet string | AtEOF | ReadFails

definition recvRound :: "readOne \<Rightarrow> robot \<Rightarrow> robot" where
  "recvRound r c = (case r of
     Packet b \<Rightarrow> c\<lparr>recvPhase := Offering b, readR := readR c @ [b]\<rparr>
   | ReadFails \<Rightarrow> c
   | AtEOF \<Rightarrow> if \<not> isClosedR c then c\<lparr>sockClosed := True, recvPhase := RecvEnded\<rparr> else c\<lparr>recvPhase := Offering []\<rparr>)"

text \<open>One round of the handling goroutine: a message that is too short is skipped; one without a handler ends the loop.\<close>

definition handleRound :: "string \<Rightarrow> robot \<Rightarrow> robot" where
  "handleRound msg c =
     (if PacketHeaderSize > length msg then c\<lparr>handlePhase := Idle\<rparr>
      else if Uint32 msg \<notin> set handleMsgMap then c\<lparr>handlePhase := HandleEnded\<rparr>
      else c\<lparr>handlePhase := Idle, handledR := handledR c @ [msg]\<rparr>)"

inductive robotStep :: "robot \<Rightarrow> robot \<Rightarrow> bool" where
  reads: "recvPhase c = Reading \<Longrightarrow> robotStep c (recvRound r c)"
| passes: "recvPhase c = Offering b \<Longrightarrow> handlePhase c = Idle \<Longrightarrow> robotStep c (c\<lparr>recvPhase := Reading, handlePhase := Handling b\<rparr>)"
| handles: "handlePhase c = Handling msg \<Longrightarrow> robotStep c (handleRound msg c)"

text \<open>What a handler sends or starts: a heart beat every 20 seconds, or the answer to a friend request.\<close>

datatype robotAct = StartHeartBeat | AgreeWith int | GateDone | Prints

text \<open>\<open>unmarshal\<close> reads the message of a handler: the sender of a request, None for an error.\<close>

definition robotHandler :: "(string \<Rightarrow> int option) \<Rightarrow> int \<Rightarrow> string \<Rightarrow> robotAct option" where
  "robotHandler unmarshal msgId bf =
     (case unmarshal bf of
        None \<Rightarrow> None
      | Some senderId \<Rightarrow> Some (
          if msgId = NetMsgId_S2CLogin then StartHeartBeat
          else if msgId = NetMsgId_S2CRecvAddFriend then AgreeWith senderId
          else if msgId = NetMsgId_L2c_gate_addr then GateDone
          else Prints))"

text \<open>A message that nobody handles stops the robot: no other is handled any more, and at most one more is read.\<close>

definition halted :: "string list \<Rightarrow> string list \<Rightarrow> robot \<Rightarrow> bool" where
  "halted hs rs c \<longleftrightarrow> handlePhase c = HandleEnded \<and> handledR c = hs
     \<and> (readR c = rs \<or> (\<exists>b. readR c = rs @ [b] \<and> recvPhase c = Offering b) \<or> readR c = rs \<and> recvPhase c = RecvEnded)"

lemma halted_step:
  assumes "robotStep c c'" and "halted hs rs c" and "recvPhase c \<noteq> Reading \<longrightarrow> True"
  shows "halted hs rs c'"
  using assms by cases (auto simp: halted_def recvRound_def handleRound_def split: readOne.splits if_splits)

lemma halted_steps: "robotStep\<^sup>*\<^sup>* c c' \<Longrightarrow> halted hs rs c \<Longrightarrow> halted hs rs c'"
  by (induction rule: rtranclp_induct) (auto intro: halted_step)

text \<open>
  A message whose id the robot has no handler for ends its handling goroutine: whatever happens after, no
  message is handled any more, and at most one more is read from the connection.
\<close>

theorem unknown_message_halts:
  assumes "handlePhase c = Handling msg" and "PacketHeaderSize \<le> length msg" and "Uint32 msg \<notin> set handleMsgMap"
    and "robotStep\<^sup>*\<^sup>* (handleRound msg c) c'"
  shows "handledR c' = handledR c \<and> length (readR c') \<le> length (readR c) + 1"
proof -
  have "halted (handledR c) (readR c) (handleRound msg c)"
    using assms(1-3) by (simp add: halted_def handleRound_def)
  from halted_steps[OF assms(4) this] show ?thesis by (auto simp: halted_def)
qed

text \<open>The robot has no handler for what the server sends when a friend is deleted, for one.\<close>

lemma robot_knows_no_deletion: "NetMsgId_S2CRecvDeleteFriend \<notin> set handleMsgMap"
  by (simp add: handleMsgMap_def wire_ids NetMsgId_L2c_gate_addr_def NetMsgId_S2CRecvReqJoinChatGroup_def)

text \<open>What the robot sends; \<open>mk\<close> is what proto.Marshal makes of the message.\<close>

definition C2LGateAddr :: "(int \<Rightarrow> string option) \<Rightarrow> robot \<Rightarrow> string list" where
  "C2LGateAddr mk c = SendPbMsg_socket NetMsgId_C2l_gate_addr (mk (accountIdR c))"

definition C2SLogin :: "(int \<Rightarrow> string option) \<Rightarrow> robot \<Rightarrow> string list" where
  "C2SLogin mk c = SendPbMsg_socket NetMsgId_C2SLogin (mk (accountIdR c))"

definition C2SAddFriend :: "(int \<Rightarrow> int \<Rightarrow> string option) \<Rightarrow> int \<Rightarrow> robot \<Rightarrow> string list" where
  "C2SAddFriend mk addFriendId c = SendPbMsg_socket NetMsgId_C2SAddFriend (mk (accountIdR c) addFriendId)"

definition C2SAgreeAddFriend :: "(int \<Rightarrow> int \<Rightarrow> string option) \<Rightarrow> int \<Rightarrow> robot \<Rightarrow> string list" where
  "C2SAgreeAddFriend mk friendReqSenderId c = SendPbMsg_socket NetMsgId_C2SAgreeBecomeFriend (mk friendReqSenderId (accountIdR c))"

text \<open>The time stamp is the clock's seconds divided by a thousand.\<close>

definition C2SPrivateChat :: "(int \<Rightarrow> int \<Rightarrow> string \<Rightarrow> string \<Rightarrow> int \<Rightarrow> string option) \<Rightarrow> int \<Rightarrow> int \<Rightarrow> string \<Rightarrow> string \<Rightarrow> robot \<Rightarrow> string list" where
  "C2SPrivateChat mk now receiverId sendText msgType c =
     SendPbMsg_socket NetMsgId_C2SPrivateChat (mk (accountIdR c) receiverId sendText msgType (now div 1000000000 div 1000))"

end
