(* ===== verification/Shell.thy ===== *)
theory Shell
  imports Login
begin

text \<open>
  The maintenance programs that fill Redis from MySQL: shell/syncMysqlContactList2Redis and
  shell/syncHuanxinAccount. The rows of the first query, and whether each can be scanned, are
  parameters: None is an error. Start-up and the creation of the tables are left out.
\<close>

section \<open>Contact lists\<close>

text \<open>A contact list that is NULL is None. A set member that cannot be added is only logged.\<close>

definition addContacts :: "svc \<Rightarrow> int \<Rightarrow> contact list \<Rightarrow> (server, unit) state" where
  "addContacts srv accountId contacts =
     forM contacts (\<lambda>contact. do {
       _ \<leftarrow> rdsInt srv (RAddSet RdsKeyPrefixFriendSet (itoa accountId) (RInt (ct_AccountId contact)));
       skip })"

fun syncContactRows :: "svc \<Rightarrow> (int \<times> string option) option list \<Rightarrow> handler" where
  "syncContactRows srv [] = ret Returned"
| "syncContactRows srv (None # rows) = ret Panicked"
| "syncContactRows srv (Some (accountId, contactListsByte) # rows) =
     (case contactListsByte of
        None \<Rightarrow> syncContactRows srv rows
      | Some buf \<Rightarrow>
          (case un_ContactList srv buf of
             (ok, contacts) \<Rightarrow>
               if \<not> ok then syncContactRows srv rows
               else do { addContacts srv accountId contacts; syncContactRows srv rows }))"

definition syncContactList :: "svc \<Rightarrow> (int \<times> string option) option list option \<Rightarrow> handler" where
  "syncContactList srv result = do {
     rows \<leftarrow> ask (SqlQuery ''SELECT account_id, contact_list FROM account'' []) (\<lambda>_. result);
     (case rows of None \<Rightarrow> ret Panicked | Some rs \<Rightarrow> syncContactRows srv rs) }"

text \<open>The friendships that MySQL has: the contacts of every row that has a list that can be read.\<close>

definition friendships :: "svc \<Rightarrow> (int \<times> string option) option list \<Rightarrow> (int \<times> int) list" where
  "friendships srv rows = concat (map (\<lambda>row. case row of
      Some (a, Some buf) \<Rightarrow> (if fst (un_ContactList srv buf) then map (\<lambda>c. (a, ct_AccountId c)) (snd (un_ContactList srv buf)) else [])
    | _ \<Rightarrow> []) rows)"

definition addFriend :: "int \<times> int \<Rightarrow> call" where
  "addFriend = (\<lambda>(a, b). Rds (RAddSet RdsKeyPrefixFriendSet (itoa a) (RInt b)))"

lemma addContacts_run:
  "snd (run_state (addContacts srv a cs) s) = s\<lparr>hist := hist s @ map (\<lambda>c. addFriend (a, ct_AccountId c)) cs\<rparr>"
proof (induction cs arbitrary: s)
  case (Cons c cs)
  then show ?case by (simp add: addContacts_def rdsInt_def addFriend_def split: prod.splits)
qed (simp add: addContacts_def)

lemma syncContactRows_run:
  "None \<notin> set rows \<Longrightarrow> run_state (syncContactRows srv rows) s = (Returned, s\<lparr>hist := hist s @ map addFriend (friendships srv rows)\<rparr>)"
proof (induction srv rows arbitrary: s rule: syncContactRows.induct)
  case (3 srv accountId buf rows)
  have "run_state (addContacts srv accountId cs) s
      = ((), s\<lparr>hist := hist s @ map (\<lambda>c. addFriend (accountId, ct_AccountId c)) cs\<rparr>)" for cs s
    using addContacts_run[of srv accountId cs s] by (simp add: prod_eq_iff)
  then show ?case using 3 by (auto simp: friendships_def comp_def split: option.splits prod.splits)
qed (simp_all add: friendships_def)

text \<open>
  When every row can be scanned, syncing the contact lists adds exactly the friendships that MySQL has to
  the friend sets in Redis, whatever Redis answers, and does nothing else.
\<close>

theorem contacts_synced:
  assumes "None \<notin> set rows"
  shows "run_state (syncContactList srv (Some rows)) s
    = (Returned, s\<lparr>hist := hist s @ SqlQuery ''SELECT account_id, contact_list FROM account'' [] # map addFriend (friendships srv rows)\<rparr>)"
  using syncContactRows_run[OF assms] by (simp add: syncContactList_def)

section \<open>Huanxin accounts\<close>

text \<open>
  False: the program ends early. The token that is asked for when Redis has none is stored, but the
  variable keeps what Redis returned.
\<close>

fun syncHuanxinRows :: "svc \<Rightarrow> string \<Rightarrow> (int \<times> string) option list \<Rightarrow> (server, bool) state" where
  "syncHuanxinRows srv token [] = ret True"
| "syncHuanxinRows srv token (None # rows) = ret False"
| "syncHuanxinRows srv token (Some (accountId, nickName) # rows) = do {
     now \<leftarrow> timeNow srv;
     let userName = itoa accountId; newPassword = itoa accountId @ itoa (now div 1000000000) in do {
     created \<leftarrow> CreateHuanXinAccount srv token userName newPassword nickName;
     (if \<not> created then ret False
      else do {
        e \<leftarrow> rdsStatus srv (RSet RdsKeyPrefixHuanXinString userName (RStr newPassword));
        (case e of Some _ \<Rightarrow> ret False | None \<Rightarrow> syncHuanxinRows srv token rows) }) } }"

text \<open>None: the panic on the nil token.\<close>

definition syncToken :: "svc \<Rightarrow> (server, (string option) option) state" where
  "syncToken srv = do {
     _ \<leftarrow> rdsInt srv (RDel RdsKeyPrefixHuanXinString []);
     r \<leftarrow> rdsStr srv (RGet RdsKeyPrefixHuanXinString ''token'');
     (case r of
        (token, None) \<Rightarrow> ret (Some (Some token))
      | (token, Some err) \<Rightarrow>
          if err \<noteq> ErrNil then ret (Some None)
          else do {
            response \<leftarrow> ask HuanXinToken (huanXinToken srv);
            _ \<leftarrow> rdsInt srv (RDel RdsKeyPrefixHuanXinString ''token'');
            (case response of
               None \<Rightarrow> ret None
             | Some (accessToken, expiresIn) \<Rightarrow> do {
                 e \<leftarrow> rdsStatus srv (RSetex RdsKeyPrefixHuanXinString ''token'' (wrap64 (expiresIn * 1000000000)) (RStr accessToken));
                 ret (Some (case e of Some _ \<Rightarrow> None | None \<Rightarrow> Some token)) }) }) }"

definition syncHuanxinAccount :: "svc \<Rightarrow> (int \<times> string) option list option \<Rightarrow> (server, bool option) state" where
  "syncHuanxinAccount srv result = do {
     rows \<leftarrow> ask (SqlQuery ''SELECT account_id, nick_name FROM account'' []) (\<lambda>_. result);
     (case rows of
        None \<Rightarrow> ret (Some False)
      | Some rs \<Rightarrow> do {
          t \<leftarrow> syncToken srv;
          (case t of
             None \<Rightarrow> ret None
           | Some None \<Rightarrow> ret (Some False)
           | Some (Some token) \<Rightarrow> do { ok \<leftarrow> syncHuanxinRows srv token rs; ret (Some ok) }) }) }"

text \<open>The tokens with which accounts were created.\<close>

fun tokenOf :: "call \<Rightarrow> string set" where
  "tokenOf (HuanXinCreate t u p n) = {t}"
| "tokenOf c = {}"

definition tokensUsed :: "call list \<Rightarrow> string set" where
  "tokensUsed h = (\<Union>c \<in> set h. tokenOf c)"

lemma tokensUsed_simps [simp]: "tokensUsed [] = {}" "tokensUsed (h @ h') = tokensUsed h \<union> tokensUsed h'"
  "tokensUsed (c # h) = tokenOf c \<union> tokensUsed h"
  by (auto simp: tokensUsed_def)

lemma syncHuanxinRows_tokens:
  "tokensUsed (hist (snd (run_state (syncHuanxinRows srv token rows) s))) \<subseteq> tokensUsed (hist s) \<union> {token}"
proof (induction rows arbitrary: s)
  case (Cons row rows)
  show ?case
  proof (cases row)
    case (Some r)
    then show ?thesis
      by (cases r) (auto simp: timeNow_def CreateHuanXinAccount_def rdsStatus_def Let_def split: prod.splits option.splits
        dest!: subsetD[OF Cons.IH])
  qed auto
qed auto

text \<open>
  When the token in Redis has expired, the program has a new one made and stored, but creates every account with what
  Redis returned for the expired one, the empty string.
\<close>

theorem expired_token_not_renewed:
  assumes "\<forall>h. rStr srv h (RGet RdsKeyPrefixHuanXinString ''token'') = ([], Some ErrNil)" and "hist s = []"
  shows "tokensUsed (hist (snd (run_state (syncHuanxinAccount srv result) s))) \<subseteq> {[]}"
proof -
  have "tokensUsed (hist (snd (run_state (syncToken srv) s'))) = tokensUsed (hist s')
      \<and> (\<forall>t. fst (run_state (syncToken srv) s') = Some (Some t) \<longrightarrow> t = [])" for s'
    using assms(1) by (auto simp: syncToken_def rdsInt_def rdsStr_def rdsStatus_def split: option.splits prod.splits)
  note t = this
  let ?s = "s\<lparr>hist := hist s @ [SqlQuery ''SELECT account_id, nick_name FROM account'' []]\<rparr>"
  show ?thesis
  proof (cases result)
    case None
    then show ?thesis using assms(2) by (simp add: syncHuanxinAccount_def)
  next
    case (Some rs)
    obtain tok s2 where r: "run_state (syncToken srv) ?s = (tok, s2)" by fastforce
    have s2: "tokensUsed (hist s2) = {}" "\<And>t. tok = Some (Some t) \<Longrightarrow> t = []" using t[of ?s] r assms(2) by simp_all
    have "snd (run_state (syncHuanxinAccount srv result) s)
        = (case tok of Some (Some t') \<Rightarrow> snd (run_state (syncHuanxinRows srv t' rs) s2) | _ \<Rightarrow> s2)"
      using r by (simp add: syncHuanxinAccount_def Some split: option.splits prod.splits)
    then show ?thesis using s2 syncHuanxinRows_tokens[of srv "[]" rs s2] by (auto split: option.splits)
  qed
qed

end
