(* ===== verification/LogFileName.thy ===== *)
theory LogFileName
  imports LogHandlers Functions
begin

text \<open>
  rotatingfileatdayhandler.go: the names of the day handler's files. Times are seconds on the local
  clock, as in Calendar.
\<close>

definition shortHostname :: "string \<Rightarrow> string" where
  "shortHostname hostname = takeWhile (\<lambda>c. c \<noteq> CHR ''.'') hostname"

definition logFileName :: "string \<Rightarrow> int \<Rightarrow> string \<Rightarrow> int \<Rightarrow> string" where
  "logFileName host pid basename now =
     basename @ ''.'' @ fourDigits (Year now) @ twoDigits (Month now) @ twoDigits (Day now) @ ''-''
       @ twoDigits (Hour now) @ twoDigits (Minute now) @ twoDigits (Second now) @ ''.'' @ host @ ''.'' @ itoa pid @ ''.log''"

lemma digits_val_zero: "digits_val (CHR ''0'' # ds) = digits_val ds"
  by (simp add: digits_val_def)

lemma digits_val_itoa: "0 \<le> n \<Longrightarrow> digits_val (itoa n) = nat n"
  by (simp add: itoa_def digits_val_nat_digits)

lemma twoDigits_val: "0 \<le> n \<Longrightarrow> digits_val (twoDigits n) = nat n"
  by (simp add: twoDigits_def digits_val_zero digits_val_itoa)

lemma fourDigits_val: "0 \<le> n \<Longrightarrow> digits_val (fourDigits n) = nat n"
  by (simp add: fourDigits_def digits_val_zero digits_val_itoa)

lemma length_itoa_small: "0 \<le> n \<Longrightarrow> n < 100 \<Longrightarrow> length (itoa n) = (if n < 10 then 1 else 2)"
proof -
  assume n: "0 \<le> n" "n < 100"
  then have "nat n div 10 < 10" "nat n < 10 \<longleftrightarrow> n < 10" by linarith+
  then show ?thesis using n by (simp add: itoa_def nat_digits.simps[of "nat n"] nat_digits.simps[of "nat n div 10"])
qed

lemma length_twoDigits: "0 \<le> n \<Longrightarrow> n < 100 \<Longrightarrow> length (twoDigits n) = 2"
  by (simp add: twoDigits_def length_itoa_small)

lemma twoDigits_inj: "0 \<le> m \<Longrightarrow> 0 \<le> n \<Longrightarrow> twoDigits m = twoDigits n \<Longrightarrow> m = n"
  using twoDigits_val[of m] twoDigits_val[of n] by simp

lemma fourDigits_inj: "0 \<le> m \<Longrightarrow> 0 \<le> n \<Longrightarrow> fourDigits m = fourDigits n \<Longrightarrow> m = n"
  using fourDigits_val[of m] fourDigits_val[of n] by simp

text \<open>A time is its date and time of day.\<close>

lemma time_of_parts:
  "t = (yearStart (Year t) + monthDays (leap (Year t)) (Month t) + Day t - 1) * 86400 + Hour t * 3600 + Minute t * 60 + Second t"
proof -
  have "t = dayNumber t * 86400 + t mod 86400" by (simp add: dayNumber_def)
  moreover have "t mod 86400 = Hour t * 3600 + t mod 86400 mod 3600" by (simp add: Hour_def)
  moreover have "t mod 86400 mod 3600 = t mod 3600" by (rule mod_mod_cancel) simp
  moreover have "t mod 3600 = Minute t * 60 + t mod 3600 mod 60" by (simp add: Minute_def)
  moreover have "t mod 3600 mod 60 = Second t" unfolding Second_def by (rule mod_mod_cancel) simp
  moreover have "dayNumber t = yearStart (Year t) + monthDays (leap (Year t)) (Month t) + Day t - 1" by (simp add: Day_def YearDay_def)
  ultimately show ?thesis by simp
qed

lemma parts_small: "0 \<le> Hour t" "Hour t < 100" "0 \<le> Minute t" "Minute t < 100" "0 \<le> Second t" "Second t < 100"
  unfolding Hour_def Minute_def Second_def by linarith+

lemma date_small: "0 \<le> Month t" "Month t < 100" "0 \<le> Day t" "Day t < 100"
proof -
  have y: "0 \<le> YearDay t" "YearDay t < 365 + (if leap (Year t) then 1 else 0)"
    using yearOf_bounds[of "dayNumber t"] yearStart_succ[of "Year t"] by (auto simp: YearDay_def Year_def split: if_splits)
  note m = monthOf_bounds[OF y, folded Month_def]
  then show "0 \<le> Month t" "Month t < 100" by auto
  have "monthDays l (k + 1) \<le> monthDays l k + 31" if "k \<in> {1..12}" for l k
    using that unfolding months_12 by (auto simp: monthDays_def)
  from this[of "Month t" "leap (Year t)"] show "0 \<le> Day t" "Day t < 100" using m by (auto simp: Day_def)
qed

text \<open>Files that are opened in different seconds have different names.\<close>

theorem log_file_names_differ:
  assumes "0 \<le> Year t" and "0 \<le> Year t'" and "logFileName host pid base t = logFileName host pid base t'"
  shows "t = t'"
proof -
  have eq: "fourDigits (Year t) @ twoDigits (Month t) @ twoDigits (Day t) @ ''-'' @ twoDigits (Hour t) @ twoDigits (Minute t) @ twoDigits (Second t)
      = fourDigits (Year t') @ twoDigits (Month t') @ twoDigits (Day t') @ ''-'' @ twoDigits (Hour t') @ twoDigits (Minute t') @ twoDigits (Second t')"
    using assms(3) by (simp add: logFileName_def)
  note len = length_twoDigits[OF date_small(1,2)] length_twoDigits[OF date_small(3,4)]
    length_twoDigits[OF parts_small(1,2)] length_twoDigits[OF parts_small(3,4)] length_twoDigits[OF parts_small(5,6)]
  have l: "length (fourDigits (Year t)) = length (fourDigits (Year t'))"
    using arg_cong[OF eq, of length] by (simp add: len)
  have split: "a = a' \<and> b = b'" if "length a = length a'" "a @ b = a' @ b'" for a a' b b' :: string
    using that by simp
  note y = split[OF l eq]
  note m = split[OF trans[OF len(1) len(1)[symmetric]] conjunct2[OF y]]
  note d = split[OF trans[OF len(2) len(2)[symmetric]] conjunct2[OF m]]
  have rest: "twoDigits (Hour t) @ twoDigits (Minute t) @ twoDigits (Second t) = twoDigits (Hour t') @ twoDigits (Minute t') @ twoDigits (Second t')"
    using conjunct2[OF d] by simp
  note h = split[OF trans[OF len(3) len(3)[symmetric]] rest]
  note mi = split[OF trans[OF len(4) len(4)[symmetric]] conjunct2[OF h]]
  note parts = conjunct1[OF y] conjunct1[OF m] conjunct1[OF d] conjunct1[OF h] mi
  have "Year t = Year t'" "Month t = Month t'" "Day t = Day t'" "Hour t = Hour t'" "Minute t = Minute t'" "Second t = Second t'"
    using parts fourDigits_inj[OF assms(1,2)] twoDigits_inj[OF date_small(1) date_small(1)] twoDigits_inj[OF date_small(3) date_small(3)]
      twoDigits_inj[OF parts_small(1) parts_small(1)] twoDigits_inj[OF parts_small(3) parts_small(3)]
      twoDigits_inj[OF parts_small(5) parts_small(5)] by blast+
  then show ?thesis using time_of_parts[of t] time_of_parts[of t'] by simp
qed

end
