(* ===== verification/Services.thy ===== *)
theory Services
  imports World
begin

text \<open>
  The services that messages are sent through: verification codes by SMS (im-library/im_sms/sms.go) and
  notices to phones (common-library/pushService/jPushService). The HTTP client, MD5 and the push
  library are parameters.
\<close>

section \<open>Queries\<close>

text \<open>\<open>url.QueryEscape\<close> and \<open>url.Values.Encode\<close> of the standard library.\<close>

definition hexDigit :: "nat \<Rightarrow> char" where
  "hexDigit n = (if n < 10 then char_of (48 + n) else char_of (55 + n))"

definition unreserved :: "char \<Rightarrow> bool" where
  "unreserved c \<longleftrightarrow> (let n = (of_char c :: nat) in
     (48 \<le> n \<and> n \<le> 57) \<or> (65 \<le> n \<and> n \<le> 90) \<or> (97 \<le> n \<and> n \<le> 122) \<or> c \<in> {CHR ''-'', CHR ''_'', CHR ''.'', CHR ''~''})"

definition escapeChar :: "char \<Rightarrow> string" where
  "escapeChar c =
     (if unreserved c then [c] else if c = CHR '' '' then ''+''
      else [CHR ''%'', hexDigit (of_char c div 16), hexDigit (of_char c mod 16)])"

definition QueryEscape :: "string \<Rightarrow> string" where
  "QueryEscape s = concat (map escapeChar s)"

text \<open>The parameters by the order of their names, bytewise.\<close>

fun bytesLess :: "string \<Rightarrow> string \<Rightarrow> bool" where
  "bytesLess _ [] = False"
| "bytesLess [] (_ # _) = True"
| "bytesLess (a # s) (b # t) =
     ((of_char a :: nat) < of_char b \<or> (a = b \<and> bytesLess s t))"

fun insertParam :: "string \<times> string \<Rightarrow> (string \<times> string) list \<Rightarrow> (string \<times> string) list" where
  "insertParam p [] = [p]"
| "insertParam p (q # qs) = (if bytesLess (fst p) (fst q) then p # q # qs else q # insertParam p qs)"

definition sortedParams :: "(string \<times> string) list \<Rightarrow> (string \<times> string) list" where
  "sortedParams vs = foldl (\<lambda>ps p. insertParam p ps) [] vs"

fun joinWith :: "char \<Rightarrow> string list \<Rightarrow> string" where
  "joinWith c [] = []"
| "joinWith c [s] = s"
| "joinWith c (s # t # ss) = s @ c # joinWith c (t # ss)"

definition Encode :: "(string \<times> string) list \<Rightarrow> string" where
  "Encode vs = joinWith CHR ''&''
     (map (\<lambda>(k, v). QueryEscape k @ ''='' @ QueryEscape v) (sortedParams vs))"

text \<open>How the service reads a query back.\<close>

definition hexVal :: "char \<Rightarrow> nat" where
  "hexVal c = (let n = of_char c in if n \<le> 57 then n - 48 else n - 55)"

fun QueryUnescape :: "string \<Rightarrow> string" where
  "QueryUnescape [] = []"
| "QueryUnescape (c # s) =
     (if c = CHR ''%'' then
        (case s of a # b # t \<Rightarrow> char_of (16 * hexVal a + hexVal b) # QueryUnescape t | _ \<Rightarrow> [])
      else (if c = CHR ''+'' then CHR '' '' else c) # QueryUnescape s)"

definition parseQuery :: "string \<Rightarrow> (string \<times> string) list" where
  "parseQuery q = map (\<lambda>kv. case splitOn CHR ''='' kv of k # v # _ \<Rightarrow> (QueryUnescape k, QueryUnescape v))
     (splitOn CHR ''&'' q)"

lemma of_hexDigit:
  assumes "n < 16"
  shows "of_char (hexDigit n) = (if n < 10 then 48 + n else 55 + n)"
  using assms by (simp add: hexDigit_def)

lemma hexVal_hexDigit: "n < 16 \<Longrightarrow> hexVal (hexDigit n) = n"
  by (simp add: hexVal_def of_hexDigit)

lemma unescape_escapeChar: "QueryUnescape (escapeChar c @ s) = c # QueryUnescape s"
proof -
  have "of_char c < (256 :: nat)" by simp
  then have "(of_char c :: nat) div 16 < 16" "(of_char c :: nat) mod 16 < 16"
    by (auto intro: less_mult_imp_div_less)
  then have v: "char_of (16 * hexVal (hexDigit (of_char c div 16)) + hexVal (hexDigit (of_char c mod 16))) = c"
    by (simp add: hexVal_hexDigit)
  have "\<not> unreserved CHR ''%''" "\<not> unreserved CHR ''+''" by code_simp+
  then have "unreserved c \<Longrightarrow> c \<noteq> CHR ''%'' \<and> c \<noteq> CHR ''+''" by metis
  then show ?thesis by (simp add: escapeChar_def v)
qed

lemma unescape_escape: "QueryUnescape (QueryEscape s) = s"
  unfolding QueryEscape_def by (induction s) (simp_all add: unescape_escapeChar)

lemma escapeChar_clean:
  "CHR ''='' \<notin> set (escapeChar c)" "CHR ''&'' \<notin> set (escapeChar c)"
proof -
  have h: "hexDigit n \<noteq> CHR ''='' \<and> hexDigit n \<noteq> CHR ''&''" if "n < 16" for n
  proof -
    have "of_char (hexDigit n) \<noteq> (61 :: nat)" "of_char (hexDigit n) \<noteq> (38 :: nat)"
      using that by (auto simp: of_hexDigit)
    then show ?thesis by force
  qed
  have u: "\<not> unreserved CHR ''=''" "\<not> unreserved CHR ''&''" by code_simp+
  have "of_char c < (256 :: nat)" by simp
  then have "(of_char c :: nat) div 16 < 16" "(of_char c :: nat) mod 16 < 16"
    by (auto intro: less_mult_imp_div_less)
  then show "CHR ''='' \<notin> set (escapeChar c)" "CHR ''&'' \<notin> set (escapeChar c)"
    using u h[of "of_char c div 16"] h[of "of_char c mod 16"] by (auto simp: escapeChar_def)
qed

lemma QueryEscape_clean:
  "CHR ''='' \<notin> set (QueryEscape s)" "CHR ''&'' \<notin> set (QueryEscape s)"
  using escapeChar_clean by (auto simp: QueryEscape_def)

lemma splitOn_joinWith:
  "ss \<noteq> [] \<Longrightarrow> (\<forall>s \<in> set ss. c \<notin> set s) \<Longrightarrow> splitOn c (joinWith c ss) = ss"
  by (induction c ss rule: joinWith.induct) (simp_all add: splitOn_append splitOn_none)

lemma insertParam_set: "set (insertParam p ps) = insert p (set ps)"
  by (induction ps) auto

lemma sortedParams_append: "sortedParams (vs @ [p]) = insertParam p (sortedParams vs)"
  by (simp add: sortedParams_def)

lemma sortedParams_set: "set (sortedParams vs) = set vs"
  by (induction vs rule: rev_induct) (simp_all add: sortedParams_append insertParam_set, simp add: sortedParams_def)

text \<open>No value can bring in a parameter of its own: the service reads back what was added.\<close>

lemma Encode_roundtrip:
  assumes "vs \<noteq> []"
  shows "parseQuery (Encode vs) = sortedParams vs"
proof -
  let ?enc = "\<lambda>(k, v). QueryEscape k @ ''='' @ QueryEscape v"
  have "set (sortedParams vs) \<noteq> {}" using assms by (simp add: sortedParams_set)
  then have "splitOn CHR ''&'' (Encode vs) = map ?enc (sortedParams vs)"
    unfolding Encode_def by (intro splitOn_joinWith) (auto simp: QueryEscape_clean)
  moreover have "splitOn CHR ''='' (?enc p) = [QueryEscape (fst p), QueryEscape (snd p)]" for p
    by (cases p) (simp add: splitOn_append splitOn_none QueryEscape_clean)
  ultimately show ?thesis by (simp add: parseQuery_def comp_def unescape_escape)
qed

section \<open>Verification codes\<close>

record smsConfig =
  sc_Url :: string
  sc_UsernameDomestic :: string
  sc_PasswordDomestic :: string
  sc_UsernameForeign :: string
  sc_PasswordForeign :: string
  sc_MessageDomesticBefore :: string
  sc_MessageDomesticAfter :: string
  sc_MessageForeignBefore :: string
  sc_MessageForeignAfter :: string

text \<open>
  The network and MD5. \<open>parseUrl\<close> gives the URL as a function of its query; \<open>httpGet\<close> the error of
  the call, or of reading the body, or the body.
\<close>

record smsNet =
  md5 :: "string \<Rightarrow> string"
  parseUrl :: "string \<Rightarrow> goerr + (string \<Rightarrow> string)"
  httpGet :: "string \<Rightarrow> goerr + (goerr + string)"

definition smsContent :: "smsConfig \<Rightarrow> string \<Rightarrow> bool \<Rightarrow> string" where
  "smsContent cfg verifyCode bForeign =
     (if bForeign then sc_MessageDomesticBefore cfg @ verifyCode @ sc_MessageDomesticAfter cfg
      else sc_MessageForeignBefore cfg @ verifyCode @ sc_MessageForeignAfter cfg)"

definition smsAccount :: "smsConfig \<Rightarrow> bool \<Rightarrow> string \<times> string" where
  "smsAccount cfg bForeign =
     (if bForeign then (sc_UsernameDomestic cfg, sc_PasswordDomestic cfg)
      else (sc_UsernameForeign cfg, sc_PasswordForeign cfg))"

definition smsValues :: "smsNet \<Rightarrow> smsConfig \<Rightarrow> string \<Rightarrow> string \<Rightarrow> bool \<Rightarrow> (string \<times> string) list" where
  "smsValues net cfg phoneNum verifyCode bForeign =
     (case smsAccount cfg bForeign of (username, password) \<Rightarrow>
        [(''username'', username),
         (''content'', smsContent cfg verifyCode bForeign),
         (''password'', md5 net (username @ md5 net password)),
         (''mobile'', phoneNum)])"

definition SendSms :: "smsNet \<Rightarrow> smsConfig \<Rightarrow> string \<Rightarrow> string \<Rightarrow> bool \<Rightarrow> goerr + string" where
  "SendSms net cfg phoneNum verifyCode bForeign =
     (case parseUrl net (sc_Url cfg) of
        Inl err \<Rightarrow> Inl err
      | Inr u \<Rightarrow>
          (case httpGet net (u (Encode (smsValues net cfg phoneNum verifyCode bForeign))) of
             Inl err \<Rightarrow> Inl err
           | Inr (Inl err) \<Rightarrow> Inl err
           | Inr (Inr body) \<Rightarrow> Inr body))"

text \<open>The configuration is read before main; without it the process panics (None).\<close>

definition getChengLiXinConfig :: "(string \<Rightarrow> goerr + string) \<Rightarrow> (string \<Rightarrow> goerr + smsConfig) \<Rightarrow> string \<Rightarrow> smsConfig option" where
  "getChengLiXinConfig Open Decode path =
     (case Open path of
        Inl _ \<Rightarrow> None
      | Inr text \<Rightarrow> (case Decode text of Inl _ \<Rightarrow> None | Inr cfg \<Rightarrow> Some cfg))"

text \<open>
  The callers pass whether the region is +86. The service receives the domestic account for those
  and the foreign one for all others, with the number as it is, without its region.
\<close>

lemma sms_request:
  assumes "parseUrl net (sc_Url cfg) = Inr u"
  shows "\<exists>q. SendSms net cfg phone code (region = ''+86'') =
        (case httpGet net (u q) of Inl e \<Rightarrow> Inl e | Inr (Inl e) \<Rightarrow> Inl e | Inr (Inr b) \<Rightarrow> Inr b)
      \<and> parseQuery q =
        (if region = ''+86'' then
           [(''content'', sc_MessageDomesticBefore cfg @ code @ sc_MessageDomesticAfter cfg),
            (''mobile'', phone),
            (''password'', md5 net (sc_UsernameDomestic cfg @ md5 net (sc_PasswordDomestic cfg))),
            (''username'', sc_UsernameDomestic cfg)]
         else
           [(''content'', sc_MessageForeignBefore cfg @ code @ sc_MessageForeignAfter cfg),
            (''mobile'', phone),
            (''password'', md5 net (sc_UsernameForeign cfg @ md5 net (sc_PasswordForeign cfg))),
            (''username'', sc_UsernameForeign cfg)])"
proof (intro exI conjI)
  show "SendSms net cfg phone code (region = ''+86'') =
      (case httpGet net (u (Encode (smsValues net cfg phone code (region = ''+86'')))) of
         Inl e \<Rightarrow> Inl e | Inr (Inl e) \<Rightarrow> Inl e | Inr (Inr b) \<Rightarrow> Inr b)"
    using assms by (simp add: SendSms_def)
  have less: "bytesLess ''content'' ''username''" "bytesLess ''password'' ''username''" "\<not> bytesLess ''password'' ''content''"
    "\<not> bytesLess ''mobile'' ''content''" "bytesLess ''mobile'' ''password''" by code_simp+
  show "parseQuery (Encode (smsValues net cfg phone code (region = ''+86''))) =
        (if region = ''+86'' then
           [(''content'', sc_MessageDomesticBefore cfg @ code @ sc_MessageDomesticAfter cfg),
            (''mobile'', phone),
            (''password'', md5 net (sc_UsernameDomestic cfg @ md5 net (sc_PasswordDomestic cfg))),
            (''username'', sc_UsernameDomestic cfg)]
         else
           [(''content'', sc_MessageForeignBefore cfg @ code @ sc_MessageForeignAfter cfg),
            (''mobile'', phone),
            (''password'', md5 net (sc_UsernameForeign cfg @ md5 net (sc_PasswordForeign cfg))),
            (''username'', sc_UsernameForeign cfg)])"
    by (subst Encode_roundtrip)
      (auto simp: smsValues_def smsAccount_def smsContent_def sortedParams_def less simp del: bytesLess.simps)
qed

text \<open>Whatever the service answers, a refusal too, is no error.\<close>

lemma sms_refusal_is_no_error:
  assumes "parseUrl net (sc_Url cfg) = Inr u" and "\<And>q. httpGet net (u q) = Inr (Inr refusal)"
  shows "SendSms net cfg phone code foreign = Inr refusal"
  using assms by (simp add: SendSms_def)

section \<open>Notices to phones\<close>

record jPushServiceParam =
  AndroidReceiver :: "string list"
  AndroidTitle :: string
  AndroidContent :: string
  IOSReceiver :: "string list"
  IOSTitle :: string
  IOSContent :: string

record androidNotice =
  an_Title :: string
  an_Alert :: string

record iosNotice =
  in_Alert :: string
  in_Badge :: string
  in_Sound :: string
  in_Category :: string

record jPushNotice =
  nt_Alert :: string
  nt_Android :: "androidNotice option"
  nt_IOS :: "iosNotice option"

text \<open>The platform and the audience are objects of the push library: here, the calls made on them.\<close>

datatype platformCall = AddAndrid | AddIOS
datatype audienceCall = SetID "string list"

record jPushServiceObj =
  platFormIndex :: int
  platform :: "platformCall list"
  jp_audience :: "audienceCall list option"

record payLoad =
  pl_platform :: "platformCall list"
  pl_audience :: "audienceCall list option"
  pl_notice :: jPushNotice

record jPushLib =
  ToBytes :: "payLoad \<Rightarrow> goerr + string"
  SendPush :: "string \<Rightarrow> goerr + string"

definition ANDROID :: int where "ANDROID = 1"
definition IOS :: int where "IOS = 2"

definition jPushNoticeAlert :: string where "jPushNoticeAlert = ''IMNoticeAlert''"

text \<open>"You have a new message", in UTF-8.\<close>

definition newMessageAlert :: string where
  "newMessageAlert = map char_of
     [0xE6, 0x82, 0xA8, 0xE6, 0x9C, 0x89, 0xE4, 0xB8, 0x80, 0xE6, 0x9D, 0xA1,
      0xE6, 0x96, 0xB0, 0xE6, 0xB6, 0x88, 0xE6, 0x81, 0xAF :: nat]"

definition addAudience :: "string list \<Rightarrow> jPushServiceObj \<Rightarrow> jPushServiceObj" where
  "addAudience ids this = this\<lparr>jp_audience :=
     Some ((case jp_audience this of None \<Rightarrow> [] | Some a \<Rightarrow> a) @ [SetID ids])\<rparr>"

definition newJPushPlatForm :: "jPushServiceObj \<Rightarrow> jPushServiceObj" where
  "newJPushPlatForm this = this\<lparr>platform :=
     (if ANDROID AND NOT (platFormIndex this) = 0 then [AddAndrid] else [])
     @ (if IOS AND NOT (platFormIndex this) = 0 then [AddIOS] else [])\<rparr>"

definition newNotice :: "jPushServiceObj \<Rightarrow> jPushNotice" where
  "newNotice this = \<lparr>nt_Alert = jPushNoticeAlert,
     nt_Android = (if ANDROID AND NOT (platFormIndex this) = 0
       then Some \<lparr>an_Title = ''IMChat'', an_Alert = newMessageAlert\<rparr> else None),
     nt_IOS = (if IOS AND NOT (platFormIndex this) = 0
       then Some \<lparr>in_Alert = newMessageAlert, in_Badge = ''+1'', in_Sound = ''default'', in_Category = ''Category''\<rparr>
       else None)\<rparr>"

definition pushPayLoad :: "jPushServiceParam \<Rightarrow> payLoad" where
  "pushPayLoad param =
     (let s0 = \<lparr>platFormIndex = 0, platform = [], jp_audience = None\<rparr>;
          s1 = (if 0 < length (AndroidReceiver param)
                then addAudience (AndroidReceiver param) (s0\<lparr>platFormIndex := platFormIndex s0 OR ANDROID\<rparr>) else s0);
          s2 = (if 0 < length (IOSReceiver param)
                then addAudience (IOSReceiver param) (s1\<lparr>platFormIndex := platFormIndex s1 OR IOS\<rparr>) else s1);
          s3 = newJPushPlatForm s2
      in \<lparr>pl_platform = platform s3, pl_audience = jp_audience s3, pl_notice = newNotice s3\<rparr>)"

definition jPush :: "jPushLib \<Rightarrow> jPushServiceParam \<Rightarrow> goerr + string" where
  "jPush lib param =
     (case ToBytes lib (pushPayLoad param) of
        Inl err \<Rightarrow> Inl err
      | Inr bytes \<Rightarrow> (case SendPush lib bytes of Inl err \<Rightarrow> Inl err | Inr s \<Rightarrow> Inr s))"

text \<open>
  A platform is addressed, and gets its notice, exactly when it has receivers. The titles and
  contents of the caller are not used. Without receivers the audience is nil; with both kinds, the
  iOS receivers are set over the Android ones.
\<close>

lemma push_addresses:
  "pl_platform (pushPayLoad p) = (if AndroidReceiver p \<noteq> [] then [AddAndrid] else []) @ (if IOSReceiver p \<noteq> [] then [AddIOS] else [])"
  "nt_Android (pl_notice (pushPayLoad p)) \<noteq> None \<longleftrightarrow> AndroidReceiver p \<noteq> []"
  "nt_IOS (pl_notice (pushPayLoad p)) \<noteq> None \<longleftrightarrow> IOSReceiver p \<noteq> []"
  "pl_audience (pushPayLoad p) =
     (case map SetID (filter (\<lambda>r. r \<noteq> []) [AndroidReceiver p, IOSReceiver p]) of [] \<Rightarrow> None | cs \<Rightarrow> Some cs)"
  by (simp_all add: pushPayLoad_def Let_def addAudience_def newJPushPlatForm_def newNotice_def ANDROID_def IOS_def)

lemma push_ignores_texts:
  "AndroidReceiver p = AndroidReceiver p' \<Longrightarrow> IOSReceiver p = IOSReceiver p' \<Longrightarrow> jPush lib p = jPush lib p'"
  by (simp add: jPush_def pushPayLoad_def Let_def)

end
