(* ===== verification/StartUp.thy ===== *)
theory StartUp
  imports LoginServer Snowflake Services
begin

text \<open>
  The configuration files (common-library/config, common-library/serverconfig) and the main functions
  of the servers (msg-server with msgServerApp.go, login-server, wslogin, wsmsg): what they read, set
  up and in which order, until they listen. Reading a file and decoding JSON are parameters.
\<close>

section \<open>Configuration files\<close>

record localPart =
  Listen :: string
  Topic :: string

record redisPart =
  Addr :: string
  Pwd :: string

record imConfig =
  imc_Mysql :: string
  imc_Local :: localPart
  imc_Pulsar :: string
  imc_Etcd :: "string list"
  imc_Redis :: redisPart

record imPublicConfig =
  pub_Mysql :: string
  pub_Pulsar :: string
  pub_Etcd :: "string list"
  pub_Redis :: redisPart

record imLocalConfig =
  loc_Local :: localPart

record msgServerIpListConfig =
  MsgServerIpList :: "string list"

record wsMsgAgent =
  Msgaddr :: string
  WSMsgaddr :: string

record wsLoginAgentConfig =
  LoginAddr :: string
  MsgServerList :: "wsMsgAgent list"

text \<open>
  Open a file and decode it into the zero value: the step that all readers share. What \<open>Decode\<close> leaves
  out keeps its zero value, so it gets that value.
\<close>

type_synonym opener = "string \<Rightarrow> goerr + string"
type_synonym 'c decoder = "string \<Rightarrow> 'c \<Rightarrow> goerr + 'c"

definition readJson :: "opener \<Rightarrow> 'c decoder \<Rightarrow> 'c \<Rightarrow> string \<Rightarrow> goerr + 'c" where
  "readJson Open Decode cfg path =
     (case Open path of
        Inl err \<Rightarrow> Inl err
      | Inr text \<Rightarrow> (case Decode text cfg of Inl err \<Rightarrow> Inl err | Inr c \<Rightarrow> Inr c))"

definition zeroLocal :: localPart where "zeroLocal = \<lparr>Listen = [], Topic = []\<rparr>"
definition zeroRedis :: redisPart where "zeroRedis = \<lparr>Addr = [], Pwd = []\<rparr>"

definition ReadConfig :: "opener \<Rightarrow> imConfig decoder \<Rightarrow> string \<Rightarrow> goerr + imConfig" where
  "ReadConfig Open Decode = readJson Open Decode
     \<lparr>imc_Mysql = [], imc_Local = zeroLocal, imc_Pulsar = [], imc_Etcd = [], imc_Redis = zeroRedis\<rparr>"

definition ReadPublicConfig :: "opener \<Rightarrow> imPublicConfig decoder \<Rightarrow> string \<Rightarrow> goerr + imPublicConfig" where
  "ReadPublicConfig Open Decode = readJson Open Decode
     \<lparr>pub_Mysql = [], pub_Pulsar = [], pub_Etcd = [], pub_Redis = zeroRedis\<rparr>"

definition ReadLocalConfig :: "opener \<Rightarrow> imLocalConfig decoder \<Rightarrow> string \<Rightarrow> goerr + imLocalConfig" where
  "ReadLocalConfig Open Decode = readJson Open Decode \<lparr>loc_Local = zeroLocal\<rparr>"

definition GetIpAndWeight :: "msgServerIpListConfig \<Rightarrow> string list" where
  "GetIpAndWeight s = foldl (\<lambda>ipAndWeights v. ipAndWeights @ [v]) [] (MsgServerIpList s)"

definition ReadMsgSrvIpListConfig :: "opener \<Rightarrow> msgServerIpListConfig decoder \<Rightarrow> string \<Rightarrow> goerr + msgServerIpListConfig" where
  "ReadMsgSrvIpListConfig Open Decode = readJson Open Decode \<lparr>MsgServerIpList = []\<rparr>"

definition ReadWSLoginAgentConfig :: "opener \<Rightarrow> wsLoginAgentConfig decoder \<Rightarrow> string \<Rightarrow> goerr + wsLoginAgentConfig" where
  "ReadWSLoginAgentConfig Open Decode = readJson Open Decode \<lparr>LoginAddr = [], MsgServerList = []\<rparr>"

definition ReadWSMsgAgentConfig :: "opener \<Rightarrow> wsMsgAgent decoder \<Rightarrow> string \<Rightarrow> goerr + wsMsgAgent" where
  "ReadWSMsgAgentConfig Open Decode = readJson Open Decode \<lparr>Msgaddr = [], WSMsgaddr = []\<rparr>"

lemma GetIpAndWeight_all: "GetIpAndWeight s = MsgServerIpList s"
proof -
  have "foldl (\<lambda>l v. l @ [v]) acc xs = acc @ xs" for acc xs :: "string list"
    by (induction xs arbitrary: acc) auto
  then show ?thesis by (simp add: GetIpAndWeight_def)
qed

section \<open>The older configuration\<close>

text \<open>serverconfig.go: None is the nil pointer; reading through it panics (None of the result).\<close>

record ipConfig =
  Inner_ip :: string
  Outer_ip :: string

record etcdConfig =
  Etcd_url :: "string list"

record mysqlConfig =
  Mysql_addr :: string
  User :: string
  Passwd :: string
  Database :: string
  Max_open_conns :: int
  Max_idle_conns :: int

record redisConfig =
  Redis_addr :: string

record ngPushPart =
  ng_Enable :: bool
  ng_ReqAddr :: string
  ng_Crypto :: string
  ng_Service :: string

record sdkConfig =
  NgPush :: ngPushPart
  GmSdk_ReqAddr :: string
  Charge_ShipUrl :: string
  Charge_ShipUrlSetAddr :: string

record chargeConfig =
  Inner_listen_port :: int
  EnableCharge :: bool

record matchInfo =
  mi_Listen_port :: int
  mi_Pprof_port :: int

record managerInfo =
  mg_Inner_http_port :: int
  mg_Login_server :: string

record loginInfo =
  li_ServerId :: int
  li_Inner_port :: int
  li_Pprof_port :: int
  li_Inner_http_port :: int

record gateInfo =
  ga_ServerId :: int
  ga_Inner_port :: int
  ga_Outer_port :: int
  ga_Pprof_port :: int

record gameInfo = gateInfo +
  gm_ACU :: int
  gm_Aduit_flag :: int

record replyInfo = gateInfo +
  ri_Max_room_numbers :: int

record serviceConfig =
  Match :: matchInfo
  Manager :: managerInfo
  Logins :: "loginInfo option list"
  Gates :: "gateInfo option list"
  Games :: "gameInfo option list"
  Replies :: "replyInfo option list"

record serverCfg =
  GroupId :: int
  Ip :: "ipConfig option"
  Sdk :: "sdkConfig option"
  Etcd :: "etcdConfig option"
  MySql :: "mysqlConfig option"
  Redis :: "redisConfig option"
  ChargeOf :: "chargeConfig option"
  Service :: "serviceConfig option"

definition LoadServerCfg :: "opener \<Rightarrow> serverCfg decoder \<Rightarrow> string \<Rightarrow> goerr + serverCfg" where
  "LoadServerCfg ReadFile Unmarshal filename = readJson ReadFile Unmarshal
     \<lparr>GroupId = 0, Ip = None, Sdk = None, Etcd = None, MySql = None, Redis = None, ChargeOf = None, Service = None\<rparr> filename"

definition GetDBScourceName :: "serverCfg \<Rightarrow> string option" where
  "GetDBScourceName sc = map_option (\<lambda>m.
     User m @ '':'' @ Passwd m @ ''@tcp('' @ Mysql_addr m @ '')/'' @ Database m @ ''?charset=utf8mb4'') (MySql sc)"

definition GetEtcdAddr :: "serverCfg \<Rightarrow> string list option" where
  "GetEtcdAddr sc = map_option (\<lambda>e. foldl (\<lambda>etcdProxy v. etcdProxy @ [v]) [] (Etcd_url e)) (Etcd sc)"

section \<open>The log directory\<close>

text \<open>\<open>os.Stat\<close>, and what \<open>init\<close> of every server does with it: None is the panic, else whether it makes the directory.\<close>

datatype stat = StatOk | StatNotExist | StatErr goerr

definition PathExists :: "stat \<Rightarrow> bool \<times> goerr option" where
  "PathExists st = (case st of StatOk \<Rightarrow> (True, None) | StatNotExist \<Rightarrow> (False, None) | StatErr err \<Rightarrow> (False, Some err))"

definition logInit :: "stat \<Rightarrow> bool option" where
  "logInit st = (case PathExists st of (_, Some err) \<Rightarrow> None | (exits, None) \<Rightarrow> Some (\<not> exits))"

section \<open>The message server\<close>

text \<open>
  What the process depends on: the directory of the configuration, files, decoders, and the database
  engine. \<open>engineErr\<close> is the error of making the engine for a data source, \<open>pingErr\<close> of its first ping.
\<close>

record startEnv =
  IMCONFIGPATH :: string
  openFile :: opener
  decPublic :: "imPublicConfig decoder"
  decLocal :: "imLocalConfig decoder"
  decIpList :: "msgServerIpListConfig decoder"
  engineErr :: "string \<Rightarrow> goerr option"
  pingErr :: "string \<Rightarrow> goerr option"

text \<open>What a running message server works with: its Redis, database, topic, address, and the nodes of its two rings.\<close>

record runningServer =
  ms_redis :: redisPart
  ms_orm :: string
  subscribeTopic :: string
  listenAddrOutNet :: string
  pubSubRing :: "string \<rightharpoonup> int"
  hashRing :: "string \<rightharpoonup> int"

datatype 'r startEnd = NoConfig | StartPanics | Running 'r

text \<open>The state after the \<open>init\<close> functions of the packages, at the time \<open>now\<close>.\<close>

definition initServer :: "(nat \<Rightarrow> client) \<Rightarrow> int \<Rightarrow> server" where
  "initServer heap now = \<lparr>clients = heap, mapOnlineClient = fmempty, mmLocalOnlineGroupMember = fmempty,
     localTopic = [], handlers = fmempty, snowflakeSt = initSnowflake now, hist = []\<rparr>"

definition NewMsgServer :: "startEnv \<Rightarrow> string \<Rightarrow> string list \<Rightarrow> (string \<rightharpoonup> int) option" where
  "NewMsgServer env dataSourceName ipAndWeights =
     (if engineErr env dataSourceName \<noteq> None then None
      else if pingErr env dataSourceName \<noteq> None then None
      else parseLogic ipAndWeights Map.empty)"

definition msgServerMain :: "svc \<Rightarrow> startEnv \<Rightarrow> server \<Rightarrow> runningServer startEnd \<times> server" where
  "msgServerMain srv env s =
     (case ReadPublicConfig (openFile env) (decPublic env) (IMCONFIGPATH env @ ''/public.json'') of
        Inl _ \<Rightarrow> (NoConfig, s)
      | Inr public \<Rightarrow>
     (case ReadLocalConfig (openFile env) (decLocal env) (IMCONFIGPATH env @ ''/local.json'') of
        Inl _ \<Rightarrow> (NoConfig, s)
      | Inr local \<Rightarrow>
     (case ReadMsgSrvIpListConfig (openFile env) (decIpList env) (IMCONFIGPATH env @ ''/msg.server.ip.list.json'') of
        Inl _ \<Rightarrow> (NoConfig, s)
      | Inr ipList \<Rightarrow>
          let ipAndWeights = GetIpAndWeight ipList; topic = Topic (loc_Local local) in
          (case parseLogic ipAndWeights Map.empty of
             None \<Rightarrow> (StartPanics, s)
           | Some pubSub \<Rightarrow>
               (case run_state (onlineInit srv topic) s of
                  (Panicked, s1) \<Rightarrow> (StartPanics, s1)
                | (Returned, s1) \<Rightarrow>
                    let s2 = subscribeOtherTerminal s1;
                        s3 = s2\<lparr>snowflakeSt := SetMachineId 1 (snowflakeSt s2)\<rparr> in
                    (case NewMsgServer env (pub_Mysql public) ipAndWeights of
                       None \<Rightarrow> (StartPanics, s3)
                     | Some ring \<Rightarrow>
                         (Running \<lparr>ms_redis = pub_Redis public, ms_orm = pub_Mysql public, subscribeTopic = topic,
                            listenAddrOutNet = Listen (loc_Local local), pubSubRing = pubSub, hashRing = ring\<rparr>, s3)))))))"

text \<open>Run's goroutine that receives what other servers publish: an error of the connection is no case.\<close>

datatype received = RMessage string | RSubscription | RError goerr

fun receiveLoop :: "svc \<Rightarrow> received list \<Rightarrow> (server, unit) state" where
  "receiveLoop srv [] = skip"
| "receiveLoop srv (p # ps) = do {
     (case p of RMessage Data \<Rightarrow> HandleMQMessage srv Data | RSubscription \<Rightarrow> skip | RError _ \<Rightarrow> skip);
     receiveLoop srv ps }"

lemma keeps_wf_receiveLoop [keeps_rules]: "keeps (inv X) (receiveLoop srv ps)"
proof (induction ps)
  case Nil
  show ?case unfolding receiveLoop.simps by (intro keeps_rules)
next
  case (Cons p ps)
  have "keeps (inv X) (case p of RMessage Data \<Rightarrow> HandleMQMessage srv Data | RSubscription \<Rightarrow> skip | RError _ \<Rightarrow> skip)"
    by (cases p) (simp_all only: received.case, (rule keeps_rules)+)
  then show ?case unfolding receiveLoop.simps using Cons by (intro keeps_rules)
qed

text \<open>The messages are handled in the order they arrive; nothing else the connection returns has an effect.\<close>

lemma receiveLoop_messages:
  "run_state (receiveLoop srv ps) s =
     run_state (forM (concat (map (\<lambda>p. case p of RMessage d \<Rightarrow> [d] | _ \<Rightarrow> []) ps)) (HandleMQMessage srv)) s"
  by (induction ps arbitrary: s) (auto simp: run_simps split: received.split)

section \<open>The other servers\<close>

text \<open>The login server: the nodes of its ring; the address is fixed. A second Init does nothing.\<close>

record loginApp =
  la_listenAddrOutNet :: string
  la_hashRing :: "string \<rightharpoonup> int"

definition loginInit :: "string \<Rightarrow> string list \<Rightarrow> loginApp option \<Rightarrow> loginApp option option" where
  "loginInit addr ipAndWeights defApp =
     (if defApp \<noteq> None then Some defApp
      else map_option (\<lambda>ring. Some \<lparr>la_listenAddrOutNet = addr, la_hashRing = ring\<rparr>) (parseLogic ipAndWeights Map.empty))"

definition loginMain :: "startEnv \<Rightarrow> loginApp startEnd" where
  "loginMain env =
     (case ReadMsgSrvIpListConfig (openFile env) (decIpList env) (IMCONFIGPATH env @ ''/msg.server.ip.list.json'') of
        Inl _ \<Rightarrow> NoConfig
      | Inr ipList \<Rightarrow>
     (case ReadPublicConfig (openFile env) (decPublic env) (IMCONFIGPATH env @ ''/public.json'') of
        Inl _ \<Rightarrow> NoConfig
      | Inr public \<Rightarrow>
     (case loginInit ''0.0.0.0:4001'' (GetIpAndWeight ipList) None of
        Some (Some app) \<Rightarrow> Running app
      | _ \<Rightarrow> StartPanics)))"

text \<open>The agents of web clients: the address of the login server and the table of the message servers' agents.\<close>

definition wsloginMain :: "opener \<Rightarrow> wsLoginAgentConfig decoder \<Rightarrow> string \<Rightarrow> (string \<times> (string \<rightharpoonup> string)) startEnd" where
  "wsloginMain Open Decode path =
     (case ReadWSLoginAgentConfig Open Decode (path @ ''/wslogin.json'') of
        Inl _ \<Rightarrow> NoConfig
      | Inr cfg \<Rightarrow> Running (LoginAddr cfg, foldl (\<lambda>m v. m(Msgaddr v \<mapsto> WSMsgaddr v)) Map.empty (MsgServerList cfg)))"

definition wsmsgMain :: "opener \<Rightarrow> wsMsgAgent decoder \<Rightarrow> string \<Rightarrow> string startEnd" where
  "wsmsgMain Open Decode path =
     (case ReadWSMsgAgentConfig Open Decode (path @ ''/wsmsg.json'') of
        Inl _ \<Rightarrow> NoConfig
      | Inr cfg \<Rightarrow> Running (Msgaddr cfg))"

lemma agents_table: "foldl (\<lambda>m v. m(Msgaddr v \<mapsto> WSMsgaddr v)) Map.empty vs = map_of (rev (map (\<lambda>v. (Msgaddr v, WSMsgaddr v)) vs))"
proof -
  have "foldl (\<lambda>m v. m(Msgaddr v \<mapsto> WSMsgaddr v)) m vs = m ++ map_of (rev (map (\<lambda>v. (Msgaddr v, WSMsgaddr v)) vs))" for m
    by (induction vs arbitrary: m) (simp_all add: map_add_upd_left)
  from this[of Map.empty] show ?thesis by simp
qed

section \<open>A started server\<close>

text \<open>Every event of the two systems, with its subscriber.\<close>

definition subscriptions :: "(int \<times> string \<times> evHandler) list" where
  "subscriptions =
     [(ClientLoginEvent, onlineName, OnClientLogin), (ClientLogoutEvent, onlineName, OnClientLogout),
      (JoinChatGroupEvent, onlineName, OnJoinChatGroup), (UnChatGroupEvent, onlineName, OnUnChatGroup),
      (CancelChatGroupEvent, onlineName, OnCancelChatGroup), (C2SGroupChatEvent, onlineName, OnC2SGroupChat),
      (PrivateChatEvent, otherTerminalName, OnPrivateChat), (AgreeBecomeFriendEvent, otherTerminalName, OnAgreeBecomeFriend),
      (ReadFriendReqEvent, otherTerminalName, OnReadFriendReq), (C2SLastMsgTimeStampEvent, otherTerminalName, OnC2SLastMsgTimeStamp),
      (DeleteFriendEvent, otherTerminalName, OnDeleteFriend), (ConfirmDeleteFriendEvent, otherTerminalName, OnConfirmDeleteFriend),
      (C2SAddFriendBlackListEvent, otherTerminalName, OnC2SAddFriendBlackList),
      (S2CMoveOutFriendBlackListEvent, otherTerminalName, OnS2CMoveOutFriendBlackList),
      (S2CSetFriendRemarkNameEvent, otherTerminalName, OnS2CSetFriendRemarkName),
      (PrivateChatWithDrawMessageEvent, otherTerminalName, OnPrivateChatWithDrawMessage)]"

lemma onlineInit_state:
  "\<exists>h. snd (run_state (onlineInit srv topic) s) = (subscribeOnline s)\<lparr>localTopic := topic, hist := h\<rparr>"
proof -
  have "\<exists>h. snd (run_state (forM ks (\<lambda>k. do { _ \<leftarrow> rdsInt srv (RRemSet '''' k (RStr topic)); skip })) u) = u\<lparr>hist := h\<rparr>" for ks u
  proof (induction ks arbitrary: u)
    case Nil
    show ?case by (rule exI[of _ "hist u"]) (simp add: run_simps)
  next
    case (Cons k ks)
    show ?case using Cons[of "u\<lparr>hist := hist u @ [Rds (RRemSet '''' k (RStr topic))]\<rparr>"] by (auto simp: run_simps)
  qed
  from this[of _ "(subscribeOnline s)\<lparr>localTopic := topic, hist := hist (subscribeOnline s) @ [Rds (RKeys chatGroupPos ''*'')]\<rparr>"]
  show ?thesis
    by (cases "rList srv (hist (subscribeOnline s)) (RKeys chatGroupPos ''*'')"; cases "snd (rList srv (hist (subscribeOnline s)) (RKeys chatGroupPos ''*''))")
      (auto simp: onlineInit_def run_simps case_prod_beta)
qed

lemma fmlookup_foldl_upd:
  assumes "distinct (map fst es)" and "(e, n, h) \<in> set es"
  shows "fmlookup (foldl (\<lambda>m (e, n, h). fmupd e (fmupd n h fmempty) m) m es) e = Some (fmupd n h fmempty)"
  using assms by (induction es arbitrary: m rule: rev_induct) (auto simp: image_iff dest: bspec)

lemma subscribed_all:
  assumes "handlers s = fmempty" and "(e, n, h) \<in> set subscriptions"
  shows "fmlookup (handlers (subscribeOtherTerminal (subscribeOnline s\<lparr>localTopic := tp, hist := hs\<rparr>))) e = Some (fmupd n h fmempty)"
proof -
  have "handlers (Subscribe n e h s) = (case fmlookup (handlers s) e of
      None \<Rightarrow> fmupd e (fmupd n h fmempty) (handlers s)
    | Some v \<Rightarrow> if has v n then handlers s else fmupd e (fmupd n h v) (handlers s))" for n e h s
    by (simp add: Subscribe_def split: option.split)
  then have "handlers (subscribeOtherTerminal (subscribeOnline s\<lparr>localTopic := tp, hist := hs\<rparr>))
      = foldl (\<lambda>m (e, n, h). fmupd e (fmupd n h fmempty) m) fmempty subscriptions"
    using assms(1) by (simp add: subscriptions_def subscribeOtherTerminal_def subscribeOnline_def event_ids)
  moreover have "distinct (map fst subscriptions)" by (simp add: subscriptions_def event_ids)
  ultimately show ?thesis using assms(2) by (simp add: fmlookup_foldl_upd)
qed

lemma subscribe_frame:
  "snowflakeSt (subscribeOtherTerminal s) = snowflakeSt s" "snowflakeSt (subscribeOnline s) = snowflakeSt s"
  "clients (subscribeOtherTerminal s) = clients s" "clients (subscribeOnline s) = clients s"
  "mapOnlineClient (subscribeOtherTerminal s) = mapOnlineClient s" "mapOnlineClient (subscribeOnline s) = mapOnlineClient s"
  "mmLocalOnlineGroupMember (subscribeOtherTerminal s) = mmLocalOnlineGroupMember s"
  "mmLocalOnlineGroupMember (subscribeOnline s) = mmLocalOnlineGroupMember s"
  "localTopic (subscribeOtherTerminal s) = localTopic s"
proof -
  have "snowflakeSt (Subscribe n e h s) = snowflakeSt s \<and> clients (Subscribe n e h s) = clients s
      \<and> mapOnlineClient (Subscribe n e h s) = mapOnlineClient s
      \<and> mmLocalOnlineGroupMember (Subscribe n e h s) = mmLocalOnlineGroupMember s
      \<and> localTopic (Subscribe n e h s) = localTopic s" for n e h s
    by (simp add: Subscribe_def split: option.split)
  then show "snowflakeSt (subscribeOtherTerminal s) = snowflakeSt s" "snowflakeSt (subscribeOnline s) = snowflakeSt s"
    "clients (subscribeOtherTerminal s) = clients s" "clients (subscribeOnline s) = clients s"
    "mapOnlineClient (subscribeOtherTerminal s) = mapOnlineClient s" "mapOnlineClient (subscribeOnline s) = mapOnlineClient s"
    "mmLocalOnlineGroupMember (subscribeOtherTerminal s) = mmLocalOnlineGroupMember s"
    "mmLocalOnlineGroupMember (subscribeOnline s) = mmLocalOnlineGroupMember s"
    "localTopic (subscribeOtherTerminal s) = localTopic s"
    by (simp_all add: subscribeOtherTerminal_def subscribeOnline_def)
qed

text \<open>What it takes to come up, and the state then.\<close>

lemma msgServerMain_running:
  assumes "msgServerMain srv env s = (Running r, t)"
  obtains public local ipList h where
    "ReadPublicConfig (openFile env) (decPublic env) (IMCONFIGPATH env @ ''/public.json'') = Inr public"
    "ReadLocalConfig (openFile env) (decLocal env) (IMCONFIGPATH env @ ''/local.json'') = Inr local"
    "ReadMsgSrvIpListConfig (openFile env) (decIpList env) (IMCONFIGPATH env @ ''/msg.server.ip.list.json'') = Inr ipList"
    "parseLogic (MsgServerIpList ipList) Map.empty = Some (hashRing r)" "pubSubRing r = hashRing r"
    "subscribeTopic r = Topic (loc_Local local)" "listenAddrOutNet r = Listen (loc_Local local)"
    "ms_redis r = pub_Redis public" "ms_orm r = pub_Mysql public"
    "engineErr env (pub_Mysql public) = None" "pingErr env (pub_Mysql public) = None"
    "t = (subscribeOtherTerminal ((subscribeOnline s)\<lparr>localTopic := subscribeTopic r, hist := h\<rparr>))
           \<lparr>snowflakeSt := SetMachineId 1 (snowflakeSt s)\<rparr>"
proof -
  from assms obtain public local ipList pubSub o1 s1 ring where
    r: "ReadPublicConfig (openFile env) (decPublic env) (IMCONFIGPATH env @ ''/public.json'') = Inr public"
      "ReadLocalConfig (openFile env) (decLocal env) (IMCONFIGPATH env @ ''/local.json'') = Inr local"
      "ReadMsgSrvIpListConfig (openFile env) (decIpList env) (IMCONFIGPATH env @ ''/msg.server.ip.list.json'') = Inr ipList"
      "parseLogic (GetIpAndWeight ipList) Map.empty = Some pubSub"
    and run: "run_state (onlineInit srv (Topic (loc_Local local))) s = (o1, s1)"
    and new: "NewMsgServer env (pub_Mysql public) (GetIpAndWeight ipList) = Some ring"
    and t: "t = (subscribeOtherTerminal s1)\<lparr>snowflakeSt := SetMachineId 1 (snowflakeSt (subscribeOtherTerminal s1))\<rparr>"
    and rr: "r = \<lparr>ms_redis = pub_Redis public, ms_orm = pub_Mysql public, subscribeTopic = Topic (loc_Local local),
        listenAddrOutNet = Listen (loc_Local local), pubSubRing = pubSub, hashRing = ring\<rparr>"
    by (auto simp: msgServerMain_def Let_def split: sum.splits option.splits prod.splits outcome.splits)
  obtain h where "s1 = (subscribeOnline s)\<lparr>localTopic := Topic (loc_Local local), hist := h\<rparr>"
    using onlineInit_state[of srv "Topic (loc_Local local)" s] run by auto
  then show ?thesis
    using that[of public local ipList h] r new t rr
    by (auto simp: NewMsgServer_def GetIpAndWeight_all subscribe_frame split: if_splits)
qed

lemma msgServerMain_state:
  assumes "msgServerMain srv env s = (Running r, t)"
  shows "localTopic t = subscribeTopic r" "snowflakeSt t = SetMachineId 1 (snowflakeSt s)" "clients t = clients s"
    "mapOnlineClient t = mapOnlineClient s" "mmLocalOnlineGroupMember t = mmLocalOnlineGroupMember s"
    "pubSubRing r = hashRing r" "pingErr env (ms_orm r) = None"
    "handlers s = fmempty \<Longrightarrow> (e, n, h) \<in> set subscriptions \<Longrightarrow> fmlookup (handlers t) e = Some (fmupd n h fmempty)"
proof -
  obtain hs where t: "t = (subscribeOtherTerminal ((subscribeOnline s)\<lparr>localTopic := subscribeTopic r, hist := hs\<rparr>))
           \<lparr>snowflakeSt := SetMachineId 1 (snowflakeSt s)\<rparr>"
    and r: "pubSubRing r = hashRing r" "pingErr env (ms_orm r) = None"
    using msgServerMain_running[OF assms] by metis
  show "localTopic t = subscribeTopic r" "snowflakeSt t = SetMachineId 1 (snowflakeSt s)" "clients t = clients s"
    "mapOnlineClient t = mapOnlineClient s" "mmLocalOnlineGroupMember t = mmLocalOnlineGroupMember s"
    "pubSubRing r = hashRing r" "pingErr env (ms_orm r) = None"
    using r by (simp_all add: t subscribe_frame)
  show "handlers s = fmempty \<Longrightarrow> (e, n, h) \<in> set subscriptions \<Longrightarrow> fmlookup (handlers t) e = Some (fmupd n h fmempty)"
    using subscribed_all by (simp add: t)
qed


text \<open>Files for the witnesses: every file can be opened, and the topic of the server is a parameter.\<close>

definition demoEnv :: "string \<Rightarrow> startEnv" where
  "demoEnv topic = \<lparr>IMCONFIGPATH = ''/etc/im'', openFile = Inr,
     decPublic = (\<lambda>_ c. Inr (c\<lparr>pub_Mysql := ''root@tcp(db)/im''\<rparr>)),
     decLocal = (\<lambda>_ _. Inr \<lparr>loc_Local = \<lparr>Listen = ''0.0.0.0:5001'', Topic = topic\<rparr>\<rparr>),
     decIpList = (\<lambda>_ _. Inr \<lparr>MsgServerIpList = [''10.0.0.1:5001,10'', ''10.0.0.2:5001,10'']\<rparr>),
     engineErr = (\<lambda>_. None), pingErr = (\<lambda>_. None)\<rparr>"

lemma demoEnv_starts:
  "\<exists>r t. msgServerMain demoSvc (demoEnv topic) (initServer heap now) = (Running r, t) \<and> subscribeTopic r = topic"
proof -
  have itoa10: "itoa 10 = ''10''" by code_simp
  have "\<exists>m. parseLogic [''10.0.0.1:5001,10'', ''10.0.0.2:5001,10''] Map.empty = Some m"
    using ring_has_configured_nodes[of "[(''10.0.0.1:5001'', 10), (''10.0.0.2:5001'', 10)]"]
      itoa10 by (simp add: int64_def del: parseLogic.simps)
  then show ?thesis
    by (auto simp del: parseLogic.simps simp: msgServerMain_def demoEnv_def ReadPublicConfig_def ReadLocalConfig_def ReadMsgSrvIpListConfig_def
        readJson_def GetIpAndWeight_all NewMsgServer_def Let_def onlineInit_def run_simps demoSvc_def)
qed


section \<open>Servers together\<close>

text \<open>Every server routes by the same nodes: those of the list that all of them read.\<close>

lemma servers_share_ring:
  assumes "msgServerMain srv env s = (Running r, t)" and "loginMain env' = Running app"
    and "IMCONFIGPATH env' = IMCONFIGPATH env" "openFile env' = openFile env" "decIpList env' = decIpList env"
  shows "la_hashRing app = hashRing r" "pubSubRing r = hashRing r"
proof -
  obtain ipList where ip: "ReadMsgSrvIpListConfig (openFile env) (decIpList env) (IMCONFIGPATH env @ ''/msg.server.ip.list.json'') = Inr ipList"
    and ring: "parseLogic (MsgServerIpList ipList) Map.empty = Some (hashRing r)"
    and same: "pubSubRing r = hashRing r"
    using msgServerMain_running[OF assms(1)] by metis
  show "pubSubRing r = hashRing r" by (rule same)
  show "la_hashRing app = hashRing r"
    using assms(2-5) ip ring by (auto simp: loginMain_def loginInit_def GetIpAndWeight_all split: sum.splits option.splits)
qed

text \<open>
  C40: All message servers have the machine id 1: two servers that have come up and are first asked for an
  id in the same tick give the same id.
\<close>

theorem servers_share_machine_id:
  assumes "msgServerMain srv env (initServer heap now) = (Running r, t)"
    and "msgServerMain srv' env' (initServer heap' now') = (Running r', t')"
    and "tick (clock srv (hist t)) = T" and "tick (clock srv' (hist t')) = T"
    and "tick now <s T" and "tick now' <s T"
  shows "fst (run_state (GetSnowflakeId srv) t) = snow_id T (push_bit 12 1) 0
    \<and> fst (run_state (GetSnowflakeId srv') t') = fst (run_state (GetSnowflakeId srv) t)"
proof -
  have first: "fst (run_state (GetSnowflakeId srv) t) = snow_id T (push_bit 12 1) 0"
    if "msgServerMain srv env (initServer heap now) = (Running r, t)" "tick (clock srv (hist t)) = T" "tick now <s T"
    for srv env heap now r t
  proof -
    have "snowflakeSt t = SetMachineId 1 (initSnowflake now)"
      using msgServerMain_state[OF that(1)] by (simp add: initServer_def)
    moreover have "tick now \<noteq> T" using that(3) by auto
    ultimately show ?thesis
      using that(2,3) by (simp add: GetSnowflakeId_def run_simps SetMachineId_def initSnowflake_def Let_def)
  qed
  show ?thesis using first[OF assms(1,3,5)] first[OF assms(2,4,6)] by simp
qed

theorem servers_share_machine_id_witness:
  "\<exists>t t'. localTopic t = ''10.0.0.1:5001'' \<and> localTopic t' = ''10.0.0.2:5001''
     \<and> fst (run_state (GetSnowflakeId demoSvc) t) = fst (run_state (GetSnowflakeId demoSvc) t')"
proof -
  obtain r t where t: "msgServerMain demoSvc (demoEnv ''10.0.0.1:5001'') (initServer (\<lambda>c. demoClient 1) 0) = (Running r, t)"
      "subscribeTopic r = ''10.0.0.1:5001''" using demoEnv_starts by blast
  obtain r' t' where t': "msgServerMain demoSvc (demoEnv ''10.0.0.2:5001'') (initServer (\<lambda>c. demoClient 1) 0) = (Running r', t')"
      "subscribeTopic r' = ''10.0.0.2:5001''" using demoEnv_starts by blast
  have "localTopic t = subscribeTopic r" "localTopic t' = subscribeTopic r'"
    using msgServerMain_state[OF t(1)] msgServerMain_state[OF t'(1)] by simp_all
  moreover have "tick 0 <s tick 1577836800000000000" by code_simp
  moreover have "clock demoSvc h = 1577836800000000000" for h by (simp add: demoSvc_def)
  ultimately show ?thesis
    using servers_share_machine_id[OF t(1) t'(1), of "tick 1577836800000000000"] t(2) t'(2) by metis
qed

end
