(* ===== verification/Spec2Isabelle.thy ===== *)
theory Spec2Isabelle
  imports Snowflake Deliveries Management STimer VersionServer WsAgent Logger LogHandlers Discovery Huanxin CsvRecord Pulsar Functions Robot Shell LogFileName StartUp
begin

text \<open>
  A model of the instant messenger's servers, and what makes them correct. The root theory only
  puts the parts together.

  \<^bold>\<open>The program.\<close> A message server keeps one client object per connection, with a queue to the socket
  and a queue of received messages. The login (msg-server/msgServerApp) creates the object; its
  receive loop (handleMsg in msg-server/client/client.go) runs the handler that the message's id
  names. Handlers read and write Redis and MySQL, answer on the client's own queue, publish
  events (msg-server/eventmanager) to the client's other terminal (msg-server/otherTerminal) and
  to the table of online group members (msg-server/onlineChatGroupManager), and send to users on
  other servers over Redis channels (im-library/redisPubSub). A buffer that comes from there
  enters the queues of the local clients (recvMQMessage.go) and is handled like a message of the
  user. The management server (im-manager) is a web service over the same stores. The timers
  (common-library/timer) are a library of their own. A client first asks the login server
  (login-server) for the message server of its account; web clients do both through agents
  (wslogin, wsmsg). The version server (version-server) tells clients whether to update.

  \<^bold>\<open>State.\<close> One message server process is the record \<open>server\<close> of the theory World: the heap of
  client objects (a pointer is an index of it), the registry of online clients, the table of
  online group members, the event handlers, the id generator, and the history of the calls made
  to services. A service's answer is an arbitrary function (of the record \<open>svc\<close>) of that history
  and the call, so nothing is assumed of Redis, MySQL, the push, SMS and Huanxin services, and
  the answers may change from call to call. Protobuf and JSON coding, hashing to a node and the
  order in which a Go map is ranged over are such parameters too. A handler is a program of the
  state monad that returns or panics; log output is left out.

  \<^bold>\<open>Theories.\<close>
  \<^item> IM_Prelude: the monad's calculus, loops, Go's decimal conversions and big-endian integers.
    Interfaces: the contracts between components as locales. World, Messages, Wire_Ids: services,
    state, messages, rows, ids. Demo: a concrete world for the witnesses.
  \<^item> Framing: packet.go, socket.go and the buffers between servers. Snowflake: snowflake.go on
    64 bit words.
  \<^item> Client_Core: client.go, redisOpt.go, mysqlOpt.go. EventManager, ClientManager,
    OtherTerminal, OnlineChatGroup: the packages of the same names. Subscribers: what is
    subscribed, and recvMQMessage.go. Sessions: the goroutines of kick and close watcher and the
    logins as a step relation.
  \<^item> FriendOps, Friends: friends.go. Account: account.go, rename.go. PrivateChat: privateChat.go.
    GroupStore, GroupAdmin, GroupMembers, GroupChat: chatGroup.go. MQMsg: MQMsg.go. WeiboRds,
    WeiboStore, Weibo, WeiboSettings: weibo.go, weiboAllowQuery.go, weiboCover.go. Dispatch: the
    table of handlers and the receive loop.
  \<^item> Login: clientLogin.go, ThirdPlatform.go, huanxin.go and sms.go. Manager: im-manager.
  \<^item> Guards, Transactions, Deliveries, Admission, Management: properties of handlers.
  \<^item> Calendar: the standard library's dates. Cron_Search: the search that cron expressions share.
    Cron: cronexpr.go and custom_cronexpr.go. Cron_Correct: their properties. Timers: timer.go as
    step relations with one interface. STimer: stimer.go over them.
  \<^item> LoginServer: login-server, consistentHash.go and wslogin. WsAgent: wsAgent.go as a step
    relation of its three goroutines. VersionServer: version-server.
  \<^item> Logger: log.go as a step relation of callers, writer and Close on shared buffers. LogHandlers:
    the handlers that rotate files or write to a socket, the files under one contract. LogFileName: the names of the files.
  \<^item> Discovery: im-library/etcd, how message servers register their number of users and the login
    server follows them. Huanxin: huanxin.go, the requests to the service.
  \<^item> CsvReader: the standard library's CSV reader and number parsing. CsvRecord: csvrecord, tables of
    typed records with indexes.
  \<^item> Pulsar: pulsar_client.go, with the goroutine of a topic as a step relation. Functions: colours,
    dates and the batching of packets. Robot: the listener of the servers and the test client. Shell:
    the programs that fill Redis from MySQL.
  \<^item> Services: verification codes by SMS and notices to phones. StartUp: the configuration files and
    the main functions, which end in the state that the other theorems begin with.

  \<^bold>\<open>What is proved.\<close>
  \<^item> Messages: streams are read back packet by packet, queues are bounded and in order, what one
    server publishes reaches the user's clients on another, a group message reaches every
    online member once; ids increase strictly.
  \<^item> Sessions: whatever the interleaving of logins, kicks, closes and handlers, the registry holds
    the live clients; a waiting login can go on; the handlers of the table keep the state
    well-formed. The logins are steps of that relation.
  \<^item> Requests: each group of Guards, Admission and Management leaves two cases, a refusal that
    stores and changes nothing, or the conditions under which the handler goes on, in terms of
    the answers the services gave.
  \<^item> Transactions: the weibo transactions refine an abstract all-or-nothing transaction; nothing
    is announced before a commit.
  \<^item> Cron expressions: parsing ends for every string and reads back what is written in the
    documented forms; Next refines the first match in the order of time and always ends, except
    on a custom expression that nothing matches.
  \<^item> Timers: whatever the interleaving, an action begins only when it is due, once per second that
    is due, and after a Stop at most the one that was let through; a number stops its own timer.
  \<^item> Agents: a web client is sent to the agent of the server that its messages are published to;
    an agent relays both directions in order and winds up when the web socket has failed.
  \<^item> Logging: no buffer is shared, texts are written unchanged and in order, Close loses none; the
    rotating files hold the newest part of the log in one piece.
  \<^item> Discovery: the server with the fewest users is found from what the servers put; what they put
    are the changes of their numbers while etcd answers.
  \<^item> Tables: every record that is loaded has the types of its fields, an index finds exactly the
    record with a key, and reloading replaces all tables or none.
  \<^item> Start: a server that has come up is in a state with the invariants of sessions and handlers, with
    every event subscribed, and all servers route by the same nodes.
  \<^item> The errors of the code that modelling showed are theorems too, each saying what the code does.

  \<^bold>\<open>Assumptions and bounds.\<close> Theorems about ids assume a clock that does not run backwards and
  sleeps that last at least as long as asked. That a session is unique per terminal assumes that
  two logins of the same account and terminal do not overlap; a theorem shows what happens when
  they do. Account queries of logins assume what xorm documents of Get. Loops are structural or
  have a measure; the searches of the cron expressions and the loop over an increment, which need
  not end, are partial functions, and that they end is proved. Nothing runs on fuel. Times are
  UTC, and a cron expression has ASCII characters only. 64 bit arithmetic wraps where it is not on words.

  \<^bold>\<open>Not modelled.\<close> The contents of third party services (Huanxin, SMS, push, etcd, Pulsar); what the
  code asks of them is modelled. The decoding of JSON, the connections to Redis and MySQL at the start,
  the creation of tables, deadlines of sockets, and the HTTP parts of the servers. Handlers
  run one at a time: the interleaving of two handlers' calls to Redis or MySQL is not modelled
  beyond what arbitrary answers cover.
\<close>

end
